(* ===== verification/Kufi_Prelude.thy ===== *)
theory Kufi_Prelude
  imports Complex_Main
begin

text \<open>
  Shared vocabulary of the development: errors as values of a sum type, request handlers as
  state transformers that keep the store when they fail part-way, database units of work that
  roll back, tables as lists of rows in insertion order, and the two generic interfaces
  (transition systems with an invariant, lease queues) that several services implement.
\<close>

named_theorems err_simps \<open>equations of the error and handler combinators\<close>
named_theorems row_simps \<open>lookups in tables after an insert or a save\<close>

section \<open>Errors as values\<close>

definition bindE :: "'e + 'a \<Rightarrow> ('a \<Rightarrow> 'e + 'b) \<Rightarrow> 'e + 'b" where
  "bindE m f = (case m of Inl e \<Rightarrow> Inl e | Inr x \<Rightarrow> f x)"

definition checkE :: "bool \<Rightarrow> 'e \<Rightarrow> 'e + unit" where
  "checkE c e = (if c then Inr () else Inl e)"

lemma bindE_Inl [simp]: "bindE (Inl e) f = Inl e"
  by (simp add: bindE_def)

lemma bindE_Inr [simp]: "bindE (Inr x) f = f x"
  by (simp add: bindE_def)

lemma bindE_eq_Inr: "bindE m f = Inr y \<longleftrightarrow> (\<exists>x. m = Inr x \<and> f x = Inr y)"
  by (cases m) auto

lemma bindE_eq_Inl: "bindE m f = Inl e \<longleftrightarrow> m = Inl e \<or> (\<exists>x. m = Inr x \<and> f x = Inl e)"
  by (cases m) auto

lemma checkE_eq_Inr [simp]: "checkE c e = Inr u \<longleftrightarrow> c"
  by (simp add: checkE_def)

lemma checkE_eq_Inl [simp]: "checkE c e = Inl e' \<longleftrightarrow> \<not> c \<and> e' = e"
  by (auto simp add: checkE_def)

lemma checkE_True [simp]: "checkE True e = Inr ()"
  by (simp add: checkE_def)

lemma checkE_False [simp]: "checkE False e = Inl e"
  by (simp add: checkE_def)

lemmas errE_iffs [err_simps] = bindE_eq_Inr bindE_eq_Inl

section \<open>Handlers\<close>

text \<open>
  A handler is what a service method does between its call and its answer: it threads the store
  through every step, and when a step throws, the writes already committed stay in the store.
  A database unit of work (startTransaction, commitTransaction, rollbackTransaction) is a
  function that yields either an error, with no new store, or a result and the committed store;
  \<open>atomic\<close> makes a handler of it.
\<close>

type_synonym ('s, 'e, 'a) handler = "'s \<Rightarrow> ('e + 'a) \<times> 's"

definition returnH :: "'a \<Rightarrow> ('s, 'e, 'a) handler" where
  "returnH x s = (Inr x, s)"

definition throwH :: "'e \<Rightarrow> ('s, 'e, 'a) handler" where
  "throwH e s = (Inl e, s)"

definition bindH :: "('s, 'e, 'a) handler \<Rightarrow> ('a \<Rightarrow> ('s, 'e, 'b) handler) \<Rightarrow> ('s, 'e, 'b) handler" where
  "bindH m f s = (case m s of (Inl e, s') \<Rightarrow> (Inl e, s') | (Inr x, s') \<Rightarrow> f x s')"

definition liftE :: "'e + 'a \<Rightarrow> ('s, 'e, 'a) handler" where
  "liftE r s = (r, s)"

definition readH :: "('s \<Rightarrow> 'a) \<Rightarrow> ('s, 'e, 'a) handler" where
  "readH f s = (Inr (f s), s)"

definition interfere :: "('s \<Rightarrow> 's) \<Rightarrow> ('s, 'e, unit) handler" where
  "interfere f s = (Inr (), f s)"

definition atomic :: "('s \<Rightarrow> 'e + ('a \<times> 's)) \<Rightarrow> ('s, 'e, 'a) handler" where
  "atomic u s = (case u s of Inl e \<Rightarrow> (Inl e, s) | Inr (x, s') \<Rightarrow> (Inr x, s'))"

lemma bindH_eq_Inr:
  "bindH m f s = (Inr y, t) \<longleftrightarrow> (\<exists>x s'. m s = (Inr x, s') \<and> f x s' = (Inr y, t))"
  by (auto simp add: bindH_def split: sum.splits prod.splits)

lemma bindH_eq_Inl:
  "bindH m f s = (Inl e, t) \<longleftrightarrow>
     m s = (Inl e, t) \<or> (\<exists>x s'. m s = (Inr x, s') \<and> f x s' = (Inl e, t))"
  by (auto simp add: bindH_def split: sum.splits prod.splits)

lemma atomic_eq_Inr: "atomic u s = (Inr x, t) \<longleftrightarrow> u s = Inr (x, t)"
  by (auto simp add: atomic_def split: sum.splits)

lemma atomic_eq_Inl: "atomic u s = (Inl e, t) \<longleftrightarrow> u s = Inl e \<and> t = s"
  by (auto simp add: atomic_def split: sum.splits)

lemmas handler_iffs [err_simps] = bindH_eq_Inr bindH_eq_Inl atomic_eq_Inr atomic_eq_Inl

lemmas handler_defs = returnH_def throwH_def liftE_def readH_def interfere_def bindH_def atomic_def

text \<open>
  Triples over handlers: from a store with P, an answer x leaves a store with \<open>Q x\<close> and an error
  leaves a store with E.
\<close>

definition triple ::
    "('s \<Rightarrow> bool) \<Rightarrow> ('s, 'e, 'a) handler \<Rightarrow> ('a \<Rightarrow> 's \<Rightarrow> bool) \<Rightarrow> ('s \<Rightarrow> bool) \<Rightarrow> bool" where
  "triple P m Q E \<longleftrightarrow> (\<forall>s. P s \<longrightarrow> (case m s of (Inr x, t) \<Rightarrow> Q x t | (Inl e, t) \<Rightarrow> E t))"

named_theorems triple_intros \<open>rules for triples, one per combinator\<close>

lemma tripleD:
  "triple P m Q E \<Longrightarrow> P s \<Longrightarrow> m s = (r, t) \<Longrightarrow> (case r of Inr x \<Rightarrow> Q x t | Inl e \<Rightarrow> E t)"
  unfolding triple_def by (drule spec [of _ s]) (auto split: sum.splits)

lemma triple_conseq:
  "triple P m Q E \<Longrightarrow> (\<And>s. P' s \<Longrightarrow> P s) \<Longrightarrow> (\<And>x s. Q x s \<Longrightarrow> Q' x s) \<Longrightarrow> (\<And>s. E s \<Longrightarrow> E' s) \<Longrightarrow> triple P' m Q' E'"
  unfolding triple_def by (fastforce split: sum.splits prod.splits)

lemma triple_bindH [triple_intros]:
  "triple P m R E \<Longrightarrow> (\<And>x. triple (R x) (f x) Q E) \<Longrightarrow> triple P (bindH m f) Q E"
  unfolding triple_def bindH_def by (fastforce split: sum.splits prod.splits)

lemma triple_returnH: "(\<And>s. P s \<Longrightarrow> Q x s) \<Longrightarrow> triple P (returnH x) Q E"
  by (simp add: triple_def returnH_def)

lemma triple_throwH: "(\<And>s. P s \<Longrightarrow> E s) \<Longrightarrow> triple P (throwH e) Q E"
  by (simp add: triple_def throwH_def)

lemma triple_liftE: "(\<And>s x. P s \<Longrightarrow> r = Inr x \<Longrightarrow> Q x s) \<Longrightarrow> (\<And>s. P s \<Longrightarrow> E s) \<Longrightarrow> triple P (liftE r) Q E"
  by (simp add: triple_def liftE_def split: sum.split)

lemma triple_readH: "(\<And>s. P s \<Longrightarrow> Q (f s) s) \<Longrightarrow> triple P (readH f) Q E"
  by (simp add: triple_def readH_def)

lemma triple_interfere: "(\<And>s. P s \<Longrightarrow> Q () (f s)) \<Longrightarrow> triple P (interfere f) Q E"
  by (simp add: triple_def interfere_def)

lemma triple_atomic:
  "(\<And>s x t. P s \<Longrightarrow> u s = Inr (x, t) \<Longrightarrow> Q x t) \<Longrightarrow> (\<And>s. P s \<Longrightarrow> E s) \<Longrightarrow> triple P (atomic u) Q E"
  by (auto simp add: triple_def atomic_def split: sum.split)

lemma triple_pure: "(p \<Longrightarrow> triple P m Q E) \<Longrightarrow> triple (\<lambda>s. P s \<and> p) m Q E"
  by (auto simp add: triple_def)

lemma triple_if [triple_intros]:
  "(c \<Longrightarrow> triple P m Q E) \<Longrightarrow> (\<not> c \<Longrightarrow> triple P n Q E) \<Longrightarrow> triple P (if c then m else n) Q E"
  by simp

lemma triple_option [triple_intros]:
  "(v = None \<Longrightarrow> triple P m Q E) \<Longrightarrow> (\<And>x. v = Some x \<Longrightarrow> triple P (f x) Q E) \<Longrightarrow>
   triple P (case v of None \<Rightarrow> m | Some x \<Rightarrow> f x) Q E"
  by (cases v) auto

lemma triple_prod [triple_intros]:
  "(\<And>x y. v = (x, y) \<Longrightarrow> triple P (f x y) Q E) \<Longrightarrow> triple P (case v of (x, y) \<Rightarrow> f x y) Q E"
  by (cases v) auto

section \<open>Units of work\<close>

text \<open>
  What happens inside a database transaction: each step sees the writes of the steps before it, and
  an error anywhere leaves no new store.
\<close>

definition returnU :: "'a \<Rightarrow> 's \<Rightarrow> 'e + ('a \<times> 's)" where
  "returnU x s = Inr (x, s)"

definition throwU :: "'e \<Rightarrow> 's \<Rightarrow> 'e + ('a \<times> 's)" where
  "throwU e s = Inl e"

definition bindU :: "('s \<Rightarrow> 'e + ('a \<times> 's)) \<Rightarrow> ('a \<Rightarrow> 's \<Rightarrow> 'e + ('b \<times> 's)) \<Rightarrow> 's \<Rightarrow> 'e + ('b \<times> 's)" where
  "bindU u f s = (case u s of Inl e \<Rightarrow> Inl e | Inr (x, s') \<Rightarrow> f x s')"

definition checkU :: "bool \<Rightarrow> 'e \<Rightarrow> 's \<Rightarrow> 'e + (unit \<times> 's)" where
  "checkU c e s = (if c then Inr ((), s) else Inl e)"

definition getU :: "('s \<Rightarrow> 'a) \<Rightarrow> 's \<Rightarrow> 'e + ('a \<times> 's)" where
  "getU f s = Inr (f s, s)"

definition modifyU :: "('s \<Rightarrow> 's) \<Rightarrow> 's \<Rightarrow> 'e + (unit \<times> 's)" where
  "modifyU f s = Inr ((), f s)"

lemma bindU_eq_Inr [err_simps]:
  "bindU u f s = Inr y \<longleftrightarrow> (\<exists>x s'. u s = Inr (x, s') \<and> f x s' = Inr y)"
  by (auto simp add: bindU_def split: sum.splits prod.splits)

lemma bindU_eq_Inl [err_simps]:
  "bindU u f s = Inl e \<longleftrightarrow> u s = Inl e \<or> (\<exists>x s'. u s = Inr (x, s') \<and> f x s' = Inl e)"
  by (auto simp add: bindU_def split: sum.splits prod.splits)

lemma checkU_eq_Inr [simp]: "checkU c e s = Inr y \<longleftrightarrow> c \<and> y = ((), s)"
  by (auto simp add: checkU_def)

lemma checkU_eq_Inl [simp]: "checkU c e s = Inl e' \<longleftrightarrow> \<not> c \<and> e' = e"
  by (auto simp add: checkU_def)

lemma unit_simps [simp]:
  "returnU x s = Inr (x, s)" "throwU e s = Inl e" "getU f s = Inr (f s, s)" "modifyU g s = Inr ((), g s)"
  by (simp_all add: returnU_def throwU_def getU_def modifyU_def)

lemma bindU_Inl [simp]: "u s = Inl e \<Longrightarrow> bindU u f s = Inl e"
  by (simp add: bindU_def)

lemma bindU_Inr [simp]: "u s = Inr (x, s') \<Longrightarrow> bindU u f s = f x s'"
  by (simp add: bindU_def)

section \<open>Tables\<close>

text \<open>
  A table is the list of its rows in insertion order. \<open>save_row\<close> is the ORM's save of an entity
  whose primary key is already stored: the row with that key is replaced, in place.
\<close>

definition find_row :: "('r \<Rightarrow> bool) \<Rightarrow> 'r list \<Rightarrow> 'r option" where
  "find_row p rs = List.find p rs"

definition save_row :: "('r \<Rightarrow> 'k) \<Rightarrow> 'r \<Rightarrow> 'r list \<Rightarrow> 'r list" where
  "save_row key r rs = map (\<lambda>x. if key x = key r then r else x) rs"

lemma find_row_Nil [row_simps]: "find_row p [] = None"
  by (simp add: find_row_def)

lemma find_row_Cons [row_simps]: "find_row p (x # xs) = (if p x then Some x else find_row p xs)"
  by (simp add: find_row_def)

lemma find_row_append:
  "find_row p (xs @ ys) = (case find_row p xs of None \<Rightarrow> find_row p ys | Some x \<Rightarrow> Some x)"
  by (induction xs) (auto simp add: row_simps)

lemma find_row_SomeD: "find_row p rs = Some r \<Longrightarrow> r \<in> set rs \<and> p r"
  by (auto simp add: find_row_def find_Some_iff)

lemma find_row_None_iff: "find_row p rs = None \<longleftrightarrow> (\<forall>r\<in>set rs. \<not> p r)"
  by (auto simp add: find_row_def find_None_iff)

lemma find_row_key:
  assumes "distinct (map key rs)" and "r \<in> set rs"
  shows "find_row (\<lambda>x. key x = key r) rs = Some r"
  using assms by (induction rs) (auto simp add: row_simps)

lemma row_unique:
  "distinct (map key rs) \<Longrightarrow> x \<in> set rs \<Longrightarrow> y \<in> set rs \<Longrightarrow> key x = key y \<Longrightarrow> x = y"
  by (auto simp add: distinct_map inj_on_def)

lemma filter_save_row:
  "(\<And>x. x \<in> set rs \<Longrightarrow> key x = key r \<Longrightarrow> p x = p r) \<Longrightarrow>
   filter p (save_row key r rs) = save_row key r (filter p rs)"
  by (induction rs) (auto simp add: save_row_def)

lemma sum_list_map_update:
  fixes f g :: "'a \<Rightarrow> int"
  assumes "distinct (map key xs)" and "x \<in> set xs" and "\<And>y. y \<in> set xs \<Longrightarrow> key y \<noteq> key x \<Longrightarrow> g y = f y"
  shows "sum_list (map g xs) = sum_list (map f xs) + (g x - f x)"
  using assms
proof (induction xs)
  case (Cons y ys)
  show ?case
  proof (cases "key y = key x")
    case True
    with Cons.prems(1,2) have "y = x" and "key x \<notin> key ` set ys" by auto
    then have "map g ys = map f ys" using Cons.prems(3) by (auto simp add: image_iff)
    then have "sum_list (map g ys) = sum_list (map f ys)" by (rule arg_cong)
    then show ?thesis using \<open>y = x\<close> by simp
  next
    case False
    then have "g y = f y" using Cons.prems(3) by simp
    moreover have "x \<in> set ys" using False Cons.prems(2) by auto
    ultimately show ?thesis using Cons by simp
  qed
qed simp

lemma find_row_cong_save:
  assumes "\<And>x. x \<in> set rs \<Longrightarrow> key x = key r \<Longrightarrow> p x \<longleftrightarrow> p r"
  shows "find_row p (save_row key r rs) =
    map_option (\<lambda>x. if key x = key r then r else x) (find_row p rs)"
  using assms by (induction rs) (auto simp add: row_simps save_row_def)

lemma set_save_row:
  "set (save_row key r rs) = (\<lambda>x. if key x = key r then r else x) ` set rs"
  by (simp add: save_row_def)

lemma set_save_rowD: "x \<in> set (save_row key r rs) \<Longrightarrow> x = r \<or> (x \<in> set rs \<and> key x \<noteq> key r)"
  by (auto simp add: save_row_def split: if_splits)

lemma map_key_save_row [simp]: "map key (save_row key r rs) = map key rs"
  by (induction rs) (auto simp add: save_row_def)

lemma length_save_row [simp]: "length (save_row key r rs) = length rs"
  by (simp add: save_row_def)

lemma save_row_absent: "key r \<notin> key ` set rs \<Longrightarrow> save_row key r rs = rs"
  by (induction rs) (auto simp add: save_row_def)

lemma save_row_append [simp]: "save_row key r (xs @ ys) = save_row key r xs @ save_row key r ys"
  by (simp add: save_row_def)

lemma map_save_row_same:
  assumes "\<And>x. x \<in> set rs \<Longrightarrow> key x = key r \<Longrightarrow> f x = f r"
  shows "map f (save_row key r rs) = map f rs"
  using assms by (induction rs) (auto simp add: save_row_def)

lemma save_row_map:
  assumes "distinct (map key rs)" and "find_row (\<lambda>x. key x = k) rs = Some r0" and "key r = k"
    and "r = f r0"
  shows "save_row key r rs = map (\<lambda>x. if key x = k then f x else x) rs"
proof -
  have "x = r0" if "x \<in> set rs" and "key x = k" for x
    using that assms find_row_SomeD [OF assms(2)] by (metis distinct_map inj_onD)
  then show ?thesis using assms(3,4) by (auto simp add: save_row_def)
qed

lemma sum_list_save_row:
  fixes f :: "'r \<Rightarrow> int"
  assumes "distinct (map key rs)" and "r0 \<in> set rs" and "key r0 = key r"
  shows "sum_list (map f (save_row key r rs)) = sum_list (map f rs) - f r0 + f r"
  using assms
proof (induction rs)
  case Nil
  then show ?case by simp
next
  case (Cons x xs)
  show ?case
  proof (cases "key x = key r")
    case True
    with Cons.prems have "x = r0" and absent: "key r \<notin> key ` set xs"
      by (auto simp add: image_iff)
    then show ?thesis using True save_row_absent [OF absent]
      by (simp add: save_row_def)
  next
    case False
    with Cons show ?thesis by (auto simp add: save_row_def)
  qed
qed

text \<open>\<open>repo.save\<close> of a row that was read before: it is replaced, or inserted again if it is gone.\<close>

definition put_row :: "('r \<Rightarrow> 'k) \<Rightarrow> 'r \<Rightarrow> 'r list \<Rightarrow> 'r list" where
  "put_row key r rs = (if key r \<in> set (map key rs) then save_row key r rs else rs @ [r])"

definition clash :: "('r \<Rightarrow> 'v option) \<Rightarrow> ('r \<Rightarrow> string) \<Rightarrow> 'r \<Rightarrow> 'r list \<Rightarrow> bool" where
  "clash f key r rs = (f r \<noteq> None \<and> list_ex (\<lambda>x. key x \<noteq> key r \<and> f x = f r) rs)"

lemma set_put_rowD:
  assumes "x \<in> set (put_row key r rs)"
  shows "x = r \<or> (x \<in> set rs \<and> key x \<noteq> key r)"
proof (cases "key r \<in> set (map key rs)")
  case True
  then show ?thesis using assms set_save_rowD unfolding put_row_def by metis
next
  case False
  then show ?thesis using assms by (auto simp add: put_row_def intro: rev_image_eqI)
qed

section \<open>Transition systems with an invariant\<close>

inductive reach :: "('s \<Rightarrow> bool) \<Rightarrow> ('s \<Rightarrow> 's \<Rightarrow> bool) \<Rightarrow> 's \<Rightarrow> bool"
  for init :: "'s \<Rightarrow> bool" and step :: "'s \<Rightarrow> 's \<Rightarrow> bool" where
  start: "init s \<Longrightarrow> reach init step s"
| next_state: "reach init step s \<Longrightarrow> step s t \<Longrightarrow> reach init step t"

locale invariant_system =
  fixes init :: "'s \<Rightarrow> bool" and step :: "'s \<Rightarrow> 's \<Rightarrow> bool" and inv :: "'s \<Rightarrow> bool"
  assumes init_inv: "init s \<Longrightarrow> inv s"
    and step_inv: "inv s \<Longrightarrow> step s t \<Longrightarrow> inv t"
begin

lemma reach_inv: "reach init step s \<Longrightarrow> inv s"
  by (induction rule: reach.induct) (auto intro: init_inv step_inv)

lemma reach_from: "inv s \<Longrightarrow> step\<^sup>*\<^sup>* s t \<Longrightarrow> inv t"
  by (rotate_tac 1, induction rule: rtranclp_induct) (auto intro: step_inv)

end

section \<open>Lease queues\<close>

text \<open>
  A work queue in a table: a worker selects the rows that are due at a time, in the order of a key
  and at most a given number of them, and saves each with a lease that hides it from the other
  workers until the lease ends. \<open>select_due\<close> is the query, \<open>claim_rows\<close> the update.
\<close>

definition select_due :: "('r \<Rightarrow> bool) \<Rightarrow> ('r \<Rightarrow> int) \<Rightarrow> nat \<Rightarrow> 'r list \<Rightarrow> 'r list" where
  "select_due due ord n rs = take n (sort_key ord (filter due rs))"

definition claim_rows :: "('r \<Rightarrow> 'k) \<Rightarrow> ('r \<Rightarrow> 'r) \<Rightarrow> 'r list \<Rightarrow> 'r list \<Rightarrow> 'r list" where
  "claim_rows key lease sel rs = map (\<lambda>x. if key x \<in> key ` set sel then lease x else x) rs"

lemma set_select_due: "r \<in> set (select_due due ord n rs) \<Longrightarrow> r \<in> set rs \<and> due r"
  unfolding select_due_def by (auto dest: in_set_takeD)

lemma length_select_due: "length (select_due due ord n rs) \<le> n"
  by (simp add: select_due_def)

lemma sorted_select_due: "sorted (map ord (select_due due ord n rs))"
  by (simp add: select_due_def take_map [symmetric])

lemma selected_row:
  assumes "distinct (map key rs)" and "r \<in> set rs"
    and "key r \<in> key ` set (select_due due ord n rs)"
  shows "due r"
proof -
  from assms(3) obtain s where s: "s \<in> set (select_due due ord n rs)" "key r = key s" by auto
  then have "s \<in> set rs" and "due s" using set_select_due by fast+
  with assms s(2) have "r = s" by (metis distinct_map inj_onD)
  with \<open>due s\<close> show ?thesis by simp
qed

locale lease_queue =
  fixes key :: "'r \<Rightarrow> 'k" and due :: "int \<Rightarrow> 'r \<Rightarrow> bool" and lease :: "int \<Rightarrow> int \<Rightarrow> 'r \<Rightarrow> 'r"
  assumes lease_key: "key (lease now until r) = key r"
    and lease_hides: "t < until \<Longrightarrow> \<not> due t (lease now until r)"
begin

lemma claimed_not_due:
  assumes "t < until" and "k \<in> key ` set sel"
    and "r \<in> set (claim_rows key (lease now until) sel rs)" and "key r = k"
  shows "\<not> due t r"
  using assms by (auto simp add: claim_rows_def lease_key lease_hides split: if_splits)

lemma claims_disjoint:
  assumes "t < until"
  shows "key ` set sel \<inter>
    key ` set (select_due (due t) ord n (claim_rows key (lease now until) sel rs)) = {}"
proof -
  have "\<not> due t r" if "r \<in> set (claim_rows key (lease now until) sel rs)"
      and "key r \<in> key ` set sel" for r
    using claimed_not_due [OF assms that(2) that(1)] by simp
  then have "key r \<notin> key ` set sel"
      if "r \<in> set (select_due (due t) ord n (claim_rows key (lease now until) sel rs))" for r
    using set_select_due [OF that] by blast
  then show ?thesis by (intro equals0I) (elim IntE imageE, metis imageI)
qed

lemma claim_keeps_keys: "map key (claim_rows key (lease now until) sel rs) = map key rs"
  by (simp add: claim_rows_def lease_key)

end

section \<open>Batches\<close>

text \<open>The loop \<open>for (i = 0; i < xs.length; i += n) xs.slice(i, i + n)\<close>, for a positive n.\<close>

function chunks :: "nat \<Rightarrow> 'a list \<Rightarrow> 'a list list" where
  "chunks n xs = (if n = 0 \<or> xs = [] then [] else take n xs # chunks n (drop n xs))"
  by pat_completeness auto
termination
  by (relation "measure (\<lambda>(n, xs). length xs)") auto

declare chunks.simps [simp del]

lemma concat_chunks: "0 < n \<Longrightarrow> concat (chunks n xs) = xs"
proof (induction n xs rule: chunks.induct)
  case (1 n xs)
  then show ?case by (subst chunks.simps) auto
qed

lemma length_chunk: "c \<in> set (chunks n xs) \<Longrightarrow> length c \<le> n"
proof (induction n xs rule: chunks.induct)
  case (1 n xs)
  then show ?case by (subst (asm) (2) chunks.simps) (auto split: if_splits)
qed

lemma fold_fold_concat: "fold (fold f) xss s = fold f (concat xss) s"
  by (induction xss arbitrary: s) auto

lemma fold_chunks: "0 < n \<Longrightarrow> fold (fold f) (chunks n xs) s = fold f xs s"
  by (simp add: fold_fold_concat concat_chunks)

section \<open>Retry delays\<close>

text \<open>
  An exponential backoff policy: the delay of the n-th attempt doubles from an initial delay and is
  capped, and a random jitter of at most a fixed fraction of the capped delay is added to it. The
  random number is the third argument of \<open>next_at\<close>, a value of the half-open unit interval.
\<close>

lemma capped_doubling_mono:
  fixes a b :: int
  assumes "0 \<le> min (a * 2 ^ nat (max 0 (n - 1))) b" and "n \<le> m"
  shows "min (a * 2 ^ nat (max 0 (n - 1))) b \<le> min (a * 2 ^ nat (max 0 (m - 1))) b"
proof -
  have "0 \<le> a * 2 ^ nat (max 0 (n - 1))" using assms(1) by simp
  then have "0 \<le> a" by (simp add: zero_le_mult_iff)
  moreover have "(2::int) ^ nat (max 0 (n - 1)) \<le> 2 ^ nat (max 0 (m - 1))"
    using assms(2) by (intro power_increasing) auto
  ultimately have "a * 2 ^ nat (max 0 (n - 1)) \<le> a * 2 ^ nat (max 0 (m - 1))"
    by (intro mult_left_mono) auto
  then show ?thesis by linarith
qed

locale backoff_policy =
  fixes next_at :: "'c \<Rightarrow> int \<Rightarrow> rat \<Rightarrow> int \<Rightarrow> int"
    and capped :: "'c \<Rightarrow> int \<Rightarrow> int" and maxd :: "'c \<Rightarrow> int" and frac :: rat
  assumes next_at_eq: "next_at c now r n = now + capped c n + \<lfloor>of_int (capped c n) * r * frac\<rfloor>"
    and capped_le: "capped c n \<le> maxd c"
    and capped_mono: "0 \<le> capped c n \<Longrightarrow> n \<le> m \<Longrightarrow> capped c n \<le> capped c m"
    and frac_nonneg: "0 \<le> frac"
begin

lemma next_at_ge:
  assumes "0 \<le> r" and "0 \<le> capped c n"
  shows "now + capped c n \<le> next_at c now r n"
  using assms frac_nonneg by (simp add: next_at_eq)

lemma next_at_le:
  assumes "0 \<le> r" and "r < 1" and "0 \<le> capped c n"
  shows "of_int (next_at c now r n - now) \<le> (1 + frac) * of_int (maxd c)"
proof -
  have "of_int (capped c n) * r * frac \<le> of_int (capped c n) * 1 * frac"
    using assms frac_nonneg by (intro mult_right_mono mult_left_mono) auto
  then have "of_int \<lfloor>of_int (capped c n) * r * frac\<rfloor> \<le> of_int (capped c n) * frac"
    using of_int_floor_le [of "of_int (capped c n) * r * frac"] by linarith
  then have "of_int (next_at c now r n - now) \<le> (1 + frac) * of_int (capped c n)"
    by (simp add: next_at_eq algebra_simps)
  also have "\<dots> \<le> (1 + frac) * of_int (maxd c)"
    using frac_nonneg capped_le [of c n] by (intro mult_left_mono) auto
  finally show ?thesis .
qed

lemma next_at_mono:
  assumes "0 \<le> r" and "0 \<le> capped c n" and "n \<le> m"
  shows "next_at c now r n \<le> next_at c now r m"
proof -
  have le: "capped c n \<le> capped c m"
    using assms capped_mono by blast
  then have "of_int (capped c n) * r * frac \<le> of_int (capped c m) * r * frac"
    using assms(1) frac_nonneg by (intro mult_right_mono) auto
  then show ?thesis using le floor_mono by (fastforce simp add: next_at_eq intro: add_mono)
qed

end

end
