(* ===== verification/JS_Values.thy ===== *)
theory JS_Values
  imports Kufi_Prelude "HOL-Library.Word" "HOL-Library.Log_Nat"
    "HOL-Library.Char_ord" "HOL-Library.List_Lexorder"
begin

text \<open>
  The part of JavaScript's values and standard library that the services use. Strings are lists of
  8-bit code units: trimming knows the white space of that range and the case mappings change the
  ASCII letters. Numbers are the IEEE doubles, with finite ones as rationals; arithmetic on whole
  numbers rounds to 53 significant bits (\<open>js_round\<close>), ties to even, which is the identity up to
  2\<open>^\<close>53. A protobuf int64 arrives as two 32-bit halves and a signedness flag (\<open>grpc_int64\<close>).
\<close>

named_theorems js_simps \<open>equations that evaluate the JavaScript library on concrete values\<close>

section \<open>Strings\<close>

definition code_unit :: "char \<Rightarrow> nat" where
  "code_unit c = of_char c"

definition js_ws :: "char \<Rightarrow> bool" where
  "js_ws c = (let n = code_unit c in (9 \<le> n \<and> n \<le> 13) \<or> n = 32 \<or> n = 160)"

definition js_trim :: "string \<Rightarrow> string" where
  "js_trim s = rev (dropWhile js_ws (rev (dropWhile js_ws s)))"

definition upper_char :: "char \<Rightarrow> char" where
  "upper_char c = (let n = code_unit c in if 97 \<le> n \<and> n \<le> 122 then char_of (n - 32) else c)"

definition lower_char :: "char \<Rightarrow> char" where
  "lower_char c = (let n = code_unit c in if 65 \<le> n \<and> n \<le> 90 then char_of (n + 32) else c)"

definition js_upper :: "string \<Rightarrow> string" where
  "js_upper s = map upper_char s"

definition js_lower :: "string \<Rightarrow> string" where
  "js_lower s = map lower_char s"

definition js_startsWith :: "string \<Rightarrow> string \<Rightarrow> bool" where
  "js_startsWith s t = (take (length t) s = t)"

fun js_includes :: "string \<Rightarrow> string \<Rightarrow> bool" where
  "js_includes [] t = (t = [])"
| "js_includes (c # s) t = (js_startsWith (c # s) t \<or> js_includes s t)"

fun js_split :: "char \<Rightarrow> string \<Rightarrow> string list" where
  "js_split sep [] = [[]]"
| "js_split sep (c # s) =
     (if c = sep then [] # js_split sep s
      else case js_split sep s of [] \<Rightarrow> [[c]] | w # ws \<Rightarrow> (c # w) # ws)"

fun js_join :: "string \<Rightarrow> string list \<Rightarrow> string" where
  "js_join sep [] = []"
| "js_join sep [w] = w"
| "js_join sep (w # v # ws) = w @ sep @ js_join sep (v # ws)"

text \<open>\<open>x || d\<close> on strings, where the empty and the missing string are falsy, and \<open>x ?? d\<close>.\<close>

definition or_str :: "string option \<Rightarrow> string \<Rightarrow> string" where
  "or_str x d = (case x of None \<Rightarrow> d | Some s \<Rightarrow> if s = [] then d else s)"

definition or_null :: "string \<Rightarrow> string option" where
  "or_null s = (if s = [] then None else Some s)"

definition coalesce :: "'a option \<Rightarrow> 'a \<Rightarrow> 'a" where
  "coalesce x d = (case x of None \<Rightarrow> d | Some v \<Rightarrow> v)"

definition js_digit :: "char \<Rightarrow> bool" where
  "js_digit c = (48 \<le> code_unit c \<and> code_unit c \<le> 57)"

fun nat_digits :: "nat \<Rightarrow> string" where
  "nat_digits n = (if n < 10 then [char_of (48 + n)] else nat_digits (n div 10) @ [char_of (48 + n mod 10)])"

declare nat_digits.simps [simp del]

definition int_digits :: "int \<Rightarrow> string" where
  "int_digits x = (if x < 0 then CHR ''-'' # nat_digits (nat (- x)) else nat_digits (nat x))"

lemmas js_string_defs = js_trim_def js_ws_def js_upper_def upper_char_def js_lower_def
  lower_char_def code_unit_def js_startsWith_def or_str_def or_null_def coalesce_def js_digit_def

lemmas js_string_evals [js_simps] = js_string_defs

section \<open>Numbers\<close>

datatype js_number = JsNaN | JsInf bool | JsNum rat

definition half_even_div :: "int \<Rightarrow> int \<Rightarrow> int" where
  "half_even_div x u =
     (let q = x div u; r = x mod u
      in if 2 * r < u then q else if u < 2 * r then q + 1 else if even q then q else q + 1)"

text \<open>The double nearest to a whole number (of a size far below the overflow to Infinity).\<close>

definition js_round :: "int \<Rightarrow> int" where
  "js_round x =
     (if \<bar>x\<bar> \<le> 2 ^ 53 then x
      else let u = 2 ^ (floorlog 2 (nat \<bar>x\<bar>) - 53) in half_even_div x u * u)"

definition max_safe_integer :: int where
  "max_safe_integer = 2 ^ 53 - 1"

definition js_add :: "int \<Rightarrow> int \<Rightarrow> int" where
  "js_add a b = js_round (a + b)"

definition js_sub :: "int \<Rightarrow> int \<Rightarrow> int" where
  "js_sub a b = js_round (a - b)"

text \<open>The double nearest to a rational number, with overflow to Infinity and gradual underflow.\<close>

definition to_double :: "rat \<Rightarrow> js_number" where
  "to_double x =
     (if x = 0 then JsNum 0
      else let p = fst (quotient_of x); q = snd (quotient_of x);
               a = int (floorlog 2 (nat \<bar>p\<bar>)); b = int (floorlog 2 (nat q));
               below = (if b \<le> a then \<bar>p\<bar> < q * 2 ^ nat (a - b) else \<bar>p\<bar> * 2 ^ nat (b - a) < q);
               k = max (a - b - (if below then 53 else 52)) (- 1074);
               m = (if 0 \<le> k then half_even_div p (q * 2 ^ nat k) else half_even_div (p * 2 ^ nat (- k)) q);
               v = (if 0 \<le> k then of_int (m * 2 ^ nat k) else of_int m / 2 ^ nat (- k))
           in if 2 ^ 1024 \<le> \<bar>v\<bar> then JsInf (0 < v) else JsNum v)"

definition js_isFinite :: "js_number \<Rightarrow> bool" where
  "js_isFinite v = (case v of JsNum _ \<Rightarrow> True | _ \<Rightarrow> False)"

definition js_isInteger :: "js_number \<Rightarrow> bool" where
  "js_isInteger v = (case v of JsNum r \<Rightarrow> of_int \<lfloor>r\<rfloor> = r | _ \<Rightarrow> False)"

definition js_floor :: "js_number \<Rightarrow> js_number" where
  "js_floor v = (case v of JsNum r \<Rightarrow> JsNum (of_int \<lfloor>r\<rfloor>) | w \<Rightarrow> w)"

definition js_of_int :: "int \<Rightarrow> js_number" where
  "js_of_int n = JsNum (of_int n)"

text \<open>The whole number that a number known to be an integer is.\<close>

definition js_int :: "js_number \<Rightarrow> int" where
  "js_int v = (case v of JsNum r \<Rightarrow> \<lfloor>r\<rfloor> | _ \<Rightarrow> 0)"

text \<open>\<open>a >= b\<close> and \<open>a > b\<close>: every comparison with NaN is false.\<close>

fun js_ge :: "js_number \<Rightarrow> js_number \<Rightarrow> bool" where
  "js_ge (JsNum a) (JsNum b) = (b \<le> a)"
| "js_ge (JsInf s) (JsNum b) = s"
| "js_ge (JsNum a) (JsInf t) = (\<not> t)"
| "js_ge (JsInf s) (JsInf t) = (s \<or> \<not> t)"
| "js_ge _ _ = False"

fun js_gt :: "js_number \<Rightarrow> js_number \<Rightarrow> bool" where
  "js_gt (JsNum a) (JsNum b) = (b < a)"
| "js_gt (JsInf s) (JsNum b) = s"
| "js_gt (JsNum a) (JsInf t) = (\<not> t)"
| "js_gt (JsInf s) (JsInf t) = (s \<and> \<not> t)"
| "js_gt _ _ = False"

text \<open>\<open>Math.max\<close> and \<open>Math.min\<close> of two numbers.\<close>

definition js_max :: "js_number \<Rightarrow> js_number \<Rightarrow> js_number" where
  "js_max a b = (if a = JsNaN \<or> b = JsNaN then JsNaN else if js_ge a b then a else b)"

definition js_min :: "js_number \<Rightarrow> js_number \<Rightarrow> js_number" where
  "js_min a b = (if a = JsNaN \<or> b = JsNaN then JsNaN else if js_ge b a then a else b)"

text \<open>\<open>a + b\<close>, \<open>a - b\<close>, \<open>a * b\<close> and \<open>a / b\<close> on finite doubles, the divisor not zero.\<close>

definition num_of :: "js_number \<Rightarrow> rat" where
  "num_of v = (case v of JsNum r \<Rightarrow> r | _ \<Rightarrow> 0)"

definition double_mul :: "js_number \<Rightarrow> js_number \<Rightarrow> js_number" where
  "double_mul a b = to_double (num_of a * num_of b)"

definition double_add :: "js_number \<Rightarrow> js_number \<Rightarrow> js_number" where
  "double_add a b = to_double (num_of a + num_of b)"

definition double_sub :: "js_number \<Rightarrow> js_number \<Rightarrow> js_number" where
  "double_sub a b = to_double (num_of a - num_of b)"

definition double_div :: "js_number \<Rightarrow> js_number \<Rightarrow> js_number" where
  "double_div a b = to_double (num_of a / num_of b)"

section \<open>Number(string)\<close>

definition digit_value :: "char \<Rightarrow> nat" where
  "digit_value c =
     (let n = code_unit c
      in if 48 \<le> n \<and> n \<le> 57 then n - 48
         else if 97 \<le> n \<and> n \<le> 102 then n - 87
         else if 65 \<le> n \<and> n \<le> 70 then n - 55 else 99)"

definition digits_value :: "nat \<Rightarrow> string \<Rightarrow> nat" where
  "digits_value base s = foldl (\<lambda>acc c. acc * base + digit_value c) 0 s"

definition parse_radix :: "nat \<Rightarrow> string \<Rightarrow> js_number" where
  "parse_radix base s =
     (if s \<noteq> [] \<and> list_all (\<lambda>c. digit_value c < base) s
      then to_double (of_nat (digits_value base s)) else JsNaN)"

definition parse_exponent :: "string \<Rightarrow> int option" where
  "parse_exponent s =
     (case s of [] \<Rightarrow> Some 0
      | e # rest \<Rightarrow>
          if e \<noteq> CHR ''e'' \<and> e \<noteq> CHR ''E'' then None
          else let neg = (case rest of c # _ \<Rightarrow> c = CHR ''-'' | [] \<Rightarrow> False);
                   ds = (case rest of c # r \<Rightarrow> if c = CHR ''-'' \<or> c = CHR ''+'' then r else c # r | [] \<Rightarrow> [])
               in if ds \<noteq> [] \<and> list_all js_digit ds
                  then Some (if neg then - int (digits_value 10 ds) else int (digits_value 10 ds))
                  else None)"

definition parse_unsigned :: "string \<Rightarrow> rat option" where
  "parse_unsigned s =
     (let ip = takeWhile js_digit s; r1 = dropWhile js_digit s;
          frac = (case r1 of c # r \<Rightarrow> if c = CHR ''.'' then takeWhile js_digit r else [] | [] \<Rightarrow> []);
          r2 = (case r1 of c # r \<Rightarrow> if c = CHR ''.'' then dropWhile js_digit r else r1 | [] \<Rightarrow> [])
      in if ip = [] \<and> frac = [] then None
         else case parse_exponent r2 of None \<Rightarrow> None
           | Some e \<Rightarrow>
               Some ((of_nat (digits_value 10 (ip @ frac)) / 10 ^ length frac) *
                     (if 0 \<le> e then 10 ^ nat e else 1 / 10 ^ nat (- e))))"

definition js_Number :: "string \<Rightarrow> js_number" where
  "js_Number s =
     (let t = js_trim s
      in if t = [] then JsNum 0
         else if t = ''Infinity'' \<or> t = ''+Infinity'' then JsInf True
         else if t = ''-Infinity'' then JsInf False
         else if take 2 t = ''0x'' \<or> take 2 t = ''0X'' then parse_radix 16 (drop 2 t)
         else if take 2 t = ''0o'' \<or> take 2 t = ''0O'' then parse_radix 8 (drop 2 t)
         else if take 2 t = ''0b'' \<or> take 2 t = ''0B'' then parse_radix 2 (drop 2 t)
         else let neg = (hd t = CHR ''-'');
                  u = (if hd t = CHR ''-'' \<or> hd t = CHR ''+'' then tl t else t)
              in case parse_unsigned u of None \<Rightarrow> JsNaN
                 | Some r \<Rightarrow> to_double (if neg then - r else r))"

section \<open>Protobuf int64 definitions\<close>

record grpc_int64 =
  low :: "32 word"
  high :: "32 word"
  unsigned :: bool

definition int64_of :: "int \<Rightarrow> grpc_int64" where
  "int64_of a = \<lparr>low = word_of_int a, high = word_of_int (a div 2 ^ 32), unsigned = False\<rparr>"

datatype raw_amount =
    AmtUndefined
  | AmtNumber js_number
  | AmtString string
  | AmtInt64 grpc_int64

section \<open>Facts about strings\<close>

lemma dropWhile_idem [simp]: "dropWhile p (dropWhile p xs) = dropWhile p xs"
  by (induction xs) auto

lemma dropWhile_rev_dropWhile:
  "dropWhile p (rev (dropWhile p (rev (dropWhile p xs)))) = rev (dropWhile p (rev (dropWhile p xs)))"
proof (cases "dropWhile p xs")
  case Nil
  show ?thesis unfolding Nil by simp
next
  case (Cons y ys)
  then have "\<not> p y" by (metis hd_dropWhile list.discI list.sel(1))
  then have "rev (dropWhile p (rev ys @ [y])) = y # rev (dropWhile p (rev ys))"
    by (cases "\<forall>x\<in>set ys. p x") (auto simp add: dropWhile_append)
  then show ?thesis using Cons \<open>\<not> p y\<close> by auto
qed

lemma js_trim_idem [simp]: "js_trim (js_trim s) = js_trim s"
  by (simp add: js_trim_def dropWhile_rev_dropWhile)

lemma js_trim_Nil [simp]: "js_trim [] = []"
  by (simp add: js_trim_def)

lemma length_js_trim: "length (js_trim s) \<le> length s"
  unfolding js_trim_def
  by (metis dual_order.trans length_dropWhile_le length_rev)

lemma length_js_upper [simp]: "length (js_upper s) = length s"
  by (simp add: js_upper_def)

lemma upper_char_idem [simp]: "upper_char (upper_char c) = upper_char c"
proof -
  have "code_unit (upper_char c) < 97 \<or> 122 < code_unit (upper_char c)"
    by (auto simp add: upper_char_def code_unit_def Let_def)
  then show ?thesis by (auto simp add: upper_char_def [of "upper_char c"] Let_def)
qed

lemma js_upper_idem [simp]: "js_upper (js_upper s) = js_upper s"
  by (simp add: js_upper_def)

lemma js_ws_upper_char [simp]: "js_ws (upper_char c) = js_ws c"
  by (auto simp add: js_ws_def upper_char_def code_unit_def Let_def)

lemma js_trim_upper: "js_trim (js_upper s) = js_upper (js_trim s)"
  by (simp add: js_trim_def js_upper_def dropWhile_map rev_map comp_def)

lemma js_upper_eq_Nil [simp]: "js_upper s = [] \<longleftrightarrow> s = []"
  by (simp add: js_upper_def)

lemma lower_char_idem [simp]: "lower_char (lower_char c) = lower_char c"
proof -
  have "code_unit (lower_char c) < 65 \<or> 90 < code_unit (lower_char c)"
    by (auto simp add: lower_char_def code_unit_def Let_def)
  then show ?thesis by (auto simp add: lower_char_def [of "lower_char c"] Let_def)
qed

lemma js_lower_idem [simp]: "js_lower (js_lower s) = js_lower s"
  by (simp add: js_lower_def)

lemma js_ws_lower_char [simp]: "js_ws (lower_char c) = js_ws c"
  by (auto simp add: js_ws_def lower_char_def code_unit_def Let_def)

lemma js_trim_lower: "js_trim (js_lower s) = js_lower (js_trim s)"
  by (simp add: js_trim_def js_lower_def dropWhile_map rev_map comp_def)

lemma js_split_no_sep: "sep \<notin> set w \<Longrightarrow> js_split sep w = [w]"
  by (induction w) auto

lemma js_split_append: "sep \<notin> set w \<Longrightarrow> js_split sep (w @ sep # s) = w # js_split sep s"
  by (induction w) auto

lemma js_split_join:
  "ws \<noteq> [] \<Longrightarrow> \<forall>w\<in>set ws. sep \<notin> set w \<Longrightarrow> js_split sep (js_join [sep] ws) = ws"
  by (induction "[sep]" ws rule: js_join.induct) (auto simp add: js_split_no_sep js_split_append)

section \<open>Facts about numbers\<close>

text \<open>Whole numbers below \<open>2 ^ 53\<close> are doubles.\<close>

lemma half_even_div_1 [simp]: "half_even_div x 1 = x"
  by (simp add: half_even_div_def)

lemma to_double_whole:
  assumes "0 < n" and "n < 2 ^ 53"
  shows "to_double (of_int n) = JsNum (of_int n)"
proof -
  define a where "a = floorlog 2 (nat n)"
  have bounds: "2 ^ (a - 1) \<le> nat n" "nat n < 2 ^ a" using floorlog_bounds [of "nat n" 2] assms(1) by (simp_all add: a_def)
  then have "1 \<le> a" using assms(1) by (cases a) auto
  have "a \<le> 53" unfolding a_def using assms by (intro floorlog_leI) (auto simp add: nat_less_iff)
  have one: "floorlog 2 (Suc 0) = 1" by (simp add: floorlog_def)
  have "(2::int) ^ (a - 1) \<le> n" using bounds(1) assms(1) by (simp add: nat_le_iff le_nat_iff)
  then have below: "\<not> n < 2 ^ nat (int a - 1)" using \<open>1 \<le> a\<close> by (simp add: nat_diff_distrib)
  have abs: "\<bar>n\<bar> = n" "n \<noteq> 0" "of_int n \<noteq> (0::rat)" using assms(1) by simp_all
  have fits: "\<not> 2 ^ 1024 \<le> \<bar>of_int n :: rat\<bar>"
  proof -
    have "(of_int n :: rat) < of_int (2 ^ 53)" using assms(2) unfolding of_int_less_iff .
    also have "(of_int (2 ^ 53) :: rat) \<le> 2 ^ 1024" unfolding of_int_power of_int_numeral by (rule power_increasing) simp_all
    finally show ?thesis using assms(1) by (simp only: abs_of_pos of_int_0_less_iff not_le)
  qed
  have quot: "quotient_of (of_int n) = (n, 1)" by (metis Rat.of_int_def quotient_of_int)
  have k: "max (int a - int 1 - 52) (- 1074) = int a - 53" using \<open>1 \<le> a\<close> by simp
  define j where "j = 53 - a"
  have j: "nat (- (int a - 53)) = j" "0 \<le> int a - 53 \<longleftrightarrow> j = 0" "nat (int a - 53) = 0" using \<open>a \<le> 53\<close> by (auto simp add: j_def)
  have fl: "floorlog 2 (nat n) = a" "floorlog 2 (nat 1) = 1" using one by (simp_all add: a_def)
  have le: "int 1 \<le> int a" "nat (int a - int 1) = nat (int a - 1)" using \<open>1 \<le> a\<close> by simp_all
  have v: "(if j = 0 then of_int ((if j = 0 then half_even_div n (2 ^ 0) else half_even_div (n * 2 ^ j) 1) * 2 ^ 0)
      else of_int (if j = 0 then half_even_div n (2 ^ 0) else half_even_div (n * 2 ^ j) 1) / 2 ^ j) = (of_int n :: rat)"
    by simp
  show ?thesis
    unfolding to_double_def Let_def quot fst_conv snd_conv abs(1) mult_1 fl
    unfolding if_not_P [OF abs(3)] if_P [OF le(1)] le(2)
    unfolding if_not_P [OF below] k
    unfolding j v if_not_P [OF fits] ..
qed

lemma js_clamp:
  assumes "v \<noteq> JsNaN" and "a \<le> b"
  shows "\<exists>r. js_min (js_max v (JsNum a)) (JsNum b) = JsNum r \<and> a \<le> r \<and> r \<le> b"
  using assms by (cases v) (simp_all add: js_min_def js_max_def)

lemma js_clamp_NaN [simp]: "js_min (js_max JsNaN a) b = JsNaN"
  by (simp add: js_min_def js_max_def)

lemma js_round_id: "\<bar>x\<bar> \<le> 2 ^ 53 \<Longrightarrow> js_round x = x"
  by (simp add: js_round_def)

lemma half_even_div_ge: "0 < u \<Longrightarrow> x div u \<le> half_even_div x u"
  by (simp add: half_even_div_def Let_def)

lemma js_round_large:
  assumes "2 ^ 53 < x"
  shows "2 ^ 53 \<le> js_round x"
proof -
  let ?l = "floorlog 2 (nat x)"
  have pos: "0 < nat x" using assms by simp
  have low: "2 ^ (?l - 1) \<le> nat x" and up: "nat x < 2 ^ ?l"
    using floorlog_bounds [OF pos, of 2] by auto
  have "(2::nat) ^ 53 < nat x" using assms by simp
  with up have "(2::nat) ^ 53 < 2 ^ ?l" by linarith
  then have l: "54 \<le> ?l" using power_less_imp_less_exp [of "2::nat" 53 ?l] by simp
  let ?u = "2 ^ (?l - 53) :: int"
  have "int (2 ^ (?l - 1)) \<le> int (nat x)" using low by (simp only: of_nat_le_iff)
  then have "(2::int) ^ (?l - 1) \<le> x" using assms by simp
  moreover have "(2::int) ^ (?l - 1) = 2 ^ 52 * ?u"
    using l power_add [of "2::int" 52 "?l - 53"] by (simp del: power_numeral)
  ultimately have "2 ^ 52 * ?u \<le> x" by simp
  then have "2 ^ 52 * ?u div ?u \<le> x div ?u" by (intro zdiv_mono1) auto
  then have q: "2 ^ 52 \<le> x div ?u" by (subst (asm) nonzero_mult_div_cancel_right) auto
  have "2 ^ 52 * ?u \<le> half_even_div x ?u * ?u"
    using q half_even_div_ge [of ?u x] by (intro mult_right_mono) auto
  moreover have "(2::int) ^ 53 \<le> 2 ^ 52 * ?u"
    using l self_le_power [of "2::int" "?l - 53"] by simp
  ultimately have "2 ^ 53 \<le> half_even_div x ?u * ?u" by linarith
  then show ?thesis using assms by (simp add: js_round_def Let_def)
qed

lemma js_round_safe:
  assumes "0 \<le> x" and "js_round x \<le> max_safe_integer"
  shows "js_round x = x"
proof (cases "x \<le> 2 ^ 53")
  case True
  then show ?thesis using assms(1) by (simp add: js_round_id)
next
  case False
  then show ?thesis using js_round_large [of x] assms(2) by (simp add: max_safe_integer_def)
qed

lemma js_sub_exact: "0 \<le> b \<Longrightarrow> b \<le> a \<Longrightarrow> a \<le> max_safe_integer \<Longrightarrow> js_sub a b = a - b"
  by (simp add: js_sub_def js_round_id max_safe_integer_def)

lemma js_add_exact: "0 \<le> a \<Longrightarrow> 0 \<le> b \<Longrightarrow> js_add a b \<le> max_safe_integer \<Longrightarrow> js_add a b = a + b"
  using js_round_safe [of "a + b"] by (simp add: js_add_def)

lemma js_round_nonneg:
  assumes "0 \<le> x"
  shows "0 \<le> js_round x"
  using js_round_large [of x] js_round_id [of x] assms
  by (cases "x \<le> 2 ^ 53") auto

lemma js_isInteger_of_int [simp]: "js_isInteger (js_of_int n)"
  by (simp add: js_isInteger_def js_of_int_def)

lemma js_int_of_int [simp]: "js_int (js_of_int n) = n"
  by (simp add: js_int_def js_of_int_def)

lemma js_isFinite_of_int [simp]: "js_isFinite (js_of_int n)"
  by (simp add: js_isFinite_def js_of_int_def)

lemma js_isIntegerE:
  assumes "js_isInteger v"
  obtains n where "v = js_of_int n"
  using assms by (cases v) (auto simp add: js_isInteger_def js_of_int_def split: js_number.splits)

lemma js_gt_of_int [simp]: "js_gt (js_of_int a) (js_of_int b) \<longleftrightarrow> b < a"
  by (simp add: js_of_int_def)

lemma js_ge_of_int [simp]: "js_ge (js_of_int a) (js_of_int b) \<longleftrightarrow> b \<le> a"
  by (simp add: js_of_int_def)

section \<open>Facts about int64 values\<close>

lemma high_int64_of_small: "0 \<le> a \<Longrightarrow> a < 2 ^ 32 \<Longrightarrow> high (int64_of a) = 0"
  by (simp add: int64_of_def)

lemma high_int64_of_zeroD:
  assumes "- (2 ^ 63) \<le> a" and "a < 2 ^ 63" and "high (int64_of a) = 0"
  shows "0 \<le> a \<and> a < 2 ^ 32"
proof -
  from assms(3) have "uint (word_of_int (a div 2 ^ 32) :: 32 word) = 0"
    by (simp add: int64_of_def)
  then have m: "(a div 2 ^ 32) mod 2 ^ 32 = 0"
    by (simp add: uint_word_of_int)
  have "- (2 ^ 31) \<le> a div 2 ^ 32" and "a div 2 ^ 32 < 2 ^ 31"
    using assms(1,2) by auto
  moreover obtain k where "a div 2 ^ 32 = 2 ^ 32 * k"
    using m by (auto simp add: mod_eq_0_iff_dvd elim: dvdE)
  ultimately have "a div 2 ^ 32 = 0" by simp
  then show ?thesis by (simp add: div_eq_0_iff) presburger
qed

end
