(* ===== verification/Tx_Entities.thy ===== *)
theory Tx_Entities
  imports JS_Values
begin

text \<open>
  The tables of the transaction service (the entity classes of
  \<^verbatim>\<open>transaction-service/src\<close>) and the database operations its repositories use. A table
  is the list of its rows in the order of insertion, which is the order of their createdAt stamps;
  a time is a number of milliseconds. The database hands out uuids: \<open>d_uuid n\<close> is the n-th one and
  \<open>d_seq\<close> counts those used. Unique indexes, bigint ranges and varchar lengths of the columns
  that take unvalidated values are enforced by the insert and save operations, whose failure is
  the ORM's QueryFailedError. The updatedAt columns, which no operation reads, are left out.
\<close>

section \<open>Rows\<close>

datatype wallet_status = WALLET_ACTIVE | WALLET_FROZEN

record wallet =
  w_id :: string
  w_userId :: string
  w_currency :: string
  w_balance :: int
  w_status :: wallet_status
  w_createdAt :: int

datatype transaction_type = TRANSFER | DEPOSIT | WITHDRAWAL

datatype transaction_status = TX_PENDING | TX_COMPLETED | TX_FAILED | TX_BLOCKED

datatype settlement_status = ST_NONE | ST_PENDING | ST_SETTLED | ST_FAILED

datatype chain_status = CH_PENDING | CH_ANCHORED | CH_FAILED

record transaction =
  tx_id :: string
  tx_idempotencyKey :: string
  tx_type :: transaction_type
  tx_status :: transaction_status
  tx_settlementStatus :: settlement_status
  tx_chainStatus :: chain_status
  tx_requestingUserId :: string
  tx_fromUserId :: string
  tx_toUserId :: "string option"
  tx_amount :: int
  tx_currency :: string
  tx_memo :: "string option"
  tx_isExternal :: bool
  tx_externalPartner :: "string option"
  tx_externalAccountNo :: "string option"
  tx_externalRef :: "string option"
  tx_chainTxId :: "string option"
  tx_receiptJson :: "string option"
  tx_chainRetryCount :: int
  tx_chainLastAttemptAt :: "int option"
  tx_chainNextAttemptAt :: "int option"
  tx_errorCode :: "string option"
  tx_errorMessage :: "string option"
  tx_createdAt :: int

datatype ledger_direction = DEBIT | CREDIT

record ledger_entry =
  le_id :: nat
  le_transactionId :: string
  le_walletId :: "string option"
  le_direction :: ledger_direction
  le_amount :: int
  le_balanceBefore :: int
  le_balanceAfter :: int
  le_note :: "string option"
  le_createdAt :: int

datatype funding_source_status = FS_ACTIVE | FS_INACTIVE

record funding_source =
  fs_id :: string
  fs_userId :: string
  fs_provider :: string
  fs_accountRefMasked :: string
  fs_accountRefHash :: string
  fs_providerToken :: "string option"
  fs_displayName :: "string option"
  fs_status :: funding_source_status
  fs_createdAt :: int

text \<open>The payload of an event; the fields that the chain-completed event lacks are options.\<close>

record event_payload =
  ep_eventType :: string
  ep_transactionId :: string
  ep_status :: transaction_status
  ep_type :: "transaction_type option"
  ep_isExternal :: "bool option"
  ep_settlementStatus :: "settlement_status option"
  ep_chainStatus :: "chain_status option"
  ep_requestingUserId :: string
  ep_fromUserId :: string
  ep_toUserId :: "string option"
  ep_amount :: int
  ep_currency :: string
  ep_memo :: "string option"
  ep_senderBalance :: "int option"
  ep_receiverBalance :: "int option"
  ep_createdAt :: int
  ep_receiptJson :: "string option"

datatype outbox_status = OB_PENDING | OB_PUBLISHED | OB_FAILED

record outbox_event =
  ob_id :: string
  ob_aggregateType :: string
  ob_aggregateId :: string
  ob_eventType :: string
  ob_payload :: event_payload
  ob_status :: outbox_status
  ob_attempts :: int
  ob_nextAttemptAt :: int
  ob_leasedUntil :: "int option"
  ob_lastError :: "string option"
  ob_publishedAt :: "int option"
  ob_createdAt :: int

section \<open>The database\<close>

record db =
  d_wallets :: "wallet list"
  d_txs :: "transaction list"
  d_ledger :: "ledger_entry list"
  d_sources :: "funding_source list"
  d_outbox :: "outbox_event list"
  d_uuid :: "nat \<Rightarrow> string"
  d_seq :: nat
  d_lseq :: nat

datatype svc_error = BadRequest string | QueryFailed string

type_synonym 'a unit_of_work = "db \<Rightarrow> svc_error + ('a \<times> db)"
type_synonym 'a db_handler = "(db, svc_error, 'a) handler"

definition bigint_ok :: "int \<Rightarrow> bool" where
  "bigint_ok x = (- (2 ^ 63) \<le> x \<and> x < 2 ^ 63)"

definition varchar_ok :: "nat \<Rightarrow> string option \<Rightarrow> bool" where
  "varchar_ok n s = (case s of None \<Rightarrow> True | Some t \<Rightarrow> length t \<le> n)"

definition tx_columns_ok :: "transaction \<Rightarrow> bool" where
  "tx_columns_ok t =
     (bigint_ok (tx_amount t) \<and> length (tx_idempotencyKey t) \<le> 128 \<and> length (tx_currency t) \<le> 16 \<and>
      varchar_ok 512 (tx_memo t) \<and> varchar_ok 64 (tx_externalPartner t) \<and>
      varchar_ok 128 (tx_externalAccountNo t) \<and> varchar_ok 128 (tx_externalRef t) \<and>
      varchar_ok 128 (tx_chainTxId t) \<and> varchar_ok 64 (tx_errorCode t) \<and> varchar_ok 1024 (tx_errorMessage t))"

definition find_wallet :: "db \<Rightarrow> string \<Rightarrow> string \<Rightarrow> wallet option" where
  "find_wallet d userId currency =
     find_row (\<lambda>w. w_userId w = userId \<and> w_currency w = currency) (d_wallets d)"

definition wallet_by_id :: "db \<Rightarrow> string \<Rightarrow> wallet option" where
  "wallet_by_id d wid = find_row (\<lambda>w. w_id w = wid) (d_wallets d)"

definition find_tx :: "db \<Rightarrow> string \<Rightarrow> transaction option" where
  "find_tx d tid = find_row (\<lambda>t. tx_id t = tid) (d_txs d)"

definition find_tx_by_key :: "db \<Rightarrow> string \<Rightarrow> transaction option" where
  "find_tx_by_key d k = find_row (\<lambda>t. tx_idempotencyKey t = k) (d_txs d)"

definition find_credit :: "db \<Rightarrow> string \<Rightarrow> ledger_entry option" where
  "find_credit d tid = find_row (\<lambda>e. le_transactionId e = tid \<and> le_direction e = CREDIT) (d_ledger d)"

text \<open>\<open>repo.save\<close> of a new wallet with zero balance and status ACTIVE.\<close>

definition insert_wallet :: "int \<Rightarrow> string \<Rightarrow> string \<Rightarrow> wallet unit_of_work" where
  "insert_wallet now userId currency d =
     (if find_wallet d userId currency \<noteq> None then Inl (QueryFailed ''wallets_userId_currency'')
      else let w = \<lparr>w_id = d_uuid d (d_seq d), w_userId = userId, w_currency = currency,
                    w_balance = 0, w_status = WALLET_ACTIVE, w_createdAt = now\<rparr>
           in Inr (w, d\<lparr>d_wallets := d_wallets d @ [w], d_seq := Suc (d_seq d)\<rparr>))"

definition save_wallet :: "wallet \<Rightarrow> wallet unit_of_work" where
  "save_wallet w d =
     (if bigint_ok (w_balance w) then Inr (w, d\<lparr>d_wallets := save_row w_id w (d_wallets d)\<rparr>)
      else Inl (QueryFailed ''bigint out of range''))"

definition insert_tx :: "int \<Rightarrow> transaction \<Rightarrow> transaction unit_of_work" where
  "insert_tx now t d =
     (if find_tx_by_key d (tx_idempotencyKey t) \<noteq> None then Inl (QueryFailed ''transactions_idempotencyKey'')
      else if \<not> tx_columns_ok t then Inl (QueryFailed ''column value'')
      else let t' = t\<lparr>tx_id := d_uuid d (d_seq d), tx_createdAt := now\<rparr>
           in Inr (t', d\<lparr>d_txs := d_txs d @ [t'], d_seq := Suc (d_seq d)\<rparr>))"

definition save_tx :: "transaction \<Rightarrow> transaction unit_of_work" where
  "save_tx t d =
     (if tx_columns_ok t then Inr (t, d\<lparr>d_txs := save_row tx_id t (d_txs d)\<rparr>)
      else Inl (QueryFailed ''column value''))"

definition insert_ledger :: "int \<Rightarrow> ledger_entry \<Rightarrow> ledger_entry unit_of_work" where
  "insert_ledger now e d =
     (if bigint_ok (le_amount e) \<and> bigint_ok (le_balanceBefore e) \<and> bigint_ok (le_balanceAfter e) \<and>
         varchar_ok 512 (le_note e)
      then let e' = e\<lparr>le_id := d_lseq d, le_createdAt := now\<rparr>
           in Inr (e', d\<lparr>d_ledger := d_ledger d @ [e'], d_lseq := Suc (d_lseq d)\<rparr>)
      else Inl (QueryFailed ''ledger column value''))"

section \<open>Reading the ledger\<close>

definition delta :: "ledger_entry \<Rightarrow> int" where
  "delta e = (case le_direction e of CREDIT \<Rightarrow> le_amount e | DEBIT \<Rightarrow> - le_amount e)"

definition entries_of :: "db \<Rightarrow> string \<Rightarrow> ledger_entry list" where
  "entries_of d wid = filter (\<lambda>e. le_walletId e = Some wid) (d_ledger d)"

definition tx_moves :: "db \<Rightarrow> string \<Rightarrow> (ledger_direction \<times> int) list" where
  "tx_moves d tid =
     map (\<lambda>e. (le_direction e, le_amount e)) (filter (\<lambda>e. le_transactionId e = tid) (d_ledger d))"

text \<open>A trail: each entry starts from the balance the one before it left.\<close>

fun trail :: "int \<Rightarrow> ledger_entry list \<Rightarrow> int \<Rightarrow> bool" where
  "trail b [] b' = (b = b')"
| "trail b (e # es) b' =
     (le_balanceBefore e = b \<and> le_balanceAfter e = b + delta e \<and> trail (le_balanceAfter e) es b')"

definition total_balance :: "db \<Rightarrow> string \<Rightarrow> int" where
  "total_balance d c = sum_list (map w_balance (filter (\<lambda>w. w_currency w = c) (d_wallets d)))"

definition balances_safe :: "db \<Rightarrow> bool" where
  "balances_safe d = list_all (\<lambda>w. w_balance w \<le> max_safe_integer) (d_wallets d)"

section \<open>The order of the chain statuses\<close>

text \<open>PENDING may become ANCHORED or FAILED; those two are final.\<close>

instantiation chain_status :: order
begin

definition less_eq_chain_status :: "chain_status \<Rightarrow> chain_status \<Rightarrow> bool" where
  "less_eq_chain_status a b = (a = b \<or> a = CH_PENDING)"

definition less_chain_status :: "chain_status \<Rightarrow> chain_status \<Rightarrow> bool" where
  "less_chain_status a b = (a = CH_PENDING \<and> b \<noteq> CH_PENDING)"

instance
  by standard (auto simp add: less_eq_chain_status_def less_chain_status_def)

end

section \<open>Facts about trails\<close>

lemma trail_append: "trail b (es @ fs) b' \<longleftrightarrow> (\<exists>m. trail b es m \<and> trail m fs b')"
  by (induction es arbitrary: b) auto

lemma trail_sum: "trail b es b' \<Longrightarrow> b' = b + sum_list (map delta es)"
  by (induction es arbitrary: b) fastforce+

lemma trail_first: "trail b (e # es) b' \<Longrightarrow> le_balanceBefore e = b"
  by simp

lemma chain_status_le_iff: "(a :: chain_status) \<le> b \<longleftrightarrow> a = b \<or> a = CH_PENDING"
  by (simp add: less_eq_chain_status_def)

end
