(* ===== verification/Tx_Validation.thy ===== *)
theory Tx_Validation
  imports Tx_Entities
begin

text \<open>
  The configuration and the request validation of \<^verbatim>\<open>transactions.service.ts\<close>. A field of
  a request that the caller may leave out is an option; the environment variables are a map from
  their names. SHA-256 (Node's crypto) is a parameter where a digest is taken.
\<close>

section \<open>Configuration\<close>

record tx_config =
  c_chainRiskHighAmount :: js_number
  c_chainAsyncEnabled :: bool
  c_chainAsyncPollIntervalMs :: int
  c_chainAsyncBatchSize :: int
  c_chainAsyncWorkers :: int
  c_chainAsyncLeaseMs :: int
  c_chainAsyncInitialBackoffMs :: int
  c_chainAsyncMaxBackoffMs :: int
  c_chainAsyncMaxRetries :: int
  c_chainExternalSourceUserId :: string
  c_chainExternalSinkUserId :: string

text \<open>\<open>toInt\<close> on the values the configuration yields: a string or undefined.\<close>

definition toInt :: "string option \<Rightarrow> int \<Rightarrow> int" where
  "toInt raw fallback =
     (case raw of None \<Rightarrow> fallback
      | Some s \<Rightarrow> if js_trim s \<noteq> [] \<and> js_isFinite (js_Number s) then js_int (js_floor (js_Number s)) else fallback)"

definition tx_config_of :: "(string \<Rightarrow> string option) \<Rightarrow> tx_config" where
  "tx_config_of cfg =
     \<lparr>c_chainRiskHighAmount =
        (case cfg ''CHAIN_RISK_HIGH_AMOUNT'' of None \<Rightarrow> js_of_int 50000000 | Some raw \<Rightarrow> js_Number raw),
      c_chainAsyncEnabled = (js_lower (coalesce (cfg ''CHAIN_ASYNC_ENABLED'') ''true'') \<noteq> ''false''),
      c_chainAsyncPollIntervalMs = toInt (cfg ''CHAIN_ASYNC_POLL_INTERVAL_MS'') 3000,
      c_chainAsyncBatchSize = toInt (cfg ''CHAIN_ASYNC_BATCH_SIZE'') 200,
      c_chainAsyncWorkers = toInt (cfg ''CHAIN_ASYNC_WORKERS'') 10,
      c_chainAsyncLeaseMs = toInt (cfg ''CHAIN_ASYNC_LEASE_MS'') 30000,
      c_chainAsyncInitialBackoffMs = toInt (cfg ''CHAIN_ASYNC_INITIAL_BACKOFF_MS'') 5000,
      c_chainAsyncMaxBackoffMs = toInt (cfg ''CHAIN_ASYNC_MAX_BACKOFF_MS'') 300000,
      c_chainAsyncMaxRetries = max 0 (toInt (cfg ''CHAIN_ASYNC_MAX_RETRIES'') 0),
      c_chainExternalSourceUserId =
        or_str (Some (js_trim (or_str (cfg ''CHAIN_EXTERNAL_SOURCE_USER_ID'') [])))
          ''00000000-0000-0000-0000-000000000001'',
      c_chainExternalSinkUserId =
        or_str (Some (js_trim (or_str (cfg ''CHAIN_EXTERNAL_SINK_USER_ID'') [])))
          ''00000000-0000-0000-0000-000000000002''\<rparr>"

section \<open>Normalisation\<close>

text \<open>
  \<open>normalizeAmount\<close>: a finite number as it is, a string as Number reads it, an int64 object by its
  low half when the high half is zero (\<open>low >>> 0\<close> for an unsigned one), NaN otherwise.
\<close>

definition normalizeAmount :: "raw_amount \<Rightarrow> js_number" where
  "normalizeAmount raw =
     (case raw of
        AmtNumber v \<Rightarrow> if js_isFinite v then v else JsNaN
      | AmtString s \<Rightarrow> if js_trim s \<noteq> [] \<and> js_isFinite (js_Number s) then js_Number s else JsNaN
      | AmtInt64 l \<Rightarrow>
          if sint (high l) = 0
          then js_of_int (if unsigned l then uint (low l) else sint (low l)) else JsNaN
      | AmtUndefined \<Rightarrow> JsNaN)"

definition positive_integer :: "js_number \<Rightarrow> bool" where
  "positive_integer v = (js_isInteger v \<and> js_gt v (js_of_int 0))"

definition normalizeCurrency :: "string option \<Rightarrow> svc_error + string" where
  "normalizeCurrency raw =
     (let currency = js_upper (js_trim (or_str raw ''VND''))
      in if currency = [] then Inl (BadRequest ''currency is required'')
         else if 16 < length currency then Inl (BadRequest ''currency is invalid'')
         else Inr currency)"

definition maskAccountRef :: "string \<Rightarrow> string" where
  "maskAccountRef ref =
     (let compact = filter (\<lambda>c. \<not> js_ws c) ref
      in if length compact \<le> 4 then take 32 (''***'' @ compact)
         else ''****'' @ drop (length compact - 4) compact)"

definition hashAccountRef :: "(string \<Rightarrow> string) \<Rightarrow> string \<Rightarrow> string \<Rightarrow> string" where
  "hashAccountRef sha256 provider accountRef = sha256 (provider @ '':'' @ accountRef)"

section \<open>Requests\<close>

record create_transfer_request =
  tq_idempotencyKey :: "string option"
  tq_requestingUserId :: "string option"
  tq_fromUserId :: "string option"
  tq_toUserId :: "string option"
  tq_amount :: raw_amount
  tq_currency :: "string option"
  tq_memo :: "string option"
  tq_otpCode :: "string option"
  tq_isExternal :: "bool option"
  tq_externalPartner :: "string option"
  tq_externalAccountNo :: "string option"

record transfer_req =
  tr_idempotencyKey :: string
  tr_requestingUserId :: string
  tr_fromUserId :: string
  tr_toUserId :: string
  tr_amount :: int
  tr_currency :: string
  tr_memo :: string
  tr_isExternal :: bool
  tr_externalPartner :: "string option"
  tr_externalAccountNo :: "string option"

text \<open>\<open>x?.trim()\<close>, with undefined as the empty string: both are falsy where it is tested.\<close>

definition trimmed :: "string option \<Rightarrow> string" where
  "trimmed s = js_trim (coalesce s [])"

definition validateCreateTransfer :: "create_transfer_request \<Rightarrow> svc_error + transfer_req" where
  "validateCreateTransfer q =
     (let idempotencyKey = trimmed (tq_idempotencyKey q);
          requestingUserId = trimmed (tq_requestingUserId q);
          fromUserId = trimmed (tq_fromUserId q);
          toUserId = trimmed (tq_toUserId q);
          isExternal = coalesce (tq_isExternal q) False;
          amount = normalizeAmount (tq_amount q);
          externalPartner = trimmed (tq_externalPartner q);
          externalAccountNo = trimmed (tq_externalAccountNo q)
      in bindE (checkE (idempotencyKey \<noteq> []) (BadRequest ''idempotencyKey is required'')) (\<lambda>_.
         bindE (checkE (length idempotencyKey \<le> 128) (BadRequest ''idempotencyKey too long'')) (\<lambda>_.
         bindE (checkE (requestingUserId \<noteq> [] \<and> fromUserId \<noteq> [] \<and> toUserId \<noteq> [])
                  (BadRequest ''requestingUserId, fromUserId, toUserId required'')) (\<lambda>_.
         bindE (checkE (requestingUserId = fromUserId)
                  (BadRequest ''requestingUserId must match fromUserId'')) (\<lambda>_.
         bindE (checkE (\<not> (fromUserId = toUserId \<and> \<not> isExternal))
                  (BadRequest ''fromUserId and toUserId must be different'')) (\<lambda>_.
         bindE (checkE (positive_integer amount) (BadRequest ''amount must be positive integer'')) (\<lambda>_.
         bindE (normalizeCurrency (tq_currency q)) (\<lambda>currency.
         bindE (checkE (trimmed (tq_otpCode q) \<noteq> []) (BadRequest ''otpCode required'')) (\<lambda>_.
         bindE (checkE (\<not> (isExternal \<and> (externalPartner = [] \<or> externalAccountNo = [])))
                  (BadRequest ''external transfer requires externalPartner and externalAccountNo'')) (\<lambda>_.
         Inr \<lparr>tr_idempotencyKey = idempotencyKey, tr_requestingUserId = requestingUserId,
              tr_fromUserId = fromUserId, tr_toUserId = toUserId, tr_amount = js_int amount,
              tr_currency = currency, tr_memo = trimmed (tq_memo q), tr_isExternal = isExternal,
              tr_externalPartner = or_null externalPartner,
              tr_externalAccountNo = or_null externalAccountNo\<rparr>))))))))))"

record create_topup_request =
  uq_idempotencyKey :: "string option"
  uq_userId :: "string option"
  uq_fundingSourceId :: "string option"
  uq_amount :: raw_amount
  uq_currency :: "string option"
  uq_memo :: "string option"

record topup_req =
  ur_idempotencyKey :: string
  ur_userId :: string
  ur_fundingSourceId :: string
  ur_amount :: int
  ur_currency :: string
  ur_memo :: string

definition validateCreateTopupIntent :: "create_topup_request \<Rightarrow> svc_error + topup_req" where
  "validateCreateTopupIntent q =
     (let idempotencyKey = trimmed (uq_idempotencyKey q);
          userId = trimmed (uq_userId q);
          fundingSourceId = trimmed (uq_fundingSourceId q);
          amount = normalizeAmount (uq_amount q)
      in bindE (checkE (idempotencyKey \<noteq> []) (BadRequest ''idempotencyKey is required'')) (\<lambda>_.
         bindE (checkE (length idempotencyKey \<le> 128) (BadRequest ''idempotencyKey too long'')) (\<lambda>_.
         bindE (checkE (userId \<noteq> []) (BadRequest ''userId is required'')) (\<lambda>_.
         bindE (checkE (fundingSourceId \<noteq> []) (BadRequest ''fundingSourceId is required'')) (\<lambda>_.
         bindE (checkE (positive_integer amount) (BadRequest ''amount must be positive integer'')) (\<lambda>_.
         bindE (normalizeCurrency (uq_currency q)) (\<lambda>currency.
         Inr \<lparr>ur_idempotencyKey = idempotencyKey, ur_userId = userId,
              ur_fundingSourceId = fundingSourceId, ur_amount = js_int amount,
              ur_currency = currency, ur_memo = trimmed (uq_memo q)\<rparr>)))))))"

record create_withdrawal_request = create_topup_request +
  uq_simulateFailure :: "bool option"

definition validateCreateWithdrawalRequest ::
    "create_withdrawal_request \<Rightarrow> svc_error + (topup_req \<times> bool)" where
  "validateCreateWithdrawalRequest q =
     bindE (validateCreateTopupIntent (create_topup_request.truncate q)) (\<lambda>n.
       Inr (n, uq_simulateFailure q = Some True))"

record create_funding_source_request =
  fq_userId :: "string option"
  fq_provider :: "string option"
  fq_accountRef :: "string option"
  fq_providerToken :: "string option"
  fq_displayName :: "string option"

record funding_source_req =
  fr_userId :: string
  fr_provider :: string
  fr_accountRef :: string
  fr_providerToken :: string
  fr_displayName :: string

definition validateCreateFundingSource ::
    "create_funding_source_request \<Rightarrow> svc_error + funding_source_req" where
  "validateCreateFundingSource q =
     (let userId = trimmed (fq_userId q);
          provider = js_upper (trimmed (fq_provider q));
          accountRef = trimmed (fq_accountRef q)
      in bindE (checkE (userId \<noteq> []) (BadRequest ''userId is required'')) (\<lambda>_.
         bindE (checkE (provider \<noteq> []) (BadRequest ''provider is required'')) (\<lambda>_.
         bindE (checkE (length provider \<le> 32) (BadRequest ''provider is invalid'')) (\<lambda>_.
         bindE (checkE (accountRef \<noteq> []) (BadRequest ''accountRef is required'')) (\<lambda>_.
         bindE (checkE (length accountRef \<le> 128) (BadRequest ''accountRef is invalid'')) (\<lambda>_.
         Inr \<lparr>fr_userId = userId, fr_provider = provider, fr_accountRef = accountRef,
              fr_providerToken = trimmed (fq_providerToken q),
              fr_displayName = trimmed (fq_displayName q)\<rparr>))))))"

section \<open>What validation promises\<close>

text \<open>The shape of a request that passed validation, which the units of work rely on.\<close>

definition valid_currency :: "string \<Rightarrow> bool" where
  "valid_currency c = (c \<noteq> [] \<and> length c \<le> 16 \<and> js_trim c = c \<and> js_upper c = c)"

definition valid_transfer :: "transfer_req \<Rightarrow> bool" where
  "valid_transfer r =
     (tr_idempotencyKey r \<noteq> [] \<and> length (tr_idempotencyKey r) \<le> 128 \<and>
      tr_fromUserId r \<noteq> [] \<and> tr_toUserId r \<noteq> [] \<and> tr_requestingUserId r = tr_fromUserId r \<and>
      (tr_isExternal r \<or> tr_fromUserId r \<noteq> tr_toUserId r) \<and> 0 < tr_amount r \<and>
      valid_currency (tr_currency r) \<and>
      tr_externalPartner r \<noteq> Some [] \<and> tr_externalAccountNo r \<noteq> Some [] \<and>
      (tr_isExternal r \<longrightarrow> tr_externalPartner r \<noteq> None \<and> tr_externalAccountNo r \<noteq> None))"

definition valid_topup :: "topup_req \<Rightarrow> bool" where
  "valid_topup r =
     (ur_idempotencyKey r \<noteq> [] \<and> length (ur_idempotencyKey r) \<le> 128 \<and> ur_userId r \<noteq> [] \<and>
      ur_fundingSourceId r \<noteq> [] \<and> 0 < ur_amount r \<and> valid_currency (ur_currency r))"

lemma positive_integer_int: "positive_integer v \<Longrightarrow> 0 < js_int v"
  by (auto simp add: positive_integer_def elim!: js_isIntegerE)

lemma normalizeCurrency_valid: "normalizeCurrency raw = Inr c \<Longrightarrow> valid_currency c"
  by (auto simp add: normalizeCurrency_def valid_currency_def Let_def js_trim_upper split: if_splits)

lemma normalizeCurrency_of_valid: "valid_currency c \<Longrightarrow> normalizeCurrency (Some c) = Inr c"
  by (simp add: normalizeCurrency_def valid_currency_def or_str_def Let_def)

lemma or_null_neq [simp]: "or_null s \<noteq> Some []"
  by (simp add: or_null_def)

lemma or_null_None_iff [simp]: "or_null s = None \<longleftrightarrow> s = []"
  by (simp add: or_null_def)

lemma or_null_Some_ex [simp]: "(\<exists>y. or_null s = Some y) \<longleftrightarrow> s \<noteq> []"
  by (simp add: or_null_def)

lemma validateCreateTransfer_valid:
  assumes "validateCreateTransfer q = Inr r"
  shows "valid_transfer r"
  using assms
  by (auto simp add: validateCreateTransfer_def Let_def err_simps valid_transfer_def
      positive_integer_int normalizeCurrency_valid)

lemma validateCreateTopupIntent_valid:
  assumes "validateCreateTopupIntent q = Inr r"
  shows "valid_topup r"
  using assms
  by (auto simp add: validateCreateTopupIntent_def Let_def err_simps valid_topup_def
      positive_integer_int normalizeCurrency_valid)

lemma validateCreateWithdrawalRequest_valid:
  "validateCreateWithdrawalRequest q = Inr (r, sim) \<Longrightarrow> valid_topup r"
  by (auto simp add: validateCreateWithdrawalRequest_def err_simps validateCreateTopupIntent_valid)

lemma sint_high_zero: "sint (w :: 32 word) = 0 \<longleftrightarrow> w = 0"
  by (simp add: signed_eq_0_iff)

lemma normalizeAmount_int64:
  assumes "- (2 ^ 63) \<le> a" and "a < 2 ^ 63"
  shows "normalizeAmount (AmtInt64 (int64_of a)) =
    (if 0 \<le> a \<and> a < 2 ^ 32 then js_of_int (if a < 2 ^ 31 then a else a - 2 ^ 32) else JsNaN)"
proof (cases "0 \<le> a \<and> a < 2 ^ 32")
  case True
  have "(a + 2 ^ 31) mod 2 ^ 32 = (if a < 2 ^ 31 then a + 2 ^ 31 else a - 2 ^ 31)"
    using True mod_add_self2 [of "a - 2 ^ 31" "2 ^ 32"] by (auto simp add: mod_pos_pos_trivial add.commute)
  then have "sint (word_of_int a :: 32 word) = (if a < 2 ^ 31 then a else a - 2 ^ 32)"
    by (simp add: int_word_sint)
  then show ?thesis
    using True high_int64_of_small [of a] by (auto simp add: normalizeAmount_def int64_of_def)
next
  case False
  then have "high (int64_of a) \<noteq> 0"
    using assms high_int64_of_zeroD by blast
  with False show ?thesis by (auto simp add: normalizeAmount_def sint_high_zero)
qed

section \<open>Properties\<close>

text \<open>
  C12. What passes validation is well formed: the key is trimmed, not empty and fits its column, the
  caller is the sender, an internal transfer has two different parties, the amount is a positive whole
  number, the currency is a trimmed upper-case code, and an external transfer names a partner and an
  account.
\<close>

theorem validated_transfer:
  assumes "validateCreateTransfer q = Inr r"
  shows "js_trim (tr_idempotencyKey r) = tr_idempotencyKey r \<and> tr_idempotencyKey r \<noteq> [] \<and>
    length (tr_idempotencyKey r) \<le> 128 \<and> tr_requestingUserId r = tr_fromUserId r \<and> tr_fromUserId r \<noteq> [] \<and>
    (\<not> tr_isExternal r \<longrightarrow> tr_fromUserId r \<noteq> tr_toUserId r) \<and> 0 < tr_amount r \<and>
    normalizeAmount (tq_amount q) = js_of_int (tr_amount r) \<and>
    normalizeCurrency (Some (tr_currency r)) = Inr (tr_currency r) \<and>
    (tr_isExternal r \<longrightarrow> tr_externalPartner r \<noteq> None \<and> tr_externalAccountNo r \<noteq> None)"
proof -
  have "js_trim (tr_idempotencyKey r) = tr_idempotencyKey r"
    using assms by (auto simp add: validateCreateTransfer_def Let_def err_simps trimmed_def)
  moreover have "normalizeAmount (tq_amount q) = js_of_int (tr_amount r)"
    using assms by (auto simp add: validateCreateTransfer_def Let_def err_simps positive_integer_def elim!: js_isIntegerE)
  moreover have "valid_transfer r" using validateCreateTransfer_valid [OF assms] .
  ultimately show ?thesis using normalizeCurrency_of_valid by (auto simp add: valid_transfer_def)
qed

text \<open>
  Amounts that arrive as protobuf int64 objects are accepted exactly from 1 to 2147483647, with
  their value; from 2147483648 on, well inside the range of the column, they are refused.
\<close>

theorem int64_amounts_accepted:
  assumes "- (2 ^ 63) \<le> a" and "a < 2 ^ 63"
  shows "(positive_integer (normalizeAmount (AmtInt64 (int64_of a))) \<longleftrightarrow> 0 < a \<and> a < 2 ^ 31) \<and>
    (0 < a \<and> a < 2 ^ 31 \<longrightarrow> normalizeAmount (AmtInt64 (int64_of a)) = js_of_int a)"
proof -
  have nan: "\<not> positive_integer JsNaN" by (simp add: positive_integer_def js_isInteger_def)
  have int: "positive_integer (js_of_int n) \<longleftrightarrow> 0 < n" for n by (simp add: positive_integer_def)
  show ?thesis unfolding normalizeAmount_int64 [OF assms] by (auto simp add: nan int)
qed

text \<open>
  A stored account reference shows stars and at most the last four characters of the account, and
  always fits its column of 32 characters.
\<close>

theorem masked_account_hides:
  "\<exists>shown. maskAccountRef ref = (if length (filter (\<lambda>c. \<not> js_ws c) ref) \<le> 4 then ''***'' else ''****'') @ shown \<and>
     length shown \<le> 4 \<and> (\<exists>hidden. filter (\<lambda>c. \<not> js_ws c) ref = hidden @ shown) \<and> length (maskAccountRef ref) \<le> 32"
proof (cases "length (filter (\<lambda>c. \<not> js_ws c) ref) \<le> 4")
  case True
  then show ?thesis by (auto simp add: maskAccountRef_def Let_def)
next
  case False
  let ?c = "filter (\<lambda>c. \<not> js_ws c) ref"
  have "\<exists>hidden. ?c = hidden @ drop (length ?c - 4) ?c" by (metis append_take_drop_id)
  then show ?thesis using False
    by (intro exI [of _ "drop (length ?c - 4) ?c"]) (auto simp add: maskAccountRef_def Let_def)
qed

definition sample_request :: create_transfer_request where
  "sample_request = \<lparr>tq_idempotencyKey = Some '' k '', tq_requestingUserId = Some ''u1'', tq_fromUserId = Some ''u1'',
     tq_toUserId = Some ''u2'', tq_amount = AmtNumber (js_of_int 5), tq_currency = Some ''vnd'', tq_memo = None,
     tq_otpCode = Some ''1'', tq_isExternal = None, tq_externalPartner = None, tq_externalAccountNo = None\<rparr>"

theorem validated_transfer_witness:
  "tr_idempotencyKey (projr (validateCreateTransfer sample_request)) = ''k'' \<and>
   0 < tr_amount (projr (validateCreateTransfer sample_request))"
proof -
  have ok: "\<not> isl (validateCreateTransfer sample_request)" by code_simp
  have "tr_idempotencyKey (projr (validateCreateTransfer sample_request)) = ''k''" by code_simp
  then show ?thesis using validated_transfer [of sample_request "projr (validateCreateTransfer sample_request)"] ok by simp
qed

theorem int64_amounts_accepted_witness:
  "positive_integer (normalizeAmount (AmtInt64 (int64_of 2147483647))) \<and>
   \<not> positive_integer (normalizeAmount (AmtInt64 (int64_of 2147483648)))"
  using int64_amounts_accepted [of 2147483647] int64_amounts_accepted [of 2147483648] by auto

end
