(* ===== verification/Tx_Outbox.thy ===== *)
theory Tx_Outbox
  imports Tx_Validation
begin

text \<open>
  The transactional outbox (\<^verbatim>\<open>events/transaction-outbox.service.ts\<close>) and the Kafka
  producer it feeds (\<^verbatim>\<open>events/transaction-event-producer.service.ts\<close>). The broker is the
  parameter \<open>send\<close>: it accepts a message or fails with an error text. The clock and the random
  number of a method are arguments; within one method every reading of the clock is the same.
  The workers of a batch handle different rows, so a batch is handled one row after the other.
\<close>

section \<open>Configuration\<close>

record outbox_config =
  oc_pollIntervalMs :: int
  oc_batchSize :: int
  oc_workers :: int
  oc_leaseMs :: int
  oc_maxRetries :: int
  oc_initialBackoffMs :: int
  oc_maxBackoffMs :: int

definition outbox_toInt :: "string option \<Rightarrow> int \<Rightarrow> int" where
  "outbox_toInt raw fallback =
     (let n = (case raw of None \<Rightarrow> JsNaN | Some s \<Rightarrow> js_Number s)
      in if js_isFinite n \<and> js_gt n (js_of_int 0) then js_int (js_floor n) else fallback)"

definition outbox_config_of :: "(string \<Rightarrow> string option) \<Rightarrow> outbox_config" where
  "outbox_config_of cfg =
     \<lparr>oc_pollIntervalMs = outbox_toInt (cfg ''OUTBOX_POLL_INTERVAL_MS'') 500,
      oc_batchSize = outbox_toInt (cfg ''OUTBOX_BATCH_SIZE'') 200,
      oc_workers = outbox_toInt (cfg ''OUTBOX_WORKERS'') 10,
      oc_leaseMs = outbox_toInt (cfg ''OUTBOX_LEASE_MS'') 30000,
      oc_maxRetries = max 0 (outbox_toInt (cfg ''OUTBOX_MAX_RETRIES'') 15),
      oc_initialBackoffMs = outbox_toInt (cfg ''OUTBOX_INITIAL_BACKOFF_MS'') 500,
      oc_maxBackoffMs = outbox_toInt (cfg ''OUTBOX_MAX_BACKOFF_MS'') 60000\<rparr>"

section \<open>Operations\<close>

record kafka_message =
  km_topic :: string
  km_key :: string
  km_value :: event_payload
  km_eventTypeHeader :: string

definition publish_message :: "string \<Rightarrow> event_payload \<Rightarrow> kafka_message" where
  "publish_message topic event =
     \<lparr>km_topic = topic,
      km_key = (if ep_transactionId event \<noteq> [] then ep_transactionId event
                else if ep_eventType event \<noteq> [] then ep_eventType event else ''unknown''),
      km_value = event,
      km_eventTypeHeader = (if ep_eventType event \<noteq> [] then ep_eventType event else ''transaction.updated'')\<rparr>"

definition enqueue :: "int \<Rightarrow> string \<Rightarrow> string \<Rightarrow> string \<Rightarrow> event_payload \<Rightarrow> db \<Rightarrow> db" where
  "enqueue now aggregateType aggregateId eventType payload d =
     (let e = \<lparr>ob_id = d_uuid d (d_seq d), ob_aggregateType = aggregateType,
               ob_aggregateId = aggregateId, ob_eventType = eventType, ob_payload = payload,
               ob_status = OB_PENDING, ob_attempts = 0, ob_nextAttemptAt = now,
               ob_leasedUntil = None, ob_lastError = None, ob_publishedAt = None, ob_createdAt = now\<rparr>
      in d\<lparr>d_outbox := d_outbox d @ [e], d_seq := Suc (d_seq d)\<rparr>)"

definition outbox_due :: "int \<Rightarrow> outbox_event \<Rightarrow> bool" where
  "outbox_due now e =
     (ob_status e = OB_PENDING \<and> ob_nextAttemptAt e \<le> now \<and>
      (case ob_leasedUntil e of None \<Rightarrow> True | Some l \<Rightarrow> l \<le> now))"

definition outbox_lease :: "int \<Rightarrow> int \<Rightarrow> outbox_event \<Rightarrow> outbox_event" where
  "outbox_lease now leaseUntil e = e\<lparr>ob_leasedUntil := Some leaseUntil\<rparr>"

definition claimDueEvents :: "outbox_config \<Rightarrow> int \<Rightarrow> int \<Rightarrow> db \<Rightarrow> string list \<times> db" where
  "claimDueEvents cfg limit now d =
     (let due = select_due (outbox_due now) ob_nextAttemptAt (nat (max 1 limit)) (d_outbox d)
      in (map ob_id due,
          d\<lparr>d_outbox := claim_rows ob_id (outbox_lease now (now + oc_leaseMs cfg)) due (d_outbox d)\<rparr>))"

definition outbox_capped :: "outbox_config \<Rightarrow> int \<Rightarrow> int" where
  "outbox_capped cfg attempts =
     min (oc_initialBackoffMs cfg * 2 ^ nat (max 0 (attempts - 1))) (oc_maxBackoffMs cfg)"

definition outbox_computeNextAttemptAt :: "outbox_config \<Rightarrow> int \<Rightarrow> rat \<Rightarrow> int \<Rightarrow> int" where
  "outbox_computeNextAttemptAt cfg now random attempts =
     (let capped = outbox_capped cfg attempts
      in now + capped + \<lfloor>of_int capped * random * (1 / 5)\<rfloor>)"

text \<open>The update of one claimed event, given the broker's answer for its message.\<close>

definition publish_outcome ::
    "outbox_config \<Rightarrow> int \<Rightarrow> rat \<Rightarrow> string + unit \<Rightarrow> outbox_event \<Rightarrow> outbox_event" where
  "publish_outcome cfg now random answer e =
     (case answer of
        Inr _ \<Rightarrow> e\<lparr>ob_status := OB_PUBLISHED, ob_publishedAt := Some now, ob_leasedUntil := None,
                    ob_lastError := None\<rparr>
      | Inl msg \<Rightarrow>
          let attempts = max 0 (ob_attempts e) + 1;
              e' = e\<lparr>ob_attempts := attempts, ob_leasedUntil := None, ob_lastError := Some (take 1024 msg)\<rparr>
          in if oc_maxRetries cfg < attempts then e'\<lparr>ob_status := OB_FAILED\<rparr>
             else e'\<lparr>ob_nextAttemptAt := outbox_computeNextAttemptAt cfg now random attempts\<rparr>)"

definition publishClaimedEvent ::
    "outbox_config \<Rightarrow> (kafka_message \<Rightarrow> string + unit) \<Rightarrow> string \<Rightarrow> int \<Rightarrow> rat \<Rightarrow> string \<Rightarrow> db \<Rightarrow> db" where
  "publishClaimedEvent cfg send topic now random eid d =
     (case find_row (\<lambda>e. ob_id e = eid) (d_outbox d) of None \<Rightarrow> d
      | Some e \<Rightarrow>
          if ob_status e \<noteq> OB_PENDING then d
          else (case ob_leasedUntil e of None \<Rightarrow> d
                | Some l \<Rightarrow>
                    if l < now then d
                    else d\<lparr>d_outbox := save_row ob_id
                           (publish_outcome cfg now random (send (publish_message topic (ob_payload e))) e)
                           (d_outbox d)\<rparr>))"

definition dispatchTick ::
    "outbox_config \<Rightarrow> (kafka_message \<Rightarrow> string + unit) \<Rightarrow> string \<Rightarrow> int \<Rightarrow> rat \<Rightarrow> bool \<Rightarrow> db \<Rightarrow> db" where
  "dispatchTick cfg send topic now random running d =
     (if running then d
      else let (claimedIds, d1) = claimDueEvents cfg (oc_batchSize cfg) now d
           in fold (\<lambda>chunk. fold (publishClaimedEvent cfg send topic now random) chunk)
                (chunks (nat (max 1 (oc_workers cfg))) claimedIds) d1)"

section \<open>The contracts the outbox meets\<close>

interpretation ob_lease: lease_queue ob_id outbox_due outbox_lease
  by unfold_locales (auto simp add: outbox_due_def outbox_lease_def)

lemma outbox_capped_mono:
  "0 \<le> outbox_capped c n \<Longrightarrow> n \<le> m \<Longrightarrow> outbox_capped c n \<le> outbox_capped c m"
  unfolding outbox_capped_def by (rule capped_doubling_mono)

interpretation ob_backoff: backoff_policy outbox_computeNextAttemptAt outbox_capped oc_maxBackoffMs "1 / 5"
  by unfold_locales
    (simp_all add: outbox_computeNextAttemptAt_def Let_def outbox_capped_mono, simp_all add: outbox_capped_def)

section \<open>The life of an event\<close>

definition event_ok :: "outbox_config \<Rightarrow> outbox_event \<Rightarrow> bool" where
  "event_ok cfg e =
     (0 \<le> ob_attempts e \<and>
      (case ob_status e of
         OB_PENDING \<Rightarrow> ob_attempts e \<le> oc_maxRetries cfg
       | OB_PUBLISHED \<Rightarrow> ob_attempts e \<le> oc_maxRetries cfg \<and> ob_publishedAt e \<noteq> None \<and> ob_leasedUntil e = None
       | OB_FAILED \<Rightarrow> ob_attempts e = oc_maxRetries cfg + 1 \<and> ob_leasedUntil e = None))"

definition outbox_ok :: "outbox_config \<Rightarrow> db \<Rightarrow> bool" where
  "outbox_ok cfg d =
     (inj (d_uuid d) \<and> distinct (map ob_id (d_outbox d)) \<and>
      (\<forall>e\<in>set (d_outbox d). event_ok cfg e \<and> ob_id e \<in> d_uuid d ` {..<d_seq d}))"

text \<open>
  The outbox as a transition system: any enqueue, claim or publish, in any order, at any time, with
  any answer of the broker. The other tables may change between the steps as long as they leave the
  outbox rows alone and only consume uuids.
\<close>

inductive outbox_step :: "outbox_config \<Rightarrow> db \<Rightarrow> db \<Rightarrow> bool" for cfg :: outbox_config where
  enq: "outbox_step cfg d (enqueue now atype aid etype payload d)"
| claim: "outbox_step cfg d (snd (claimDueEvents cfg limit now d))"
| publish: "outbox_step cfg d (publishClaimedEvent cfg send topic now random eid d)"
| other: "d_outbox d' = d_outbox d \<Longrightarrow> d_uuid d' = d_uuid d \<Longrightarrow> d_seq d \<le> d_seq d' \<Longrightarrow> outbox_step cfg d d'"

definition row_publish ::
    "outbox_config \<Rightarrow> (kafka_message \<Rightarrow> string + unit) \<Rightarrow> string \<Rightarrow> int \<Rightarrow> rat \<Rightarrow> outbox_event \<Rightarrow> outbox_event" where
  "row_publish cfg send topic now random e =
     (if ob_status e = OB_PENDING \<and> (case ob_leasedUntil e of None \<Rightarrow> False | Some l \<Rightarrow> now \<le> l)
      then publish_outcome cfg now random (send (publish_message topic (ob_payload e))) e else e)"

lemma ob_id_publish_outcome [simp]: "ob_id (publish_outcome cfg now random a e) = ob_id e"
  by (auto simp add: publish_outcome_def Let_def split: sum.splits)

lemma ob_leasedUntil_publish_outcome [simp]: "ob_leasedUntil (publish_outcome cfg now random a e) = None"
  by (auto simp add: publish_outcome_def Let_def split: sum.splits)

lemma ob_id_row_publish [simp]: "ob_id (row_publish cfg send topic now random e) = ob_id e"
  by (simp add: row_publish_def)

lemma row_publish_idem [simp]:
  "row_publish cfg send topic now random (row_publish cfg send topic now random e) =
   row_publish cfg send topic now random e"
  by (auto simp add: row_publish_def)

lemma event_ok_publish_outcome:
  "0 \<le> oc_maxRetries cfg \<Longrightarrow> ob_status e = OB_PENDING \<Longrightarrow> event_ok cfg e \<Longrightarrow>
   event_ok cfg (publish_outcome cfg now random a e)"
  by (auto simp add: event_ok_def publish_outcome_def Let_def split: sum.splits)

lemma event_ok_row_publish:
  "0 \<le> oc_maxRetries cfg \<Longrightarrow> event_ok cfg e \<Longrightarrow> event_ok cfg (row_publish cfg send topic now random e)"
  by (auto simp add: row_publish_def intro: event_ok_publish_outcome)

lemma publishClaimedEvent_map:
  assumes "distinct (map ob_id (d_outbox d))"
  shows "publishClaimedEvent cfg send topic now random eid d =
    d\<lparr>d_outbox := map (\<lambda>e. if ob_id e = eid then row_publish cfg send topic now random e else e) (d_outbox d)\<rparr>"
proof (cases "find_row (\<lambda>e. ob_id e = eid) (d_outbox d)")
  case None
  then have "map (\<lambda>e. if ob_id e = eid then row_publish cfg send topic now random e else e) (d_outbox d) = d_outbox d"
    by (auto simp add: find_row_None_iff intro: map_idI)
  with None show ?thesis by (simp add: publishClaimedEvent_def)
next
  case (Some e)
  let ?f = "row_publish cfg send topic now random"
  have "ob_id e = eid" using find_row_SomeD [OF Some] by simp
  then have *: "save_row ob_id (?f e) (d_outbox d) = map (\<lambda>e. if ob_id e = eid then ?f e else e) (d_outbox d)"
    by (intro save_row_map [OF assms Some]) auto
  have "publishClaimedEvent cfg send topic now random eid d =
      d\<lparr>d_outbox := save_row ob_id (?f e) (d_outbox d)\<rparr>"
  proof (cases "?f e = e")
    case True
    have "save_row ob_id e (d_outbox d) = map (\<lambda>e. e) (d_outbox d)"
      using save_row_map [OF assms Some \<open>ob_id e = eid\<close>, of "\<lambda>x. x"] by simp
    then show ?thesis using True Some
      by (auto simp add: publishClaimedEvent_def row_publish_def not_less split: option.splits if_splits)
  next
    case False
    then show ?thesis using Some
      by (auto simp add: publishClaimedEvent_def row_publish_def split: option.splits if_splits)
  qed
  with * show ?thesis by simp
qed

lemma fold_publishClaimedEvent:
  assumes "distinct (map ob_id (d_outbox d))"
  shows "fold (publishClaimedEvent cfg send topic now random) ids d =
    d\<lparr>d_outbox := map (\<lambda>e. if ob_id e \<in> set ids then row_publish cfg send topic now random e else e) (d_outbox d)\<rparr>"
  using assms
proof (induction ids arbitrary: d)
  case Nil
  then show ?case by simp
next
  case (Cons i ids)
  let ?d1 = "publishClaimedEvent cfg send topic now random i d"
  have "map ob_id (d_outbox ?d1) = map ob_id (d_outbox d)"
    by (simp add: publishClaimedEvent_map [OF Cons.prems])
  with Cons.prems have "distinct (map ob_id (d_outbox ?d1))" by simp
  from Cons.IH [OF this] show ?case
    by (simp add: publishClaimedEvent_map [OF Cons.prems])
qed

lemma outbox_ok_step:
  assumes "0 \<le> oc_maxRetries cfg" and "outbox_ok cfg d" and "outbox_step cfg d d'"
  shows "outbox_ok cfg d'"
  using assms(3,2)
proof (cases rule: outbox_step.cases)
  case (enq now atype aid etype payload)
  have "d_uuid d (d_seq d) \<notin> d_uuid d ` {..<d_seq d}"
    using assms(2) by (auto simp add: outbox_ok_def inj_eq)
  then show ?thesis
    using assms(1,2) unfolding enq outbox_ok_def enqueue_def Let_def
    by (auto simp add: event_ok_def lessThan_Suc)
next
  case (claim limit now)
  let ?n = "nat (max 1 limit)"
  have dist: "distinct (map ob_id (d_outbox d))" using assms(2) by (simp add: outbox_ok_def)
  have "ob_status e = OB_PENDING"
    if "e \<in> set (d_outbox d)"
      and "ob_id e \<in> ob_id ` set (select_due (outbox_due now) ob_nextAttemptAt ?n (d_outbox d))" for e
    using selected_row [OF dist that] by (simp add: outbox_due_def)
  then have "event_ok cfg e \<and> ob_id e \<in> d_uuid d ` {..<d_seq d}" if "e \<in> set (d_outbox d')" for e
    using assms(2) that unfolding claim claimDueEvents_def outbox_ok_def
    by (auto simp add: Let_def claim_rows_def event_ok_def outbox_lease_def split: if_splits) metis
  moreover have "map ob_id (d_outbox d') = map ob_id (d_outbox d)" and "d_uuid d' = d_uuid d" and "d_seq d' = d_seq d"
    unfolding claim claimDueEvents_def by (simp_all add: Let_def ob_lease.claim_keeps_keys)
  ultimately show ?thesis using assms(2) by (simp add: outbox_ok_def)
next
  case (publish send topic now random eid)
  have "distinct (map ob_id (d_outbox d))" using assms(2) by (simp add: outbox_ok_def)
  then show ?thesis unfolding publish using assms(1,2)
    by (auto simp add: outbox_ok_def publishClaimedEvent_map comp_def if_distrib [of ob_id]
        intro!: event_ok_row_publish cong: if_cong)
next
  case other
  then show ?thesis using assms(2) by (fastforce simp add: outbox_ok_def)
qed

lemma outbox_config_retries [simp]: "0 \<le> oc_maxRetries (outbox_config_of env)"
  by (simp add: outbox_config_of_def)

definition outbox_init :: "db \<Rightarrow> bool" where
  "outbox_init d = (d_outbox d = [] \<and> inj (d_uuid d))"

lemma outbox_ok_init: "outbox_init d \<Longrightarrow> outbox_ok cfg d"
  by (simp add: outbox_init_def outbox_ok_def)

interpretation ob_sys: invariant_system outbox_init "outbox_step (outbox_config_of env)"
  "outbox_ok (outbox_config_of env)" for env
  by unfold_locales (auto intro: outbox_ok_init outbox_ok_step [OF outbox_config_retries])

lemma outbox_terminal_step:
  assumes "outbox_ok cfg d" and "outbox_step cfg d d'" and "e \<in> set (d_outbox d)"
    and "ob_status e \<noteq> OB_PENDING"
  shows "e \<in> set (d_outbox d')"
  using assms(2)
proof (cases rule: outbox_step.cases)
  case (claim limit now)
  have dist: "distinct (map ob_id (d_outbox d))" using assms(1) by (simp add: outbox_ok_def)
  have "ob_id e \<notin> ob_id ` set (select_due (outbox_due now) ob_nextAttemptAt (nat (max 1 limit)) (d_outbox d))"
    (is "_ \<notin> ?S")
  proof
    assume "ob_id e \<in> ?S"
    from selected_row [OF dist assms(3) this] show False
      using assms(4) by (simp add: outbox_due_def)
  qed
  then show ?thesis using assms(3)
    unfolding claim claimDueEvents_def by (force simp add: Let_def claim_rows_def)
next
  case (publish send topic now random eid)
  have "row_publish cfg send topic now random e = e" using assms(4) by (simp add: row_publish_def)
  then show ?thesis using assms(1,3)
    unfolding publish by (force simp add: outbox_ok_def publishClaimedEvent_map)
qed (use assms(3) in \<open>auto simp add: enqueue_def Let_def\<close>)

lemma claimDueEvents_ids:
  "set (fst (claimDueEvents cfg limit now d)) =
   ob_id ` set (select_due (outbox_due now) ob_nextAttemptAt (nat (max 1 limit)) (d_outbox d))"
  by (simp add: claimDueEvents_def Let_def)

section \<open>Properties\<close>

text \<open>
  Every event the dispatcher can ever hold is within its life cycle: a pending or published event
  has failed at most maxRetries times, a failed one exactly maxRetries + 1 times, and an event that
  left the pending state holds no lease. This is so after any interleaving of enqueues, claims and
  publishes, whatever the broker answers.
\<close>

theorem outbox_event_lifecycle:
  assumes "reach outbox_init (outbox_step (outbox_config_of env)) d"
    and "e \<in> set (d_outbox d)"
  shows "event_ok (outbox_config_of env) e"
  using ob_sys.reach_inv [OF assms(1)] assms(2) by (simp add: outbox_ok_def)

text \<open>
  A published or failed event is final: no enqueue, claim or publish ever changes its row again.
\<close>

theorem outbox_final_states:
  assumes "reach outbox_init (outbox_step (outbox_config_of env)) d"
    and "outbox_step (outbox_config_of env) d d'"
    and "e \<in> set (d_outbox d)" and "ob_status e \<noteq> OB_PENDING"
  shows "e \<in> set (d_outbox d')"
  using outbox_terminal_step [OF ob_sys.reach_inv [OF assms(1)] assms(2-4)] .

text \<open>
  Leases exclude double work: a claim made before the lease of an earlier claim runs out never
  returns an event of the earlier claim.
\<close>

theorem outbox_claims_disjoint:
  assumes "claimDueEvents cfg limit now d = (ids, d1)" and "claimDueEvents cfg limit' now' d1 = (ids', d2)"
    and "now' < now + oc_leaseMs cfg"
  shows "set ids \<inter> set ids' = {}"
proof -
  let ?sel = "select_due (outbox_due now) ob_nextAttemptAt (nat (max 1 limit)) (d_outbox d)"
  have "d_outbox d1 = claim_rows ob_id (outbox_lease now (now + oc_leaseMs cfg)) ?sel (d_outbox d)"
    using assms(1) by (auto simp add: claimDueEvents_def Let_def)
  moreover have "set ids = ob_id ` set ?sel"
    and "set ids' = ob_id ` set (select_due (outbox_due now') ob_nextAttemptAt (nat (max 1 limit')) (d_outbox d1))"
    using claimDueEvents_ids assms(1,2) by (metis fst_conv)+
  ultimately show ?thesis
    using ob_lease.claims_disjoint [OF assms(3)] by simp
qed

text \<open>
  One tick delivers: when the broker accepts every message, each due event among the first
  batchSize in the order of their due times is published by the tick.
\<close>

theorem outbox_tick_publishes:
  assumes "outbox_ok cfg d" and "0 \<le> oc_leaseMs cfg"
    and "e \<in> set (select_due (outbox_due now) ob_nextAttemptAt (nat (max 1 (oc_batchSize cfg))) (d_outbox d))"
  shows "\<exists>e'\<in>set (d_outbox (dispatchTick cfg (\<lambda>_. Inr ()) topic now random False d)).
    ob_id e' = ob_id e \<and> ob_status e' = OB_PUBLISHED \<and> ob_publishedAt e' = Some now"
proof -
  let ?sel = "select_due (outbox_due now) ob_nextAttemptAt (nat (max 1 (oc_batchSize cfg))) (d_outbox d)"
  let ?until = "now + oc_leaseMs cfg"
  let ?d1 = "snd (claimDueEvents cfg (oc_batchSize cfg) now d)"
  let ?l = "outbox_lease now ?until e"
  let ?p = "row_publish cfg (\<lambda>_. Inr ()) topic now random"
  have e: "e \<in> set (d_outbox d)" "ob_status e = OB_PENDING"
    using set_select_due [OF assms(3)] by (auto simp add: outbox_due_def)
  have "map ob_id (d_outbox ?d1) = map ob_id (d_outbox d)"
    by (simp add: claimDueEvents_def Let_def ob_lease.claim_keeps_keys)
  then have dist: "distinct (map ob_id (d_outbox ?d1))" using assms(1) by (simp add: outbox_ok_def)
  have l: "?l \<in> set (d_outbox ?d1)"
    using e(1) assms(3) by (force simp add: claimDueEvents_def Let_def claim_rows_def)
  have tick: "dispatchTick cfg (\<lambda>_. Inr ()) topic now random False d =
      fold (publishClaimedEvent cfg (\<lambda>_. Inr ()) topic now random) (map ob_id ?sel) ?d1"
    by (simp add: dispatchTick_def fold_chunks claimDueEvents_def Let_def)
  have "?p ?l \<in> set (d_outbox (dispatchTick cfg (\<lambda>_. Inr ()) topic now random False d))"
    unfolding tick fold_publishClaimedEvent [OF dist] using l assms(3)
    by (auto simp add: outbox_lease_def intro!: image_eqI [of _ _ ?l])
  moreover have "ob_id (?p ?l) = ob_id e" by (simp add: outbox_lease_def)
  moreover have "ob_status (?p ?l) = OB_PUBLISHED \<and> ob_publishedAt (?p ?l) = Some now"
    using e(2) assms(2) by (simp add: row_publish_def outbox_lease_def publish_outcome_def)
  ultimately show ?thesis by blast
qed

text \<open>
  The retry budget is exact: a fresh event whose publishes all fail is still pending after
  maxRetries failures and is failed by the next one.
\<close>

theorem outbox_gives_up:
  assumes "ob_status e = OB_PENDING" and "ob_attempts e = 0" and "0 \<le> oc_maxRetries cfg"
    and "int k \<le> oc_maxRetries cfg + 1"
  shows "ob_attempts ((publish_outcome cfg now random (Inl msg) ^^ k) e) = int k \<and>
    ob_status ((publish_outcome cfg now random (Inl msg) ^^ k) e) =
      (if int k \<le> oc_maxRetries cfg then OB_PENDING else OB_FAILED)"
  using assms(4)
proof (induction k)
  case 0
  then show ?case using assms by simp
next
  case (Suc k)
  then show ?case by (auto simp add: publish_outcome_def [of _ _ _ _ "(_ ^^ _) _"] Let_def)
qed

text \<open>
  The delay before the next attempt lies between the capped exponential delay and one and a
  fifth of the configured maximum, and never shrinks as the attempts grow.
\<close>

theorem outbox_backoff_bounds:
  assumes "0 \<le> random" and "random < 1" and "0 \<le> oc_initialBackoffMs cfg" and "0 \<le> oc_maxBackoffMs cfg"
    and "n \<le> m"
  shows "now + outbox_capped cfg n \<le> outbox_computeNextAttemptAt cfg now random n \<and>
    5 * (outbox_computeNextAttemptAt cfg now random n - now) \<le> 6 * oc_maxBackoffMs cfg \<and>
    outbox_computeNextAttemptAt cfg now random n \<le> outbox_computeNextAttemptAt cfg now random m"
proof -
  have c: "0 \<le> outbox_capped cfg n" using assms(3,4) by (simp add: outbox_capped_def)
  have "5 * (of_int (outbox_computeNextAttemptAt cfg now random n - now) :: rat) \<le>
      6 * of_int (oc_maxBackoffMs cfg)"
    using ob_backoff.next_at_le [OF assms(1,2) c, of now] by (simp add: field_simps)
  then have "(of_int (5 * (outbox_computeNextAttemptAt cfg now random n - now)) :: rat) \<le>
      of_int (6 * oc_maxBackoffMs cfg)"
    by simp
  then have "5 * (outbox_computeNextAttemptAt cfg now random n - now) \<le> 6 * oc_maxBackoffMs cfg"
    by (simp only: of_int_le_iff)
  then show ?thesis
    using ob_backoff.next_at_ge [OF assms(1) c] ob_backoff.next_at_mono [OF assms(1) c assms(5)] by simp
qed

section \<open>Witnesses\<close>

definition outbox_example_config :: outbox_config where
  "outbox_example_config =
     \<lparr>oc_pollIntervalMs = 500, oc_batchSize = 200, oc_workers = 10, oc_leaseMs = 30000,
      oc_maxRetries = 15, oc_initialBackoffMs = 500, oc_maxBackoffMs = 60000\<rparr>"

definition example_payload :: event_payload where
  "example_payload =
     \<lparr>ep_eventType = ''transaction.pending'', ep_transactionId = ''t1'', ep_status = TX_PENDING,
      ep_type = Some TRANSFER, ep_isExternal = Some False, ep_settlementStatus = Some ST_NONE,
      ep_chainStatus = Some CH_PENDING, ep_requestingUserId = ''u1'', ep_fromUserId = ''u1'',
      ep_toUserId = Some ''u2'', ep_amount = 100, ep_currency = ''VND'', ep_memo = None,
      ep_senderBalance = Some 900, ep_receiverBalance = Some 100, ep_createdAt = 1000,
      ep_receiptJson = None\<rparr>"

definition example_event :: outbox_event where
  "example_event =
     \<lparr>ob_id = [], ob_aggregateType = ''TRANSACTION'', ob_aggregateId = ''t1'',
      ob_eventType = ''transaction.pending'', ob_payload = example_payload,
      ob_status = OB_PENDING, ob_attempts = 0, ob_nextAttemptAt = 1000, ob_leasedUntil = None,
      ob_lastError = None, ob_publishedAt = None, ob_createdAt = 1000\<rparr>"

definition unary_uuid :: "nat \<Rightarrow> string" where
  "unary_uuid n = replicate n (CHR ''u'')"

lemma inj_unary_uuid [simp]: "inj unary_uuid"
  by (auto simp add: inj_def unary_uuid_def dest: arg_cong [of _ _ length])

definition empty_db :: db where
  "empty_db = \<lparr>d_wallets = [], d_txs = [], d_ledger = [], d_sources = [], d_outbox = [],
     d_uuid = unary_uuid, d_seq = 0, d_lseq = 0\<rparr>"

definition outbox_example_db :: db where
  "outbox_example_db = enqueue 1000 ''TRANSACTION'' ''t1'' ''transaction.pending'' example_payload empty_db"

lemma outbox_example_outbox: "d_outbox outbox_example_db = [example_event]"
  by (simp add: outbox_example_db_def enqueue_def empty_db_def example_event_def unary_uuid_def)

lemma outbox_example_init: "outbox_init empty_db"
  by (simp add: outbox_init_def empty_db_def)

lemma outbox_example_reach:
  "reach outbox_init (outbox_step (outbox_config_of env)) outbox_example_db"
  unfolding outbox_example_db_def
  by (rule reach.next_state, rule reach.start, rule outbox_example_init, rule outbox_step.enq)

lemma outbox_example_ok: "outbox_ok outbox_example_config outbox_example_db"
  unfolding outbox_example_db_def
  by (rule outbox_ok_step [OF _ outbox_ok_init [OF outbox_example_init] outbox_step.enq])
    (simp add: outbox_example_config_def)

lemma outbox_example_env: "outbox_config_of Map.empty = outbox_example_config"
  by (simp add: outbox_config_of_def outbox_toInt_def outbox_example_config_def js_isFinite_def)

lemma outbox_example_lease: "oc_leaseMs outbox_example_config = 30000"
  by (simp add: outbox_example_config_def)

definition outbox_claimed_db :: db where
  "outbox_claimed_db = snd (claimDueEvents outbox_example_config 200 1000 outbox_example_db)"

definition outbox_published_db :: db where
  "outbox_published_db =
     publishClaimedEvent outbox_example_config (\<lambda>_. Inr ()) ''transaction-events'' 1000 0 [] outbox_claimed_db"

definition published_event :: outbox_event where
  "published_event = example_event\<lparr>ob_status := OB_PUBLISHED, ob_publishedAt := Some 1000\<rparr>"

lemma outbox_example_select:
  "select_due (outbox_due 1000) ob_nextAttemptAt 200 (d_outbox outbox_example_db) = [example_event]"
  by (simp add: select_due_def outbox_example_outbox outbox_due_def example_event_def)

lemma outbox_example_claim:
  "claimDueEvents outbox_example_config 200 1000 outbox_example_db =
     ([[]], outbox_example_db\<lparr>d_outbox := [example_event\<lparr>ob_leasedUntil := Some 31000\<rparr>]\<rparr>)"
  by (simp add: claimDueEvents_def Let_def outbox_example_outbox claim_rows_def
      outbox_lease_def outbox_example_config_def outbox_example_select [unfolded outbox_example_outbox])
    (simp add: example_event_def)

lemma outbox_claimed_outbox: "d_outbox outbox_claimed_db = [example_event\<lparr>ob_leasedUntil := Some 31000\<rparr>]"
  by (simp add: outbox_claimed_db_def outbox_example_claim)

lemma outbox_published_outbox: "d_outbox outbox_published_db = [published_event]"
  by (simp add: outbox_published_db_def publishClaimedEvent_def outbox_claimed_outbox row_simps
      publish_outcome_def published_event_def save_row_def example_event_def)

lemma outbox_published_reach:
  "reach outbox_init (outbox_step (outbox_config_of Map.empty)) outbox_published_db"
  unfolding outbox_published_db_def outbox_claimed_db_def outbox_example_env [symmetric]
  by (rule reach.next_state, rule reach.next_state, rule outbox_example_reach,
      rule outbox_step.claim, rule outbox_step.publish)

theorem outbox_event_lifecycle_witness:
  "event_ok (outbox_config_of Map.empty) published_event"
  using outbox_event_lifecycle [OF outbox_published_reach] by (simp add: outbox_published_outbox)

theorem outbox_final_states_witness:
  "published_event \<in> set (d_outbox (publishClaimedEvent (outbox_config_of Map.empty) (\<lambda>_. Inl ''down'')
     ''transaction-events'' 2000 0 [] outbox_published_db))"
  by (rule outbox_final_states [OF outbox_published_reach outbox_step.publish])
    (simp_all add: outbox_published_outbox published_event_def)

theorem outbox_claims_disjoint_witness:
  "set (fst (claimDueEvents outbox_example_config 200 1000 outbox_example_db)) \<inter>
   set (fst (claimDueEvents outbox_example_config 200 30999 outbox_claimed_db)) = {} \<and>
   fst (claimDueEvents outbox_example_config 200 1000 outbox_example_db) = [[]]"
  using outbox_claims_disjoint [of outbox_example_config 200 1000 outbox_example_db _ _ 200 30999,
      OF prod.collapse [symmetric] prod.collapse [symmetric]]
  by (simp add: outbox_claimed_db_def outbox_example_claim outbox_example_lease)

theorem outbox_tick_publishes_witness:
  "\<exists>e'\<in>set (d_outbox (dispatchTick outbox_example_config (\<lambda>_. Inr ()) ''transaction-events'' 1000 0 False
      outbox_example_db)).
     ob_id e' = ob_id example_event \<and> ob_status e' = OB_PUBLISHED \<and> ob_publishedAt e' = Some 1000"
  by (rule outbox_tick_publishes [OF outbox_example_ok])
    (simp_all add: outbox_example_config_def outbox_example_select)

theorem outbox_gives_up_witness:
  "ob_status ((publish_outcome outbox_example_config 1000 0 (Inl ''down'') ^^ 15) example_event) = OB_PENDING \<and>
   ob_status ((publish_outcome outbox_example_config 1000 0 (Inl ''down'') ^^ 16) example_event) = OB_FAILED"
  using outbox_gives_up [of example_event outbox_example_config 15 1000 0 "''down''"]
    outbox_gives_up [of example_event outbox_example_config 16 1000 0 "''down''"]
  by (simp add: example_event_def outbox_example_config_def)

theorem outbox_backoff_bounds_witness:
  "1000 + outbox_capped outbox_example_config 3 \<le> outbox_computeNextAttemptAt outbox_example_config 1000 (1 / 2) 3 \<and>
   5 * (outbox_computeNextAttemptAt outbox_example_config 1000 (1 / 2) 3 - 1000) \<le> 6 * 60000 \<and>
   outbox_computeNextAttemptAt outbox_example_config 1000 (1 / 2) 3 \<le>
     outbox_computeNextAttemptAt outbox_example_config 1000 (1 / 2) 20"
  using outbox_backoff_bounds [of "1 / 2" outbox_example_config 3 20 1000]
  by (simp add: outbox_example_config_def)

end
