(* ===== verification/Tx_Env.thy ===== *)
theory Tx_Env
  imports Tx_Outbox
begin

text \<open>
  What the methods of \<^verbatim>\<open>transactions.service.ts\<close> share: the messages of the two remote
  services it calls, the surroundings of a request (clock, random numbers, remote services, the other
  requests that run meanwhile), the events it writes to the outbox and the answer it gives.
\<close>

section \<open>Remote services\<close>

record initiate_request =
  iq_transactionId :: string
  iq_partnerCode :: string
  iq_accountNo :: string
  iq_amount :: int
  iq_currency :: string
  iq_note :: "string option"
  iq_transferType :: string

record initiate_response =
  ir_status :: string
  ir_partnerRef :: string
  ir_partnerMessage :: string

record anchor_request =
  aq_transactionId :: string
  aq_fromUserId :: string
  aq_toUserId :: string
  aq_amount :: int
  aq_memo :: string
  aq_internalRef :: string
  aq_settlementRef :: string
  aq_timestamp :: int
  aq_nonce :: string
  aq_idempotencyKey :: string
  aq_riskFlag :: string

record anchor_response =
  ar_chainStatus :: string
  ar_txId :: string
  ar_blockNumber :: int
  ar_commitmentHash :: string
  ar_receiptJson :: string

record chain_client =
  cc_anchorTransfer :: "anchor_request \<Rightarrow> string + anchor_response"
  cc_getReceipt :: "string \<Rightarrow> string + anchor_response"

text \<open>
  The surroundings of one request. A remote call fails with a message (an error of the callee, of the
  transport, or the timeout) or answers; a client that is not there yet is None. Between two database
  operations of a request that are not in one unit of work, other requests may commit: \<open>e_others k\<close>
  is what they do to the store in the k-th such gap. SHA-256 and the collation that \<open>localeCompare\<close>
  uses are given. The readings of the clock within one request are the same.
\<close>

record svc_env =
  e_cfg :: tx_config
  e_now :: int
  e_random :: rat
  e_nonce :: string
  e_sha256 :: "string \<Rightarrow> string"
  e_localeLe :: "string \<Rightarrow> string \<Rightarrow> bool"
  e_outside :: "(initiate_request \<Rightarrow> string + initiate_response) option"
  e_chain :: "chain_client option"
  e_others :: "nat \<Rightarrow> db \<Rightarrow> db"

definition gap :: "svc_env \<Rightarrow> nat \<Rightarrow> unit db_handler" where
  "gap env k = interfere (e_others env k)"

section \<open>Events\<close>

definition resolveEventBalances :: "transaction \<Rightarrow> db \<Rightarrow> int option \<times> int option" where
  "resolveEventBalances tx d =
     (if tx_fromUserId tx = [] then None
      else map_option w_balance (find_wallet d (tx_fromUserId tx) (tx_currency tx)),
      case tx_toUserId tx of None \<Rightarrow> None
      | Some u \<Rightarrow> if u = [] then None else map_option w_balance (find_wallet d u (tx_currency tx)))"

definition event_type_of :: "transaction_status \<Rightarrow> string" where
  "event_type_of st =
     (if st = TX_FAILED then ''transaction.failed''
      else if st = TX_COMPLETED then ''transaction.completed'' else ''transaction.pending'')"

definition enqueueTransactionEvent :: "svc_env \<Rightarrow> transaction \<Rightarrow> db \<Rightarrow> db" where
  "enqueueTransactionEvent env tx d =
     (let (senderBalance, receiverBalance) = resolveEventBalances tx d;
          eventType = event_type_of (tx_status tx)
      in enqueue (e_now env) ''TRANSACTION'' (tx_id tx) eventType
           \<lparr>ep_eventType = eventType, ep_transactionId = tx_id tx, ep_status = tx_status tx,
            ep_type = Some (tx_type tx), ep_isExternal = Some (tx_isExternal tx),
            ep_settlementStatus = Some (tx_settlementStatus tx), ep_chainStatus = Some (tx_chainStatus tx),
            ep_requestingUserId = tx_requestingUserId tx, ep_fromUserId = tx_fromUserId tx,
            ep_toUserId = tx_toUserId tx, ep_amount = tx_amount tx, ep_currency = tx_currency tx,
            ep_memo = tx_memo tx, ep_senderBalance = senderBalance, ep_receiverBalance = receiverBalance,
            ep_createdAt = tx_createdAt tx, ep_receiptJson = tx_receiptJson tx\<rparr> d)"

definition enqueueChainCompletedEvent :: "svc_env \<Rightarrow> transaction \<Rightarrow> db \<Rightarrow> db" where
  "enqueueChainCompletedEvent env tx d =
     enqueue (e_now env) ''TRANSACTION'' (tx_id tx) ''transaction.chain.completed''
       \<lparr>ep_eventType = ''transaction.chain.completed'', ep_transactionId = tx_id tx, ep_status = tx_status tx,
        ep_type = None, ep_isExternal = None, ep_settlementStatus = None, ep_chainStatus = None,
        ep_requestingUserId = tx_requestingUserId tx, ep_fromUserId = tx_fromUserId tx,
        ep_toUserId = tx_toUserId tx, ep_amount = tx_amount tx, ep_currency = tx_currency tx,
        ep_memo = tx_memo tx, ep_senderBalance = None, ep_receiverBalance = None,
        ep_createdAt = tx_createdAt tx, ep_receiptJson = tx_receiptJson tx\<rparr> d"

section \<open>Answers\<close>

record transfer_response =
  rs_transactionId :: string
  rs_type :: transaction_type
  rs_status :: transaction_status
  rs_settlementStatus :: settlement_status
  rs_senderBalance :: int
  rs_receiverBalance :: int
  rs_chainStatus :: chain_status
  rs_receiptJson :: string
  rs_fromUserId :: string
  rs_toUserId :: string
  rs_errorCode :: string
  rs_errorMessage :: string
  rs_createdAt :: int

definition mapTransferResponse :: "transaction \<Rightarrow> int \<Rightarrow> int \<Rightarrow> transfer_response" where
  "mapTransferResponse tx senderBalance receiverBalance =
     \<lparr>rs_transactionId = tx_id tx, rs_type = tx_type tx, rs_status = tx_status tx,
      rs_settlementStatus = tx_settlementStatus tx, rs_senderBalance = senderBalance,
      rs_receiverBalance = receiverBalance, rs_chainStatus = tx_chainStatus tx,
      rs_receiptJson = coalesce (tx_receiptJson tx) [], rs_fromUserId = tx_fromUserId tx,
      rs_toUserId = coalesce (tx_toUserId tx) [], rs_errorCode = coalesce (tx_errorCode tx) [],
      rs_errorMessage = coalesce (tx_errorMessage tx) [], rs_createdAt = tx_createdAt tx\<rparr>"

section \<open>The fixed part of a transaction\<close>

text \<open>The columns that are written once, when the row is inserted.\<close>

definition tx_core ::
    "transaction \<Rightarrow> (string \<times> string \<times> transaction_type \<times> bool) \<times> (string \<times> string \<times> string option) \<times> int \<times> string \<times> int" where
  "tx_core t =
     ((tx_id t, tx_idempotencyKey t, tx_type t, tx_isExternal t),
      (tx_requestingUserId t, tx_fromUserId t, tx_toUserId t), tx_amount t, tx_currency t, tx_createdAt t)"

lemma tx_coreD:
  assumes "tx_core t = tx_core u"
  shows "tx_id t = tx_id u" "tx_idempotencyKey t = tx_idempotencyKey u" "tx_type t = tx_type u"
    "tx_isExternal t = tx_isExternal u" "tx_requestingUserId t = tx_requestingUserId u"
    "tx_fromUserId t = tx_fromUserId u" "tx_toUserId t = tx_toUserId u" "tx_amount t = tx_amount u"
    "tx_currency t = tx_currency u" "tx_createdAt t = tx_createdAt u"
  using assms by (simp_all add: tx_core_def)

section \<open>Events leave the business tables alone\<close>

text \<open>The part of the store that moves money: wallets, transactions, ledger and funding sources.\<close>

definition business :: "db \<Rightarrow> wallet list \<times> transaction list \<times> ledger_entry list \<times> funding_source list" where
  "business d = (d_wallets d, d_txs d, d_ledger d, d_sources d)"

lemma enqueue_fields [simp]:
  "d_wallets (enqueue now a i t p d) = d_wallets d" "d_txs (enqueue now a i t p d) = d_txs d"
  "d_ledger (enqueue now a i t p d) = d_ledger d" "d_sources (enqueue now a i t p d) = d_sources d"
  "d_uuid (enqueue now a i t p d) = d_uuid d" "d_lseq (enqueue now a i t p d) = d_lseq d"
  "d_seq (enqueue now a i t p d) = Suc (d_seq d)"
  by (simp_all add: enqueue_def Let_def)

lemma enqueueTransactionEvent_fields [simp]:
  "d_wallets (enqueueTransactionEvent env tx d) = d_wallets d"
  "d_txs (enqueueTransactionEvent env tx d) = d_txs d"
  "d_ledger (enqueueTransactionEvent env tx d) = d_ledger d"
  "d_sources (enqueueTransactionEvent env tx d) = d_sources d"
  "d_uuid (enqueueTransactionEvent env tx d) = d_uuid d"
  "d_lseq (enqueueTransactionEvent env tx d) = d_lseq d"
  "d_seq (enqueueTransactionEvent env tx d) = Suc (d_seq d)"
  by (simp_all add: enqueueTransactionEvent_def Let_def split: prod.split)

lemma enqueueChainCompletedEvent_fields [simp]:
  "d_wallets (enqueueChainCompletedEvent env tx d) = d_wallets d"
  "d_txs (enqueueChainCompletedEvent env tx d) = d_txs d"
  "d_ledger (enqueueChainCompletedEvent env tx d) = d_ledger d"
  "d_sources (enqueueChainCompletedEvent env tx d) = d_sources d"
  "d_uuid (enqueueChainCompletedEvent env tx d) = d_uuid d"
  "d_lseq (enqueueChainCompletedEvent env tx d) = d_lseq d"
  "d_seq (enqueueChainCompletedEvent env tx d) = Suc (d_seq d)"
  by (simp_all add: enqueueChainCompletedEvent_def)

section \<open>Sample surroundings\<close>

text \<open>The configuration of a service started with no environment variables.\<close>

definition default_tx_config :: tx_config where
  "default_tx_config =
     \<lparr>c_chainRiskHighAmount = js_of_int 50000000, c_chainAsyncEnabled = True, c_chainAsyncPollIntervalMs = 3000,
      c_chainAsyncBatchSize = 200, c_chainAsyncWorkers = 10, c_chainAsyncLeaseMs = 30000,
      c_chainAsyncInitialBackoffMs = 5000, c_chainAsyncMaxBackoffMs = 300000, c_chainAsyncMaxRetries = 0,
      c_chainExternalSourceUserId = ''00000000-0000-0000-0000-000000000001'',
      c_chainExternalSinkUserId = ''00000000-0000-0000-0000-000000000002''\<rparr>"

lemma default_tx_config: "tx_config_of Map.empty = default_tx_config"
  by (simp add: tx_config_of_def default_tx_config_def toInt_def js_simps)

definition anchored_response :: anchor_response where
  "anchored_response =
     \<lparr>ar_chainStatus = ''ANCHORED'', ar_txId = ''c1'', ar_blockNumber = 7, ar_commitmentHash = ''h'', ar_receiptJson = []\<rparr>"

definition example_env :: svc_env where
  "example_env =
     \<lparr>e_cfg = default_tx_config, e_now = 5000, e_random = 1 / 2, e_nonce = ''n'', e_sha256 = (\<lambda>s. s),
      e_localeLe = (\<lambda>a b. True),
      e_outside = Some (\<lambda>_. Inr \<lparr>ir_status = ''SUBMITTED'', ir_partnerRef = ''p1'', ir_partnerMessage = []\<rparr>),
      e_chain = Some \<lparr>cc_anchorTransfer = (\<lambda>_. Inr anchored_response), cc_getReceipt = (\<lambda>_. Inr anchored_response)\<rparr>,
      e_others = (\<lambda>_ d. d)\<rparr>"

definition example_tx :: transaction where
  "example_tx =
     \<lparr>tx_id = ''t1'', tx_idempotencyKey = ''k1'', tx_type = TRANSFER, tx_status = TX_PENDING,
      tx_settlementStatus = ST_NONE, tx_chainStatus = CH_PENDING, tx_requestingUserId = ''u1'',
      tx_fromUserId = ''u1'', tx_toUserId = Some ''u2'', tx_amount = 100, tx_currency = ''VND'', tx_memo = Some [],
      tx_isExternal = False, tx_externalPartner = None, tx_externalAccountNo = None, tx_externalRef = None,
      tx_chainTxId = None, tx_receiptJson = None, tx_chainRetryCount = 0, tx_chainLastAttemptAt = None,
      tx_chainNextAttemptAt = Some 1000, tx_errorCode = None, tx_errorMessage = None, tx_createdAt = 1000\<rparr>"

end
