(* ===== verification/JS_Json.thy ===== *)
theory JS_Json
  imports JS_Values
begin

text \<open>
  JSON values and \<open>JSON.parse\<close>, which the receipt check of the transaction service and the partner
  answers of the outside-payment service go through. An object is the list of its properties in the
  order of their first occurrence; a repeated key keeps its place and takes the last value. The
  parser's fuel is twice the length of the text and two: of two nested calls at least one consumes a character.
  Strings hold the code units up to 255; an escape above them is not representable and is read as a
  syntax error.
\<close>

datatype json =
    JNull
  | JBool bool
  | JNumber js_number
  | JString string
  | JArray "json list"
  | JObject "(string \<times> json) list"

definition obj_set :: "string \<Rightarrow> json \<Rightarrow> (string \<times> json) list \<Rightarrow> (string \<times> json) list" where
  "obj_set k v kvs =
     (if k \<in> set (map fst kvs) then map (\<lambda>(k', v'). (k', if k' = k then v else v')) kvs else kvs @ [(k, v)])"

definition json_prop :: "string \<Rightarrow> json \<Rightarrow> json option" where
  "json_prop k v = (case v of JObject kvs \<Rightarrow> map_of kvs k | _ \<Rightarrow> None)"

definition is_object :: "json \<Rightarrow> bool" where
  "is_object v = (case v of JObject _ \<Rightarrow> True | JArray _ \<Rightarrow> True | _ \<Rightarrow> False)"

text \<open>Truthiness, and \<open>typeof x === 'object'\<close> for a truthy x (arrays are objects).\<close>

definition truthy :: "json \<Rightarrow> bool" where
  "truthy v =
     (case v of JNull \<Rightarrow> False | JBool b \<Rightarrow> b | JNumber n \<Rightarrow> n \<noteq> JsNaN \<and> n \<noteq> JsNum 0
      | JString s \<Rightarrow> s \<noteq> [] | _ \<Rightarrow> True)"

definition json_ws :: "char \<Rightarrow> bool" where
  "json_ws c = (code_unit c \<in> {9, 10, 13, 32})"

definition skip_ws :: "string \<Rightarrow> string" where
  "skip_ws = dropWhile json_ws"

definition json_escape :: "char \<Rightarrow> char option" where
  "json_escape e =
     (if code_unit e \<in> {34, 47, 92} then Some e
      else if e = CHR ''b'' then Some (char_of (8::nat)) else if e = CHR ''f'' then Some (char_of (12::nat))
      else if e = CHR ''n'' then Some (char_of (10::nat)) else if e = CHR ''r'' then Some (char_of (13::nat))
      else if e = CHR ''t'' then Some (char_of (9::nat)) else None)"

fun json_chars :: "nat \<Rightarrow> string \<Rightarrow> (string \<times> string) option" where
  "json_chars 0 s = None"
| "json_chars (Suc n) [] = None"
| "json_chars (Suc n) (c # cs) =
     (if code_unit c = 34 then Some ([], cs)
      else if code_unit c < 32 then None
      else if code_unit c \<noteq> 92 then map_option (\<lambda>(t, r). (c # t, r)) (json_chars n cs)
      else case cs of [] \<Rightarrow> None
        | e # r \<Rightarrow>
            (case json_escape e of
               Some x \<Rightarrow> map_option (\<lambda>(t, r'). (x # t, r')) (json_chars n r)
             | None \<Rightarrow>
                 if e = CHR ''u'' \<and> 4 \<le> length r \<and> list_all (\<lambda>h. digit_value h < 16) (take 4 r) \<and>
                    digits_value 16 (take 4 r) < 256
                 then map_option (\<lambda>(t, r'). (char_of (digits_value 16 (take 4 r)) # t, r')) (json_chars n (drop 4 r))
                 else None))"

text \<open>The longest prefix that is a JSON number, and the rest.\<close>

definition json_number :: "string \<Rightarrow> (json \<times> string) option" where
  "json_number s =
     (let sign = (case s of c # _ \<Rightarrow> if c = CHR ''-'' then [c] else [] | [] \<Rightarrow> []);
          s1 = drop (length sign) s; ip = takeWhile js_digit s1; s2 = dropWhile js_digit s1;
          frac = (case s2 of c # r \<Rightarrow> if c = CHR ''.'' then c # takeWhile js_digit r else [] | [] \<Rightarrow> []);
          s3 = drop (length frac) s2;
          ex = (case s3 of c # r \<Rightarrow>
                  if c = CHR ''e'' \<or> c = CHR ''E''
                  then (case r of d # r' \<Rightarrow>
                          if d = CHR ''+'' \<or> d = CHR ''-'' then c # d # takeWhile js_digit r'
                          else c # takeWhile js_digit r
                        | [] \<Rightarrow> [c])
                  else []
                | [] \<Rightarrow> [])
      in if ip = [] \<or> (length ip > 1 \<and> hd ip = CHR ''0'') \<or> length frac = 1 \<or>
            (ex \<noteq> [] \<and> \<not> js_digit (last ex))
         then None
         else Some (JNumber (js_Number (sign @ ip @ frac @ ex)), drop (length ex) s3))"

definition json_literal :: "string \<Rightarrow> (json \<times> string) option" where
  "json_literal s =
     (if js_startsWith s ''null'' then Some (JNull, drop 4 s)
      else if js_startsWith s ''true'' then Some (JBool True, drop 4 s)
      else if js_startsWith s ''false'' then Some (JBool False, drop 5 s)
      else json_number s)"

fun json_value :: "nat \<Rightarrow> string \<Rightarrow> (json \<times> string) option"
  and json_elements :: "nat \<Rightarrow> string \<Rightarrow> (json list \<times> string) option"
  and json_members :: "nat \<Rightarrow> string \<Rightarrow> (string \<times> json) list \<Rightarrow> ((string \<times> json) list \<times> string) option"
where
  "json_value 0 s = None"
| "json_value (Suc n) s =
     (case skip_ws s of [] \<Rightarrow> None
      | c # r \<Rightarrow>
          if code_unit c = 34 then map_option (\<lambda>(t, r'). (JString t, r')) (json_chars (Suc n) r)
          else if c = CHR ''['' then
            (case skip_ws r of d # r' \<Rightarrow>
               if d = CHR '']'' then Some (JArray [], r')
               else map_option (\<lambda>(vs, r''). (JArray vs, r'')) (json_elements n r)
             | [] \<Rightarrow> None)
          else if c = CHR ''{'' then
            (case skip_ws r of d # r' \<Rightarrow>
               if d = CHR ''}'' then Some (JObject [], r')
               else map_option (\<lambda>(kvs, r''). (JObject kvs, r'')) (json_members n r [])
             | [] \<Rightarrow> None)
          else json_literal (c # r))"
| "json_elements 0 s = None"
| "json_elements (Suc n) s =
     (case json_value n s of None \<Rightarrow> None
      | Some (v, r) \<Rightarrow>
          (case skip_ws r of [] \<Rightarrow> None
           | d # r' \<Rightarrow>
               if d = CHR '']'' then Some ([v], r')
               else if d = CHR '','' then map_option (\<lambda>(vs, r''). (v # vs, r'')) (json_elements n r')
               else None))"
| "json_members 0 s acc = None"
| "json_members (Suc n) s acc =
     (case skip_ws s of [] \<Rightarrow> None
      | q # r \<Rightarrow>
          if code_unit q \<noteq> 34 then None
          else case json_chars (Suc n) r of None \<Rightarrow> None
            | Some (k, r1) \<Rightarrow>
                (case skip_ws r1 of [] \<Rightarrow> None
                 | col # r2 \<Rightarrow>
                     if col \<noteq> CHR '':'' then None
                     else case json_value n r2 of None \<Rightarrow> None
                       | Some (v, r3) \<Rightarrow>
                           (case skip_ws r3 of [] \<Rightarrow> None
                            | d # r4 \<Rightarrow>
                                if d = CHR ''}'' then Some (obj_set k v acc, r4)
                                else if d = CHR '','' then json_members n r4 (obj_set k v acc)
                                else None)))"

definition json_parse :: "string \<Rightarrow> json option" where
  "json_parse s =
     (case json_value (2 * length s + 2) s of
        Some (v, r) \<Rightarrow> if skip_ws r = [] then Some v else None
      | None \<Rightarrow> None)"

section \<open>Facts about objects\<close>

lemma map_of_replace:
  "map_of (map (\<lambda>(k', v'). (k', if k' = k then v else v')) kvs) j =
     (if j = k \<and> k \<in> fst ` set kvs then Some v else map_of kvs j)"
proof (induction kvs)
  case (Cons p kvs)
  then show ?case by (cases p; cases "j = k") simp_all
qed simp

lemma keys_replace: "map fst (map (\<lambda>(k', v'). (k', if k' = k then v else v')) kvs) = map fst kvs"
  by (simp add: case_prod_unfold)

lemma map_of_obj_set: "map_of (obj_set k v kvs) k' = (if k' = k then Some v else map_of kvs k')"
proof (cases "k \<in> set (map fst kvs)")
  case True
  then show ?thesis by (simp add: obj_set_def map_of_replace)
next
  case False
  then have "map_of kvs k = None" by (simp add: map_of_eq_None_iff)
  with False show ?thesis by (auto simp add: obj_set_def map_add_def split: option.split)
qed

lemma distinct_obj_set:
  assumes "distinct (map fst kvs)"
  shows "distinct (map fst (obj_set k v kvs))"
proof (cases "k \<in> set (map fst kvs)")
  case True
  then have "map fst (obj_set k v kvs) = map fst kvs" by (simp only: obj_set_def if_True keys_replace)
  with assms show ?thesis by simp
qed (use assms in \<open>auto simp add: obj_set_def\<close>)

end
