(* ===== verification/Tx_Chain.thy ===== *)
theory Tx_Chain
  imports Tx_Env JS_Json
begin

text \<open>
  Anchoring transactions on the chain: the synchronous call of \<open>anchorToChain\<close>, the asynchronous
  worker (\<open>runChainAsyncTick\<close> and below) and the refresh of stored receipts. The chain service is the
  client of the surroundings: it answers, fails, or is not connected. Handlers that read a row, call
  the chain and save the row are open to other requests in between, as the code is.
\<close>

section \<open>One answer of the chain\<close>

definition chain_capped :: "tx_config \<Rightarrow> int \<Rightarrow> int" where
  "chain_capped c retryCount =
     min (c_chainAsyncInitialBackoffMs c * 2 ^ nat (max 0 (retryCount - 1))) (c_chainAsyncMaxBackoffMs c)"

definition computeNextAttemptAt :: "tx_config \<Rightarrow> int \<Rightarrow> rat \<Rightarrow> int \<Rightarrow> int" where
  "computeNextAttemptAt c now random retryCount =
     (let cappedDelay = chain_capped c retryCount
      in now + cappedDelay + \<lfloor>of_int cappedDelay * random * (1 / 4)\<rfloor>)"

definition reconcileBusinessStatusAfterChainUpdate :: "transaction \<Rightarrow> transaction" where
  "reconcileBusinessStatusAfterChainUpdate tx =
     (if tx_status tx = TX_FAILED then tx
      else if \<not> tx_isExternal tx then tx\<lparr>tx_status := TX_COMPLETED\<rparr>
      else if tx_settlementStatus tx = ST_SETTLED \<and> tx_chainStatus tx = CH_ANCHORED
      then tx\<lparr>tx_status := TX_COMPLETED\<rparr> else tx)"

definition markChainPending :: "svc_env \<Rightarrow> string \<Rightarrow> transaction \<Rightarrow> transaction" where
  "markChainPending env message tx =
     (let retries = max 0 (tx_chainRetryCount tx) + 1
      in tx\<lparr>tx_chainStatus := CH_PENDING, tx_chainRetryCount := retries,
            tx_chainLastAttemptAt := Some (e_now env),
            tx_chainNextAttemptAt := Some (computeNextAttemptAt (e_cfg env) (e_now env) (e_random env) retries),
            tx_errorCode := Some ''CHAIN_PENDING'',
            tx_errorMessage := Some (or_str (Some (js_trim message))
              ''On-chain receipt is still processing. System will retry automatically.'')\<rparr>)"

definition or_opt :: "string \<Rightarrow> string option \<Rightarrow> string option" where
  "or_opt s x = (if s = [] then x else Some s)"

definition applyChainResult :: "svc_env \<Rightarrow> anchor_response \<Rightarrow> transaction \<Rightarrow> transaction" where
  "applyChainResult env response tx =
     (let normalized = js_upper (js_trim (ar_chainStatus response));
          tx1 = tx\<lparr>tx_chainTxId := or_opt (ar_txId response) (tx_chainTxId tx),
                   tx_receiptJson := or_opt (ar_receiptJson response) (tx_receiptJson tx),
                   tx_chainLastAttemptAt := Some (e_now env)\<rparr>
      in if normalized = ''ANCHORED''
         then reconcileBusinessStatusAfterChainUpdate
                (tx1\<lparr>tx_chainStatus := CH_ANCHORED, tx_chainRetryCount := 0, tx_chainNextAttemptAt := None,
                     tx_errorCode := None, tx_errorMessage := None\<rparr>)
         else if normalized = ''FAILED''
         then tx1\<lparr>tx_chainStatus := CH_FAILED, tx_chainNextAttemptAt := None,
                  tx_errorCode := Some ''CHAIN_FAILED'',
                  tx_errorMessage := Some ''On-chain transaction validation failed''\<rparr>
         else markChainPending env [] tx1)"

definition anchor_request_of :: "svc_env \<Rightarrow> transaction \<Rightarrow> anchor_request" where
  "anchor_request_of env tx =
     \<lparr>aq_transactionId = tx_id tx, aq_fromUserId = tx_fromUserId tx, aq_toUserId = coalesce (tx_toUserId tx) [],
      aq_amount = tx_amount tx, aq_memo = coalesce (tx_memo tx) [], aq_internalRef = tx_id tx,
      aq_settlementRef = coalesce (tx_externalRef tx) (tx_id tx), aq_timestamp = e_now env,
      aq_nonce = e_nonce env, aq_idempotencyKey = tx_idempotencyKey tx,
      aq_riskFlag = (if js_ge (js_of_int (tx_amount tx)) (c_chainRiskHighAmount (e_cfg env)) then ''HIGH'' else ''LOW'')\<rparr>"

definition callAnchorTransfer :: "svc_env \<Rightarrow> chain_client \<Rightarrow> transaction \<Rightarrow> string + anchor_response" where
  "callAnchorTransfer env chain tx = cc_anchorTransfer chain (anchor_request_of env tx)"

definition callGetReceipt :: "chain_client \<Rightarrow> string \<Rightarrow> string + anchor_response" where
  "callGetReceipt chain chainTxId = cc_getReceipt chain chainTxId"

text \<open>The try and catch around a call: an answer is applied, an error is another pending attempt.\<close>

definition settle_answer :: "svc_env \<Rightarrow> string + anchor_response \<Rightarrow> transaction \<Rightarrow> transaction" where
  "settle_answer env answer tx =
     (case answer of Inr r \<Rightarrow> applyChainResult env r tx | Inl msg \<Rightarrow> markChainPending env msg tx)"

definition anchorToChain :: "svc_env \<Rightarrow> nat \<Rightarrow> transaction \<Rightarrow> transaction db_handler" where
  "anchorToChain env k tx =
     (case e_chain env of
        None \<Rightarrow> throwH (BadRequest ''Chain service is not available'')
      | Some chain \<Rightarrow>
          bindH (gap env k) (\<lambda>_. atomic (save_tx (settle_answer env (callAnchorTransfer env chain tx) tx))))"

section \<open>The asynchronous worker\<close>

definition chain_due :: "int \<Rightarrow> transaction \<Rightarrow> bool" where
  "chain_due now tx =
     (tx_chainStatus tx = CH_PENDING \<and> tx_status tx \<noteq> TX_FAILED \<and>
      (\<not> tx_isExternal tx \<or> tx_settlementStatus tx = ST_SETTLED \<or> tx_settlementStatus tx = ST_FAILED) \<and>
      (case tx_chainNextAttemptAt tx of None \<Rightarrow> True | Some t \<Rightarrow> t \<le> now))"

definition chain_lease :: "int \<Rightarrow> int \<Rightarrow> transaction \<Rightarrow> transaction" where
  "chain_lease now leaseUntil tx =
     tx\<lparr>tx_chainLastAttemptAt := Some now, tx_chainNextAttemptAt := Some leaseUntil\<rparr>"

definition chain_order :: "transaction \<Rightarrow> int" where
  "chain_order tx = coalesce (tx_chainNextAttemptAt tx) (tx_createdAt tx)"

definition claimDueChainTransactions :: "tx_config \<Rightarrow> int \<Rightarrow> int \<Rightarrow> db \<Rightarrow> string list \<times> db" where
  "claimDueChainTransactions c limit now d =
     (let dueRows = select_due (chain_due now) chain_order (nat (max 1 limit)) (d_txs d)
      in (map tx_id dueRows,
          d\<lparr>d_txs := claim_rows tx_id (chain_lease now (now + c_chainAsyncLeaseMs c)) dueRows (d_txs d)\<rparr>))"

definition give_up_chain :: "tx_config \<Rightarrow> transaction \<Rightarrow> transaction" where
  "give_up_chain c tx =
     (if 0 < c_chainAsyncMaxRetries c \<and> tx_chainStatus tx = CH_PENDING \<and>
         c_chainAsyncMaxRetries c \<le> tx_chainRetryCount tx
      then tx\<lparr>tx_chainStatus := CH_FAILED, tx_chainNextAttemptAt := None,
              tx_errorCode := Some ''CHAIN_FAILED'',
              tx_errorMessage := Some ''On-chain processing exceeded maximum retry attempts''\<rparr>
      else tx)"

definition chain_call :: "svc_env \<Rightarrow> chain_client \<Rightarrow> transaction \<Rightarrow> string + anchor_response" where
  "chain_call env chain tx =
     (if js_trim (coalesce (tx_chainTxId tx) []) \<noteq> []
      then callGetReceipt chain (coalesce (tx_chainTxId tx) []) else callAnchorTransfer env chain tx)"

definition chain_round :: "svc_env \<Rightarrow> chain_client \<Rightarrow> transaction \<Rightarrow> transaction" where
  "chain_round env chain tx =
     reconcileBusinessStatusAfterChainUpdate
       (give_up_chain (e_cfg env) (settle_answer env (chain_call env chain tx) tx))"

definition processPendingChainTransaction :: "svc_env \<Rightarrow> chain_client \<Rightarrow> string \<Rightarrow> unit db_handler" where
  "processPendingChainTransaction env chain tid =
     bindH (readH (\<lambda>d. find_tx d tid)) (\<lambda>found.
       case found of None \<Rightarrow> returnH ()
       | Some tx \<Rightarrow>
           if tx_chainStatus tx \<noteq> CH_PENDING \<or> tx_status tx = TX_FAILED then returnH ()
           else
             bindH (gap env 0) (\<lambda>_.
             bindH (atomic (save_tx (chain_round env chain tx))) (\<lambda>saved.
             bindH (if tx_chainStatus saved = CH_ANCHORED
                    then atomic (modifyU (enqueueChainCompletedEvent env saved)) else returnH ()) (\<lambda>_.
             if tx_status tx \<noteq> TX_COMPLETED \<and> tx_status saved = TX_COMPLETED
             then atomic (modifyU (enqueueTransactionEvent env saved)) else returnH ()))))"

text \<open>The worker swallows the errors of one transaction and goes on with the next.\<close>

definition runChainAsyncTick :: "svc_env \<Rightarrow> bool \<Rightarrow> db \<Rightarrow> db" where
  "runChainAsyncTick env running d =
     (if running \<or> \<not> c_chainAsyncEnabled (e_cfg env) then d
      else case e_chain env of None \<Rightarrow> d
        | Some chain \<Rightarrow>
            let (claimedIds, d1) = claimDueChainTransactions (e_cfg env) (c_chainAsyncBatchSize (e_cfg env)) (e_now env) d
            in fold (fold (\<lambda>tid s. snd (processPendingChainTransaction env chain tid s)))
                 (chunks (nat (max 1 (c_chainAsyncWorkers (e_cfg env)))) claimedIds) d1)"

section \<open>Receipts\<close>

definition normalizeReceiptPayload :: "json \<Rightarrow> json" where
  "normalizeReceiptPayload payload =
     (case json_prop ''receipt'' payload of
        Some nested \<Rightarrow> if truthy nested \<and> is_object nested then nested else payload
      | None \<Rightarrow> payload)"

definition shouldRefreshReceiptTransparency :: "string option \<Rightarrow> bool" where
  "shouldRefreshReceiptTransparency receiptJson =
     (let raw = js_trim (or_str receiptJson [])
      in if raw = [] then True
         else case json_parse raw of None \<Rightarrow> True
           | Some decoded \<Rightarrow>
               if \<not> (truthy decoded \<and> is_object decoded) then True
               else
                 let receipt = normalizeReceiptPayload decoded;
                     observers = (case json_prop ''observer_confirmations'' receipt of Some (JArray xs) \<Rightarrow> xs | _ \<Rightarrow> []);
                     transparency = (case json_prop ''transparency'' receipt of
                                       Some t \<Rightarrow> if truthy t \<and> is_object t then Some t else None | None \<Rightarrow> None);
                     quorumMet = (case transparency of None \<Rightarrow> False | Some t \<Rightarrow> json_prop ''quorum_met'' t = Some (JBool True))
                 in observers = [] \<or> \<not> quorumMet)"

definition refreshAnchoredReceiptTransparency :: "svc_env \<Rightarrow> transaction \<Rightarrow> db \<Rightarrow> transaction \<times> db" where
  "refreshAnchoredReceiptTransparency env tx d =
     (let chainTxId = js_trim (or_str (tx_chainTxId tx) [])
      in case e_chain env of None \<Rightarrow> (tx, d)
         | Some chain \<Rightarrow>
             if chainTxId = [] then (tx, d)
             else case callGetReceipt chain chainTxId of Inl _ \<Rightarrow> (tx, d)
               | Inr refreshed \<Rightarrow>
                   let receiptJson = js_trim (ar_receiptJson refreshed);
                       tx1 = tx\<lparr>tx_receiptJson := Some receiptJson, tx_chainLastAttemptAt := Some (e_now env)\<rparr>;
                       d1 = e_others env 0 d
                   in if receiptJson = [] \<or> Some receiptJson = tx_receiptJson tx then (tx, d)
                      else case save_tx tx1 d1 of Inr (saved, d2) \<Rightarrow> (saved, d2) | Inl _ \<Rightarrow> (tx1, d1))"

definition getTransaction :: "svc_env \<Rightarrow> string \<Rightarrow> db \<Rightarrow> transaction option \<times> db" where
  "getTransaction env tid d =
     (case find_tx d tid of None \<Rightarrow> (None, d)
      | Some tx \<Rightarrow>
          if tx_chainStatus tx = CH_ANCHORED \<and> shouldRefreshReceiptTransparency (tx_receiptJson tx)
          then (let (tx', d') = refreshAnchoredReceiptTransparency env tx d in (Some tx', d'))
          else (Some tx, d))"

section \<open>Contracts\<close>

interpretation ch_lease: lease_queue tx_id chain_due chain_lease
  by unfold_locales (auto simp add: chain_due_def chain_lease_def)

lemma chain_capped_mono:
  "0 \<le> chain_capped c n \<Longrightarrow> n \<le> m \<Longrightarrow> chain_capped c n \<le> chain_capped c m"
  unfolding chain_capped_def by (rule capped_doubling_mono)

interpretation ch_backoff: backoff_policy computeNextAttemptAt chain_capped c_chainAsyncMaxBackoffMs "1 / 4"
  by unfold_locales
    (simp_all add: computeNextAttemptAt_def Let_def chain_capped_mono, simp_all add: chain_capped_def)

section \<open>What the chain may change\<close>

lemma tx_core_chain [simp]:
  "tx_core (reconcileBusinessStatusAfterChainUpdate tx) = tx_core tx"
  "tx_core (markChainPending env msg tx) = tx_core tx"
  "tx_core (give_up_chain c tx) = tx_core tx"
  by (simp_all add: reconcileBusinessStatusAfterChainUpdate_def markChainPending_def give_up_chain_def
      tx_core_def Let_def)

lemma tx_core_applyChainResult [simp]: "tx_core (applyChainResult env r tx) = tx_core tx"
  by (simp add: applyChainResult_def Let_def) (simp add: tx_core_def)

lemma tx_core_settle_answer [simp]: "tx_core (settle_answer env a tx) = tx_core tx"
  by (simp add: settle_answer_def split: sum.split)

lemma tx_core_chain_round [simp]: "tx_core (chain_round env chain tx) = tx_core tx"
  by (simp add: chain_round_def)

lemma chainStatus_reconcile [simp]:
  "tx_chainStatus (reconcileBusinessStatusAfterChainUpdate tx) = tx_chainStatus tx"
  by (simp add: reconcileBusinessStatusAfterChainUpdate_def)

text \<open>What one pass of the worker does to the row of the transaction it handles.\<close>

definition row_process :: "svc_env \<Rightarrow> chain_client \<Rightarrow> transaction \<Rightarrow> transaction" where
  "row_process env chain t =
     (if tx_chainStatus t = CH_PENDING \<and> tx_status t \<noteq> TX_FAILED \<and> tx_columns_ok (chain_round env chain t)
      then chain_round env chain t else t)"

lemma tx_core_row_process [simp]: "tx_core (row_process env chain t) = tx_core t"
  by (simp add: row_process_def)

lemma tx_id_row_process [simp]: "tx_id (row_process env chain t) = tx_id t"
  using tx_coreD(1) [OF tx_core_row_process] .

lemma tx_id_chain_round [simp]: "tx_id (chain_round env chain t) = tx_id t"
  using tx_coreD(1) [OF tx_core_chain_round] .

lemma process_txs:
  fixes chain :: chain_client and tid :: string
  assumes "distinct (map tx_id (d_txs d))" and "e_others env = (\<lambda>_ s. s)"
  defines "d' \<equiv> snd (processPendingChainTransaction env chain tid d)"
  shows "d_txs d' = map (\<lambda>t. if tx_id t = tid then row_process env chain t else t) (d_txs d)"
    and "d_wallets d' = d_wallets d" and "d_ledger d' = d_ledger d"
proof -
  have "d_wallets d' = d_wallets d \<and> d_ledger d' = d_ledger d"
    unfolding d'_def processPendingChainTransaction_def
    by (auto simp add: handler_defs gap_def assms(2) save_tx_def split: option.split sum.split prod.split)
  then show "d_wallets d' = d_wallets d" and "d_ledger d' = d_ledger d" by auto
  show "d_txs d' = map (\<lambda>t. if tx_id t = tid then row_process env chain t else t) (d_txs d)"
  proof (cases "find_tx d tid")
    case None
    then have "map (\<lambda>t. if tx_id t = tid then row_process env chain t else t) (d_txs d) = d_txs d"
      by (auto simp add: find_tx_def find_row_None_iff intro: map_idI)
    then show ?thesis unfolding d'_def processPendingChainTransaction_def
      by (simp add: handler_defs None)
  next
    case (Some tx)
    have find: "find_row (\<lambda>t. tx_id t = tid) (d_txs d) = Some tx" using Some by (simp add: find_tx_def)
    have id: "tx_id tx = tid" using find_row_SomeD [OF find] by simp
    have *: "save_row tx_id (row_process env chain tx) (d_txs d) =
        map (\<lambda>t. if tx_id t = tid then row_process env chain t else t) (d_txs d)"
      by (rule save_row_map [OF assms(1) find]) (simp_all add: id)
    have same: "save_row tx_id tx (d_txs d) = d_txs d"
      using save_row_map [OF assms(1) find id, of "\<lambda>x. x"] by simp
    have "d_txs d' = save_row tx_id (row_process env chain tx) (d_txs d)"
      unfolding d'_def processPendingChainTransaction_def using same
      by (auto simp add: handler_defs gap_def assms(2) save_tx_def Some row_process_def)
    with * show ?thesis by simp
  qed
qed

lemma fold_process_txs:
  fixes chain :: chain_client
  assumes "distinct (map tx_id (d_txs d))" and "e_others env = (\<lambda>_ s. s)" and "distinct ids"
  defines "d' \<equiv> fold (\<lambda>tid s. snd (processPendingChainTransaction env chain tid s)) ids d"
  shows "d_txs d' = map (\<lambda>t. if tx_id t \<in> set ids then row_process env chain t else t) (d_txs d) \<and>
    d_wallets d' = d_wallets d \<and> d_ledger d' = d_ledger d"
  using assms(1,3) unfolding d'_def
proof (induction ids arbitrary: d)
  case (Cons i ids)
  let ?d1 = "snd (processPendingChainTransaction env chain i d)"
  note p = process_txs [OF Cons.prems(1) assms(2), of chain i]
  have "map tx_id (d_txs ?d1) = map tx_id (d_txs d)"
    unfolding p(1) by (simp add: comp_def if_distrib [of tx_id] cong: if_cong)
  then have "distinct (map tx_id (d_txs ?d1))" using Cons.prems(1) by simp
  from Cons.IH [OF this] Cons.prems(2) show ?case by (auto simp add: p)
qed simp

lemma distinct_select_due:
  assumes "distinct (map key rs)"
  shows "distinct (map key (select_due due ord n rs))"
proof -
  have "distinct (map key (filter due rs))" using assms by (rule distinct_map_filter)
  then have "distinct (map key (sort_key ord (filter due rs)))"
    by (simp add: distinct_map)
  then show ?thesis by (simp add: select_due_def take_map [symmetric] del: distinct_map)
qed

lemma tick_txs:
  assumes "distinct (map tx_id (d_txs d))" and "e_others env = (\<lambda>_ s. s)"
    and "e_chain env = Some chain" and "c_chainAsyncEnabled (e_cfg env)"
  defines "sel \<equiv> select_due (chain_due (e_now env)) chain_order (nat (max 1 (c_chainAsyncBatchSize (e_cfg env)))) (d_txs d)"
    and "lease \<equiv> chain_lease (e_now env) (e_now env + c_chainAsyncLeaseMs (e_cfg env))"
    and "d' \<equiv> runChainAsyncTick env False d"
  shows "d_txs d' = map (\<lambda>t. if tx_id t \<in> tx_id ` set sel then row_process env chain (lease t) else t) (d_txs d) \<and>
    d_wallets d' = d_wallets d \<and> d_ledger d' = d_ledger d"
proof -
  let ?d1 = "d\<lparr>d_txs := claim_rows tx_id lease sel (d_txs d)\<rparr>"
  have id: "tx_id (lease t) = tx_id t" for t by (simp add: lease_def chain_lease_def)
  have "map tx_id (d_txs ?d1) = map tx_id (d_txs d)"
    by (simp add: lease_def ch_lease.claim_keeps_keys)
  then have dist: "distinct (map tx_id (d_txs ?d1))" using assms(1) by simp
  have "distinct (map tx_id sel)" unfolding sel_def by (rule distinct_select_due [OF assms(1)])
  moreover have "d' = fold (\<lambda>tid s. snd (processPendingChainTransaction env chain tid s)) (map tx_id sel) ?d1"
    by (simp add: d'_def runChainAsyncTick_def assms(3,4) claimDueChainTransactions_def Let_def
        fold_chunks sel_def lease_def)
  ultimately show ?thesis using fold_process_txs [OF dist assms(2), of "map tx_id sel" chain]
    by (auto simp add: claim_rows_def id)
qed

section \<open>Properties\<close>

text \<open>The relation between a row and what the worker may turn it into.\<close>

definition chain_progress :: "transaction \<Rightarrow> transaction \<Rightarrow> bool" where
  "chain_progress t t' =
     (tx_core t' = tx_core t \<and> tx_chainStatus t \<le> tx_chainStatus t' \<and>
      tx_settlementStatus t' = tx_settlementStatus t \<and>
      (tx_chainStatus t \<noteq> CH_PENDING \<or> tx_status t = TX_FAILED \<longrightarrow> t' = t))"

lemma settlement_chain_round [simp]:
  "tx_settlementStatus (chain_round env chain t) = tx_settlementStatus t"
  by (simp add: chain_round_def reconcileBusinessStatusAfterChainUpdate_def give_up_chain_def settle_answer_def
      applyChainResult_def markChainPending_def Let_def split: sum.split)

lemma chain_progress_row:
  assumes "chain_due now t"
  shows "chain_progress t (row_process env chain (chain_lease now l t))"
proof -
  have "tx_core (chain_lease now l t) = tx_core t" by (simp add: chain_lease_def tx_core_def)
  moreover have "tx_chainStatus t = CH_PENDING" "tx_status t \<noteq> TX_FAILED"
    using assms by (simp_all add: chain_due_def)
  ultimately show ?thesis
    by (simp add: chain_progress_def chain_status_le_iff row_process_def) (simp add: chain_lease_def)
qed

lemma chain_progress_refl [simp]: "chain_progress t t"
  by (simp add: chain_progress_def)


text \<open>
  Only transactions that are ready reach the chain worker: a claimed one is pending on the chain,
  not failed, due, and if it is external its settlement has been decided.
\<close>

theorem chain_claims_ready:
  assumes "claimDueChainTransactions c limit now d = (ids, d1)" and "tid \<in> set ids"
  shows "\<exists>t\<in>set (d_txs d). tx_id t = tid \<and> tx_chainStatus t = CH_PENDING \<and> tx_status t \<noteq> TX_FAILED \<and>
    (tx_isExternal t \<longrightarrow> tx_settlementStatus t = ST_SETTLED \<or> tx_settlementStatus t = ST_FAILED)"
proof -
  obtain t where "t \<in> set (select_due (chain_due now) chain_order (nat (max 1 limit)) (d_txs d))" "tx_id t = tid"
    using assms by (auto simp add: claimDueChainTransactions_def Let_def)
  then show ?thesis using set_select_due by (fastforce simp add: chain_due_def)
qed

text \<open>
  A claim made before the lease of an earlier one runs out never returns a transaction of the
  earlier claim, so two workers do not anchor the same transaction at the same time.
\<close>

theorem chain_claims_disjoint:
  assumes "claimDueChainTransactions c limit now d = (ids, d1)"
    and "claimDueChainTransactions c limit' now' d1 = (ids', d2)"
    and "now' < now + c_chainAsyncLeaseMs c"
  shows "set ids \<inter> set ids' = {}"
proof -
  let ?sel = "select_due (chain_due now) chain_order (nat (max 1 limit)) (d_txs d)"
  have "d_txs d1 = claim_rows tx_id (chain_lease now (now + c_chainAsyncLeaseMs c)) ?sel (d_txs d)"
    and "set ids = tx_id ` set ?sel"
    and "set ids' = tx_id ` set (select_due (chain_due now') chain_order (nat (max 1 limit')) (d_txs d1))"
    using assms(1,2) by (auto simp add: claimDueChainTransactions_def Let_def)
  then show ?thesis using ch_lease.claims_disjoint [OF assms(3)] by simp
qed

text \<open>
  C10. One run anchors: when the chain accepts an anchor request or a receipt query with a transaction
  id that fits its column, every due transaction of the first batchSize in due order is anchored by
  the run, and it is completed unless it is an external one whose settlement failed.
\<close>

theorem chain_tick_anchors:
  assumes "distinct (map tx_id (d_txs d))" and "e_others env = (\<lambda>_ s. s)" and "e_chain env = Some chain"
    and "c_chainAsyncEnabled (e_cfg env)"
    and "t \<in> set (select_due (chain_due (e_now env)) chain_order (nat (max 1 (c_chainAsyncBatchSize (e_cfg env)))) (d_txs d))"
    and "tx_columns_ok t"
    and "\<And>q. \<exists>r. cc_anchorTransfer chain q = Inr r \<and> ar_chainStatus r = ''ANCHORED'' \<and> length (ar_txId r) \<le> 128"
    and "\<And>q. \<exists>r. cc_getReceipt chain q = Inr r \<and> ar_chainStatus r = ''ANCHORED'' \<and> length (ar_txId r) \<le> 128"
  shows "\<exists>t'\<in>set (d_txs (runChainAsyncTick env False d)). tx_id t' = tx_id t \<and> tx_chainStatus t' = CH_ANCHORED \<and>
    (\<not> tx_isExternal t \<or> tx_settlementStatus t = ST_SETTLED \<longrightarrow> tx_status t' = TX_COMPLETED)"
proof -
  let ?l = "chain_lease (e_now env) (e_now env + c_chainAsyncLeaseMs (e_cfg env)) t"
  have t: "t \<in> set (d_txs d)" "chain_due (e_now env) t" using set_select_due [OF assms(5)] by auto
  obtain r where r: "chain_call env chain ?l = Inr r" "ar_chainStatus r = ''ANCHORED''" "length (ar_txId r) \<le> 128"
    using assms(7,8) by (metis chain_call_def callAnchorTransfer_def callGetReceipt_def)
  have u: "js_upper (js_trim ''ANCHORED'') = ''ANCHORED''" by code_simp
  let ?n = "chain_round env chain ?l"
  have n: "?n = reconcileBusinessStatusAfterChainUpdate (applyChainResult env r ?l)"
    and "tx_chainStatus (applyChainResult env r ?l) = CH_ANCHORED"
    by (simp_all add: chain_round_def r settle_answer_def give_up_chain_def applyChainResult_def Let_def u)
  then have "tx_chainStatus ?n = CH_ANCHORED"
    and "\<not> tx_isExternal t \<or> tx_settlementStatus t = ST_SETTLED \<longrightarrow> tx_status ?n = TX_COMPLETED"
    and "tx_columns_ok ?n"
    using t(2) assms(6) r(2,3) u
    by (auto simp add: reconcileBusinessStatusAfterChainUpdate_def applyChainResult_def Let_def chain_lease_def
        chain_due_def tx_columns_ok_def varchar_ok_def or_opt_def split: option.splits)
  moreover have "row_process env chain ?l \<in> set (d_txs (runChainAsyncTick env False d))"
    using tick_txs [OF assms(1-4)] t(1) assms(5) by force
  moreover have "tx_id ?n = tx_id t" by (simp add: chain_lease_def)
  moreover have "row_process env chain ?l = ?n"
    using t(2) \<open>tx_columns_ok ?n\<close> by (simp add: row_process_def chain_lease_def chain_due_def)
  ultimately show ?thesis by metis
qed

text \<open>
  The business status after a pass of the worker, whatever the chain answered: a failed
  transaction stays failed; an internal one is completed, even when the chain rejected it or could not
  be reached; an external one is completed once it is both settled and anchored and is otherwise
  unchanged.
\<close>

theorem chain_round_business_status:
  "tx_status (chain_round env chain t) =
     (if tx_status t = TX_FAILED then TX_FAILED
      else if \<not> tx_isExternal t then TX_COMPLETED
      else if tx_settlementStatus t = ST_SETTLED \<and> tx_chainStatus (chain_round env chain t) = CH_ANCHORED
      then TX_COMPLETED else tx_status t)"
  by (auto simp add: chain_round_def reconcileBusinessStatusAfterChainUpdate_def give_up_chain_def settle_answer_def
      applyChainResult_def markChainPending_def Let_def split: sum.splits)

text \<open>
  C11. The retry limit is exact: while the chain cannot be reached, a transaction is still pending after
  fewer than maxRetries attempts, with the attempts counted, and failed on the chain after maxRetries.
\<close>

theorem chain_gives_up:
  assumes "tx_chainStatus t = CH_PENDING" and "tx_chainRetryCount t = 0"
    and "0 < c_chainAsyncMaxRetries (e_cfg env)" and "int k \<le> c_chainAsyncMaxRetries (e_cfg env)"
    and "\<And>q. cc_anchorTransfer chain q = Inl msg" and "\<And>q. cc_getReceipt chain q = Inl msg"
  shows "tx_chainRetryCount ((chain_round env chain ^^ k) t) = int k \<and>
    tx_chainStatus ((chain_round env chain ^^ k) t) =
      (if int k < c_chainAsyncMaxRetries (e_cfg env) then CH_PENDING else CH_FAILED)"
  using assms(4)
proof (induction k)
  case 0
  then show ?case using assms(1-3) by simp
next
  case (Suc k)
  let ?u = "(chain_round env chain ^^ k) t"
  have call: "chain_call env chain ?u = Inl msg"
    by (simp add: chain_call_def callGetReceipt_def callAnchorTransfer_def assms(5,6))
  have "tx_chainRetryCount (chain_round env chain ?u) = max 0 (tx_chainRetryCount ?u) + 1"
    and "tx_chainStatus (chain_round env chain ?u) =
      (if c_chainAsyncMaxRetries (e_cfg env) \<le> max 0 (tx_chainRetryCount ?u) + 1 then CH_FAILED else CH_PENDING)"
    using assms(3) by (simp_all add: chain_round_def call settle_answer_def give_up_chain_def markChainPending_def
        reconcileBusinessStatusAfterChainUpdate_def Let_def)
  then show ?case using Suc by simp
qed

text \<open>
  The next attempt is due no earlier than the capped exponential delay and no later than one and a
  quarter of the configured maximum, and the delay never shrinks as the retries grow.
\<close>

theorem chain_backoff_bounds:
  assumes "0 \<le> random" and "random < 1" and "0 \<le> c_chainAsyncInitialBackoffMs c" and "0 \<le> c_chainAsyncMaxBackoffMs c"
    and "n \<le> m"
  shows "now + chain_capped c n \<le> computeNextAttemptAt c now random n \<and>
    4 * (computeNextAttemptAt c now random n - now) \<le> 5 * c_chainAsyncMaxBackoffMs c \<and>
    computeNextAttemptAt c now random n \<le> computeNextAttemptAt c now random m"
proof -
  have c: "0 \<le> chain_capped c n" using assms(3,4) by (simp add: chain_capped_def)
  have "(of_int (4 * (computeNextAttemptAt c now random n - now)) :: rat) \<le> of_int (5 * c_chainAsyncMaxBackoffMs c)"
    using ch_backoff.next_at_le [OF assms(1,2) c, of now] by (simp add: field_simps)
  then have "4 * (computeNextAttemptAt c now random n - now) \<le> 5 * c_chainAsyncMaxBackoffMs c"
    by (simp only: of_int_le_iff)
  then show ?thesis
    using ch_backoff.next_at_ge [OF assms(1) c] ch_backoff.next_at_mono [OF assms(1) c assms(5)] by simp
qed

section \<open>Witnesses\<close>

definition chain_example_db :: db where
  "chain_example_db = empty_db\<lparr>d_txs := [example_tx], d_seq := 1\<rparr>"

lemma chain_example_due: "chain_due 5000 example_tx"
  by (simp add: chain_due_def example_tx_def)

lemma chain_example_select:
  "0 < n \<Longrightarrow> select_due (chain_due 5000) chain_order n (d_txs chain_example_db) = [example_tx]"
  by (simp add: select_due_def chain_example_db_def chain_example_due)

lemma chain_example_env:
  "e_others example_env = (\<lambda>_ s. s)" "e_now example_env = 5000" "e_cfg example_env = default_tx_config"
  "e_chain example_env = Some \<lparr>cc_anchorTransfer = (\<lambda>_. Inr anchored_response), cc_getReceipt = (\<lambda>_. Inr anchored_response)\<rparr>"
  by (simp_all add: example_env_def)

lemma chain_example_distinct: "distinct (map tx_id (d_txs chain_example_db))"
  by (simp add: chain_example_db_def)


theorem chain_tick_anchors_witness:
  "\<exists>t'\<in>set (d_txs (runChainAsyncTick example_env False chain_example_db)).
     tx_id t' = ''t1'' \<and> tx_chainStatus t' = CH_ANCHORED \<and> tx_status t' = TX_COMPLETED"
proof -
  have "tx_columns_ok example_tx"
    by (simp add: example_tx_def tx_columns_ok_def bigint_ok_def varchar_ok_def)
  from chain_tick_anchors [OF chain_example_distinct chain_example_env(1,4), of example_tx] this
  show ?thesis
    by (simp add: chain_example_env chain_example_select anchored_response_def default_tx_config_def)
      (simp add: example_tx_def)
qed

theorem chain_claims_ready_witness:
  "\<exists>t\<in>set (d_txs chain_example_db). tx_id t = ''t1'' \<and> tx_chainStatus t = CH_PENDING \<and> tx_status t \<noteq> TX_FAILED"
  using chain_claims_ready [of default_tx_config 200 5000 chain_example_db _ _ "''t1''", OF prod.collapse [symmetric]]
  by (auto simp add: claimDueChainTransactions_def Let_def chain_example_select example_tx_def)

theorem chain_claims_disjoint_witness:
  "set (fst (claimDueChainTransactions default_tx_config 200 5000 chain_example_db)) \<inter>
   set (fst (claimDueChainTransactions default_tx_config 200 34999
     (snd (claimDueChainTransactions default_tx_config 200 5000 chain_example_db)))) = {} \<and>
   fst (claimDueChainTransactions default_tx_config 200 5000 chain_example_db) = [''t1'']"
proof -
  have "fst (claimDueChainTransactions default_tx_config 200 5000 chain_example_db) = [''t1'']"
    by (simp add: claimDueChainTransactions_def Let_def chain_example_select) (simp add: example_tx_def)
  moreover have "c_chainAsyncLeaseMs default_tx_config = 30000" by (simp add: default_tx_config_def)
  ultimately show ?thesis
    using chain_claims_disjoint [of default_tx_config 200 5000 chain_example_db _ _ 200 34999,
        OF prod.collapse [symmetric] prod.collapse [symmetric]] by simp
qed

definition unreachable_chain :: chain_client where
  "unreachable_chain = \<lparr>cc_anchorTransfer = (\<lambda>_. Inl ''UNAVAILABLE''), cc_getReceipt = (\<lambda>_. Inl ''UNAVAILABLE'')\<rparr>"

definition three_retries_env :: svc_env where
  "three_retries_env = example_env\<lparr>e_cfg := default_tx_config\<lparr>c_chainAsyncMaxRetries := 3\<rparr>\<rparr>"

theorem chain_gives_up_witness:
  "tx_chainStatus ((chain_round three_retries_env unreachable_chain ^^ 2) example_tx) = CH_PENDING \<and>
   tx_chainStatus ((chain_round three_retries_env unreachable_chain ^^ 3) example_tx) = CH_FAILED"
proof -
  have "int k \<le> 3 \<Longrightarrow> tx_chainStatus ((chain_round three_retries_env unreachable_chain ^^ k) example_tx) =
      (if int k < 3 then CH_PENDING else CH_FAILED)" for k
    using chain_gives_up [of example_tx three_retries_env k unreachable_chain "''UNAVAILABLE''"]
    by (simp add: example_tx_def three_retries_env_def unreachable_chain_def)
  from this [of 2] this [of 3] show ?thesis by simp
qed

theorem chain_backoff_bounds_witness:
  "computeNextAttemptAt default_tx_config 0 (1 / 2) 2 \<le> computeNextAttemptAt default_tx_config 0 (1 / 2) 30 \<and>
   4 * (computeNextAttemptAt default_tx_config 0 (1 / 2) 2 - 0) \<le> 5 * 300000"
  using chain_backoff_bounds [of "1 / 2" default_tx_config 2 30 0] by (simp add: default_tx_config_def)

end
