(* ===== verification/Tx_Service.thy ===== *)
theory Tx_Service
  imports Tx_Chain "HOL-Library.List_Lexorder" "HOL-Library.Char_ord"
begin

text \<open>
  The operations of \<^verbatim>\<open>transactions.service.ts\<close> on wallets, funding sources, transactions
  and the ledger. What the code does between startTransaction and commitTransaction is one unit of
  work; a public method is a handler that strings units of work, reads and remote calls together,
  with a gap for the other requests wherever the code awaits outside a unit of work.
\<close>

section \<open>Wallets and funding sources\<close>

definition createWallet :: "svc_env \<Rightarrow> string \<Rightarrow> string option \<Rightarrow> wallet db_handler" where
  "createWallet env userId currencyRaw =
     bindH (liftE (normalizeCurrency currencyRaw)) (\<lambda>currency.
     bindH (readH (\<lambda>d. find_wallet d userId currency)) (\<lambda>found.
       case found of Some w \<Rightarrow> returnH w
       | None \<Rightarrow>
           bindH (gap env 0) (\<lambda>_ d.
             case insert_wallet (e_now env) userId currency d of
               Inr (w, d') \<Rightarrow> (Inr w, d')
             | Inl err \<Rightarrow>
                 let d1 = e_others env 1 d
                 in case find_wallet d1 userId currency of Some w \<Rightarrow> (Inr w, d1) | None \<Rightarrow> (Inl err, d1))))"

definition getWallet :: "string \<Rightarrow> string option \<Rightarrow> db \<Rightarrow> svc_error + wallet option" where
  "getWallet userId currencyRaw d =
     bindE (normalizeCurrency currencyRaw) (\<lambda>currency. Inr (find_wallet d userId currency))"

definition find_source :: "db \<Rightarrow> string \<Rightarrow> string \<Rightarrow> string \<Rightarrow> funding_source option" where
  "find_source d userId provider refHash =
     find_row (\<lambda>s. fs_userId s = userId \<and> fs_provider s = provider \<and> fs_accountRefHash s = refHash) (d_sources d)"

text \<open>The save of a new funding source, under its unique index and column lengths.\<close>

definition insert_source :: "int \<Rightarrow> funding_source \<Rightarrow> funding_source unit_of_work" where
  "insert_source now s d =
     (if find_source d (fs_userId s) (fs_provider s) (fs_accountRefHash s) \<noteq> None
      then Inl (QueryFailed ''funding_sources_userId_provider_accountRefHash'')
      else if length (fs_accountRefMasked s) \<le> 32 \<and> length (fs_accountRefHash s) \<le> 128 \<and>
              varchar_ok 256 (fs_providerToken s) \<and> varchar_ok 128 (fs_displayName s)
      then let s' = s\<lparr>fs_id := d_uuid d (d_seq d), fs_createdAt := now\<rparr>
           in Inr (s', d\<lparr>d_sources := d_sources d @ [s'], d_seq := Suc (d_seq d)\<rparr>)
      else Inl (QueryFailed ''funding source column value''))"

definition createFundingSource :: "svc_env \<Rightarrow> create_funding_source_request \<Rightarrow> funding_source db_handler" where
  "createFundingSource env q =
     bindH (liftE (validateCreateFundingSource q)) (\<lambda>r.
       let refHash = hashAccountRef (e_sha256 env) (fr_provider r) (fr_accountRef r);
           entity = \<lparr>fs_id = [], fs_userId = fr_userId r, fs_provider = fr_provider r,
                     fs_accountRefMasked = maskAccountRef (fr_accountRef r), fs_accountRefHash = refHash,
                     fs_providerToken = or_null (fr_providerToken r), fs_displayName = or_null (fr_displayName r),
                     fs_status = FS_ACTIVE, fs_createdAt = 0\<rparr>
       in bindH (readH (\<lambda>d. find_source d (fr_userId r) (fr_provider r) refHash)) (\<lambda>found.
            case found of Some s \<Rightarrow> returnH s
            | None \<Rightarrow>
                bindH (gap env 0) (\<lambda>_ d.
                  case insert_source (e_now env) entity d of
                    Inr (s, d') \<Rightarrow> (Inr s, d')
                  | Inl err \<Rightarrow>
                      let d1 = e_others env 1 d
                      in case find_source d1 (fr_userId r) (fr_provider r) refHash of
                           Some s \<Rightarrow> (Inr s, d1) | None \<Rightarrow> (Inl err, d1))))"

definition listFundingSources :: "string option \<Rightarrow> db \<Rightarrow> svc_error + funding_source list" where
  "listFundingSources userId d =
     (let normalizedUserId = js_trim (or_str userId [])
      in if normalizedUserId = [] then Inl (BadRequest ''userId is required'')
         else Inr (rev (sort_key fs_createdAt (filter (\<lambda>s. fs_userId s = normalizedUserId) (d_sources d)))))"

definition getActiveFundingSource :: "string \<Rightarrow> string \<Rightarrow> db \<Rightarrow> svc_error + funding_source" where
  "getActiveFundingSource userId fundingSourceId d =
     (case find_row (\<lambda>s. fs_id s = fundingSourceId \<and> fs_userId s = userId \<and> fs_status s = FS_ACTIVE) (d_sources d) of
        Some s \<Rightarrow> Inr s
      | None \<Rightarrow> Inl (BadRequest ''Funding source not found or inactive''))"

section \<open>Units of work on wallets\<close>

definition balance_of :: "db \<Rightarrow> string \<Rightarrow> string \<Rightarrow> int" where
  "balance_of d userId currency = (case find_wallet d userId currency of Some w \<Rightarrow> w_balance w | None \<Rightarrow> 0)"

text \<open>Lock the wallet of a user, and create it with a zero balance when there is none.\<close>

definition wallet_or_create :: "svc_env \<Rightarrow> string \<Rightarrow> string \<Rightarrow> wallet unit_of_work" where
  "wallet_or_create env userId currency d =
     (case find_wallet d userId currency of Some w \<Rightarrow> Inr (w, d)
      | None \<Rightarrow> insert_wallet (e_now env) userId currency d)"

definition require_wallet :: "string \<Rightarrow> string \<Rightarrow> string \<Rightarrow> wallet unit_of_work" where
  "require_wallet msg userId currency d =
     (case find_wallet d userId currency of Some w \<Rightarrow> Inr (w, d) | None \<Rightarrow> Inl (BadRequest msg))"

definition usersToLock :: "svc_env \<Rightarrow> transfer_req \<Rightarrow> string list" where
  "usersToLock env r =
     (if \<not> tr_isExternal r \<and> tr_toUserId r \<noteq> [] \<and> tr_toUserId r \<noteq> tr_fromUserId r
      then if e_localeLe env (tr_fromUserId r) (tr_toUserId r)
           then [tr_fromUserId r, tr_toUserId r] else [tr_toUserId r, tr_fromUserId r]
      else [tr_fromUserId r])"

fun lockWallets :: "svc_env \<Rightarrow> transfer_req \<Rightarrow> string list \<Rightarrow> unit unit_of_work" where
  "lockWallets env r [] = returnU ()"
| "lockWallets env r (u # us) =
     bindU (if u = tr_fromUserId r then require_wallet ''Sender wallet not found'' u (tr_currency r)
            else wallet_or_create env u (tr_currency r)) (\<lambda>_. lockWallets env r us)"

definition new_entry :: "string \<Rightarrow> string \<Rightarrow> ledger_direction \<Rightarrow> int \<Rightarrow> int \<Rightarrow> int \<Rightarrow> string \<Rightarrow> ledger_entry" where
  "new_entry tid wid dir amount balanceBefore balanceAfter note =
     \<lparr>le_id = 0, le_transactionId = tid, le_walletId = Some wid, le_direction = dir, le_amount = amount,
      le_balanceBefore = balanceBefore, le_balanceAfter = balanceAfter, le_note = Some note, le_createdAt = 0\<rparr>"

definition pending_tx :: "transfer_req \<Rightarrow> transaction_type \<Rightarrow> settlement_status \<Rightarrow> int \<Rightarrow> transaction" where
  "pending_tx r type settlement nextAttempt =
     \<lparr>tx_id = [], tx_idempotencyKey = tr_idempotencyKey r, tx_type = type, tx_status = TX_PENDING,
      tx_settlementStatus = settlement, tx_chainStatus = CH_PENDING,
      tx_requestingUserId = tr_requestingUserId r, tx_fromUserId = tr_fromUserId r,
      tx_toUserId = Some (tr_toUserId r), tx_amount = tr_amount r, tx_currency = tr_currency r,
      tx_memo = Some (tr_memo r), tx_isExternal = tr_isExternal r, tx_externalPartner = tr_externalPartner r,
      tx_externalAccountNo = tr_externalAccountNo r, tx_externalRef = None, tx_chainTxId = None,
      tx_receiptJson = None, tx_chainRetryCount = 0, tx_chainLastAttemptAt = None,
      tx_chainNextAttemptAt = Some nextAttempt, tx_errorCode = None, tx_errorMessage = None, tx_createdAt = 0\<rparr>"

section \<open>Persisting a transfer\<close>

text \<open>
  The rows are read again after each write, so a sender that is its own receiver would be seen with
  the debit applied, as the shared wallet object of the code is.
\<close>

definition debit_wallet :: "wallet \<Rightarrow> int \<Rightarrow> wallet unit_of_work" where
  "debit_wallet w amount = save_wallet (w\<lparr>w_balance := js_sub (w_balance w) amount\<rparr>)"

definition credit_wallet :: "wallet \<Rightarrow> int \<Rightarrow> wallet unit_of_work" where
  "credit_wallet w amount = save_wallet (w\<lparr>w_balance := js_add (w_balance w) amount\<rparr>)"

definition credit_receiver :: "svc_env \<Rightarrow> transfer_req \<Rightarrow> (wallet \<times> wallet) option unit_of_work" where
  "credit_receiver env r =
     (if \<not> tr_isExternal r \<and> tr_toUserId r \<noteq> []
      then bindU (wallet_or_create env (tr_toUserId r) (tr_currency r)) (\<lambda>receiver.
           bindU (checkU (w_status receiver = WALLET_ACTIVE) (BadRequest ''Receiver wallet is not active'')) (\<lambda>_.
           bindU (credit_wallet receiver (tr_amount r)) (\<lambda>after. returnU (Some (receiver, after)))))
      else returnU None)"

definition write_transfer_ledger ::
    "svc_env \<Rightarrow> transfer_req \<Rightarrow> transaction \<Rightarrow> wallet \<Rightarrow> (wallet \<times> wallet) option \<Rightarrow> unit unit_of_work" where
  "write_transfer_ledger env r tx sender credit =
     bindU (getU (\<lambda>d. balance_of d (tr_fromUserId r) (tr_currency r))) (\<lambda>senderAfter.
     bindU (insert_ledger (e_now env)
              (new_entry (tx_id tx) (w_id sender) DEBIT (tr_amount r) (w_balance sender) senderAfter
                 (''Transfer debit ('' @ tr_currency r @ '')''))) (\<lambda>_.
       case credit of None \<Rightarrow> returnU ()
       | Some (receiver, after) \<Rightarrow>
           bindU (insert_ledger (e_now env)
                    (new_entry (tx_id tx) (w_id receiver) CREDIT (tr_amount r) (w_balance receiver) (w_balance after)
                       (''Transfer credit ('' @ tr_currency r @ '')''))) (\<lambda>_. returnU ())))"

definition persistTransfer :: "svc_env \<Rightarrow> transfer_req \<Rightarrow> (transaction \<times> int \<times> int) unit_of_work" where
  "persistTransfer env r d =
     (case find_tx_by_key d (tr_idempotencyKey r) of
        Some dup \<Rightarrow>
          Inr ((dup, balance_of d (tr_fromUserId r) (tr_currency r),
                if tr_toUserId r = [] then 0 else balance_of d (tr_toUserId r) (tr_currency r)), d)
      | None \<Rightarrow>
          bindU (lockWallets env r (usersToLock env r)) (\<lambda>_.
          bindU (require_wallet ''Sender wallet not found'' (tr_fromUserId r) (tr_currency r)) (\<lambda>sender.
          bindU (checkU (w_status sender = WALLET_ACTIVE) (BadRequest ''Sender wallet is not active'')) (\<lambda>_.
          bindU (checkU (tr_amount r \<le> w_balance sender) (BadRequest ''Insufficient balance'')) (\<lambda>_.
          bindU (debit_wallet sender (tr_amount r)) (\<lambda>_.
          bindU (credit_receiver env r) (\<lambda>credit.
          bindU (insert_tx (e_now env)
                   (pending_tx r TRANSFER (if tr_isExternal r then ST_PENDING else ST_NONE) (e_now env))) (\<lambda>tx.
          bindU (write_transfer_ledger env r tx sender credit) (\<lambda>_.
          bindU (getU (\<lambda>s. balance_of s (tr_fromUserId r) (tr_currency r))) (\<lambda>senderBalance.
          returnU (tx, senderBalance, case credit of None \<Rightarrow> 0 | Some (_, after) \<Rightarrow> w_balance after)))))))))) d)"

section \<open>Persisting deposits and withdrawals\<close>

definition funded_req :: "topup_req \<Rightarrow> funding_source \<Rightarrow> string \<Rightarrow> string \<Rightarrow> string \<Rightarrow> transfer_req" where
  "funded_req r source fromUser toUser verb =
     \<lparr>tr_idempotencyKey = ur_idempotencyKey r, tr_requestingUserId = ur_userId r, tr_fromUserId = fromUser,
      tr_toUserId = toUser, tr_amount = ur_amount r, tr_currency = ur_currency r,
      tr_memo = or_str (Some (ur_memo r)) (verb @ '' via '' @ fs_provider source), tr_isExternal = True,
      tr_externalPartner = Some (fs_provider source), tr_externalAccountNo = Some (fs_accountRefMasked source)\<rparr>"

definition persistTopupIntent :: "svc_env \<Rightarrow> topup_req \<Rightarrow> funding_source \<Rightarrow> (transaction \<times> int) unit_of_work" where
  "persistTopupIntent env r source d =
     (case find_tx_by_key d (ur_idempotencyKey r) of
        Some dup \<Rightarrow> Inr ((dup, balance_of d (ur_userId r) (ur_currency r)), d)
      | None \<Rightarrow>
          bindU (wallet_or_create env (ur_userId r) (ur_currency r)) (\<lambda>wallet.
          bindU (checkU (w_status wallet = WALLET_ACTIVE) (BadRequest ''Wallet is not active'')) (\<lambda>_.
          bindU (insert_tx (e_now env)
                   (pending_tx (funded_req r source (c_chainExternalSourceUserId (e_cfg env)) (ur_userId r) ''Topup'')
                      DEPOSIT ST_PENDING (e_now env + c_chainAsyncLeaseMs (e_cfg env)))) (\<lambda>tx.
          returnU (tx, w_balance wallet)))) d)"

definition persistWithdrawalRequest ::
    "svc_env \<Rightarrow> topup_req \<Rightarrow> funding_source \<Rightarrow> (transaction \<times> int) unit_of_work" where
  "persistWithdrawalRequest env r source d =
     (case find_tx_by_key d (ur_idempotencyKey r) of
        Some dup \<Rightarrow> Inr ((dup, balance_of d (ur_userId r) (ur_currency r)), d)
      | None \<Rightarrow>
          bindU (require_wallet ''Wallet not found'' (ur_userId r) (ur_currency r)) (\<lambda>wallet.
          bindU (checkU (w_status wallet = WALLET_ACTIVE) (BadRequest ''Wallet is not active'')) (\<lambda>_.
          bindU (checkU (ur_amount r \<le> w_balance wallet) (BadRequest ''Insufficient balance'')) (\<lambda>_.
          bindU (debit_wallet wallet (ur_amount r)) (\<lambda>after.
          bindU (insert_tx (e_now env)
                   (pending_tx (funded_req r source (ur_userId r) (c_chainExternalSinkUserId (e_cfg env)) ''Withdrawal'')
                      WITHDRAWAL ST_PENDING (e_now env + c_chainAsyncLeaseMs (e_cfg env)))) (\<lambda>tx.
          bindU (insert_ledger (e_now env)
                   (new_entry (tx_id tx) (w_id wallet) DEBIT (ur_amount r) (w_balance wallet) (w_balance after)
                      (''Withdrawal debit ('' @ ur_currency r @ '')''))) (\<lambda>_.
          returnU (tx, w_balance after))))))) d)"

section \<open>Credits after the fact\<close>

definition applyDepositCreditIfNeeded :: "svc_env \<Rightarrow> transaction \<Rightarrow> unit unit_of_work" where
  "applyDepositCreditIfNeeded env tx d =
     (if tx_type tx \<noteq> DEPOSIT \<or> find_credit d (tx_id tx) \<noteq> None then Inr ((), d)
      else
        bindU (wallet_or_create env (coalesce (tx_toUserId tx) (tx_requestingUserId tx)) (tx_currency tx)) (\<lambda>wallet.
        bindU (checkU (w_status wallet = WALLET_ACTIVE) (BadRequest ''Wallet is not active'')) (\<lambda>_.
        bindU (credit_wallet wallet (tx_amount tx)) (\<lambda>after.
        bindU (insert_ledger (e_now env)
                 (new_entry (tx_id tx) (w_id wallet) CREDIT (tx_amount tx) (w_balance wallet) (w_balance after)
                    (''Topup settlement credit ('' @ tx_currency tx @ '')''))) (\<lambda>_. returnU ())))) d)"

definition rollbackWithdrawalDebitUsingManager :: "svc_env \<Rightarrow> transaction \<Rightarrow> string \<Rightarrow> unit unit_of_work" where
  "rollbackWithdrawalDebitUsingManager env tx reasonCode d =
     (if find_credit d (tx_id tx) \<noteq> None then Inr ((), d)
      else
        bindU (require_wallet ''Wallet not found for rollback'' (tx_fromUserId tx) (tx_currency tx)) (\<lambda>wallet.
        bindU (credit_wallet wallet (tx_amount tx)) (\<lambda>after.
        bindU (insert_ledger (e_now env)
                 (new_entry (tx_id tx) (w_id wallet) CREDIT (tx_amount tx) (w_balance wallet) (w_balance after)
                    (''Withdrawal rollback ('' @ reasonCode @ '')''))) (\<lambda>_. returnU ()))) d)"

definition rollbackWithdrawalDebit :: "svc_env \<Rightarrow> transaction \<Rightarrow> string \<Rightarrow> unit db_handler" where
  "rollbackWithdrawalDebit env tx reasonCode =
     (if tx_type tx \<noteq> WITHDRAWAL then returnH ()
      else atomic (rollbackWithdrawalDebitUsingManager env tx reasonCode))"

section \<open>Settlement\<close>

definition settle_row :: "svc_env \<Rightarrow> transaction \<Rightarrow> transaction" where
  "settle_row env tx =
     tx\<lparr>tx_settlementStatus := ST_SETTLED, tx_status := TX_COMPLETED,
        tx_chainNextAttemptAt :=
          (if tx_chainStatus tx = CH_PENDING then Some (e_now env) else tx_chainNextAttemptAt tx),
        tx_errorCode := None, tx_errorMessage := None\<rparr>"

definition fail_row :: "svc_env \<Rightarrow> string option \<Rightarrow> transaction \<Rightarrow> transaction" where
  "fail_row env note tx =
     tx\<lparr>tx_settlementStatus := ST_FAILED, tx_status := TX_FAILED,
        tx_chainNextAttemptAt :=
          (if tx_chainStatus tx = CH_PENDING then Some (e_now env) else tx_chainNextAttemptAt tx),
        tx_errorCode := Some ''SETTLEMENT_FAILED'',
        tx_errorMessage := Some (or_str note ''Settlement failed'')\<rparr>"

definition markSettlement :: "svc_env \<Rightarrow> string \<Rightarrow> string option \<Rightarrow> string option \<Rightarrow> bool unit_of_work" where
  "markSettlement env transactionId settlementStatus note d =
     (let normalizedStatus = js_upper (js_trim (or_str settlementStatus []))
      in if normalizedStatus \<noteq> ''SETTLED'' \<and> normalizedStatus \<noteq> ''FAILED''
         then Inl (BadRequest ''Unsupported settlement status'')
         else case find_tx d transactionId of None \<Rightarrow> Inr (False, d)
           | Some tx \<Rightarrow>
               bindU (if normalizedStatus = ''SETTLED''
                      then bindU (if tx_type tx = DEPOSIT then applyDepositCreditIfNeeded env tx else returnU ())
                             (\<lambda>_. returnU (settle_row env tx))
                      else bindU (if tx_type tx = WITHDRAWAL
                                  then rollbackWithdrawalDebitUsingManager env tx ''SETTLEMENT_FAILED'' else returnU ())
                             (\<lambda>_. returnU (fail_row env note tx))) (\<lambda>tx'.
               bindU (save_tx tx') (\<lambda>saved.
               bindU (modifyU (enqueueTransactionEvent env saved)) (\<lambda>_. returnU True))) d)"

section \<open>The outside payment call\<close>

definition initiate_request_of :: "transaction \<Rightarrow> initiate_request" where
  "initiate_request_of tx =
     \<lparr>iq_transactionId = tx_id tx, iq_partnerCode = coalesce (tx_externalPartner tx) [],
      iq_accountNo = coalesce (tx_externalAccountNo tx) [], iq_amount = tx_amount tx,
      iq_currency = tx_currency tx, iq_note = tx_memo tx,
      iq_transferType = (if tx_type tx = DEPOSIT then ''TOPUP'' else ''WITHDRAWAL'')\<rparr>"

definition outside_answer :: "string + initiate_response \<Rightarrow> transaction \<Rightarrow> transaction" where
  "outside_answer answer tx =
     (case answer of
        Inr response \<Rightarrow>
          let tx1 = tx\<lparr>tx_externalRef := or_null (ir_partnerRef response)\<rparr>
          in if ir_status response \<noteq> ''SUBMITTED''
             then tx1\<lparr>tx_status := TX_FAILED, tx_settlementStatus := ST_FAILED,
                      tx_errorCode := Some ''OUTSIDE_PAYMENT_REJECTED'',
                      tx_errorMessage := Some (or_str (Some (ir_partnerMessage response)) ''Outside payment rejected'')\<rparr>
             else tx1
      | Inl msg \<Rightarrow>
          tx\<lparr>tx_status := TX_FAILED, tx_settlementStatus := ST_FAILED,
             tx_errorCode := Some ''OUTSIDE_PAYMENT_ERROR'',
             tx_errorMessage := Some (or_str (Some msg) ''Outside payment service unavailable'')\<rparr>)"

definition submitOutsideTransfer :: "svc_env \<Rightarrow> nat \<Rightarrow> transaction \<Rightarrow> transaction db_handler" where
  "submitOutsideTransfer env k tx =
     (case e_outside env of None \<Rightarrow> throwH (BadRequest ''Outside payment service is not available'')
      | Some initiateTransfer \<Rightarrow>
          if or_str (tx_externalPartner tx) [] = [] \<or> or_str (tx_externalAccountNo tx) [] = []
          then throwH (BadRequest ''Missing external partner information'')
          else bindH (gap env k) (\<lambda>_.
                 atomic (save_tx (outside_answer (initiateTransfer (initiate_request_of tx)) tx))))"

section \<open>The public operations\<close>

text \<open>A request's currency is normalised by validation; getWallet would normalise it to itself.\<close>

definition enqueue_event :: "svc_env \<Rightarrow> transaction \<Rightarrow> unit db_handler" where
  "enqueue_event env tx = atomic (modifyU (enqueueTransactionEvent env tx))"

definition createTransfer :: "svc_env \<Rightarrow> create_transfer_request \<Rightarrow> transfer_response db_handler" where
  "createTransfer env q =
     bindH (liftE (validateCreateTransfer q)) (\<lambda>r.
     bindH (readH (\<lambda>d. find_tx_by_key d (tr_idempotencyKey r))) (\<lambda>existing.
       case existing of
         Some tx \<Rightarrow>
           bindH (gap env 0) (\<lambda>_.
           bindH (readH (\<lambda>d. balance_of d (tr_fromUserId r) (tr_currency r))) (\<lambda>sender.
           bindH (gap env 1) (\<lambda>_.
           bindH (readH (\<lambda>d. if tr_toUserId r = [] then 0 else balance_of d (tr_toUserId r) (tr_currency r))) (\<lambda>receiver.
           returnH (mapTransferResponse tx sender receiver)))))
       | None \<Rightarrow>
           bindH (gap env 0) (\<lambda>_.
           bindH (atomic (persistTransfer env r)) (\<lambda>(tx, senderBalance, receiverBalance).
           bindH (if tx_isExternal tx then submitOutsideTransfer env 1 tx else returnH tx) (\<lambda>tx1.
           bindH (gap env 2) (\<lambda>_.
           bindH (if \<not> tx_isExternal tx1 \<and> tx_status tx1 \<noteq> TX_FAILED
                  then atomic (save_tx (tx1\<lparr>tx_chainNextAttemptAt := Some (e_now env)\<rparr>)) else returnH tx1) (\<lambda>tx2.
           bindH (gap env 3) (\<lambda>_.
           bindH (enqueue_event env tx2) (\<lambda>_.
           returnH (mapTransferResponse tx2 senderBalance receiverBalance))))))))))"

definition createTopupIntent :: "svc_env \<Rightarrow> create_topup_request \<Rightarrow> transfer_response db_handler" where
  "createTopupIntent env q =
     bindH (liftE (validateCreateTopupIntent q)) (\<lambda>r.
     bindH (\<lambda>d. (getActiveFundingSource (ur_userId r) (ur_fundingSourceId r) d, d)) (\<lambda>source.
     bindH (gap env 0) (\<lambda>_.
     bindH (readH (\<lambda>d. find_tx_by_key d (ur_idempotencyKey r))) (\<lambda>existing.
     bindH (gap env 1) (\<lambda>_.
       case existing of
         Some tx \<Rightarrow>
           bindH (readH (\<lambda>d. balance_of d (ur_userId r) (ur_currency r))) (\<lambda>b.
           returnH (mapTransferResponse tx b b))
       | None \<Rightarrow>
           bindH (atomic (persistTopupIntent env r source)) (\<lambda>(tx, walletBalance).
           bindH (submitOutsideTransfer env 2 tx) (\<lambda>tx1.
           bindH (gap env 3) (\<lambda>_.
           bindH (if tx_status tx1 = TX_FAILED then anchorToChain env 4 tx1 else returnH tx1) (\<lambda>tx2.
           bindH (gap env 5) (\<lambda>_.
           bindH (enqueue_event env tx2) (\<lambda>_.
           returnH (mapTransferResponse tx2 walletBalance walletBalance))))))))))))"

definition createWithdrawalRequest :: "svc_env \<Rightarrow> create_withdrawal_request \<Rightarrow> transfer_response db_handler" where
  "createWithdrawalRequest env q =
     bindH (liftE (validateCreateWithdrawalRequest q)) (\<lambda>(r, simulateFailure).
     bindH (\<lambda>d. (getActiveFundingSource (ur_userId r) (ur_fundingSourceId r) d, d)) (\<lambda>source.
     bindH (gap env 0) (\<lambda>_.
     bindH (readH (\<lambda>d. find_tx_by_key d (ur_idempotencyKey r))) (\<lambda>existing.
     bindH (gap env 1) (\<lambda>_.
       case existing of
         Some tx \<Rightarrow>
           bindH (readH (\<lambda>d. balance_of d (ur_userId r) (ur_currency r))) (\<lambda>b.
           returnH (mapTransferResponse tx b 0))
       | None \<Rightarrow>
           bindH (atomic (persistWithdrawalRequest env r source)) (\<lambda>(tx, walletBalance).
           if simulateFailure
           then bindH (gap env 2) (\<lambda>_.
                bindH (rollbackWithdrawalDebit env tx ''WITHDRAWAL_SIMULATED_FAILURE'') (\<lambda>_.
                bindH (gap env 3) (\<lambda>_.
                bindH (atomic (save_tx (tx\<lparr>tx_status := TX_FAILED, tx_settlementStatus := ST_FAILED,
                         tx_errorCode := Some ''WITHDRAWAL_SIMULATED_FAILURE'',
                         tx_errorMessage := Some ''Withdrawal failure simulated by request''\<rparr>))) (\<lambda>tx1.
                bindH (anchorToChain env 4 tx1) (\<lambda>tx2.
                bindH (gap env 5) (\<lambda>_.
                bindH (enqueue_event env tx2) (\<lambda>_.
                returnH (mapTransferResponse tx2 (js_add walletBalance (ur_amount r)) 0))))))))
           else
                bindH (submitOutsideTransfer env 2 tx) (\<lambda>tx1.
                bindH (gap env 3) (\<lambda>_.
                if tx_status tx1 = TX_FAILED
                then bindH (rollbackWithdrawalDebit env tx1 (coalesce (tx_errorCode tx1) ''WITHDRAWAL_FAILED'')) (\<lambda>_.
                     bindH (anchorToChain env 4 tx1) (\<lambda>tx2.
                     bindH (gap env 5) (\<lambda>_.
                     bindH (enqueue_event env tx2) (\<lambda>_.
                     returnH (mapTransferResponse tx2 (js_add walletBalance (ur_amount r)) 0)))))
                else bindH (enqueue_event env tx1) (\<lambda>_.
                     returnH (mapTransferResponse tx1 walletBalance 0))))))))))"

section \<open>Queries\<close>

text \<open>
  \<open>where\<close> is how the query builder combines the condition "sender or receiver" of the first
  where call with the conjunction of the later andWhere calls: it gets the three truth values.
\<close>

definition listUserTransactions ::
    "(bool \<Rightarrow> bool \<Rightarrow> bool \<Rightarrow> bool) \<Rightarrow> string \<Rightarrow> int \<Rightarrow> int \<Rightarrow> bool \<Rightarrow> db \<Rightarrow> transaction list" where
  "listUserTransactions where_and userId limit offset includeFailed d =
     (let matches = (\<lambda>t. where_and (tx_fromUserId t = userId) (tx_toUserId t = Some userId)
            (includeFailed \<or> (tx_status t \<noteq> TX_FAILED \<and> tx_chainStatus t \<noteq> CH_FAILED \<and> tx_settlementStatus t \<noteq> ST_FAILED)))
      in take (nat (max 1 (min limit 200))) (drop (nat (max 0 offset))
           (rev (sort_key tx_createdAt (filter matches (d_txs d))))))"

definition settlement_candidate :: "transaction \<Rightarrow> bool" where
  "settlement_candidate t = (tx_isExternal t \<and> tx_settlementStatus t = ST_PENDING)"

definition listSettlementCandidates :: "int \<Rightarrow> db \<Rightarrow> transaction list" where
  "listSettlementCandidates limit d =
     take (nat (max 1 (min limit 500))) (sort_key tx_createdAt (filter settlement_candidate (d_txs d)))"

section \<open>Reconciliation of balances with the ledger\<close>

record mismatch_item =
  mi_walletId :: string
  mi_userId :: string
  mi_currency :: string
  mi_currentBalance :: int
  mi_expectedBalance :: int
  mi_openingBalance :: int
  mi_ledgerDelta :: int

definition wallet_mismatch :: "db \<Rightarrow> wallet \<Rightarrow> mismatch_item option" where
  "wallet_mismatch d w =
     (case sort_key le_id (entries_of d (w_id w)) of [] \<Rightarrow> None
      | firstEntry # _ \<Rightarrow>
          let ledgerDelta = js_round (sum_list (map delta (entries_of d (w_id w))));
              openingBalance = le_balanceBefore firstEntry;
              expectedBalance = js_add openingBalance ledgerDelta
          in if expectedBalance = w_balance w then None
             else Some \<lparr>mi_walletId = w_id w, mi_userId = w_userId w, mi_currency = w_currency w,
                        mi_currentBalance = w_balance w, mi_expectedBalance = expectedBalance,
                        mi_openingBalance = openingBalance, mi_ledgerDelta = ledgerDelta\<rparr>)"

text \<open>
  The loop over the wallets read at the start. Other requests may commit before each wallet is
  looked at and, with autoFix, between the look and the save of the wallet as it was read.
\<close>

fun reconcile_loop :: "svc_env \<Rightarrow> bool \<Rightarrow> nat \<Rightarrow> wallet list \<Rightarrow> (mismatch_item list \<times> nat) db_handler" where
  "reconcile_loop env autoFix k [] = returnH ([], 0)"
| "reconcile_loop env autoFix k (w # ws) =
     bindH (gap env k) (\<lambda>_.
     bindH (readH (\<lambda>d. wallet_mismatch d w)) (\<lambda>m.
       case m of None \<Rightarrow> reconcile_loop env autoFix (k + 2) ws
       | Some item \<Rightarrow>
           bindH (if autoFix
                  then bindH (gap env (k + 1)) (\<lambda>_.
                       bindH (atomic (save_wallet (w\<lparr>w_balance := mi_expectedBalance item\<rparr>))) (\<lambda>_. returnH 1))
                  else returnH 0) (\<lambda>fixed_here.
           bindH (reconcile_loop env autoFix (k + 2) ws) (\<lambda>(items, fixed).
           returnH (item # items, fixed_here + fixed)))))"

record reconcile_report =
  rr_scanned :: nat
  rr_mismatches :: nat
  rr_fixed :: nat
  rr_items :: "mismatch_item list"

definition reconcileWallets :: "svc_env \<Rightarrow> int \<Rightarrow> bool \<Rightarrow> reconcile_report db_handler" where
  "reconcileWallets env limit autoFix =
     bindH (readH (\<lambda>d. take (nat (max 1 (min limit 5000))) (sort_key w_createdAt (d_wallets d)))) (\<lambda>wallets.
     bindH (reconcile_loop env autoFix 0 wallets) (\<lambda>(items, fixed).
     returnH \<lparr>rr_scanned = length wallets, rr_mismatches = length items, rr_fixed = fixed, rr_items = items\<rparr>))"

end
