(* ===== verification/Tx_Ledger.thy ===== *)
theory Tx_Ledger
  imports Tx_Service
begin

text \<open>
  The books of the transaction service: the invariant that ties wallets, transactions and ledger
  entries together, the proof that every unit of work keeps it, and what follows for balances,
  reconciliation and the amount of money in the system.
\<close>

section \<open>The invariant\<close>

definition keys_wf :: "db \<Rightarrow> bool" where
  "keys_wf d =
     (inj (d_uuid d) \<and> distinct (map w_id (d_wallets d)) \<and>
      distinct (map (\<lambda>w. (w_userId w, w_currency w)) (d_wallets d)) \<and>
      distinct (map tx_id (d_txs d)) \<and> distinct (map tx_idempotencyKey (d_txs d)) \<and>
      w_id ` set (d_wallets d) \<subseteq> d_uuid d ` {..<d_seq d} \<and> tx_id ` set (d_txs d) \<subseteq> d_uuid d ` {..<d_seq d} \<and>
      map le_id (d_ledger d) = [0..<d_lseq d])"

text \<open>An entry belongs to a wallet and a transaction of the same currency.\<close>

definition entry_ok :: "db \<Rightarrow> ledger_entry \<Rightarrow> bool" where
  "entry_ok d e =
     (\<exists>w\<in>set (d_wallets d). \<exists>t\<in>set (d_txs d).
        le_walletId e = Some (w_id w) \<and> le_transactionId e = tx_id t \<and> w_currency w = tx_currency t)"

definition wallet_ok :: "db \<Rightarrow> wallet \<Rightarrow> bool" where
  "wallet_ok d w = (trail 0 (entries_of d (w_id w)) (w_balance w) \<and> 0 \<le> w_balance w)"

text \<open>The net effect of the movements of a transaction on the wallets.\<close>

definition net :: "(ledger_direction \<times> int) list \<Rightarrow> int" where
  "net ms = sum_list (map (\<lambda>(dir, a). case dir of CREDIT \<Rightarrow> a | DEBIT \<Rightarrow> - a) ms)"

definition booked_total :: "db \<Rightarrow> string \<Rightarrow> int" where
  "booked_total d c =
     sum_list (map (\<lambda>t. net (tx_moves d (tx_id t))) (filter (\<lambda>t. tx_currency t = c) (d_txs d)))"

definition books_wf :: "db \<Rightarrow> bool" where
  "books_wf d =
     (list_all (wallet_ok d) (d_wallets d) \<and> list_all (entry_ok d) (d_ledger d) \<and>
      (\<forall>c. total_balance d c = booked_total d c))"

definition moves_ok :: "transaction \<Rightarrow> (ledger_direction \<times> int) list \<Rightarrow> bool" where
  "moves_ok t ms =
     (0 < tx_amount t \<and>
      (case tx_type t of
         TRANSFER \<Rightarrow> ms = (if tx_isExternal t then [(DEBIT, tx_amount t)]
                          else [(DEBIT, tx_amount t), (CREDIT, tx_amount t)])
       | DEPOSIT \<Rightarrow> tx_isExternal t \<and> (ms = [] \<or> ms = [(CREDIT, tx_amount t)])
       | WITHDRAWAL \<Rightarrow> tx_isExternal t \<and>
           (ms = [(DEBIT, tx_amount t)] \<or> ms = [(DEBIT, tx_amount t), (CREDIT, tx_amount t)])))"

definition moves_wf :: "db \<Rightarrow> bool" where
  "moves_wf d = list_all (\<lambda>t. moves_ok t (tx_moves d (tx_id t))) (d_txs d)"

definition ledger_inv :: "db \<Rightarrow> bool" where
  "ledger_inv d = (keys_wf d \<and> books_wf d \<and> moves_wf d)"

lemma ledger_views [simp]:
  "entries_of (d\<lparr>d_wallets := x\<rparr>) = entries_of d" "entries_of (d\<lparr>d_txs := y\<rparr>) = entries_of d"
  "entries_of (d\<lparr>d_seq := n\<rparr>) = entries_of d" "tx_moves (d\<lparr>d_wallets := x\<rparr>) = tx_moves d"
  "tx_moves (d\<lparr>d_txs := y\<rparr>) = tx_moves d" "tx_moves (d\<lparr>d_seq := n\<rparr>) = tx_moves d"
  by (auto simp add: entries_of_def tx_moves_def fun_eq_iff)

lemmas ledger_inv_defs = ledger_inv_def keys_wf_def books_wf_def moves_wf_def list_all_iff

section \<open>Lookups under the invariant\<close>

lemma find_walletD:
  "find_wallet d u c = Some w \<Longrightarrow> w \<in> set (d_wallets d) \<and> w_userId w = u \<and> w_currency w = c"
  unfolding find_wallet_def by (drule find_row_SomeD) auto

lemma find_wallet_row:
  assumes "keys_wf d" and "w \<in> set (d_wallets d)"
  shows "find_wallet d (w_userId w) (w_currency w) = Some w"
proof -
  have "distinct (map (\<lambda>w. (w_userId w, w_currency w)) (d_wallets d))"
    using assms(1) by (simp add: keys_wf_def)
  from find_row_key [OF this assms(2)] show ?thesis by (simp add: find_wallet_def)
qed

lemma find_txD: "find_tx d i = Some t \<Longrightarrow> t \<in> set (d_txs d) \<and> tx_id t = i"
  unfolding find_tx_def by (drule find_row_SomeD) auto

lemma find_tx_row:
  assumes "keys_wf d" and "t \<in> set (d_txs d)"
  shows "find_tx d (tx_id t) = Some t"
  using find_row_key [of tx_id "d_txs d" t] assms by (simp add: keys_wf_def find_tx_def)

lemma wallet_unique:
  "keys_wf d \<Longrightarrow> x \<in> set (d_wallets d) \<Longrightarrow> y \<in> set (d_wallets d) \<Longrightarrow> w_id x = w_id y \<Longrightarrow> x = y"
  using row_unique [of w_id "d_wallets d"] by (simp add: keys_wf_def)

lemma tx_unique:
  "keys_wf d \<Longrightarrow> x \<in> set (d_txs d) \<Longrightarrow> y \<in> set (d_txs d) \<Longrightarrow> tx_id x = tx_id y \<Longrightarrow> x = y"
  using row_unique [of tx_id "d_txs d"] by (simp add: keys_wf_def)

lemma find_credit_None: "find_credit d i = None \<longleftrightarrow> CREDIT \<notin> fst ` set (tx_moves d i)"
  by (auto simp add: find_credit_def find_row_None_iff tx_moves_def image_iff)

lemma fresh_uuid:
  assumes "keys_wf d"
  shows "d_uuid d (d_seq d) \<notin> w_id ` set (d_wallets d)" "d_uuid d (d_seq d) \<notin> tx_id ` set (d_txs d)"
proof -
  have "d_uuid d (d_seq d) \<notin> d_uuid d ` {..<d_seq d}"
    using assms by (auto simp add: keys_wf_def inj_eq)
  then show "d_uuid d (d_seq d) \<notin> w_id ` set (d_wallets d)" "d_uuid d (d_seq d) \<notin> tx_id ` set (d_txs d)"
    using assms by (auto simp add: keys_wf_def)
qed

lemma no_entries_fresh:
  assumes "keys_wf d" and "books_wf d"
  shows "entries_of d (d_uuid d (d_seq d)) = []" "tx_moves d (d_uuid d (d_seq d)) = []"
  using fresh_uuid [OF assms(1)] assms(2)
  by (auto simp add: books_wf_def list_all_iff entry_ok_def entries_of_def tx_moves_def filter_empty_conv image_iff)
    (metis option.inject)+

section \<open>Posting one movement\<close>

text \<open>The new balance of a wallet and the entry that explains it.\<close>

definition signed_amount :: "ledger_direction \<Rightarrow> int \<Rightarrow> int" where
  "signed_amount dir a = (case dir of CREDIT \<Rightarrow> a | DEBIT \<Rightarrow> - a)"

definition post :: "int \<Rightarrow> string \<Rightarrow> wallet \<Rightarrow> ledger_direction \<Rightarrow> int \<Rightarrow> string \<Rightarrow> db \<Rightarrow> db" where
  "post now tid w dir a note d =
     (let b = w_balance w + signed_amount dir a;
          e = (new_entry tid (w_id w) dir a (w_balance w) b note)\<lparr>le_id := d_lseq d, le_createdAt := now\<rparr>
      in d\<lparr>d_wallets := save_row w_id (w\<lparr>w_balance := b\<rparr>) (d_wallets d),
           d_ledger := d_ledger d @ [e], d_lseq := Suc (d_lseq d)\<rparr>)"

lemma post_fields [simp]:
  "d_txs (post now tid w dir a note d) = d_txs d" "d_uuid (post now tid w dir a note d) = d_uuid d"
  "d_seq (post now tid w dir a note d) = d_seq d"
  "d_wallets (post now tid w dir a note d) =
     save_row w_id (w\<lparr>w_balance := w_balance w + signed_amount dir a\<rparr>) (d_wallets d)"
  by (simp_all add: post_def Let_def)

lemma entries_post:
  "entries_of (post now tid w dir a note d) wid =
     entries_of d wid @
     (if wid = w_id w
      then [(new_entry tid (w_id w) dir a (w_balance w) (w_balance w + signed_amount dir a) note)\<lparr>le_id := d_lseq d, le_createdAt := now\<rparr>]
      else [])"
  by (auto simp add: entries_of_def post_def Let_def new_entry_def)

lemma tx_moves_post:
  "tx_moves (post now tid w dir a note d) i = tx_moves d i @ (if i = tid then [(dir, a)] else [])"
  by (auto simp add: tx_moves_def post_def Let_def new_entry_def)

lemma net_append: "net (xs @ ys) = net xs + net ys"
  by (simp add: net_def)

lemma net_single: "net [(dir, a)] = signed_amount dir a"
  by (simp add: net_def signed_amount_def)

lemma booked_total_post:
  assumes "keys_wf d" and "t \<in> set (d_txs d)"
  shows "booked_total (post now (tx_id t) w dir a note d) c =
    booked_total d c + (if tx_currency t = c then signed_amount dir a else 0)"
proof (cases "tx_currency t = c")
  case True
  have "distinct (map tx_id (filter (\<lambda>t. tx_currency t = c) (d_txs d)))"
    using assms(1) by (simp add: keys_wf_def distinct_map_filter)
  from sum_list_map_update [OF this, of t "\<lambda>u. net (tx_moves (post now (tx_id t) w dir a note d) (tx_id u))"
      "\<lambda>u. net (tx_moves d (tx_id u))"]
  show ?thesis using True assms(2)
    by (simp add: booked_total_def tx_moves_post net_append net_single)
next
  case False
  have "tx_id u \<noteq> tx_id t" if "u \<in> set (d_txs d)" "tx_currency u = c" for u
    using that False assms by (auto simp add: keys_wf_def distinct_map inj_on_def)
  then have "map (\<lambda>u. net (tx_moves (post now (tx_id t) w dir a note d) (tx_id u))) (filter (\<lambda>t. tx_currency t = c) (d_txs d)) =
      map (\<lambda>u. net (tx_moves d (tx_id u))) (filter (\<lambda>t. tx_currency t = c) (d_txs d))"
    by (auto simp add: tx_moves_post)
  then show ?thesis using False unfolding booked_total_def post_fields by (simp only: if_False add_0_right)
qed

lemma total_balance_save:
  assumes "distinct (map w_id (d_wallets d))" and "w \<in> set (d_wallets d)" and "w_id w' = w_id w"
    and "w_currency w' = w_currency w" and "d_wallets d' = save_row w_id w' (d_wallets d)"
  shows "total_balance d' c = total_balance d c + (if w_currency w = c then w_balance w' - w_balance w else 0)"
proof -
  have cur: "w_currency x = w_currency w'" if "x \<in> set (d_wallets d)" "w_id x = w_id w'" for x
    using row_unique [OF assms(1) that(1) assms(2)] that(2) assms(3,4) by simp
  then have filt: "filter (\<lambda>w. w_currency w = c) (save_row w_id w' (d_wallets d)) =
      save_row w_id w' (filter (\<lambda>w. w_currency w = c) (d_wallets d))"
    using assms(4) by (intro filter_save_row) auto
  show ?thesis
  proof (cases "w_currency w = c")
    case True
    have "distinct (map w_id (filter (\<lambda>w. w_currency w = c) (d_wallets d)))"
      using assms(1) by (rule distinct_map_filter)
    from sum_list_save_row [OF this, of w w' w_balance] True assms(2,3) show ?thesis
      by (simp add: total_balance_def assms(5) filt)
  next
    case False
    have "save_row w_id w' (filter (\<lambda>w. w_currency w = c) (d_wallets d)) = filter (\<lambda>w. w_currency w = c) (d_wallets d)"
      using cur False assms(4) by (intro save_row_absent) auto
    then show ?thesis using False by (simp add: total_balance_def assms(5) filt)
  qed
qed

lemma le_id_post: "keys_wf d \<Longrightarrow> map le_id (d_ledger (post now tid w dir a note d)) = [0..<Suc (d_lseq d)]"
  by (simp add: keys_wf_def post_def Let_def new_entry_def)

lemma keys_wf_post:
  assumes "keys_wf d" and "w \<in> set (d_wallets d)"
  shows "keys_wf (post now tid w dir a note d)"
proof -
  let ?w = "w\<lparr>w_balance := w_balance w + signed_amount dir a\<rparr>"
  have row: "x = w" if "x \<in> set (d_wallets d)" "w_id x = w_id w" for x
    using wallet_unique [OF assms(1) that(1) assms(2)] that(2) .
  then have "map (\<lambda>w. (w_userId w, w_currency w)) (save_row w_id ?w (d_wallets d)) =
      map (\<lambda>w. (w_userId w, w_currency w)) (d_wallets d)"
    by (intro map_save_row_same) auto
  moreover have "map w_id (save_row w_id ?w (d_wallets d)) = map w_id (d_wallets d)" by simp
  moreover from this have "w_id ` set (save_row w_id ?w (d_wallets d)) = w_id ` set (d_wallets d)"
    by (metis set_map)
  moreover have "d_lseq (post now tid w dir a note d) = Suc (d_lseq d)" by (simp add: post_def Let_def)
  ultimately show ?thesis using assms(1) le_id_post [OF assms(1)]
    unfolding keys_wf_def post_fields by simp
qed

lemma books_wf_post:
  assumes "keys_wf d" and "books_wf d" and "w \<in> set (d_wallets d)" and "t \<in> set (d_txs d)"
    and "w_currency w = tx_currency t" and "0 \<le> w_balance w + signed_amount dir a"
  shows "books_wf (post now (tx_id t) w dir a note d)"
proof -
  let ?d = "post now (tx_id t) w dir a note d"
  let ?w = "w\<lparr>w_balance := w_balance w + signed_amount dir a\<rparr>"
  have "wallet_ok ?d x" if "x \<in> set (d_wallets ?d)" for x
  proof -
    from that consider "x = ?w" | "x \<in> set (d_wallets d)" "w_id x \<noteq> w_id w"
      using set_save_rowD [of x w_id ?w "d_wallets d"] by auto
    then show ?thesis
    proof cases
      case 1
      have "wallet_ok d w" using assms(2,3) by (simp add: books_wf_def list_all_iff)
      then show ?thesis using 1 assms(6)
        by (simp add: wallet_ok_def entries_post trail_append new_entry_def delta_def signed_amount_def split: ledger_direction.split)
    next
      case 2
      then have "wallet_ok d x" using assms(2) by (simp add: books_wf_def list_all_iff)
      with 2 show ?thesis by (simp add: wallet_ok_def entries_post)
    qed
  qed
  moreover have "entry_ok ?d e" if "e \<in> set (d_ledger ?d)" for e
  proof -
    have old: "entry_ok d e" if "e \<in> set (d_ledger d)" using assms(2) that by (simp add: books_wf_def list_all_iff)
    have "e \<in> set (d_ledger d) \<or> le_walletId e = Some (w_id w) \<and> le_transactionId e = tx_id t"
      using that by (auto simp add: post_def Let_def new_entry_def)
    then have "entry_ok d e"
      using old assms(3-5) by (auto simp add: entry_ok_def)
    then obtain x u where x: "x \<in> set (d_wallets d)" "u \<in> set (d_txs d)" "le_walletId e = Some (w_id x)"
      "le_transactionId e = tx_id u" "w_currency x = tx_currency u" by (auto simp add: entry_ok_def)
    let ?x = "if w_id x = w_id ?w then ?w else x"
    have "?x \<in> set (d_wallets ?d)" using x(1) by (auto simp add: set_save_row)
    moreover have "w_id ?x = w_id x" by simp
    moreover have "w_currency ?x = w_currency x"
      using wallet_unique [OF assms(1) x(1) assms(3)] by auto
    moreover have "u \<in> set (d_txs ?d)" using x(2) by simp
    ultimately show ?thesis unfolding entry_ok_def using x(3-5) by (intro bexI [of _ ?x] bexI [of _ u]) simp_all
  qed
  moreover have "total_balance ?d c = booked_total ?d c" for c
    using total_balance_save [of d w ?w ?d c] booked_total_post [OF assms(1,4)] assms(1-3,5)
    by (simp add: keys_wf_def books_wf_def)
  ultimately show ?thesis by (simp add: books_wf_def list_all_iff)
qed

section \<open>New rows\<close>

lemma insert_wallet_eq:
  "insert_wallet now u c d = Inr (w, d') \<longleftrightarrow>
     find_wallet d u c = None \<and>
     w = \<lparr>w_id = d_uuid d (d_seq d), w_userId = u, w_currency = c, w_balance = 0,
          w_status = WALLET_ACTIVE, w_createdAt = now\<rparr> \<and>
     d' = d\<lparr>d_wallets := d_wallets d @ [w], d_seq := Suc (d_seq d)\<rparr>"
  by (auto simp add: insert_wallet_def Let_def)

lemma insert_tx_eq:
  "insert_tx now t d = Inr (t', d') \<longleftrightarrow>
     find_tx_by_key d (tx_idempotencyKey t) = None \<and> tx_columns_ok t \<and>
     t' = t\<lparr>tx_id := d_uuid d (d_seq d), tx_createdAt := now\<rparr> \<and>
     d' = d\<lparr>d_txs := d_txs d @ [t'], d_seq := Suc (d_seq d)\<rparr>"
  by (auto simp add: insert_tx_def Let_def)

lemma entry_ok_mono:
  "entry_ok d e \<Longrightarrow> set (d_wallets d) \<subseteq> set (d_wallets d') \<Longrightarrow> set (d_txs d) \<subseteq> set (d_txs d') \<Longrightarrow> entry_ok d' e"
  unfolding entry_ok_def by blast

lemma ledger_inv_insert_wallet:
  assumes "ledger_inv d" and "insert_wallet now u c d = Inr (w, d')"
  shows "ledger_inv d'"
proof -
  have k: "keys_wf d" and b: "books_wf d" and m: "moves_wf d" using assms(1) by (simp_all add: ledger_inv_def)
  note eq = assms(2) [unfolded insert_wallet_eq]
  have same: "entries_of d' = entries_of d" "tx_moves d' = tx_moves d"
    using eq by (auto simp add: entries_of_def tx_moves_def)
  have "(u, c) \<notin> (\<lambda>w. (w_userId w, w_currency w)) ` set (d_wallets d)"
    using eq by (auto simp add: find_wallet_def find_row_None_iff)
  then have "keys_wf d'" using k eq fresh_uuid [OF k] by (auto simp add: keys_wf_def lessThan_Suc)
  moreover have "wallet_ok d' x" if "x \<in> set (d_wallets d')" for x
    using that b eq no_entries_fresh [OF k b]
    by (auto simp add: wallet_ok_def same books_wf_def list_all_iff)
  moreover have "entry_ok d' e" if "e \<in> set (d_ledger d')" for e
    using entry_ok_mono [of d e d'] b eq that by (auto simp add: books_wf_def list_all_iff)
  moreover have "total_balance d' c' = total_balance d c'" "booked_total d' c' = booked_total d c'" for c'
    using eq by (auto simp add: total_balance_def booked_total_def same)
  moreover have "moves_wf d'" using m eq by (auto simp add: moves_wf_def same)
  ultimately show ?thesis using b by (simp add: ledger_inv_def books_wf_def list_all_iff)
qed

lemma keys_books_insert_tx:
  assumes "keys_wf d" and "books_wf d" and "insert_tx now t d = Inr (t', d')"
  shows "keys_wf d'" and "books_wf d'" and "tx_moves d' = tx_moves d" and "tx_moves d (tx_id t') = []"
    and "d_txs d' = d_txs d @ [t']" and "d_wallets d' = d_wallets d"
proof -
  note eq = assms(3) [unfolded insert_tx_eq]
  have same: "entries_of d' = entries_of d" "tx_moves d' = tx_moves d"
    using eq by (auto simp add: entries_of_def tx_moves_def)
  then show "tx_moves d' = tx_moves d" by simp
  show fresh: "tx_moves d (tx_id t') = []" using eq no_entries_fresh [OF assms(1,2)] by simp
  show "d_txs d' = d_txs d @ [t']" "d_wallets d' = d_wallets d" using eq by auto
  have "tx_idempotencyKey t \<notin> tx_idempotencyKey ` set (d_txs d)"
    using eq by (auto simp add: find_tx_by_key_def find_row_None_iff)
  then show "keys_wf d'" using assms(1) eq fresh_uuid [OF assms(1)] by (auto simp add: keys_wf_def lessThan_Suc)
  have "wallet_ok d' x" if "x \<in> set (d_wallets d')" for x
    using that assms(2) eq by (auto simp add: wallet_ok_def same books_wf_def list_all_iff)
  moreover have "entry_ok d' e" if "e \<in> set (d_ledger d')" for e
    using entry_ok_mono [of d e d'] assms(2) eq that by (auto simp add: books_wf_def list_all_iff)
  moreover have "total_balance d' c = total_balance d c" "booked_total d' c = booked_total d c" for c
    using eq fresh by (auto simp add: total_balance_def booked_total_def same net_def)
  ultimately show "books_wf d'" using assms(2) by (simp add: books_wf_def list_all_iff)
qed

lemma moves_wf_insert:
  assumes "ledger_inv d" and "insert_tx now t d = Inr (t', d1)" and "d_txs d' = d_txs d1"
    and "\<And>i. tx_moves d' i = tx_moves d1 i @ (if i = tx_id t' then ms else [])" and "moves_ok t' ms"
  shows "moves_wf d'"
proof -
  have k: "keys_wf d" "books_wf d" using assms(1) by (simp_all add: ledger_inv_def)
  note ins = keys_books_insert_tx [OF k assms(2)]
  have "tx_id t' \<notin> tx_id ` set (d_txs d)"
    using ins(1) by (simp add: keys_wf_def ins(5))
  then have "tx_id u \<noteq> tx_id t'" if "u \<in> set (d_txs d)" for u using that by (metis imageI)
  then show ?thesis using assms(1,3-5) ins(3-5)
    by (auto simp add: moves_wf_def ledger_inv_def list_all_iff)
qed

section \<open>Changes that keep the books\<close>

lemma ledger_inv_post:
  assumes "ledger_inv d" and "w \<in> set (d_wallets d)" and "t \<in> set (d_txs d)"
    and "w_currency w = tx_currency t" and "0 \<le> w_balance w + signed_amount dir a"
    and "moves_ok t (tx_moves d (tx_id t) @ [(dir, a)])"
  shows "ledger_inv (post now (tx_id t) w dir a note d)"
proof -
  have k: "keys_wf d" "books_wf d" and m: "moves_wf d" using assms(1) by (simp_all add: ledger_inv_def)
  have "moves_ok u (tx_moves d (tx_id u) @ (if tx_id u = tx_id t then [(dir, a)] else []))"
    if "u \<in> set (d_txs d)" for u
    using tx_unique [OF k(1) that assms(3)] m assms(6) that by (auto simp add: moves_wf_def list_all_iff)
  then have "moves_wf (post now (tx_id t) w dir a note d)"
    by (simp add: moves_wf_def list_all_iff tx_moves_post)
  then show ?thesis
    using keys_wf_post [OF k(1) assms(2)] books_wf_post [OF k assms(2-5)] by (simp add: ledger_inv_def)
qed

lemma moves_ok_core: "tx_core t = tx_core u \<Longrightarrow> moves_ok t ms = moves_ok u ms"
  by (frule tx_coreD(3), frule tx_coreD(4), drule tx_coreD(8))
    (simp add: moves_ok_def cong: transaction_type.case_cong)

lemma map_core_cong:
  assumes "map tx_core ts = map tx_core us" and "\<And>t u. tx_core t = tx_core u \<Longrightarrow> g t = g u"
  shows "map g ts = map g us"
proof (rule nth_equalityI)
  show len: "length (map g ts) = length (map g us)" using map_eq_imp_length_eq [OF assms(1)] by simp
  fix i assume i: "i < length (map g ts)"
  then have "tx_core (ts ! i) = tx_core (us ! i)" using arg_cong [OF assms(1), of "\<lambda>xs. xs ! i"] len by simp
  from assms(2) [OF this] show "map g ts ! i = map g us ! i" using i len by simp
qed

lemma ledger_inv_save_txs:
  assumes "ledger_inv d" and "map tx_core (d_txs d') = map tx_core (d_txs d)"
    and "d_wallets d' = d_wallets d" and "d_ledger d' = d_ledger d" and "d_uuid d' = d_uuid d"
    and "d_seq d \<le> d_seq d'" and "d_lseq d' = d_lseq d"
  shows "ledger_inv d'"
proof -
  have views: "entries_of d' = entries_of d" "tx_moves d' = tx_moves d"
    using assms(4) by (auto simp add: entries_of_def tx_moves_def)
  note via = map_core_cong [OF assms(2)]
  have ids: "map tx_id (d_txs d') = map tx_id (d_txs d)" "map tx_idempotencyKey (d_txs d') = map tx_idempotencyKey (d_txs d)"
    by (auto intro!: via dest: tx_coreD)
  have "tx_id ` set (d_txs d') = tx_id ` set (d_txs d)" by (metis ids(1) set_map)
  moreover have "d_uuid d ` {..<d_seq d} \<subseteq> d_uuid d ` {..<d_seq d'}" using assms(6) by auto
  ultimately have "keys_wf d'"
    using assms(1,3-7) ids unfolding ledger_inv_def keys_wf_def by (metis subset_trans)
  moreover have "moves_wf d'"
  proof -
    have "map (\<lambda>t. moves_ok t (tx_moves d (tx_id t))) (d_txs d') = map (\<lambda>t. moves_ok t (tx_moves d (tx_id t))) (d_txs d)"
      by (rule via) (metis moves_ok_core tx_coreD(1))
    from arg_cong [OF this, of "list_all (\<lambda>b. b)"] show ?thesis using assms(1) views
      by (simp add: ledger_inv_def moves_wf_def list.pred_map comp_def)
  qed
  moreover have "books_wf d'"
  proof -
    have "booked_total d' c = booked_total d c" for c
    proof -
      have "map (\<lambda>t. if tx_currency t = c then net (tx_moves d (tx_id t)) else 0) (d_txs d') =
          map (\<lambda>t. if tx_currency t = c then net (tx_moves d (tx_id t)) else 0) (d_txs d)"
        by (rule via) (metis tx_coreD(1,9))
      from arg_cong [OF this, of sum_list] show ?thesis
        by (simp add: booked_total_def views sum_list_map_filter')
    qed
    moreover have "total_balance d' c = total_balance d c" for c by (simp add: total_balance_def assms(3))
    moreover have "entry_ok d' e" if e: "entry_ok d e" for e
    proof -
      obtain w t where w: "w \<in> set (d_wallets d)" "t \<in> set (d_txs d)" "le_walletId e = Some (w_id w)"
        "le_transactionId e = tx_id t" "w_currency w = tx_currency t"
        using e by (auto simp add: entry_ok_def)
      have "tx_core t \<in> tx_core ` set (d_txs d')"
        using w(2) arg_cong [OF assms(2), of set] by simp
      then obtain u where u: "u \<in> set (d_txs d')" "tx_core t = tx_core u" by auto
      have "tx_id u = tx_id t" "tx_currency u = tx_currency t" using tx_coreD(1,9) [OF u(2)] by simp_all
      then show ?thesis unfolding entry_ok_def using w u(1) assms(3)
        by (intro bexI [of _ w] bexI [of _ u]) simp_all
    qed
    ultimately show ?thesis using assms(1,3,4)
      by (simp add: ledger_inv_def books_wf_def list_all_iff wallet_ok_def views)
  qed
  ultimately show ?thesis by (simp add: ledger_inv_def)
qed

end
