(* ===== verification/Tx_Books.thy ===== *)
theory Tx_Books
  imports Tx_Ledger
begin

text \<open>
  Every unit of work of the transaction service keeps the books. Each one is shown to be a
  composition of inserting rows and posting movements; the arithmetic on balances is exact as long as
  no balance leaves the safe integers, which is the side condition \<open>balances_safe\<close> of the store
  before and after.
\<close>

section \<open>Units of work as postings\<close>

lemma insert_ledger_eq:
  "insert_ledger now e d = Inr (e', d') \<longleftrightarrow>
     bigint_ok (le_amount e) \<and> bigint_ok (le_balanceBefore e) \<and> bigint_ok (le_balanceAfter e) \<and>
     varchar_ok 512 (le_note e) \<and> e' = e\<lparr>le_id := d_lseq d, le_createdAt := now\<rparr> \<and>
     d' = d\<lparr>d_ledger := d_ledger d @ [e'], d_lseq := Suc (d_lseq d)\<rparr>"
  by (auto simp add: insert_ledger_def Let_def)

lemma save_wallet_eq:
  "save_wallet w d = Inr (w', d') \<longleftrightarrow>
     bigint_ok (w_balance w) \<and> w' = w \<and> d' = d\<lparr>d_wallets := save_row w_id w (d_wallets d)\<rparr>"
  by (auto simp add: save_wallet_def)

lemma save_tx_eq:
  "save_tx t d = Inr (t', d') \<longleftrightarrow> tx_columns_ok t \<and> t' = t \<and> d' = d\<lparr>d_txs := save_row tx_id t (d_txs d)\<rparr>"
  by (auto simp add: save_tx_def)

lemmas write_eqs = insert_ledger_eq save_wallet_eq save_tx_eq insert_wallet_eq insert_tx_eq

lemma saved_in:
  "x \<in> set rs \<Longrightarrow> key x = key r \<Longrightarrow> r \<in> set (save_row key r rs)"
  by (auto simp add: set_save_row)

lemma balances_safeD: "balances_safe d \<Longrightarrow> w \<in> set (d_wallets d) \<Longrightarrow> w_balance w \<le> max_safe_integer"
  by (simp add: balances_safe_def list_all_iff)

lemma credit_post:
  assumes "credit_wallet w a d = Inr (after, d1)"
    and "insert_ledger now (new_entry tid (w_id w) CREDIT a (w_balance w) (w_balance after) note) d1 = Inr (e, d')"
    and "w \<in> set (d_wallets d)" and "0 \<le> w_balance w" and "0 \<le> a" and "balances_safe d'"
  shows "d' = post now tid w CREDIT a note d"
proof -
  let ?w = "w\<lparr>w_balance := js_add (w_balance w) a\<rparr>"
  have "d_wallets d' = save_row w_id ?w (d_wallets d)" and after: "after = ?w"
    using assms(1,2) by (auto simp add: write_eqs credit_wallet_def)
  then have "?w \<in> set (d_wallets d')" using saved_in [OF assms(3), of w_id ?w] by simp
  then have "js_add (w_balance w) a \<le> max_safe_integer" using balances_safeD [OF assms(6)] by fastforce
  with assms(4,5) have "js_add (w_balance w) a = w_balance w + a" by (intro js_add_exact)
  then show ?thesis using assms(1,2) after
    by (auto simp add: write_eqs credit_wallet_def post_def signed_amount_def new_entry_def Let_def)
qed

lemma debit_post:
  assumes "debit_wallet w a d = Inr (after, d1)" and "insert_tx now t d1 = Inr (t', d2)"
    and "insert_ledger now (new_entry (tx_id t') (w_id w) DEBIT a (w_balance w) (w_balance after) note) d2 = Inr (e, d')"
    and "0 \<le> a" and "a \<le> w_balance w" and "w_balance w \<le> max_safe_integer"
  shows "\<exists>d0. insert_tx now t d = Inr (t', d0) \<and> d' = post now (tx_id t') w DEBIT a note d0"
proof -
  have "js_sub (w_balance w) a = w_balance w - a" using assms(4-6) by (rule js_sub_exact)
  then show ?thesis using assms(1-3)
    by (auto simp add: write_eqs debit_wallet_def post_def signed_amount_def new_entry_def find_tx_by_key_def Let_def)
qed

lemma wallet_or_create_spec:
  assumes "ledger_inv d" and "wallet_or_create env u c d = Inr (w, d0)"
  shows "ledger_inv d0" and "w \<in> set (d_wallets d0)" and "w_userId w = u" and "w_currency w = c"
    and "d_txs d0 = d_txs d" and "d_ledger d0 = d_ledger d" and "set (d_wallets d) \<subseteq> set (d_wallets d0)"
proof -
  consider "find_wallet d u c = Some w" "d0 = d" | "insert_wallet (e_now env) u c d = Inr (w, d0)"
    using assms(2) by (auto simp add: wallet_or_create_def split: option.splits)
  then have "ledger_inv d0 \<and> w \<in> set (d_wallets d0) \<and> w_userId w = u \<and> w_currency w = c \<and> d_txs d0 = d_txs d \<and>
      d_ledger d0 = d_ledger d \<and> set (d_wallets d) \<subseteq> set (d_wallets d0)"
  proof cases
    case 1
    then show ?thesis using assms(1) find_walletD by blast
  next
    case 2
    then show ?thesis using ledger_inv_insert_wallet [OF assms(1) 2] by (auto simp add: insert_wallet_eq)
  qed
  then show "ledger_inv d0" and "w \<in> set (d_wallets d0)" and "w_userId w = u" and "w_currency w = c"
    and "d_txs d0 = d_txs d" and "d_ledger d0 = d_ledger d" and "set (d_wallets d) \<subseteq> set (d_wallets d0)" by simp_all
qed

lemma require_walletD:
  "require_wallet msg u c d = Inr (w, d0) \<Longrightarrow>
   find_wallet d u c = Some w \<and> d0 = d \<and> w \<in> set (d_wallets d) \<and> w_userId w = u \<and> w_currency w = c"
  by (auto simp add: require_wallet_def split: option.splits dest: find_walletD)

lemma wallet_nonneg: "ledger_inv d \<Longrightarrow> w \<in> set (d_wallets d) \<Longrightarrow> 0 \<le> w_balance w"
  by (simp add: ledger_inv_defs wallet_ok_def)

lemma tx_moves_ok: "ledger_inv d \<Longrightarrow> t \<in> set (d_txs d) \<Longrightarrow> moves_ok t (tx_moves d (tx_id t))"
  by (simp add: ledger_inv_defs)

lemma tx_moves_cong: "d_ledger d' = d_ledger d \<Longrightarrow> tx_moves d' = tx_moves d"
  by (auto simp add: tx_moves_def fun_eq_iff)

section \<open>Credits\<close>

lemma applyDepositCredit_spec:
  assumes "ledger_inv d" and "t \<in> set (d_txs d)" and "tx_core t = tx_core tx"
    and "applyDepositCreditIfNeeded env tx d = Inr (u, d')" and "balances_safe d'"
  shows "ledger_inv d'" and "d_txs d' = d_txs d"
    and "tx_type tx = DEPOSIT \<Longrightarrow> tx_moves d' (tx_id tx) = [(CREDIT, tx_amount tx)]"
proof -
  note core = tx_coreD [OF assms(3)]
  have ok: "moves_ok t (tx_moves d (tx_id t))" using tx_moves_ok [OF assms(1,2)] .
  have "ledger_inv d' \<and> d_txs d' = d_txs d \<and>
      (tx_type tx = DEPOSIT \<longrightarrow> tx_moves d' (tx_id tx) = [(CREDIT, tx_amount tx)])"
  proof (cases "tx_type tx = DEPOSIT \<and> find_credit d (tx_id tx) = None")
    case False
    then show ?thesis using assms(1,4) ok core find_credit_None [of d "tx_id tx"]
      by (auto simp add: applyDepositCreditIfNeeded_def moves_ok_def split: if_splits)
  next
    case True
    then have none: "tx_moves d (tx_id tx) = []"
      using ok core find_credit_None [of d "tx_id tx"] by (auto simp add: moves_ok_def)
    obtain w d0 after d1 e nt where w: "wallet_or_create env (coalesce (tx_toUserId tx) (tx_requestingUserId tx)) (tx_currency tx) d = Inr (w, d0)"
      and c: "credit_wallet w (tx_amount tx) d0 = Inr (after, d1)"
      "insert_ledger (e_now env) (new_entry (tx_id tx) (w_id w) CREDIT (tx_amount tx) (w_balance w) (w_balance after) nt) d1 = Inr (e, d')"
      using assms(4) True by (auto simp add: applyDepositCreditIfNeeded_def err_simps)
    note w0 = wallet_or_create_spec [OF assms(1) w]
    have pos: "0 < tx_amount t" using ok by (simp add: moves_ok_def)
    have d': "d' = post (e_now env) (tx_id t) w CREDIT (tx_amount tx) nt d0"
      using credit_post [OF c w0(2) wallet_nonneg [OF w0(1,2)] _ assms(5)] pos core by simp
    have m: "tx_moves d0 = tx_moves d" by (rule tx_moves_cong [OF w0(6)])
    have "ledger_inv d'" unfolding d'
      by (rule ledger_inv_post [OF w0(1,2)])
        (use assms(2) w0(4,5) wallet_nonneg [OF w0(1,2)] pos core none True ok m in
          \<open>simp_all add: signed_amount_def moves_ok_def\<close>)
    then show ?thesis using d' w0(5) m none core by (simp add: tx_moves_post)
  qed
  then show "ledger_inv d'" and "d_txs d' = d_txs d"
    and "tx_type tx = DEPOSIT \<Longrightarrow> tx_moves d' (tx_id tx) = [(CREDIT, tx_amount tx)]" by simp_all
qed

lemma rollback_post:
  assumes "ledger_inv d" and "find_credit d (tx_id tx) = None" and "0 \<le> tx_amount tx"
    and "rollbackWithdrawalDebitUsingManager env tx reason d = Inr (u, d')" and "balances_safe d'"
  shows "\<exists>w nt. find_wallet d (tx_fromUserId tx) (tx_currency tx) = Some w \<and>
    d' = post (e_now env) (tx_id tx) w CREDIT (tx_amount tx) nt d"
proof -
  obtain w after d1 e nt where w: "find_wallet d (tx_fromUserId tx) (tx_currency tx) = Some w" "w \<in> set (d_wallets d)"
    and c: "credit_wallet w (tx_amount tx) d = Inr (after, d1)"
    "insert_ledger (e_now env) (new_entry (tx_id tx) (w_id w) CREDIT (tx_amount tx) (w_balance w) (w_balance after) nt) d1 = Inr (e, d')"
    using assms(2,4) by (auto simp add: rollbackWithdrawalDebitUsingManager_def err_simps dest!: require_walletD)
  then show ?thesis using credit_post [OF c w(2) wallet_nonneg [OF assms(1) w(2)] assms(3,5)] by blast
qed

lemma rollbackWithdrawal_spec:
  assumes "ledger_inv d" and "t \<in> set (d_txs d)" and "tx_core t = tx_core tx" and "tx_type tx = WITHDRAWAL"
    and "rollbackWithdrawalDebitUsingManager env tx reason d = Inr (u, d')" and "balances_safe d'"
  shows "ledger_inv d'" and "d_txs d' = d_txs d"
    and "tx_moves d' (tx_id tx) = [(DEBIT, tx_amount tx), (CREDIT, tx_amount tx)]"
proof -
  note core = tx_coreD [OF assms(3)]
  have ok: "moves_ok t (tx_moves d (tx_id t))" using tx_moves_ok [OF assms(1,2)] .
  have "ledger_inv d' \<and> d_txs d' = d_txs d \<and> tx_moves d' (tx_id tx) = [(DEBIT, tx_amount tx), (CREDIT, tx_amount tx)]"
  proof (cases "find_credit d (tx_id tx) = None")
    case False
    then show ?thesis using assms(1,4,5) ok core find_credit_None [of d "tx_id tx"]
      by (auto simp add: rollbackWithdrawalDebitUsingManager_def moves_ok_def split: if_splits)
  next
    case True
    then have one: "tx_moves d (tx_id tx) = [(DEBIT, tx_amount tx)]"
      using ok core assms(4) find_credit_None [of d "tx_id tx"] by (auto simp add: moves_ok_def)
    have pos: "0 < tx_amount t" using ok by (simp add: moves_ok_def)
    obtain w nt where w0: "find_wallet d (tx_fromUserId tx) (tx_currency tx) = Some w"
      and d': "d' = post (e_now env) (tx_id t) w CREDIT (tx_amount tx) nt d"
      using rollback_post [OF assms(1) True _ assms(5,6)] pos core by auto
    have w: "w \<in> set (d_wallets d)" "w_currency w = tx_currency tx" using find_walletD [OF w0] by simp_all
    have "ledger_inv d'" unfolding d'
      by (rule ledger_inv_post [OF assms(1) w(1) assms(2)])
        (use w(2) wallet_nonneg [OF assms(1) w(1)] pos core one assms(4) ok in \<open>simp_all add: signed_amount_def moves_ok_def\<close>)
    then show ?thesis using d' one core by (simp add: tx_moves_post)
  qed
  then show "ledger_inv d'" and "d_txs d' = d_txs d"
    and "tx_moves d' (tx_id tx) = [(DEBIT, tx_amount tx), (CREDIT, tx_amount tx)]" by simp_all
qed

section \<open>Deposits and withdrawals\<close>

lemma find_wallet_insert:
  "insert_wallet now u c d = Inr (w, d') \<Longrightarrow>
   find_wallet d' u' c' = (if u' = u \<and> c' = c then Some w else find_wallet d u' c')"
  by (auto simp add: insert_wallet_eq find_wallet_def find_row_append row_simps split: option.split)

lemma find_wallet_save:
  assumes "distinct (map w_id (d_wallets d))" and "w \<in> set (d_wallets d)"
  shows "find_wallet (d\<lparr>d_wallets := save_row w_id (w\<lparr>w_balance := b\<rparr>) (d_wallets d)\<rparr>) u c =
    map_option (\<lambda>x. if w_id x = w_id w then w\<lparr>w_balance := b\<rparr> else x) (find_wallet d u c)"
proof -
  have "w_userId x = w_userId w" "w_currency x = w_currency w" if "x \<in> set (d_wallets d)" "w_id x = w_id w" for x
    using row_unique [OF assms(1) that(1) assms(2) that(2)] by simp_all
  then show ?thesis
    using find_row_cong_save [of "d_wallets d" w_id "w\<lparr>w_balance := b\<rparr>" "\<lambda>w. w_userId w = u \<and> w_currency w = c"]
    by (simp add: find_wallet_def)
qed

text \<open>Saving the sender and then the receiver, two different rows.\<close>

lemma save_two_wallets:
  fixes x y :: int
  assumes "keys_wf d" and "s \<in> set (d_wallets d)" and "rc \<in> set (d_wallets d)" and "w_id rc \<noteq> w_id s"
  defines "d1 \<equiv> d\<lparr>d_wallets := save_row w_id (s\<lparr>w_balance := x\<rparr>) (d_wallets d)\<rparr>"
  defines "d3 \<equiv> d1\<lparr>d_wallets := save_row w_id (rc\<lparr>w_balance := y\<rparr>) (d_wallets d1)\<rparr>"
  shows "find_wallet d1 (w_userId rc) (w_currency rc) = Some rc"
    and "find_wallet d3 (w_userId s) (w_currency s) = Some (s\<lparr>w_balance := x\<rparr>)"
    and "rc\<lparr>w_balance := y\<rparr> \<in> set (d_wallets d3)"
proof -
  have dist: "distinct (map w_id (d_wallets d))" using assms(1) by (simp add: keys_wf_def)
  have dist1: "distinct (map w_id (d_wallets d1))" using dist by (simp add: d1_def)
  have row: "rc \<in> set (d_wallets d1)" unfolding d1_def using assms(3,4) by (auto simp add: set_save_row)
  show "find_wallet d1 (w_userId rc) (w_currency rc) = Some rc"
    unfolding d1_def find_wallet_save [OF dist assms(2)] find_wallet_row [OF assms(1,3)] using assms(4) by simp
  have "find_wallet d1 (w_userId s) (w_currency s) = Some (s\<lparr>w_balance := x\<rparr>)"
    unfolding d1_def find_wallet_save [OF dist assms(2)] find_wallet_row [OF assms(1,2)] by simp
  then show "find_wallet d3 (w_userId s) (w_currency s) = Some (s\<lparr>w_balance := x\<rparr>)"
    unfolding d3_def find_wallet_save [OF dist1 row] using assms(4) by simp
  show "rc\<lparr>w_balance := y\<rparr> \<in> set (d_wallets d3)"
    unfolding d3_def using saved_in [OF row, of w_id "rc\<lparr>w_balance := y\<rparr>"] by simp
qed

lemma pending_tx_fields [simp]:
  "tx_type (pending_tx r ty st n) = ty" "tx_amount (pending_tx r ty st n) = tr_amount r"
  "tx_currency (pending_tx r ty st n) = tr_currency r" "tx_isExternal (pending_tx r ty st n) = tr_isExternal r"
  "tx_idempotencyKey (pending_tx r ty st n) = tr_idempotencyKey r"
  "tx_fromUserId (pending_tx r ty st n) = tr_fromUserId r" "tx_toUserId (pending_tx r ty st n) = Some (tr_toUserId r)"
  "tx_status (pending_tx r ty st n) = TX_PENDING" "tx_settlementStatus (pending_tx r ty st n) = st"
  "tx_chainStatus (pending_tx r ty st n) = CH_PENDING"
  by (simp_all add: pending_tx_def)

lemma funded_req_fields [simp]:
  "tr_amount (funded_req r src f t v) = ur_amount r" "tr_currency (funded_req r src f t v) = ur_currency r"
  "tr_isExternal (funded_req r src f t v)" "tr_idempotencyKey (funded_req r src f t v) = ur_idempotencyKey r"
  "tr_fromUserId (funded_req r src f t v) = f" "tr_toUserId (funded_req r src f t v) = t"
  by (simp_all add: funded_req_def)

lemma moves_ok_new [simp]: "moves_ok (t\<lparr>tx_id := i, tx_createdAt := n\<rparr>) ms = moves_ok t ms"
  by (cases "tx_type t") (simp_all add: moves_ok_def)

lemma ledger_inv_insert_post:
  assumes "ledger_inv d" and "insert_tx now t d = Inr (t', d0)" and "w \<in> set (d_wallets d)"
    and "w_currency w = tx_currency t" and "0 \<le> w_balance w + signed_amount dir a" and "moves_ok t [(dir, a)]"
  shows "ledger_inv (post now (tx_id t') w dir a note d0)"
proof -
  have k: "keys_wf d" "books_wf d" using assms(1) by (simp_all add: ledger_inv_def)
  note ins = keys_books_insert_tx [OF k assms(2)]
  have t': "t' = t\<lparr>tx_id := d_uuid d (d_seq d), tx_createdAt := now\<rparr>" using assms(2) by (simp add: insert_tx_eq)
  have "moves_wf (post now (tx_id t') w dir a note d0)"
    by (rule moves_wf_insert [OF assms(1,2)])
      (use assms(6) t' in \<open>simp_all add: tx_moves_post\<close>)
  moreover have "keys_wf (post now (tx_id t') w dir a note d0)" by (rule keys_wf_post) (simp_all add: ins assms(3))
  moreover have "books_wf (post now (tx_id t') w dir a note d0)"
    by (rule books_wf_post [OF ins(1,2)]) (use ins(5,6) assms(3-5) t' in simp_all)
  ultimately show ?thesis by (simp add: ledger_inv_def)
qed

lemma persistTopup_spec:
  assumes "ledger_inv d" and "valid_topup r" and "find_tx_by_key d (ur_idempotencyKey r) = None"
    and "persistTopupIntent env r src d = Inr ((t, b), d')"
  shows "ledger_inv d'" and "t \<in> set (d_txs d')" and "tx_type t = DEPOSIT" and "tx_isExternal t"
proof -
  obtain w d0 where w: "wallet_or_create env (ur_userId r) (ur_currency r) d = Inr (w, d0)"
    and ins: "insert_tx (e_now env) (pending_tx (funded_req r src (c_chainExternalSourceUserId (e_cfg env)) (ur_userId r) ''Topup'')
       DEPOSIT ST_PENDING (e_now env + c_chainAsyncLeaseMs (e_cfg env))) d0 = Inr (t, d')"
    using assms(3,4) by (auto simp add: persistTopupIntent_def err_simps)
  note w0 = wallet_or_create_spec [OF assms(1) w]
  have k: "keys_wf d0" "books_wf d0" using w0(1) by (simp_all add: ledger_inv_def)
  note i = keys_books_insert_tx [OF k ins]
  show "t \<in> set (d_txs d')" using i(5) by simp
  have "moves_ok t []" using ins assms(2) by (auto simp add: insert_tx_eq moves_ok_def valid_topup_def)
  then have "moves_wf d'" by (intro moves_wf_insert [OF w0(1) ins, of _ "[]"]) simp_all
  then show "ledger_inv d'" using i by (simp add: ledger_inv_def)
  show "tx_type t = DEPOSIT" and "tx_isExternal t" using ins by (auto simp add: insert_tx_eq)
qed

lemma persistWithdrawal_post:
  assumes "ledger_inv d" and "balances_safe d" and "valid_topup r" and "find_tx_by_key d (ur_idempotencyKey r) = None"
    and "persistWithdrawalRequest env r src d = Inr ((t, b), d')"
  shows "\<exists>w d0 nt. find_wallet d (ur_userId r) (ur_currency r) = Some w \<and> w_status w = WALLET_ACTIVE \<and>
      ur_amount r \<le> w_balance w \<and>
      insert_tx (e_now env) (pending_tx (funded_req r src (ur_userId r) (c_chainExternalSinkUserId (e_cfg env)) ''Withdrawal'')
        WITHDRAWAL ST_PENDING (e_now env + c_chainAsyncLeaseMs (e_cfg env))) d = Inr (t, d0) \<and>
      d' = post (e_now env) (tx_id t) w DEBIT (ur_amount r) nt d0 \<and> b = w_balance w - ur_amount r"
proof -
  let ?t = "pending_tx (funded_req r src (ur_userId r) (c_chainExternalSinkUserId (e_cfg env)) ''Withdrawal'')
    WITHDRAWAL ST_PENDING (e_now env + c_chainAsyncLeaseMs (e_cfg env))"
  obtain w after d1 d2 e nt where w: "find_wallet d (ur_userId r) (ur_currency r) = Some w" "w \<in> set (d_wallets d)"
      "w_status w = WALLET_ACTIVE" "ur_amount r \<le> w_balance w"
    and u: "debit_wallet w (ur_amount r) d = Inr (after, d1)" "insert_tx (e_now env) ?t d1 = Inr (t, d2)"
      "insert_ledger (e_now env) (new_entry (tx_id t) (w_id w) DEBIT (ur_amount r) (w_balance w) (w_balance after) nt) d2 = Inr (e, d')"
    and b: "b = w_balance after"
    using assms(4,5) by (auto simp add: persistWithdrawalRequest_def err_simps dest!: require_walletD)
  have pos: "0 \<le> ur_amount r" using assms(3) by (simp add: valid_topup_def)
  have safe: "w_balance w \<le> max_safe_integer" using balances_safeD [OF assms(2) w(2)] .
  have "b = w_balance w - ur_amount r"
    using b u(1) js_sub_exact [OF pos w(4) safe] by (auto simp add: debit_wallet_def save_wallet_eq)
  then show ?thesis using debit_post [OF u pos w(4) safe] w by auto
qed

lemma persistWithdrawal_spec:
  assumes "ledger_inv d" and "balances_safe d" and "valid_topup r" and "find_tx_by_key d (ur_idempotencyKey r) = None"
    and "persistWithdrawalRequest env r src d = Inr ((t, b), d')"
  shows "ledger_inv d'" and "t \<in> set (d_txs d')" and "tx_type t = WITHDRAWAL" and "tx_isExternal t"
    and "tx_fromUserId t = ur_userId r" and "tx_currency t = ur_currency r" and "tx_amount t = ur_amount r"
proof -
  obtain w d0 nt n s where w: "find_wallet d (ur_userId r) (ur_currency r) = Some w" "ur_amount r \<le> w_balance w"
    and i: "insert_tx (e_now env) (pending_tx (funded_req r src (ur_userId r) s ''Withdrawal'') WITHDRAWAL ST_PENDING n) d = Inr (t, d0)"
    and d': "d' = post (e_now env) (tx_id t) w DEBIT (ur_amount r) nt d0"
    using persistWithdrawal_post [OF assms] by blast
  have "tx_type t = WITHDRAWAL \<and> tx_isExternal t \<and> t \<in> set (d_txs d0) \<and> tx_fromUserId t = ur_userId r \<and>
      tx_currency t = ur_currency r \<and> tx_amount t = ur_amount r"
    using i by (auto simp add: insert_tx_eq)
  then show "tx_type t = WITHDRAWAL" and "tx_isExternal t" and "t \<in> set (d_txs d')" and "tx_fromUserId t = ur_userId r"
    and "tx_currency t = ur_currency r" and "tx_amount t = ur_amount r" using d' by simp_all
  have pos: "0 < ur_amount r" using assms(3) by (simp add: valid_topup_def)
  show "ledger_inv d'" unfolding d' by (rule ledger_inv_insert_post [OF assms(1) i])
      (use find_walletD [OF w(1)] w(2) pos in \<open>simp_all add: signed_amount_def moves_ok_def\<close>)
qed

section \<open>Transfers\<close>

lemma lockWallets_external:
  assumes "tr_isExternal r" and "lockWallets env r (usersToLock env r) d = Inr (u, d0)"
  shows "d0 = d"
  using assms by (auto simp add: usersToLock_def err_simps dest!: require_walletD)

lemma wallet_or_create_find:
  assumes "wallet_or_create env u c d = Inr (w, d0)"
  shows "find_wallet d0 u' c' = (if u' = u \<and> c' = c then Some w else find_wallet d u' c')"
proof (cases "find_wallet d u c")
  case None
  then show ?thesis using assms find_wallet_insert by (simp add: wallet_or_create_def)
next
  case (Some x)
  then show ?thesis using assms by (auto simp add: wallet_or_create_def)
qed

lemma lockWallets_internal:
  assumes "\<not> tr_isExternal r" and "tr_toUserId r \<noteq> []" and "tr_toUserId r \<noteq> tr_fromUserId r"
    and "lockWallets env r (usersToLock env r) d = Inr (u, d0)"
  shows "\<exists>rc. wallet_or_create env (tr_toUserId r) (tr_currency r) d = Inr (rc, d0)"
  using assms
  by (auto simp add: usersToLock_def err_simps dest!: require_walletD split: if_splits)

lemma persistTransfer_external:
  assumes "ledger_inv d" and "balances_safe d" and "valid_transfer r" and "tr_isExternal r"
    and "find_tx_by_key d (tr_idempotencyKey r) = None"
    and "persistTransfer env r d = Inr ((t, sb, rb), d')"
  shows "\<exists>w d0 nt. find_wallet d (tr_fromUserId r) (tr_currency r) = Some w \<and> w_status w = WALLET_ACTIVE \<and>
      tr_amount r \<le> w_balance w \<and>
      insert_tx (e_now env) (pending_tx r TRANSFER ST_PENDING (e_now env)) d = Inr (t, d0) \<and>
      d' = post (e_now env) (tx_id t) w DEBIT (tr_amount r) nt d0 \<and> sb = w_balance w - tr_amount r \<and> rb = 0"
proof -
  let ?t = "pending_tx r TRANSFER ST_PENDING (e_now env)"
  obtain w after d1 d2 e nt where w: "find_wallet d (tr_fromUserId r) (tr_currency r) = Some w" "w \<in> set (d_wallets d)"
      "w_status w = WALLET_ACTIVE" "tr_amount r \<le> w_balance w"
    and u: "debit_wallet w (tr_amount r) d = Inr (after, d1)" "insert_tx (e_now env) ?t d1 = Inr (t, d2)"
    and l: "insert_ledger (e_now env) (new_entry (tx_id t) (w_id w) DEBIT (tr_amount r) (w_balance w)
        (balance_of d2 (tr_fromUserId r) (tr_currency r)) nt) d2 = Inr (e, d')"
    and b: "sb = balance_of d' (tr_fromUserId r) (tr_currency r)" "rb = 0"
    using assms(4-6)
    by (auto simp add: persistTransfer_def err_simps credit_receiver_def write_transfer_ledger_def
        dest!: require_walletD lockWallets_external [OF assms(4)])
  have pos: "0 < tr_amount r" using assms(3) by (simp add: valid_transfer_def)
  have safe: "w_balance w \<le> max_safe_integer" using balances_safeD [OF assms(2) w(2)] .
  have exact: "js_sub (w_balance w) (tr_amount r) = w_balance w - tr_amount r"
    using js_sub_exact [OF _ w(4) safe] pos by simp
  have after: "after = w\<lparr>w_balance := w_balance w - tr_amount r\<rparr>"
    and d1: "d1 = d\<lparr>d_wallets := save_row w_id after (d_wallets d)\<rparr>"
    using u(1) exact by (auto simp add: debit_wallet_def save_wallet_eq)
  have k: "distinct (map w_id (d_wallets d))" using assms(1) by (simp add: ledger_inv_defs)
  have find: "find_wallet d1 (tr_fromUserId r) (tr_currency r) = Some after"
    unfolding d1 after find_wallet_save [OF k w(2)] by (simp add: w(1))
  have "d_wallets d2 = d_wallets d1" "d_wallets d' = d_wallets d1"
    using u(2) l by (auto simp add: insert_tx_eq insert_ledger_eq)
  then have bal: "balance_of d2 (tr_fromUserId r) (tr_currency r) = w_balance after" "sb = w_balance after"
    using find b by (simp_all add: balance_of_def find_wallet_def)
  then show ?thesis using debit_post [OF u _ _ w(4) safe, of nt e d'] l pos w b after by auto
qed

lemma persistTransfer_internal:
  assumes "ledger_inv d" and "balances_safe d" and "balances_safe d'" and "valid_transfer r" and "\<not> tr_isExternal r"
    and "find_tx_by_key d (tr_idempotencyKey r) = None"
    and "persistTransfer env r d = Inr ((t, sb, rb), d')"
  shows "\<exists>s rc d0 d1 nt nt'. find_wallet d (tr_fromUserId r) (tr_currency r) = Some s \<and> w_status s = WALLET_ACTIVE \<and>
      tr_amount r \<le> w_balance s \<and> wallet_or_create env (tr_toUserId r) (tr_currency r) d = Inr (rc, d0) \<and>
      w_status rc = WALLET_ACTIVE \<and>
      insert_tx (e_now env) (pending_tx r TRANSFER ST_NONE (e_now env)) d0 = Inr (t, d1) \<and>
      d' = post (e_now env) (tx_id t) rc CREDIT (tr_amount r) nt' (post (e_now env) (tx_id t) s DEBIT (tr_amount r) nt d1) \<and>
      sb = w_balance s - tr_amount r \<and> rb = w_balance rc + tr_amount r"
proof -
  let ?a = "tr_amount r" and ?c = "tr_currency r" and ?f = "tr_fromUserId r" and ?to = "tr_toUserId r"
  let ?now = "e_now env"
  have v: "0 < ?a" "?to \<noteq> []" "?to \<noteq> ?f" using assms(4,5) by (auto simp add: valid_transfer_def)
  obtain rc0 d0 where lock: "wallet_or_create env ?to ?c d = Inr (rc0, d0)"
    and u0: "bindU (require_wallet ''Sender wallet not found'' ?f ?c) (\<lambda>sender.
          bindU (checkU (w_status sender = WALLET_ACTIVE) (BadRequest ''Sender wallet is not active'')) (\<lambda>_.
          bindU (checkU (?a \<le> w_balance sender) (BadRequest ''Insufficient balance'')) (\<lambda>_.
          bindU (debit_wallet sender ?a) (\<lambda>_.
          bindU (credit_receiver env r) (\<lambda>credit.
          bindU (insert_tx ?now (pending_tx r TRANSFER ST_NONE ?now)) (\<lambda>tx.
          bindU (write_transfer_ledger env r tx sender credit) (\<lambda>_.
          bindU (getU (\<lambda>s. balance_of s ?f ?c)) (\<lambda>senderBalance.
          returnU (tx, senderBalance, case credit of None \<Rightarrow> 0 | Some (_, after) \<Rightarrow> w_balance after))))))))) d0 = Inr ((t, sb, rb), d')"
    using assms(6,7) lockWallets_internal [OF assms(5) v(2,3)]
    by (fastforce simp add: persistTransfer_def bindU_eq_Inr [of "lockWallets _ _ _"] assms(5))
  note l = wallet_or_create_spec [OF assms(1) lock]
  note found = wallet_or_create_find [OF lock]
  have k: "keys_wf d0" using l(1) by (simp add: ledger_inv_def)
  obtain s sa d1 rc d2 ra d3 d4 e e' d5 nt nt'
    where s: "find_wallet d0 ?f ?c = Some s" "s \<in> set (d_wallets d0)" "w_userId s = ?f" "w_status s = WALLET_ACTIVE" "?a \<le> w_balance s"
      "w_currency s = ?c"
    and u: "debit_wallet s ?a d0 = Inr (sa, d1)" "wallet_or_create env ?to ?c d1 = Inr (rc, d2)" "w_status rc = WALLET_ACTIVE"
      "credit_wallet rc ?a d2 = Inr (ra, d3)" "insert_tx ?now (pending_tx r TRANSFER ST_NONE ?now) d3 = Inr (t, d4)"
    and w: "insert_ledger ?now (new_entry (tx_id t) (w_id s) DEBIT ?a (w_balance s) (balance_of d4 ?f ?c) nt) d4 = Inr (e, d5)"
      "insert_ledger ?now (new_entry (tx_id t) (w_id rc) CREDIT ?a (w_balance rc) (w_balance ra) nt') d5 = Inr (e', d')"
    and b: "sb = balance_of d' ?f ?c" "rb = w_balance ra"
    using u0 v(2) assms(5)
    by (auto simp add: err_simps credit_receiver_def write_transfer_ledger_def dest!: require_walletD)
  have find_s: "find_wallet d ?f ?c = Some s" using found [of ?f ?c] s(1) v(3) by simp
  have "s \<in> set (d_wallets d)" using find_walletD [OF find_s] by simp
  then have safe: "w_balance s \<le> max_safe_integer" by (rule balances_safeD [OF assms(2)])
  have sub: "js_sub (w_balance s) ?a = w_balance s - ?a" using js_sub_exact [OF _ s(5) safe] v(1) by simp
  let ?sa = "s\<lparr>w_balance := w_balance s - ?a\<rparr>"
  have d1: "sa = ?sa" "d1 = d0\<lparr>d_wallets := save_row w_id ?sa (d_wallets d0)\<rparr>"
    using u(1) sub by (auto simp add: debit_wallet_def save_wallet_eq)
  have ids: "w_id rc0 \<noteq> w_id s" using wallet_unique [OF k l(2) s(2)] l(3) s(3) v(3) by auto
  note two = save_two_wallets [OF k s(2) l(2) ids]
  have "find_wallet d1 ?to ?c = Some rc0" using two(1) [of "w_balance s - ?a"] d1(2) l(3,4) by simp
  then have rc: "rc = rc0" "d2 = d1" using u(2) by (simp_all add: wallet_or_create_def)
  have d3: "ra = rc0\<lparr>w_balance := js_add (w_balance rc0) ?a\<rparr>" "d3 = d1\<lparr>d_wallets := save_row w_id ra (d_wallets d1)\<rparr>"
    using u(4) rc by (auto simp add: credit_wallet_def save_wallet_eq)
  have ws: "d_wallets d4 = d_wallets d3" "d_wallets d' = d_wallets d3"
    using u(5) w by (auto simp add: insert_tx_eq insert_ledger_eq)
  have "ra \<in> set (d_wallets d')" unfolding ws(2) using two(3) d3 d1(2) by simp
  then have "js_add (w_balance rc0) ?a \<le> max_safe_integer" using balances_safeD [OF assms(3)] d3(1) by fastforce
  then have add: "js_add (w_balance rc0) ?a = w_balance rc0 + ?a"
    using wallet_nonneg [OF l(1,2)] v(1) by (intro js_add_exact) auto
  have "find_wallet d3 ?f ?c = Some ?sa" using two(2) d3 d1(2) s(3,6) by simp
  then have bal: "balance_of d4 ?f ?c = w_balance s - ?a" "sb = w_balance s - ?a"
    using ws b(1) by (simp_all add: balance_of_def find_wallet_def)
  have "insert_tx ?now (pending_tx r TRANSFER ST_NONE ?now) d0 = Inr (t, d0\<lparr>d_txs := d_txs d0 @ [t], d_seq := Suc (d_seq d0)\<rparr>)"
    using u(5) unfolding d3(2) d1(2) by (auto simp add: insert_tx_eq find_tx_by_key_def)
  moreover have "d' = post ?now (tx_id t) rc0 CREDIT ?a nt' (post ?now (tx_id t) s DEBIT ?a nt (d0\<lparr>d_txs := d_txs d0 @ [t], d_seq := Suc (d_seq d0)\<rparr>))"
    using w u(5) unfolding bal(1) rc d3 d1(2) add
    by (auto simp add: insert_ledger_eq insert_tx_eq post_def signed_amount_def new_entry_def Let_def)
  ultimately show ?thesis using find_s s(4,5) lock u(3) rc bal(2) b(2) d3(1) add by auto
qed

end
