(* ===== verification/Tx_System.thy ===== *)
theory Tx_System
  imports Tx_Books
begin

text \<open>
  The transaction service as a transition system on its store. A step is one committed unit of work
  of any request, in any interleaving; a request handler is shown to be made of such steps. As long
  as no balance leaves the safe integers, every store the service reaches keeps the books.
\<close>

section \<open>Steps\<close>

inductive ledger_step :: "db \<Rightarrow> db \<Rightarrow> bool" where
  new_wallet: "insert_wallet now u c d = Inr (w, d') \<Longrightarrow> ledger_step d d'"
| transfer: "valid_transfer r \<Longrightarrow> persistTransfer env r d = Inr (x, d') \<Longrightarrow> ledger_step d d'"
| topup: "valid_topup r' \<Longrightarrow> persistTopupIntent env r' src d = Inr (y, d') \<Longrightarrow> ledger_step d d'"
| withdraw: "valid_topup r' \<Longrightarrow> persistWithdrawalRequest env r' src d = Inr (y, d') \<Longrightarrow> ledger_step d d'"
| refund: "t \<in> set (d_txs d) \<Longrightarrow> tx_core t = tx_core tx \<Longrightarrow> tx_type tx = WITHDRAWAL \<Longrightarrow>
    rollbackWithdrawalDebitUsingManager env tx reason d = Inr (z, d') \<Longrightarrow> ledger_step d d'"
| settle: "markSettlement env tid st note d = Inr (b, d') \<Longrightarrow> ledger_step d d'"
| save: "t \<in> set (d_txs d) \<Longrightarrow> tx_core t = tx_core tx \<Longrightarrow> save_tx tx d = Inr (tx', d') \<Longrightarrow> ledger_step d d'"
| other: "d_wallets d' = d_wallets d \<Longrightarrow> d_ledger d' = d_ledger d \<Longrightarrow> d_uuid d' = d_uuid d \<Longrightarrow>
    d_seq d \<le> d_seq d' \<Longrightarrow> d_lseq d' = d_lseq d \<Longrightarrow> map tx_core (d_txs d') = map tx_core (d_txs d) \<Longrightarrow>
    ledger_step d d'"

definition ledger_init :: "db \<Rightarrow> bool" where
  "ledger_init d = (d_wallets d = [] \<and> d_txs d = [] \<and> d_ledger d = [] \<and> d_lseq d = 0 \<and> inj (d_uuid d))"

text \<open>A step whose result has only safe balances.\<close>

definition safe_step :: "db \<Rightarrow> db \<Rightarrow> bool" where
  "safe_step d d' = (ledger_step d d' \<and> balances_safe d')"

definition books_ok :: "db \<Rightarrow> bool" where
  "books_ok d = (ledger_inv d \<and> balances_safe d)"

section \<open>Every step keeps the books\<close>

lemma persistTransfer_inv:
  assumes "ledger_inv d" and "balances_safe d" and "balances_safe d'" and "valid_transfer r"
    and "find_tx_by_key d (tr_idempotencyKey r) = None" and "persistTransfer env r d = Inr ((t, sb, rb), d')"
  shows "ledger_inv d'"
proof (cases "tr_isExternal r")
  case True
  have pos: "0 < tr_amount r" using assms(4) by (simp add: valid_transfer_def)
  obtain w d0 nt where w: "find_wallet d (tr_fromUserId r) (tr_currency r) = Some w" "tr_amount r \<le> w_balance w"
    and i: "insert_tx (e_now env) (pending_tx r TRANSFER ST_PENDING (e_now env)) d = Inr (t, d0)"
    and d': "d' = post (e_now env) (tx_id t) w DEBIT (tr_amount r) nt d0"
    using persistTransfer_external [OF assms(1,2,4) True assms(5,6)] by blast
  show ?thesis unfolding d' by (rule ledger_inv_insert_post [OF assms(1) i])
      (use find_walletD [OF w(1)] w(2) pos True in \<open>simp_all add: signed_amount_def moves_ok_def\<close>)
next
  case False
  have v: "0 < tr_amount r" "tr_toUserId r \<noteq> tr_fromUserId r" using assms(4) False by (auto simp add: valid_transfer_def)
  obtain s rc d0 d1 nt nt' where s: "find_wallet d (tr_fromUserId r) (tr_currency r) = Some s" "tr_amount r \<le> w_balance s"
    and rc: "wallet_or_create env (tr_toUserId r) (tr_currency r) d = Inr (rc, d0)"
    and i: "insert_tx (e_now env) (pending_tx r TRANSFER ST_NONE (e_now env)) d0 = Inr (t, d1)"
    and d': "d' = post (e_now env) (tx_id t) rc CREDIT (tr_amount r) nt' (post (e_now env) (tx_id t) s DEBIT (tr_amount r) nt d1)"
    using persistTransfer_internal [OF assms(1-4) False assms(5,6)] by blast
  note l = wallet_or_create_spec [OF assms(1) rc]
  have k: "keys_wf d0" "books_wf d0" using l(1) by (simp_all add: ledger_inv_def)
  note ins = keys_books_insert_tx [OF k i]
  have s0: "s \<in> set (d_wallets d1)" "w_userId s = tr_fromUserId r" "w_currency s = tr_currency r"
    using find_walletD [OF s(1)] l(7) ins(6) by auto
  have t: "t \<in> set (d_txs d1)" "tx_currency t = tr_currency r" using i ins(5) by (auto simp add: insert_tx_eq)
  let ?m = "post (e_now env) (tx_id t) s DEBIT (tr_amount r) nt d1"
  have m: "keys_wf ?m" "books_wf ?m"
    using keys_wf_post [OF ins(1) s0(1)] books_wf_post [OF ins(1,2) s0(1) t(1)] s0(3) t(2) s(2)
    by (simp_all add: signed_amount_def)
  have "w_id rc \<noteq> w_id s" using wallet_unique [OF ins(1), of rc s] l(2,3) s0 ins(6) v(2) by auto
  then have row: "rc \<in> set (d_wallets ?m)" using l(2) ins(6) by (auto simp add: set_save_row)
  have "keys_wf d'" "books_wf d'" unfolding d'
    using keys_wf_post [OF m(1) row] books_wf_post [OF m row, of t] t l(4) wallet_nonneg [OF l(1,2)] v(1)
    by (simp_all add: signed_amount_def)
  moreover have "moves_wf d'"
    by (rule moves_wf_insert [OF l(1) i, of d' "[(DEBIT, tr_amount r), (CREDIT, tr_amount r)]"])
      (use i v(1) False in \<open>auto simp add: d' tx_moves_post insert_tx_eq moves_ok_def\<close>)
  ultimately show ?thesis by (simp add: ledger_inv_def)
qed

lemma map_core_save:
  assumes "keys_wf d" and "t \<in> set (d_txs d)" and "tx_core t = tx_core tx"
  shows "map tx_core (save_row tx_id tx (d_txs d)) = map tx_core (d_txs d)"
proof (rule map_save_row_same)
  fix x assume "x \<in> set (d_txs d)" and "tx_id x = tx_id tx"
  then have "x = t" using tx_unique [OF assms(1) _ assms(2)] tx_coreD(1) [OF assms(3)] by simp
  then show "tx_core x = tx_core tx" using assms(3) by simp
qed

lemma save_tx_inv:
  assumes "ledger_inv d" and "t \<in> set (d_txs d)" and "tx_core t = tx_core tx" and "save_tx tx d = Inr (tx', d')"
  shows "ledger_inv d'"
proof -
  have "keys_wf d" using assms(1) by (simp add: ledger_inv_def)
  from map_core_save [OF this assms(2,3)] assms(4) show ?thesis
    by (intro ledger_inv_save_txs [OF assms(1)]) (auto simp add: save_tx_eq)
qed

lemma tx_core_settle [simp]: "tx_core (settle_row env t) = tx_core t" "tx_core (fail_row env n t) = tx_core t"
  by (simp_all add: settle_row_def fail_row_def tx_core_def)

definition settled_to :: "svc_env \<Rightarrow> string option \<Rightarrow> string option \<Rightarrow> transaction \<Rightarrow> transaction" where
  "settled_to env st note t =
     (if js_upper (js_trim (or_str st [])) = ''SETTLED'' then settle_row env t else fail_row env note t)"

lemma markSettlement_cases:
  assumes "markSettlement env tid st note d = Inr (b, d')"
  obtains (missing) "find_tx d tid = None" "b = False" "d' = d"
  | (credit) t d1 where "find_tx d tid = Some t" "tx_type t = DEPOSIT" "b = True"
      "js_upper (js_trim (or_str st [])) = ''SETTLED''" "applyDepositCreditIfNeeded env t d = Inr ((), d1)"
      "d' = enqueueTransactionEvent env (settle_row env t) (d1\<lparr>d_txs := save_row tx_id (settle_row env t) (d_txs d1)\<rparr>)"
  | (refund) t d1 where "find_tx d tid = Some t" "tx_type t = WITHDRAWAL" "b = True"
      "js_upper (js_trim (or_str st [])) = ''FAILED''"
      "rollbackWithdrawalDebitUsingManager env t ''SETTLEMENT_FAILED'' d = Inr ((), d1)"
      "d' = enqueueTransactionEvent env (fail_row env note t) (d1\<lparr>d_txs := save_row tx_id (fail_row env note t) (d_txs d1)\<rparr>)"
  | (plain) t where "find_tx d tid = Some t" "b = True"
      "d' = enqueueTransactionEvent env (settled_to env st note t) (d\<lparr>d_txs := save_row tx_id (settled_to env st note t) (d_txs d)\<rparr>)"
  using assms
  by (auto simp add: markSettlement_def Let_def err_simps save_tx_eq settled_to_def split: if_splits option.splits)

lemma enqueue_inv: "ledger_inv d \<Longrightarrow> ledger_inv (enqueueTransactionEvent env t d)"
  by (rule ledger_inv_save_txs) simp_all

lemma saved_row_inv:
  assumes "ledger_inv d" and "t \<in> set (d_txs d)" and "tx_core t = tx_core tx"
  shows "ledger_inv (enqueueTransactionEvent env tx (d\<lparr>d_txs := save_row tx_id tx (d_txs d)\<rparr>))"
proof -
  have k: "keys_wf d" using assms(1) by (simp add: ledger_inv_def)
  show ?thesis by (rule ledger_inv_save_txs [OF assms(1)]) (simp_all add: map_core_save [OF k assms(2,3)])
qed

lemma balances_safe_enqueue [simp]:
  "balances_safe (enqueueTransactionEvent env t (d\<lparr>d_txs := ts\<rparr>)) = balances_safe d"
  by (simp add: balances_safe_def)

lemma markSettlement_inv:
  assumes "ledger_inv d" and "balances_safe d'" and "markSettlement env tid st note d = Inr (b, d')"
  shows "ledger_inv d'"
  using assms(3)
proof (cases rule: markSettlement_cases)
  case missing
  then show ?thesis using assms(1) by simp
next
  case (credit t d1)
  have safe: "balances_safe d1" using assms(2) credit(6) by simp
  note c = applyDepositCredit_spec [OF assms(1) _ refl credit(5) safe]
  have "t \<in> set (d_txs d)" using find_txD [OF credit(1)] by simp
  with c(1,2) show ?thesis unfolding credit(6) by (intro saved_row_inv) simp_all
next
  case (refund t d1)
  have safe: "balances_safe d1" using assms(2) refund(6) by simp
  note c = rollbackWithdrawal_spec [OF assms(1) _ refl refund(2,5) safe]
  have "t \<in> set (d_txs d)" using find_txD [OF refund(1)] by simp
  with c(1,2) show ?thesis unfolding refund(6) by (intro saved_row_inv) simp_all
next
  case (plain t)
  have "t \<in> set (d_txs d)" using find_txD [OF plain(1)] by simp
  then show ?thesis unfolding plain(3) by (rule saved_row_inv [OF assms(1)]) (simp add: settled_to_def)
qed

lemma safe_step_inv: "books_ok d \<Longrightarrow> safe_step d d' \<Longrightarrow> books_ok d'"
proof -
  assume "books_ok d" and "safe_step d d'"
  then have inv: "ledger_inv d" and safe: "balances_safe d" "balances_safe d'" and st: "ledger_step d d'"
    by (simp_all add: books_ok_def safe_step_def)
  from st have "ledger_inv d'"
  proof (cases rule: ledger_step.cases)
    case (transfer r env x)
    obtain t sb rb where x: "x = (t, sb, rb)" by (cases x)
    show ?thesis
    proof (cases "find_tx_by_key d (tr_idempotencyKey r)")
      case None
      from persistTransfer_inv [OF inv safe transfer(1) None] transfer(2) x show ?thesis by simp
    qed (use transfer(2) inv in \<open>simp add: persistTransfer_def\<close>)
  next
    case (topup r env src y)
    obtain t b where y: "y = (t, b)" by (cases y)
    show ?thesis
    proof (cases "find_tx_by_key d (ur_idempotencyKey r)")
      case None
      from persistTopup_spec(1) [OF inv topup(1) None] topup(2) y show ?thesis by simp
    qed (use topup(2) inv in \<open>simp add: persistTopupIntent_def\<close>)
  next
    case (withdraw r env src y)
    obtain t b where y: "y = (t, b)" by (cases y)
    show ?thesis
    proof (cases "find_tx_by_key d (ur_idempotencyKey r)")
      case None
      from persistWithdrawal_spec(1) [OF inv safe(1) withdraw(1) None] withdraw(2) y show ?thesis by simp
    qed (use withdraw(2) inv in \<open>simp add: persistWithdrawalRequest_def\<close>)
  next
    case new_wallet
    then show ?thesis using ledger_inv_insert_wallet [OF inv] by simp
  next
    case (refund t tx env reason z)
    then show ?thesis using rollbackWithdrawal_spec(1) [OF inv refund safe(2)] by simp
  next
    case settle
    then show ?thesis using markSettlement_inv [OF inv safe(2)] by simp
  next
    case save
    then show ?thesis using save_tx_inv [OF inv] by blast
  next
    case other
    then show ?thesis using ledger_inv_save_txs [OF inv, of d'] by simp
  qed
  then show "books_ok d'" using safe(2) by (simp add: books_ok_def)
qed

lemma ledger_init_ok: "ledger_init d \<Longrightarrow> books_ok d"
  by (simp add: ledger_init_def books_ok_def ledger_inv_defs balances_safe_def total_balance_def booked_total_def)

interpretation books: invariant_system ledger_init safe_step books_ok
  by unfold_locales (auto intro: ledger_init_ok safe_step_inv)

section \<open>Rows of transactions are never lost\<close>

definition tx_keys :: "db \<Rightarrow> bool" where
  "tx_keys d = (inj (d_uuid d) \<and> distinct (map tx_id (d_txs d)) \<and> tx_id ` set (d_txs d) \<subseteq> d_uuid d ` {..<d_seq d})"

definition tx_grows :: "db \<Rightarrow> db \<Rightarrow> bool" where
  "tx_grows d d' =
     (d_uuid d' = d_uuid d \<and> d_seq d \<le> d_seq d' \<and>
      (map tx_core (d_txs d') = map tx_core (d_txs d) \<or>
       (\<exists>t n. d_txs d' = d_txs d @ [t] \<and> tx_id t = d_uuid d n \<and> d_seq d \<le> n \<and> n < d_seq d')))"

lemma tx_grows_refl [simp]: "tx_grows d d"
  by (simp add: tx_grows_def)

lemma tx_grows_keys:
  assumes "tx_keys d" and "tx_grows d d'"
  shows "tx_keys d'" and "tx_core ` set (d_txs d) \<subseteq> tx_core ` set (d_txs d')"
proof -
  have sub: "d_uuid d ` {..<d_seq d} \<subseteq> d_uuid d ` {..<d_seq d'}" using assms(2) by (auto simp add: tx_grows_def)
  have "tx_keys d' \<and> tx_core ` set (d_txs d) \<subseteq> tx_core ` set (d_txs d')"
  proof (cases "map tx_core (d_txs d') = map tx_core (d_txs d)")
    case True
    have ids: "map tx_id (d_txs d') = map tx_id (d_txs d)"
      by (rule map_core_cong [OF True]) (rule tx_coreD(1))
    moreover have "tx_id ` set (d_txs d') = tx_id ` set (d_txs d)" by (metis ids set_map)
    moreover have "tx_core ` set (d_txs d') = tx_core ` set (d_txs d)" by (metis True set_map)
    ultimately show ?thesis using assms sub by (auto simp add: tx_keys_def tx_grows_def)
  next
    case False
    then obtain t n where t: "d_txs d' = d_txs d @ [t]" "tx_id t = d_uuid d n" "d_seq d \<le> n" "n < d_seq d'"
      using assms(2) by (auto simp add: tx_grows_def)
    have "d_uuid d n \<notin> d_uuid d ` {..<d_seq d}" using assms(1) t(3) by (auto simp add: tx_keys_def inj_eq)
    then show ?thesis using assms t sub by (auto simp add: tx_keys_def tx_grows_def)
  qed
  then show "tx_keys d'" and "tx_core ` set (d_txs d) \<subseteq> tx_core ` set (d_txs d')" by simp_all
qed

text \<open>The parts of a unit of work that write no transaction row.\<close>

definition tx_still :: "db \<Rightarrow> db \<Rightarrow> bool" where
  "tx_still d d' = (d_uuid d' = d_uuid d \<and> d_seq d \<le> d_seq d' \<and> d_txs d' = d_txs d)"

definition still_unit :: "'a unit_of_work \<Rightarrow> bool" where
  "still_unit u = (\<forall>d x d'. u d = Inr (x, d') \<longrightarrow> tx_still d d')"

lemma still_unitD: "still_unit u \<Longrightarrow> u d = Inr (x, d') \<Longrightarrow> tx_still d d'"
  unfolding still_unit_def by blast

lemma tx_still_trans: "tx_still a b \<Longrightarrow> tx_still b c \<Longrightarrow> tx_still a c"
  by (simp add: tx_still_def)

lemma tx_still_refl [simp]: "tx_still d d"
  by (simp add: tx_still_def)

lemma still_bindU: "still_unit u \<Longrightarrow> (\<And>x. still_unit (f x)) \<Longrightarrow> still_unit (bindU u f)"
  unfolding still_unit_def bindU_eq_Inr using tx_still_trans by blast

lemma still_basic:
  "still_unit (returnU x)" "still_unit (getU f)" "still_unit (checkU c e)"
  "still_unit (insert_wallet now u cur)" "still_unit (save_wallet w)" "still_unit (insert_ledger now en)"
  by (auto simp add: still_unit_def tx_still_def write_eqs)

lemma still_wallet_units:
  "still_unit (wallet_or_create env u c)" "still_unit (require_wallet msg u c)"
  "still_unit (debit_wallet w a)" "still_unit (credit_wallet w a)"
  by (auto simp add: still_unit_def tx_still_def write_eqs wallet_or_create_def require_wallet_def debit_wallet_def
      credit_wallet_def split: option.splits)

lemmas still_intros = still_bindU still_basic still_wallet_units

lemma still_lockWallets: "still_unit (lockWallets env r us)"
proof (induction us)
  case Nil
  show ?case unfolding lockWallets.simps by (rule still_basic(1))
next
  case (Cons u us)
  then show ?case unfolding lockWallets.simps by (auto intro!: still_bindU still_wallet_units)
qed

lemma still_credit_receiver: "still_unit (credit_receiver env r)"
  by (auto simp add: credit_receiver_def intro!: still_intros)

lemma still_transfer_ledger: "still_unit (write_transfer_ledger env r t w cr)"
  by (auto simp add: write_transfer_ledger_def intro!: still_intros split: option.split)

lemma tx_still_credits:
  "applyDepositCreditIfNeeded env t d = Inr (u, d') \<Longrightarrow> tx_still d d'"
  "rollbackWithdrawalDebitUsingManager env t reason d = Inr (u, d') \<Longrightarrow> tx_still d d'"
  unfolding applyDepositCreditIfNeeded_def rollbackWithdrawalDebitUsingManager_def
  by (auto split: if_splits elim!: still_unitD [rotated] intro!: still_intros)

lemma tx_grows_still: "tx_still d d' \<Longrightarrow> tx_grows d d'"
  by (simp add: tx_still_def tx_grows_def)

text \<open>A unit of work that inserts one transaction row and answers with it.\<close>

definition inserting :: "string \<Rightarrow> (transaction \<times> 'a) unit_of_work \<Rightarrow> bool" where
  "inserting k u = (\<forall>d t x d'. u d = Inr ((t, x), d') \<longrightarrow>
     (\<exists>d1 d2 now t0. tx_idempotencyKey t0 = k \<and> tx_still d d1 \<and> insert_tx now t0 d1 = Inr (t, d2) \<and> tx_still d2 d'))"

lemma inserting_bind: "still_unit u \<Longrightarrow> (\<And>x. inserting k (f x)) \<Longrightarrow> inserting k (bindU u f)"
  unfolding inserting_def still_unit_def bindU_eq_Inr by (meson tx_still_trans)

lemma inserting_insert:
  "tx_idempotencyKey t0 = k \<Longrightarrow> (\<And>t d x d'. f t d = Inr (x, d') \<Longrightarrow> fst x = t \<and> tx_still d d') \<Longrightarrow>
   inserting k (bindU (insert_tx now t0) f)"
  unfolding inserting_def bindU_eq_Inr by (metis fst_conv tx_still_refl)

lemma inserting_grows:
  assumes "inserting k u" and "u d = Inr ((t, x), d')"
  shows "tx_grows d d'" and "t \<in> set (d_txs d')" and "d_txs d' = d_txs d @ [t]" and "tx_idempotencyKey t = k"
  using assms unfolding inserting_def
  by (fastforce simp add: tx_still_def insert_tx_eq tx_grows_def)+

lemma inserting_units:
  "find_tx_by_key d (tr_idempotencyKey r) = None \<Longrightarrow> \<exists>u. inserting (tr_idempotencyKey r) u \<and> persistTransfer env r d = u d"
  "find_tx_by_key d (ur_idempotencyKey q) = None \<Longrightarrow> \<exists>u. inserting (ur_idempotencyKey q) u \<and> persistTopupIntent env q src d = u d"
  "find_tx_by_key d (ur_idempotencyKey q) = None \<Longrightarrow> \<exists>u. inserting (ur_idempotencyKey q) u \<and> persistWithdrawalRequest env q src d = u d"
  unfolding persistTransfer_def persistTopupIntent_def persistWithdrawalRequest_def option.case
  by (simp_all only: option.case, (intro exI conjI inserting_bind inserting_insert still_intros still_lockWallets still_credit_receiver refl;
      (auto simp add: err_simps dest!: still_unitD [OF still_transfer_ledger] still_unitD [OF still_basic(6)])?)+)

lemma step_grows:
  assumes "tx_keys d" and "ledger_step d d'"
  shows "tx_grows d d'"
proof -
  have saved: "map tx_core (save_row tx_id tx (d_txs d)) = map tx_core (d_txs d)"
    if "t \<in> set (d_txs d)" "tx_core t = tx_core tx" for t tx
  proof (rule map_save_row_same)
    fix x assume "x \<in> set (d_txs d)" and "tx_id x = tx_id tx"
    then have "x = t" using row_unique [of tx_id "d_txs d" x t] assms(1) that tx_coreD(1) [OF that(2)]
      by (simp add: tx_keys_def)
    then show "tx_core x = tx_core tx" using that(2) by simp
  qed
  show ?thesis using assms(2)
  proof (cases rule: ledger_step.cases)
    case (transfer r env x)
    show ?thesis
    proof (cases "find_tx_by_key d (tr_idempotencyKey r)")
      case None
      from inserting_units(1) [OF None, of env] transfer(2) inserting_grows(1) show ?thesis
        by (metis prod.collapse)
    qed (use transfer(2) in \<open>simp add: persistTransfer_def\<close>)
  next
    case (topup r env src y)
    show ?thesis
    proof (cases "find_tx_by_key d (ur_idempotencyKey r)")
      case None
      from inserting_units(2) [OF None, of env src] topup(2) inserting_grows(1) show ?thesis
        by (metis prod.collapse)
    qed (use topup(2) in \<open>simp add: persistTopupIntent_def\<close>)
  next
    case (withdraw r env src y)
    show ?thesis
    proof (cases "find_tx_by_key d (ur_idempotencyKey r)")
      case None
      from inserting_units(3) [OF None, of env src] withdraw(2) inserting_grows(1) show ?thesis
        by (metis prod.collapse)
    qed (use withdraw(2) in \<open>simp add: persistWithdrawalRequest_def\<close>)
  next
    case (settle env tid st nt b)
    then show ?thesis
    proof (cases rule: markSettlement_cases)
      case (credit t d1)
      then show ?thesis using tx_still_credits(1) [OF credit(5)] saved [of t "settle_row env t"] find_txD [OF credit(1)]
        by (simp add: tx_grows_def tx_still_def)
    next
      case (refund t d1)
      then show ?thesis using tx_still_credits(2) [OF refund(5)] saved [of t "fail_row env nt t"] find_txD [OF refund(1)]
        by (simp add: tx_grows_def tx_still_def)
    next
      case (plain t)
      then show ?thesis using saved [of t "settled_to env st nt t"] find_txD [OF plain(1)]
        by (simp add: tx_grows_def settled_to_def)
    qed simp
  next
    case (save t tx tx')
    then show ?thesis using saved [OF save(1,2)] by (simp add: save_tx_eq tx_grows_def)
  next
    case new_wallet
    then show ?thesis by (intro tx_grows_still still_unitD [OF still_basic(4)])
  next
    case refund
    then show ?thesis by (intro tx_grows_still tx_still_credits(2))
  next
    case other
    then show ?thesis by (simp add: tx_grows_def)
  qed
qed

lemma steps_keep_rows:
  assumes "ledger_step\<^sup>*\<^sup>* d d'" and "tx_keys d"
  shows "tx_keys d' \<and> tx_core ` set (d_txs d) \<subseteq> tx_core ` set (d_txs d')"
  using assms
proof (induction rule: rtranclp_induct)
  case (step y z)
  then show ?case using tx_grows_keys [OF _ step_grows] by (meson subset_trans)
qed simp

section \<open>Handlers are made of steps\<close>

text \<open>The other requests, too, only commit units of work.\<close>

definition others_step :: "svc_env \<Rightarrow> bool" where
  "others_step env = (\<forall>k d. ledger_step\<^sup>*\<^sup>* d (e_others env k d))"

definition via :: "db \<Rightarrow> transaction set \<Rightarrow> db \<Rightarrow> bool" where
  "via d0 T d = (ledger_step\<^sup>*\<^sup>* d0 d \<and> tx_keys d \<and> tx_core ` T \<subseteq> tx_core ` set (d_txs d))"

lemma via_step: "via d0 T d \<Longrightarrow> ledger_step d d' \<Longrightarrow> via d0 T d'"
  unfolding via_def using tx_grows_keys [OF _ step_grows] by (meson rtranclp.rtrancl_into_rtrancl subset_trans)

lemma via_steps: "via d0 T d \<Longrightarrow> ledger_step\<^sup>*\<^sup>* d d' \<Longrightarrow> via d0 T d'"
  unfolding via_def using steps_keep_rows by (meson rtranclp_trans subset_trans)

lemma via_forget: "via d0 T d \<Longrightarrow> via d0 {} d"
  by (simp add: via_def)

lemma via_insert: "via d0 T d \<Longrightarrow> tx_core t \<in> tx_core ` set (d_txs d) \<Longrightarrow> via d0 (insert t T) d"
  by (simp add: via_def)

lemma via_insert_same: "via d0 T d \<Longrightarrow> tx_core t \<in> tx_core ` T \<Longrightarrow> via d0 (insert t T) d"
  unfolding via_def by auto

lemma via_gap:
  assumes "others_step env"
  shows "triple (via d0 T) (gap env k) (\<lambda>_. via d0 T) (via d0 {})"
  unfolding gap_def using assms via_steps by (intro triple_interfere) (auto simp add: others_step_def)

lemma via_readH: "triple (via d0 T) (readH f) (\<lambda>_. via d0 T) (via d0 {})"
  by (rule triple_readH)

lemma via_liftE: "triple (via d0 T) (liftE r) (\<lambda>x d. via d0 T d \<and> r = Inr x) (via d0 {})"
  by (rule triple_liftE) (auto intro: via_forget)

lemma via_save:
  assumes "tx_core t \<in> tx_core ` T"
  shows "triple (via d0 T) (atomic (save_tx t)) (\<lambda>s. via d0 (insert s T)) (via d0 {})"
proof (rule triple_atomic)
  fix d s d' assume v: "via d0 T d" and u: "save_tx t d = Inr (s, d')"
  obtain t0 where "t0 \<in> set (d_txs d)" "tx_core t0 = tx_core t" using assms v unfolding via_def by (metis imageE subsetD)
  then have "via d0 T d'" using via_step [OF v ledger_step.save [OF _ _ u]] by simp
  then show "via d0 (insert s T) d'" using assms u by (simp add: via_insert_same save_tx_eq)
qed (rule via_forget)

lemma enqueue_step: "ledger_step d (enqueueTransactionEvent env t d)"
  by (rule ledger_step.other) simp_all

lemma via_outbox: "triple (via d0 T) (enqueue_event env t) (\<lambda>_. via d0 T) (via d0 {})"
  unfolding enqueue_event_def
  by (rule triple_atomic) (auto intro: via_forget via_step enqueue_step)

lemma via_submit:
  assumes "others_step env" and "tx_core t \<in> tx_core ` T"
  shows "triple (via d0 T) (submitOutsideTransfer env k t) (\<lambda>s. via d0 (insert s T)) (via d0 {})"
proof -
  have "tx_core (outside_answer a t) = tx_core t" for a
    by (simp add: outside_answer_def tx_core_def Let_def split: sum.split)
  then show ?thesis unfolding submitOutsideTransfer_def
    by (auto intro!: triple_intros triple_throwH via_gap [OF assms(1)] via_save simp add: assms(2) via_forget)
qed

lemma via_anchor:
  assumes "others_step env" and "tx_core t \<in> tx_core ` T"
  shows "triple (via d0 T) (anchorToChain env k t) (\<lambda>s. via d0 (insert s T)) (via d0 {})"
  unfolding anchorToChain_def
  by (auto intro!: triple_intros triple_throwH via_gap [OF assms(1)] via_save simp add: assms(2) via_forget)

lemma via_rollback:
  assumes "tx_core t \<in> tx_core ` T"
  shows "triple (via d0 T) (rollbackWithdrawalDebit env t reason) (\<lambda>_. via d0 T) (via d0 {})"
proof -
  have "via d0 T d'" if "tx_type t = WITHDRAWAL" and v: "via d0 T d"
    and u: "rollbackWithdrawalDebitUsingManager env t reason d = Inr (x, d')" for d x d'
  proof -
    obtain t0 where "t0 \<in> set (d_txs d)" "tx_core t0 = tx_core t" using assms v unfolding via_def by (metis imageE subsetD)
    then show ?thesis using via_step [OF v ledger_step.refund [OF _ _ that(1) u]] by simp
  qed
  then show ?thesis unfolding rollbackWithdrawalDebit_def
    by (auto intro!: triple_intros triple_returnH triple_atomic intro: via_forget)
qed

lemma find_key_row: "find_tx_by_key d k = Some t \<Longrightarrow> t \<in> set (d_txs d) \<and> tx_idempotencyKey t = k"
  unfolding find_tx_by_key_def by (drule find_row_SomeD) auto

lemma persist_rows:
  "persistTransfer env r d = Inr ((t, x), d') \<Longrightarrow> t \<in> set (d_txs d')"
  "persistTopupIntent env q src d = Inr ((t, y), d') \<Longrightarrow> t \<in> set (d_txs d')"
  "persistWithdrawalRequest env q src d = Inr ((t, y), d') \<Longrightarrow> t \<in> set (d_txs d')"
proof -
  assume u: "persistTransfer env r d = Inr ((t, x), d')"
  show "t \<in> set (d_txs d')"
  proof (cases "find_tx_by_key d (tr_idempotencyKey r)")
    case None
    from inserting_units(1) [OF None] u show ?thesis by (metis inserting_grows(2))
  qed (use u find_key_row in \<open>simp add: persistTransfer_def\<close>)
next
  assume u: "persistTopupIntent env q src d = Inr ((t, y), d')"
  show "t \<in> set (d_txs d')"
  proof (cases "find_tx_by_key d (ur_idempotencyKey q)")
    case None
    from inserting_units(2) [OF None] u show ?thesis by (metis inserting_grows(2))
  qed (use u find_key_row in \<open>simp add: persistTopupIntent_def\<close>)
next
  assume u: "persistWithdrawalRequest env q src d = Inr ((t, y), d')"
  show "t \<in> set (d_txs d')"
  proof (cases "find_tx_by_key d (ur_idempotencyKey q)")
    case None
    from inserting_units(3) [OF None] u show ?thesis by (metis inserting_grows(2))
  qed (use u find_key_row in \<open>simp add: persistWithdrawalRequest_def\<close>)
qed

lemma via_persist:
  "valid_transfer r \<Longrightarrow>
   triple (via d0 T) (atomic (persistTransfer env r)) (\<lambda>x. via d0 (insert (fst x) T)) (via d0 {})"
  "valid_topup q \<Longrightarrow>
   triple (via d0 T) (atomic (persistTopupIntent env q src)) (\<lambda>x. via d0 (insert (fst x) T)) (via d0 {})"
  "valid_topup q \<Longrightarrow>
   triple (via d0 T) (atomic (persistWithdrawalRequest env q src)) (\<lambda>x. via d0 (insert (fst x) T)) (via d0 {})"
  by (rule triple_atomic; auto intro!: via_insert intro: via_forget via_step ledger_step.transfer ledger_step.topup
      ledger_step.withdraw dest: persist_rows)+

lemma via_return: "triple (via d0 T) (returnH x) (\<lambda>_. via d0 {}) E"
  by (rule triple_returnH) (rule via_forget)

lemma via_keep: "tx_core t \<in> tx_core ` T \<Longrightarrow> triple (via d0 T) (returnH t) (\<lambda>s. via d0 (insert s T)) E"
  by (rule triple_returnH) (rule via_insert_same)

lemma tx_core_updates [simp]:
  "tx_core (t\<lparr>tx_chainNextAttemptAt := x\<rparr>) = tx_core t"
  "tx_core (t\<lparr>tx_status := a, tx_settlementStatus := b, tx_errorCode := c, tx_errorMessage := e\<rparr>) = tx_core t"
  by (simp_all add: tx_core_def)

lemmas via_rules = triple_bindH triple_if triple_option triple_prod via_readH via_outbox via_save via_rollback
  via_return via_keep

lemma createTransfer_via:
  assumes "others_step env"
  shows "triple (via d0 {}) (createTransfer env q) (\<lambda>_. via d0 {}) (via d0 {})"
  unfolding createTransfer_def
  by (rule triple_bindH, rule via_liftE, rule triple_pure, drule validateCreateTransfer_valid)
    (rule via_rules via_gap [OF assms] via_submit [OF assms] via_persist(1) | assumption | simp)+

lemma via_source: "triple (via d0 T) (\<lambda>d. (getActiveFundingSource u i d, d)) (\<lambda>_. via d0 T) (via d0 {})"
  by (auto simp add: triple_def via_forget split: sum.split)

lemma createTopupIntent_via:
  assumes "others_step env"
  shows "triple (via d0 {}) (createTopupIntent env q) (\<lambda>_. via d0 {}) (via d0 {})"
  unfolding createTopupIntent_def
  by (rule triple_bindH, rule via_liftE, rule triple_pure, drule validateCreateTopupIntent_valid)
    (rule via_rules via_source via_gap [OF assms] via_submit [OF assms] via_anchor [OF assms] via_persist(2) | assumption | simp)+

lemma createWithdrawalRequest_via:
  assumes "others_step env"
  shows "triple (via d0 {}) (createWithdrawalRequest env q) (\<lambda>_. via d0 {}) (via d0 {})"
  unfolding createWithdrawalRequest_def
  by (rule triple_bindH, rule via_liftE, rule triple_pure, rule triple_prod, hypsubst, drule validateCreateWithdrawalRequest_valid)
    (rule via_rules via_source via_gap [OF assms] via_submit [OF assms] via_anchor [OF assms] via_persist(3) | assumption | simp)+

end
