(* ===== verification/Tx_Props.thy ===== *)
theory Tx_Props
  imports Tx_System
begin

text \<open>
  The properties of the transaction service's money handling, over the system of
  \<^verbatim>\<open>Tx_System\<close>: the books, reconciliation, the effect of each operation on balances,
  idempotency, settlement.
\<close>

section \<open>Balances after a posting\<close>

lemma balance_of_post:
  assumes "keys_wf d" and "w \<in> set (d_wallets d)"
  shows "balance_of (post now tid w dir a nt d) u c =
    balance_of d u c + (if w_userId w = u \<and> w_currency w = c then signed_amount dir a else 0)"
proof -
  let ?w = "w\<lparr>w_balance := w_balance w + signed_amount dir a\<rparr>"
  have dist: "distinct (map w_id (d_wallets d))" using assms(1) by (simp add: keys_wf_def)
  have "find_wallet (post now tid w dir a nt d) u c = map_option (\<lambda>x. if w_id x = w_id w then ?w else x) (find_wallet d u c)"
    using find_wallet_save [OF dist assms(2)] by (simp add: find_wallet_def)
  moreover have "x = w" if "find_wallet d u c = Some x" "w_id x = w_id w" for x
    using wallet_unique [OF assms(1) _ assms(2) that(2)] find_walletD [OF that(1)] by simp
  moreover have "find_wallet d u c = Some w" if "w_userId w = u" "w_currency w = c"
    using find_wallet_row [OF assms] that by simp
  ultimately show ?thesis
    by (auto simp add: balance_of_def dest: find_walletD split: option.split)
qed

lemma balance_of_cong: "d_wallets d' = d_wallets d \<Longrightarrow> balance_of d' = balance_of d"
  by (simp add: balance_of_def find_wallet_def fun_eq_iff)

lemma balance_of_create:
  assumes "wallet_or_create env u c d = Inr (w, d0)"
  shows "balance_of d0 = balance_of d"
proof (cases "find_wallet d u c")
  case None
  with assms have i: "insert_wallet (e_now env) u c d = Inr (w, d0)" by (simp add: wallet_or_create_def)
  then have "w_balance w = 0" by (auto simp add: insert_wallet_eq)
  then show ?thesis using find_wallet_insert [OF i] None by (auto simp add: balance_of_def fun_eq_iff)
next
  case (Some x)
  then show ?thesis using assms by (simp add: wallet_or_create_def)
qed

lemma reach_books: "reach ledger_init safe_step d \<Longrightarrow> ledger_inv d \<and> balances_safe d"
  using books.reach_inv [of d] by (simp add: books_ok_def)

section \<open>Properties of the books\<close>

text \<open>
  C1. In every store the service reaches, with safe balances throughout, the balance of each wallet is
  never negative and equals the sum of its ledger entries, and its entries form an unbroken trail from
  zero: each starts from the balance the one before it left.
\<close>

theorem books_balance:
  assumes "reach ledger_init safe_step d" and "w \<in> set (d_wallets d)"
  shows "0 \<le> w_balance w \<and> w_balance w = sum_list (map delta (entries_of d (w_id w))) \<and>
    trail 0 (entries_of d (w_id w)) (w_balance w)"
proof -
  have "wallet_ok d w" using reach_books [OF assms(1)] assms(2) by (simp add: ledger_inv_defs)
  then show ?thesis using trail_sum [of 0 "entries_of d (w_id w)" "w_balance w"] by (simp add: wallet_ok_def)
qed


text \<open>What a transaction adds to the money held in wallets.\<close>

definition inflow :: "db \<Rightarrow> transaction \<Rightarrow> int" where
  "inflow d t =
     (case tx_type t of
        TRANSFER \<Rightarrow> if tx_isExternal t then - tx_amount t else 0
      | DEPOSIT \<Rightarrow> if find_credit d (tx_id t) = None then 0 else tx_amount t
      | WITHDRAWAL \<Rightarrow> if find_credit d (tx_id t) = None then - tx_amount t else 0)"

lemma net_inflow:
  assumes "ledger_inv d" and "t \<in> set (d_txs d)"
  shows "net (tx_moves d (tx_id t)) = inflow d t"
  using tx_moves_ok [OF assms] find_credit_None [of d "tx_id t"]
  by (auto simp add: moves_ok_def inflow_def net_def split: transaction_type.splits)


text \<open>
  C3. The three money-moving requests do nothing but committed units of work, whatever the caller
  sends, whatever the partner and the chain answer, and whatever other requests commit in between:
  the store after each of them is reached from the store before by steps of the system.
\<close>

theorem requests_are_steps:
  assumes "others_step env" and "tx_keys d"
  shows "ledger_step\<^sup>*\<^sup>* d (snd (createTransfer env q d)) \<and>
    ledger_step\<^sup>*\<^sup>* d (snd (createTopupIntent env q' d)) \<and>
    ledger_step\<^sup>*\<^sup>* d (snd (createWithdrawalRequest env q'' d))"
proof -
  have v: "via d {} d" using assms(2) by (simp add: via_def)
  have "via d {} (snd (m d))" if "triple (via d {}) m (\<lambda>_. via d {}) (via d {})" for m :: "transfer_response db_handler"
    using tripleD [OF that v, of "fst (m d)" "snd (m d)"] by (auto split: sum.splits)
  then show ?thesis
    using createTransfer_via [OF assms(1)] createTopupIntent_via [OF assms(1)] createWithdrawalRequest_via [OF assms(1)]
    unfolding via_def by blast
qed

section \<open>Reconciliation\<close>

lemma no_mismatch:
  assumes "ledger_inv d" and "balances_safe d" and "w \<in> set (d_wallets d)"
  shows "wallet_mismatch d w = None"
proof -
  have b: "0 \<le> w_balance w" "w_balance w \<le> max_safe_integer" and tr: "trail 0 (entries_of d (w_id w)) (w_balance w)"
    using assms wallet_nonneg balances_safeD by (auto simp add: ledger_inv_defs wallet_ok_def)
  have "map le_id (d_ledger d) = [0..<d_lseq d]" using assms(1) by (simp add: ledger_inv_defs)
  then have "sorted (map le_id (d_ledger d))" by simp
  then have "sorted (map le_id (entries_of d (w_id w)))" unfolding entries_of_def by (rule sorted_filter)
  then have "sort_key le_id (entries_of d (w_id w)) = entries_of d (w_id w)" by (rule sort_key_id_if_sorted)
  moreover have "sum_list (map delta (entries_of d (w_id w))) = w_balance w" using trail_sum [OF tr] by simp
  moreover have "js_round (w_balance w) = w_balance w" using b by (intro js_round_id) (simp add: max_safe_integer_def)
  ultimately show ?thesis using tr
    by (cases "entries_of d (w_id w)") (simp_all add: wallet_mismatch_def Let_def js_add_def)
qed

lemma reconcile_loop_clean:
  assumes "\<And>w. w \<in> set ws \<Longrightarrow> wallet_mismatch d w = None" and "e_others env = (\<lambda>_ s. s)"
  shows "reconcile_loop env autoFix k ws d = (Inr ([], 0), d)"
  using assms(1)
proof (induction ws arbitrary: k)
  case (Cons w ws)
  then show ?case by (simp add: handler_defs gap_def assms(2))
qed (simp add: returnH_def)

text \<open>
  Reconciliation agrees with the books: run on a reachable store with no other request in flight,
  it scans the wallets, reports no mismatch and, with or without autoFix, changes nothing.
\<close>

theorem reconcile_finds_nothing:
  assumes "reach ledger_init safe_step d" and "e_others env = (\<lambda>_ s. s)"
  shows "reconcileWallets env limit autoFix d =
    (Inr \<lparr>rr_scanned = min (nat (max 1 (min limit 5000))) (length (d_wallets d)), rr_mismatches = 0, rr_fixed = 0,
          rr_items = []\<rparr>, d)"
proof -
  let ?ws = "take (nat (max 1 (min limit 5000))) (sort_key w_createdAt (d_wallets d))"
  have "wallet_mismatch d w = None" if "w \<in> set ?ws" for w
    using no_mismatch reach_books [OF assms(1)] in_set_takeD [OF that] by simp
  from reconcile_loop_clean [of ?ws d env autoFix 0, OF this assms(2)] show ?thesis
    by (simp add: reconcileWallets_def handler_defs min.commute)
qed

section \<open>The effect of each operation on balances\<close>

text \<open>
  C5. A committed internal transfer takes exactly the amount from the sender and gives exactly it to
  the receiver, whose wallet is created when there is none; the sender had the amount and both wallets
  are active; no other balance changes, and the answer carries the two new balances.
\<close>

theorem transfer_moves_amount:
  assumes "books_ok d" and "balances_safe d'" and "valid_transfer r" and "\<not> tr_isExternal r"
    and "find_tx_by_key d (tr_idempotencyKey r) = None" and "persistTransfer env r d = Inr ((t, sb, rb), d')"
  shows "tr_amount r \<le> balance_of d (tr_fromUserId r) (tr_currency r) \<and>
    sb = balance_of d' (tr_fromUserId r) (tr_currency r) \<and> rb = balance_of d' (tr_toUserId r) (tr_currency r) \<and>
    (\<forall>u c. balance_of d' u c = balance_of d u c +
       (if c = tr_currency r then (if u = tr_fromUserId r then - tr_amount r else if u = tr_toUserId r then tr_amount r else 0)
        else 0))"
proof -
  have inv: "ledger_inv d" "balances_safe d" using assms(1) by (simp_all add: books_ok_def)
  obtain s rc d0 d1 nt nt' where s: "find_wallet d (tr_fromUserId r) (tr_currency r) = Some s" "tr_amount r \<le> w_balance s"
    and rc: "wallet_or_create env (tr_toUserId r) (tr_currency r) d = Inr (rc, d0)"
    and i: "insert_tx (e_now env) (pending_tx r TRANSFER ST_NONE (e_now env)) d0 = Inr (t, d1)"
    and d': "d' = post (e_now env) (tx_id t) rc CREDIT (tr_amount r) nt' (post (e_now env) (tx_id t) s DEBIT (tr_amount r) nt d1)"
    and b: "sb = w_balance s - tr_amount r" "rb = w_balance rc + tr_amount r"
    using persistTransfer_internal [OF inv assms(2-6)] by blast
  note l = wallet_or_create_spec [OF inv(1) rc]
  have k: "keys_wf d0" "books_wf d0" using l(1) by (simp_all add: ledger_inv_def)
  note ins = keys_books_insert_tx [OF k i]
  have s0: "s \<in> set (d_wallets d1)" "w_userId s = tr_fromUserId r" "w_currency s = tr_currency r"
    using find_walletD [OF s(1)] l(7) ins(6) by auto
  have neq: "tr_toUserId r \<noteq> tr_fromUserId r" using assms(3,4) by (auto simp add: valid_transfer_def)
  then have "w_id rc \<noteq> w_id s" using wallet_unique [OF ins(1), of rc s] l(2,3) s0 ins(6) by auto
  then have row: "rc \<in> set (d_wallets (post (e_now env) (tx_id t) s DEBIT (tr_amount r) nt d1))"
    using l(2) ins(6) by (auto simp add: set_save_row)
  have base: "balance_of d1 = balance_of d" using balance_of_create [OF rc] balance_of_cong [OF ins(6)] by simp
  have eff: "balance_of d' u c = balance_of d u c +
       (if c = tr_currency r then (if u = tr_fromUserId r then - tr_amount r else if u = tr_toUserId r then tr_amount r else 0)
        else 0)" for u c
    unfolding d' balance_of_post [OF keys_wf_post [OF ins(1) s0(1)] row] balance_of_post [OF ins(1) s0(1)] base
    using s0(2,3) l(3,4) neq by (auto simp add: signed_amount_def)
  have "balance_of d (tr_fromUserId r) (tr_currency r) = w_balance s" using s(1) by (simp add: balance_of_def)
  moreover have "balance_of d (tr_toUserId r) (tr_currency r) = w_balance rc"
    using wallet_or_create_find [OF rc, of "tr_toUserId r" "tr_currency r"] balance_of_create [OF rc]
    by (simp add: balance_of_def fun_eq_iff) (metis option.simps(5))
  ultimately show ?thesis using eff s(2) b neq by simp
qed

text \<open>
  C7. A withdrawal that fails is undone exactly: after the debit, the refund brings every balance back
  to what it was, and a second refund of the same withdrawal changes nothing.
\<close>

theorem withdrawal_refund_restores:
  assumes "books_ok d" and "balances_safe d1" and "balances_safe d2" and "valid_topup r"
    and "find_tx_by_key d (ur_idempotencyKey r) = None"
    and "persistWithdrawalRequest env r src d = Inr ((t, b), d1)"
    and "rollbackWithdrawalDebitUsingManager env' t reason d1 = Inr ((), d2)"
  shows "balance_of d2 = balance_of d \<and> rollbackWithdrawalDebitUsingManager env'' t reason' d2 = Inr ((), d2)"
proof -
  have inv: "ledger_inv d" "balances_safe d" using assms(1) by (simp_all add: books_ok_def)
  note p = persistWithdrawal_spec [OF inv assms(4-6)]
  obtain w d0 nt n s where w: "find_wallet d (ur_userId r) (ur_currency r) = Some w"
    and i: "insert_tx (e_now env) (pending_tx (funded_req r src (ur_userId r) s ''Withdrawal'') WITHDRAWAL ST_PENDING n) d = Inr (t, d0)"
    and d1: "d1 = post (e_now env) (tx_id t) w DEBIT (ur_amount r) nt d0"
    using persistWithdrawal_post [OF inv assms(4-6)] by blast
  have k: "keys_wf d" "books_wf d" using inv(1) by (simp_all add: ledger_inv_def)
  note ins = keys_books_insert_tx [OF k i]
  have w0: "w \<in> set (d_wallets d0)" "w_userId w = ur_userId r" "w_currency w = ur_currency r"
    using find_walletD [OF w] ins(6) by simp_all
  have "tx_moves d1 (tx_id t) = [(DEBIT, ur_amount r)]" using ins(3,4) d1 by (simp add: tx_moves_post)
  then have none: "find_credit d1 (tx_id t) = None" by (simp add: find_credit_None)
  have pos: "0 \<le> tx_amount t" using tx_moves_ok [OF p(1,2)] by (simp add: moves_ok_def)
  obtain w' nt' where w': "find_wallet d1 (tx_fromUserId t) (tx_currency t) = Some w'"
    and d2: "d2 = post (e_now env') (tx_id t) w' CREDIT (tx_amount t) nt' d1"
    using rollback_post [OF p(1) none pos assms(7,3)] by blast
  have k1: "keys_wf d1" using p(1) by (simp add: ledger_inv_def)
  have "balance_of d2 u c = balance_of d u c" for u c
    unfolding d2 balance_of_post [OF k1 conjunct1 [OF find_walletD [OF w']]]
    unfolding d1 balance_of_post [OF ins(1) w0(1)] balance_of_cong [OF ins(6)]
    using find_walletD [OF w'] w0 p(5-7) by (simp add: signed_amount_def)
  moreover have "find_credit d2 (tx_id t) \<noteq> None"
    using rollbackWithdrawal_spec(3) [OF p(1,2) refl p(3) assms(7,3)] find_credit_None [of d2 "tx_id t"] by auto
  ultimately show ?thesis by (auto simp add: rollbackWithdrawalDebitUsingManager_def fun_eq_iff)
qed

section \<open>Settlement\<close>

lemma find_tx_saved:
  assumes "find_tx d i = Some t" and "tx_id s = i"
  shows "find_tx (enqueueTransactionEvent env s (d\<lparr>d_txs := save_row tx_id s (d_txs d)\<rparr>)) i = Some s"
proof -
  have "find_row (\<lambda>t. tx_id t = i) (save_row tx_id s (d_txs d)) =
      map_option (\<lambda>x. if tx_id x = tx_id s then s else x) (find_row (\<lambda>t. tx_id t = i) (d_txs d))"
    by (rule find_row_cong_save) (simp add: assms(2))
  then show ?thesis using assms find_txD [OF assms(1)] by (simp add: find_tx_def)
qed

lemma tx_id_settled [simp]: "tx_id (settled_to env st note t) = tx_id t"
  by (simp add: settled_to_def settle_row_def fail_row_def)

lemma settle_no_money:
  assumes "find_tx d i = Some t" and "tx_type t = TRANSFER \<or> find_credit d i \<noteq> None"
    and "markSettlement env i st note d = Inr (b, d')"
  shows "d_wallets d' = d_wallets d \<and> d_ledger d' = d_ledger d \<and> find_tx d' i = Some (settled_to env st note t)"
  using assms(3)
proof (cases rule: markSettlement_cases)
  case missing
  then show ?thesis using assms(1) by simp
next
  case (credit u d1)
  have "u = t" "tx_id t = i" using credit(1) assms(1) find_txD by auto
  then have "d1 = d" using credit(2,5) assms(2) by (auto simp add: applyDepositCreditIfNeeded_def)
  then show ?thesis using credit find_tx_saved [OF assms(1)] \<open>u = t\<close> \<open>tx_id t = i\<close> by (simp add: settled_to_def settle_row_def)
next
  case (refund u d1)
  have "u = t" "tx_id t = i" using refund(1) assms(1) find_txD by auto
  then have "d1 = d" using refund(2,5) assms(2) by (auto simp add: rollbackWithdrawalDebitUsingManager_def)
  then show ?thesis using refund find_tx_saved [OF assms(1)] \<open>u = t\<close> \<open>tx_id t = i\<close> by (simp add: settled_to_def fail_row_def)
next
  case (plain u)
  then show ?thesis using assms(1) find_tx_saved [OF assms(1), of "settled_to env st note t" env] find_txD [OF assms(1)] by simp
qed

text \<open>
  Settlement of a transaction that is not a deposit or withdrawal, or that already has its credit,
  records the outcome and moves no money. In particular an external transfer whose settlement fails
  stays debited, and a withdrawal that was already refunded can still be marked settled: there is no
  check on the settlement status the transaction had.
\<close>

theorem settlement_without_money:
  assumes "find_tx d i = Some t" and "tx_type t = TRANSFER \<or> find_credit d i \<noteq> None"
    and "markSettlement env i st note d = Inr (b, d')"
  shows "d_wallets d' = d_wallets d \<and> d_ledger d' = d_ledger d \<and> find_tx d' i = Some (settled_to env st note t)"
  using assms by (rule settle_no_money)

lemma deposit_credit_post:
  assumes "ledger_inv d" and "tx_type tx = DEPOSIT" and "find_credit d (tx_id tx) = None" and "0 \<le> tx_amount tx"
    and "applyDepositCreditIfNeeded env tx d = Inr (u, d')" and "balances_safe d'"
  shows "\<exists>w d0 nt. wallet_or_create env (coalesce (tx_toUserId tx) (tx_requestingUserId tx)) (tx_currency tx) d = Inr (w, d0) \<and>
    d' = post (e_now env) (tx_id tx) w CREDIT (tx_amount tx) nt d0"
proof -
  obtain w d0 after d1 e nt where w: "wallet_or_create env (coalesce (tx_toUserId tx) (tx_requestingUserId tx)) (tx_currency tx) d = Inr (w, d0)"
    and c: "credit_wallet w (tx_amount tx) d0 = Inr (after, d1)"
      "insert_ledger (e_now env) (new_entry (tx_id tx) (w_id w) CREDIT (tx_amount tx) (w_balance w) (w_balance after) nt) d1 = Inr (e, d')"
    using assms(2,3,5) by (auto simp add: applyDepositCreditIfNeeded_def err_simps)
  note l = wallet_or_create_spec [OF assms(1) w]
  show ?thesis using credit_post [OF c l(2) wallet_nonneg [OF l(1,2)] assms(4,6)] w by blast
qed

text \<open>
  A deposit is credited exactly once: marking it settled adds its amount to the wallet of the
  receiver, and to no other, if it was not credited before, and marking it again, settled or failed,
  changes no balance.
\<close>

theorem deposit_credited_once:
  assumes "books_ok d" and "find_tx d i = Some t" and "tx_type t = DEPOSIT" and "balances_safe d1"
    and "markSettlement env i (Some ''SETTLED'') note d = Inr (b, d1)"
    and "markSettlement env' i st' note' d1 = Inr (b', d2)"
  shows "(\<forall>u c. balance_of d1 u c = balance_of d u c +
      (if find_credit d i = None \<and> u = coalesce (tx_toUserId t) (tx_requestingUserId t) \<and> c = tx_currency t then tx_amount t else 0)) \<and>
    balance_of d2 = balance_of d1"
proof -
  have inv: "ledger_inv d" using assms(1) by (simp add: books_ok_def)
  have t: "t \<in> set (d_txs d)" "tx_id t = i" using find_txD [OF assms(2)] by simp_all
  have u: "js_upper (js_trim (or_str (Some ''SETTLED'') [])) = ''SETTLED''" by code_simp
  obtain da where a: "applyDepositCreditIfNeeded env t d = Inr ((), da)"
    "d1 = enqueueTransactionEvent env (settle_row env t) (da\<lparr>d_txs := save_row tx_id (settle_row env t) (d_txs da)\<rparr>)"
    using assms(2,3,5) u by (auto simp add: markSettlement_def err_simps save_tx_eq)
  have safe: "balances_safe da" using assms(4) a(2) by simp
  note c = applyDepositCredit_spec [OF inv t(1) refl a(1) safe]
  have bal: "balance_of d1 = balance_of da" by (rule balance_of_cong) (simp add: a(2))
  have "balance_of da u c = balance_of d u c +
      (if find_credit d i = None \<and> u = coalesce (tx_toUserId t) (tx_requestingUserId t) \<and> c = tx_currency t then tx_amount t else 0)" for u c
  proof (cases "find_credit d i = None")
    case True
    have pos: "0 \<le> tx_amount t" using tx_moves_ok [OF inv t(1)] by (simp add: moves_ok_def)
    obtain w d0 nt where w: "wallet_or_create env (coalesce (tx_toUserId t) (tx_requestingUserId t)) (tx_currency t) d = Inr (w, d0)"
      and da: "da = post (e_now env) (tx_id t) w CREDIT (tx_amount t) nt d0"
      using deposit_credit_post [OF inv assms(3) _ pos a(1) safe] True t(2) by auto
    note l = wallet_or_create_spec [OF inv w]
    have k: "keys_wf d0" using l(1) by (simp add: ledger_inv_def)
    show ?thesis unfolding da balance_of_post [OF k l(2)] balance_of_create [OF w] using True l(3,4)
      by (auto simp add: signed_amount_def)
  qed (use a(1) t(2) in \<open>auto simp add: applyDepositCreditIfNeeded_def\<close>)
  moreover have "balance_of d2 = balance_of d1"
  proof (rule balance_of_cong)
    have "find_tx da i = Some t" using assms(2) c(2) by (simp add: find_tx_def)
    then have f: "find_tx d1 i = Some (settle_row env t)"
      unfolding a(2) by (rule find_tx_saved) (simp add: settle_row_def t(2))
    have "tx_moves d1 = tx_moves da" by (rule tx_moves_cong) (simp add: a(2))
    then have "find_credit d1 i \<noteq> None" using c(3) assms(3) t(2) find_credit_None [of d1 i] by auto
    then show "d_wallets d2 = d_wallets d1" using settle_no_money [OF f _ assms(6)] by simp
  qed
  ultimately show ?thesis using bal by simp
qed

section \<open>Idempotency\<close>

text \<open>The transaction found under a key, by its fixed columns.\<close>

definition keyed :: "string \<Rightarrow> _ \<Rightarrow> db \<Rightarrow> bool" where
  "keyed k c d = (tx_keys d \<and> map_option tx_core (find_tx_by_key d k) = Some c)"

lemma find_key_core:
  assumes "map tx_core ts = map tx_core us"
  shows "map_option tx_core (find_row (\<lambda>t. tx_idempotencyKey t = k) ts) =
    map_option tx_core (find_row (\<lambda>t. tx_idempotencyKey t = k) us)"
  using assms
proof (induction ts arbitrary: us)
  case (Cons t ts)
  then obtain u us' where us: "us = u # us'" "tx_core t = tx_core u" "map tx_core ts = map tx_core us'" by (cases us) auto
  then show ?case using Cons.IH [OF us(3)] tx_coreD(2) [OF us(2)] by (simp add: row_simps)
qed simp

lemma keyed_step: "keyed k c d \<Longrightarrow> ledger_step d d' \<Longrightarrow> keyed k c d'"
proof -
  assume a: "keyed k c d" "ledger_step d d'"
  then have g: "tx_grows d d'" and k: "tx_keys d" using step_grows by (auto simp add: keyed_def)
  have "map_option tx_core (find_tx_by_key d' k) = map_option tx_core (find_tx_by_key d k)"
  proof (cases "map tx_core (d_txs d') = map tx_core (d_txs d)")
    case True
    then show ?thesis unfolding find_tx_by_key_def by (rule find_key_core)
  next
    case False
    then show ?thesis using g a(1)
      by (auto simp add: tx_grows_def find_tx_by_key_def find_row_append keyed_def split: option.splits)
  qed
  then show "keyed k c d'" using a(1) tx_grows_keys(1) [OF k g] by (simp add: keyed_def)
qed

lemma keyed_steps: "ledger_step\<^sup>*\<^sup>* d d' \<Longrightarrow> keyed k c d \<Longrightarrow> keyed k c d'"
  by (induction rule: rtranclp_induct) (auto intro: keyed_step)

lemma keyed_gap:
  "others_step env \<Longrightarrow> triple (keyed k c) (gap env n) (\<lambda>_. keyed k c) (\<lambda>_. True)"
  unfolding gap_def by (rule triple_interfere) (auto simp add: others_step_def intro: keyed_steps)

lemma keyed_save:
  assumes "tx_core t = c"
  shows "triple (keyed k c) (atomic (save_tx t)) (\<lambda>s d. keyed k c d \<and> tx_core s = c) (\<lambda>_. True)"
proof (rule triple_atomic)
  fix d s d' assume v: "keyed k c d" and u: "save_tx t d = Inr (s, d')"
  then obtain t0 where "find_tx_by_key d k = Some t0" "tx_core t0 = tx_core t" using assms by (auto simp add: keyed_def)
  then have "ledger_step d d'" using ledger_step.save [OF _ _ u] find_key_row by blast
  then show "keyed k c d' \<and> tx_core s = c" using keyed_step [OF v] u assms by (simp add: save_tx_eq)
qed simp

lemma keyed_outbox: "triple (keyed k c) (enqueue_event env t) (\<lambda>_. keyed k c) (\<lambda>_. True)"
  unfolding enqueue_event_def by (rule triple_atomic) (auto intro: keyed_step enqueue_step)

lemma keyed_submit:
  assumes "others_step env" and "tx_core t = c"
  shows "triple (keyed k c) (submitOutsideTransfer env n t) (\<lambda>s d. keyed k c d \<and> tx_core s = c) (\<lambda>_. True)"
proof -
  have "tx_core (outside_answer a t) = c" for a
    using assms(2) by (simp add: outside_answer_def tx_core_def Let_def split: sum.split)
  then show ?thesis unfolding submitOutsideTransfer_def
    by (auto intro!: triple_intros triple_throwH keyed_gap [OF assms(1)] keyed_save)
qed

lemma keyed_persist:
  assumes "valid_transfer r"
  shows "triple tx_keys (atomic (persistTransfer env r)) (\<lambda>x. keyed (tr_idempotencyKey r) (tx_core (fst x))) (\<lambda>_. True)"
proof (rule triple_atomic)
  fix d x d' assume k: "tx_keys d" and u: "persistTransfer env r d = Inr (x, d')"
  have keys: "tx_keys d'" using tx_grows_keys(1) [OF k step_grows [OF k ledger_step.transfer [OF assms u]]] .
  show "keyed (tr_idempotencyKey r) (tx_core (fst x)) d'"
  proof (cases "find_tx_by_key d (tr_idempotencyKey r)")
    case None
    obtain t y where x: "x = (t, y)" by (cases x)
    obtain v where v: "inserting (tr_idempotencyKey r) v" "persistTransfer env r d = v d"
      using inserting_units(1) [OF None] by blast
    have "d_txs d' = d_txs d @ [t]" "tx_idempotencyKey t = tr_idempotencyKey r"
      using inserting_grows(3,4) [OF v(1)] u x v(2) by simp_all
    then show ?thesis using None keys x by (simp add: keyed_def find_tx_by_key_def find_row_append row_simps)
  next
    case (Some t)
    then show ?thesis using u keys by (auto simp add: persistTransfer_def keyed_def)
  qed
qed simp

lemma keyed_readH: "triple (keyed k c) (readH f) (\<lambda>_. keyed k c) (\<lambda>_. True)"
  by (rule triple_readH)

lemma keyed_keep: "tx_core t = c \<Longrightarrow> triple (keyed k c) (returnH t) (\<lambda>s d. keyed k c d \<and> tx_core s = c) E"
  by (rule triple_returnH) simp

definition answers :: "string \<Rightarrow> transfer_response \<Rightarrow> db \<Rightarrow> bool" where
  "answers k resp d = (tx_keys d \<and> map_option tx_id (find_tx_by_key d k) = Some (rs_transactionId resp))"

lemma keyed_answers:
  "tx_core t = c \<Longrightarrow> triple (keyed k c) (returnH (mapTransferResponse t a b)) (answers k) (\<lambda>_. True)"
  by (rule triple_returnH) (auto simp add: keyed_def answers_def mapTransferResponse_def dest: tx_coreD(1))

lemma createTransfer_answers:
  assumes "others_step env" and "validateCreateTransfer q = Inr r"
  shows "triple tx_keys (createTransfer env q) (answers (tr_idempotencyKey r)) (\<lambda>_. True)"
proof -
  let ?k = "tr_idempotencyKey r"
  note rules = triple_pure triple_bindH triple_if keyed_gap [OF assms(1)] keyed_readH keyed_outbox keyed_submit [OF assms(1)]
    keyed_save keyed_keep keyed_answers
  have keys_gap: "triple (\<lambda>d. tx_keys d \<and> None = found) (gap env n) (\<lambda>_. tx_keys) (\<lambda>_. True)" for n and found :: "'x option"
    unfolding gap_def by (rule triple_interfere) (use assms(1) steps_keep_rows in \<open>auto simp add: others_step_def\<close>)
  have read: "triple tx_keys (readH (\<lambda>d. find_tx_by_key d ?k))
      (\<lambda>found d. case found of None \<Rightarrow> tx_keys d \<and> None = found | Some t \<Rightarrow> keyed ?k (tx_core t) d) (\<lambda>_. True)"
    by (rule triple_readH) (auto simp add: keyed_def split: option.split)
  have lift: "triple tx_keys (liftE (validateCreateTransfer q)) (\<lambda>x d. tx_keys d \<and> r = x) (\<lambda>_. True)"
    by (rule triple_liftE) (simp_all add: assms(2))
  have valid: "valid_transfer r" using validateCreateTransfer_valid [OF assms(2)] .
  show ?thesis unfolding createTransfer_def
    apply (rule triple_bindH, rule lift, rule triple_pure, erule subst)
    apply (rule triple_bindH, rule read, rule triple_option)
     apply (simp only: option.case)
     apply (rule triple_bindH, rule keys_gap)
     apply (rule triple_bindH, rule keyed_persist [OF valid])
     apply (rule triple_prod, rule triple_prod, simp only: fst_conv)
     apply (rule rules refl | assumption | simp only: tx_core_updates)+
    apply (simp only: option.case)
    apply (rule rules refl)+
    done
qed

text \<open>
  C6. A repeated transfer request does not move money again. After a request answered, any number of
  other requests later, sending it again answers with the same transaction and changes nothing itself:
  the only changes during the second call are those of other requests.
\<close>

theorem transfer_idempotent:
  assumes "others_step env" and "tx_keys d" and "createTransfer env q d = (Inr resp, d1)"
    and "ledger_step\<^sup>*\<^sup>* d1 d2"
  shows "\<exists>resp'. createTransfer env' q d2 = (Inr resp', e_others env' 1 (e_others env' 0 d2)) \<and>
    rs_transactionId resp' = rs_transactionId resp"
proof -
  obtain r where r: "validateCreateTransfer q = Inr r"
    using assms(3) by (auto simp add: createTransfer_def err_simps liftE_def)
  have "answers (tr_idempotencyKey r) resp d1"
    using tripleD [OF createTransfer_answers [OF assms(1) r] assms(2,3)] by simp
  then obtain t where "find_tx_by_key d1 (tr_idempotencyKey r) = Some t" "tx_id t = rs_transactionId resp" "tx_keys d1"
    by (auto simp add: answers_def)
  then have "keyed (tr_idempotencyKey r) (tx_core t) d1" by (simp add: keyed_def)
  then have "keyed (tr_idempotencyKey r) (tx_core t) d2" by (rule keyed_steps [OF assms(4)])
  then obtain u where u: "find_tx_by_key d2 (tr_idempotencyKey r) = Some u" "tx_core u = tx_core t"
    by (auto simp add: keyed_def)
  have "tx_id u = rs_transactionId resp" using tx_coreD(1) [OF u(2)] \<open>tx_id t = rs_transactionId resp\<close> by simp
  then show ?thesis
    by (simp add: createTransfer_def handler_defs gap_def r u(1)) (simp add: mapTransferResponse_def)
qed

section \<open>Rejections\<close>

lemma lockWallets_ok:
  assumes "find_wallet d (tr_fromUserId r) (tr_currency r) = Some w"
  shows "\<exists>d0. lockWallets env r (usersToLock env r) d = Inr ((), d0) \<and>
    find_wallet d0 (tr_fromUserId r) (tr_currency r) = Some w"
proof -
  obtain rc d0 where c: "wallet_or_create env (tr_toUserId r) (tr_currency r) d = Inr (rc, d0)"
    by (cases "find_wallet d (tr_toUserId r) (tr_currency r)")
      (auto simp add: wallet_or_create_def insert_wallet_def Let_def)
  then have "find_wallet d0 (tr_fromUserId r) (tr_currency r) = Some w" if "tr_toUserId r \<noteq> tr_fromUserId r"
    using wallet_or_create_find [OF c] assms that by simp
  then show ?thesis using assms c
    by (cases "\<not> tr_isExternal r \<and> tr_toUserId r \<noteq> [] \<and> tr_toUserId r \<noteq> tr_fromUserId r")
      (auto simp add: usersToLock_def require_wallet_def)
qed

text \<open>
  C8. A transfer of more than the sender has is refused and leaves no trace: the request fails with
  the insufficient-balance error and the store is the one before, also when the receiver's wallet was
  created on the way.
\<close>

theorem transfer_insufficient_balance:
  assumes "validateCreateTransfer q = Inr r" and "e_others env = (\<lambda>_ s. s)"
    and "find_tx_by_key d (tr_idempotencyKey r) = None"
    and "find_wallet d (tr_fromUserId r) (tr_currency r) = Some w" and "w_status w = WALLET_ACTIVE"
    and "w_balance w < tr_amount r"
  shows "createTransfer env q d = (Inl (BadRequest ''Insufficient balance''), d)"
proof -
  obtain d0 where l: "lockWallets env r (usersToLock env r) d = Inr ((), d0)"
    "find_wallet d0 (tr_fromUserId r) (tr_currency r) = Some w" using lockWallets_ok [OF assms(4)] by blast
  have "persistTransfer env r d = Inl (BadRequest ''Insufficient balance'')"
    using assms(3,5,6) l by (simp add: persistTransfer_def require_wallet_def checkU_def)
  then show ?thesis by (simp add: createTransfer_def handler_defs gap_def assms(1-3))
qed

text \<open>
  Two opposite transfers lock their wallets in the same order, so they cannot wait for each other
  in a circle, provided the collation is a total and antisymmetric order of the two user ids.
\<close>

theorem lock_order_symmetric:
  assumes "e_localeLe env (tr_fromUserId r) (tr_toUserId r) \<or> e_localeLe env (tr_toUserId r) (tr_fromUserId r)"
    and "e_localeLe env (tr_fromUserId r) (tr_toUserId r) \<and> e_localeLe env (tr_toUserId r) (tr_fromUserId r) \<longrightarrow>
      tr_fromUserId r = tr_toUserId r"
    and "tr_fromUserId r \<noteq> []" and "tr_toUserId r \<noteq> []" and "\<not> tr_isExternal r"
    and "tr_fromUserId r \<noteq> tr_toUserId r"
  shows "usersToLock env r = usersToLock env (r\<lparr>tr_fromUserId := tr_toUserId r, tr_toUserId := tr_fromUserId r\<rparr>)"
  using assms by (auto simp add: usersToLock_def)

section \<open>Queries\<close>

text \<open>
  The settlement poller sees the oldest work first and misses nothing: the candidates listed are
  exactly the external transactions with a pending settlement, cut to the limit of at most 500, in the
  order of their creation.
\<close>

theorem settlement_candidates_oldest_first:
  assumes "listSettlementCandidates limit d = ts"
  shows "sorted (map tx_createdAt ts) \<and> length ts \<le> 500 \<and>
    (\<forall>t\<in>set ts. t \<in> set (d_txs d) \<and> tx_isExternal t \<and> tx_settlementStatus t = ST_PENDING) \<and>
    (\<forall>t\<in>set (d_txs d). tx_isExternal t \<and> tx_settlementStatus t = ST_PENDING \<and> t \<notin> set ts \<longrightarrow>
       int (length ts) = max 1 (min limit 500) \<and> (\<forall>t'\<in>set ts. tx_createdAt t' \<le> tx_createdAt t))"
proof -
  let ?all = "sort_key tx_createdAt (filter settlement_candidate (d_txs d))"
  let ?n = "nat (max 1 (min limit 500))"
  have ts: "ts = take ?n ?all" using assms by (simp add: listSettlementCandidates_def)
  have sorted: "sorted (map tx_createdAt (take ?n ?all @ drop ?n ?all))" by simp
  then have ord: "tx_createdAt t' \<le> tx_createdAt t" if "t' \<in> set (take ?n ?all)" "t \<in> set (drop ?n ?all)" for t t'
    using that unfolding map_append sorted_append by auto
  have miss: "t \<in> set (drop ?n ?all)" if "t \<in> set (d_txs d)" "settlement_candidate t" "t \<notin> set ts" for t
  proof -
    have "t \<in> set (take ?n ?all @ drop ?n ?all)" using that(1,2) by simp
    then show ?thesis using that(3) ts by (metis Un_iff set_append)
  qed
  have full: "int (length ts) = max 1 (min limit 500)" if "t \<in> set (drop ?n ?all)" for t
  proof -
    have "drop ?n ?all \<noteq> []" using that by (metis empty_iff list.set(1))
    then have "?n < length ?all" by (metis drop_all not_le)
    then show ?thesis unfolding ts by simp
  qed
  have "sorted (map tx_createdAt ts)" using sorted unfolding ts map_append sorted_append by blast
  moreover have "length ts \<le> 500" unfolding ts by simp
  moreover have "\<forall>t\<in>set ts. t \<in> set (d_txs d) \<and> settlement_candidate t"
    unfolding ts by (auto dest: in_set_takeD)
  moreover have "int (length ts) = max 1 (min limit 500) \<and> (\<forall>t'\<in>set ts. tx_createdAt t' \<le> tx_createdAt t)"
    if "t \<in> set (d_txs d)" "settlement_candidate t" "t \<notin> set ts" for t
    using full [OF miss [OF that]] ord miss [OF that] ts by blast
  ultimately show ?thesis by (simp add: settlement_candidate_def)
qed

section \<open>Witnesses\<close>

text \<open>A user tops up 1000, the deposit settles, and 300 go to another user.\<close>

definition example_source :: funding_source where
  "example_source = \<lparr>fs_id = ''f1'', fs_userId = ''u1'', fs_provider = ''MOMO'', fs_accountRefMasked = ''****1234'',
     fs_accountRefHash = ''h'', fs_providerToken = None, fs_displayName = None, fs_status = FS_ACTIVE, fs_createdAt = 0\<rparr>"

definition example_topup :: topup_req where
  "example_topup = \<lparr>ur_idempotencyKey = ''k1'', ur_userId = ''u1'', ur_fundingSourceId = ''f1'', ur_amount = 1000,
     ur_currency = ''VND'', ur_memo = []\<rparr>"

definition store1 :: db where
  "store1 = snd (projr (persistTopupIntent example_env example_topup example_source empty_db))"

definition store2 :: db where
  "store2 = snd (projr (markSettlement example_env ''u'' (Some ''SETTLED'') None store1))"

definition example_request :: create_transfer_request where
  "example_request = \<lparr>tq_idempotencyKey = Some ''k2'', tq_requestingUserId = Some ''u1'', tq_fromUserId = Some ''u1'',
     tq_toUserId = Some ''u2'', tq_amount = AmtNumber (js_of_int 300), tq_currency = Some ''vnd'', tq_memo = None,
     tq_otpCode = Some ''123456'', tq_isExternal = None, tq_externalPartner = None, tq_externalAccountNo = None\<rparr>"

definition example_transfer :: transfer_req where
  "example_transfer = \<lparr>tr_idempotencyKey = ''k2'', tr_requestingUserId = ''u1'', tr_fromUserId = ''u1'', tr_toUserId = ''u2'',
    tr_amount = 300, tr_currency = ''VND'', tr_memo = [], tr_isExternal = False, tr_externalPartner = None, tr_externalAccountNo = None\<rparr>"

definition store3 :: db where
  "store3 = snd (projr (persistTransfer example_env example_transfer store2))"

lemma unit_result: "\<not> isl (u d) \<Longrightarrow> u d = Inr (fst (projr (u d)), snd (projr (u d)))"
  by (cases "u d") auto

lemma unit_resultI: "\<not> isl r \<Longrightarrow> fst (projr r) = x \<Longrightarrow> snd (projr r) = d' \<Longrightarrow> r = Inr (x, d')"
  by (cases r) auto

lemma example_runs:
  "persistTopupIntent example_env example_topup example_source empty_db =
     Inr (fst (projr (persistTopupIntent example_env example_topup example_source empty_db)), store1)"
  "markSettlement example_env ''u'' (Some ''SETTLED'') None store1 = Inr (True, store2)"
  "persistTransfer example_env example_transfer store2 =
     Inr (fst (projr (persistTransfer example_env example_transfer store2)), store3)"
proof -
  have "\<not> isl (persistTopupIntent example_env example_topup example_source empty_db)" by code_simp
  from unit_result [of "persistTopupIntent example_env example_topup example_source", OF this]
  show "persistTopupIntent example_env example_topup example_source empty_db =
     Inr (fst (projr (persistTopupIntent example_env example_topup example_source empty_db)), store1)"
    by (simp only: store1_def)
  show "markSettlement example_env ''u'' (Some ''SETTLED'') None store1 = Inr (True, store2)"
    by (rule unit_resultI, code_simp, code_simp, simp only: store2_def)
  have "\<not> isl (persistTransfer example_env example_transfer store2)" by code_simp
  from unit_result [of "persistTransfer example_env example_transfer", OF this]
  show "persistTransfer example_env example_transfer store2 =
     Inr (fst (projr (persistTransfer example_env example_transfer store2)), store3)"
    by (simp only: store3_def)
qed

lemma example_valid:
  "valid_topup example_topup" "valid_transfer example_transfer"
  "validateCreateTransfer example_request = Inr example_transfer"
  "balances_safe store1" "balances_safe store2" "balances_safe store3"
  by code_simp+

lemma empty_init: "ledger_init empty_db"
  by (simp add: ledger_init_def empty_db_def)

lemma example_reach: "reach ledger_init safe_step store1" "reach ledger_init safe_step store2" "reach ledger_init safe_step store3"
proof -
  have s1: "safe_step empty_db store1"
    using ledger_step.topup [OF example_valid(1) example_runs(1)] example_valid(4) by (simp add: safe_step_def)
  have s2: "safe_step store1 store2"
    using ledger_step.settle [OF example_runs(2)] example_valid(5) by (simp add: safe_step_def)
  have s3: "safe_step store2 store3"
    using ledger_step.transfer [OF example_valid(2) example_runs(3)] example_valid(6) by (simp add: safe_step_def)
  have "reach ledger_init safe_step empty_db" using empty_init by (rule reach.start)
  then show r1: "reach ledger_init safe_step store1" using s1 by (rule reach.next_state)
  then show r2: "reach ledger_init safe_step store2" using s2 by (rule reach.next_state)
  then show "reach ledger_init safe_step store3" using s3 by (rule reach.next_state)
qed

lemma example_books: "books_ok store1" "books_ok store2" "books_ok store3"
  using example_reach reach_books by (auto simp add: books_ok_def)

lemma example_env_quiet: "e_others example_env = (\<lambda>_ s. s)" "others_step example_env"
  by (simp_all add: example_env_def others_step_def)

lemma example_keys: "tx_keys store2" "tx_keys store3"
  using example_books(2,3) by (auto simp add: books_ok_def ledger_inv_defs tx_keys_def)

theorem books_balance_witness:
  "w_balance (hd (d_wallets store3)) = sum_list (map delta (entries_of store3 (w_id (hd (d_wallets store3))))) \<and>
   w_balance (hd (d_wallets store3)) = 700"
proof -
  have "d_wallets store3 \<noteq> [] \<and> w_balance (hd (d_wallets store3)) = 700" by code_simp
  then show ?thesis using books_balance [OF example_reach(3), of "hd (d_wallets store3)"] by simp
qed



theorem requests_are_steps_witness:
  "ledger_step\<^sup>*\<^sup>* store2 (snd (createTransfer example_env example_request store2))"
  using requests_are_steps [OF example_env_quiet(2) example_keys(1)] by blast

theorem reconcile_finds_nothing_witness:
  "reconcileWallets example_env 500 True store3 =
    (Inr \<lparr>rr_scanned = 2, rr_mismatches = 0, rr_fixed = 0, rr_items = []\<rparr>, store3)"
proof -
  have "length (d_wallets store3) = 2" by code_simp
  then show ?thesis using reconcile_finds_nothing [OF example_reach(3) example_env_quiet(1), of 500 True] by simp
qed

theorem transfer_moves_amount_witness:
  "balance_of store3 ''u1'' ''VND'' = balance_of store2 ''u1'' ''VND'' - 300 \<and>
   balance_of store3 ''u2'' ''VND'' = balance_of store2 ''u2'' ''VND'' + 300"
proof -
  have "find_tx_by_key store2 (tr_idempotencyKey example_transfer) = None" "\<not> tr_isExternal example_transfer" by code_simp+
  moreover obtain t sb rb where "fst (projr (persistTransfer example_env example_transfer store2)) = (t, sb, rb)"
    by (metis prod.exhaust)
  ultimately have "balance_of store3 u c = balance_of store2 u c +
      (if c = ''VND'' then (if u = ''u1'' then - 300 else if u = ''u2'' then 300 else 0) else 0)" for u c
    using transfer_moves_amount [OF example_books(2) example_valid(6,2), of example_env] example_runs(3)
    by (simp add: example_transfer_def)
  then show ?thesis by simp
qed

theorem deposit_credited_once_witness:
  "balance_of store2 ''u1'' ''VND'' = balance_of store1 ''u1'' ''VND'' + 1000 \<and>
   balance_of (snd (projr (markSettlement example_env ''u'' (Some ''FAILED'') None store2))) = balance_of store2"
proof -
  have "\<not> isl (markSettlement example_env ''u'' (Some ''FAILED'') None store2)" by code_simp
  note m = unit_result [of "markSettlement example_env ''u'' (Some ''FAILED'') None", OF this]
  have f: "find_tx store1 ''u'' = Some (last (d_txs store1))" "tx_type (last (d_txs store1)) = DEPOSIT"
    "find_credit store1 ''u'' = None" "coalesce (tx_toUserId (last (d_txs store1))) (tx_requestingUserId (last (d_txs store1))) = ''u1''"
    "tx_currency (last (d_txs store1)) = ''VND''" "tx_amount (last (d_txs store1)) = 1000" by code_simp+
  show ?thesis using deposit_credited_once [OF example_books(1) f(1,2) example_valid(5) example_runs(2) m] f(3-) by simp
qed

definition example_withdrawal :: topup_req where
  "example_withdrawal = example_topup\<lparr>ur_idempotencyKey := ''k3'', ur_amount := 400\<rparr>"

definition store4 :: db where
  "store4 = snd (projr (persistWithdrawalRequest example_env example_withdrawal example_source store2))"

definition withdrawal4 :: transaction where
  "withdrawal4 = fst (fst (projr (persistWithdrawalRequest example_env example_withdrawal example_source store2)))"

definition store5 :: db where
  "store5 = snd (projr (rollbackWithdrawalDebitUsingManager example_env withdrawal4 ''WITHDRAWAL_FAILED'' store4))"

theorem withdrawal_refund_restores_witness:
  "balance_of store5 ''u1'' ''VND'' = balance_of store2 ''u1'' ''VND'' \<and> balance_of store4 ''u1'' ''VND'' = 600"
proof -
  have "find_tx_by_key store2 (ur_idempotencyKey example_withdrawal) = None \<and> valid_topup example_withdrawal \<and>
      balances_safe store4 \<and> balances_safe store5 \<and> balance_of store4 ''u1'' ''VND'' = 600" by code_simp
  then have a: "find_tx_by_key store2 (ur_idempotencyKey example_withdrawal) = None" "valid_topup example_withdrawal"
    "balances_safe store4" "balances_safe store5" "balance_of store4 ''u1'' ''VND'' = 600" by blast+
  have p: "persistWithdrawalRequest example_env example_withdrawal example_source store2 =
      Inr ((withdrawal4, snd (fst (projr (persistWithdrawalRequest example_env example_withdrawal example_source store2)))), store4)"
    by (rule unit_resultI, code_simp) (simp_all only: withdrawal4_def store4_def prod.collapse)
  have r: "rollbackWithdrawalDebitUsingManager example_env withdrawal4 ''WITHDRAWAL_FAILED'' store4 = Inr ((), store5)"
    by (rule unit_resultI, code_simp) (simp_all add: store5_def)
  from withdrawal_refund_restores [OF example_books(2) a(3,4,2,1) p r] a(5) show ?thesis by simp
qed

theorem settlement_without_money_witness:
  "d_wallets (snd (projr (markSettlement example_env ''u'' (Some ''FAILED'') None store2))) = d_wallets store2 \<and>
   map_option tx_status (find_tx (snd (projr (markSettlement example_env ''u'' (Some ''FAILED'') None store2))) ''u'') = Some TX_FAILED"
proof -
  have "\<not> isl (markSettlement example_env ''u'' (Some ''FAILED'') None store2)" by code_simp
  note m = unit_result [of "markSettlement example_env ''u'' (Some ''FAILED'') None", OF this]
  have f: "find_tx store2 ''u'' = Some (last (d_txs store2))" "find_credit store2 ''u'' \<noteq> None"
    "tx_status (settled_to example_env (Some ''FAILED'') None (last (d_txs store2))) = TX_FAILED" by code_simp+
  from settlement_without_money [OF f(1) _ m] f(2,3) show ?thesis by simp
qed

theorem transfer_idempotent_witness:
  "\<exists>resp'. createTransfer example_env example_request (snd (createTransfer example_env example_request store2)) =
       (Inr resp', snd (createTransfer example_env example_request store2)) \<and>
     rs_transactionId resp' = rs_transactionId (projr (fst (createTransfer example_env example_request store2)))"
proof -
  have "\<not> isl (fst (createTransfer example_env example_request store2))" by code_simp
  then have "createTransfer example_env example_request store2 =
      (Inr (projr (fst (createTransfer example_env example_request store2))), snd (createTransfer example_env example_request store2))"
    by (simp add: prod_eq_iff)
  from transfer_idempotent [OF example_env_quiet(2) example_keys(1) this rtranclp.rtrancl_refl, of example_env]
  show ?thesis by (simp add: example_env_quiet(1))
qed

theorem transfer_insufficient_balance_witness:
  "createTransfer example_env (example_request\<lparr>tq_amount := AmtNumber (js_of_int 5000)\<rparr>) store2 =
     (Inl (BadRequest ''Insufficient balance''), store2)"
proof -
  have a: "validateCreateTransfer (example_request\<lparr>tq_amount := AmtNumber (js_of_int 5000)\<rparr>) =
      Inr (example_transfer\<lparr>tr_amount := 5000\<rparr>)"
    "find_tx_by_key store2 (tr_idempotencyKey (example_transfer\<lparr>tr_amount := 5000\<rparr>)) = None"
    "find_wallet store2 (tr_fromUserId (example_transfer\<lparr>tr_amount := 5000\<rparr>)) (tr_currency (example_transfer\<lparr>tr_amount := 5000\<rparr>)) =
       Some (hd (d_wallets store2))"
    "w_status (hd (d_wallets store2)) = WALLET_ACTIVE"
    "w_balance (hd (d_wallets store2)) < tr_amount (example_transfer\<lparr>tr_amount := 5000\<rparr>)" by code_simp+
  show ?thesis by (rule transfer_insufficient_balance [OF a(1) example_env_quiet(1) a(2-5)])
qed

theorem lock_order_symmetric_witness:
  "usersToLock (example_env\<lparr>e_localeLe := (\<lambda>a b. a \<le> b)\<rparr>) example_transfer = [''u1'', ''u2''] \<and>
   usersToLock (example_env\<lparr>e_localeLe := (\<lambda>a b. a \<le> b)\<rparr>) (example_transfer\<lparr>tr_fromUserId := ''u2'', tr_toUserId := ''u1''\<rparr>) = [''u1'', ''u2'']"
proof -
  have "usersToLock (example_env\<lparr>e_localeLe := (\<lambda>a b. a \<le> b)\<rparr>) example_transfer = [''u1'', ''u2'']" by code_simp
  then show ?thesis
    using lock_order_symmetric [of "example_env\<lparr>e_localeLe := (\<lambda>a b. a \<le> b)\<rparr>" example_transfer]
    by (simp add: example_transfer_def linear)
qed

theorem settlement_candidates_witness:
  "sorted (map tx_createdAt (listSettlementCandidates 10 store1)) \<and> length (listSettlementCandidates 10 store1) = 1"
proof -
  have "length (listSettlementCandidates 10 store1) = 1" by code_simp
  then show ?thesis using settlement_candidates_oldest_first [of 10 store1, OF refl] by blast
qed

end
