(* ===== verification/JS_Text.thy ===== *)
theory JS_Text
  imports JS_Json "HOL-Library.Multiset"
begin

text \<open>
  Values as text: \<open>String(x)\<close> and template literals, \<open>JSON.stringify\<close>, \<open>encodeURIComponent\<close>
  and the form encoding of URLSearchParams, for strings of code units up to 255.
\<close>

section \<open>Numbers as text\<close>

text \<open>
  The digits of a positive double: the shortest decimal that reads back as the same double, and the
  nearest of that length. \<open>dec_exp x\<close> is the e with 10^(e-1) <= x < 10^e.
\<close>

function dec_up :: "nat \<Rightarrow> rat \<Rightarrow> int" where
  "dec_up n x = (if n = 0 \<or> x < 1 then 0 else 1 + dec_up (n - 1) (x / 10))"
  by pat_completeness auto
termination
  by (relation "measure fst") auto

function dec_down :: "nat \<Rightarrow> rat \<Rightarrow> int" where
  "dec_down n x = (if n = 0 \<or> 1 \<le> x * 10 then 0 else dec_down (n - 1) (x * 10) - 1)"
  by pat_completeness auto
termination
  by (relation "measure fst") auto

declare dec_up.simps [simp del] dec_down.simps [simp del]

definition dec_exp :: "rat \<Rightarrow> int" where
  "dec_exp x = (if 1 \<le> x then dec_up 400 x else dec_down 400 x)"

definition pow10 :: "int \<Rightarrow> rat" where
  "pow10 e = (if 0 \<le> e then 10 ^ nat e else 1 / 10 ^ nat (- e))"

definition round_rat :: "rat \<Rightarrow> int" where
  "round_rat x = \<lfloor>x + 1 / 2\<rfloor>"

fun shortest :: "rat \<Rightarrow> int \<Rightarrow> nat list \<Rightarrow> int \<times> nat" where
  "shortest x e [] = (round_rat (x * pow10 (17 - e)), 17)"
| "shortest x e (n # ns) =
     (let s = round_rat (x * pow10 (int n - e))
      in if to_double (of_int s * pow10 (e - int n)) = JsNum x then (s, n) else shortest x e ns)"

definition positive_text :: "rat \<Rightarrow> string" where
  "positive_text x =
     (let (s, k) = shortest x (dec_exp x) [1..<17]; n = dec_exp x; ds = nat_digits (nat s)
      in if int k \<le> n \<and> n \<le> 21 then ds @ replicate (nat n - k) (CHR ''0'')
         else if 0 < n \<and> n \<le> 21 then take (nat n) ds @ ''.'' @ drop (nat n) ds
         else if - 6 < n \<and> n \<le> 0 then ''0.'' @ replicate (nat (- n)) (CHR ''0'') @ ds
         else (if k = 1 then ds else take 1 ds @ ''.'' @ drop 1 ds) @ ''e'' @
              (if 0 < n then ''+'' @ nat_digits (nat (n - 1)) else ''-'' @ nat_digits (nat (1 - n))))"

definition number_text :: "js_number \<Rightarrow> string" where
  "number_text v =
     (case v of JsNaN \<Rightarrow> ''NaN''
      | JsInf pos \<Rightarrow> if pos then ''Infinity'' else ''-Infinity''
      | JsNum x \<Rightarrow>
          if x = 0 then ''0''
          else if of_int \<lfloor>x\<rfloor> = x \<and> \<bar>x\<bar> \<le> 2 ^ 53 then int_digits \<lfloor>x\<rfloor>
          else if 0 < x then positive_text x else ''-'' @ positive_text (- x))"

section \<open>JSON.stringify\<close>

definition hex_digit :: "nat \<Rightarrow> char" where
  "hex_digit n = (if n < 10 then char_of (48 + n) else char_of (87 + n))"

definition escape_char :: "char \<Rightarrow> string" where
  "escape_char c =
     (let n = code_unit c; bs = char_of (92::nat)
      in if n = 34 \<or> n = 92 then [bs, c]
         else if n = 8 then [bs, CHR ''b''] else if n = 9 then [bs, CHR ''t''] else if n = 10 then [bs, CHR ''n'']
         else if n = 12 then [bs, CHR ''f''] else if n = 13 then [bs, CHR ''r'']
         else if n < 32 then [bs, CHR ''u'', CHR ''0'', CHR ''0'', hex_digit (n div 16), hex_digit (n mod 16)]
         else [c])"

definition quote_string :: "string \<Rightarrow> string" where
  "quote_string s = [char_of (34::nat)] @ concat (map escape_char s) @ [char_of (34::nat)]"

fun json_text :: "json \<Rightarrow> string"
  and json_texts :: "json list \<Rightarrow> string list"
  and json_fields :: "(string \<times> json) list \<Rightarrow> string list"
where
  "json_text JNull = ''null''"
| "json_text (JBool b) = (if b then ''true'' else ''false'')"
| "json_text (JNumber n) = (if js_isFinite n then number_text n else ''null'')"
| "json_text (JString s) = quote_string s"
| "json_text (JArray vs) = ''['' @ js_join '','' (json_texts vs) @ '']''"
| "json_text (JObject kvs) = ''{'' @ js_join '','' (json_fields kvs) @ ''}''"
| "json_texts [] = []"
| "json_texts (v # vs) = json_text v # json_texts vs"
| "json_fields [] = []"
| "json_fields (kv # kvs) = (quote_string (fst kv) @ '':'' @ json_text (snd kv)) # json_fields kvs"

text \<open>\<open>String(x)\<close>: the elements of an array are joined by commas, null as the empty text.\<close>

fun js_string :: "json \<Rightarrow> string"
  and js_strings :: "json list \<Rightarrow> string list"
where
  "js_string JNull = ''null''"
| "js_string (JBool b) = (if b then ''true'' else ''false'')"
| "js_string (JNumber n) = number_text n"
| "js_string (JString s) = s"
| "js_string (JArray vs) = js_join '','' (js_strings vs)"
| "js_string (JObject kvs) = ''[object Object]''"
| "js_strings [] = []"
| "js_strings (v # vs) = (if v = JNull then [] else js_string v) # js_strings vs"

text \<open>\<open>Number(x)\<close>: objects other than arrays read as NaN.\<close>

definition json_Number :: "json \<Rightarrow> js_number" where
  "json_Number v =
     (case v of JNull \<Rightarrow> js_of_int 0 | JBool b \<Rightarrow> js_of_int (if b then 1 else 0) | JNumber n \<Rightarrow> n
      | JString s \<Rightarrow> js_Number s | JArray vs \<Rightarrow> js_Number (js_string v) | JObject _ \<Rightarrow> JsNaN)"

section \<open>Objects that may hold undefined\<close>

text \<open>The payload of a request: a property whose value is undefined is None.\<close>

type_synonym js_object = "(string \<times> json option) list"

definition set_prop :: "string \<Rightarrow> json option \<Rightarrow> js_object \<Rightarrow> js_object" where
  "set_prop k v kvs =
     (if k \<in> set (map fst kvs) then map (\<lambda>(k', v'). (k', if k' = k then v else v')) kvs else kvs @ [(k, v)])"

definition spread :: "(string \<times> json) list \<Rightarrow> js_object \<Rightarrow> js_object" where
  "spread kvs obj = fold (\<lambda>(k, v). set_prop k (Some v)) kvs obj"

definition get_prop :: "string \<Rightarrow> js_object \<Rightarrow> json option" where
  "get_prop k obj = (case map_of obj k of None \<Rightarrow> None | Some v \<Rightarrow> v)"

definition defined_props :: "js_object \<Rightarrow> (string \<times> json) list" where
  "defined_props obj = map (\<lambda>(k, v). (k, the v)) (filter (\<lambda>(k, v). v \<noteq> None) obj)"

definition object_text :: "js_object \<Rightarrow> string" where
  "object_text obj = json_text (JObject (defined_props obj))"

section \<open>Dates as text\<close>

definition pad :: "nat \<Rightarrow> int \<Rightarrow> string" where
  "pad n x = replicate (n - length (nat_digits (nat x))) (CHR ''0'') @ nat_digits (nat x)"

text \<open>Year, month and day of a number of days since 1970-01-01 (proleptic Gregorian calendar).\<close>

definition civil_from_days :: "int \<Rightarrow> int \<times> int \<times> int" where
  "civil_from_days days =
     (let z = days + 719468; era = z div 146097; doe = z mod 146097;
          yoe = (doe - doe div 1460 + doe div 36524 - doe div 146096) div 365;
          doy = doe - (365 * yoe + yoe div 4 - yoe div 100);
          mp = (5 * doy + 2) div 153;
          m = (if mp < 10 then mp + 3 else mp - 9)
      in (yoe + era * 400 + (if m \<le> 2 then 1 else 0), m, doy - (153 * mp + 2) div 5 + 1))"

text \<open>\<open>new Date(ms).toISOString()\<close> for the years 0 to 9999.\<close>

definition toISOString :: "int \<Rightarrow> string" where
  "toISOString ms =
     (let (y, m, d) = civil_from_days (ms div 86400000); t = ms mod 86400000
      in pad 4 y @ ''-'' @ pad 2 m @ ''-'' @ pad 2 d @ ''T'' @ pad 2 (t div 3600000) @ '':'' @
         pad 2 (t div 60000 mod 60) @ '':'' @ pad 2 (t div 1000 mod 60) @ ''.'' @ pad 3 (t mod 1000) @ ''Z'')"

section \<open>Percent encoding\<close>

definition upper_hex :: "nat \<Rightarrow> char" where
  "upper_hex n = (if n < 10 then char_of (48 + n) else char_of (55 + n))"

definition percent :: "nat \<Rightarrow> string" where
  "percent b = ''%'' @ [upper_hex (b div 16), upper_hex (b mod 16)]"

text \<open>The UTF-8 bytes of a code unit up to 255.\<close>

definition utf8 :: "nat \<Rightarrow> nat list" where
  "utf8 n = (if n < 128 then [n] else [192 + n div 64, 128 + n mod 64])"

definition alnum :: "char \<Rightarrow> bool" where
  "alnum c = (let n = code_unit c in (48 \<le> n \<and> n \<le> 57) \<or> (65 \<le> n \<and> n \<le> 90) \<or> (97 \<le> n \<and> n \<le> 122))"

definition encodeURIComponent :: "string \<Rightarrow> string" where
  "encodeURIComponent s =
     concat (map (\<lambda>c. if alnum c \<or> c \<in> set ''-_.!~*'' \<or> code_unit c \<in> {39, 40, 41} then [c]
                      else concat (map percent (utf8 (code_unit c)))) s)"

definition form_encode :: "string \<Rightarrow> string" where
  "form_encode s =
     concat (map (\<lambda>c. if alnum c \<or> c \<in> set ''*-._'' then [c] else if c = CHR '' '' then ''+''
                      else concat (map percent (utf8 (code_unit c)))) s)"

section \<open>Text operations\<close>

text \<open>\<open>s.replaceAll(p, r)\<close> for a non-empty pattern.\<close>

function replaceAll :: "string \<Rightarrow> string \<Rightarrow> string \<Rightarrow> string" where
  "replaceAll p r s =
     (if s = [] \<or> p = [] then s
      else if take (length p) s = p then r @ replaceAll p r (drop (length p) s)
      else hd s # replaceAll p r (tl s))"
  by pat_completeness auto
termination
  by (relation "measure (\<lambda>(p, r, s). length s)") (auto simp add: Suc_le_eq)

declare replaceAll.simps [simp del]

lemma get_set_prop: "get_prop j (set_prop k v obj) = (if j = k then v else get_prop j obj)"
proof (cases "k \<in> set (map fst obj)")
  case True
  then have "map_of (map (\<lambda>(k', v'). (k', if k' = k then v else v')) obj) j =
      (if j = k then Some v else map_of obj j)"
  proof (induction obj)
    case (Cons p obj)
    then show ?case by (cases p; cases "k \<in> set (map fst obj)"; cases "j = k") (auto simp add: map_of_replace)
  qed simp
  with True show ?thesis by (simp add: set_prop_def get_prop_def)
next
  case False
  then have "map_of obj k = None" by (simp add: map_of_eq_None_iff)
  with False show ?thesis by (auto simp add: set_prop_def get_prop_def map_add_def split: option.split)
qed

section \<open>Sorting by a comparison\<close>

fun insert_by :: "('a \<Rightarrow> 'a \<Rightarrow> bool) \<Rightarrow> 'a \<Rightarrow> 'a list \<Rightarrow> 'a list" where
  "insert_by le x [] = [x]"
| "insert_by le x (y # ys) = (if le x y then x # y # ys else y # insert_by le x ys)"

definition sort_by :: "('a \<Rightarrow> 'a \<Rightarrow> bool) \<Rightarrow> 'a list \<Rightarrow> 'a list" where
  "sort_by le xs = foldr (insert_by le) xs []"

lemma set_insert_by [simp]: "set (insert_by le x xs) = insert x (set xs)"
  by (induction xs) auto

lemma set_sort_by [simp]: "set (sort_by le xs) = set xs"
  by (induction xs) (simp_all add: sort_by_def)

definition total_order :: "('a \<Rightarrow> 'a \<Rightarrow> bool) \<Rightarrow> bool" where
  "total_order le \<longleftrightarrow> (\<forall>x y. le x y \<or> le y x) \<and> (\<forall>x y. le x y \<and> le y x \<longrightarrow> x = y) \<and>
     (\<forall>x y z. le x y \<and> le y z \<longrightarrow> le x z)"

lemma insert_by_commute:
  assumes "total_order le"
  shows "insert_by le x (insert_by le y zs) = insert_by le y (insert_by le x zs)"
proof (cases "x = y")
  case False
  have trans: "le a b \<Longrightarrow> le b c \<Longrightarrow> le a c" for a b c
    using assms unfolding total_order_def by blast
  have anti: "le x y \<longleftrightarrow> \<not> le y x" using assms False unfolding total_order_def by blast
  show ?thesis
  proof (induction zs)
    case Nil
    then show ?case by (simp add: anti)
  next
    case (Cons z zs)
    consider "le x y" "\<not> le y x" | "le y x" "\<not> le x y" using anti by blast
    then show ?case
    proof cases
      case 1
      then show ?thesis using Cons trans [of x y z] by auto
    next
      case 2
      then show ?thesis using Cons trans [of y x z] by auto
    qed
  qed
qed simp

lemma sort_by_perm:
  assumes "total_order le" and "mset xs = mset ys"
  shows "sort_by le xs = sort_by le ys"
proof -
  have "fold (insert_by le) (rev xs) = fold (insert_by le) (rev ys)"
    by (rule fold_multiset_equiv) (use assms insert_by_commute in \<open>auto simp add: fun_eq_iff\<close>)
  then show ?thesis by (simp add: sort_by_def foldr_conv_fold)
qed

end
