(* ===== verification/Tx_Grpc.thy ===== *)
theory Tx_Grpc
  imports Tx_Chain Tx_Service JS_Text
begin

text \<open>
  The gRPC face of the transaction service
  (\<^verbatim>\<open>transaction-service/src/transactions/transactions.grpc.controller.ts\<close>): the errors of
  the service become gRPC statuses, entities become messages, and an absent or zero number takes its
  default. The updatedAt fields are left out, as in the tables.
\<close>

section \<open>Errors\<close>

datatype grpc_code = INVALID_ARGUMENT | UNKNOWN

record rpc_error =
  re_code :: grpc_code
  re_message :: string

definition grpc_error :: "svc_error \<Rightarrow> rpc_error" where
  "grpc_error e =
     (case e of
        BadRequest m \<Rightarrow> \<lparr>re_code = INVALID_ARGUMENT, re_message = or_str (Some m) ''Bad request''\<rparr>
      | QueryFailed m \<Rightarrow> \<lparr>re_code = UNKNOWN, re_message = or_str (Some m) ''Internal server error''\<rparr>)"

definition wrapGrpc :: "'a db_handler \<Rightarrow> (db, rpc_error, 'a) handler" where
  "wrapGrpc h d = (case h d of (Inl e, d') \<Rightarrow> (Inl (grpc_error e), d') | (Inr x, d') \<Rightarrow> (Inr x, d'))"

definition mapH :: "('a \<Rightarrow> 'b) \<Rightarrow> ('s, 'e, 'a) handler \<Rightarrow> ('s, 'e, 'b) handler" where
  "mapH f h = bindH h (\<lambda>x. returnH (f x))"

section \<open>Messages\<close>

definition type_text :: "transaction_type \<Rightarrow> string" where
  "type_text t = (case t of TRANSFER \<Rightarrow> ''TRANSFER'' | DEPOSIT \<Rightarrow> ''DEPOSIT'' | WITHDRAWAL \<Rightarrow> ''WITHDRAWAL'')"

definition status_text :: "transaction_status \<Rightarrow> string" where
  "status_text s =
     (case s of TX_PENDING \<Rightarrow> ''PENDING'' | TX_COMPLETED \<Rightarrow> ''COMPLETED'' | TX_FAILED \<Rightarrow> ''FAILED'' | TX_BLOCKED \<Rightarrow> ''BLOCKED'')"

definition settlement_text :: "settlement_status \<Rightarrow> string" where
  "settlement_text s =
     (case s of ST_NONE \<Rightarrow> ''NONE'' | ST_PENDING \<Rightarrow> ''PENDING'' | ST_SETTLED \<Rightarrow> ''SETTLED'' | ST_FAILED \<Rightarrow> ''FAILED'')"

definition chain_text :: "chain_status \<Rightarrow> string" where
  "chain_text s = (case s of CH_PENDING \<Rightarrow> ''PENDING'' | CH_ANCHORED \<Rightarrow> ''ANCHORED'' | CH_FAILED \<Rightarrow> ''FAILED'')"

definition wallet_status_text :: "wallet_status \<Rightarrow> string" where
  "wallet_status_text s = (case s of WALLET_ACTIVE \<Rightarrow> ''ACTIVE'' | WALLET_FROZEN \<Rightarrow> ''FROZEN'')"

record wallet_view =
  wv_walletId :: string
  wv_userId :: string
  wv_currency :: string
  wv_balance :: int
  wv_status :: string

definition wallet_view_of :: "wallet \<Rightarrow> wallet_view" where
  "wallet_view_of w =
     \<lparr>wv_walletId = w_id w, wv_userId = w_userId w, wv_currency = w_currency w, wv_balance = w_balance w,
      wv_status = wallet_status_text (w_status w)\<rparr>"

record funding_source_view =
  fv_fundingSourceId :: string
  fv_userId :: string
  fv_provider :: string
  fv_accountRefMasked :: string
  fv_status :: string
  fv_displayName :: string
  fv_createdAt :: string

definition funding_source_view_of :: "funding_source \<Rightarrow> funding_source_view" where
  "funding_source_view_of s =
     \<lparr>fv_fundingSourceId = fs_id s, fv_userId = fs_userId s, fv_provider = fs_provider s,
      fv_accountRefMasked = fs_accountRefMasked s,
      fv_status = (case fs_status s of FS_ACTIVE \<Rightarrow> ''ACTIVE'' | FS_INACTIVE \<Rightarrow> ''INACTIVE''),
      fv_displayName = coalesce (fs_displayName s) [], fv_createdAt = toISOString (fs_createdAt s)\<rparr>"

record transaction_view =
  tv_transactionId :: string
  tv_idempotencyKey :: string
  tv_type :: string
  tv_status :: string
  tv_settlementStatus :: string
  tv_chainStatus :: string
  tv_fromUserId :: string
  tv_toUserId :: string
  tv_amount :: int
  tv_currency :: string
  tv_memo :: string
  tv_isExternal :: bool
  tv_externalPartner :: string
  tv_externalAccountNo :: string
  tv_externalRef :: string
  tv_chainTxId :: string
  tv_receiptJson :: string
  tv_errorCode :: string
  tv_errorMessage :: string
  tv_createdAt :: string

definition transaction_view_of :: "transaction \<Rightarrow> transaction_view" where
  "transaction_view_of t =
     \<lparr>tv_transactionId = tx_id t, tv_idempotencyKey = tx_idempotencyKey t, tv_type = type_text (tx_type t),
      tv_status = status_text (tx_status t), tv_settlementStatus = settlement_text (tx_settlementStatus t),
      tv_chainStatus = chain_text (tx_chainStatus t), tv_fromUserId = tx_fromUserId t,
      tv_toUserId = coalesce (tx_toUserId t) [], tv_amount = tx_amount t, tv_currency = tx_currency t,
      tv_memo = coalesce (tx_memo t) [], tv_isExternal = tx_isExternal t,
      tv_externalPartner = coalesce (tx_externalPartner t) [],
      tv_externalAccountNo = coalesce (tx_externalAccountNo t) [], tv_externalRef = coalesce (tx_externalRef t) [],
      tv_chainTxId = coalesce (tx_chainTxId t) [], tv_receiptJson = coalesce (tx_receiptJson t) [],
      tv_errorCode = coalesce (tx_errorCode t) [], tv_errorMessage = coalesce (tx_errorMessage t) [],
      tv_createdAt = toISOString (tx_createdAt t)\<rparr>"

text \<open>The items of ListSettlementCandidates.\<close>

record settlement_item =
  si_transactionId :: string
  si_type :: string
  si_status :: string
  si_settlementStatus :: string
  si_fromUserId :: string
  si_toUserId :: string
  si_amount :: int
  si_currency :: string
  si_isExternal :: bool
  si_externalPartner :: string
  si_externalAccountNo :: string
  si_externalRef :: string
  si_createdAt :: string

definition settlement_item_of :: "transaction \<Rightarrow> settlement_item" where
  "settlement_item_of t =
     \<lparr>si_transactionId = tx_id t, si_type = type_text (tx_type t), si_status = status_text (tx_status t),
      si_settlementStatus = settlement_text (tx_settlementStatus t), si_fromUserId = tx_fromUserId t,
      si_toUserId = coalesce (tx_toUserId t) [], si_amount = tx_amount t, si_currency = tx_currency t,
      si_isExternal = tx_isExternal t, si_externalPartner = coalesce (tx_externalPartner t) [],
      si_externalAccountNo = coalesce (tx_externalAccountNo t) [], si_externalRef = coalesce (tx_externalRef t) [],
      si_createdAt = toISOString (tx_createdAt t)\<rparr>"

section \<open>Methods\<close>

text \<open>\<open>x || d\<close> on a number that may be absent.\<close>

definition or_int :: "int option \<Rightarrow> int \<Rightarrow> int" where
  "or_int x d = (case x of None \<Rightarrow> d | Some n \<Rightarrow> if n = 0 then d else n)"

definition rpc_createTransfer :: "svc_env \<Rightarrow> create_transfer_request \<Rightarrow> (db, rpc_error, transfer_response) handler" where
  "rpc_createTransfer env q = wrapGrpc (createTransfer env q)"

definition rpc_createFundingSource ::
    "svc_env \<Rightarrow> create_funding_source_request \<Rightarrow> (db, rpc_error, funding_source_view) handler" where
  "rpc_createFundingSource env q = mapH funding_source_view_of (wrapGrpc (createFundingSource env q))"

definition rpc_listFundingSources :: "string option \<Rightarrow> (db, rpc_error, funding_source_view list) handler" where
  "rpc_listFundingSources userId =
     mapH (map funding_source_view_of) (wrapGrpc (\<lambda>d. (listFundingSources userId d, d)))"

definition rpc_createTopupIntent :: "svc_env \<Rightarrow> create_topup_request \<Rightarrow> (db, rpc_error, transfer_response) handler" where
  "rpc_createTopupIntent env q = wrapGrpc (createTopupIntent env q)"

definition rpc_createWithdrawalRequest ::
    "svc_env \<Rightarrow> create_withdrawal_request \<Rightarrow> (db, rpc_error, transfer_response) handler" where
  "rpc_createWithdrawalRequest env q = wrapGrpc (createWithdrawalRequest env q)"

text \<open>None is the answer with status NOT_FOUND.\<close>

definition rpc_getTransaction :: "svc_env \<Rightarrow> string \<Rightarrow> (db, rpc_error, transaction_view option) handler" where
  "rpc_getTransaction env transactionId d =
     (case getTransaction env transactionId d of (tx, d') \<Rightarrow> (Inr (map_option transaction_view_of tx), d'))"

text \<open>The currency of a wallet request defaults before it is normalised.\<close>

definition rpc_createWallet :: "svc_env \<Rightarrow> string \<Rightarrow> string option \<Rightarrow> (db, rpc_error, wallet_view) handler" where
  "rpc_createWallet env userId currency =
     mapH wallet_view_of (wrapGrpc (createWallet env userId (Some (or_str currency ''VND''))))"

definition rpc_getWallet :: "string \<Rightarrow> string option \<Rightarrow> (db, rpc_error, wallet_view) handler" where
  "rpc_getWallet userId currency =
     mapH (\<lambda>found. case found of Some w \<Rightarrow> wallet_view_of w
            | None \<Rightarrow> \<lparr>wv_walletId = [], wv_userId = userId, wv_currency = or_str currency ''VND'', wv_balance = 0,
                       wv_status = ''NOT_FOUND''\<rparr>)
       (wrapGrpc (\<lambda>d. (getWallet userId (Some (or_str currency ''VND'')) d, d)))"

definition rpc_listUserTransactions ::
    "(bool \<Rightarrow> bool \<Rightarrow> bool \<Rightarrow> bool) \<Rightarrow> string \<Rightarrow> int option \<Rightarrow> int option \<Rightarrow> bool option \<Rightarrow>
     (db, rpc_error, transaction_view list) handler" where
  "rpc_listUserTransactions where_and userId limit offset includeFailed =
     readH (\<lambda>d. map transaction_view_of
       (listUserTransactions where_and userId (or_int limit 30) (or_int offset 0) (coalesce includeFailed False) d))"

definition rpc_listSettlementCandidates :: "int option \<Rightarrow> (db, rpc_error, settlement_item list) handler" where
  "rpc_listSettlementCandidates limit =
     readH (\<lambda>d. map settlement_item_of (listSettlementCandidates (or_int limit 100) d))"

definition rpc_markSettlement ::
    "svc_env \<Rightarrow> string \<Rightarrow> string option \<Rightarrow> string option \<Rightarrow> (db, rpc_error, bool) handler" where
  "rpc_markSettlement env transactionId settlementStatus note =
     wrapGrpc (atomic (markSettlement env transactionId settlementStatus note))"

text \<open>The items of the answer leave out the opening balance and the ledger sum.\<close>

definition rpc_reconcileWallets :: "svc_env \<Rightarrow> int option \<Rightarrow> bool option \<Rightarrow> (db, rpc_error, reconcile_report) handler" where
  "rpc_reconcileWallets env limit autoFix =
     wrapGrpc (reconcileWallets env (or_int limit 500) (coalesce autoFix False))"

section \<open>Facts\<close>

lemma wrapGrpc_state [simp]: "snd (wrapGrpc h d) = snd (h d)"
  by (simp add: wrapGrpc_def split: prod.split sum.split)

lemma mapH_state [simp]: "snd (mapH f h d) = snd (h d)"
  by (simp add: mapH_def bindH_def returnH_def split: prod.split sum.split)

text \<open>No error of the service is lost, and a refused request is told apart from a failure inside.\<close>

lemma wrapGrpc_error:
  "fst (wrapGrpc h d) = Inl r \<longleftrightarrow> (\<exists>e. fst (h d) = Inl e \<and> r = grpc_error e)"
  by (auto simp add: wrapGrpc_def split: prod.splits sum.splits)

lemma grpc_error_code: "re_code (grpc_error e) = INVALID_ARGUMENT \<longleftrightarrow> (\<exists>m. e = BadRequest m)"
  by (cases e) (simp_all add: grpc_error_def)

end
