(* ===== verification/Partner_Config.thy ===== *)
theory Partner_Config
  imports JS_Text
begin

text \<open>
  The partner configuration of the outside-payment service
  (\<^verbatim>\<open>outside-payment-service/src/transfers/transfers.service.ts\<close>): partner codes,
  defaults per partner, parsers of the configured lists, and the runtime configuration read from the
  environment. A field that the source types as a union of literals is a datatype.
\<close>

section \<open>Types\<close>

datatype request_style = MOMO | BANK | VNPAY | ZALOPAY | GENERIC

datatype signature_mode =
    LEGACY_HEADER_SHA256
  | HEADER_CANONICAL
  | VNPAY_QUERY_SHA512
  | ZALOPAY_MAC_SHA256
  | PAYLOAD_FIELDS_HMAC

datatype hash_algorithm = SHA256 | SHA512

record field_mapping =
  fm_initiateStatusPaths :: "string list"
  fm_initiateReferencePaths :: "string list"
  fm_initiateMessagePaths :: "string list"
  fm_checkStatusPaths :: "string list"
  fm_checkMessagePaths :: "string list"
  fm_failedTokens :: "string list"
  fm_successTokens :: "string list"
  fm_pendingTokens :: "string list"

record partner_config =
  pc_partnerCode :: string
  pc_baseUrl :: string
  pc_initiatePath :: string
  pc_statusPath :: string
  pc_statusGet :: bool
  pc_requestStyle :: request_style
  pc_timeoutMs :: js_number
  pc_apiKey :: string
  pc_apiSecret :: string
  pc_clientId :: string
  pc_merchantId :: string
  pc_bearerToken :: string
  pc_apiKeyHeader :: string
  pc_clientIdHeader :: string
  pc_merchantIdHeader :: string
  pc_signatureHeader :: string
  pc_signatureMode :: signature_mode
  pc_signatureAlgorithm :: hash_algorithm
  pc_signaturePayloadField :: string
  pc_signatureFields :: "string list"
  pc_signatureJoiner :: string
  pc_extraHeaders :: "(string \<times> string) list"
  pc_initiateStaticFields :: "(string \<times> json) list"
  pc_checkStaticFields :: "(string \<times> json) list"
  pc_mapping :: field_mapping

section \<open>Partner codes\<close>

definition normalizeKnownPartnerCode :: "string option \<Rightarrow> string" where
  "normalizeKnownPartnerCode partnerCodeRaw =
     (let raw = js_upper (js_trim (or_str partnerCodeRaw []))
      in if raw = [] then ''BANK_DEFAULT''
         else if raw \<in> {''MOMO'', ''MOMO_WALLET''} then ''MOMO''
         else if raw \<in> {''VNPAY'', ''VN_PAY'', ''VNP''} then ''VNPAY''
         else if raw \<in> {''ZALOPAY'', ''ZALO_PAY'', ''ZLP''} then ''ZALOPAY''
         else if raw \<in> {''TECHCOMBANK'', ''TECHCOM'', ''TCB''} then ''TECHCOMBANK''
         else if raw \<in> {''VIETCOMBANK'', ''VIETCOM'', ''VCB''} then ''VIETCOMBANK''
         else raw)"

definition partnerPrefixByCode :: "string \<Rightarrow> string option" where
  "partnerPrefixByCode partnerCode =
     (if partnerCode \<in> {''MOMO'', ''VNPAY'', ''ZALOPAY'', ''TECHCOMBANK'', ''VIETCOMBANK''} then Some partnerCode else None)"

section \<open>Defaults per partner\<close>

definition defaultRequestStyleFor :: "string \<Rightarrow> request_style" where
  "defaultRequestStyleFor partnerCode =
     (if partnerCode = ''MOMO'' then MOMO else if partnerCode = ''VNPAY'' then VNPAY
      else if partnerCode = ''ZALOPAY'' then ZALOPAY
      else if partnerCode = ''TECHCOMBANK'' \<or> partnerCode = ''VIETCOMBANK'' then BANK else GENERIC)"

definition resolveRequestStyle :: "string \<Rightarrow> request_style \<Rightarrow> request_style" where
  "resolveRequestStyle raw fallback =
     (let normalized = js_upper (js_trim raw)
      in if normalized = ''MOMO'' then MOMO else if normalized = ''BANK'' then BANK
         else if normalized = ''VNPAY'' then VNPAY else if normalized = ''ZALOPAY'' then ZALOPAY
         else if normalized = ''GENERIC'' then GENERIC else fallback)"

definition defaultSignatureModeFor :: "string \<Rightarrow> signature_mode" where
  "defaultSignatureModeFor partnerCode =
     (if partnerCode = ''VNPAY'' then VNPAY_QUERY_SHA512
      else if partnerCode = ''ZALOPAY'' then ZALOPAY_MAC_SHA256 else LEGACY_HEADER_SHA256)"

definition resolveSignatureMode :: "string \<Rightarrow> signature_mode \<Rightarrow> signature_mode" where
  "resolveSignatureMode raw fallback =
     (let normalized = js_upper (js_trim raw)
      in if normalized = ''LEGACY_HEADER_SHA256'' then LEGACY_HEADER_SHA256
         else if normalized = ''HEADER_CANONICAL'' then HEADER_CANONICAL
         else if normalized = ''VNPAY_QUERY_SHA512'' then VNPAY_QUERY_SHA512
         else if normalized = ''ZALOPAY_MAC_SHA256'' then ZALOPAY_MAC_SHA256
         else if normalized = ''PAYLOAD_FIELDS_HMAC'' then PAYLOAD_FIELDS_HMAC else fallback)"

definition defaultSignatureAlgorithmFor :: "signature_mode \<Rightarrow> hash_algorithm" where
  "defaultSignatureAlgorithmFor mode = (if mode = VNPAY_QUERY_SHA512 then SHA512 else SHA256)"

definition resolveSignatureAlgorithm :: "string \<Rightarrow> hash_algorithm \<Rightarrow> hash_algorithm" where
  "resolveSignatureAlgorithm raw fallback =
     (let normalized = js_lower (js_trim raw)
      in if normalized = ''sha256'' then SHA256 else if normalized = ''sha512'' then SHA512 else fallback)"

definition defaultSignaturePayloadFieldFor :: "string \<Rightarrow> string" where
  "defaultSignaturePayloadFieldFor partnerCode =
     (if partnerCode = ''VNPAY'' then ''vnp_SecureHash'' else if partnerCode = ''ZALOPAY'' then ''mac'' else ''signature'')"

definition defaultSignatureFieldsFor :: "string \<Rightarrow> string list" where
  "defaultSignatureFieldsFor partnerCode =
     (if partnerCode = ''ZALOPAY''
      then [''app_id'', ''app_trans_id'', ''app_user'', ''amount'', ''app_time'', ''embed_data'', ''item''] else [])"

definition defaultSignatureJoinerFor :: "string \<Rightarrow> string" where
  "defaultSignatureJoinerFor partnerCode = (if partnerCode = ''ZALOPAY'' then ''|'' else ''.'')"

definition status_paths :: "string list" where
  "status_paths =
     [''status'', ''state'', ''transactionStatus'', ''resultStatus'', ''resultCode'', ''code'',
      ''data.status'', ''data.state'', ''data.transactionStatus'', ''data.resultStatus'', ''data.resultCode'', ''data.code'']"

definition message_paths :: "string list" where
  "message_paths =
     [''partnerMessage'', ''message'', ''msg'', ''description'', ''errorDesc'', ''errorMessage'',
      ''data.partnerMessage'', ''data.message'', ''data.msg'', ''data.description'', ''data.errorDesc'', ''data.errorMessage'']"

definition base_mapping :: field_mapping where
  "base_mapping =
     \<lparr>fm_initiateStatusPaths = status_paths,
      fm_initiateReferencePaths =
        [''partnerRef'', ''reference'', ''ref'', ''transId'', ''transactionId'', ''orderId'', ''requestId'',
         ''data.partnerRef'', ''data.reference'', ''data.ref'', ''data.transId'', ''data.transactionId'', ''data.orderId''],
      fm_initiateMessagePaths = message_paths,
      fm_checkStatusPaths = status_paths,
      fm_checkMessagePaths = message_paths,
      fm_failedTokens =
        [''FAIL'', ''FAILED'', ''ERROR'', ''REJECT'', ''CANCEL'', ''DENY'', ''DECLINED'',
         ''400'', ''401'', ''403'', ''404'', ''429'', ''500''],
      fm_successTokens = [''SUCCESS'', ''SUCCEEDED'', ''SETTLED'', ''COMPLETED'', ''DONE''],
      fm_pendingTokens = [''PENDING'', ''PROCESSING'', ''SUBMITTED'', ''QUEUED'', ''ACCEPTED'']\<rparr>"

text \<open>The base mapping with a partner's own paths and tokens appended.\<close>

definition extend_mapping ::
    "string list \<Rightarrow> string list \<Rightarrow> string list \<Rightarrow> string list \<Rightarrow> string list \<Rightarrow> field_mapping" where
  "extend_mapping initiateStatus checkStatus reference success pending =
     base_mapping\<lparr>fm_initiateStatusPaths := status_paths @ initiateStatus,
       fm_checkStatusPaths := status_paths @ checkStatus,
       fm_initiateReferencePaths := fm_initiateReferencePaths base_mapping @ reference,
       fm_successTokens := fm_successTokens base_mapping @ success,
       fm_pendingTokens := fm_pendingTokens base_mapping @ pending\<rparr>"

definition defaultFieldMappingFor :: "string \<Rightarrow> field_mapping" where
  "defaultFieldMappingFor partnerCode =
     (if partnerCode = ''MOMO'' then
        extend_mapping [''resultCode'', ''data.resultCode'', ''transStatus'', ''data.transStatus'']
          [''resultCode'', ''data.resultCode'', ''transStatus'', ''data.transStatus'']
          [''transId'', ''data.transId'', ''orderId'', ''data.orderId''] [''0'', ''00''] [''1'']
      else if partnerCode = ''TECHCOMBANK'' \<or> partnerCode = ''VIETCOMBANK'' then
        extend_mapping [''responseCode'', ''data.responseCode'', ''transactionState'', ''data.transactionState'']
          [''responseCode'', ''data.responseCode'', ''transactionState'', ''data.transactionState'']
          [] [''0'', ''00'', ''200'', ''APPROVED''] [''102'', ''202'']
      else if partnerCode = ''VNPAY'' then
        extend_mapping
          [''vnp_ResponseCode'', ''vnp_TransactionStatus'', ''data.vnp_ResponseCode'', ''data.vnp_TransactionStatus'']
          [''vnp_ResponseCode'', ''vnp_TransactionStatus'', ''data.vnp_ResponseCode'', ''data.vnp_TransactionStatus'']
          [''vnp_TransactionNo'', ''vnp_TxnRef'', ''data.vnp_TransactionNo'', ''data.vnp_TxnRef''] [''00''] [''09'']
      else if partnerCode = ''ZALOPAY'' then
        extend_mapping [''return_code'', ''sub_return_code'', ''data.return_code'', ''data.sub_return_code'']
          [''return_code'', ''is_processing'', ''data.return_code'', ''data.is_processing'']
          [''zp_trans_token'', ''zp_trans_id'', ''app_trans_id'', ''data.zp_trans_token'', ''data.zp_trans_id''] [''1''] [''2'']
      else base_mapping)"

section \<open>Parsers of configured values\<close>

definition isPlainObject :: "json \<Rightarrow> bool" where
  "isPlainObject v = (case v of JObject _ \<Rightarrow> True | _ \<Rightarrow> False)"

definition parseStringList :: "string \<Rightarrow> string list \<Rightarrow> string list" where
  "parseStringList raw fallback =
     (let text = js_trim raw
      in if text = [] then fallback
         else let values = filter (\<lambda>s. s \<noteq> []) (map js_trim (js_split (CHR '','') text))
              in if values \<noteq> [] then values else fallback)"

definition parseTokenList :: "string \<Rightarrow> string list \<Rightarrow> string list" where
  "parseTokenList raw fallback = map js_upper (parseStringList raw fallback)"

definition set_header :: "string \<Rightarrow> string \<Rightarrow> (string \<times> string) list \<Rightarrow> (string \<times> string) list" where
  "set_header k v hs =
     (if k \<in> set (map fst hs) then map (\<lambda>(k', v'). (k', if k' = k then v else v')) hs else hs @ [(k, v)])"

definition parse_header_pair :: "string \<Rightarrow> (string \<times> string) list \<Rightarrow> (string \<times> string) list" where
  "parse_header_pair item result =
     (let pair = js_trim item;
          before_eq = takeWhile (\<lambda>c. c \<noteq> CHR ''='') pair;
          key = js_trim before_eq;
          val = js_trim (drop (Suc (length before_eq)) pair)
      in if pair = [] \<or> length before_eq = length pair \<or> before_eq = [] then result
         else if key \<noteq> [] \<and> val \<noteq> [] then set_header key val result else result)"

definition parseHeaderPairs :: "string \<Rightarrow> (string \<times> string) list" where
  "parseHeaderPairs raw =
     (let text = js_trim raw
      in if text = [] then [] else fold parse_header_pair (js_split (CHR '';'') text) [])"

definition parseJsonObject :: "string \<Rightarrow> (string \<times> json) list" where
  "parseJsonObject raw =
     (let text = js_trim raw
      in if text = [] then []
         else case json_parse text of Some (JObject kvs) \<Rightarrow> kvs | _ \<Rightarrow> [])"

section \<open>The runtime configuration\<close>

definition resolve_mapping :: "(string \<Rightarrow> string) \<Rightarrow> field_mapping \<Rightarrow> field_mapping" where
  "resolve_mapping get m =
     \<lparr>fm_initiateStatusPaths = parseStringList (get ''_INITIATE_STATUS_PATHS'') (fm_initiateStatusPaths m),
      fm_initiateReferencePaths = parseStringList (get ''_INITIATE_REFERENCE_PATHS'') (fm_initiateReferencePaths m),
      fm_initiateMessagePaths = parseStringList (get ''_INITIATE_MESSAGE_PATHS'') (fm_initiateMessagePaths m),
      fm_checkStatusPaths = parseStringList (get ''_CHECK_STATUS_PATHS'') (fm_checkStatusPaths m),
      fm_checkMessagePaths = parseStringList (get ''_CHECK_MESSAGE_PATHS'') (fm_checkMessagePaths m),
      fm_failedTokens = parseTokenList (get ''_FAILED_TOKENS'') (fm_failedTokens m),
      fm_successTokens = parseTokenList (get ''_SUCCESS_TOKENS'') (fm_successTokens m),
      fm_pendingTokens = parseTokenList (get ''_PENDING_TOKENS'') (fm_pendingTokens m)\<rparr>"

definition resolvePartnerRuntimeConfig :: "(string \<Rightarrow> string option) \<Rightarrow> string \<Rightarrow> partner_config option" where
  "resolvePartnerRuntimeConfig cfg partnerCode =
     (case partnerPrefixByCode partnerCode of None \<Rightarrow> None
      | Some prefix \<Rightarrow>
          let get = (\<lambda>name. or_str (cfg (prefix @ name)) []);
              get_or = (\<lambda>name d. js_trim (or_str (cfg (prefix @ name)) d));
              enabled = (js_lower (coalesce (cfg (prefix @ ''_ENABLED'')) ''true'') = ''true'');
              baseUrl = js_trim (get ''_API_BASE_URL'');
              initiatePath = get_or ''_INITIATE_PATH'' ''/transfers'';
              timeoutMsRaw = (case cfg (prefix @ ''_TIMEOUT_MS'') of
                                None \<Rightarrow> js_of_int 8000 | Some s \<Rightarrow> if s = [] then js_of_int 8000 else js_Number s);
              mode = resolveSignatureMode (get ''_SIGNATURE_MODE'') (defaultSignatureModeFor partnerCode)
          in if \<not> enabled \<or> baseUrl = [] \<or> initiatePath = [] then None
             else Some
               \<lparr>pc_partnerCode = partnerCode, pc_baseUrl = baseUrl, pc_initiatePath = initiatePath,
                pc_statusPath = get_or ''_STATUS_PATH'' ''/transfers/status'',
                pc_statusGet = (js_upper (get_or ''_STATUS_METHOD'' ''POST'') = ''GET''),
                pc_requestStyle = resolveRequestStyle (get ''_REQUEST_STYLE'') (defaultRequestStyleFor partnerCode),
                pc_timeoutMs = (if js_isFinite timeoutMsRaw \<and> js_gt timeoutMsRaw (js_of_int 0) then timeoutMsRaw else js_of_int 8000),
                pc_apiKey = js_trim (get ''_API_KEY''), pc_apiSecret = js_trim (get ''_API_SECRET''),
                pc_clientId = js_trim (get ''_CLIENT_ID''), pc_merchantId = js_trim (get ''_MERCHANT_ID''),
                pc_bearerToken = js_trim (get ''_BEARER_TOKEN''),
                pc_apiKeyHeader = get_or ''_API_KEY_HEADER'' ''X-API-Key'',
                pc_clientIdHeader = get_or ''_CLIENT_ID_HEADER'' ''X-Client-Id'',
                pc_merchantIdHeader = get_or ''_MERCHANT_ID_HEADER'' ''X-Merchant-Id'',
                pc_signatureHeader = get_or ''_SIGNATURE_HEADER'' ''X-Signature'',
                pc_signatureMode = mode,
                pc_signatureAlgorithm =
                  resolveSignatureAlgorithm (get ''_SIGNATURE_ALGORITHM'') (defaultSignatureAlgorithmFor mode),
                pc_signaturePayloadField = get_or ''_SIGNATURE_PAYLOAD_FIELD'' (defaultSignaturePayloadFieldFor partnerCode),
                pc_signatureFields = parseStringList (get ''_SIGNATURE_FIELDS'') (defaultSignatureFieldsFor partnerCode),
                pc_signatureJoiner = get_or ''_SIGNATURE_JOINER'' (defaultSignatureJoinerFor partnerCode),
                pc_extraHeaders = parseHeaderPairs (get ''_EXTRA_HEADERS''),
                pc_initiateStaticFields = parseJsonObject (get ''_INITIATE_STATIC_FIELDS_JSON''),
                pc_checkStaticFields = parseJsonObject (get ''_CHECK_STATIC_FIELDS_JSON''),
                pc_mapping = resolve_mapping get (defaultFieldMappingFor partnerCode)\<rparr>)"

end
