(* ===== verification/Partner_Api.thy ===== *)
theory Partner_Api
  imports Partner_Config
begin

text \<open>
  The conversation of the outside-payment service with a partner
  (\<^verbatim>\<open>outside-payment-service/src/transfers/transfers.service.ts\<close>): the payloads of a request
  in each partner's style, the signature, the HTTP call, and the reading of the reply. The HTTP client,
  the HMAC of Node's crypto, the clock, the random numbers and the collation behind \<open>localeCompare\<close>
  are parameters, held in \<open>partner_env\<close>. Objects keep their keys in the order of insertion and have
  no inherited properties.
\<close>

section \<open>Types\<close>

datatype external_transfer_status = EX_SUBMITTED | EX_SETTLED | EX_FAILED

datatype external_transfer_type = ET_WITHDRAWAL | ET_TOPUP

record external_transfer =
  et_id :: string
  et_transactionId :: string
  et_partnerCode :: string
  et_accountNo :: string
  et_transferType :: external_transfer_type
  et_amount :: int
  et_currency :: string
  et_partnerRef :: string
  et_status :: external_transfer_status
  et_partnerMessage :: "string option"
  et_createdAt :: int

text \<open>The request \<open>{...data, partnerCode, amount}\<close>: protobuf leaves an empty string undefined.\<close>

record initiate_data =
  id_transactionId :: "string option"
  id_partnerCode :: string
  id_accountNo :: "string option"
  id_amount :: js_number
  id_currency :: "string option"
  id_note :: "string option"
  id_transferType :: "string option"

record http_request =
  hr_url :: string
  hr_method :: string
  hr_headers :: "(string \<times> string) list"
  hr_body :: "string option"
  hr_timeoutMs :: js_number

text \<open>
  The HTTP client fails with a message or answers with a status and a text. The n-th random number
  and the n-th random uuid that a request draws are \<open>x_random n\<close> and \<open>x_uuid4 n\<close>.
\<close>

record partner_env =
  x_cfg :: "string \<Rightarrow> string option"
  x_now :: int
  x_random :: "nat \<Rightarrow> rat"
  x_uuid4 :: "nat \<Rightarrow> string"
  x_hmac :: "hash_algorithm \<Rightarrow> string \<Rightarrow> string \<Rightarrow> string"
  x_localeLe :: "string \<Rightarrow> string \<Rightarrow> bool"
  x_fetch :: "http_request \<Rightarrow> string + (int \<times> string)"

record partner_reply =
  rp_httpStatus :: int
  rp_ok :: bool
  rp_payload :: json

section \<open>Small parsers\<close>

definition parseTransferType :: "string option \<Rightarrow> external_transfer_type" where
  "parseTransferType raw = (if js_upper (js_trim (coalesce raw [])) = ''TOPUP'' then ET_TOPUP else ET_WITHDRAWAL)"

definition transfer_type_text :: "external_transfer_type \<Rightarrow> string" where
  "transfer_type_text t = (case t of ET_WITHDRAWAL \<Rightarrow> ''WITHDRAWAL'' | ET_TOPUP \<Rightarrow> ''TOPUP'')"

definition external_status_text :: "external_transfer_status \<Rightarrow> string" where
  "external_status_text s =
     (case s of EX_SUBMITTED \<Rightarrow> ''SUBMITTED'' | EX_SETTLED \<Rightarrow> ''SETTLED'' | EX_FAILED \<Rightarrow> ''FAILED'')"

text \<open>\<open>parseAmount\<close>: an int64 object is a Long, whose toNumber reads the high half by its signedness.\<close>

definition parseAmount :: "raw_amount \<Rightarrow> js_number" where
  "parseAmount raw =
     (case raw of AmtNumber v \<Rightarrow> v
      | AmtString s \<Rightarrow> js_Number s
      | AmtInt64 l \<Rightarrow>
          js_of_int (js_add ((if unsigned l then uint (high l) else sint (high l)) * 4294967296) (uint (low l)))
      | AmtUndefined \<Rightarrow> JsNaN)"

definition normalizeJsonField :: "json option \<Rightarrow> string \<Rightarrow> string" where
  "normalizeJsonField v fallback =
     (case v of None \<Rightarrow> fallback
      | Some JNull \<Rightarrow> fallback
      | Some (JString s) \<Rightarrow> or_str (Some (js_trim s)) fallback
      | Some w \<Rightarrow> json_text w)"

text \<open>\<open>x || y\<close> for a value x that may be undefined.\<close>

definition or_json :: "json option \<Rightarrow> json \<Rightarrow> json" where
  "or_json v d = (case v of None \<Rightarrow> d | Some w \<Rightarrow> if truthy w then w else d)"

section \<open>Payload builders\<close>

definition request_currency :: "initiate_data \<Rightarrow> json option" where
  "request_currency data = Some (JString (js_upper (or_str (id_currency data) ''VND'')))"

definition request_type :: "initiate_data \<Rightarrow> json option" where
  "request_type data = Some (JString (transfer_type_text (parseTransferType (id_transferType data))))"

definition request_note :: "initiate_data \<Rightarrow> json option" where
  "request_note data = Some (JString (or_str (id_note data) (''Transfer '' @ coalesce (id_transactionId data) ''undefined'')))"

definition zalopay_app_id :: "json option \<Rightarrow> partner_config \<Rightarrow> json option" where
  "zalopay_app_id static_id config =
     map_option JString (or_null (js_trim (js_string
       (or_json static_id (JString (or_str (Some (pc_clientId config)) (pc_merchantId config)))))))"

definition buildInitiatePayload :: "'z partner_env_scheme \<Rightarrow> partner_config \<Rightarrow> initiate_data \<Rightarrow> js_object" where
  "buildInitiatePayload env config data =
     (let requestId = Some (JString (x_uuid4 env 0));
          requestTime = Some (JString (toISOString (x_now env)));
          static = pc_initiateStaticFields config;
          transactionId = map_option JString (id_transactionId data);
          accountNo = map_option JString (id_accountNo data);
          amount = Some (JNumber (id_amount data))
      in spread static
        (case pc_requestStyle config of
           MOMO \<Rightarrow>
             [(''requestId'', requestId), (''orderId'', transactionId),
              (''partnerCode'', Some (JString (or_str (Some (pc_clientId config))
                 (or_str (Some (pc_merchantId config)) (id_partnerCode data))))),
              (''amount'', amount), (''orderInfo'', request_note data), (''extraData'', Some (JString [])),
              (''lang'', Some (JString ''vi'')), (''accountNo'', accountNo), (''currency'', request_currency data),
              (''transferType'', request_type data)]
         | BANK \<Rightarrow>
             [(''requestId'', requestId), (''requestTime'', requestTime), (''transactionId'', transactionId),
              (''referenceId'', transactionId), (''accountNo'', accountNo), (''amount'', amount),
              (''currency'', request_currency data), (''description'', Some (JString (or_str (id_note data) []))),
              (''transferType'', request_type data)]
         | VNPAY \<Rightarrow>
             [(''vnp_TxnRef'', transactionId), (''vnp_OrderInfo'', request_note data),
              (''vnp_Amount'', Some (JNumber (case id_amount data of JsNum x \<Rightarrow> to_double (x * 100) | v \<Rightarrow> v))),
              (''vnp_CurrCode'', request_currency data), (''vnp_IpAddr'', Some (JString ''127.0.0.1'')),
              (''transferType'', request_type data)]
         | ZALOPAY \<Rightarrow>
             let appTime = json_Number (or_json (map_of static ''app_time'') (JNumber (js_of_int (x_now env))))
             in [(''app_id'', zalopay_app_id (map_of static ''app_id'') config), (''app_trans_id'', transactionId),
                 (''app_user'', Some (JString (or_str (Some (js_trim (js_string
                    (or_json (map_of static ''app_user'') (JString (or_str (id_accountNo data) [])))))) ''kufi-user''))),
                 (''app_time'', Some (JNumber (if js_isFinite appTime then appTime else js_of_int (x_now env)))),
                 (''amount'', amount),
                 (''item'', Some (JString (normalizeJsonField (map_of static ''item'') ''[]''))),
                 (''embed_data'', Some (JString (normalizeJsonField (map_of static ''embed_data'') ''{}''))),
                 (''currency'', request_currency data), (''description'', request_note data),
                 (''transferType'', request_type data)]
         | GENERIC \<Rightarrow>
             [(''transactionId'', transactionId), (''partnerCode'', Some (JString (id_partnerCode data))),
              (''accountNo'', accountNo), (''amount'', amount), (''currency'', request_currency data),
              (''transferType'', request_type data), (''note'', Some (JString (or_str (id_note data) []))),
              (''requestId'', requestId), (''requestTime'', requestTime)]))"

definition buildCheckPayload :: "'z partner_env_scheme \<Rightarrow> partner_config \<Rightarrow> external_transfer \<Rightarrow> js_object" where
  "buildCheckPayload env config transfer =
     (let requestId = Some (JString (x_uuid4 env 0));
          requestTime = Some (JString (toISOString (x_now env)));
          static = pc_checkStaticFields config;
          transactionId = Some (JString (et_transactionId transfer));
          partnerRef = Some (JString (et_partnerRef transfer))
      in spread static
        (case pc_requestStyle config of
           MOMO \<Rightarrow> [(''requestId'', requestId), (''orderId'', transactionId), (''partnerRef'', partnerRef)]
         | BANK \<Rightarrow>
             [(''requestId'', requestId), (''requestTime'', requestTime), (''transactionId'', transactionId),
              (''referenceId'', partnerRef), (''partnerRef'', partnerRef)]
         | VNPAY \<Rightarrow> [(''vnp_TxnRef'', transactionId), (''vnp_TransactionNo'', partnerRef)]
         | ZALOPAY \<Rightarrow>
             let static_id = (case map_of static ''app_id'' of
                                Some w \<Rightarrow> if truthy w then Some w else map_of (pc_initiateStaticFields config) ''app_id''
                              | None \<Rightarrow> map_of (pc_initiateStaticFields config) ''app_id'')
             in [(''app_id'', zalopay_app_id static_id config), (''app_trans_id'', transactionId), (''zp_trans_id'', partnerRef)]
         | GENERIC \<Rightarrow>
             [(''partnerCode'', Some (JString (pc_partnerCode config))), (''partnerRef'', partnerRef),
              (''transactionId'', transactionId), (''requestId'', requestId), (''requestTime'', requestTime)]))"

section \<open>Signatures\<close>

definition present :: "json option \<Rightarrow> bool" where
  "present v = (case v of None \<Rightarrow> False | Some w \<Rightarrow> w \<noteq> JNull)"

definition vnpay_keys :: "js_object \<Rightarrow> string list" where
  "vnpay_keys payload =
     filter (\<lambda>k. k \<noteq> ''vnp_SecureHash'' \<and> k \<noteq> ''vnp_SecureHashType'' \<and> present (get_prop k payload)) (map fst payload)"

definition buildVnpayCanonical :: "(string \<Rightarrow> string \<Rightarrow> bool) \<Rightarrow> js_object \<Rightarrow> string" where
  "buildVnpayCanonical le payload =
     js_join ''&''
       (map (\<lambda>k. encodeURIComponent k @ ''='' @ encodeURIComponent (js_string (the (get_prop k payload))))
          (sort_by le (vnpay_keys payload)))"

definition normalizeCanonicalValue :: "json option \<Rightarrow> string" where
  "normalizeCanonicalValue v =
     (case v of None \<Rightarrow> [] | Some JNull \<Rightarrow> [] | Some (JString s) \<Rightarrow> s
      | Some (JNumber n) \<Rightarrow> number_text n | Some (JBool b) \<Rightarrow> (if b then ''true'' else ''false'')
      | Some w \<Rightarrow> json_text w)"

definition buildCanonicalFromFields :: "js_object \<Rightarrow> string list \<Rightarrow> string \<Rightarrow> string" where
  "buildCanonicalFromFields payload fieldNames joinerRaw =
     (let list = filter (\<lambda>f. f \<noteq> [] \<and> js_trim f \<noteq> []) fieldNames
      in if list = [] then []
         else js_join (or_str (Some joinerRaw) ''|'') (map (\<lambda>f. normalizeCanonicalValue (get_prop f payload)) list))"

definition applySignature ::
    "'z partner_env_scheme \<Rightarrow> partner_config \<Rightarrow> string \<Rightarrow> string \<Rightarrow> string \<Rightarrow> string \<Rightarrow>
     js_object \<times> (string \<times> string) list \<Rightarrow> js_object \<times> (string \<times> string) list" where
  "applySignature env config reqMethod path timestamp nonce args =
     (let (payload, headers) = args; hmac = x_hmac env;
          from_fields = buildCanonicalFromFields payload (pc_signatureFields config) (pc_signatureJoiner config)
      in if pc_apiSecret config = [] then args
         else case pc_signatureMode config of
           VNPAY_QUERY_SHA512 \<Rightarrow>
             let canonical = buildVnpayCanonical (x_localeLe env) payload
             in if canonical = [] then args
                else (set_prop (or_str (Some (pc_signaturePayloadField config)) ''vnp_SecureHash'')
                        (Some (JString (hmac SHA512 (pc_apiSecret config) canonical)))
                        (set_prop ''vnp_SecureHashType'' (Some (JString ''HmacSHA512'')) payload), headers)
         | HEADER_CANONICAL \<Rightarrow>
             let canonical = (if from_fields \<noteq> [] then from_fields
                              else js_upper reqMethod @ ''.'' @ path @ ''.'' @ object_text payload)
             in (payload, set_header (pc_signatureHeader config)
                            (hmac (pc_signatureAlgorithm config) (pc_apiSecret config) canonical) headers)
         | LEGACY_HEADER_SHA256 \<Rightarrow>
             (payload, set_header (pc_signatureHeader config)
                         (hmac SHA256 (pc_apiSecret config) (timestamp @ ''.'' @ nonce @ ''.'' @ object_text payload)) headers)
         | _ \<Rightarrow>
             if from_fields = [] then args
             else (set_prop (or_str (Some (pc_signaturePayloadField config)) ''mac'')
                     (Some (JString (hmac (pc_signatureAlgorithm config) (pc_apiSecret config) from_fields))) payload, headers))"

section \<open>The HTTP call\<close>

definition placeholder :: "string \<Rightarrow> string" where
  "placeholder k = ''{'' @ k @ ''}''"

definition interpolate_entry :: "string \<times> json option \<Rightarrow> string \<Rightarrow> string" where
  "interpolate_entry kv result =
     (if \<not> present (snd kv) \<or> \<not> js_includes result (placeholder (fst kv)) then result
      else replaceAll (placeholder (fst kv)) (encodeURIComponent (js_string (the (snd kv)))) result)"

definition interpolatePath :: "string \<Rightarrow> js_object \<Rightarrow> string" where
  "interpolatePath path payload = fold interpolate_entry payload path"

definition safeParseJson :: "string \<Rightarrow> json" where
  "safeParseJson rawText =
     (let trimmed = js_trim rawText
      in if trimmed = [] then JObject []
         else case json_parse trimmed of
           Some parsed \<Rightarrow> if isPlainObject parsed then parsed else JObject [(''value'', parsed)]
         | None \<Rightarrow> JObject [(''raw'', JString trimmed)])"

definition query_string :: "string \<Rightarrow> js_object \<Rightarrow> string" where
  "query_string normalizedPath payload =
     js_join ''&''
       (map (\<lambda>(k, v). form_encode k @ ''='' @ form_encode (js_string (the v)))
          (filter (\<lambda>(k, v). present v \<and> \<not> js_includes normalizedPath (placeholder k)) payload))"

definition set_if :: "string \<Rightarrow> string \<Rightarrow> (string \<times> string) list \<Rightarrow> (string \<times> string) list" where
  "set_if k v hs = (if v \<noteq> [] then set_header k v hs else hs)"

definition partner_request :: "'z partner_env_scheme \<Rightarrow> partner_config \<Rightarrow> string \<Rightarrow> string \<Rightarrow> js_object \<Rightarrow> http_request" where
  "partner_request env config path reqMethod payload =
     (let baseUrl = (if pc_baseUrl config \<noteq> [] \<and> last (pc_baseUrl config) = CHR ''/''
                     then butlast (pc_baseUrl config) else pc_baseUrl config);
          normalizedPath = (if js_startsWith path ''/'' then path else ''/'' @ path);
          timestamp = int_digits (x_now env);
          nonce = x_uuid4 env 1;
          headers0 = fold (\<lambda>(k, v). set_header k v) (pc_extraHeaders config)
            [(''Content-Type'', ''application/json''), (''X-Timestamp'', timestamp), (''X-Nonce'', nonce)];
          (requestPayload, headers1) = applySignature env config reqMethod normalizedPath timestamp nonce (payload, headers0);
          headers2 = set_if (pc_apiKeyHeader config) (pc_apiKey config) headers1;
          headers3 = set_if (pc_clientIdHeader config) (pc_clientId config) headers2;
          headers4 = set_if (pc_merchantIdHeader config) (pc_merchantId config) headers3;
          headers = (if pc_bearerToken config \<noteq> []
                     then set_header ''Authorization'' (''Bearer '' @ pc_bearerToken config) headers4 else headers4);
          url = baseUrl @ interpolatePath normalizedPath requestPayload;
          query = query_string normalizedPath requestPayload
      in \<lparr>hr_url = (if reqMethod = ''GET'' \<and> query \<noteq> [] then url @ ''?'' @ query else url),
          hr_method = reqMethod, hr_headers = headers,
          hr_body = (if reqMethod = ''GET'' then None else Some (object_text requestPayload)),
          hr_timeoutMs = pc_timeoutMs config\<rparr>)"

definition callPartnerApi ::
    "'z partner_env_scheme \<Rightarrow> partner_config \<Rightarrow> string \<Rightarrow> string \<Rightarrow> js_object \<Rightarrow> string + partner_reply" where
  "callPartnerApi env config path reqMethod payload =
     (case x_fetch env (partner_request env config path reqMethod payload) of
        Inl message \<Rightarrow> Inl message
      | Inr (st, rawText) \<Rightarrow>
          Inr \<lparr>rp_httpStatus = st, rp_ok = (200 \<le> st \<and> st \<le> 299), rp_payload = safeParseJson rawText\<rparr>)"

section \<open>Reading the reply\<close>

fun read_segments :: "string list \<Rightarrow> json option \<Rightarrow> json option" where
  "read_segments [] cursor = cursor"
| "read_segments (s # ss) cursor =
     (case cursor of Some (JObject kvs) \<Rightarrow> read_segments ss (map_of kvs s) | _ \<Rightarrow> None)"

definition readPath :: "json \<Rightarrow> string \<Rightarrow> json option" where
  "readPath obj path =
     (let segments = filter (\<lambda>s. s \<noteq> []) (map js_trim (js_split (CHR ''.'') path))
      in if segments = [] then None else read_segments segments (Some obj))"

fun findByKeyDeep :: "string \<Rightarrow> json \<Rightarrow> json option"
  and find_in_values :: "string \<Rightarrow> (string \<times> json) list \<Rightarrow> json option"
where
  "findByKeyDeep key (JObject kvs) = (case map_of kvs key of Some v \<Rightarrow> Some v | None \<Rightarrow> find_in_values key kvs)"
| "findByKeyDeep key JNull = None"
| "findByKeyDeep key (JBool b) = None"
| "findByKeyDeep key (JNumber n) = None"
| "findByKeyDeep key (JString s) = None"
| "findByKeyDeep key (JArray vs) = None"
| "find_in_values key [] = None"
| "find_in_values key (kv # kvs) =
     (let found = findByKeyDeep key (snd kv) in if present found then found else find_in_values key kvs)"

fun first_text :: "(string \<Rightarrow> json option) \<Rightarrow> string list \<Rightarrow> string" where
  "first_text look [] = []"
| "first_text look (path # paths) =
     (let v = look path; text = js_trim (js_string (the v))
      in if present v \<and> text \<noteq> [] then text else first_text look paths)"

definition pickString :: "json \<Rightarrow> string list \<Rightarrow> string" where
  "pickString payload paths =
     (let text = first_text (readPath payload) paths
      in if text \<noteq> [] then text
         else first_text (\<lambda>p. findByKeyDeep p payload) (filter (\<lambda>p. \<not> js_includes p ''.'') paths))"

fun matchesAnyToken :: "string \<Rightarrow> string list \<Rightarrow> bool" where
  "matchesAnyToken v [] = False"
| "matchesAnyToken v (token # tokens) =
     (let normalizedToken = js_upper (js_trim token)
      in if normalizedToken \<noteq> [] \<and> (v = normalizedToken \<or> js_includes v normalizedToken) then True
         else matchesAnyToken v tokens)"

definition extractStatus ::
    "json \<Rightarrow> bool \<Rightarrow> bool \<Rightarrow> string list \<Rightarrow> field_mapping \<Rightarrow> external_transfer_status" where
  "extractStatus payload initiating isHttpOk statusPaths mapping =
     (let raw = js_upper (pickString payload statusPaths)
      in if raw = [] then (if isHttpOk then EX_SUBMITTED else EX_FAILED)
         else if matchesAnyToken raw (fm_failedTokens mapping) then EX_FAILED
         else if matchesAnyToken raw (fm_successTokens mapping) then (if initiating then EX_SUBMITTED else EX_SETTLED)
         else if matchesAnyToken raw (fm_pendingTokens mapping) then EX_SUBMITTED
         else if isHttpOk then EX_SUBMITTED else EX_FAILED)"

section \<open>Submitting and checking\<close>

definition getErrorMessage :: "string \<Rightarrow> string" where
  "getErrorMessage message = or_str (Some message) ''unknown_error''"

definition initiateViaPartner ::
    "'z partner_env_scheme \<Rightarrow> partner_config \<Rightarrow> initiate_data \<Rightarrow> external_transfer_status \<times> string \<times> string" where
  "initiateViaPartner env config data =
     (let code = pc_partnerCode config; stamp = code @ ''-'' @ int_digits (x_now env) @ ''-''
      in case callPartnerApi env config (pc_initiatePath config) ''POST'' (buildInitiatePayload env config data) of
           Inl message \<Rightarrow> (EX_FAILED, stamp @ ''ERROR'', or_str (Some (getErrorMessage message)) ''Partner service unavailable'')
         | Inr response \<Rightarrow>
             let mapping = pc_mapping config; payload = rp_payload response;
                 extractedStatus = extractStatus payload True (rp_ok response) (fm_initiateStatusPaths mapping) mapping;
                 extractedRef = pickString payload (fm_initiateReferencePaths mapping);
                 extractedMessage = pickString payload (fm_initiateMessagePaths mapping)
             in if extractedStatus = EX_FAILED \<or> (\<not> rp_ok response \<and> 400 \<le> rp_httpStatus response)
                then (EX_FAILED, or_str (Some extractedRef) (stamp @ ''FAILED''),
                      or_str (Some extractedMessage) (''Partner '' @ code @ '' rejected transfer''))
                else (extractedStatus, or_str (Some extractedRef) (stamp @ x_uuid4 env 2),
                      or_str (Some extractedMessage)
                        (''Partner '' @ code @ '' accepted '' @
                         js_lower (transfer_type_text (parseTransferType (id_transferType data))) @ '' request'')))"

definition checkViaPartner ::
    "'z partner_env_scheme \<Rightarrow> partner_config \<Rightarrow> external_transfer \<Rightarrow> (external_transfer_status \<times> string) option" where
  "checkViaPartner env config transfer =
     (case callPartnerApi env config (pc_statusPath config) (if pc_statusGet config then ''GET'' else ''POST'')
             (buildCheckPayload env config transfer) of
        Inl message \<Rightarrow> None
      | Inr response \<Rightarrow>
          let mapping = pc_mapping config;
              extractedStatus = extractStatus (rp_payload response) False (rp_ok response) (fm_checkStatusPaths mapping) mapping;
              extractedMessage = pickString (rp_payload response) (fm_checkMessagePaths mapping)
          in if \<not> rp_ok response \<and> 500 \<le> rp_httpStatus response then None
             else Some (extractedStatus, or_str (Some extractedMessage)
                    (''Partner '' @ pc_partnerCode config @ '' status: '' @ external_status_text extractedStatus)))"

section \<open>Signatures can be checked by the receiver\<close>

lemma set_prop_keys:
  "map fst (set_prop k v obj) = (if k \<in> set (map fst obj) then map fst obj else map fst obj @ [k])"
  by (simp add: set_prop_def case_prod_unfold comp_def)

lemma vnpay_keys_set_prop:
  "k \<in> {''vnp_SecureHash'', ''vnp_SecureHashType''} \<Longrightarrow> vnpay_keys (set_prop k v obj) = vnpay_keys obj"
  unfolding vnpay_keys_def set_prop_keys
  by (auto simp add: get_set_prop intro!: filter_cong)

lemma vnpay_canonical_set_prop:
  assumes "k \<in> {''vnp_SecureHash'', ''vnp_SecureHashType''}"
  shows "buildVnpayCanonical le (set_prop k v obj) = buildVnpayCanonical le obj"
proof -
  have "k \<notin> set (sort_by le (vnpay_keys obj))" using assms by (auto simp add: vnpay_keys_def)
  then have "\<And>j. j \<in> set (sort_by le (vnpay_keys obj)) \<Longrightarrow> get_prop j (set_prop k v obj) = get_prop j obj"
    by (metis get_set_prop)
  then show ?thesis unfolding buildVnpayCanonical_def vnpay_keys_set_prop [OF assms]
    by (auto intro!: arg_cong [of _ _ "js_join ''&''"])
qed

text \<open>
  A request signed in VNPay's way can be checked from what is sent: the hash in the payload is
  the HMAC-SHA512, under the secret, of the canonical text of that very payload, and the headers are
  untouched.
\<close>

theorem vnpay_signature_verifies:
  assumes "pc_apiSecret config \<noteq> []" and "pc_signatureMode config = VNPAY_QUERY_SHA512"
    and "pc_signaturePayloadField config = ''vnp_SecureHash''" and "buildVnpayCanonical (x_localeLe env) payload \<noteq> []"
    and "applySignature env config reqMethod path ts nonce (payload, headers) = (payload', headers')"
  shows "get_prop ''vnp_SecureHash'' payload' =
      Some (JString (x_hmac env SHA512 (pc_apiSecret config) (buildVnpayCanonical (x_localeLe env) payload'))) \<and>
    get_prop ''vnp_SecureHashType'' payload' = Some (JString ''HmacSHA512'') \<and> headers' = headers"
  using assms
  by (auto simp add: applySignature_def Let_def or_str_def get_set_prop vnpay_canonical_set_prop)

lemma canonical_fields_set_prop:
  "k \<notin> set fieldNames \<Longrightarrow>
   buildCanonicalFromFields (set_prop k v obj) fieldNames joiner = buildCanonicalFromFields obj fieldNames joiner"
  unfolding buildCanonicalFromFields_def Let_def
  by (auto simp add: get_set_prop intro!: arg_cong [of _ _ "js_join _"])

text \<open>
  In the two modes that sign chosen fields, the code put into the payload is the HMAC of those
  fields as they are sent, provided that the field which holds the code is not itself signed.
\<close>

lemma payload_mac_verifies:
  assumes "pc_apiSecret config \<noteq> []" and "pc_signatureMode config \<in> {ZALOPAY_MAC_SHA256, PAYLOAD_FIELDS_HMAC}"
    and "pc_signaturePayloadField config \<noteq> []"
    and "pc_signaturePayloadField config \<notin> set (pc_signatureFields config)"
    and "buildCanonicalFromFields payload (pc_signatureFields config) (pc_signatureJoiner config) \<noteq> []"
    and "applySignature env config reqMethod path ts nonce (payload, headers) = (payload', headers')"
  shows "get_prop (pc_signaturePayloadField config) payload' =
    Some (JString (x_hmac env (pc_signatureAlgorithm config) (pc_apiSecret config)
      (buildCanonicalFromFields payload' (pc_signatureFields config) (pc_signatureJoiner config))))"
  using assms by (auto simp add: applySignature_def Let_def or_str_def get_set_prop canonical_fields_set_prop)

lemma map_of_set_header: "map_of (set_header k v hs) j = (if j = k then Some v else map_of hs j)"
proof (cases "k \<in> set (map fst hs)")
  case True
  then show ?thesis by (auto simp add: set_header_def map_of_replace)
next
  case False
  then have "map_of hs k = None" by (simp add: map_of_eq_None_iff)
  with False show ?thesis by (auto simp add: set_header_def map_add_def split: option.split)
qed

lemma map_of_set_if: "map_of (set_if k v hs) j = (if j = k \<and> v \<noteq> [] then Some v else map_of hs j)"
  by (auto simp add: set_if_def map_of_set_header)

text \<open>
  In the default mode the signature header of a POST is the HMAC-SHA256 of timestamp, nonce and
  exactly the body that is sent; none of the headers set afterwards replaces it unless it has the
  same name.
\<close>

theorem legacy_signature_covers_body:
  assumes "pc_apiSecret config \<noteq> []" and "pc_signatureMode config = LEGACY_HEADER_SHA256"
    and "pc_signatureHeader config \<notin>
      {pc_apiKeyHeader config, pc_clientIdHeader config, pc_merchantIdHeader config, ''Authorization''}"
  shows "\<exists>body. hr_body (partner_request env config path ''POST'' payload) = Some body \<and>
    map_of (hr_headers (partner_request env config path ''POST'' payload)) (pc_signatureHeader config) =
      Some (x_hmac env SHA256 (pc_apiSecret config) (int_digits (x_now env) @ ''.'' @ x_uuid4 env 1 @ ''.'' @ body))"
  using assms
  by (simp add: partner_request_def applySignature_def Let_def map_of_set_header map_of_set_if)

section \<open>The canonical text does not depend on the order of the payload\<close>

text \<open>
  The canonical text of a VNPay payload is the same for every order of its keys, when the
  collation is a total order.
\<close>

theorem vnpay_canonical_order_free:
  assumes "total_order le" and "mset payload = mset payload'" and "distinct (map fst payload)"
  shows "buildVnpayCanonical le payload = buildVnpayCanonical le payload'"
proof -
  have "map_of payload = map_of payload'"
    using map_of_inject_set [of payload payload'] mset_eq_setD [OF assms(2)] assms(3)
      mset_eq_imp_distinct_iff [of "map fst payload" "map fst payload'"] assms(2) by simp
  then have get: "get_prop k payload = get_prop k payload'" for k by (simp add: get_prop_def)
  have "mset (vnpay_keys payload) = mset (vnpay_keys payload')"
    using assms(2) by (simp add: vnpay_keys_def get)
  then have "sort_by le (vnpay_keys payload) = sort_by le (vnpay_keys payload')" by (rule sort_by_perm [OF assms(1)])
  then show ?thesis by (simp add: buildVnpayCanonical_def get)
qed

section \<open>Reading MoMo's result codes\<close>

lemma js_includes_char: "js_includes s [c] \<longleftrightarrow> c \<in> set s"
  by (induction s) (auto simp add: js_startsWith_def)

lemma js_includes_self: "v \<noteq> [] \<Longrightarrow> js_includes v v"
  by (cases v) (simp_all add: js_startsWith_def)

lemma matchesAnyToken_iff:
  "matchesAnyToken v tokens \<longleftrightarrow>
     (\<exists>t\<in>set tokens. js_upper (js_trim t) \<noteq> [] \<and> js_includes v (js_upper (js_trim t)))"
  by (induction tokens) (auto simp add: Let_def js_includes_self)

lemma momo_zero_token: "CHR ''0'' \<in> set v \<Longrightarrow> matchesAnyToken v (fm_successTokens (defaultFieldMappingFor ''MOMO''))"
  unfolding matchesAnyToken_iff
  by (rule bexI [of _ "''0''"])
    (simp_all add: js_includes_char js_simps defaultFieldMappingFor_def extend_mapping_def)

lemma path_segments:
  "map (\<lambda>p. filter (\<lambda>s. s \<noteq> []) (map js_trim (js_split (CHR ''.'') p)))
     [''status'', ''state'', ''transactionStatus'', ''resultStatus'', ''resultCode''] =
   [[''status''], [''state''], [''transactionStatus''], [''resultStatus''], [''resultCode'']]"
  by code_simp

lemma pick_resultCode:
  assumes "js_trim code \<noteq> []"
  shows "pickString (JObject [(''resultCode'', JString code)]) (status_paths @ ps) = js_trim code"
  using assms path_segments
  by (simp add: pickString_def status_paths_def readPath_def present_def Let_def)

text \<open>
  Tokens are matched as substrings: with MoMo's default tokens, every result code that contains
  a 0 and no failure token is read as settled when a transfer is checked, whatever the code means to
  MoMo (1006, the user's refusal, is one).
\<close>

theorem momo_code_with_zero_settles:
  assumes "CHR ''0'' \<in> set (js_upper (js_trim code))"
    and "\<not> matchesAnyToken (js_upper (js_trim code)) (fm_failedTokens (defaultFieldMappingFor ''MOMO''))"
  shows "extractStatus (JObject [(''resultCode'', JString code)]) False httpOk
    (fm_checkStatusPaths (defaultFieldMappingFor ''MOMO'')) (defaultFieldMappingFor ''MOMO'') = EX_SETTLED"
proof -
  have "js_trim code \<noteq> []" using assms(1) by (auto simp add: js_upper_def)
  then have "pickString (JObject [(''resultCode'', JString code)]) (fm_checkStatusPaths (defaultFieldMappingFor ''MOMO'')) = js_trim code"
    by (simp add: defaultFieldMappingFor_def extend_mapping_def pick_resultCode)
  then show ?thesis using assms momo_zero_token [OF assms(1)] \<open>js_trim code \<noteq> []\<close>
    by (simp add: extractStatus_def Let_def)
qed

section \<open>Witnesses\<close>

definition sample_partner_env :: partner_env where
  "sample_partner_env =
     \<lparr>x_cfg = Map.empty(''VNPAY_API_BASE_URL'' \<mapsto> ''https://p'', ''VNPAY_API_SECRET'' \<mapsto> ''k'',
        ''ZALOPAY_API_BASE_URL'' \<mapsto> ''https://p'', ''ZALOPAY_API_SECRET'' \<mapsto> ''k'',
        ''MOMO_API_BASE_URL'' \<mapsto> ''https://p'', ''MOMO_API_SECRET'' \<mapsto> ''k''),
      x_now = 7, x_random = (\<lambda>_. 0), x_uuid4 = (\<lambda>_. ''uuid''), x_hmac = (\<lambda>_ key s. key @ s),
      x_localeLe = (\<le>), x_fetch = (\<lambda>_. Inl ''fetch failed'')\<rparr>"

definition sample_partner :: "string \<Rightarrow> partner_config" where
  "sample_partner code = the (resolvePartnerRuntimeConfig (x_cfg sample_partner_env) code)"

definition sample_payload :: js_object where
  "sample_payload = [(''vnp_TxnRef'', Some (JString ''t1'')), (''app_id'', Some (JString ''a'')), (''note'', None)]"

theorem vnpay_signature_verifies_witness:
  "get_prop ''vnp_SecureHash'' (fst (applySignature sample_partner_env (sample_partner ''VNPAY'') ''POST'' ''/t'' ''7'' ''n'' (sample_payload, []))) \<noteq> None"
proof -
  let ?c = "sample_partner ''VNPAY''"
  have "pc_apiSecret ?c \<noteq> [] \<and> pc_signatureMode ?c = VNPAY_QUERY_SHA512 \<and> pc_signaturePayloadField ?c = ''vnp_SecureHash'' \<and>
      buildVnpayCanonical (x_localeLe sample_partner_env) sample_payload \<noteq> []"
    by code_simp
  then have "pc_apiSecret ?c \<noteq> []" "pc_signatureMode ?c = VNPAY_QUERY_SHA512" "pc_signaturePayloadField ?c = ''vnp_SecureHash''"
    "buildVnpayCanonical (x_localeLe sample_partner_env) sample_payload \<noteq> []"
    by blast+
  from vnpay_signature_verifies [OF this surjective_pairing, of "''POST''" "''/t''" "''7''" "''n''" "[]"] show ?thesis by simp
qed

lemma payload_mac_verifies_witness:
  "get_prop ''mac'' (fst (applySignature sample_partner_env (sample_partner ''ZALOPAY'') ''POST'' ''/t'' ''7'' ''n'' (sample_payload, []))) \<noteq> None"
proof -
  let ?c = "sample_partner ''ZALOPAY''"
  have c: "pc_apiSecret ?c \<noteq> [] \<and> pc_signatureMode ?c \<in> {ZALOPAY_MAC_SHA256, PAYLOAD_FIELDS_HMAC} \<and>
      pc_signaturePayloadField ?c = ''mac'' \<and> pc_signaturePayloadField ?c \<notin> set (pc_signatureFields ?c) \<and>
      buildCanonicalFromFields sample_payload (pc_signatureFields ?c) (pc_signatureJoiner ?c) \<noteq> []"
    by code_simp
  then have field: "pc_signaturePayloadField ?c = ''mac''" by blast
  then have "pc_signaturePayloadField ?c \<noteq> []" by simp
  with c have "pc_apiSecret ?c \<noteq> []" "pc_signatureMode ?c \<in> {ZALOPAY_MAC_SHA256, PAYLOAD_FIELDS_HMAC}"
    "pc_signaturePayloadField ?c \<noteq> []" "pc_signaturePayloadField ?c \<notin> set (pc_signatureFields ?c)"
    "buildCanonicalFromFields sample_payload (pc_signatureFields ?c) (pc_signatureJoiner ?c) \<noteq> []"
    by blast+
  from payload_mac_verifies [OF this surjective_pairing, of sample_partner_env "''POST''" "''/t''" "''7''" "''n''" "[]"]
  show ?thesis by (simp add: field)
qed

theorem legacy_signature_covers_body_witness:
  "\<exists>body. hr_body (partner_request sample_partner_env (sample_partner ''MOMO'') ''/transfers'' ''POST'' sample_payload) = Some body"
proof -
  let ?c = "sample_partner ''MOMO''"
  have "pc_apiSecret ?c \<noteq> [] \<and> pc_signatureMode ?c = LEGACY_HEADER_SHA256 \<and>
      pc_signatureHeader ?c \<notin> {pc_apiKeyHeader ?c, pc_clientIdHeader ?c, pc_merchantIdHeader ?c, ''Authorization''}"
    by code_simp
  then have "pc_apiSecret ?c \<noteq> []" "pc_signatureMode ?c = LEGACY_HEADER_SHA256"
    "pc_signatureHeader ?c \<notin> {pc_apiKeyHeader ?c, pc_clientIdHeader ?c, pc_merchantIdHeader ?c, ''Authorization''}"
    by blast+
  from legacy_signature_covers_body [OF this, of sample_partner_env "''/transfers''" sample_payload] show ?thesis by auto
qed

theorem vnpay_canonical_order_free_witness:
  "buildVnpayCanonical (\<le>) sample_payload = buildVnpayCanonical (\<le>) (rev sample_payload)"
  by (rule vnpay_canonical_order_free) (auto simp add: total_order_def sample_payload_def)

theorem momo_code_with_zero_settles_witness:
  "extractStatus (JObject [(''resultCode'', JString ''1006'')]) False True
    (fm_checkStatusPaths (defaultFieldMappingFor ''MOMO'')) (defaultFieldMappingFor ''MOMO'') = EX_SETTLED"
  by (rule momo_code_with_zero_settles) code_simp+

end
