(* ===== verification/Outside_Payment.thy ===== *)
theory Outside_Payment
  imports Partner_Api
begin

text \<open>
  The outside-payment service (\<^verbatim>\<open>outside-payment-service/src/transfers\<close>): the table of
  external transfers and the two calls of its gRPC interface, InitiateTransfer and CheckTransfer. A
  request that finds no runtime configuration for its partner is answered by the built-in mock. The
  table is the list of its rows; its unique indexes, lengths and bigint range are enforced on insert
  and save. A lookup by an undefined value is a lookup without condition, which yields some row.
\<close>

section \<open>The table\<close>

record ext_db =
  x_rows :: "external_transfer list"
  x_dbUuid :: "nat \<Rightarrow> string"
  x_dbSeq :: nat

record ext_env = partner_env +
  x_anyRow :: nat
  x_others :: "nat \<Rightarrow> ext_db \<Rightarrow> ext_db"

datatype ext_error = InvalidAmount | ExtQueryFailed string

type_synonym 'a ext_handler = "(ext_db, ext_error, 'a) handler"

definition find_transfer ::
    "ext_env \<Rightarrow> (external_transfer \<Rightarrow> string) \<Rightarrow> string option \<Rightarrow> ext_db \<Rightarrow> external_transfer option" where
  "find_transfer env col v d =
     (case v of Some s \<Rightarrow> find_row (\<lambda>r. col r = s) (x_rows d)
      | None \<Rightarrow> if x_rows d = [] then None else Some (x_rows d ! (x_anyRow env mod length (x_rows d))))"

definition transfer_columns_ok :: "external_transfer \<Rightarrow> bool" where
  "transfer_columns_ok r =
     (length (et_partnerCode r) \<le> 64 \<and> length (et_accountNo r) \<le> 128 \<and> - (2 ^ 63) \<le> et_amount r \<and>
      et_amount r < 2 ^ 63 \<and> length (et_currency r) \<le> 16 \<and> length (et_partnerRef r) \<le> 128 \<and>
      (case et_partnerMessage r of None \<Rightarrow> True | Some m \<Rightarrow> length m \<le> 1024))"

definition insert_transfer ::
    "int \<Rightarrow> external_transfer \<Rightarrow> ext_db \<Rightarrow> ext_error + (external_transfer \<times> ext_db)" where
  "insert_transfer now r d =
     (if find_row (\<lambda>x. et_transactionId x = et_transactionId r) (x_rows d) \<noteq> None
      then Inl (ExtQueryFailed ''transactionId'')
      else if find_row (\<lambda>x. et_partnerRef x = et_partnerRef r) (x_rows d) \<noteq> None
      then Inl (ExtQueryFailed ''partnerRef'')
      else if \<not> transfer_columns_ok r then Inl (ExtQueryFailed ''column value'')
      else let r' = r\<lparr>et_id := x_dbUuid d (x_dbSeq d), et_createdAt := now\<rparr>
           in Inr (r', d\<lparr>x_rows := x_rows d @ [r'], x_dbSeq := Suc (x_dbSeq d)\<rparr>))"

definition save_transfer :: "external_transfer \<Rightarrow> ext_db \<Rightarrow> ext_error + (external_transfer \<times> ext_db)" where
  "save_transfer r d =
     (if transfer_columns_ok r then Inr (r, d\<lparr>x_rows := save_row et_id r (x_rows d)\<rparr>)
      else Inl (ExtQueryFailed ''column value''))"

section \<open>The mock partner\<close>

definition getMockSettleDelayMs :: "(string \<Rightarrow> string option) \<Rightarrow> js_number" where
  "getMockSettleDelayMs cfg =
     (let rawSeconds = (case cfg ''EXTERNAL_SETTLE_DELAY_SECONDS'' of None \<Rightarrow> js_of_int 1 | Some s \<Rightarrow> js_Number s);
          seconds = (if js_isFinite rawSeconds \<and> js_ge rawSeconds (js_of_int 0) then rawSeconds else js_of_int 1)
      in js_floor (case seconds of JsNum x \<Rightarrow> to_double (x * 1000) | v \<Rightarrow> v))"

definition shouldSettleMockTransfer :: "ext_env \<Rightarrow> external_transfer \<Rightarrow> bool" where
  "shouldSettleMockTransfer env transfer =
     js_ge (js_of_int (x_now env - et_createdAt transfer)) (getMockSettleDelayMs (x_cfg env))"

definition buildMockSubmittedMessage :: "string \<Rightarrow> string" where
  "buildMockSubmittedMessage partnerCode =
     ''Mock partner '' @ partnerCode @ '': transfer submitted, waiting settlement''"

definition buildMockSettledMessage :: "string \<Rightarrow> string" where
  "buildMockSettledMessage partnerCode = ''Mock partner '' @ partnerCode @ '': settlement completed''"

definition random_suffix :: "ext_env \<Rightarrow> nat \<Rightarrow> string" where
  "random_suffix env k = int_digits (x_now env) @ ''-'' @ int_digits \<lfloor>x_random env k * 100000\<rfloor>"

section \<open>InitiateTransfer\<close>

record initiate_rpc =
  nq_transactionId :: "string option"
  nq_partnerCode :: "string option"
  nq_accountNo :: "string option"
  nq_amount :: raw_amount
  nq_currency :: "string option"
  nq_note :: "string option"
  nq_transferType :: "string option"

record initiate_reply =
  ny_status :: external_transfer_status
  ny_partnerRef :: string
  ny_partnerMessage :: string

text \<open>What a fresh transfer is submitted with: the partner's answer, or the mock's.\<close>

definition submit_transfer ::
    "ext_env \<Rightarrow> initiate_rpc \<Rightarrow> string \<Rightarrow> js_number \<Rightarrow> external_transfer_status \<times> string \<times> string" where
  "submit_transfer env q partnerCode amount =
     (case resolvePartnerRuntimeConfig (x_cfg env) partnerCode of
        Some config \<Rightarrow>
          let (st, ref, message) = initiateViaPartner env config
                \<lparr>id_transactionId = nq_transactionId q, id_partnerCode = partnerCode, id_accountNo = nq_accountNo q,
                 id_amount = amount, id_currency = nq_currency q, id_note = nq_note q,
                 id_transferType = nq_transferType q\<rparr>
          in (st, or_str (Some ref) (partnerCode @ ''-'' @ random_suffix env 0), message)
      | None \<Rightarrow> (EX_SUBMITTED, partnerCode @ ''-MOCK-'' @ random_suffix env 1, buildMockSubmittedMessage partnerCode))"

text \<open>The insert of the new entity; transactionId and accountNo are not nullable and the amount is a bigint.\<close>

definition store_transfer ::
    "ext_env \<Rightarrow> initiate_rpc \<Rightarrow> string \<Rightarrow> js_number \<Rightarrow> external_transfer_status \<times> string \<times> string \<Rightarrow>
     ext_db \<Rightarrow> ext_error + (external_transfer \<times> ext_db)" where
  "store_transfer env q partnerCode amount submitted d =
     (let (st, partnerRef, message) = submitted
      in case (nq_transactionId q, nq_accountNo q) of
           (Some transactionId, Some accountNo) \<Rightarrow>
             if \<not> js_isInteger amount then Inl (ExtQueryFailed ''bigint syntax'')
             else insert_transfer (x_now env)
               \<lparr>et_id = [], et_transactionId = transactionId, et_partnerCode = partnerCode, et_accountNo = accountNo,
                et_transferType = parseTransferType (nq_transferType q), et_amount = js_int amount,
                et_currency = js_upper (or_str (nq_currency q) ''VND''), et_partnerRef = partnerRef, et_status = st,
                et_partnerMessage = Some message, et_createdAt = x_now env\<rparr> d
         | _ \<Rightarrow> Inl (ExtQueryFailed ''not null''))"

definition initiateTransfer :: "ext_env \<Rightarrow> initiate_rpc \<Rightarrow> initiate_reply ext_handler" where
  "initiateTransfer env q =
     (let partnerCode = normalizeKnownPartnerCode (nq_partnerCode q); amount = parseAmount (nq_amount q)
      in if \<not> js_isFinite amount \<or> \<not> js_gt amount (js_of_int 0) then throwH InvalidAmount
         else bindH (readH (find_transfer env et_transactionId (nq_transactionId q))) (\<lambda>existed.
           case existed of
             Some e \<Rightarrow> returnH \<lparr>ny_status = et_status e, ny_partnerRef = et_partnerRef e,
                                ny_partnerMessage = coalesce (et_partnerMessage e) ''Already submitted''\<rparr>
           | None \<Rightarrow>
               bindH (interfere (x_others env 0)) (\<lambda>_.
               bindH (atomic (store_transfer env q partnerCode amount (submit_transfer env q partnerCode amount))) (\<lambda>saved.
               returnH \<lparr>ny_status = et_status saved, ny_partnerRef = et_partnerRef saved,
                        ny_partnerMessage = coalesce (et_partnerMessage saved) []\<rparr>))))"

section \<open>CheckTransfer\<close>

record check_rpc =
  kq_partnerRef :: "string option"
  kq_partnerCode :: "string option"

text \<open>The row to save after asking the partner, or None when nothing is saved.\<close>

definition checked_transfer :: "ext_env \<Rightarrow> check_rpc \<Rightarrow> external_transfer \<Rightarrow> external_transfer option" where
  "checked_transfer env q transfer =
     (let partnerCode = normalizeKnownPartnerCode
            (if et_partnerCode transfer \<noteq> [] then Some (et_partnerCode transfer) else kq_partnerCode q)
      in case resolvePartnerRuntimeConfig (x_cfg env) partnerCode of
           Some config \<Rightarrow>
             (case checkViaPartner env config transfer of
                Some (st, message) \<Rightarrow>
                  if st = EX_SETTLED \<or> st = EX_FAILED
                  then Some (transfer\<lparr>et_status := st, et_partnerMessage := Some message\<rparr>) else None
              | None \<Rightarrow> None)
         | None \<Rightarrow>
             Some (if shouldSettleMockTransfer env transfer
                   then transfer\<lparr>et_status := EX_SETTLED, et_partnerMessage := Some (buildMockSettledMessage partnerCode)\<rparr>
                   else transfer\<lparr>et_partnerMessage := Some (buildMockSubmittedMessage partnerCode)\<rparr>))"

definition checkTransfer :: "ext_env \<Rightarrow> check_rpc \<Rightarrow> (external_transfer_status \<times> string) ext_handler" where
  "checkTransfer env q =
     bindH (readH (find_transfer env et_partnerRef (kq_partnerRef q))) (\<lambda>found.
       case found of
         None \<Rightarrow> returnH (EX_FAILED, ''Partner reference not found'')
       | Some transfer \<Rightarrow>
           let answer = (\<lambda>r. (et_status r, coalesce (et_partnerMessage r) []))
           in if et_status transfer \<noteq> EX_SUBMITTED then returnH (answer transfer)
              else (case checked_transfer env q transfer of
                      None \<Rightarrow> returnH (answer transfer)
                    | Some transfer' \<Rightarrow>
                        bindH (interfere (x_others env 0)) (\<lambda>_.
                        bindH (atomic (save_transfer transfer')) (\<lambda>saved. returnH (answer saved)))))"


section \<open>The life of a row\<close>

text \<open>What is written once, when the transfer is stored.\<close>

definition et_core ::
    "external_transfer \<Rightarrow> (string \<times> string \<times> string) \<times> (string \<times> string \<times> string) \<times> external_transfer_type \<times> int \<times> int" where
  "et_core r =
     ((et_id r, et_transactionId r, et_partnerRef r), (et_partnerCode r, et_accountNo r, et_currency r),
      et_transferType r, et_amount r, et_createdAt r)"

text \<open>
  The writes of the requests, in any interleaving: an insert, and a save of a row that was read
  earlier and of which only the status and the message changed.
\<close>

inductive ext_step :: "ext_db \<Rightarrow> ext_db \<Rightarrow> bool" where
  insert_step: "insert_transfer now r d = Inr (r', d') \<Longrightarrow> ext_step d d'"
| save_step: "r0 \<in> set (x_rows d) \<Longrightarrow> et_core r = et_core r0 \<Longrightarrow> save_transfer r d = Inr (r', d') \<Longrightarrow> ext_step d d'"

definition ext_init :: "ext_db \<Rightarrow> bool" where
  "ext_init d \<longleftrightarrow> x_rows d = [] \<and> inj (x_dbUuid d)"

definition ext_inv :: "ext_db \<Rightarrow> bool" where
  "ext_inv d \<longleftrightarrow>
     distinct (map et_id (x_rows d)) \<and> distinct (map et_transactionId (x_rows d)) \<and>
     distinct (map et_partnerRef (x_rows d)) \<and> list_all transfer_columns_ok (x_rows d) \<and> inj (x_dbUuid d) \<and>
     (\<forall>r\<in>set (x_rows d). \<exists>k < x_dbSeq d. et_id r = x_dbUuid d k)"

lemma et_coreD:
  assumes "et_core r = et_core s"
  shows "et_id r = et_id s" "et_transactionId r = et_transactionId s" "et_partnerRef r = et_partnerRef s"
    "et_partnerCode r = et_partnerCode s" "et_amount r = et_amount s"
  using assms by (simp_all add: et_core_def)

lemma et_core_update [simp]:
  "et_core (r\<lparr>et_status := st\<rparr>) = et_core r" "et_core (r\<lparr>et_partnerMessage := m\<rparr>) = et_core r"
  by (simp_all add: et_core_def)

lemma insert_transferE:
  assumes "insert_transfer now r d = Inr (r', d')"
  obtains "r' = r\<lparr>et_id := x_dbUuid d (x_dbSeq d), et_createdAt := now\<rparr>"
    "d' = d\<lparr>x_rows := x_rows d @ [r'], x_dbSeq := Suc (x_dbSeq d)\<rparr>" "transfer_columns_ok r"
    "et_transactionId r \<notin> et_transactionId ` set (x_rows d)" "et_partnerRef r \<notin> et_partnerRef ` set (x_rows d)"
proof -
  from assms have "find_row (\<lambda>x. et_transactionId x = et_transactionId r) (x_rows d) = None"
    and "find_row (\<lambda>x. et_partnerRef x = et_partnerRef r) (x_rows d) = None"
    by (auto simp add: insert_transfer_def split: if_splits)
  then have "et_transactionId r \<notin> et_transactionId ` set (x_rows d)"
    and "et_partnerRef r \<notin> et_partnerRef ` set (x_rows d)"
    by (auto simp add: find_row_None_iff image_iff dest: bspec)
  then show thesis using assms that by (auto simp add: insert_transfer_def Let_def split: if_splits)
qed

lemma save_transferE:
  assumes "save_transfer r d = Inr (r', d')"
  obtains "r' = r" "d' = d\<lparr>x_rows := save_row et_id r (x_rows d)\<rparr>" "transfer_columns_ok r"
  using assms by (auto simp add: save_transfer_def split: if_splits)

lemma columns_ok_stamp [simp]:
  "transfer_columns_ok (r\<lparr>et_id := i, et_createdAt := t\<rparr>) = transfer_columns_ok r"
  by (simp add: transfer_columns_ok_def)

lemma insert_keeps_inv:
  assumes inv: "ext_inv d" and ins: "insert_transfer now r d = Inr (r', d')"
  shows "ext_inv d'"
proof -
  from ins obtain new: "r' = r\<lparr>et_id := x_dbUuid d (x_dbSeq d), et_createdAt := now\<rparr>"
      "d' = d\<lparr>x_rows := x_rows d @ [r'], x_dbSeq := Suc (x_dbSeq d)\<rparr>" "transfer_columns_ok r"
      "et_transactionId r \<notin> et_transactionId ` set (x_rows d)" "et_partnerRef r \<notin> et_partnerRef ` set (x_rows d)"
    by (rule insert_transferE)
  have "et_id r' \<notin> et_id ` set (x_rows d)"
  proof
    assume "et_id r' \<in> et_id ` set (x_rows d)"
    then obtain s k where "s \<in> set (x_rows d)" "et_id s = x_dbUuid d (x_dbSeq d)" "k < x_dbSeq d" "et_id s = x_dbUuid d k"
      using inv new(1) unfolding ext_inv_def by (auto simp add: image_iff)
    then have "k = x_dbSeq d" using inv unfolding ext_inv_def by (auto dest: injD)
    with \<open>k < x_dbSeq d\<close> show False by simp
  qed
  then show ?thesis using inv new unfolding ext_inv_def
    by (auto simp add: less_Suc_eq image_iff)
qed

lemma save_keeps_inv:
  assumes inv: "ext_inv d" and r0: "r0 \<in> set (x_rows d)" and core: "et_core r = et_core r0"
    and sav: "save_transfer r d = Inr (r', d')"
  shows "ext_inv d'"
proof -
  from sav obtain d': "d' = d\<lparr>x_rows := save_row et_id r (x_rows d)\<rparr>" "transfer_columns_ok r"
    by (rule save_transferE)
  have same: "et_core x = et_core r" if "x \<in> set (x_rows d)" "et_id x = et_id r" for x
    using row_unique [of et_id "x_rows d" x r0] that inv r0 et_coreD(1) [OF core] core unfolding ext_inv_def by simp
  have "map et_transactionId (save_row et_id r (x_rows d)) = map et_transactionId (x_rows d)"
    and "map et_partnerRef (save_row et_id r (x_rows d)) = map et_partnerRef (x_rows d)"
    by (intro map_save_row_same, metis same et_coreD(2,3))+
  moreover have "\<exists>k < x_dbSeq d. et_id x = x_dbUuid d k" if "x \<in> set (save_row et_id r (x_rows d))" for x
    using set_save_rowD [OF that] inv r0 et_coreD(1) [OF core] unfolding ext_inv_def by metis
  moreover have "list_all transfer_columns_ok (save_row et_id r (x_rows d))"
    using inv d'(2) unfolding ext_inv_def by (auto simp add: list_all_iff dest!: set_save_rowD)
  ultimately show ?thesis using inv d'(1) unfolding ext_inv_def by simp
qed

interpretation ext: invariant_system ext_init ext_step ext_inv
proof unfold_locales
  fix s :: ext_db
  assume "ext_init s"
  then show "ext_inv s" by (simp add: ext_init_def ext_inv_def)
next
  fix s t :: ext_db
  assume "ext_inv s" and "ext_step s t"
  from this(2,1) show "ext_inv t" by cases (auto intro: insert_keeps_inv save_keeps_inv)
qed

lemma step_keeps_core:
  assumes "ext_inv d" and "ext_step d d'" and "r \<in> set (x_rows d)"
  shows "\<exists>r'\<in>set (x_rows d'). et_core r' = et_core r"
  using assms(2)
proof cases
  case (insert_step now n n')
  then have "x_rows d' = x_rows d @ [n']" by (auto elim!: insert_transferE)
  then show ?thesis using assms(3) by auto
next
  case (save_step r0 s s')
  then have rows: "x_rows d' = save_row et_id s (x_rows d)" by (auto elim!: save_transferE)
  show ?thesis
  proof (cases "et_id r = et_id s")
    case True
    then have "r = r0"
      using row_unique [of et_id "x_rows d" r r0] assms(1,3) save_step(1) et_coreD(1) [OF save_step(2)]
      unfolding ext_inv_def by simp
    moreover have "s \<in> set (x_rows d')" using True assms(3) rows by (force simp add: save_row_def)
    ultimately show ?thesis using save_step(2) by auto
  next
    case False
    then show ?thesis using assms(3) rows by (force simp add: save_row_def)
  qed
qed

lemma steps_keep_core:
  assumes "ext_step\<^sup>*\<^sup>* d d'" and "ext_inv d" and "r \<in> set (x_rows d)"
  shows "\<exists>r'\<in>set (x_rows d'). et_core r' = et_core r"
  using assms
proof (induction rule: rtranclp_induct)
  case (step s t)
  then obtain r' where "r' \<in> set (x_rows s)" "et_core r' = et_core r" by auto
  then show ?case using step_keeps_core [OF _ step(2)] ext.reach_from [OF step(4) step(1)] by metis
qed auto

section \<open>What the requests do to the table\<close>

lemma submitted_store:
  assumes "store_transfer env q code amount sub d = Inr (r, d')"
  shows "ext_step d d'" and "r \<in> set (x_rows d')" and "nq_transactionId q = Some (et_transactionId r)"
    and "et_status r = fst sub" and "et_partnerRef r = fst (snd sub)"
proof -
  obtain st ref msg where sub: "sub = (st, ref, msg)" by (cases sub)
  obtain row where row: "insert_transfer (x_now env) row d = Inr (r, d')"
      "nq_transactionId q = Some (et_transactionId row)" "et_status row = st" "et_partnerRef row = ref"
    using assms unfolding store_transfer_def sub
    by (auto simp add: Let_def split: option.splits if_splits)
  from row(1) show "ext_step d d'" by (rule insert_step)
  from row(1) have "r = row\<lparr>et_id := x_dbUuid d (x_dbSeq d), et_createdAt := x_now env\<rparr> \<and> x_rows d' = x_rows d @ [r]"
    by (auto elim!: insert_transferE)
  then show "r \<in> set (x_rows d')" and "nq_transactionId q = Some (et_transactionId r)"
    and "et_status r = fst sub" and "et_partnerRef r = fst (snd sub)"
    using row(2,3,4) sub by simp_all
qed

lemma find_transferD: "find_transfer env col v d = Some r \<Longrightarrow> r \<in> set (x_rows d) \<and> (\<forall>s. v = Some s \<longrightarrow> col r = s)"
  by (auto simp add: find_transfer_def split: option.splits if_splits dest: find_row_SomeD)

lemma find_transfer_unique:
  assumes "distinct (map col (x_rows d))" and "r \<in> set (x_rows d)"
  shows "find_transfer env col (Some (col r)) d = Some r"
  using find_row_key [OF assms] by (simp add: find_transfer_def)

text \<open>The two answers of InitiateTransfer, and its run as one equation.\<close>

definition known_reply :: "external_transfer \<Rightarrow> initiate_reply" where
  "known_reply e = \<lparr>ny_status = et_status e, ny_partnerRef = et_partnerRef e,
                    ny_partnerMessage = coalesce (et_partnerMessage e) ''Already submitted''\<rparr>"

definition stored_reply :: "external_transfer \<Rightarrow> initiate_reply" where
  "stored_reply r = \<lparr>ny_status = et_status r, ny_partnerRef = et_partnerRef r,
                     ny_partnerMessage = coalesce (et_partnerMessage r) []\<rparr>"

lemma initiate_run:
  "initiateTransfer env q d =
     (let code = normalizeKnownPartnerCode (nq_partnerCode q); amount = parseAmount (nq_amount q)
      in if \<not> js_isFinite amount \<or> \<not> js_gt amount (js_of_int 0) then (Inl InvalidAmount, d)
         else case find_transfer env et_transactionId (nq_transactionId q) d of
           Some e \<Rightarrow> (Inr (known_reply e), d)
         | None \<Rightarrow>
             (case store_transfer env q code amount (submit_transfer env q code amount) (x_others env 0 d) of
                Inl err \<Rightarrow> (Inl err, x_others env 0 d)
              | Inr (r, d') \<Rightarrow> (Inr (stored_reply r), d')))"
  unfolding initiateTransfer_def Let_def
  by (simp add: handler_defs known_reply_def stored_reply_def split: option.split sum.split)

lemma initiate_cases:
  assumes "initiateTransfer env q d = (res, d')"
  obtains (invalid) "d' = d" "res = Inl InvalidAmount"
  | (known) e where "d' = d" "find_transfer env et_transactionId (nq_transactionId q) d = Some e" "res = Inr (known_reply e)"
  | (refused) err where "d' = x_others env 0 d" "res = Inl err"
  | (stored) r code amount where
      "store_transfer env q code amount (submit_transfer env q code amount) (x_others env 0 d) = Inr (r, d')"
      "res = Inr (stored_reply r)"
  using assms unfolding initiate_run Let_def
  by (auto split: if_splits option.splits sum.splits prod.splits)

lemma check_run:
  "checkTransfer env q d =
     (case find_transfer env et_partnerRef (kq_partnerRef q) d of
        None \<Rightarrow> (Inr (EX_FAILED, ''Partner reference not found''), d)
      | Some r \<Rightarrow>
          if et_status r \<noteq> EX_SUBMITTED then (Inr (et_status r, coalesce (et_partnerMessage r) []), d)
          else (case checked_transfer env q r of
                  None \<Rightarrow> (Inr (et_status r, coalesce (et_partnerMessage r) []), d)
                | Some r' \<Rightarrow>
                    (case save_transfer r' (x_others env 0 d) of
                       Inl err \<Rightarrow> (Inl err, x_others env 0 d)
                     | Inr (s, d') \<Rightarrow> (Inr (et_status s, coalesce (et_partnerMessage s) []), d'))))"
  unfolding checkTransfer_def Let_def
  by (simp add: handler_defs split: option.split sum.split)

lemma checked_core: "checked_transfer env q r = Some r' \<Longrightarrow> et_core r' = et_core r"
  unfolding checked_transfer_def Let_def by (auto split: option.splits if_splits)

lemma check_cases:
  assumes "checkTransfer env q d = (res, d')"
  obtains (same) "d' = d"
  | (unsaved) err where "d' = x_others env 0 d" "res = Inl err"
  | (saved) r r' where "r \<in> set (x_rows d)" "et_status r = EX_SUBMITTED" "et_core r' = et_core r"
      "save_transfer r' (x_others env 0 d) = Inr (r', d')" "res = Inr (et_status r', coalesce (et_partnerMessage r') [])"
proof (cases "find_transfer env et_partnerRef (kq_partnerRef q) d")
  case None
  then show thesis using assms by (intro same) (simp add: check_run)
next
  case (Some r)
  show thesis
  proof (cases "et_status r = EX_SUBMITTED \<and> checked_transfer env q r \<noteq> None")
    case False
    then show thesis using assms Some by (intro same) (auto simp add: check_run split: if_splits option.splits)
  next
    case True
    then obtain r' where r': "checked_transfer env q r = Some r'" by auto
    have run: "(case save_transfer r' (x_others env 0 d) of Inl err \<Rightarrow> (Inl err, x_others env 0 d)
        | Inr (s, d') \<Rightarrow> (Inr (et_status s, coalesce (et_partnerMessage s) []), d')) = (res, d')"
      using assms Some True r' by (simp add: check_run)
    show thesis
    proof (cases "save_transfer r' (x_others env 0 d)")
      case (Inl err)
      then show thesis using run unsaved [of err] by auto
    next
      case (Inr x)
      then have "x = (r', d')" using run by (cases x) (auto elim!: save_transferE)
      then show thesis using run Inr True find_transferD [OF Some] checked_core [OF r'] by (intro saved) auto
    qed
  qed
qed

text \<open>The requests that run meanwhile only do what requests do.\<close>

definition fair_others :: "ext_env \<Rightarrow> bool" where
  "fair_others env \<longleftrightarrow> (\<forall>k d. ext_step\<^sup>*\<^sup>* d (x_others env k d))"

lemma initiate_steps:
  assumes "fair_others env" and "initiateTransfer env q d = (res, d')"
  shows "ext_step\<^sup>*\<^sup>* d d'"
  using assms(2)
proof (cases rule: initiate_cases)
  case (stored r code amount)
  then show ?thesis
    using assms(1) submitted_store(1) unfolding fair_others_def by (metis rtranclp.rtrancl_into_rtrancl)
qed (use assms(1) in \<open>simp_all add: fair_others_def\<close>)

lemma check_steps:
  assumes "fair_others env" and "ext_inv d" and "checkTransfer env q d = (res, d')"
  shows "ext_step\<^sup>*\<^sup>* d d'"
  using assms(3)
proof (cases rule: check_cases)
  case (saved r r')
  have others: "ext_step\<^sup>*\<^sup>* d (x_others env 0 d)" using assms(1) by (simp add: fair_others_def)
  then obtain r0 where "r0 \<in> set (x_rows (x_others env 0 d))" "et_core r0 = et_core r"
    using steps_keep_core [OF others assms(2) saved(1)] by auto
  then have "ext_step (x_others env 0 d) d'" using save_step [of r0 "x_others env 0 d" r'] saved(3,4) by simp
  with others show ?thesis by simp
qed (use assms(1) in \<open>simp_all add: fair_others_def\<close>)

section \<open>Submitting once\<close>


text \<open>
  Both requests, with other requests running meanwhile, only insert rows that respect the unique
  indexes and save rows of which the status and the message changed.
\<close>

theorem requests_only_step:
  assumes "fair_others env" and "ext_inv d"
  shows "ext_step\<^sup>*\<^sup>* d (snd (initiateTransfer env q d)) \<and> ext_step\<^sup>*\<^sup>* d (snd (checkTransfer env k d))"
  using initiate_steps [OF assms(1)] check_steps [OF assms] by (metis prod.collapse)

section \<open>Requests one at a time\<close>

definition alone :: "ext_env \<Rightarrow> bool" where
  "alone env \<longleftrightarrow> (\<forall>d. x_others env 0 d = d)"

inductive ext_request :: "ext_db \<Rightarrow> ext_db \<Rightarrow> bool" where
  initiate_request: "alone env \<Longrightarrow> initiateTransfer env q d = (res, d') \<Longrightarrow> ext_request d d'"
| check_request: "alone env \<Longrightarrow> checkTransfer env k d = (res', d') \<Longrightarrow> ext_request d d'"

lemma alone_others [simp]: "alone env \<Longrightarrow> x_others env 0 d = d"
  by (simp add: alone_def)

lemma alone_fair: "alone env \<Longrightarrow> initiateTransfer env q d = (res, d') \<Longrightarrow> ext_step\<^sup>*\<^sup>* d d'"
  by (erule initiate_cases) (auto dest: submitted_store(1))

lemma request_keeps_inv:
  assumes "ext_request d d'" and "ext_inv d"
  shows "ext_inv d'"
  using assms(1)
proof cases
  case (initiate_request env q res)
  then show ?thesis using ext.reach_from [OF assms(2)] alone_fair by blast
next
  case (check_request env k res)
  from check_request(2) show ?thesis
  proof (cases rule: check_cases)
    case (saved r r')
    then show ?thesis using check_request(1) save_keeps_inv [OF assms(2) saved(1,3)] by simp
  qed (use check_request(1) assms(2) in simp_all)
qed

lemma request_keeps_terminal:
  assumes "ext_request d d'" and "ext_inv d" and "r \<in> set (x_rows d)" and "et_status r \<noteq> EX_SUBMITTED"
  shows "r \<in> set (x_rows d')"
  using assms(1)
proof cases
  case (initiate_request env q res)
  from initiate_request(2) show ?thesis
  proof (cases rule: initiate_cases)
    case (stored s code amount)
    then have "ext_step d d'" and "\<exists>s. x_rows d' = x_rows d @ [s]"
      using submitted_store(1) [OF stored(1)] initiate_request(1) unfolding store_transfer_def
      by (auto simp add: Let_def split: option.splits if_splits prod.splits elim!: insert_transferE)
    then show ?thesis using assms(3) by auto
  qed (use initiate_request(1) assms(3) in simp_all)
next
  case (check_request env k res)
  from check_request(2) show ?thesis
  proof (cases rule: check_cases)
    case (saved s s')
    have "et_id r \<noteq> et_id s'"
    proof
      assume "et_id r = et_id s'"
      then have "r = s" using row_unique [of et_id "x_rows d" r s] assms(2,3) saved(1) et_coreD(1) [OF saved(3)]
        unfolding ext_inv_def by simp
      with saved(2) assms(4) show False by simp
    qed
    moreover have "x_rows d' = save_row et_id s' (x_rows d)"
      using saved(4) check_request(1) by (auto elim!: save_transferE)
    ultimately show ?thesis using assms(3) by (force simp add: save_row_def)
  qed (use check_request(1) assms(3) in simp_all)
qed

text \<open>
  C14. When requests run one after the other, a transfer that is settled or failed never changes
  again.
\<close>

theorem terminal_transfers_final:
  assumes "ext_request\<^sup>*\<^sup>* d d'" and "ext_inv d" and "r \<in> set (x_rows d)" and "et_status r \<noteq> EX_SUBMITTED"
  shows "r \<in> set (x_rows d')"
proof -
  have "ext_inv d' \<and> r \<in> set (x_rows d')" using assms
    by (induction rule: rtranclp_induct) (auto intro: request_keeps_inv request_keeps_terminal)
  then show ?thesis ..
qed

section \<open>The answers of CheckTransfer\<close>

lemma length_normalizeKnownPartnerCode: "length (normalizeKnownPartnerCode (Some s)) \<le> max 12 (length s)"
proof -
  have "length (js_upper (js_trim s)) \<le> length s" using length_js_trim [of s] by simp
  then show ?thesis
    by (cases "s = []") (simp_all add: normalizeKnownPartnerCode_def or_str_def Let_def le_max_iff_disj)
qed

lemma to_double_1000: "to_double 1000 = JsNum 1000"
  using to_double_whole [of 1000] by simp

lemma default_mock_delay: "cfg ''EXTERNAL_SETTLE_DELAY_SECONDS'' = None \<Longrightarrow> getMockSettleDelayMs cfg = js_of_int 1000"
  by (simp add: getMockSettleDelayMs_def js_of_int_def js_isFinite_def js_floor_def to_double_1000)

text \<open>
  The mock partner settles a submitted transfer at the first check a second or more after it was
  stored, and leaves it submitted before; the answer is what is stored.
\<close>

theorem mock_partner_settles:
  assumes "alone env" and "ext_inv d" and "r \<in> set (x_rows d)" and "et_status r = EX_SUBMITTED"
    and "kq_partnerRef q = Some (et_partnerRef r)" and "et_partnerCode r \<noteq> []"
    and "resolvePartnerRuntimeConfig (x_cfg env) (normalizeKnownPartnerCode (Some (et_partnerCode r))) = None"
    and "x_cfg env ''EXTERNAL_SETTLE_DELAY_SECONDS'' = None"
  shows "\<exists>st msg d'. checkTransfer env q d = (Inr (st, msg), d') \<and>
    st = (if 1000 \<le> x_now env - et_createdAt r then EX_SETTLED else EX_SUBMITTED) \<and>
    r\<lparr>et_status := st, et_partnerMessage := Some msg\<rparr> \<in> set (x_rows d')"
proof -
  let ?settled = "1000 \<le> x_now env - et_createdAt r" and ?code = "normalizeKnownPartnerCode (Some (et_partnerCode r))"
  let ?st = "if ?settled then EX_SETTLED else EX_SUBMITTED"
  let ?msg = "if ?settled then buildMockSettledMessage ?code else buildMockSubmittedMessage ?code"
  let ?r = "r\<lparr>et_status := ?st, et_partnerMessage := Some ?msg\<rparr>"
  have found: "find_transfer env et_partnerRef (kq_partnerRef q) d = Some r"
    using find_transfer_unique [of et_partnerRef d r env] assms(2,3,5) by (simp add: ext_inv_def)
  have checked: "checked_transfer env q r = Some ?r"
    using assms(4,6-8) by (simp add: checked_transfer_def shouldSettleMockTransfer_def default_mock_delay)
  have ok: "transfer_columns_ok r" using assms(2,3) by (simp add: ext_inv_def list_all_iff)
  then have "length ?code \<le> 64"
    using length_normalizeKnownPartnerCode [of "et_partnerCode r"]
    by (simp add: transfer_columns_ok_def max_def split: if_splits)
  then have "transfer_columns_ok ?r" using ok
    by (simp add: transfer_columns_ok_def buildMockSettledMessage_def buildMockSubmittedMessage_def)
  then have "checkTransfer env q d = (Inr (?st, ?msg), d\<lparr>x_rows := save_row et_id ?r (x_rows d)\<rparr>)"
    using found checked assms(1,4) by (simp add: check_run save_transfer_def coalesce_def)
  moreover have "?r \<in> set (save_row et_id ?r (x_rows d))" using assms(3) by (force simp add: save_row_def)
  ultimately show ?thesis
    by (intro exI [of _ ?st] exI [of _ ?msg] exI [of _ "d\<lparr>x_rows := save_row et_id ?r (x_rows d)\<rparr>"]) simp
qed

text \<open>
  While the partner cannot be reached or answers with a server error, a check leaves the
  transfer as it is and answers that it is submitted.
\<close>

theorem partner_outage_keeps_transfer:
  assumes "ext_inv d" and "r \<in> set (x_rows d)" and "et_status r = EX_SUBMITTED"
    and "kq_partnerRef q = Some (et_partnerRef r)" and "et_partnerCode r \<noteq> []"
    and "resolvePartnerRuntimeConfig (x_cfg env) (normalizeKnownPartnerCode (Some (et_partnerCode r))) = Some config"
    and "\<And>rq st text. x_fetch env rq = Inr (st, text) \<Longrightarrow> 500 \<le> st"
  shows "checkTransfer env q d = (Inr (EX_SUBMITTED, coalesce (et_partnerMessage r) []), d)"
proof -
  have "find_transfer env et_partnerRef (kq_partnerRef q) d = Some r"
    using find_transfer_unique [of et_partnerRef d r env] assms(1,2,4) by (simp add: ext_inv_def)
  moreover have "checkViaPartner env config r = None"
    using assms(7) by (fastforce simp add: checkViaPartner_def callPartnerApi_def Let_def split: sum.splits)
  ultimately show ?thesis using assms(3,5,6) by (simp add: check_run checked_transfer_def)
qed

section \<open>Samples\<close>

definition empty_ext_db :: ext_db where
  "empty_ext_db = \<lparr>x_rows = [], x_dbUuid = (\<lambda>n. replicate n (CHR ''a'')), x_dbSeq = 0\<rparr>"

definition sample_env :: "int \<Rightarrow> ext_env" where
  "sample_env now =
     \<lparr>x_cfg = Map.empty, x_now = now, x_random = (\<lambda>_. 0), x_uuid4 = (\<lambda>_. ''uuid''), x_hmac = (\<lambda>_ _ s. s),
      x_localeLe = (\<lambda>_ _. True), x_fetch = (\<lambda>_. Inl ''fetch failed''), x_anyRow = 0, x_others = (\<lambda>_ d. d)\<rparr>"

definition sample_rpc :: initiate_rpc where
  "sample_rpc =
     \<lparr>nq_transactionId = Some ''t1'', nq_partnerCode = Some ''acb'', nq_accountNo = Some ''970400'',
      nq_amount = AmtNumber (js_of_int 100), nq_currency = None, nq_note = None, nq_transferType = None\<rparr>"

definition sample_transfer :: external_transfer where
  "sample_transfer =
     \<lparr>et_id = [], et_transactionId = ''t1'', et_partnerCode = ''ACB'', et_accountNo = ''970400'',
      et_transferType = ET_WITHDRAWAL, et_amount = 100, et_currency = ''VND'', et_partnerRef = ''ACB-MOCK-7-0'',
      et_status = EX_SUBMITTED, et_partnerMessage = Some (buildMockSubmittedMessage ''ACB''), et_createdAt = 7\<rparr>"

definition sample_db :: ext_db where
  "sample_db = snd (initiateTransfer (sample_env 7) sample_rpc empty_ext_db)"

definition sample_check :: check_rpc where
  "sample_check = \<lparr>kq_partnerRef = Some ''ACB-MOCK-7-0'', kq_partnerCode = None\<rparr>"

lemma sample_rows: "x_rows sample_db = [sample_transfer]"
  by code_simp

lemma sample_reply: "fst (initiateTransfer (sample_env 7) sample_rpc empty_ext_db) = Inr (stored_reply sample_transfer)"
  by code_simp

lemma sample_initiate:
  "initiateTransfer (sample_env 7) sample_rpc empty_ext_db = (Inr (stored_reply sample_transfer), sample_db)"
  by (simp add: sample_db_def sample_reply prod_eq_iff)

lemma sample_init: "ext_init empty_ext_db"
  by (auto simp add: ext_init_def empty_ext_db_def inj_def replicate_eq_replicate)

lemma sample_alone: "alone (sample_env now)" and sample_fair: "fair_others (sample_env now)"
  by (simp_all add: alone_def fair_others_def sample_env_def)

lemma sample_inv: "ext_inv sample_db"
  using ext.reach_from [OF ext.init_inv [OF sample_init] initiate_steps [OF sample_fair sample_initiate]] .

section \<open>Witnesses\<close>

lemma sample_amount:
  "js_isFinite (parseAmount (nq_amount sample_rpc)) \<and> js_gt (parseAmount (nq_amount sample_rpc)) (js_of_int 0)"
  by (simp add: sample_rpc_def parseAmount_def)


theorem requests_only_step_witness:
  "ext_step\<^sup>*\<^sup>* sample_db (snd (initiateTransfer (sample_env 9) sample_rpc sample_db)) \<and>
   ext_step\<^sup>*\<^sup>* sample_db (snd (checkTransfer (sample_env 9) sample_check sample_db))"
  by (rule requests_only_step [OF sample_fair sample_inv])

definition settled_db :: ext_db where
  "settled_db = snd (checkTransfer (sample_env 1007) sample_check sample_db)"

definition settled_transfer :: external_transfer where
  "settled_transfer = sample_transfer\<lparr>et_status := EX_SETTLED, et_partnerMessage := Some (buildMockSettledMessage ''ACB'')\<rparr>"

lemma settled_rows: "x_rows settled_db = [settled_transfer]"
  by code_simp

lemma settled_inv: "ext_inv settled_db"
  using request_keeps_inv [OF check_request [OF sample_alone] sample_inv] by (metis prod.collapse settled_db_def)

text \<open>A check that read the row at time 500 and saves after another one has settled the transfer.\<close>

definition stale_env :: ext_env where
  "stale_env = (sample_env 500)\<lparr>x_others := (\<lambda>_ d. snd (checkTransfer (sample_env 1007) sample_check d))\<rparr>"

text \<open>
  Two checks of a transfer that overlap can undo a settlement: the save of the slower one writes
  back the status it read.
\<close>

theorem concurrent_checks_reopen:
  "map et_status (x_rows (x_others stale_env 0 sample_db)) = [EX_SETTLED] \<and>
   map et_status (x_rows (snd (checkTransfer stale_env sample_check sample_db))) = [EX_SUBMITTED]"
proof -
  have others: "x_others stale_env 0 sample_db = settled_db" by (simp add: stale_env_def settled_db_def)
  have "checked_transfer stale_env sample_check sample_transfer = Some sample_transfer" by code_simp
  moreover have "find_transfer stale_env et_partnerRef (kq_partnerRef sample_check) sample_db = Some sample_transfer"
    by (simp add: find_transfer_def sample_rows sample_check_def row_simps) (simp add: sample_transfer_def)
  moreover have "transfer_columns_ok sample_transfer" using sample_inv by (simp add: ext_inv_def sample_rows)
  moreover have "et_id settled_transfer = et_id sample_transfer" "et_status sample_transfer = EX_SUBMITTED"
    by (simp_all add: settled_transfer_def sample_transfer_def)
  ultimately have "x_rows (snd (checkTransfer stale_env sample_check sample_db)) = [sample_transfer]"
    by (simp add: check_run others save_transfer_def settled_rows save_row_def)
  then show ?thesis by (simp add: others settled_rows) (simp add: settled_transfer_def sample_transfer_def)
qed

theorem terminal_transfers_final_witness:
  "settled_transfer \<in> set (x_rows (snd (checkTransfer (sample_env 2000) sample_check settled_db)))"
proof -
  have "ext_request settled_db (snd (checkTransfer (sample_env 2000) sample_check settled_db))"
    by (rule check_request [OF sample_alone surjective_pairing])
  then have "ext_request\<^sup>*\<^sup>* settled_db (snd (checkTransfer (sample_env 2000) sample_check settled_db))"
    by (rule r_into_rtranclp)
  from terminal_transfers_final [OF this settled_inv, of settled_transfer] show ?thesis
    by (simp add: settled_rows) (simp add: settled_transfer_def)
qed

theorem mock_partner_settles_witness:
  "\<exists>msg d'. checkTransfer (sample_env 1007) sample_check sample_db = (Inr (EX_SETTLED, msg), d') \<and>
    sample_transfer\<lparr>et_status := EX_SETTLED, et_partnerMessage := Some msg\<rparr> \<in> set (x_rows d')"
proof -
  have "resolvePartnerRuntimeConfig (x_cfg (sample_env 1007))
      (normalizeKnownPartnerCode (Some (et_partnerCode sample_transfer))) = None"
    by code_simp
  then show ?thesis
    using mock_partner_settles [OF sample_alone sample_inv, of sample_transfer sample_check 1007]
    by (simp add: sample_rows) (simp add: sample_transfer_def sample_check_def sample_env_def)
qed

definition momo_env :: ext_env where
  "momo_env = (sample_env 9)\<lparr>x_cfg := Map.empty(''MOMO_API_BASE_URL'' \<mapsto> ''https://partner'')\<rparr>"

definition momo_transfer :: external_transfer where
  "momo_transfer = sample_transfer\<lparr>et_partnerCode := ''MOMO'', et_partnerMessage := None\<rparr>"

definition momo_db :: ext_db where
  "momo_db = empty_ext_db\<lparr>x_rows := [momo_transfer], x_dbSeq := 1\<rparr>"

theorem partner_outage_keeps_transfer_witness:
  "checkTransfer momo_env sample_check momo_db = (Inr (EX_SUBMITTED, []), momo_db)"
proof -
  have "resolvePartnerRuntimeConfig (x_cfg momo_env) (normalizeKnownPartnerCode (Some (et_partnerCode momo_transfer))) \<noteq> None"
    by code_simp
  then obtain config where config:
    "resolvePartnerRuntimeConfig (x_cfg momo_env) (normalizeKnownPartnerCode (Some (et_partnerCode momo_transfer))) = Some config"
    by auto
  have inv: "ext_inv momo_db"
    using sample_init
    by (simp add: ext_inv_def ext_init_def momo_db_def empty_ext_db_def momo_transfer_def sample_transfer_def transfer_columns_ok_def)
  show ?thesis
    using partner_outage_keeps_transfer [OF inv, of momo_transfer sample_check momo_env config, OF _ _ _ _ config]
    by (simp add: momo_db_def momo_transfer_def sample_transfer_def sample_check_def momo_env_def sample_env_def coalesce_def)
qed

end
