(* ===== verification/Settlement.thy ===== *)
theory Settlement
  imports Tx_Grpc Tx_Props Outside_Payment
begin

text \<open>
  The settlement service (\<^verbatim>\<open>settlement-service/src/settlement/settlement.service.ts\<close>): a
  scheduled job that asks the transaction service for pending external transactions, asks the
  outside-payment service for the fate of each, reports it back, and has the wallets reconciled. The
  calls it makes are the fields of \<open>settlement_clients\<close>, functions on a world of which the service
  knows nothing else; a call that times out may still have changed the world.

  The candidates of a chunk run at the same time. Each is a small machine (\<open>cand_state\<close>) that one
  call moves forward; a schedule, the list of the machines that move next, stands for the interleaving
  of their calls, and every machine is brought to its end after it.
\<close>

section \<open>The services it calls\<close>

record 's settlement_clients =
  sv_listSettlementCandidates :: "int option \<Rightarrow> 's \<Rightarrow> (string + settlement_item list) \<times> 's"
  sv_checkTransfer :: "string \<Rightarrow> string \<Rightarrow> 's \<Rightarrow> (string + string \<times> string) \<times> 's"
  sv_markSettlement :: "string \<Rightarrow> string \<Rightarrow> string option \<Rightarrow> 's \<Rightarrow> (string + bool) \<times> 's"
  sv_reconcileWallets :: "int option \<Rightarrow> bool \<Rightarrow> 's \<Rightarrow> (string + reconcile_report) \<times> 's"

section \<open>One candidate\<close>

datatype outcome = OC_SETTLED | OC_FAILED | OC_SKIPPED | OC_ERROR

datatype cand_state =
    Todo settlement_item
  | Checked settlement_item bool string
  | Done outcome

text \<open>\<open>processCandidate\<close>, one call at a time. Only the first branch of the code is outside the try block.\<close>

fun advance :: "'s settlement_clients \<Rightarrow> cand_state \<Rightarrow> 's \<Rightarrow> cand_state \<times> 's" where
  "advance cl (Todo item) s =
     (if si_externalPartner item = [] \<or> si_externalRef item = []
      then (case sv_markSettlement cl (si_transactionId item) ''FAILED'' (Some ''Missing external references'') s of
              (Inl e, s') \<Rightarrow> (Done OC_ERROR, s') | (Inr b, s') \<Rightarrow> (Done OC_FAILED, s'))
      else (case sv_checkTransfer cl (si_externalPartner item) (si_externalRef item) s of
              (Inl e, s') \<Rightarrow> (Done OC_SKIPPED, s')
            | (Inr (st, partnerMessage), s') \<Rightarrow>
                (if st = ''SETTLED'' then Checked item True partnerMessage
                 else if st = ''FAILED'' then Checked item False partnerMessage else Done OC_SKIPPED, s')))"
| "advance cl (Checked item settled partnerMessage) s =
     (case sv_markSettlement cl (si_transactionId item) (if settled then ''SETTLED'' else ''FAILED'')
             (or_null partnerMessage) s of
        (Inl e, s') \<Rightarrow> (Done OC_SKIPPED, s')
      | (Inr b, s') \<Rightarrow> (Done (if settled then OC_SETTLED else OC_FAILED), s'))"
| "advance cl (Done oc) s = (Done oc, s)"

section \<open>A chunk of candidates\<close>

definition advance_at :: "'s settlement_clients \<Rightarrow> nat \<Rightarrow> cand_state list \<times> 's \<Rightarrow> cand_state list \<times> 's" where
  "advance_at cl i cs =
     (if i < length (fst cs)
      then let (c, s) = advance cl (fst cs ! i) (snd cs) in ((fst cs)[i := c], s) else cs)"

definition outcome_of :: "cand_state \<Rightarrow> outcome" where
  "outcome_of c = (case c of Done oc \<Rightarrow> oc | _ \<Rightarrow> OC_ERROR)"

definition run_chunk :: "'s settlement_clients \<Rightarrow> nat list \<Rightarrow> settlement_item list \<Rightarrow> 's \<Rightarrow> outcome list \<times> 's" where
  "run_chunk cl sched items s =
     (let n = length items;
          (cs, s') = fold (advance_at cl) (sched @ [0..<n] @ [0..<n]) (map Todo items, s)
      in (map outcome_of cs, s'))"

fun run_chunks ::
    "'s settlement_clients \<Rightarrow> (nat \<Rightarrow> nat list) \<Rightarrow> nat \<Rightarrow> settlement_item list list \<Rightarrow> 's \<Rightarrow> outcome list \<times> 's" where
  "run_chunks cl scheds k [] s = ([], s)"
| "run_chunks cl scheds k (items # chunk_list) s =
     (let (ocs, s1) = run_chunk cl (scheds k) items s;
          (rest, s2) = run_chunks cl scheds (Suc k) chunk_list s1
      in (ocs @ rest, s2))"

section \<open>The settlement pass\<close>

text \<open>\<open>Math.max(1, Math.min(Number(x), b))\<close>, where NaN stays NaN.\<close>

definition clamp :: "js_number \<Rightarrow> int \<Rightarrow> js_number" where
  "clamp v b =
     (case v of JsNaN \<Rightarrow> JsNaN
      | JsInf pos \<Rightarrow> js_of_int (if pos then max 1 b else 1)
      | JsNum r \<Rightarrow> JsNum (max 1 (min r (of_int b))))"

definition config_number :: "js_number option \<Rightarrow> string option \<Rightarrow> int \<Rightarrow> js_number" where
  "config_number override setting d =
     (case override of Some v \<Rightarrow> v
      | None \<Rightarrow> (case setting of Some s \<Rightarrow> js_Number s | None \<Rightarrow> js_of_int d))"

text \<open>A number as an int32 field of a message: truncated, NaN as 0, and 0 is not sent.\<close>

definition wire_int32 :: "js_number \<Rightarrow> int option" where
  "wire_int32 v = (case v of JsNum r \<Rightarrow> if \<lfloor>r\<rfloor> = 0 then None else Some \<lfloor>r\<rfloor> | _ \<Rightarrow> None)"

text \<open>
  \<open>for (index = 0; index < items.length; index += concurrency) items.slice(index, index + concurrency)\<close>:
  slice truncates its arguments. A concurrency of NaN makes one empty slice and ends the loop.
\<close>

function slices :: "rat \<Rightarrow> rat \<Rightarrow> 'a list \<Rightarrow> 'a list list" where
  "slices c index items =
     (if c < 1 \<or> of_nat (length items) \<le> index then []
      else take (nat \<lfloor>index + c\<rfloor> - nat \<lfloor>index\<rfloor>) (drop (nat \<lfloor>index\<rfloor>) items) # slices c (index + c) items)"
  by pat_completeness auto
termination
proof (relation "measure (\<lambda>(c, index, items). nat \<lceil>of_nat (length items) - index\<rceil>)")
  fix c index :: rat and items :: "'a list"
  assume "\<not> (c < 1 \<or> of_nat (length items) \<le> index)"
  then have "0 < of_nat (length items) - index" and "of_nat (length items) - (index + c) \<le> of_nat (length items) - index - 1"
    by auto
  then have "0 < \<lceil>of_nat (length items) - index\<rceil>" and "\<lceil>of_nat (length items) - (index + c)\<rceil> \<le> \<lceil>of_nat (length items) - index\<rceil> - 1"
    using ceiling_mono [of "of_nat (length items) - (index + c)" "of_nat (length items) - index - 1"] by auto
  then show "((c, index + c, items), c, index, items) \<in> measure (\<lambda>(c, index, items). nat \<lceil>of_nat (length items) - index\<rceil>)"
    by simp
qed simp

declare slices.simps [simp del]

definition concurrency_slices :: "js_number \<Rightarrow> 'a list \<Rightarrow> 'a list list" where
  "concurrency_slices c items = (case c of JsNum r \<Rightarrow> slices r 0 items | _ \<Rightarrow> [[]])"

record settlement_stats =
  ss_scanned :: nat
  ss_settled :: nat
  ss_failed :: nat
  ss_skipped :: nat
  ss_errors :: nat

definition stats_of :: "nat \<Rightarrow> outcome list \<Rightarrow> settlement_stats" where
  "stats_of scanned ocs =
     \<lparr>ss_scanned = scanned, ss_settled = count_list ocs OC_SETTLED, ss_failed = count_list ocs OC_FAILED,
      ss_skipped = count_list ocs OC_SKIPPED, ss_errors = count_list ocs OC_ERROR\<rparr>"

record settlement_options =
  so_settlementLimit :: "js_number option"
  so_reconcileLimit :: "js_number option"
  so_autoFixBalances :: "bool option"

definition reconcilePendingTransfers ::
    "(string \<Rightarrow> string option) \<Rightarrow> 's settlement_clients \<Rightarrow> (nat \<Rightarrow> nat list) \<Rightarrow> js_number option \<Rightarrow>
     ('s, string, settlement_stats) handler" where
  "reconcilePendingTransfers cfg cl scheds limitOverride =
     bindH (sv_listSettlementCandidates cl
              (wire_int32 (clamp (config_number limitOverride (cfg ''SETTLEMENT_BATCH_SIZE'') 100) 1000))) (\<lambda>items s.
       if items = [] then (Inr (stats_of 0 []), s)
       else let concurrency = clamp (config_number None (cfg ''SETTLEMENT_CONCURRENCY'') 10) 100;
                (ocs, s') = run_chunks cl scheds 0 (concurrency_slices concurrency items) s
            in (Inr (stats_of (length items) ocs), s'))"

definition reconcileWalletBalances ::
    "(string \<Rightarrow> string option) \<Rightarrow> 's settlement_clients \<Rightarrow> js_number option \<Rightarrow> bool option \<Rightarrow>
     ('s, string, reconcile_report) handler" where
  "reconcileWalletBalances cfg cl limitOverride autoFixOverride =
     sv_reconcileWallets cl (wire_int32 (clamp (config_number limitOverride (cfg ''SETTLEMENT_RECONCILE_LIMIT'') 500) 5000))
       (case autoFixOverride of Some b \<Rightarrow> b
        | None \<Rightarrow> js_lower (coalesce (cfg ''SETTLEMENT_RECONCILE_AUTOFIX'') ''false'') = ''true'')"

definition runSettlementCycle ::
    "(string \<Rightarrow> string option) \<Rightarrow> 's settlement_clients \<Rightarrow> (nat \<Rightarrow> nat list) \<Rightarrow> settlement_options \<Rightarrow>
     ('s, string, settlement_stats \<times> reconcile_report) handler" where
  "runSettlementCycle cfg cl scheds options =
     bindH (reconcilePendingTransfers cfg cl scheds (so_settlementLimit options)) (\<lambda>settlement.
     bindH (reconcileWalletBalances cfg cl (so_reconcileLimit options) (so_autoFixBalances options)) (\<lambda>reconcile.
     returnH (settlement, reconcile)))"

text \<open>
  \<open>runSettlementJob\<close>: a tick that finds the job running does nothing; an error of the cycle is
  logged. The flag is down again when the job ends.
\<close>

definition runSettlementJob ::
    "(string \<Rightarrow> string option) \<Rightarrow> 's settlement_clients \<Rightarrow> (nat \<Rightarrow> nat list) \<Rightarrow> bool \<times> 's \<Rightarrow> bool \<times> 's" where
  "runSettlementJob cfg cl scheds state =
     (case state of (running, s) \<Rightarrow>
        if running then (running, s)
        else (False, snd (runSettlementCycle cfg cl scheds
               \<lparr>so_settlementLimit = None, so_reconcileLimit = None, so_autoFixBalances = None\<rparr> s)))"

section \<open>The composed system\<close>

text \<open>
  The stores of the two services it connects. \<open>lost\<close> says which answers do not arrive in time, and
  \<open>others\<close> is what other clients of the two services do before a call.
\<close>

record world =
  wd_tx :: db
  wd_ext :: ext_db

definition on_tx ::
    "(string \<Rightarrow> world \<Rightarrow> bool) \<Rightarrow> (world \<Rightarrow> world) \<Rightarrow> string \<Rightarrow> (db, rpc_error, 'a) handler \<Rightarrow> world \<Rightarrow> (string + 'a) \<times> world" where
  "on_tx lost others name h w =
     (let w0 = others w; (res, d') = h (wd_tx w0); w1 = w0\<lparr>wd_tx := d'\<rparr>
      in if lost name w0 then (Inl ''Timeout has occurred'', w1)
         else (case res of Inl e \<Rightarrow> (Inl (re_message e), w1) | Inr x \<Rightarrow> (Inr x, w1)))"

definition on_ext ::
    "(string \<Rightarrow> world \<Rightarrow> bool) \<Rightarrow> (world \<Rightarrow> world) \<Rightarrow> string \<Rightarrow> 'a ext_handler \<Rightarrow> world \<Rightarrow> (string + 'a) \<times> world" where
  "on_ext lost others name h w =
     (let w0 = others w; (res, d') = h (wd_ext w0); w1 = w0\<lparr>wd_ext := d'\<rparr>
      in if lost name w0 then (Inl ''Timeout has occurred'', w1)
         else (case res of Inl e \<Rightarrow> (Inl ''UNKNOWN'', w1) | Inr x \<Rightarrow> (Inr x, w1)))"

definition wallet_system ::
    "svc_env \<Rightarrow> ext_env \<Rightarrow> (string \<Rightarrow> world \<Rightarrow> bool) \<Rightarrow> (world \<Rightarrow> world) \<Rightarrow> world settlement_clients" where
  "wallet_system env xenv lost others =
     \<lparr>sv_listSettlementCandidates = (\<lambda>limit. on_tx lost others ''list'' (rpc_listSettlementCandidates limit)),
      sv_checkTransfer = (\<lambda>code ref. on_ext lost others ''check''
        (mapH (\<lambda>(st, message). (external_status_text st, message))
           (checkTransfer xenv \<lparr>kq_partnerRef = or_null ref, kq_partnerCode = or_null code\<rparr>))),
      sv_markSettlement = (\<lambda>i st note. on_tx lost others ''mark'' (rpc_markSettlement env i (or_null st) note)),
      sv_reconcileWallets = (\<lambda>limit autoFix. on_tx lost others ''reconcile'' (rpc_reconcileWallets env limit (Some autoFix)))\<rparr>"


section \<open>Every candidate reaches an outcome\<close>

definition rank :: "cand_state \<Rightarrow> nat" where
  "rank c = (case c of Todo _ \<Rightarrow> 2 | Checked _ _ _ \<Rightarrow> 1 | Done _ \<Rightarrow> 0)"

lemma rank_advance: "rank (fst (advance cl c s)) \<le> rank c - 1"
  by (cases c) (auto simp add: rank_def split: prod.splits sum.splits if_splits)

lemma rank_zero: "rank c = 0 \<longleftrightarrow> (\<exists>oc. c = Done oc)"
  by (cases c) (simp_all add: rank_def)

lemma length_advance_at [simp]: "length (fst (advance_at cl i cs)) = length (fst cs)"
  by (simp add: advance_at_def split: prod.split)

lemma length_fold_advance [simp]: "length (fst (fold (advance_at cl) is cs)) = length (fst cs)"
  by (induction "is" arbitrary: cs) simp_all

lemma rank_advance_at:
  assumes "j < length (fst cs)"
  shows "rank (fst (advance_at cl i cs) ! j) \<le> rank (fst cs ! j) - (if i = j then 1 else 0)"
  using assms rank_advance [of cl "fst cs ! i" "snd cs"]
  by (auto simp add: advance_at_def nth_list_update split: prod.splits)

lemma rank_fold_advance:
  assumes "j < length (fst cs)"
  shows "rank (fst (fold (advance_at cl) is cs) ! j) \<le> rank (fst cs ! j) - count_list is j"
  using assms
proof (induction "is" arbitrary: cs)
  case (Cons i "is")
  have "rank (fst (fold (advance_at cl) is (advance_at cl i cs)) ! j) \<le> rank (fst (advance_at cl i cs) ! j) - count_list is j"
    using Cons by simp
  then show ?case using rank_advance_at [OF Cons.prems, of cl i] by (cases "i = j") simp_all
qed simp

lemma count_list_upt: "j < n \<Longrightarrow> count_list [0..<n] j = 1"
  by (induction n) auto

lemma chunk_done:
  assumes "j < length items"
  shows "\<exists>oc. fst (fold (advance_at cl) (sched @ [0..<length items] @ [0..<length items]) (map Todo items, s)) ! j = Done oc"
proof -
  let ?is = "sched @ [0..<length items] @ [0..<length items]"
  have "rank (fst (fold (advance_at cl) ?is (map Todo items, s)) ! j) \<le> rank (map Todo items ! j) - count_list ?is j"
    using rank_fold_advance [of j "(map Todo items, s)" cl ?is] assms by simp
  also have "\<dots> = 0" using assms by (simp add: rank_def count_list_upt)
  finally show ?thesis by (simp add: rank_zero)
qed

lemma length_run_chunk [simp]: "length (fst (run_chunk cl sched items s)) = length items"
  using length_fold_advance [of cl "sched @ [0..<length items] @ [0..<length items]" "(map Todo items, s)"]
  by (simp add: run_chunk_def Let_def case_prod_unfold del: length_fold_advance)

lemma length_run_chunks [simp]: "length (fst (run_chunks cl scheds k chunk_list s)) = length (concat chunk_list)"
proof (induction chunk_list arbitrary: k s)
  case (Cons items chunk_list)
  then show ?case
    by (simp add: case_prod_unfold Let_def)
qed simp

lemma concat_slices:
  assumes "1 \<le> c" and "0 \<le> index"
  shows "concat (slices c index items) = drop (nat \<lfloor>index\<rfloor>) items"
  using assms
proof (induction c index items rule: slices.induct)
  case (1 c index items)
  show ?case
  proof (cases "of_nat (length items) \<le> index")
    case True
    then have "int (length items) \<le> \<lfloor>index\<rfloor>" by (simp add: le_floor_iff)
    then show ?thesis using True by (simp add: slices.simps nat_le_iff)
  next
    case False
    have "\<lfloor>index\<rfloor> \<le> \<lfloor>index + c\<rfloor>" using 1(2) by (intro floor_mono) simp
    then have split: "nat \<lfloor>index\<rfloor> + (nat \<lfloor>index + c\<rfloor> - nat \<lfloor>index\<rfloor>) = nat \<lfloor>index + c\<rfloor>" by simp
    have "concat (slices c (index + c) items) = drop (nat \<lfloor>index + c\<rfloor>) items"
      using 1 False by simp
    then show ?thesis using False 1(2) split
      by (subst slices.simps) (simp, metis add.commute append_take_drop_id drop_drop)
  qed
qed

lemma count_outcomes:
  "count_list ocs OC_SETTLED + count_list ocs OC_FAILED + count_list ocs OC_SKIPPED + count_list ocs OC_ERROR = length ocs"
proof (induction ocs)
  case (Cons oc ocs)
  then show ?case by (cases oc) auto
qed simp

lemma clamp_is_number: "clamp v b \<noteq> JsNaN \<Longrightarrow> \<exists>r. clamp v b = JsNum r \<and> 1 \<le> r"
  by (cases v) (auto simp add: clamp_def js_of_int_def)

text \<open>
  The counts of a settlement pass add up: when the configured concurrency is a number, every
  candidate that was listed has exactly one outcome, whatever the services answer and in whatever
  order the calls of the candidates interleave.
\<close>

theorem settlement_counts_add_up:
  assumes "clamp (config_number None (cfg ''SETTLEMENT_CONCURRENCY'') 10) 100 \<noteq> JsNaN"
    and "reconcilePendingTransfers cfg cl scheds limitOverride s = (Inr st, s')"
  shows "ss_settled st + ss_failed st + ss_skipped st + ss_errors st = ss_scanned st"
proof -
  obtain r where r: "clamp (config_number None (cfg ''SETTLEMENT_CONCURRENCY'') 10) 100 = JsNum r" "1 \<le> r"
    using clamp_is_number [OF assms(1)] by blast
  obtain items s1 where listed: "sv_listSettlementCandidates cl
      (wire_int32 (clamp (config_number limitOverride (cfg ''SETTLEMENT_BATCH_SIZE'') 100) 1000)) s = (Inr items, s1)"
    using assms(2) unfolding reconcilePendingTransfers_def bindH_eq_Inr by blast
  have items: "items = [] \<and> st = stats_of 0 [] \<or>
      st = stats_of (length items) (fst (run_chunks cl scheds 0 (concurrency_slices (JsNum r) items) s1))"
    using assms(2) unfolding reconcilePendingTransfers_def bindH_def listed r
    by (auto simp add: case_prod_unfold Let_def split: if_splits)
  have "length (fst (run_chunks cl scheds 0 (concurrency_slices (JsNum r) items) s1)) = length items"
    using concat_slices [OF r(2), of 0 items] by (simp add: concurrency_slices_def)
  then show ?thesis using items count_outcomes by (auto simp add: stats_of_def)
qed

lemma advance_none [simp]: "fold (advance_at cl) is ([], s) = ([], s)"
  by (induction "is") (simp_all add: advance_at_def)

text \<open>
  When the configured concurrency is not a number, the pass lists candidates and processes none of
  them: it reports them as scanned, counts no outcome and leaves the world as the listing left it.
\<close>

theorem settlement_nan_concurrency:
  assumes "js_Number c = JsNaN" and "cfg ''SETTLEMENT_CONCURRENCY'' = Some c"
    and "sv_listSettlementCandidates cl
      (wire_int32 (clamp (config_number limitOverride (cfg ''SETTLEMENT_BATCH_SIZE'') 100) 1000)) s = (Inr items, s1)"
  shows "reconcilePendingTransfers cfg cl scheds limitOverride s = (Inr (stats_of (length items) []), s1)"
proof -
  have "clamp (config_number None (cfg ''SETTLEMENT_CONCURRENCY'') 10) 100 = JsNaN"
    using assms(1,2) by (simp add: config_number_def clamp_def)
  then show ?thesis using assms(3)
    by (simp add: reconcilePendingTransfers_def bindH_def concurrency_slices_def run_chunk_def)
qed

section \<open>What a cycle does to the world\<close>

text \<open>
  A relation between worlds that every call respects is respected by the whole cycle, in every
  interleaving, as long as it does not ask for balances to be fixed.
\<close>

locale settlement_world =
  fixes cl :: "'s settlement_clients" and R :: "'s \<Rightarrow> 's \<Rightarrow> bool"
  assumes R_refl: "R s s"
    and R_trans: "R s t \<Longrightarrow> R t u \<Longrightarrow> R s u"
    and list_R: "R s (snd (sv_listSettlementCandidates cl n s))"
    and check_R: "R s (snd (sv_checkTransfer cl code ref s))"
    and mark_R: "R s (snd (sv_markSettlement cl i st note s))"
    and reconcile_R: "R s (snd (sv_reconcileWallets cl n False s))"
begin

lemma advance_R: "R s (snd (advance cl c s))"
proof (cases c)
  case (Todo item)
  then show ?thesis
    using mark_R [of s "si_transactionId item" "''FAILED''" "Some ''Missing external references''"]
      check_R [of s "si_externalPartner item" "si_externalRef item"]
    by (auto split: prod.splits sum.splits)
next
  case (Checked item b msg)
  then show ?thesis
    using mark_R [of s "si_transactionId item" "if b then ''SETTLED'' else ''FAILED''" "or_null msg"]
    by (auto split: prod.splits sum.splits)
qed (simp add: R_refl)

lemma advance_at_R: "R (snd cs) (snd (advance_at cl i cs))"
  using advance_R [of "snd cs" "fst cs ! i"] by (auto simp add: advance_at_def R_refl split: prod.splits)

lemma fold_advance_R: "R (snd cs) (snd (fold (advance_at cl) is cs))"
proof (induction "is" arbitrary: cs)
  case (Cons i "is")
  show ?case using R_trans [OF advance_at_R Cons.IH] by simp
qed (simp add: R_refl)

lemma run_chunk_R: "R s (snd (run_chunk cl sched items s))"
  using fold_advance_R [of "(map Todo items, s)" "sched @ [0..<length items] @ [0..<length items]"]
  by (simp add: run_chunk_def Let_def case_prod_unfold)

lemma run_chunks_R: "R s (snd (run_chunks cl scheds k chunk_list s))"
proof (induction chunk_list arbitrary: k s)
  case (Cons items chunk_list)
  show ?case using R_trans [OF run_chunk_R Cons.IH] by (simp add: case_prod_unfold Let_def)
qed (simp add: R_refl)

lemma pending_R: "R s (snd (reconcilePendingTransfers cfg cl scheds limitOverride s))"
proof -
  let ?n = "wire_int32 (clamp (config_number limitOverride (cfg ''SETTLEMENT_BATCH_SIZE'') 100) 1000)"
  obtain res s1 where l: "sv_listSettlementCandidates cl ?n s = (res, s1)" by (cases "sv_listSettlementCandidates cl ?n s")
  then have "R s s1" using list_R [of s ?n] by simp
  then show ?thesis using R_trans [OF _ run_chunks_R] l
    by (cases res) (auto simp add: reconcilePendingTransfers_def bindH_def Let_def case_prod_unfold)
qed

lemma cycle_R:
  assumes "so_autoFixBalances options = Some False"
  shows "R s (snd (runSettlementCycle cfg cl scheds options s))"
proof -
  obtain res s1 where l: "reconcilePendingTransfers cfg cl scheds (so_settlementLimit options) s = (res, s1)" by fastforce
  then have "R s s1" using pending_R [of s cfg scheds "so_settlementLimit options"] by simp
  let ?n = "wire_int32 (clamp (config_number (so_reconcileLimit options) (cfg ''SETTLEMENT_RECONCILE_LIMIT'') 500) 5000)"
  have "snd (runSettlementCycle cfg cl scheds options s) = (case res of Inl e \<Rightarrow> s1 | Inr x \<Rightarrow> snd (sv_reconcileWallets cl ?n False s1))"
    using l assms
    by (auto simp add: runSettlementCycle_def bindH_def returnH_def reconcileWalletBalances_def split: prod.split sum.split)
  then show ?thesis using \<open>R s s1\<close> R_trans [OF \<open>R s s1\<close> reconcile_R] by (cases res) simp_all
qed

end

section \<open>The cycle on the two services\<close>

definition world_ok :: "world \<Rightarrow> bool" where
  "world_ok w \<longleftrightarrow> tx_keys (wd_tx w) \<and> ext_inv (wd_ext w)"

definition world_steps :: "world \<Rightarrow> world \<Rightarrow> bool" where
  "world_steps w w' \<longleftrightarrow> (world_ok w \<longrightarrow>
     world_ok w' \<and> ledger_step\<^sup>*\<^sup>* (wd_tx w) (wd_tx w') \<and> ext_step\<^sup>*\<^sup>* (wd_ext w) (wd_ext w'))"

text \<open>The other clients of the two services only do what requests do.\<close>

definition fair_world :: "svc_env \<Rightarrow> ext_env \<Rightarrow> (world \<Rightarrow> world) \<Rightarrow> bool" where
  "fair_world env xenv others \<longleftrightarrow> others_step env \<and> fair_others xenv \<and> (\<forall>w. world_steps w (others w))"

definition fair_steps :: "svc_env \<Rightarrow> ext_env \<Rightarrow> (world \<Rightarrow> world) \<Rightarrow> world \<Rightarrow> world \<Rightarrow> bool" where
  "fair_steps env xenv others w w' \<longleftrightarrow> (fair_world env xenv others \<longrightarrow> world_steps w w')"

lemma world_steps_refl: "world_steps w w"
  by (simp add: world_steps_def)

lemma world_steps_trans: "world_steps u v \<Longrightarrow> world_steps v w \<Longrightarrow> world_steps u w"
  unfolding world_steps_def by (meson rtranclp_trans)

lemma world_steps_tx:
  "ledger_step\<^sup>*\<^sup>* (wd_tx w) d' \<Longrightarrow> world_steps w (w\<lparr>wd_tx := d'\<rparr>)"
  using steps_keep_rows [of "wd_tx w" d'] by (simp add: world_steps_def world_ok_def)

lemma world_steps_ext:
  "(ext_inv (wd_ext w) \<Longrightarrow> ext_step\<^sup>*\<^sup>* (wd_ext w) d') \<Longrightarrow> world_steps w (w\<lparr>wd_ext := d'\<rparr>)"
  using ext.reach_from [of "wd_ext w" d'] by (simp add: world_steps_def world_ok_def)

lemma on_tx_steps:
  assumes "\<And>u. world_steps u (others u)" and "\<And>d. ledger_step\<^sup>*\<^sup>* d (snd (h d))"
  shows "world_steps w (snd (on_tx lost others name h w))"
proof -
  have "world_steps (others w) ((others w)\<lparr>wd_tx := snd (h (wd_tx (others w)))\<rparr>)"
    by (rule world_steps_tx) (rule assms(2))
  with assms(1) [of w] have "world_steps w ((others w)\<lparr>wd_tx := snd (h (wd_tx (others w)))\<rparr>)" by (rule world_steps_trans)
  then show ?thesis by (simp add: on_tx_def Let_def case_prod_unfold split: sum.split)
qed

lemma on_ext_steps:
  assumes "\<And>u. world_steps u (others u)" and "\<And>d. ext_inv d \<Longrightarrow> ext_step\<^sup>*\<^sup>* d (snd (h d))"
  shows "world_steps w (snd (on_ext lost others name h w))"
proof -
  have "world_steps (others w) ((others w)\<lparr>wd_ext := snd (h (wd_ext (others w)))\<rparr>)"
    by (rule world_steps_ext) (rule assms(2))
  with assms(1) [of w] have "world_steps w ((others w)\<lparr>wd_ext := snd (h (wd_ext (others w)))\<rparr>)" by (rule world_steps_trans)
  then show ?thesis by (simp add: on_ext_def Let_def case_prod_unfold split: sum.split)
qed

text \<open>A handler that keeps a condition on the store whether it answers or fails.\<close>

definition keeps :: "('s \<Rightarrow> bool) \<Rightarrow> ('s, 'e, 'a) handler \<Rightarrow> bool" where
  "keeps P m \<longleftrightarrow> triple P m (\<lambda>_. P) P"

lemma keeps_bindH: "keeps P m \<Longrightarrow> (\<And>x. keeps P (f x)) \<Longrightarrow> keeps P (bindH m f)"
  unfolding keeps_def by (rule triple_bindH)

lemma keeps_basic: "keeps P (returnH x)" "keeps P (readH f)"
  by (simp_all add: keeps_def triple_returnH triple_readH)

lemma keepsD: "keeps P m \<Longrightarrow> P s \<Longrightarrow> P (snd (m s))"
  unfolding keeps_def using tripleD [of P m "\<lambda>_. P" P s "fst (m s)" "snd (m s)"] by (auto split: sum.splits)

lemma keeps_gap: "others_step env \<Longrightarrow> keeps (ledger_step\<^sup>*\<^sup>* d) (gap env k)"
  unfolding keeps_def gap_def by (rule triple_interfere) (meson others_step_def rtranclp_trans)

lemma reconcile_loop_steps:
  assumes "others_step env"
  shows "keeps (ledger_step\<^sup>*\<^sup>* d) (reconcile_loop env False k ws)"
proof (induction ws arbitrary: k)
  case (Cons w ws)
  have "keeps (ledger_step\<^sup>*\<^sup>* d)
      (case m of None \<Rightarrow> reconcile_loop env False j ws
       | Some item \<Rightarrow> bindH (returnH 0) (\<lambda>fixed_here. bindH (reconcile_loop env False j ws)
           (\<lambda>(items, fixed). returnH (item # items, fixed_here + fixed))))" for m :: "mismatch_item option" and j
    by (cases m) (auto simp add: case_prod_unfold intro!: keeps_bindH keeps_basic Cons.IH)
  then show ?case by (auto intro!: keeps_bindH keeps_basic keeps_gap [OF assms])
qed (simp add: keeps_basic)

lemma reconcile_steps:
  assumes "others_step env"
  shows "ledger_step\<^sup>*\<^sup>* d (snd (rpc_reconcileWallets env n (Some False) d))"
proof -
  have "keeps (ledger_step\<^sup>*\<^sup>* d) (reconcileWallets env m False)" for m
    unfolding reconcileWallets_def case_prod_unfold
    by (intro keeps_bindH keeps_basic reconcile_loop_steps [OF assms])
  from keepsD [OF this] show ?thesis by (simp add: rpc_reconcileWallets_def coalesce_def)
qed

lemma mark_steps: "ledger_step\<^sup>*\<^sup>* d (snd (rpc_markSettlement env i st note d))"
  by (auto simp add: rpc_markSettlement_def atomic_def split: sum.split intro: settle)

lemma check_steps_mapped:
  "fair_others xenv \<Longrightarrow> ext_inv d \<Longrightarrow> ext_step\<^sup>*\<^sup>* d (snd (mapH f (checkTransfer xenv q) d))"
  using check_steps [of xenv d q "fst (checkTransfer xenv q d)" "snd (checkTransfer xenv q d)"] by simp

interpretation sw: settlement_world "wallet_system env xenv lost others" "fair_steps env xenv others"
  for env xenv lost others
proof unfold_locales
  fix s t u :: world and n code ref i st nt
  show "fair_steps env xenv others s s" by (simp add: fair_steps_def world_steps_refl)
  show "fair_steps env xenv others s t \<Longrightarrow> fair_steps env xenv others t u \<Longrightarrow> fair_steps env xenv others s u"
    unfolding fair_steps_def by (blast intro: world_steps_trans)
  show "fair_steps env xenv others s (snd (sv_listSettlementCandidates (wallet_system env xenv lost others) n s))"
    by (auto simp add: fair_steps_def fair_world_def wallet_system_def rpc_listSettlementCandidates_def readH_def intro!: on_tx_steps)
  show "fair_steps env xenv others s (snd (sv_checkTransfer (wallet_system env xenv lost others) code ref s))"
    by (auto simp add: fair_steps_def fair_world_def wallet_system_def intro!: on_ext_steps check_steps_mapped)
  show "fair_steps env xenv others s (snd (sv_markSettlement (wallet_system env xenv lost others) i st nt s))"
    by (auto simp add: fair_steps_def fair_world_def wallet_system_def intro!: on_tx_steps mark_steps)
  show "fair_steps env xenv others s (snd (sv_reconcileWallets (wallet_system env xenv lost others) n False s))"
    by (auto simp add: fair_steps_def fair_world_def wallet_system_def intro!: on_tx_steps reconcile_steps)
qed


section \<open>What the counts mean\<close>

text \<open>
  A store in which the outcome that was reported for a transaction can be read. Reporting records the
  outcome, and neither checking a transfer nor reporting on another transaction disturbs it.
\<close>

locale settlement_record =
  fixes cl :: "'s settlement_clients" and recorded :: "bool \<Rightarrow> string \<Rightarrow> 's \<Rightarrow> bool"
  assumes mark_records:
      "sv_markSettlement cl i (if b then ''SETTLED'' else ''FAILED'') m s = (Inr ok, s') \<Longrightarrow> recorded b i s'"
    and mark_keeps: "i \<noteq> j \<Longrightarrow> recorded b i s \<Longrightarrow> recorded b i (snd (sv_markSettlement cl j st m s))"
    and check_keeps: "recorded b i s \<Longrightarrow> recorded b i (snd (sv_checkTransfer cl code ref s))"
begin

definition told :: "settlement_item \<Rightarrow> cand_state \<Rightarrow> 's \<Rightarrow> bool" where
  "told item c s \<longleftrightarrow>
     (case c of Todo it \<Rightarrow> it = item | Checked it _ _ \<Rightarrow> it = item
      | Done oc \<Rightarrow> (oc = OC_SETTLED \<longrightarrow> recorded True (si_transactionId item) s) \<and>
                   (oc = OC_FAILED \<longrightarrow> recorded False (si_transactionId item) s))"

lemma advance_told: "told item c s \<Longrightarrow> told item (fst (advance cl c s)) (snd (advance cl c s))"
  by (cases c)
    (auto simp add: told_def split: prod.split sum.split if_splits
      dest: mark_records [where b = True, simplified] mark_records [where b = False, simplified])

lemma advance_keeps:
  assumes "told item c s" and "i \<noteq> si_transactionId item" and "recorded b i s"
  shows "recorded b i (snd (advance cl c s))"
proof -
  have m: "recorded b i s'" if "sv_markSettlement cl (si_transactionId item) st m s = (x, s')" for st m x s'
    using mark_keeps [OF assms(2,3), of st m] that by simp
  have k: "recorded b i s'" if "sv_checkTransfer cl code ref s = (x, s')" for code ref x s'
    using check_keeps [OF assms(3), of code ref] that by simp
  show ?thesis using assms by (cases c) (auto simp add: told_def split: prod.split sum.split dest: m k)
qed

lemma advance_told_other:
  assumes "told item c s" and "told item' c' s" and "si_transactionId item \<noteq> si_transactionId item'"
  shows "told item' c' (snd (advance cl c s))"
  using assms(2) advance_keeps [OF assms(1) assms(3) [symmetric]] by (cases c') (auto simp add: told_def)

definition all_told :: "settlement_item list \<Rightarrow> cand_state list \<times> 's \<Rightarrow> bool" where
  "all_told items cs \<longleftrightarrow> length (fst cs) = length items \<and> (\<forall>j < length items. told (items ! j) (fst cs ! j) (snd cs))"

lemma advance_at_told:
  assumes "distinct (map si_transactionId items)" and "all_told items cs"
  shows "all_told items (advance_at cl i cs)"
proof (cases "i < length items")
  case True
  let ?c = "fst (advance cl (fst cs ! i) (snd cs))" and ?s = "snd (advance cl (fst cs ! i) (snd cs))"
  have i: "told (items ! i) (fst cs ! i) (snd cs)" using assms(2) True by (simp add: all_told_def)
  have "told (items ! j) ((fst cs)[i := ?c] ! j) ?s" if j: "j < length items" for j
  proof (cases "i = j")
    case True
    then show ?thesis using advance_told [OF i] assms(2) j by (simp add: all_told_def)
  next
    case False
    have "si_transactionId (items ! i) \<noteq> si_transactionId (items ! j)"
      using assms(1) True j False by (simp add: distinct_conv_nth)
    then show ?thesis using advance_told_other [OF i, of "items ! j" "fst cs ! j"] assms(2) j False by (simp add: all_told_def)
  qed
  then show ?thesis using assms(2) True by (simp add: all_told_def advance_at_def case_prod_unfold Let_def)
qed (use assms(2) in \<open>simp add: all_told_def advance_at_def\<close>)

lemma fold_told:
  assumes "distinct (map si_transactionId items)" and "all_told items cs"
  shows "all_told items (fold (advance_at cl) is cs)"
  using assms(2) by (induction "is" arbitrary: cs) (simp_all add: advance_at_told [OF assms(1)])

lemma fold_keeps:
  assumes "distinct (map si_transactionId items)" and "all_told items cs"
    and "i \<notin> si_transactionId ` set items" and "recorded b i (snd cs)"
  shows "recorded b i (snd (fold (advance_at cl) is cs))"
  using assms(2,4)
proof (induction "is" arbitrary: cs)
  case (Cons k "is")
  have "recorded b i (snd (advance_at cl k cs))"
  proof (cases "k < length items")
    case True
    then have "told (items ! k) (fst cs ! k) (snd cs)" using Cons.prems(1) by (simp add: all_told_def)
    moreover have "i \<noteq> si_transactionId (items ! k)" using assms(3) True by auto
    ultimately have "recorded b i (snd (advance cl (fst cs ! k) (snd cs)))"
      by (rule advance_keeps [OF _ _ Cons.prems(2)])
    then show ?thesis using Cons.prems(1) True
      by (simp add: advance_at_def all_told_def case_prod_unfold Let_def)
  qed (use Cons.prems in \<open>simp add: advance_at_def all_told_def\<close>)
  then show ?case using Cons advance_at_told [OF assms(1)] by simp
qed simp

text \<open>The reading of a list of outcomes.\<close>

definition true_counts :: "settlement_item list \<Rightarrow> outcome list \<Rightarrow> 's \<Rightarrow> bool" where
  "true_counts items ocs s \<longleftrightarrow>
     list_all2 (\<lambda>item oc. (oc = OC_SETTLED \<longrightarrow> recorded True (si_transactionId item) s) \<and>
       (oc = OC_FAILED \<longrightarrow> recorded False (si_transactionId item) s)) items ocs"

lemma run_chunk_true:
  assumes "distinct (map si_transactionId items)"
  shows "true_counts items (fst (run_chunk cl sched items s)) (snd (run_chunk cl sched items s))"
proof -
  let ?e = "fold (advance_at cl) (sched @ [0..<length items] @ [0..<length items]) (map Todo items, s)"
  have "all_told items ?e" by (rule fold_told [OF assms]) (simp add: all_told_def told_def)
  then have "told (items ! j) (fst ?e ! j) (snd ?e)" if "j < length items" for j using that by (simp add: all_told_def)
  moreover have "\<exists>oc. fst ?e ! j = Done oc" if "j < length items" for j using chunk_done [OF that] by simp
  ultimately have "(outcome_of (fst ?e ! j) = OC_SETTLED \<longrightarrow> recorded True (si_transactionId (items ! j)) (snd ?e)) \<and>
      (outcome_of (fst ?e ! j) = OC_FAILED \<longrightarrow> recorded False (si_transactionId (items ! j)) (snd ?e))" if "j < length items" for j
    using that by (fastforce simp add: told_def outcome_of_def)
  moreover have "length (fst ?e) = length items" by simp
  ultimately show ?thesis
    by (simp add: true_counts_def run_chunk_def Let_def case_prod_unfold list_all2_conv_all_nth del: length_fold_advance)
qed

lemma run_chunk_keeps:
  assumes "distinct (map si_transactionId items)" and "i \<notin> si_transactionId ` set items" and "recorded b i s"
  shows "recorded b i (snd (run_chunk cl sched items s))"
  using fold_keeps [OF assms(1) _ assms(2), of "(map Todo items, s)" b "sched @ [0..<length items] @ [0..<length items]"] assms(3)
  by (simp add: run_chunk_def Let_def case_prod_unfold all_told_def told_def)

lemma run_chunks_keeps:
  assumes "distinct (map si_transactionId (concat chunk_list))" and "i \<notin> si_transactionId ` set (concat chunk_list)"
    and "recorded b i s"
  shows "recorded b i (snd (run_chunks cl scheds k chunk_list s))"
  using assms
proof (induction chunk_list arbitrary: k s)
  case (Cons items chunk_list)
  have "recorded b i (snd (run_chunk cl (scheds k) items s))"
    by (rule run_chunk_keeps) (use Cons.prems in auto)
  moreover have "i \<notin> si_transactionId ` set (concat chunk_list)" using Cons.prems(2) by auto
  ultimately show ?case using Cons.IH Cons.prems(1) by (simp add: case_prod_unfold Let_def)
qed simp

lemma run_chunks_true:
  assumes "distinct (map si_transactionId (concat chunk_list))"
  shows "true_counts (concat chunk_list) (fst (run_chunks cl scheds k chunk_list s)) (snd (run_chunks cl scheds k chunk_list s))"
  using assms
proof (induction chunk_list arbitrary: k s)
  case (Cons items chunk_list)
  let ?s1 = "snd (run_chunk cl (scheds k) items s)" and ?o1 = "fst (run_chunk cl (scheds k) items s)"
  let ?s2 = "snd (run_chunks cl scheds (Suc k) chunk_list ?s1)"
  have d: "distinct (map si_transactionId items)" "distinct (map si_transactionId (concat chunk_list))"
    and disj: "si_transactionId ` set items \<inter> si_transactionId ` set (concat chunk_list) = {}"
    using Cons.prems by auto
  have "true_counts items ?o1 ?s1" by (rule run_chunk_true [OF d(1)])
  moreover have "recorded b (si_transactionId item) ?s2" if "recorded b (si_transactionId item) ?s1" "item \<in> set items" for b item
    by (rule run_chunks_keeps [OF d(2) _ that(1)]) (use disj that(2) in auto)
  ultimately have "true_counts items ?o1 ?s2"
    unfolding true_counts_def by (fastforce simp add: list_all2_conv_all_nth)
  then show ?case using Cons.IH [OF d(2), of "Suc k" ?s1]
    by (simp add: true_counts_def case_prod_unfold Let_def list_all2_appendI)
qed (simp add: true_counts_def)

end

text \<open>The settlement status that the transaction service has for a transaction, if it has the transaction.\<close>

definition recorded_settlement :: "bool \<Rightarrow> string \<Rightarrow> world \<Rightarrow> bool" where
  "recorded_settlement b i w \<longleftrightarrow>
     (\<forall>t. find_tx (wd_tx w) i = Some t \<longrightarrow> tx_settlementStatus t = (if b then ST_SETTLED else ST_FAILED))"

lemma find_tx_save_other:
  assumes "tx_id r \<noteq> i"
  shows "find_row (\<lambda>t. tx_id t = i) (save_row tx_id r ts) = find_row (\<lambda>t. tx_id t = i) ts"
  using assms by (induction ts) (auto simp add: row_simps save_row_def)

lemma find_tx_save_same:
  assumes "find_row (\<lambda>t. tx_id t = tx_id r) ts \<noteq> None"
  shows "find_row (\<lambda>t. tx_id t = tx_id r) (save_row tx_id r ts) = Some r"
  using assms by (induction ts) (auto simp add: row_simps save_row_def split: if_splits)

lemma tx_id_settled_to: "tx_id (settled_to env st m t) = tx_id t"
  by (simp add: settled_to_def settle_row_def fail_row_def)

lemma markSettlement_rows:
  assumes "markSettlement env i st m d = Inr (b, d')"
  shows "(find_tx d i = None \<and> d' = d) \<or>
    (\<exists>t. find_tx d i = Some t \<and> d_txs d' = save_row tx_id (settled_to env st m t) (d_txs d))"
  using assms
proof (cases rule: markSettlement_cases)
  case (credit t d1)
  then have "d_txs d1 = d_txs d" using tx_still_credits(1) [OF credit(5)] by (simp add: tx_still_def)
  then show ?thesis using credit by (simp add: settled_to_def)
next
  case (refund t d1)
  then have "d_txs d1 = d_txs d" using tx_still_credits(2) [OF refund(5)] by (simp add: tx_still_def)
  then show ?thesis using refund by (simp add: settled_to_def)
qed simp_all

lemma markSettlement_records:
  assumes "markSettlement env i (Some (if b then ''SETTLED'' else ''FAILED'')) m d = Inr (ok, d')"
    and "find_tx d' i = Some t"
  shows "tx_settlementStatus t = (if b then ST_SETTLED else ST_FAILED)"
proof -
  let ?st = "Some (if b then ''SETTLED'' else ''FAILED'')"
  obtain u where u: "find_tx d i = Some u" "d_txs d' = save_row tx_id (settled_to env ?st m u) (d_txs d)"
    using markSettlement_rows [OF assms(1)] assms(2) by auto
  have "tx_id u = i" using find_txD [OF u(1)] by simp
  then have "find_tx d' i = Some (settled_to env ?st m u)"
    using find_tx_save_same [of "settled_to env ?st m u" "d_txs d"] u by (simp add: find_tx_def tx_id_settled_to)
  then have "t = settled_to env ?st m u" using assms(2) by simp
  then show ?thesis by (cases b) (simp_all add: settled_to_def settle_row_def fail_row_def js_simps)
qed

lemma markSettlement_other:
  assumes "i \<noteq> j"
  shows "find_tx (snd (atomic (markSettlement env j st m) d)) i = find_tx d i"
proof (cases "markSettlement env j st m d")
  case (Inr x)
  then obtain b d' where x: "markSettlement env j st m d = Inr (b, d')" by (cases x) simp
  from markSettlement_rows [OF x] show ?thesis
  proof (elim disjE exE conjE)
    fix t
    assume t: "find_tx d j = Some t" "d_txs d' = save_row tx_id (settled_to env st m t) (d_txs d)"
    have "tx_id (settled_to env st m t) \<noteq> i" using find_txD [OF t(1)] assms by (simp add: tx_id_settled_to)
    then have "find_tx d' i = find_tx d i" unfolding find_tx_def t(2) by (rule find_tx_save_other)
    then show ?thesis by (simp add: atomic_def x)
  qed (simp add: atomic_def x)
qed (simp add: atomic_def)

interpretation sr: settlement_record "wallet_system env xenv lost (\<lambda>w. w)" recorded_settlement
  for env xenv lost
proof unfold_locales
  fix i j b m s s' ok st code ref
  show "recorded_settlement b i s'" if mark: "sv_markSettlement (wallet_system env xenv lost (\<lambda>w. w)) i
      (if b then ''SETTLED'' else ''FAILED'') m s = (Inr ok, s')"
  proof -
    have "or_null (if b then ''SETTLED'' else ''FAILED'') = Some (if b then ''SETTLED'' else ''FAILED'')"
      by (simp add: or_null_def)
    then have "markSettlement env i (Some (if b then ''SETTLED'' else ''FAILED'')) m (wd_tx s) = Inr (ok, wd_tx s')"
      using mark
      by (auto simp add: wallet_system_def on_tx_def rpc_markSettlement_def wrapGrpc_def atomic_def Let_def case_prod_unfold
        split: if_splits sum.splits)
    then show ?thesis using markSettlement_records by (auto simp add: recorded_settlement_def)
  qed
  show "recorded_settlement b i (snd (sv_markSettlement (wallet_system env xenv lost (\<lambda>w. w)) j st m s))"
    if "i \<noteq> j" "recorded_settlement b i s"
  proof -
    have "wd_tx (snd (sv_markSettlement (wallet_system env xenv lost (\<lambda>w. w)) j st m s)) =
        snd (atomic (markSettlement env j (or_null st) m) (wd_tx s))"
      by (simp add: wallet_system_def on_tx_def rpc_markSettlement_def Let_def case_prod_unfold split: sum.split)
    then show ?thesis using that markSettlement_other by (simp add: recorded_settlement_def)
  qed
  show "recorded_settlement b i (snd (sv_checkTransfer (wallet_system env xenv lost (\<lambda>w. w)) code ref s))"
    if "recorded_settlement b i s"
    using that by (simp add: recorded_settlement_def wallet_system_def on_ext_def Let_def case_prod_unfold split: sum.split)
qed

lemma count_le_card:
  assumes "list_all2 (\<lambda>item oc. oc = v \<longrightarrow> key item \<in> S) items ocs" and "distinct (map key items)" and "finite S"
  shows "count_list ocs v \<le> card S"
proof -
  let ?J = "{j. j < length ocs \<and> ocs ! j = v}"
  have len: "length items = length ocs" using assms(1) by (rule list_all2_lengthD)
  have "count_list ocs v = card ?J" by (simp add: count_list_eq_length_filter length_filter_conv_card eq_commute)
  also have "\<dots> = card ((\<lambda>j. key (items ! j)) ` ?J)"
    using assms(2) len by (intro card_image [symmetric]) (auto simp add: inj_on_def distinct_conv_nth)
  also have "\<dots> \<le> card S"
    using assms(1,3) by (intro card_mono) (auto simp add: list_all2_conv_all_nth)
  finally show ?thesis .
qed

text \<open>The transactions that were waiting for settlement in one store and have a given status in another.\<close>

definition decided :: "settlement_status \<Rightarrow> db \<Rightarrow> db \<Rightarrow> string set" where
  "decided st d d' =
     {i. (\<exists>t. find_tx d i = Some t \<and> settlement_candidate t) \<and> (\<exists>t. find_tx d' i = Some t \<and> tx_settlementStatus t = st)}"

lemma finite_decided: "finite (decided st d d')"
proof (rule finite_subset)
  show "decided st d d' \<subseteq> tx_id ` set (d_txs d)"
    using find_txD by (fastforce simp add: decided_def)
qed simp

lemma candidates_distinct:
  assumes "tx_keys d"
  shows "distinct (map si_transactionId (map settlement_item_of (listSettlementCandidates n d)))"
proof -
  have "distinct (d_txs d)" "inj_on tx_id (set (d_txs d))" using assms by (simp_all add: tx_keys_def distinct_map)
  moreover have "set (listSettlementCandidates n d) \<subseteq> set (d_txs d)"
    using in_set_takeD by (fastforce simp add: listSettlementCandidates_def)
  ultimately have "distinct (map tx_id (listSettlementCandidates n d))"
    by (auto simp add: distinct_map listSettlementCandidates_def intro: inj_on_subset)
  then show ?thesis by (simp add: settlement_item_of_def comp_def)
qed

lemma concat_concurrency:
  "concat (concurrency_slices (clamp v b) items) = items \<or> concat (concurrency_slices (clamp v b) items) = []"
proof (cases "clamp v b = JsNaN")
  case False
  then obtain r where "clamp v b = JsNum r" "1 \<le> r" using clamp_is_number by blast
  then show ?thesis using concat_slices [of r 0 items] by (simp add: concurrency_slices_def)
qed (simp add: concurrency_slices_def)

lemma candidate_found:
  assumes "tx_keys d" and "t \<in> set (listSettlementCandidates n d)"
  shows "find_tx d (tx_id t) = Some t \<and> settlement_candidate t"
proof -
  have "t \<in> set (d_txs d)" "settlement_candidate t"
    using assms(2) in_set_takeD by (fastforce simp add: listSettlementCandidates_def)+
  then show ?thesis using find_row_key [of tx_id "d_txs d" t] assms(1) by (simp add: tx_keys_def find_tx_def)
qed

lemma row_persists:
  assumes "ledger_step\<^sup>*\<^sup>* d d'" and "tx_keys d" and "find_tx d i = Some t"
  shows "find_tx d' i \<noteq> None"
proof -
  have "tx_core t \<in> tx_core ` set (d_txs d')" using steps_keep_rows [OF assms(1,2)] find_txD [OF assms(3)] by blast
  then obtain t' where "t' \<in> set (d_txs d')" "tx_core t' = tx_core t" by auto
  then show ?thesis using find_txD [OF assms(3)] tx_coreD(1) [of t' t] by (auto simp add: find_tx_def find_row_None_iff)
qed

text \<open>
  C16. The counts are true: with no other client meanwhile, at most as many candidates are counted as
  settled (failed) as there are transactions that were waiting before the pass and are settled
  (failed) in the store after it, for every interleaving, every loss of answers and every partner.
\<close>

theorem settlement_counts_true:
  assumes "fair_world env xenv (\<lambda>w. w)" and "world_ok w"
    and "reconcilePendingTransfers cfg (wallet_system env xenv lost (\<lambda>w. w)) scheds limitOverride w = (Inr st, w')"
  shows "ss_settled st \<le> card (decided ST_SETTLED (wd_tx w) (wd_tx w')) \<and>
    ss_failed st \<le> card (decided ST_FAILED (wd_tx w) (wd_tx w'))"
proof -
  let ?cl = "wallet_system env xenv lost (\<lambda>w. w)"
  let ?n = "or_int (wire_int32 (clamp (config_number limitOverride (cfg ''SETTLEMENT_BATCH_SIZE'') 100) 1000)) 100"
  let ?items = "map settlement_item_of (listSettlementCandidates ?n (wd_tx w))"
  let ?c = "clamp (config_number None (cfg ''SETTLEMENT_CONCURRENCY'') 10) 100"
  let ?run = "run_chunks ?cl scheds 0 (concurrency_slices ?c ?items) w"
  have keys: "tx_keys (wd_tx w)" using assms(2) by (simp add: world_ok_def)
  have "sv_listSettlementCandidates ?cl (wire_int32 (clamp (config_number limitOverride (cfg ''SETTLEMENT_BATCH_SIZE'') 100) 1000)) w
      = (Inr ?items, w)"
    using assms(3) unfolding reconcilePendingTransfers_def bindH_eq_Inr
    by (auto simp add: wallet_system_def on_tx_def rpc_listSettlementCandidates_def readH_def Let_def split: if_splits)
  then have st: "st = stats_of 0 [] \<or> (st = stats_of (length ?items) (fst ?run) \<and> w' = snd ?run)"
    using assms(3) by (auto simp add: reconcilePendingTransfers_def bindH_def case_prod_unfold Let_def split: if_splits)
  have "ledger_step\<^sup>*\<^sup>* (wd_tx w) (wd_tx w')"
    using sw.pending_R [of env xenv "\<lambda>w. w" w cfg lost scheds limitOverride] assms
    by (simp add: fair_steps_def world_steps_def)
  then have found: "find_tx (wd_tx w') (tx_id t) \<noteq> None" if "t \<in> set (listSettlementCandidates ?n (wd_tx w))" for t
    using row_persists [OF _ keys] candidate_found [OF keys that] by blast
  have items: "concat (concurrency_slices ?c ?items) = ?items \<or> concat (concurrency_slices ?c ?items) = []"
    by (rule concat_concurrency)
  have "count_list (fst ?run) v \<le> card (decided u (wd_tx w) (wd_tx (snd ?run)))"
    if run: "w' = snd ?run" and v: "(v, u) \<in> {(OC_SETTLED, ST_SETTLED), (OC_FAILED, ST_FAILED)}" for v u
  proof (rule count_le_card [where key = si_transactionId])
    let ?l = "concat (concurrency_slices ?c ?items)"
    show d: "distinct (map si_transactionId ?l)" using items candidates_distinct [OF keys, of ?n] by (metis distinct.simps(1) list.map(1))
    note true = sr.run_chunks_true [OF d, of env xenv lost scheds 0 w, unfolded sr.true_counts_def]
    have decided_item: "si_transactionId item \<in> decided u (wd_tx w) (wd_tx (snd ?run))"
      if told: "recorded_settlement (v = OC_SETTLED) (si_transactionId item) (snd ?run)" and mem: "item \<in> set ?l" for item
    proof -
      have "item \<in> set ?items" using items mem by (metis empty_iff list.set(1))
      obtain t where t: "t \<in> set (listSettlementCandidates ?n (wd_tx w))" "item = settlement_item_of t"
        using \<open>item \<in> set ?items\<close> by auto
      then show ?thesis using candidate_found [OF keys t(1)] found [OF t(1)] told v run
        by (auto simp add: decided_def recorded_settlement_def settlement_item_of_def)
    qed
    show "list_all2 (\<lambda>item oc. oc = v \<longrightarrow> si_transactionId item \<in> decided u (wd_tx w) (wd_tx (snd ?run))) ?l (fst ?run)"
    proof (rule list.rel_mono_strong [OF true], rule impI)
      fix item oc
      assume mem: "item \<in> set ?l" and "oc = v"
        and "(oc = OC_SETTLED \<longrightarrow> recorded_settlement True (si_transactionId item) (snd ?run)) \<and>
          (oc = OC_FAILED \<longrightarrow> recorded_settlement False (si_transactionId item) (snd ?run))"
      then have "recorded_settlement (v = OC_SETTLED) (si_transactionId item) (snd ?run)" using v by auto
      then show "si_transactionId item \<in> decided u (wd_tx w) (wd_tx (snd ?run))" using mem by (rule decided_item)
    qed
  qed (rule finite_decided)
  then show ?thesis using st by (auto simp add: stats_of_def)
qed

section \<open>Witnesses\<close>

text \<open>One deposit that was never handed to a partner is waiting, and one transfer at the mock partner.\<close>

definition example_world :: world where
  "example_world = \<lparr>wd_tx = store1, wd_ext = sample_db\<rparr>"

abbreviation example_system :: "world settlement_clients" where
  "example_system \<equiv> wallet_system example_env (sample_env 1007) (\<lambda>_ _. False) (\<lambda>w. w)"

lemma example_fair: "fair_world example_env (sample_env 1007) (\<lambda>w. w)"
  by (simp add: fair_world_def example_env_quiet sample_fair world_steps_refl)

lemma example_world_ok: "world_ok example_world"
proof -
  have "tx_keys store1" using example_books(1) by (auto simp add: books_ok_def ledger_inv_defs tx_keys_def)
  then show ?thesis by (simp add: world_ok_def example_world_def sample_inv)
qed

lemma pending_answers:
  "\<exists>st w'. reconcilePendingTransfers cfg example_system scheds limitOverride w = (Inr st, w')"
  by (simp add: reconcilePendingTransfers_def bindH_def wallet_system_def on_tx_def rpc_listSettlementCandidates_def
    readH_def case_prod_unfold Let_def)

theorem settlement_counts_add_up_witness:
  "\<exists>st w'. reconcilePendingTransfers Map.empty example_system (\<lambda>_. []) None example_world = (Inr st, w') \<and>
    ss_settled st + ss_failed st + ss_skipped st + ss_errors st = ss_scanned st"
proof -
  have "clamp (config_number None (Map.empty ''SETTLEMENT_CONCURRENCY'') 10) 100 \<noteq> JsNaN"
    by (simp add: config_number_def clamp_def js_of_int_def)
  from settlement_counts_add_up [OF this] pending_answers [of Map.empty "\<lambda>_. []" None example_world]
  show ?thesis by metis
qed

definition nan_config :: "string \<Rightarrow> string option" where
  "nan_config = Map.empty(''SETTLEMENT_CONCURRENCY'' \<mapsto> ''ten'')"

theorem settlement_nan_concurrency_witness:
  "\<exists>items :: settlement_item list. reconcilePendingTransfers nan_config example_system (\<lambda>_. []) None example_world =
    (Inr (stats_of (length items) []), example_world)"
proof -
  have n: "js_Number ''ten'' = JsNaN" by code_simp
  have c: "nan_config ''SETTLEMENT_CONCURRENCY'' = Some ''ten''" by (simp add: nan_config_def)
  let ?n = "wire_int32 (clamp (config_number None (nan_config ''SETTLEMENT_BATCH_SIZE'') 100) 1000)"
  obtain items where "sv_listSettlementCandidates example_system ?n example_world = (Inr items, example_world)"
    by (simp add: wallet_system_def on_tx_def rpc_listSettlementCandidates_def readH_def Let_def)
  from settlement_nan_concurrency [OF n c this, of "\<lambda>_. []"] show ?thesis by (rule exI [of _ items])
qed


theorem settlement_counts_true_witness:
  "\<exists>st w'. reconcilePendingTransfers Map.empty example_system (\<lambda>_. []) None example_world = (Inr st, w') \<and>
    ss_failed st \<le> card (decided ST_FAILED store1 (wd_tx w'))"
proof -
  obtain st w' where run: "reconcilePendingTransfers Map.empty example_system (\<lambda>_. []) None example_world = (Inr st, w')"
    using pending_answers [of Map.empty "\<lambda>_. []" None example_world] by blast
  then show ?thesis using settlement_counts_true [OF example_fair example_world_ok run] by (auto simp add: example_world_def)
qed

end
