(* ===== verification/Chain_Adapter.thy ===== *)
theory Chain_Adapter
  imports Tx_Env JS_Text
begin

text \<open>
  The chain service (\<^verbatim>\<open>chain-service/src/chain/chain.adapter.service.ts\<close>): the adapter
  between the transaction service and the gateway of the ledger network. It posts a transfer with
  retries, reads the receipts that come back, asks observer nodes to confirm them and signs them. The
  HTTP client, SHA-2 and SHA-3, the signing key and the time-stamping authority are parameters, held
  in \<open>chain_env\<close>.
\<close>

section \<open>Types\<close>

datatype anchor_status = AN_ANCHORED | AN_PENDING | AN_FAILED

record anchor_result =
  an_chainStatus :: anchor_status
  an_txId :: string
  an_blockNumber :: js_number
  an_commitmentHash :: string
  an_receiptJson :: string

text \<open>The request; protobuf leaves an empty string undefined.\<close>

record anchor_data =
  ad_transactionId :: string
  ad_fromUserId :: string
  ad_toUserId :: "string option"
  ad_amount :: raw_amount
  ad_memo :: "string option"
  ad_internalRef :: "string option"
  ad_settlementRef :: "string option"
  ad_timestamp :: "string option"
  ad_nonce :: string
  ad_idempotencyKey :: string
  ad_riskFlag :: "string option"

text \<open>
  What goes wrong: an axios error without a response or with one (its status and body), an error of
  the adapter itself, or a gRPC status that is already decided.
\<close>

datatype chain_grpc_code = CG_INVALID_ARGUMENT | CG_NOT_FOUND | CG_ALREADY_EXISTS | CG_RESOURCE_EXHAUSTED
  | CG_UNAVAILABLE | CG_INTERNAL

datatype chain_error =
    NoResponse string
  | HttpError int json string
  | PlainError string
  | RpcError chain_grpc_code string

record tsa_info =
  ti_messageDigest :: string
  ti_genTime :: int
  ti_serialNumber :: string
  ti_policy :: string
  ti_hashAlgorithm :: string

record tsa_reply =
  ts_status :: int
  ts_statusString :: "string option"
  ts_token :: "string option"
  ts_response :: string
  ts_info :: "tsa_info option"

record chain_env =
  ch_observers :: nat
  ch_requireQuorum :: bool
  ch_signingEnabled :: bool
  ch_keyId :: string
  ch_sign :: "(string \<Rightarrow> string) option"
  ch_fingerprint :: string
  ch_tsaEnabled :: bool
  ch_tsaFailOpen :: bool
  ch_tsaUrl :: string
  ch_tsa :: "string \<Rightarrow> string + tsa_reply"
  ch_now :: int
  ch_dateParse :: "string \<Rightarrow> int option"
  ch_localeLe :: "string \<Rightarrow> string \<Rightarrow> bool"
  ch_sha256 :: "string \<Rightarrow> string"
  ch_sha3 :: "string \<Rightarrow> string"
  ch_post :: "nat \<Rightarrow> json \<Rightarrow> chain_error + json"
  ch_get :: "string \<Rightarrow> chain_error + json"
  ch_observe :: "nat \<Rightarrow> string \<Rightarrow> chain_error + json"

section \<open>Configuration\<close>

text \<open>\<open>String(cfg.get(k) ?? d).toLowerCase()\<close>.\<close>

definition config_flag :: "(string \<Rightarrow> string option) \<Rightarrow> string \<Rightarrow> string \<Rightarrow> string" where
  "config_flag cfg k d = js_lower (coalesce (cfg k) d)"

definition observerUrls :: "string \<Rightarrow> string option \<Rightarrow> string list" where
  "observerUrls baseURL raw =
     filter (\<lambda>v. v \<noteq> [] \<and> v \<noteq> baseURL) (map js_trim (js_split (CHR '','') (coalesce raw [])))"

text \<open>
  The constructor. The clients (one per address), the key pair and the rest of the platform come with
  \<open>platform\<close>.
\<close>

definition chainAdapter ::
    "(string \<Rightarrow> string option) \<Rightarrow> (string \<Rightarrow> string \<Rightarrow> chain_error + json) \<Rightarrow> chain_env \<Rightarrow> string + chain_env" where
  "chainAdapter cfg observe platform =
     (let baseURL = js_trim (coalesce (cfg ''CHAIN_NODE_URL'') []);
          urls = observerUrls baseURL (cfg ''CHAIN_OBSERVER_URLS'');
          signing = config_flag cfg ''RECEIPT_SIGNING_ENABLED'' ''true'' \<noteq> ''false''
      in if baseURL = [] then Inl ''CHAIN_NODE_URL is required''
         else Inr (platform
           \<lparr>ch_observers := length urls, ch_observe := (\<lambda>i. observe (urls ! i)),
            ch_requireQuorum := config_flag cfg ''CHAIN_REQUIRE_TRANSPARENCY_QUORUM'' ''false'' = ''true'',
            ch_signingEnabled := signing,
            ch_keyId := or_str (map_option js_trim (cfg ''RECEIPT_SIGNING_KEY_ID'')) ''kufi-receipt-ed25519-v1'',
            ch_sign := (if signing then ch_sign platform else None),
            ch_fingerprint := (if signing then ch_fingerprint platform else []),
            ch_tsaEnabled := config_flag cfg ''RECEIPT_TSA_ENABLED'' ''false'' = ''true'',
            ch_tsaFailOpen := config_flag cfg ''RECEIPT_TSA_FAIL_OPEN'' ''true'' \<noteq> ''false'',
            ch_tsaUrl := or_str (map_option js_trim (cfg ''RECEIPT_TSA_URL'')) ''https://freetsa.org/tsr''\<rparr>))"

section \<open>Reading loose values\<close>

definition asString :: "json option \<Rightarrow> string option" where
  "asString v = (case v of Some (JString s) \<Rightarrow> if js_trim s \<noteq> [] then Some s else None | _ \<Rightarrow> None)"

text \<open>\<open>v?.k\<close> and \<open>v ?? d\<close>.\<close>

definition opt_prop :: "string \<Rightarrow> json option \<Rightarrow> json option" where
  "opt_prop k v = (case v of None \<Rightarrow> None | Some w \<Rightarrow> json_prop k w)"

definition or_else :: "'a option \<Rightarrow> 'a option \<Rightarrow> 'a option" where
  "or_else x y = (case x of None \<Rightarrow> y | Some _ \<Rightarrow> x)"

definition nullish :: "json option \<Rightarrow> json \<Rightarrow> json" where
  "nullish v d = (case v of None \<Rightarrow> d | Some JNull \<Rightarrow> d | Some w \<Rightarrow> w)"

text \<open>\<open>Number(v)\<close>, where undefined is NaN and null is 0.\<close>

definition number_of :: "json option \<Rightarrow> js_number" where
  "number_of v = (case v of None \<Rightarrow> JsNaN | Some w \<Rightarrow> json_Number w)"

definition chain_normalizeAmount :: "raw_amount \<Rightarrow> js_number" where
  "chain_normalizeAmount raw =
     (case raw of
        AmtNumber v \<Rightarrow> if js_isFinite v then js_floor v else JsNaN
      | AmtString s \<Rightarrow> if js_trim s \<noteq> [] \<and> js_isFinite (js_Number s) then js_floor (js_Number s) else JsNaN
      | AmtInt64 l \<Rightarrow> if sint (high l) = 0 then js_of_int (if unsigned l then uint (low l) else sint (low l)) else JsNaN
      | AmtUndefined \<Rightarrow> JsNaN)"

definition toUnixMillis :: "chain_env \<Rightarrow> string option \<Rightarrow> js_number" where
  "toUnixMillis env v =
     (case v of None \<Rightarrow> js_of_int (ch_now env)
      | Some s \<Rightarrow>
          if js_trim s = [] then js_of_int (ch_now env)
          else if js_isFinite (js_Number s) \<and> js_gt (js_Number s) (js_of_int 0) then js_floor (js_Number s)
          else js_of_int (coalesce (ch_dateParse env s) (ch_now env)))"

definition normalizeRiskFlag :: "string option \<Rightarrow> string" where
  "normalizeRiskFlag r = (if r = Some ''MED'' \<or> r = Some ''HIGH'' then the r else ''LOW'')"

definition isPendingPayload :: "json \<Rightarrow> bool" where
  "isPendingPayload body =
     (let markers = map js_upper (List.map_filter asString
            [json_prop ''status'' body, json_prop ''state'' body, json_prop ''chain_status'' body,
             json_prop ''chainStatus'' body, opt_prop ''code'' (json_prop ''error'' body),
             opt_prop ''message'' (json_prop ''error'' body)])
      in list_ex (\<lambda>m. js_includes m ''PENDING'' \<or> js_includes m ''PROCESSING'' \<or> js_includes m ''SUBMITTED'' \<or>
           js_includes m ''IN_PROGRESS'' \<or> js_includes m ''NOT_FOUND'') markers)"

section \<open>Results\<close>

text \<open>The own properties of an object; those of an array are its indices.\<close>

definition entries :: "json \<Rightarrow> (string \<times> json) list" where
  "entries v =
     (case v of JObject kvs \<Rightarrow> kvs | JArray vs \<Rightarrow> zip (map nat_digits [0..<length vs]) vs | _ \<Rightarrow> [])"

text \<open>\<open>v.k = x\<close>; JSON does not print a named property of an array.\<close>

definition with_prop :: "string \<Rightarrow> json \<Rightarrow> json \<Rightarrow> json" where
  "with_prop k x v = (case v of JObject kvs \<Rightarrow> JObject (obj_set k x kvs) | _ \<Rightarrow> v)"

definition buildPendingResult :: "string \<Rightarrow> json option \<Rightarrow> anchor_result" where
  "buildPendingResult txId body =
     \<lparr>an_chainStatus = AN_PENDING, an_txId = txId,
      an_blockNumber = json_Number (nullish (opt_prop ''block_number'' body) (JNumber (js_of_int 0))),
      an_commitmentHash = coalesce (asString (opt_prop ''commitment_hash'' body)) [],
      an_receiptJson = (case body of Some v \<Rightarrow> if entries v \<noteq> [] then json_text v else [] | None \<Rightarrow> [])\<rparr>"

definition extractReceiptPayload :: "json \<Rightarrow> json option" where
  "extractReceiptPayload body =
     (if \<not> is_object body then None
      else case json_prop ''receipt'' body of
        Some r \<Rightarrow> if is_object r then Some r
                  else if list_ex (\<lambda>k. asString (json_prop k body) \<noteq> None)
                            [''tx_id'', ''receipt_hash'', ''commitment_hash'', ''schema_version''] then Some body else None
      | None \<Rightarrow> if list_ex (\<lambda>k. asString (json_prop k body) \<noteq> None)
                     [''tx_id'', ''receipt_hash'', ''commitment_hash'', ''schema_version''] then Some body else None)"

definition receipt_succeeded :: "json \<Rightarrow> bool" where
  "receipt_succeeded receipt =
     (number_of (json_prop ''validation_code'' receipt) = js_of_int 0 \<or>
      js_upper (coalesce (asString (json_prop ''validation_code_name'' receipt)) []) = ''VALID'')"

definition receipt_rejected :: "json \<Rightarrow> bool" where
  "receipt_rejected receipt =
     (let code = number_of (json_prop ''validation_code'' receipt);
          code_name = js_upper (coalesce (asString (json_prop ''validation_code_name'' receipt)) [])
      in (js_isFinite code \<and> js_gt code (js_of_int 0)) \<or>
         (code_name \<noteq> [] \<and> code_name \<noteq> ''VALID'' \<and> code_name \<noteq> ''NOT_VALIDATED''))"

text \<open>What a receipt must carry so that its holder can check it.\<close>

definition verifiable_bundle :: "json \<Rightarrow> string \<Rightarrow> bool" where
  "verifiable_bundle receipt txId =
     (txId \<noteq> [] \<and> asString (json_prop ''commitment_hash'' receipt) \<noteq> None \<and>
      (js_gt (json_Number (nullish (json_prop ''block_number'' receipt) (JNumber (js_of_int 0)))) (js_of_int 0) \<or>
       asString (json_prop ''block_hash'' receipt) \<noteq> None) \<and>
      asString (json_prop ''receipt_hash'' receipt) \<noteq> None \<and>
      asString (json_prop ''policy_id'' receipt) \<noteq> None \<and>
      (case json_prop ''endorsements'' receipt of Some (JArray _) \<Rightarrow> True | _ \<Rightarrow> False) \<and>
      asString (json_prop ''schema_version'' receipt) \<noteq> None)"

definition merge :: "(string \<times> json) list \<Rightarrow> (string \<times> json) list \<Rightarrow> (string \<times> json) list" where
  "merge a b = fold (\<lambda>(k, v). obj_set k v) b a"

definition flat_receipt :: "json \<Rightarrow> json \<Rightarrow> (string \<times> json) list" where
  "flat_receipt receipt envelope =
     (case json_prop ''receipt'' envelope of
        Some r \<Rightarrow> if truthy r then merge (entries envelope) (entries receipt) else entries receipt
      | None \<Rightarrow> entries receipt)"

definition buildResultFromReceipt :: "json \<Rightarrow> json \<Rightarrow> string \<Rightarrow> anchor_result" where
  "buildResultFromReceipt receipt envelope fallbackTxId =
     (let txId = coalesce (or_else (asString (json_prop ''tx_id'' receipt)) (asString (json_prop ''tx_id'' envelope))) fallbackTxId;
          flat = flat_receipt receipt envelope;
          result = (\<lambda>st. \<lparr>an_chainStatus = st, an_txId = txId,
            an_blockNumber = json_Number (nullish (json_prop ''block_number'' receipt) (JNumber (js_of_int 0))),
            an_commitmentHash = coalesce (asString (json_prop ''commitment_hash'' receipt)) [],
            an_receiptJson = (if flat \<noteq> [] then json_text (JObject flat) else [])\<rparr>)
      in if receipt_succeeded receipt \<and> verifiable_bundle receipt txId then result AN_ANCHORED
         else if receipt_rejected receipt then result AN_FAILED
         else buildPendingResult txId (if flat \<noteq> [] then Some (JObject flat) else None))"

definition error_message :: "json \<Rightarrow> string" where
  "error_message body =
     coalesce (or_else (asString (opt_prop ''message'' (json_prop ''error'' body)))
       (asString (opt_prop ''details'' (json_prop ''error'' body)))) ''gateway returned unsuccessful result''"

definition parseAnchorTransferResponse :: "json \<Rightarrow> chain_error + anchor_result" where
  "parseAnchorTransferResponse body =
     (if \<not> truthy body then Inl (PlainError ''empty gateway response'')
      else let pending = isPendingPayload body
      in if json_prop ''success'' body = Some (JBool False) \<and> \<not> pending then Inl (PlainError (error_message body))
         else let receiptPayload = extractReceiptPayload body;
                  txId = coalesce (or_else (asString (json_prop ''tx_id'' body))
                    (or_else (asString (json_prop ''txId'' body)) (asString (opt_prop ''tx_id'' receiptPayload)))) [];
                  fallback = (if pending \<or> txId \<noteq> [] then Inr (buildPendingResult txId None)
                              else Inl (PlainError ''missing tx_id in gateway response''))
              in case receiptPayload of
                   Some receipt \<Rightarrow>
                     let parsed = buildResultFromReceipt receipt body txId
                     in if an_chainStatus parsed \<noteq> AN_PENDING then Inr parsed else fallback
                 | None \<Rightarrow> fallback)"

definition parseReceiptLookupResponse :: "json \<Rightarrow> string \<Rightarrow> chain_error + anchor_result" where
  "parseReceiptLookupResponse body txId =
     (if \<not> truthy body then Inr (buildPendingResult txId None)
      else if json_prop ''success'' body = Some (JBool False) \<and> \<not> isPendingPayload body
      then (if asString (opt_prop ''code'' (json_prop ''error'' body)) = Some ''NOT_FOUND''
            then Inr (buildPendingResult txId None) else Inl (PlainError (error_message body)))
      else case extractReceiptPayload body of
        None \<Rightarrow> Inr (buildPendingResult txId None)
      | Some receipt \<Rightarrow>
          let parsed = buildResultFromReceipt receipt body txId
          in if an_chainStatus parsed \<noteq> AN_PENDING then Inr parsed
             else Inr (buildPendingResult (or_str (Some (an_txId parsed)) txId) (Some receipt)))"

section \<open>Receipt integrity\<close>

fun canonicalStringify :: "(string \<Rightarrow> string \<Rightarrow> bool) \<Rightarrow> json \<Rightarrow> string"
  and canonical_items :: "(string \<Rightarrow> string \<Rightarrow> bool) \<Rightarrow> json list \<Rightarrow> string list"
  and canonical_fields :: "(string \<Rightarrow> string \<Rightarrow> bool) \<Rightarrow> (string \<times> json) list \<Rightarrow> (string \<times> string) list"
where
  "canonicalStringify le JNull = ''null''"
| "canonicalStringify le (JNumber n) = (if js_isFinite n then number_text n else ''null'')"
| "canonicalStringify le (JBool b) = (if b then ''true'' else ''false'')"
| "canonicalStringify le (JString s) = quote_string s"
| "canonicalStringify le (JArray vs) = ''['' @ js_join '','' (canonical_items le vs) @ '']''"
| "canonicalStringify le (JObject kvs) =
     (let texts = canonical_fields le kvs
      in ''{'' @ js_join '','' (map (\<lambda>k. quote_string k @ '':'' @ the (map_of texts k)) (sort_by le (map fst kvs))) @ ''}'')"
| "canonical_items le [] = []"
| "canonical_items le (v # vs) = canonicalStringify le v # canonical_items le vs"
| "canonical_fields le [] = []"
| "canonical_fields le (kv # kvs) = (fst kv, canonicalStringify le (snd kv)) # canonical_fields le kvs"

definition without :: "string \<Rightarrow> (string \<times> json) list \<Rightarrow> (string \<times> json) list" where
  "without k kvs = filter (\<lambda>kv. fst kv \<noteq> k) kvs"

definition tsa_error :: "chain_env \<Rightarrow> string \<Rightarrow> json" where
  "tsa_error env message =
     JObject [(''provider'', JString ''FreeTSA''), (''url'', JString (ch_tsaUrl env)), (''error'', JString message)]"

text \<open>The attestation, None when the authority is not asked, or the error that is thrown.\<close>

definition createTsaAttestation :: "chain_env \<Rightarrow> string \<Rightarrow> string \<Rightarrow> string + json option" where
  "createTsaAttestation env payload expectedSha256Hex =
     (if \<not> ch_tsaEnabled env then Inr None
      else case bindE (ch_tsa env payload) (\<lambda>parsed.
          case (ts_token parsed, ts_info parsed) of
            (Some token, Some info) \<Rightarrow>
              Inr (JObject
                [(''provider'', JString ''FreeTSA''), (''url'', JString (ch_tsaUrl env)),
                 (''status'', JNumber (js_of_int (ts_status parsed))),
                 (''status_text'', JString (coalesce (ts_statusString parsed) [])),
                 (''token_der_base64'', JString token), (''response_der_base64'', JString (ts_response parsed)),
                 (''gen_time'', JString (toISOString (ti_genTime info))), (''serial_number'', JString (ti_serialNumber info)),
                 (''policy'', JString (ti_policy info)), (''hash_algorithm'', JString (ti_hashAlgorithm info)),
                 (''message_imprint_sha256'', JString (js_lower expectedSha256Hex)),
                 (''reported_message_digest'', JString (js_lower (ti_messageDigest info)))])
          | _ \<Rightarrow> Inl ''TSA response has no token/info'') of
        Inr attestation \<Rightarrow> Inr (Some attestation)
      | Inl message \<Rightarrow> if ch_tsaFailOpen env then Inr (Some (tsa_error env message)) else Inl message)"

definition receipt_integrity :: "chain_env \<Rightarrow> string \<Rightarrow> string \<Rightarrow> json option \<Rightarrow> json" where
  "receipt_integrity env canonicalPayload signature tsa =
     (let hashSha256 = ch_sha256 env canonicalPayload; hashSha3 = ch_sha3 env canonicalPayload
      in JObject
        ([(''version'', JString ''v1''), (''canonicalization'', JString ''json-sorted-v1''),
          (''hashes'', JObject [(''sha256'', JString hashSha256), (''sha3_256'', JString hashSha3),
             (''combined_sha256'', JString (ch_sha256 env (hashSha256 @ '':'' @ hashSha3)))]),
          (''signature'', JObject [(''algorithm'', JString ''ed25519''), (''key_id'', JString (ch_keyId env)),
             (''signature_base64'', JString signature), (''signed_at'', JNumber (js_of_int (ch_now env)))]),
          (''signer'', JObject [(''public_key_fingerprint_sha256'', JString (ch_fingerprint env))])] @
         (case tsa of None \<Rightarrow> [] | Some t \<Rightarrow> [(''tsa_attestation'', t)])))"

text \<open>
  \<open>enrichWithReceiptIntegrity\<close>: whatever the try block throws is logged and the result stays as it
  is, as it does when the receipt does not parse to an object.
\<close>

definition enrichWithReceiptIntegrity :: "chain_env \<Rightarrow> anchor_result \<Rightarrow> anchor_result" where
  "enrichWithReceiptIntegrity env result =
     (if \<not> ch_signingEnabled env \<or> an_receiptJson result = [] then result
      else case (ch_sign env, json_parse (an_receiptJson result)) of
        (Some sign, Some receipt) \<Rightarrow>
          if \<not> is_object receipt then result
          else let canonicalPayload = canonicalStringify (ch_localeLe env) (JObject (without ''receipt_integrity'' (entries receipt)))
          in (case createTsaAttestation env canonicalPayload (ch_sha256 env canonicalPayload) of
                Inl message \<Rightarrow> result
              | Inr tsa \<Rightarrow>
                  result\<lparr>an_receiptJson := json_text (with_prop ''receipt_integrity''
                    (receipt_integrity env canonicalPayload (sign canonicalPayload) tsa) receipt)\<rparr>)
      | _ \<Rightarrow> result)"

section \<open>Observers\<close>

definition observer_confirms :: "chain_env \<Rightarrow> string \<Rightarrow> string \<Rightarrow> string \<Rightarrow> nat \<Rightarrow> json option" where
  "observer_confirms env txId expectedBlockHash originMsp i =
     (case ch_observe env i (''/v1/observe/'' @ encodeURIComponent txId) of
        Inl err \<Rightarrow> None
      | Inr data \<Rightarrow>
          let blockHash = coalesce (asString (json_prop ''block_hash'' data)) [];
              mspId = js_upper (coalesce (asString (json_prop ''msp_id'' data)) [])
          in if is_object data \<and> number_of (json_prop ''validation_code'' data) = js_of_int 0 \<and>
                \<not> (expectedBlockHash \<noteq> [] \<and> blockHash \<noteq> [] \<and> blockHash \<noteq> expectedBlockHash) \<and>
                mspId \<noteq> [] \<and> \<not> (originMsp \<noteq> [] \<and> mspId = originMsp)
             then Some data else None)"

definition collectObserverConfirmations :: "chain_env \<Rightarrow> string \<Rightarrow> string \<Rightarrow> string \<Rightarrow> json list" where
  "collectObserverConfirmations env txId expectedBlockHash originMsp =
     List.map_filter (observer_confirms env txId expectedBlockHash originMsp) [0..<ch_observers env]"

definition transparency :: "nat \<Rightarrow> nat \<Rightarrow> json" where
  "transparency observers confirmed =
     (let totalNodes = 1 + observers; requiredQuorum = totalNodes div 2 + 1; confirmedNodes = 1 + confirmed
      in JObject [(''total_nodes'', JNumber (js_of_int (int totalNodes))),
           (''required_quorum'', JNumber (js_of_int (int requiredQuorum))),
           (''confirmed_nodes'', JNumber (js_of_int (int confirmedNodes))),
           (''quorum_met'', JBool (requiredQuorum \<le> confirmedNodes))])"

definition quorum_met :: "nat \<Rightarrow> nat \<Rightarrow> bool" where
  "quorum_met observers confirmed = ((1 + observers) div 2 + 1 \<le> 1 + confirmed)"

definition enrichWithObserverConfirmations :: "chain_env \<Rightarrow> anchor_result \<Rightarrow> anchor_result" where
  "enrichWithObserverConfirmations env result =
     (if an_receiptJson result = [] \<or> ch_observers env = 0 \<or> an_txId result = []
      then enrichWithReceiptIntegrity env result
      else case json_parse (an_receiptJson result) of
        None \<Rightarrow> result
      | Some receipt \<Rightarrow>
          if \<not> is_object receipt then enrichWithReceiptIntegrity env result
          else let txId = coalesce (asString (json_prop ''tx_id'' receipt)) (an_txId result);
              blockHash = coalesce (asString (json_prop ''block_hash'' receipt)) [];
              originMsp = js_upper (coalesce (asString (json_prop ''origin_msp_id'' receipt)) []);
              confirmations = collectObserverConfirmations env txId blockHash originMsp;
              receipt1 = with_prop ''observer_confirmations'' (JArray confirmations) receipt;
              receipt2 = with_prop ''transparency'' (transparency (ch_observers env) (length confirmations)) receipt1;
              result1 = result\<lparr>an_receiptJson := json_text receipt2\<rparr>
          in enrichWithReceiptIntegrity env
               (if an_chainStatus result1 = AN_ANCHORED \<and> ch_requireQuorum env \<and>
                   \<not> quorum_met (ch_observers env) (length confirmations)
                then result1\<lparr>an_chainStatus := AN_PENDING\<rparr> else result1))"

section \<open>Errors\<close>

definition isTransientError :: "chain_error \<Rightarrow> bool" where
  "isTransientError err =
     (case err of NoResponse _ \<Rightarrow> True
      | HttpError st _ _ \<Rightarrow> st \<in> {408, 429, 502, 503, 504}
      | _ \<Rightarrow> False)"

definition toGrpcException :: "chain_error \<Rightarrow> chain_grpc_code \<times> string" where
  "toGrpcException err =
     (case err of
        RpcError code message \<Rightarrow> (code, message)
      | NoResponse message \<Rightarrow> (CG_UNAVAILABLE, message)
      | HttpError st payload message \<Rightarrow>
          (if st = 400 then CG_INVALID_ARGUMENT else if st = 404 then CG_NOT_FOUND
           else if st = 409 then CG_ALREADY_EXISTS else if st = 429 then CG_RESOURCE_EXHAUSTED
           else if st \<in> {502, 503, 504} then CG_UNAVAILABLE else CG_INTERNAL,
           js_join '' | '' (filter (\<lambda>s. s \<noteq> [])
             [''HTTP '' @ int_digits st,
              case payload of JString s \<Rightarrow> s | _ \<Rightarrow> if truthy payload then json_text payload else [], message]))
      | PlainError message \<Rightarrow> (CG_INTERNAL, message))"

section \<open>The two calls\<close>

definition is_internal_transfer :: "string option \<Rightarrow> bool" where
  "is_internal_transfer toUserId =
     (case toUserId of None \<Rightarrow> False | Some s \<Rightarrow> js_trim s \<noteq> [] \<and> js_lower (js_trim s) \<noteq> ''external'')"

definition anchor_payload :: "chain_env \<Rightarrow> anchor_data \<Rightarrow> js_number \<Rightarrow> json" where
  "anchor_payload env data amount =
     JObject
       [(''from_id'', JString (ad_fromUserId data)), (''to_id'', JString (or_str (ad_toUserId data) ''external'')),
        (''amount_vnd'', JNumber amount), (''memo'', JString (or_str (ad_memo data) [])),
        (''internal_ref'', JString (or_str (ad_internalRef data) (ad_transactionId data))),
        (''settlement_ref'', JString (or_str (ad_settlementRef data) (ad_transactionId data))),
        (''idempotency_key'', JString (ad_idempotencyKey data)), (''nonce'', JString (ad_nonce data)),
        (''timestamp'', JNumber (toUnixMillis env (ad_timestamp data))),
        (''transfer_type'', JString (if is_internal_transfer (ad_toUserId data) then ''intra_bank'' else ''inter_bank'')),
        (''risk_flag'', JString (normalizeRiskFlag (ad_riskFlag data)))]"

definition retry_delay :: "nat \<Rightarrow> int" where
  "retry_delay attempt = min (500 * 2 ^ attempt) 2000"

text \<open>
  The loop of attempts, with the log of what was posted: the answer of the n-th post is
  \<open>ch_post env n payload\<close>. The answer is read inside the try block, so an answer that cannot be read
  is an error of the attempt.
\<close>

fun post_attempts :: "chain_env \<Rightarrow> json \<Rightarrow> nat \<Rightarrow> nat \<Rightarrow> (chain_error + anchor_result) \<times> json list" where
  "post_attempts env payload attempt retriesLeft =
     (let outcome = bindE (ch_post env attempt payload) parseAnchorTransferResponse
      in case outcome of
           Inr parsed \<Rightarrow> (Inr (enrichWithObserverConfirmations env parsed), [payload])
         | Inl err \<Rightarrow>
             if isTransientError err \<and> 0 < retriesLeft
             then (let (res, posts) = post_attempts env payload (Suc attempt) (retriesLeft - 1) in (res, payload # posts))
             else (Inl err, [payload]))"

declare post_attempts.simps [simp del]

definition anchorTransfer :: "chain_env \<Rightarrow> anchor_data \<Rightarrow> (chain_error + anchor_result) \<times> json list" where
  "anchorTransfer env data =
     (let amount = chain_normalizeAmount (ad_amount data)
      in if \<not> js_isInteger amount \<or> \<not> js_gt amount (js_of_int 0)
         then (Inl (RpcError CG_INVALID_ARGUMENT ''amount must be a positive integer''), [])
         else post_attempts env (anchor_payload env data amount) 0 2)"

definition getReceipt :: "chain_env \<Rightarrow> string option \<Rightarrow> chain_error + anchor_result" where
  "getReceipt env txId =
     (let normalizedTxId = js_trim (coalesce txId [])
      in if normalizedTxId = [] then Inl (RpcError CG_INVALID_ARGUMENT ''txId is required'')
         else case bindE (ch_get env (''/v1/receipt/'' @ encodeURIComponent normalizedTxId))
             (\<lambda>body. parseReceiptLookupResponse body normalizedTxId) of
           Inr parsed \<Rightarrow> Inr (enrichWithObserverConfirmations env parsed)
         | Inl (HttpError st payload message) \<Rightarrow>
             if st = 404 then Inr (buildPendingResult normalizedTxId None) else Inl (HttpError st payload message)
         | Inl err \<Rightarrow> Inl err)"

section \<open>As the client of the transaction service\<close>

definition anchor_text :: "anchor_status \<Rightarrow> string" where
  "anchor_text s = (case s of AN_ANCHORED \<Rightarrow> ''ANCHORED'' | AN_PENDING \<Rightarrow> ''PENDING'' | AN_FAILED \<Rightarrow> ''FAILED'')"

definition anchor_data_of :: "anchor_request \<Rightarrow> anchor_data" where
  "anchor_data_of q =
     \<lparr>ad_transactionId = aq_transactionId q, ad_fromUserId = aq_fromUserId q, ad_toUserId = or_null (aq_toUserId q),
      ad_amount = AmtInt64 (int64_of (aq_amount q)), ad_memo = or_null (aq_memo q),
      ad_internalRef = or_null (aq_internalRef q), ad_settlementRef = or_null (aq_settlementRef q),
      ad_timestamp = Some (toISOString (aq_timestamp q)), ad_nonce = aq_nonce q,
      ad_idempotencyKey = aq_idempotencyKey q, ad_riskFlag = or_null (aq_riskFlag q)\<rparr>"

definition chain_answer :: "chain_error + anchor_result \<Rightarrow> string + anchor_response" where
  "chain_answer res =
     (case res of Inl err \<Rightarrow> Inl (snd (toGrpcException err))
      | Inr r \<Rightarrow> Inr \<lparr>ar_chainStatus = anchor_text (an_chainStatus r), ar_txId = an_txId r,
                      ar_blockNumber = js_int (an_blockNumber r), ar_commitmentHash = an_commitmentHash r,
                      ar_receiptJson = an_receiptJson r\<rparr>)"

definition adapter_client :: "chain_env \<Rightarrow> chain_client" where
  "adapter_client env =
     \<lparr>cc_anchorTransfer = (\<lambda>q. chain_answer (fst (anchorTransfer env (anchor_data_of q)))),
      cc_getReceipt = (\<lambda>txId. chain_answer (getReceipt env (or_null txId)))\<rparr>"


section \<open>An anchored transfer has a receipt that can be checked\<close>

lemma integrity_keeps:
  "an_chainStatus (enrichWithReceiptIntegrity env r) = an_chainStatus r"
  "an_txId (enrichWithReceiptIntegrity env r) = an_txId r"
  by (simp_all add: enrichWithReceiptIntegrity_def Let_def split: option.split sum.split)

lemma observers_keep_txId: "an_txId (enrichWithObserverConfirmations env r) = an_txId r"
  by (simp add: enrichWithObserverConfirmations_def Let_def integrity_keeps split: option.split)

lemma observers_only_downgrade:
  "an_chainStatus (enrichWithObserverConfirmations env r) = AN_ANCHORED \<Longrightarrow> an_chainStatus r = AN_ANCHORED"
  by (erule contrapos_pp) (simp add: enrichWithObserverConfirmations_def Let_def integrity_keeps split: option.split)

lemma pending_not_anchored [simp]: "an_chainStatus (buildPendingResult i b) = AN_PENDING"
  by (simp add: buildPendingResult_def)

text \<open>The gateway answered with a receipt that was validated and is complete.\<close>

definition proven_by :: "json \<Rightarrow> anchor_result \<Rightarrow> bool" where
  "proven_by body r \<longleftrightarrow>
     (\<exists>receipt. extractReceiptPayload body = Some receipt \<and> receipt_succeeded receipt \<and> verifiable_bundle receipt (an_txId r))"

lemma result_anchored:
  "an_chainStatus (buildResultFromReceipt receipt envelope i) = AN_ANCHORED \<Longrightarrow>
   receipt_succeeded receipt \<and> verifiable_bundle receipt (an_txId (buildResultFromReceipt receipt envelope i))"
  by (auto simp add: buildResultFromReceipt_def Let_def split: if_splits)

lemma parse_from_receipt:
  assumes "parseAnchorTransferResponse body = Inr r"
  shows "an_chainStatus r = AN_PENDING \<or>
    (\<exists>receipt i. extractReceiptPayload body = Some receipt \<and> r = buildResultFromReceipt receipt body i)"
proof (cases "extractReceiptPayload body")
  case None
  then show ?thesis using assms by (auto simp add: parseAnchorTransferResponse_def Let_def split: if_splits)
next
  case (Some receipt)
  then show ?thesis using assms
    by (simp add: parseAnchorTransferResponse_def Let_def split: if_splits) (auto dest: sym)
qed

lemma parse_anchored:
  assumes "parseAnchorTransferResponse body = Inr r" and "an_chainStatus r = AN_ANCHORED"
  shows "proven_by body r"
proof -
  obtain receipt i where "extractReceiptPayload body = Some receipt" "r = buildResultFromReceipt receipt body i"
    using parse_from_receipt [OF assms(1)] assms(2) by fastforce
  then show ?thesis using result_anchored assms(2) by (auto simp add: proven_by_def)
qed

lemma lookup_anchored:
  assumes "parseReceiptLookupResponse body i = Inr r" and "an_chainStatus r = AN_ANCHORED"
  shows "proven_by body r"
proof -
  obtain receipt where "extractReceiptPayload body = Some receipt" "r = buildResultFromReceipt receipt body i"
    using assms by (auto simp add: parseReceiptLookupResponse_def Let_def split: if_splits option.splits)
  then show ?thesis using result_anchored assms(2) by (auto simp add: proven_by_def)
qed

lemma proven_by_observers: "proven_by body (enrichWithObserverConfirmations env r) = proven_by body r"
  by (simp add: proven_by_def observers_keep_txId)

lemma post_answered:
  "bindE (ch_post env n payload) parseAnchorTransferResponse = Inr parsed \<Longrightarrow>
   post_attempts env payload n k = (Inr (enrichWithObserverConfirmations env parsed), [payload])"
  by (subst post_attempts.simps) simp

lemma post_gives_up:
  "bindE (ch_post env n payload) parseAnchorTransferResponse = Inl err \<Longrightarrow> \<not> (isTransientError err \<and> 0 < k) \<Longrightarrow>
   post_attempts env payload n k = (Inl err, [payload])"
  by (subst post_attempts.simps) auto

lemma post_retries:
  "bindE (ch_post env n payload) parseAnchorTransferResponse = Inl err \<Longrightarrow> isTransientError err \<and> 0 < k \<Longrightarrow>
   post_attempts env payload n k =
     (fst (post_attempts env payload (Suc n) (k - 1)), payload # snd (post_attempts env payload (Suc n) (k - 1)))"
  by (subst post_attempts.simps) (simp add: Let_def case_prod_unfold)

lemma attempts_answer:
  assumes "fst (post_attempts env payload n k) = Inr r"
  shows "\<exists>m body parsed. m \<le> n + k \<and> ch_post env m payload = Inr body \<and>
    parseAnchorTransferResponse body = Inr parsed \<and> r = enrichWithObserverConfirmations env parsed"
  using assms
proof (induction k arbitrary: n)
  case 0
  show ?case
  proof (cases "bindE (ch_post env n payload) parseAnchorTransferResponse")
    case (Inl err)
    then show ?thesis using 0 post_gives_up [OF Inl, of 0] by simp
  next
    case (Inr parsed)
    have "r = enrichWithObserverConfirmations env parsed" using 0 post_answered [OF Inr, of 0] by simp
    moreover obtain body where "ch_post env n payload = Inr body" "parseAnchorTransferResponse body = Inr parsed"
      using Inr bindE_eq_Inr by metis
    ultimately show ?thesis by auto
  qed
next
  case (Suc k)
  show ?case
  proof (cases "bindE (ch_post env n payload) parseAnchorTransferResponse")
    case (Inr parsed)
    have "r = enrichWithObserverConfirmations env parsed" using Suc.prems post_answered [OF Inr, of "Suc k"] by simp
    moreover obtain body where "ch_post env n payload = Inr body" "parseAnchorTransferResponse body = Inr parsed"
      using Inr bindE_eq_Inr by metis
    ultimately show ?thesis by (intro exI [of _ n] exI [of _ body] exI [of _ parsed]) simp
  next
    case (Inl err)
    have "isTransientError err" using Suc.prems post_gives_up [OF Inl, of "Suc k"] by (cases "isTransientError err") auto
    then have "fst (post_attempts env payload (Suc n) k) = Inr r" using Suc.prems post_retries [OF Inl, of "Suc k"] by simp
    from Suc.IH [OF this] show ?thesis by simp
  qed
qed

lemma anchor_proven:
  assumes "fst (anchorTransfer env data) = Inr r" and "an_chainStatus r = AN_ANCHORED"
  shows "\<exists>m body. m \<le> 2 \<and> ch_post env m (anchor_payload env data (chain_normalizeAmount (ad_amount data))) = Inr body \<and> proven_by body r"
proof -
  have run: "fst (post_attempts env (anchor_payload env data (chain_normalizeAmount (ad_amount data))) 0 2) = Inr r"
    using assms(1) by (auto simp add: anchorTransfer_def Let_def split: if_splits)
  obtain m body parsed where m: "m \<le> 2" "ch_post env m (anchor_payload env data (chain_normalizeAmount (ad_amount data))) = Inr body"
      "parseAnchorTransferResponse body = Inr parsed" "r = enrichWithObserverConfirmations env parsed"
    using attempts_answer [OF run] unfolding add_0 by blast
  then have "proven_by body parsed" using parse_anchored observers_only_downgrade assms(2) by blast
  then show ?thesis using m proven_by_observers by blast
qed

text \<open>
  A transfer is reported as anchored only when the gateway answered one of at most three posts with
  a receipt that the network validated and that carries all that its holder needs to check it.
\<close>

theorem anchored_is_proven:
  assumes "fst (anchorTransfer env data) = Inr r" and "an_chainStatus r = AN_ANCHORED"
  shows "\<exists>m body. m \<le> 2 \<and> ch_post env m (anchor_payload env data (chain_normalizeAmount (ad_amount data))) = Inr body \<and> proven_by body r"
  using assms by (rule anchor_proven)

lemma receipt_is_proven:
  assumes "getReceipt env txId = Inr r" and "an_chainStatus r = AN_ANCHORED"
  shows "\<exists>path body. ch_get env path = Inr body \<and> proven_by body r"
proof -
  obtain path body parsed i where m: "ch_get env path = Inr body" "parseReceiptLookupResponse body i = Inr parsed"
      "r = enrichWithObserverConfirmations env parsed"
    using assms by (auto simp add: getReceipt_def Let_def bindE_eq_Inr split: if_splits sum.splits chain_error.splits)
  then have "proven_by body parsed" using lookup_anchored observers_only_downgrade assms(2) by blast
  then show ?thesis using m proven_by_observers by blast
qed

section \<open>Retries\<close>

lemma attempts_bound:
  "set (snd (post_attempts env payload n k)) = {payload} \<and> length (snd (post_attempts env payload n k)) \<le> Suc k \<and>
   (\<forall>i. Suc i < length (snd (post_attempts env payload n k)) \<longrightarrow>
     (\<exists>err. bindE (ch_post env (n + i) payload) parseAnchorTransferResponse = Inl err \<and> isTransientError err))"
proof (induction k arbitrary: n)
  case 0
  then show ?case
    by (cases "bindE (ch_post env n payload) parseAnchorTransferResponse") (simp_all add: post_answered post_gives_up)
next
  case (Suc k)
  show ?case
  proof (cases "\<exists>err. bindE (ch_post env n payload) parseAnchorTransferResponse = Inl err \<and> isTransientError err")
    case False
    then have "snd (post_attempts env payload n (Suc k)) = [payload]"
      by (cases "bindE (ch_post env n payload) parseAnchorTransferResponse") (simp_all add: post_answered post_gives_up)
    then show ?thesis by simp
  next
    case True
    then obtain err where err: "bindE (ch_post env n payload) parseAnchorTransferResponse = Inl err" "isTransientError err"
      by blast
    let ?rest = "snd (post_attempts env payload (Suc n) k)"
    have posts: "snd (post_attempts env payload n (Suc k)) = payload # ?rest"
      using post_retries [OF err(1), of "Suc k"] err(2) by simp
    have "\<exists>e. bindE (ch_post env (n + i) payload) parseAnchorTransferResponse = Inl e \<and> isTransientError e"
      if "Suc i < length (payload # ?rest)" for i
    proof (cases i)
      case 0
      then show ?thesis using err by auto
    next
      case (Suc j)
      then show ?thesis using Suc.IH [of "Suc n"] that by auto
    qed
    then show ?thesis using Suc.IH [of "Suc n"] posts by auto
  qed
qed

text \<open>
  The adapter posts a transfer at most three times, always the same payload, and goes on to
  another attempt only after a transient error: a timeout or lost connection, or one of five statuses.
\<close>

theorem anchor_retries_bounded:
  "length (snd (anchorTransfer env data)) \<le> 3 \<and>
   set (snd (anchorTransfer env data)) \<subseteq> {anchor_payload env data (chain_normalizeAmount (ad_amount data))} \<and>
   (\<forall>i. Suc i < length (snd (anchorTransfer env data)) \<longrightarrow>
     (\<exists>err. bindE (ch_post env i (anchor_payload env data (chain_normalizeAmount (ad_amount data)))) parseAnchorTransferResponse = Inl err \<and>
       isTransientError err))"
  using attempts_bound [of env "anchor_payload env data (chain_normalizeAmount (ad_amount data))" 0 2]
  by (auto simp add: anchorTransfer_def Let_def)

section \<open>Signed receipts\<close>

lemma json_parse_Nil: "json_parse [] = None"
  by code_simp

lemma filter_rekeyed: "filter (\<lambda>kv. fst kv \<noteq> k) (map (\<lambda>(k', v'). (k', if k' = k then v else v')) kvs) = filter (\<lambda>kv. fst kv \<noteq> k) kvs"
  by (induction kvs) auto

lemma without_obj_set: "without k (obj_set k v kvs) = without k kvs"
  by (simp add: without_def obj_set_def filter_rekeyed)

text \<open>
  A signed receipt can be checked by whoever holds it: the hashes and the signature in its
  integrity part are those of the canonical text of the rest of the very receipt that is sent.
\<close>

theorem signed_receipt_verifies:
  assumes "ch_signingEnabled env" and "ch_sign env = Some sign"
    and "json_parse (an_receiptJson r) = Some (JObject receipt)"
    and "createTsaAttestation env (canonicalStringify (ch_localeLe env) (JObject (without ''receipt_integrity'' receipt)))
      (ch_sha256 env (canonicalStringify (ch_localeLe env) (JObject (without ''receipt_integrity'' receipt)))) = Inr tsa"
  shows "\<exists>sent. an_receiptJson (enrichWithReceiptIntegrity env r) = json_text (JObject sent) \<and>
    map_of sent ''receipt_integrity'' =
      Some (receipt_integrity env (canonicalStringify (ch_localeLe env) (JObject (without ''receipt_integrity'' sent)))
        (sign (canonicalStringify (ch_localeLe env) (JObject (without ''receipt_integrity'' sent)))) tsa) \<and>
    without ''receipt_integrity'' sent = without ''receipt_integrity'' receipt"
proof -
  let ?canonical = "canonicalStringify (ch_localeLe env) (JObject (without ''receipt_integrity'' receipt))"
  let ?sent = "obj_set ''receipt_integrity'' (receipt_integrity env ?canonical (sign ?canonical) tsa) receipt"
  have "an_receiptJson r \<noteq> []" using assms(3) by (auto simp add: json_parse_Nil)
  then have "an_receiptJson (enrichWithReceiptIntegrity env r) = json_text (JObject ?sent)"
    using assms by (simp add: enrichWithReceiptIntegrity_def Let_def is_object_def entries_def with_prop_def)
  then show ?thesis by (intro exI [of _ ?sent]) (simp add: map_of_obj_set without_obj_set)
qed

section \<open>The canonical text\<close>

text \<open>Equal up to the order of the properties, at every depth.\<close>

inductive same_json :: "json \<Rightarrow> json \<Rightarrow> bool" where
  same_atom: "same_json v v"
| same_array: "list_all2 same_json vs ws \<Longrightarrow> same_json (JArray vs) (JArray ws)"
| same_object: "distinct (map fst kvs) \<Longrightarrow> distinct (map fst kws) \<Longrightarrow> set (map fst kvs) = set (map fst kws) \<Longrightarrow>
    (\<And>k v w. map_of kvs k = Some v \<Longrightarrow> map_of kws k = Some w \<Longrightarrow> same_json v w) \<Longrightarrow>
    same_json (JObject kvs) (JObject kws)"

lemma map_of_canonical_fields:
  "map_of (canonical_fields le kvs) k = map_option (canonicalStringify le) (map_of kvs k)"
  by (induction kvs) auto

lemma canonical_items_map: "canonical_items le vs = map (canonicalStringify le) vs"
  by (induction vs) auto


section \<open>Quorum\<close>

lemma majority_of_div: "(1 + n) div 2 + 1 \<le> 1 + c \<Longrightarrow> 1 + n < 2 * (1 + c)" for n c :: nat
  by presburger

lemma length_map_filter: "length (List.map_filter f xs) = length (filter (\<lambda>x. f x \<noteq> None) xs)"
  by (induction xs) (auto simp add: List.map_filter_simps split: option.split)

lemma confirmations_counted:
  "length (collectObserverConfirmations env txId h msp) =
   card {i. i < ch_observers env \<and> observer_confirms env txId h msp i \<noteq> None}"
proof -
  have "length (collectObserverConfirmations env txId h msp) =
      card (set (filter (\<lambda>i. observer_confirms env txId h msp i \<noteq> None) [0..<ch_observers env]))"
    unfolding collectObserverConfirmations_def length_map_filter by (rule distinct_card [symmetric]) simp
  also have "set (filter (\<lambda>i. observer_confirms env txId h msp i \<noteq> None) [0..<ch_observers env]) =
      {i. i < ch_observers env \<and> observer_confirms env txId h msp i \<noteq> None}" by auto
  finally show ?thesis .
qed

lemma observed_status:
  assumes "json_parse (an_receiptJson r) = Some receipt" and "is_object receipt" and "0 < ch_observers env" and "an_txId r \<noteq> []"
  shows "an_chainStatus (enrichWithObserverConfirmations env r) =
    (if an_chainStatus r = AN_ANCHORED \<and> ch_requireQuorum env \<and>
        \<not> quorum_met (ch_observers env) (length (collectObserverConfirmations env
          (coalesce (asString (json_prop ''tx_id'' receipt)) (an_txId r)) (coalesce (asString (json_prop ''block_hash'' receipt)) [])
          (js_upper (coalesce (asString (json_prop ''origin_msp_id'' receipt)) []))))
     then AN_PENDING else an_chainStatus r)"
proof -
  have "an_receiptJson r \<noteq> []" using assms(1) by (auto simp add: json_parse_Nil)
  then show ?thesis using assms by (simp add: enrichWithObserverConfirmations_def Let_def integrity_keeps)
qed

text \<open>
  C18. When a quorum is required and observers are configured, a transfer stays anchored only if the
  network of the gateway and its observers confirms it by a majority, each observer counted once.
\<close>

theorem required_quorum_is_majority:
  assumes "ch_requireQuorum env" and "0 < ch_observers env" and "an_txId r \<noteq> []"
    and "json_parse (an_receiptJson r) = Some receipt" and "is_object receipt"
    and "an_chainStatus (enrichWithObserverConfirmations env r) = AN_ANCHORED"
  shows "1 + ch_observers env < 2 * (1 + card {i. i < ch_observers env \<and>
    observer_confirms env (coalesce (asString (json_prop ''tx_id'' receipt)) (an_txId r))
      (coalesce (asString (json_prop ''block_hash'' receipt)) [])
      (js_upper (coalesce (asString (json_prop ''origin_msp_id'' receipt)) [])) i \<noteq> None})"
proof -
  have "quorum_met (ch_observers env) (length (collectObserverConfirmations env
      (coalesce (asString (json_prop ''tx_id'' receipt)) (an_txId r)) (coalesce (asString (json_prop ''block_hash'' receipt)) [])
      (js_upper (coalesce (asString (json_prop ''origin_msp_id'' receipt)) []))))"
    using assms(1,6) observers_only_downgrade [OF assms(6)] observed_status [OF assms(4,5,2,3)] by (simp split: if_splits)
  then show ?thesis unfolding confirmations_counted quorum_met_def by (rule majority_of_div)
qed

section \<open>What the checks let through\<close>

lemma null_code_counts_as_valid: "json_prop ''validation_code'' receipt = Some JNull \<Longrightarrow> receipt_succeeded receipt"
  by (simp add: receipt_succeeded_def number_of_def json_Number_def)

lemma repeated_observer_counts_twice: "observerUrls ''n1'' (Some ''n2, n1,n2'') = [''n2'', ''n2'']"
  by code_simp

lemma tsa_failure_sends_unsigned:
  assumes "ch_tsaEnabled env" and "\<not> ch_tsaFailOpen env" and "\<And>payload. \<exists>message. ch_tsa env payload = Inl message"
  shows "enrichWithReceiptIntegrity env r = r"
proof -
  have "createTsaAttestation env payload digest \<noteq> Inr t" for payload digest t
    using assms(1,2) assms(3) [of payload] by (auto simp add: createTsaAttestation_def)
  then show ?thesis
    by (simp add: enrichWithReceiptIntegrity_def Let_def split: option.split sum.split)
qed

section \<open>A gateway to run against\<close>

definition sample_receipt :: "(string \<times> json) list" where
  "sample_receipt =
     [(''tx_id'', JString ''t1''), (''validation_code'', JNumber (js_of_int 0)), (''commitment_hash'', JString ''c''),
      (''block_hash'', JString ''b''), (''receipt_hash'', JString ''h''), (''policy_id'', JString ''p''),
      (''endorsements'', JArray []), (''schema_version'', JString ''1'')]"

definition sample_chain_env :: chain_env where
  "sample_chain_env =
     \<lparr>ch_observers = 2, ch_requireQuorum = True, ch_signingEnabled = True, ch_keyId = ''k'',
      ch_sign = Some (\<lambda>s. ''signed '' @ s), ch_fingerprint = ''f'', ch_tsaEnabled = False, ch_tsaFailOpen = False,
      ch_tsaUrl = [], ch_tsa = (\<lambda>_. Inl []), ch_now = 1, ch_dateParse = (\<lambda>_. None), ch_localeLe = (\<lambda>_ _. True),
      ch_sha256 = rev, ch_sha3 = rev,
      ch_post = (\<lambda>n _. if n = 0 then Inl (HttpError 503 JNull []) else Inr (JObject [(''receipt'', JObject sample_receipt)])),
      ch_get = (\<lambda>_. Inl (NoResponse [])),
      ch_observe = (\<lambda>i _. if i = 0 then Inr (JObject [(''msp_id'', JString ''org2''), (''validation_code'', JNumber (js_of_int 0))])
                            else Inl (NoResponse []))\<rparr>"

definition sample_anchor :: anchor_data where
  "sample_anchor =
     \<lparr>ad_transactionId = ''x'', ad_fromUserId = ''a'', ad_toUserId = Some ''b'', ad_amount = AmtNumber (js_of_int 5), ad_memo = None,
      ad_internalRef = None, ad_settlementRef = None, ad_timestamp = None, ad_nonce = ''n'', ad_idempotencyKey = ''i'',
      ad_riskFlag = None\<rparr>"

definition sample_result :: anchor_result where
  "sample_result = \<lparr>an_chainStatus = AN_ANCHORED, an_txId = ''t'', an_blockNumber = js_of_int 1, an_commitmentHash = ''c'',
     an_receiptJson = ''{}''\<rparr>"

abbreviation quiet_env :: chain_env where
  "quiet_env \<equiv> sample_chain_env\<lparr>ch_observers := 0, ch_signingEnabled := False\<rparr>"

lemma sample_anchors:
  "\<exists>r. fst (anchorTransfer quiet_env sample_anchor) = Inr r \<and> an_chainStatus r = AN_ANCHORED"
proof -
  have "case fst (anchorTransfer quiet_env sample_anchor) of Inr r \<Rightarrow> an_chainStatus r = AN_ANCHORED | Inl _ \<Rightarrow> False"
    by code_simp
  then show ?thesis by (auto split: sum.splits)
qed

lemma sample_posts: "length (snd (anchorTransfer quiet_env sample_anchor)) = 2"
  by code_simp

lemma sample_receipt_parses: "json_parse (an_receiptJson sample_result) = Some (JObject [])"
  by code_simp

lemma sample_stays_anchored: "an_chainStatus (enrichWithObserverConfirmations sample_chain_env sample_result) = AN_ANCHORED"
proof -
  have "length (collectObserverConfirmations sample_chain_env ''t'' [] []) = 1" by code_simp
  moreover have "ch_observers sample_chain_env = 2" "an_txId sample_result = ''t''" "an_chainStatus sample_result = AN_ANCHORED"
    by (simp_all add: sample_chain_env_def sample_result_def)
  ultimately show ?thesis using observed_status [OF sample_receipt_parses, of sample_chain_env]
    by (simp add: is_object_def json_prop_def asString_def coalesce_def js_upper_def quorum_met_def)
qed

theorem anchored_is_proven_witness:
  "\<exists>r m body. an_chainStatus r = AN_ANCHORED \<and> m \<le> 2 \<and>
     ch_post quiet_env m (anchor_payload quiet_env sample_anchor (chain_normalizeAmount (ad_amount sample_anchor))) = Inr body \<and>
     proven_by body r"
  using sample_anchors anchored_is_proven [of quiet_env sample_anchor] by blast

theorem anchor_retries_bounded_witness:
  "\<exists>err. bindE (ch_post quiet_env 0 (anchor_payload quiet_env sample_anchor (chain_normalizeAmount (ad_amount sample_anchor))))
     parseAnchorTransferResponse = Inl err \<and> isTransientError err"
  using anchor_retries_bounded [of quiet_env sample_anchor] sample_posts by simp

theorem signed_receipt_verifies_witness:
  "\<exists>sent. an_receiptJson (enrichWithReceiptIntegrity sample_chain_env sample_result) = json_text (JObject sent) \<and>
     map_of sent ''receipt_integrity'' \<noteq> None \<and> without ''receipt_integrity'' sent = []"
proof -
  have "ch_sign sample_chain_env = Some (\<lambda>s. ''signed '' @ s)" "ch_signingEnabled sample_chain_env"
    "createTsaAttestation sample_chain_env payload digest = Inr None" for payload digest
    by (simp_all add: sample_chain_env_def createTsaAttestation_def)
  from signed_receipt_verifies [OF this(2,1) sample_receipt_parses this(3)] show ?thesis
    by (auto simp add: without_def)
qed


theorem required_quorum_is_majority_witness:
  "1 + ch_observers sample_chain_env < 2 * (1 + card {i. i < ch_observers sample_chain_env \<and>
     observer_confirms sample_chain_env ''t'' [] [] i \<noteq> None})"
proof -
  have "ch_requireQuorum sample_chain_env" "0 < ch_observers sample_chain_env" "an_txId sample_result \<noteq> []" "is_object (JObject [])"
    by (simp_all add: sample_chain_env_def sample_result_def is_object_def)
  from required_quorum_is_majority [OF this(1-3) sample_receipt_parses this(4) sample_stays_anchored] show ?thesis
    by (simp add: json_prop_def sample_result_def asString_def coalesce_def js_upper_def)
qed

end
