(* ===== verification/Ato_Risk.thy ===== *)
theory Ato_Risk
  imports Tx_Grpc
begin

text \<open>
  The account-takeover check of the transaction service
  (\<^verbatim>\<open>transaction-service/src/transactions/ato-risk.service.ts\<close>): a transfer is scored by an
  external model and by three rules of its own, and either may ask for a second factor. The model is
  reached through \<open>a_fetch\<close>; the logarithm of the platform and the decimal text in which the database
  answers an average are parameters too. Statistics of a destination are cached in a Map, here the list
  of its entries in insertion order. Between two awaits other requests may change the store and the
  cache (\<open>a_others\<close>). Counts are taken as numbers; the quotients of the temporal features are of safe
  integers by at most 3600000, where rounding does not reach the next integer.
\<close>

section \<open>Types\<close>

record assess_request =
  sq_requestingUserId :: "string option"
  sq_fromUserId :: "string option"
  sq_toUserId :: "string option"
  sq_amount :: raw_amount
  sq_currency :: "string option"
  sq_isExternal :: "bool option"
  sq_externalPartner :: "string option"
  sq_externalAccountNo :: "string option"
  sq_deviceId :: "string option"

record risk_request =
  rr_requestingUserId :: string
  rr_fromUserId :: string
  rr_toUserId :: string
  rr_amount :: int
  rr_currency :: string
  rr_isExternal :: bool
  rr_externalPartner :: string
  rr_externalAccountNo :: string
  rr_deviceId :: string

record destination_stats =
  ds_txCount :: int
  ds_avgAmount :: js_number
  ds_uniqueSenders :: int

datatype ato_type = CASH_IN | CASH_OUT | DEBIT_TYPE | PAYMENT | TRANSFER_TYPE

record ato_model_response =
  am_verdict :: string
  am_probability :: js_number
  am_threshold :: js_number
  am_modelVersion :: string

record ato_assessment =
  aa_requiresStepUp :: bool
  aa_reasons :: "string list"
  aa_verdict :: string
  aa_probability :: js_number
  aa_threshold :: js_number
  aa_modelVersion :: string
  aa_modelType :: ato_type
  aa_senderBalance :: int
  aa_destinationTxCount :: int
  aa_destinationAvgAmount :: js_number
  aa_destinationUniqueSenders :: int

record cached_stats =
  cs_expiresAtMs :: int
  cs_value :: destination_stats

record risk_state =
  rs_db :: db
  rs_cache :: "(string \<times> cached_stats) list"

record ato_config =
  at_serviceUrl :: string
  at_timeoutMs :: int
  at_failOpen :: bool
  at_offsetMinutes :: int
  at_ttlMs :: int
  at_maxEntries :: int
  at_hardAmount :: int

record ato_env =
  a_cfg :: ato_config
  a_now :: int
  a_log1p :: "js_number \<Rightarrow> js_number"
  a_avgText :: "int list \<Rightarrow> string"
  a_fetch :: "string \<Rightarrow> json \<Rightarrow> string + (int \<times> json option)"
  a_others :: "risk_state \<Rightarrow> risk_state"

type_synonym 'a risk_handler = "(risk_state, svc_error, 'a) handler"

section \<open>Numbers\<close>

definition toNumber :: "json option \<Rightarrow> js_number \<Rightarrow> js_number" where
  "toNumber raw fallback =
     (case raw of
        Some (JNumber v) \<Rightarrow> if js_isFinite v then v else fallback
      | Some (JString s) \<Rightarrow> if js_trim s \<noteq> [] \<and> js_isFinite (js_Number s) then js_Number s else fallback
      | _ \<Rightarrow> fallback)"

definition ato_toInt :: "json option \<Rightarrow> int \<Rightarrow> int" where
  "ato_toInt raw fallback = js_int (js_floor (toNumber raw (js_of_int fallback)))"

definition ato_normalizeAmount :: "raw_amount \<Rightarrow> js_number" where
  "ato_normalizeAmount raw =
     (case raw of
        AmtNumber v \<Rightarrow> if js_isFinite v then js_floor v else JsNaN
      | AmtString s \<Rightarrow> if js_trim s \<noteq> [] \<and> js_isFinite (js_Number s) then js_floor (js_Number s) else JsNaN
      | AmtInt64 l \<Rightarrow> if sint (high l) = 0 then js_of_int (if unsigned l then uint (low l) else sint (low l)) else JsNaN
      | AmtUndefined \<Rightarrow> JsNaN)"

text \<open>\<open>a % b\<close> takes the sign of the dividend.\<close>

definition js_rem :: "int \<Rightarrow> int \<Rightarrow> int" where
  "js_rem a b = sgn a * (\<bar>a\<bar> mod \<bar>b\<bar>)"

section \<open>Configuration\<close>

definition ato_config_of :: "(string \<Rightarrow> string option) \<Rightarrow> ato_config" where
  "ato_config_of cfg =
     (let num = (\<lambda>k d. ato_toInt (map_option JString (cfg k)) d)
      in \<lparr>at_serviceUrl = rev (dropWhile (\<lambda>c. c = CHR ''/'') (rev (coalesce (cfg ''ATO_SERVICE_URL'') []))),
          at_timeoutMs = num ''ATO_TIMEOUT_MS'' 250,
          at_failOpen = (js_lower (coalesce (cfg ''ATO_FAIL_OPEN'') ''false'') = ''true''),
          at_offsetMinutes = num ''ATO_TIMEZONE_OFFSET_MINUTES'' 420,
          at_ttlMs = num ''ATO_STATS_CACHE_TTL_MS'' 5000,
          at_maxEntries = num ''ATO_STATS_CACHE_MAX_ENTRIES'' 10000,
          at_hardAmount = num ''ATO_FALLBACK_HARD_AMOUNT'' 50000000\<rparr>)"

section \<open>Validation\<close>

definition validateRisk :: "assess_request \<Rightarrow> svc_error + risk_request" where
  "validateRisk q =
     (let requestingUserId = trimmed (sq_requestingUserId q);
          fromUserId = trimmed (sq_fromUserId q);
          toUserId = trimmed (sq_toUserId q);
          amount = ato_normalizeAmount (sq_amount q);
          currency = js_upper (js_trim (or_str (sq_currency q) ''VND''));
          isExternal = (sq_isExternal q = Some True);
          externalPartner = trimmed (sq_externalPartner q);
          externalAccountNo = trimmed (sq_externalAccountNo q)
      in bindE (checkE (requestingUserId \<noteq> [] \<and> fromUserId \<noteq> [] \<and> toUserId \<noteq> [])
                  (BadRequest ''requestingUserId, fromUserId, toUserId required'')) (\<lambda>_.
         bindE (checkE (requestingUserId = fromUserId)
                  (BadRequest ''requestingUserId must match fromUserId'')) (\<lambda>_.
         bindE (checkE (positive_integer amount) (BadRequest ''amount must be positive integer'')) (\<lambda>_.
         bindE (checkE (currency \<noteq> [] \<and> length currency \<le> 16) (BadRequest ''currency is invalid'')) (\<lambda>_.
         bindE (checkE (\<not> (isExternal \<and> (externalPartner = [] \<or> externalAccountNo = [])))
                  (BadRequest ''external transfer requires externalPartner and externalAccountNo'')) (\<lambda>_.
         Inr \<lparr>rr_requestingUserId = requestingUserId, rr_fromUserId = fromUserId, rr_toUserId = toUserId,
              rr_amount = js_int amount, rr_currency = currency, rr_isExternal = isExternal,
              rr_externalPartner = externalPartner, rr_externalAccountNo = externalAccountNo,
              rr_deviceId = trimmed (sq_deviceId q)\<rparr>))))))"

section \<open>Features\<close>

text \<open>The step within a month of thirty days, the hour of the day and the day of the month.\<close>

definition temporalFeatures :: "ato_config \<Rightarrow> int \<Rightarrow> int \<times> int \<times> int" where
  "temporalFeatures c now =
     (let localMs = js_add now (js_round (js_round (at_offsetMinutes c * 60) * 1000));
          localHours = localMs div (60 * 60 * 1000);
          step = js_rem localHours (30 * 24) + 1
      in (step, js_rem (step - 1) 24, (step - 1) div 24 + 1))"

definition toModelType :: "risk_request \<Rightarrow> ato_type" where
  "toModelType r = (if rr_isExternal r then CASH_OUT else TRANSFER_TYPE)"

fun type_encoding :: "ato_type \<Rightarrow> int" where
  "type_encoding CASH_IN = 0"
| "type_encoding CASH_OUT = 1"
| "type_encoding DEBIT_TYPE = 2"
| "type_encoding PAYMENT = 3"
| "type_encoding TRANSFER_TYPE = 4"

definition buildFeatureVector :: "ato_env \<Rightarrow> risk_request \<Rightarrow> int \<Rightarrow> destination_stats \<Rightarrow> ato_type \<Rightarrow> json" where
  "buildFeatureVector env r senderBalance stats modelType =
     (let (step, hourOfDay, dayOfMonth) = temporalFeatures (a_cfg env) (a_now env);
          num = (\<lambda>n. JNumber (js_of_int n))
      in JObject
        [(''step'', num step), (''amount'', num (rr_amount r)), (''oldbalanceOrg'', num senderBalance),
         (''hour_of_day'', num hourOfDay), (''day_of_month'', num dayOfMonth),
         (''type_encoded'', num (type_encoding modelType)),
         (''is_high_risk_type'', num (if modelType = TRANSFER_TYPE \<or> modelType = CASH_OUT then 1 else 0)),
         (''amount_log'', JNumber (a_log1p env (js_of_int (rr_amount r)))),
         (''nameDest_tx_count'', num (ds_txCount stats)), (''nameDest_avg_amount'', JNumber (ds_avgAmount stats)),
         (''dest_unique_senders_before'', num (ds_uniqueSenders stats)),
         (''dest_amount_spike_ratio'',
          JNumber (if ds_avgAmount stats = JsNum 0 then js_of_int 1
                   else double_div (js_of_int (rr_amount r)) (double_add (ds_avgAmount stats) (to_double (1 / 100000)))))])"

section \<open>Statistics of a destination and their cache\<close>

definition destinationCacheKey :: "risk_request \<Rightarrow> string" where
  "destinationCacheKey r =
     (if rr_isExternal r
      then ''external:'' @ rr_currency r @ '':'' @ rr_externalPartner r @ '':'' @ rr_externalAccountNo r
      else ''wallet:'' @ rr_currency r @ '':'' @ rr_toUserId r)"

text \<open>\<open>Map.set\<close> keeps the place of a key that is already there.\<close>

fun map_set :: "string \<Rightarrow> 'v \<Rightarrow> (string \<times> 'v) list \<Rightarrow> (string \<times> 'v) list" where
  "map_set k v [] = [(k, v)]"
| "map_set k v ((k', v') # kvs) = (if k' = k then (k, v) # kvs else (k', v') # map_set k v kvs)"

definition cacheDestinationStats ::
    "ato_config \<Rightarrow> int \<Rightarrow> string \<Rightarrow> destination_stats \<Rightarrow> (string \<times> cached_stats) list \<Rightarrow> (string \<times> cached_stats) list" where
  "cacheDestinationStats c now k v cache =
     (if at_ttlMs c \<le> 0 then cache
      else let cache' = map_set k \<lparr>cs_expiresAtMs = now + at_ttlMs c, cs_value = v\<rparr> cache
           in if int (length cache') \<le> at_maxEntries c then cache'
              else case cache' of [] \<Rightarrow> [] | (oldestKey, _) # rest \<Rightarrow> if oldestKey \<noteq> [] then rest else cache')"

definition destination_rows :: "risk_request \<Rightarrow> db \<Rightarrow> transaction list" where
  "destination_rows r d =
     filter (\<lambda>t. tx_currency t = rr_currency r \<and> tx_status t \<noteq> TX_FAILED \<and>
       (if rr_isExternal r then tx_isExternal t \<and> tx_externalAccountNo t = Some (rr_externalAccountNo r)
        else tx_toUserId t = Some (rr_toUserId r))) (d_txs d)"

definition destination_query :: "ato_env \<Rightarrow> risk_request \<Rightarrow> db \<Rightarrow> destination_stats" where
  "destination_query env r d =
     (let rows = destination_rows r d
      in \<lparr>ds_txCount = int (length rows),
          ds_avgAmount = toNumber (Some (JString (if rows = [] then ''0'' else a_avgText env (map tx_amount rows)))) (js_of_int 0),
          ds_uniqueSenders = int (card (set (map tx_fromUserId rows)))\<rparr>)"

definition queryDestinationStats :: "ato_env \<Rightarrow> risk_request \<Rightarrow> destination_stats risk_handler" where
  "queryDestinationStats env r =
     bindH (readH (\<lambda>s. destination_query env r (rs_db s))) (\<lambda>value.
     bindH (interfere (a_others env)) (\<lambda>_.
     bindH (atomic (modifyU (\<lambda>s. s\<lparr>rs_cache :=
              cacheDestinationStats (a_cfg env) (a_now env) (destinationCacheKey r) value (rs_cache s)\<rparr>))) (\<lambda>_.
     returnH value)))"

definition getDestinationStats :: "ato_env \<Rightarrow> risk_request \<Rightarrow> destination_stats risk_handler" where
  "getDestinationStats env r =
     bindH (readH (\<lambda>s. map_of (rs_cache s) (destinationCacheKey r))) (\<lambda>cached.
       case cached of
         Some entry \<Rightarrow> if a_now env < cs_expiresAtMs entry then returnH (cs_value entry) else queryDestinationStats env r
       | None \<Rightarrow> queryDestinationStats env r)"

section \<open>The model and the rules\<close>

text \<open>
  The answer of the model: its status and its JSON body, None where the body is not JSON. A null body
  has no properties to read and the read throws.
\<close>

definition callAtoModel :: "ato_env \<Rightarrow> json \<Rightarrow> string + ato_model_response" where
  "callAtoModel env features =
     (if at_serviceUrl (a_cfg env) = [] then Inl ''ATO_SERVICE_URL is not configured''
      else bindE (a_fetch env (at_serviceUrl (a_cfg env) @ ''/score'') (JObject [(''features'', features)])) (\<lambda>(st, body).
        let payload = coalesce body (JObject []);
            text = (\<lambda>k d. js_string (case json_prop k payload of None \<Rightarrow> JString d | Some JNull \<Rightarrow> JString d | Some v \<Rightarrow> v));
            probability = toNumber (json_prop ''probability'' payload) JsNaN;
            threshold = toNumber (json_prop ''threshold'' payload) JsNaN;
            verdict = js_upper (js_trim (text ''verdict'' []))
        in if payload = JNull then Inl ''Cannot read properties of null''
           else if \<not> (200 \<le> st \<and> st \<le> 299) then Inl (int_digits st @ '' '' @ text ''message'' ''ATO scoring failed'')
           else if \<not> js_isFinite probability \<or> verdict = [] then Inl ''ATO scoring response is invalid''
           else Inr \<lparr>am_verdict = verdict, am_probability = probability,
                     am_threshold = (if js_isFinite threshold then threshold else js_of_int 0),
                     am_modelVersion = text ''modelVersion'' []\<rparr>))"

definition fallbackReasons :: "ato_config \<Rightarrow> risk_request \<Rightarrow> int \<Rightarrow> destination_stats \<Rightarrow> string list" where
  "fallbackReasons c r senderBalance stats =
     (if at_hardAmount c \<le> rr_amount r then [''amount_over_fallback_threshold''] else []) @
     (if 0 < senderBalance \<and> js_ge (js_of_int (rr_amount r)) (double_mul (js_of_int senderBalance) (to_double (9 / 10)))
      then [''amount_near_sender_balance''] else []) @
     (if js_gt (ds_avgAmount stats) (js_of_int 0) \<and>
         js_ge (js_of_int (rr_amount r)) (double_mul (ds_avgAmount stats) (js_of_int 5))
      then [''destination_amount_spike''] else [])"

definition assessment ::
    "risk_request \<Rightarrow> int \<Rightarrow> destination_stats \<Rightarrow> bool \<Rightarrow> string list \<Rightarrow> ato_model_response \<Rightarrow> ato_assessment" where
  "assessment r senderBalance stats stepUp reasons model =
     \<lparr>aa_requiresStepUp = stepUp, aa_reasons = reasons, aa_verdict = am_verdict model,
      aa_probability = am_probability model, aa_threshold = am_threshold model,
      aa_modelVersion = am_modelVersion model, aa_modelType = toModelType r, aa_senderBalance = senderBalance,
      aa_destinationTxCount = ds_txCount stats, aa_destinationAvgAmount = ds_avgAmount stats,
      aa_destinationUniqueSenders = ds_uniqueSenders stats\<rparr>"

definition unavailable :: ato_model_response where
  "unavailable = \<lparr>am_verdict = ''UNAVAILABLE'', am_probability = js_of_int 0, am_threshold = js_of_int 0, am_modelVersion = []\<rparr>"

definition assess_answer ::
    "ato_config \<Rightarrow> risk_request \<Rightarrow> int \<Rightarrow> destination_stats \<Rightarrow> string + ato_model_response \<Rightarrow> ato_assessment" where
  "assess_answer c r senderBalance stats answer =
     (let fallback = fallbackReasons c r senderBalance stats
      in case answer of
           Inr model \<Rightarrow>
             let suspected = (am_verdict model = ''ATO_SUSPECTED'')
             in assessment r senderBalance stats (suspected \<or> fallback \<noteq> [])
                  ((if suspected then [''ato_model_suspected''] else []) @ fallback) model
         | Inl message \<Rightarrow>
             let stepUp = (\<not> at_failOpen c \<or> fallback \<noteq> [])
             in assessment r senderBalance stats stepUp
                  (if stepUp then ''ato_model_unavailable'' # fallback else [''ato_model_unavailable_fail_open''])
                  unavailable)"

definition assessTransferRisk :: "ato_env \<Rightarrow> assess_request \<Rightarrow> ato_assessment risk_handler" where
  "assessTransferRisk env q =
     bindH (liftE (validateRisk q)) (\<lambda>r.
     bindH (readH (\<lambda>s. balance_of (rs_db s) (rr_fromUserId r) (rr_currency r))) (\<lambda>senderBalance.
     bindH (interfere (a_others env)) (\<lambda>_.
     bindH (getDestinationStats env r) (\<lambda>stats.
     returnH (assess_answer (a_cfg env) r senderBalance stats
       (callAtoModel env (buildFeatureVector env r senderBalance stats (toModelType r))))))))"

definition rpc_assessTransferRisk :: "ato_env \<Rightarrow> assess_request \<Rightarrow> (risk_state, rpc_error, ato_assessment) handler" where
  "rpc_assessTransferRisk env q s =
     (case assessTransferRisk env q s of (Inl e, s') \<Rightarrow> (Inl (grpc_error e), s') | (Inr x, s') \<Rightarrow> (Inr x, s'))"

section \<open>Who is let through\<close>

lemma assess_run:
  assumes "assessTransferRisk env q s = (Inr a, s')"
  obtains r stats where "validateRisk q = Inr r"
    and "a = assess_answer (a_cfg env) r (balance_of (rs_db s) (rr_fromUserId r) (rr_currency r)) stats
      (callAtoModel env (buildFeatureVector env r (balance_of (rs_db s) (rr_fromUserId r) (rr_currency r)) stats (toModelType r)))"
  using assms by (auto simp add: assessTransferRisk_def err_simps liftE_def readH_def interfere_def returnH_def)

lemma no_step_up:
  "\<not> aa_requiresStepUp (assess_answer c r balance stats answer) \<Longrightarrow>
   fallbackReasons c r balance stats = [] \<and>
   (case answer of Inr model \<Rightarrow> am_verdict model \<noteq> ''ATO_SUSPECTED'' | Inl _ \<Rightarrow> at_failOpen c)"
  by (cases answer) (simp_all add: assess_answer_def assessment_def Let_def)

lemma assess_fields:
  "aa_senderBalance (assess_answer c r balance stats answer) = balance"
  "aa_destinationAvgAmount (assess_answer c r balance stats answer) = ds_avgAmount stats"
  by (simp_all add: assess_answer_def assessment_def Let_def split: sum.split)

text \<open>
  C23. A transfer escapes the second factor only if it is below the hard limit, below nine tenths of the
  sender's balance and below five times the average of its destination, and the model answered without
  suspicion or, where the service is set to fail open, gave no answer. This holds for whatever the
  model answers and other requests do.
\<close>

theorem step_up_escaped:
  assumes "assessTransferRisk env q s = (Inr a, s')" and "\<not> aa_requiresStepUp a"
  shows "\<exists>r stats. validateRisk q = Inr r \<and> rr_amount r < at_hardAmount (a_cfg env) \<and>
    aa_senderBalance a = balance_of (rs_db s) (rr_fromUserId r) (rr_currency r) \<and>
    \<not> (0 < aa_senderBalance a \<and>
       js_ge (js_of_int (rr_amount r)) (double_mul (js_of_int (aa_senderBalance a)) (to_double (9 / 10)))) \<and>
    \<not> (js_gt (aa_destinationAvgAmount a) (js_of_int 0) \<and>
       js_ge (js_of_int (rr_amount r)) (double_mul (aa_destinationAvgAmount a) (js_of_int 5))) \<and>
    (case callAtoModel env (buildFeatureVector env r (aa_senderBalance a) stats (toModelType r)) of
       Inr model \<Rightarrow> am_verdict model \<noteq> ''ATO_SUSPECTED'' | Inl _ \<Rightarrow> at_failOpen (a_cfg env))"
proof -
  obtain r stats where r: "validateRisk q = Inr r"
    and a: "a = assess_answer (a_cfg env) r (balance_of (rs_db s) (rr_fromUserId r) (rr_currency r)) stats
      (callAtoModel env (buildFeatureVector env r (balance_of (rs_db s) (rr_fromUserId r) (rr_currency r)) stats (toModelType r)))"
    using assess_run [OF assms(1)] .
  note free = no_step_up [OF assms(2) [unfolded a]]
  have rules: "rr_amount r < at_hardAmount (a_cfg env)"
    "\<not> (0 < aa_senderBalance a \<and> js_ge (js_of_int (rr_amount r)) (double_mul (js_of_int (aa_senderBalance a)) (to_double (9 / 10))))"
    "\<not> (js_gt (aa_destinationAvgAmount a) (js_of_int 0) \<and> js_ge (js_of_int (rr_amount r)) (double_mul (aa_destinationAvgAmount a) (js_of_int 5)))"
    using free by (auto simp add: fallbackReasons_def a assess_fields split: if_splits)
  show ?thesis using r rules free by (intro exI [of _ r] exI [of _ stats]) (simp add: a assess_fields(1))
qed

section \<open>What is assessed\<close>

definition risk_request_of :: "create_transfer_request \<Rightarrow> assess_request" where
  "risk_request_of q =
     \<lparr>sq_requestingUserId = tq_requestingUserId q, sq_fromUserId = tq_fromUserId q, sq_toUserId = tq_toUserId q,
      sq_amount = tq_amount q, sq_currency = tq_currency q, sq_isExternal = tq_isExternal q,
      sq_externalPartner = tq_externalPartner q, sq_externalAccountNo = tq_externalAccountNo q, sq_deviceId = None\<rparr>"

lemma floor_of_integer: "js_isInteger v \<Longrightarrow> js_floor v = v"
  by (cases v) (simp_all add: js_isInteger_def js_floor_def)

lemma amounts_agree: "positive_integer (normalizeAmount raw) \<Longrightarrow> ato_normalizeAmount raw = normalizeAmount raw"
  by (cases raw) (auto simp add: ato_normalizeAmount_def normalizeAmount_def positive_integer_def floor_of_integer split: if_splits)

lemma currencies_agree:
  "normalizeCurrency c = Inr cur \<Longrightarrow> js_upper (js_trim (or_str c ''VND'')) = cur \<and> cur \<noteq> [] \<and> length cur \<le> 16"
  by (auto simp add: normalizeCurrency_def Let_def err_simps split: if_splits)

text \<open>
  The check looks at the transfer that is made: a request that the transfer operation accepts is
  accepted by the check as well, and both read the same sender, receiver, amount, currency and
  destination out of it.
\<close>

theorem risk_sees_transfer:
  assumes "validateCreateTransfer q = Inr t"
  shows "\<exists>r. validateRisk (risk_request_of q) = Inr r \<and> rr_fromUserId r = tr_fromUserId t \<and>
    rr_toUserId r = tr_toUserId t \<and> rr_amount r = tr_amount t \<and> rr_currency r = tr_currency t \<and>
    rr_isExternal r = tr_isExternal t \<and>
    (rr_isExternal r \<longrightarrow> tr_externalPartner t = Some (rr_externalPartner r) \<and> tr_externalAccountNo t = Some (rr_externalAccountNo r))"
proof -
  have amount: "positive_integer (normalizeAmount (tq_amount q))"
    and ids: "trimmed (tq_requestingUserId q) \<noteq> []" "trimmed (tq_toUserId q) \<noteq> []" "trimmed (tq_requestingUserId q) = trimmed (tq_fromUserId q)"
    and cur: "normalizeCurrency (tq_currency q) = Inr (tr_currency t)"
    and ext: "\<not> (coalesce (tq_isExternal q) False \<and> (trimmed (tq_externalPartner q) = [] \<or> trimmed (tq_externalAccountNo q) = []))"
    and t: "tr_fromUserId t = trimmed (tq_fromUserId q)" "tr_toUserId t = trimmed (tq_toUserId q)"
      "tr_amount t = js_int (normalizeAmount (tq_amount q))" "tr_isExternal t = coalesce (tq_isExternal q) False"
      "tr_externalPartner t = or_null (trimmed (tq_externalPartner q))" "tr_externalAccountNo t = or_null (trimmed (tq_externalAccountNo q))"
    using assms by (auto simp add: validateCreateTransfer_def Let_def err_simps)
  have external: "coalesce (tq_isExternal q) False \<longleftrightarrow> tq_isExternal q = Some True"
    by (cases "tq_isExternal q") (auto simp add: coalesce_def)
  show ?thesis
    using ids t ext currencies_agree [OF cur] amount
    by (auto simp add: validateRisk_def risk_request_of_def Let_def err_simps amounts_agree external or_null_def)
qed

section \<open>The cache\<close>

definition cache_ok :: "ato_config \<Rightarrow> (string \<times> 'v) list \<Rightarrow> bool" where
  "cache_ok c cache \<longleftrightarrow> distinct (map fst cache) \<and> [] \<notin> set (map fst cache) \<and> int (length cache) \<le> max 0 (at_maxEntries c)"

lemma keys_map_set: "map fst (map_set k v kvs) = (if k \<in> set (map fst kvs) then map fst kvs else map fst kvs @ [k])"
  by (induction k v kvs rule: map_set.induct) auto

lemma map_of_map_set: "map_of (map_set k v kvs) k' = (if k' = k then Some v else map_of kvs k')"
  by (induction k v kvs rule: map_set.induct) auto

lemma map_set_new: "k \<notin> set (map fst kvs) \<Longrightarrow> map_set k v kvs = kvs @ [(k, v)]"
  by (induction k v kvs rule: map_set.induct) auto

lemma length_map_set: "length (map_set k v kvs) = (if k \<in> set (map fst kvs) then length kvs else Suc (length kvs))"
  using arg_cong [OF keys_map_set, of length k v kvs] by (simp split: if_splits)

lemma key_not_empty: "destinationCacheKey r \<noteq> []"
  by (simp add: destinationCacheKey_def)

lemma cache_ok_store:
  assumes "cache_ok c cache" and "k \<noteq> []"
  shows "cache_ok c (cacheDestinationStats c now k v cache)"
proof -
  let ?entry = "\<lparr>cs_expiresAtMs = now + at_ttlMs c, cs_value = v\<rparr>"
  have "map_set k ?entry cache \<noteq> []" by (cases cache) (auto split: if_splits)
  then obtain k0 e0 rest where m: "map_set k ?entry cache = (k0, e0) # rest" by (metis list.exhaust prod.exhaust)
  have d: "distinct (map fst ((k0, e0) # rest))"
    using assms(1) unfolding m [symmetric] keys_map_set by (simp add: cache_ok_def)
  have ks: "[] \<notin> set (map fst ((k0, e0) # rest))"
    using assms unfolding m [symmetric] keys_map_set by (simp add: cache_ok_def)
  have "length rest \<le> length cache" using length_map_set [of k ?entry cache] m by (simp split: if_splits)
  then show ?thesis using d ks m assms(1) by (auto simp add: cacheDestinationStats_def cache_ok_def Let_def)
qed

lemma cache_ok_query:
  assumes "cache_ok (a_cfg env) (rs_cache s)"
    and "\<And>s. cache_ok (a_cfg env) (rs_cache s) \<Longrightarrow> cache_ok (a_cfg env) (rs_cache (a_others env s))"
  shows "cache_ok (a_cfg env) (rs_cache (snd (queryDestinationStats env r s)))"
  using cache_ok_store [OF assms(2) [OF assms(1)] key_not_empty]
  by (simp add: queryDestinationStats_def handler_defs modifyU_def)

lemma cache_ok_stats:
  assumes "cache_ok (a_cfg env) (rs_cache s)"
    and "\<And>s. cache_ok (a_cfg env) (rs_cache s) \<Longrightarrow> cache_ok (a_cfg env) (rs_cache (a_others env s))"
  shows "cache_ok (a_cfg env) (rs_cache (snd (getDestinationStats env r s)))"
  using assms(1) cache_ok_query [OF assms]
  by (simp add: getDestinationStats_def bindH_def readH_def returnH_def split: option.split)

text \<open>
  The cache of statistics stays within its configured size and holds one entry per destination,
  whatever requests are assessed and whatever the other requests do that keep it so.
\<close>

theorem ato_cache_bounded:
  assumes "cache_ok (a_cfg env) (rs_cache s)"
    and "\<And>s. cache_ok (a_cfg env) (rs_cache s) \<Longrightarrow> cache_ok (a_cfg env) (rs_cache (a_others env s))"
  shows "cache_ok (a_cfg env) (rs_cache (snd (assessTransferRisk env q s)))"
proof (cases "validateRisk q")
  case (Inl e)
  then show ?thesis using assms(1) by (simp add: assessTransferRisk_def bindH_def liftE_def)
next
  case (Inr r)
  then have "snd (assessTransferRisk env q s) = snd (getDestinationStats env r (a_others env s))"
    by (simp add: assessTransferRisk_def handler_defs split: prod.split sum.split)
  then show ?thesis using cache_ok_stats [OF assms(2) [OF assms(1)] assms(2)] by simp
qed

text \<open>What was stored is found again, and served until it expires.\<close>

lemma cache_serves:
  assumes "cache_ok c cache" and "0 < at_ttlMs c" and "0 < at_maxEntries c"
  shows "map_of (cacheDestinationStats c now k v cache) k = Some \<lparr>cs_expiresAtMs = now + at_ttlMs c, cs_value = v\<rparr>"
proof -
  let ?entry = "\<lparr>cs_expiresAtMs = now + at_ttlMs c, cs_value = v\<rparr>"
  have stored: "map_of (map_set k ?entry cache) k = Some ?entry" by (simp add: map_of_map_set)
  show ?thesis
  proof (cases "int (length (map_set k ?entry cache)) \<le> at_maxEntries c")
    case True
    then show ?thesis using stored assms(2) by (simp add: cacheDestinationStats_def Let_def)
  next
    case False
    have small: "int (length cache) \<le> at_maxEntries c" using assms(1,3) by (simp add: cache_ok_def)
    then have new: "k \<notin> set (map fst cache)"
      using False length_map_set [of k ?entry cache] by (auto split: if_splits)
    then obtain k0 e0 rest where cache: "cache = (k0, e0) # rest"
      using False assms(3) length_map_set [of k ?entry cache] by (cases cache) auto
    have "k0 \<noteq> []" using assms(1) cache by (auto simp add: cache_ok_def)
    then have "cacheDestinationStats c now k v cache = rest @ [(k, ?entry)]"
      using False assms(2) map_set_new [OF new, of ?entry] cache by (simp add: cacheDestinationStats_def Let_def)
    moreover have "map_of rest k = None" using new cache by (simp add: map_of_eq_None_iff)
    ultimately show ?thesis by (simp add: map_add_def)
  qed
qed

section \<open>The clock of the model\<close>

lemma js_rem_nonneg: "0 \<le> a \<Longrightarrow> 0 < b \<Longrightarrow> js_rem a b = a mod b"
  by (cases "a = 0") (simp_all add: js_rem_def)

lemma temporal_ranges:
  assumes "temporalFeatures c now = (step, hour, day)"
    and "0 \<le> js_add now (js_round (js_round (at_offsetMinutes c * 60) * 1000))"
  shows "1 \<le> step \<and> step \<le> 720 \<and> 0 \<le> hour \<and> hour < 24 \<and> 1 \<le> day \<and> day \<le> 30 \<and> step = (day - 1) * 24 + hour + 1"
proof -
  define h where "h = js_add now (js_round (js_round (at_offsetMinutes c * 60) * 1000)) div 3600000"
  have "0 \<le> h" unfolding h_def by (rule pos_imp_zdiv_nonneg_iff [THEN iffD2]) (use assms(2) in auto)
  then have m: "js_rem h 720 = h mod 720" "js_rem (h mod 720) 24 = h mod 720 mod 24" by (simp_all add: js_rem_nonneg)
  have f: "step = h mod 720 + 1" "hour = h mod 720 mod 24" "day = h mod 720 div 24 + 1"
    using assms(1) m by (simp_all add: temporalFeatures_def Let_def h_def)
  have "0 \<le> h mod 720" "h mod 720 < 720" by simp_all
  then have "0 \<le> h mod 720 div 24" "h mod 720 div 24 < 30" by (simp_all add: pos_imp_zdiv_nonneg_iff)
  then show ?thesis unfolding f by (simp add: minus_mod_eq_div_mult [symmetric])
qed

section \<open>Colliding keys\<close>

lemma cache_keys_collide:
  "destinationCacheKey (r\<lparr>rr_isExternal := True, rr_externalPartner := p @ '':'' @ x, rr_externalAccountNo := y\<rparr>) =
   destinationCacheKey (r\<lparr>rr_isExternal := True, rr_externalPartner := p, rr_externalAccountNo := x @ '':'' @ y\<rparr>)"
  by (simp add: destinationCacheKey_def)

section \<open>A request to run\<close>

definition sample_ato_env :: ato_env where
  "sample_ato_env =
     \<lparr>a_cfg = \<lparr>at_serviceUrl = ''u'', at_timeoutMs = 250, at_failOpen = False, at_offsetMinutes = 420, at_ttlMs = 5000,
        at_maxEntries = 1, at_hardAmount = 50\<rparr>,
      a_now = 0, a_log1p = (\<lambda>v. v), a_avgText = (\<lambda>_. ''0''),
      a_fetch = (\<lambda>_ _. Inr (200, Some (JObject [(''probability'', JNumber (js_of_int 0)), (''verdict'', JString ''ok'')]))),
      a_others = (\<lambda>s. s)\<rparr>"

definition sample_risk_request :: assess_request where
  "sample_risk_request =
     \<lparr>sq_requestingUserId = Some ''a'', sq_fromUserId = Some ''a'', sq_toUserId = Some ''b'',
      sq_amount = AmtNumber (js_of_int 5), sq_currency = None, sq_isExternal = None, sq_externalPartner = None,
      sq_externalAccountNo = None, sq_deviceId = None\<rparr>"

definition sample_risk_state :: risk_state where
  "sample_risk_state = \<lparr>rs_db = empty_db, rs_cache = []\<rparr>"

lemma sample_not_stopped:
  "\<exists>a s'. assessTransferRisk sample_ato_env sample_risk_request sample_risk_state = (Inr a, s') \<and> \<not> aa_requiresStepUp a"
proof -
  have "case fst (assessTransferRisk sample_ato_env sample_risk_request sample_risk_state) of
      Inr a \<Rightarrow> \<not> aa_requiresStepUp a | Inl _ \<Rightarrow> False"
    by code_simp
  then show ?thesis by (cases "assessTransferRisk sample_ato_env sample_risk_request sample_risk_state") (auto split: sum.splits)
qed

theorem step_up_escaped_witness:
  "\<exists>r. validateRisk sample_risk_request = Inr r \<and> rr_amount r < 50"
proof -
  obtain a s' where "assessTransferRisk sample_ato_env sample_risk_request sample_risk_state = (Inr a, s')" "\<not> aa_requiresStepUp a"
    using sample_not_stopped by blast
  from step_up_escaped [OF this] have "\<exists>r. validateRisk sample_risk_request = Inr r \<and> rr_amount r < at_hardAmount (a_cfg sample_ato_env)"
    by blast
  then show ?thesis by (simp add: sample_ato_env_def)
qed

theorem risk_sees_transfer_witness:
  "\<exists>r t. validateCreateTransfer sample_request = Inr t \<and> validateRisk (risk_request_of sample_request) = Inr r \<and>
     rr_amount r = tr_amount t"
proof -
  have "\<not> isl (validateCreateTransfer sample_request)" by code_simp
  then have "validateCreateTransfer sample_request = Inr (projr (validateCreateTransfer sample_request))" by simp
  from risk_sees_transfer [OF this] this show ?thesis by blast
qed

theorem ato_cache_bounded_witness:
  "int (length (rs_cache (snd (assessTransferRisk sample_ato_env sample_risk_request sample_risk_state)))) \<le> 1"
  using ato_cache_bounded [of sample_ato_env sample_risk_state sample_risk_request]
  by (simp add: cache_ok_def sample_risk_state_def sample_ato_env_def)

end
