(* ===== verification/Auth_Users.thy ===== *)
theory Auth_Users
  imports JS_Text
begin

text \<open>
  The tables of the authentication service (the entity classes of \<^verbatim>\<open>auth-service/src\<close>), its
  surroundings, and its users (\<^verbatim>\<open>users/users.service.ts\<close>): lookup by e-mail and by the
  spellings of a phone number, sign-in from Firebase, profiles and PINs. Firebase, the JWT library, the
  hash functions (\<open>au_hmac\<close> with a hexadecimal and \<open>au_hmac64\<close> with a base64url digest), the base64url
  coding of a text and the random bytes are fields of \<open>auth_env\<close>; a byte is a character. Between two
  awaits other requests may change the store (\<open>au_others\<close>).
\<close>

section \<open>Tables\<close>

datatype account_status = ACC_ACTIVE | ACC_BLOCKED | ACC_LOCKED

record auth_user =
  us_id :: string
  us_firebaseUid :: string
  us_accountStatus :: account_status
  us_email :: "string option"
  us_phone :: "string option"
  us_displayName :: "string option"
  us_kycStatus :: string
  us_hashedPin :: "string option"
  us_createdAt :: int

record auth_session =
  se_id :: string
  se_userId :: string
  se_refreshTokenHash :: string
  se_refreshTokenExpiresAt :: int
  se_revokedAt :: "int option"
  se_lastUsedAt :: "int option"
  se_userAgent :: "string option"
  se_ipAddress :: "string option"

datatype otp_purpose = OTP_TRANSFER | OTP_STEP_UP_EMAIL

record auth_otp =
  otp_id :: string
  otp_userId :: string
  otp_purpose_of :: otp_purpose
  otp_hash :: string
  otp_attemptCount :: int
  otp_expiresAt :: int
  otp_usedAt :: "int option"
  otp_deviceId :: "string option"
  otp_createdAt :: int

record step_up_token =
  su_id :: string
  su_token :: string
  su_userId :: string
  su_deviceId :: "string option"
  su_method :: "string option"
  su_expiresAt :: int

datatype kyc_status = KYC_UNVERIFIED | KYC_PENDING_REVIEW | KYC_VERIFIED | KYC_REJECTED

datatype kyc_risk_level = KYC_LOW | KYC_MEDIUM | KYC_HIGH

record kyc_profile =
  ky_id :: string
  ky_userId :: string
  ky_fullName :: string
  ky_nationalId :: string
  ky_dateOfBirth :: int
  ky_idIssueDate :: "int option"
  ky_idIssuePlace :: "string option"
  ky_residentialAddress :: string
  ky_status :: kyc_status
  ky_riskLevel :: kyc_risk_level
  ky_rejectionReason :: "string option"
  ky_submittedAt :: "int option"

record auth_db =
  ad_users :: "auth_user list"
  ad_sessions :: "auth_session list"
  ad_otps :: "auth_otp list"
  ad_tokens :: "step_up_token list"
  ad_kycs :: "kyc_profile list"
  ad_uuid :: "nat \<Rightarrow> string"
  ad_seq :: nat

text \<open>What is thrown: the HTTP exceptions, a plain error, or an error of the database.\<close>

datatype auth_error =
    Unauthorized string
  | AuthBadRequest string
  | AuthError string
  | UniqueViolation string
  | AuthQueryFailed string

type_synonym 'a auth_handler = "(auth_db, auth_error, 'a) handler"
type_synonym 'a auth_unit = "auth_db \<Rightarrow> auth_error + ('a \<times> auth_db)"

section \<open>Surroundings\<close>

record jwt_claims =
  jw_sub :: string
  jw_firebaseUid :: string
  jw_kycStatus :: string

record firebase_user =
  fb_uid :: string
  fb_disabled :: bool
  fb_email :: "string option"
  fb_phoneNumber :: "string option"
  fb_displayName :: "string option"

record email_otp_request =
  eo_recipientEmail :: string
  eo_otpCode :: string
  eo_expiresInSeconds :: js_number
  eo_purpose :: string

datatype notify_error = NotifyInvalid string | NotifyUnavailable | NotifyOther string

record auth_env =
  au_cfg :: "string \<Rightarrow> string option"
  au_now :: int
  au_random :: rat
  au_bytes :: "nat \<Rightarrow> string"
  au_firebaseVerify :: "string \<Rightarrow> string option"
  au_firebaseUser :: "string \<Rightarrow> firebase_user option"
  au_jwtSign :: "jwt_claims \<Rightarrow> string"
  au_jwtVerify :: "string \<Rightarrow> jwt_claims option"
  au_sha256 :: "string \<Rightarrow> string"
  au_hmac :: "string \<Rightarrow> string \<Rightarrow> string"
  au_hmac64 :: "string \<Rightarrow> string \<Rightarrow> string"
  au_scrypt :: "string \<Rightarrow> string \<Rightarrow> string"
  au_base64url :: "string \<Rightarrow> string"
  au_base64urlDecode :: "string \<Rightarrow> string"
  au_dateParse :: "string \<Rightarrow> int option"
  au_notify :: "email_otp_request \<Rightarrow> notify_error + bool"
  au_unnamed :: string
  au_others :: "auth_db \<Rightarrow> auth_db"

definition await :: "auth_env \<Rightarrow> unit auth_handler" where
  "await env = interfere (au_others env)"

section \<open>Saving rows\<close>

definition save_user :: "auth_user \<Rightarrow> auth_user auth_unit" where
  "save_user u d =
     (if clash (Some \<circ> us_firebaseUid) us_id u (ad_users d) then Inl (UniqueViolation ''firebaseUid'')
      else if clash us_email us_id u (ad_users d) then Inl (UniqueViolation ''email'')
      else if clash us_phone us_id u (ad_users d) then Inl (UniqueViolation ''phone'')
      else Inr (u, d\<lparr>ad_users := put_row us_id u (ad_users d)\<rparr>))"

definition insert_user :: "int \<Rightarrow> auth_user \<Rightarrow> auth_user auth_unit" where
  "insert_user now u d =
     save_user (u\<lparr>us_id := ad_uuid d (ad_seq d), us_createdAt := now\<rparr>) (d\<lparr>ad_seq := Suc (ad_seq d)\<rparr>)"

section \<open>Lookup\<close>

definition findById :: "auth_db \<Rightarrow> string \<Rightarrow> auth_user option" where
  "findById d i = find_row (\<lambda>u. us_id u = i) (ad_users d)"

definition endsWith :: "string \<Rightarrow> string \<Rightarrow> bool" where
  "endsWith s t = js_startsWith (rev s) (rev t)"

definition isMockUser :: "auth_user \<Rightarrow> bool" where
  "isMockUser u =
     (let email = js_lower (js_trim (coalesce (us_email u) []));
          firebaseUid = js_lower (js_trim (us_firebaseUid u));
          displayName = js_lower (js_trim (coalesce (us_displayName u) []))
      in endsWith email ''@mock.local'' \<or> js_startsWith firebaseUid ''mock-'' \<or> js_startsWith firebaseUid ''smoke-user'' \<or>
         (displayName = ''mock user'' \<and> js_includes email ''mock''))"

definition findByEmail :: "auth_db \<Rightarrow> string \<Rightarrow> auth_user option" where
  "findByEmail d email =
     (let normalized = js_lower (js_trim email)
      in if normalized = [] then None
         else case find_row (\<lambda>u. us_email u = Some normalized) (ad_users d) of
           Some u \<Rightarrow> if isMockUser u then None else Some u
         | None \<Rightarrow> None)"

definition digits_of :: "string \<Rightarrow> string" where
  "digits_of s = filter js_digit s"

definition normalizePhone :: "string \<Rightarrow> string" where
  "normalizePhone raw =
     (let trimmed = js_trim raw; digits = digits_of trimmed
      in if digits = [] then []
         else if js_startsWith trimmed ''+'' \<and> js_startsWith digits ''84'' then ''+'' @ digits else digits)"

definition normalizePhoneForStore :: "string \<Rightarrow> string" where
  "normalizePhoneForStore raw =
     (let trimmed = js_trim raw; digits = digits_of trimmed
      in if digits = [] then []
         else if js_startsWith trimmed ''+'' \<and> js_startsWith digits ''84'' then ''+'' @ digits
         else if js_startsWith digits ''84'' \<and> length digits = 11 then ''0'' @ drop 2 digits else digits)"

definition phone_variants :: "string \<Rightarrow> string list" where
  "phone_variants n =
     [n] @
     (if js_startsWith n ''0'' \<and> 10 \<le> length n then [''84'' @ drop 1 n, ''+84'' @ drop 1 n] else []) @
     (if js_startsWith n ''84'' \<and> 10 \<le> length n then [''0'' @ drop 2 n, ''+'' @ n] else []) @
     (if js_startsWith n ''+84'' \<and> 11 \<le> length n then [''0'' @ drop 3 n, drop 1 n] else [])"

text \<open>The test of the query's ORDER BY, which puts mock users last.\<close>

definition sql_mock :: "auth_user \<Rightarrow> bool" where
  "sql_mock u =
     (endsWith (js_lower (coalesce (us_email u) [])) ''@mock.local'' \<or>
      js_startsWith (js_lower (us_firebaseUid u)) ''mock-'' \<or> js_startsWith (js_lower (us_firebaseUid u)) ''smoke-user'' \<or>
      js_lower (coalesce (us_displayName u) []) = ''mock user'')"

definition phone_candidates :: "auth_db \<Rightarrow> string list \<Rightarrow> auth_user list" where
  "phone_candidates d phones =
     (let rows = filter (\<lambda>u. \<exists>p\<in>set phones. us_phone u = Some p) (ad_users d);
          newest = sort_key (\<lambda>u. - us_createdAt u)
      in newest (filter (\<lambda>u. \<not> sql_mock u) rows) @ newest (filter sql_mock rows))"

definition findByPhone :: "auth_db \<Rightarrow> string \<Rightarrow> auth_user option" where
  "findByPhone d identifier =
     (let normalized = normalizePhone identifier
      in if normalized = [] then None
         else find_row (\<lambda>u. \<not> isMockUser u) (phone_candidates d (phone_variants normalized)))"

section \<open>Sign-in and profiles\<close>

record firebase_payload =
  fp_firebaseUid :: string
  fp_email :: "string option"
  fp_phone :: "string option"
  fp_displayName :: "string option"

definition trim_lower :: "string option \<Rightarrow> string option" where
  "trim_lower x = map_option (\<lambda>s. js_lower (js_trim s)) x"

definition or_opt_else :: "'a option \<Rightarrow> 'a option \<Rightarrow> 'a option" where
  "or_opt_else x y = (case x of None \<Rightarrow> y | Some _ \<Rightarrow> x)"

definition upsertFromFirebase :: "auth_env \<Rightarrow> firebase_payload \<Rightarrow> auth_user auth_handler" where
  "upsertFromFirebase env p =
     bindH (readH (\<lambda>d. find_row (\<lambda>u. us_firebaseUid u = fp_firebaseUid p) (ad_users d))) (\<lambda>existing.
     bindH (await env) (\<lambda>_.
       case existing of
         Some u \<Rightarrow>
           atomic (save_user (u\<lparr>us_email := or_opt_else (trim_lower (fp_email p)) (us_email u),
             us_phone := or_opt_else (map_option js_trim (fp_phone p)) (us_phone u),
             us_displayName := or_opt_else (fp_displayName p) (us_displayName u)\<rparr>))
       | None \<Rightarrow>
           atomic (insert_user (au_now env)
             \<lparr>us_id = [], us_firebaseUid = fp_firebaseUid p, us_accountStatus = ACC_ACTIVE, us_email = trim_lower (fp_email p),
              us_phone = map_option js_trim (fp_phone p), us_displayName = fp_displayName p, us_kycStatus = ''pending'',
              us_hashedPin = None, us_createdAt = 0\<rparr>)))"

record recipient_view =
  rv_userId :: string
  rv_phone :: string
  rv_displayName :: string
  rv_kycStatus :: string

text \<open>None is the answer \<open>found: false\<close>.\<close>

definition resolveRecipientByPhone :: "auth_env \<Rightarrow> string \<Rightarrow> string option \<Rightarrow> recipient_view option auth_handler" where
  "resolveRecipientByPhone env phoneRaw requesterUserId =
     readH (\<lambda>d. case findByPhone d phoneRaw of
        None \<Rightarrow> None
      | Some u \<Rightarrow>
          if isMockUser u \<or> (requesterUserId \<noteq> None \<and> requesterUserId \<noteq> Some [] \<and> requesterUserId = Some (us_id u)) \<or>
             us_accountStatus u \<noteq> ACC_ACTIVE
          then None
          else Some \<lparr>rv_userId = us_id u, rv_phone = coalesce (us_phone u) [],
                     rv_displayName = coalesce (or_opt_else (us_displayName u) (us_email u)) (au_unnamed env),
                     rv_kycStatus = us_kycStatus u\<rparr>)"

record profile_view =
  pv_userId :: string
  pv_email :: string
  pv_phone :: string
  pv_displayName :: string
  pv_kycStatus :: string
  pv_accountStatus :: account_status

definition toProfile :: "auth_user \<Rightarrow> profile_view" where
  "toProfile u =
     \<lparr>pv_userId = us_id u, pv_email = coalesce (us_email u) [], pv_phone = coalesce (us_phone u) [],
      pv_displayName = coalesce (or_opt_else (us_displayName u) (us_email u)) [], pv_kycStatus = us_kycStatus u,
      pv_accountStatus = us_accountStatus u\<rparr>"

definition require_user :: "auth_error \<Rightarrow> string \<Rightarrow> auth_user auth_handler" where
  "require_user e i = bindH (readH (\<lambda>d. findById d i)) (\<lambda>found. case found of None \<Rightarrow> throwH e | Some u \<Rightarrow> returnH u)"

definition getProfile :: "string \<Rightarrow> profile_view auth_handler" where
  "getProfile userId = bindH (require_user (AuthError ''User not found'') userId) (\<lambda>u. returnH (toProfile u))"

text \<open>\<open>/^(0\d{9,10}|84\d{8,10}|\+84\d{8,10})$/\<close>.\<close>

definition digits_between :: "nat \<Rightarrow> nat \<Rightarrow> string \<Rightarrow> bool" where
  "digits_between lo hi s = (lo \<le> length s \<and> length s \<le> hi \<and> list_all js_digit s)"

definition store_phone_ok :: "string \<Rightarrow> bool" where
  "store_phone_ok s =
     ((js_startsWith s ''0'' \<and> digits_between 9 10 (drop 1 s)) \<or>
      (js_startsWith s ''84'' \<and> digits_between 8 10 (drop 2 s)) \<or>
      (js_startsWith s ''+84'' \<and> digits_between 8 10 (drop 3 s)))"

definition updateProfile :: "auth_env \<Rightarrow> string \<Rightarrow> string option \<Rightarrow> string option \<Rightarrow> profile_view auth_handler" where
  "updateProfile env userId displayName phone =
     bindH (require_user (AuthError ''User not found'') userId) (\<lambda>u.
       let nextDisplayName = js_trim (coalesce displayName []);
           u1 = (if nextDisplayName \<noteq> [] then u\<lparr>us_displayName := Some nextDisplayName\<rparr> else u);
           nextPhone = js_trim (coalesce phone []);
           normalized = normalizePhoneForStore nextPhone
       in bindH (await env) (\<lambda>_.
          bindH (if nextPhone = [] then returnH u1
                 else if normalized = [] \<or> \<not> store_phone_ok normalized then throwH (AuthError ''Invalid phone format'')
                 else bindH (readH (\<lambda>d. findByPhone d normalized)) (\<lambda>existing.
                   case existing of
                     Some other \<Rightarrow> if us_id other \<noteq> us_id u then throwH (AuthError ''Phone number already in use'')
                                   else returnH (u1\<lparr>us_phone := Some normalized\<rparr>)
                   | None \<Rightarrow> returnH (u1\<lparr>us_phone := Some normalized\<rparr>))) (\<lambda>u2.
          bindH (await env) (\<lambda>_.
          bindH (atomic (save_user u2)) (\<lambda>saved. returnH (toProfile saved))))))"

section \<open>PINs\<close>

definition hex_of :: "string \<Rightarrow> string" where
  "hex_of bytes = concat (map (\<lambda>c. [hex_digit (code_unit c div 16), hex_digit (code_unit c mod 16)]) bytes)"

definition hex_value :: "char \<Rightarrow> nat option" where
  "hex_value c =
     (let n = code_unit c
      in if 48 \<le> n \<and> n \<le> 57 then Some (n - 48) else if 97 \<le> n \<and> n \<le> 102 then Some (n - 87)
         else if 65 \<le> n \<and> n \<le> 70 then Some (n - 55) else None)"

text \<open>\<open>Buffer.from(s, 'hex')\<close> stops at the first pair that is not two hexadecimal digits.\<close>

fun hex_bytes :: "string \<Rightarrow> string" where
  "hex_bytes (a # b # s) =
     (case (hex_value a, hex_value b) of
        (Some x, Some y) \<Rightarrow> char_of (16 * x + y) # hex_bytes s
      | _ \<Rightarrow> [])"
| "hex_bytes _ = []"

definition hashPin :: "auth_env \<Rightarrow> string \<Rightarrow> string" where
  "hashPin env pin = (let salt = hex_of (au_bytes env 16) in salt @ '':'' @ hex_of (au_scrypt env pin salt))"

definition verifyPinHash :: "auth_env \<Rightarrow> string \<Rightarrow> string \<Rightarrow> bool" where
  "verifyPinHash env pin hash =
     (case js_split (CHR '':'') hash of
        [salt, key] \<Rightarrow> hex_bytes key = au_scrypt env pin salt
      | _ \<Rightarrow> False)"

definition setPin :: "auth_env \<Rightarrow> string \<Rightarrow> string \<Rightarrow> unit auth_handler" where
  "setPin env userId pin =
     bindH (require_user (AuthError ''User not found'') userId) (\<lambda>u.
       if \<not> digits_between 6 6 pin then throwH (AuthError ''PIN must be exactly 6 digits'')
       else bindH (await env) (\<lambda>_.
            bindH (atomic (save_user (u\<lparr>us_hashedPin := Some (hashPin env pin)\<rparr>))) (\<lambda>_. returnH ())))"

definition verifyPin :: "auth_env \<Rightarrow> string \<Rightarrow> string \<Rightarrow> bool auth_handler" where
  "verifyPin env userId pin =
     readH (\<lambda>d. case findById d userId of
        None \<Rightarrow> False
      | Some u \<Rightarrow> (case or_str (us_hashedPin u) [] of [] \<Rightarrow> False | hash \<Rightarrow> verifyPinHash env pin hash))"

definition hasPin :: "auth_user \<Rightarrow> bool" where
  "hasPin u = (js_trim (coalesce (us_hashedPin u) []) \<noteq> [])"

section \<open>PINs verify\<close>

lemma code_unit_less: "code_unit c < 256"
proof -
  have "code_unit c = code_unit c mod 256" by (simp add: code_unit_def)
  then show ?thesis by (metis mod_less_divisor zero_less_numeral)
qed

lemma code_unit_hex: "n < 16 \<Longrightarrow> code_unit (hex_digit n) = (if n < 10 then 48 + n else 87 + n)"
  by (simp add: hex_digit_def code_unit_def of_char_of)

lemma hex_value_digit: "n < 16 \<Longrightarrow> hex_value (hex_digit n) = Some n"
  by (simp add: hex_value_def Let_def code_unit_hex)

lemma hex_digit_not_colon:
  assumes "n < 16"
  shows "CHR '':'' \<noteq> hex_digit n"
proof
  assume "CHR '':'' = hex_digit n"
  moreover have "code_unit (CHR '':'') = 58" by code_simp
  ultimately show False using code_unit_hex [OF assms] by (simp split: if_splits)
qed

lemma hex_round_trip: "hex_bytes (hex_of bytes) = bytes"
proof (induction bytes)
  case Nil
  then show ?case by (simp add: hex_of_def)
next
  case (Cons c cs)
  have "code_unit c div 16 < 16" "code_unit c mod 16 < 16" using code_unit_less [of c] by simp_all
  then show ?case using Cons by (simp add: hex_of_def hex_value_digit code_unit_def)
qed

lemma hex_no_colon: "CHR '':'' \<notin> set (hex_of bytes)"
proof -
  have "code_unit c div 16 < 16" for c using code_unit_less [of c] by simp
  then show ?thesis using hex_digit_not_colon by (auto simp add: hex_of_def)
qed

lemma split_free: "sep \<notin> set s \<Longrightarrow> js_split sep s = [s]"
  by (induction s) auto

lemma split_at: "sep \<notin> set s \<Longrightarrow> js_split sep (s @ sep # t) = s # js_split sep t"
  by (induction s) auto

lemma pin_hash_verifies: "verifyPinHash env pin' (hashPin env pin) \<longleftrightarrow>
  au_scrypt env pin' (hex_of (au_bytes env 16)) = au_scrypt env pin (hex_of (au_bytes env 16))"
  by (auto simp add: verifyPinHash_def hashPin_def Let_def split_at split_free hex_no_colon hex_round_trip)

text \<open>
  A PIN that was set is accepted, and then another PIN is accepted only if the key-derivation
  function does not tell the two apart.
\<close>

theorem pin_round_trip:
  assumes "fst (setPin env userId pin d) = Inr ()" and "au_others env = (\<lambda>d. d)"
  shows "fst (verifyPin env userId pin' (snd (setPin env userId pin d))) =
    Inr (au_scrypt env pin' (hex_of (au_bytes env 16)) = au_scrypt env pin (hex_of (au_bytes env 16)))"
proof -
  obtain u where u: "findById d userId = Some u"
    using assms(1) by (cases "findById d userId") (auto simp add: setPin_def require_user_def handler_defs)
  let ?u = "u\<lparr>us_hashedPin := Some (hashPin env pin)\<rparr>"
  have uid: "u \<in> set (ad_users d)" "us_id u = userId" using find_row_SomeD u unfolding findById_def by fastforce+
  have "digits_between 6 6 pin"
    by (rule ccontr) (use assms(1) u in \<open>simp add: setPin_def require_user_def handler_defs\<close>)
  then have run: "setPin env userId pin d = bindH (atomic (save_user ?u)) (\<lambda>_. returnH ()) d"
    using u assms(2) by (simp add: setPin_def require_user_def handler_defs await_def)
  then obtain d' where save: "save_user ?u d = Inr (?u, d')" and d': "snd (setPin env userId pin d) = d'"
    using assms(1) by (auto simp add: save_user_def handler_defs split: if_splits)
  have "ad_users d' = save_row us_id ?u (ad_users d)"
    using save uid by (auto simp add: save_user_def put_row_def split: if_splits)
  then have "findById d' userId = Some ?u"
    using find_row_cong_save [of "ad_users d" us_id ?u "\<lambda>x. us_id x = userId"] u uid
    by (auto simp add: findById_def)
  moreover have "hashPin env pin \<noteq> []" by (simp add: hashPin_def Let_def)
  ultimately show ?thesis using d' pin_hash_verifies [of env pin' pin]
    by (auto simp add: verifyPin_def readH_def or_str_def split: list.split)
qed

section \<open>The spellings of a phone number\<close>

lemma digits_of_digits: "list_all js_digit s \<Longrightarrow> digits_of s = s"
  by (simp add: digits_of_def list_all_iff)

lemma digit_not_ws: "js_digit c \<Longrightarrow> \<not> js_ws c"
  by (auto simp add: js_digit_def js_ws_def Let_def code_unit_def)

lemma trim_no_ws:
  assumes "\<not> js_ws c" and "s \<noteq> []" and "\<not> js_ws (last s)"
  shows "js_trim (c # s) = c # s"
proof -
  obtain t x where "s = t @ [x]" using assms(2) by (cases s rule: rev_cases) auto
  then show ?thesis using assms by (simp add: js_trim_def)
qed

lemma normalized_spellings:
  assumes "list_all js_digit x" and "x \<noteq> []"
  shows "normalizePhone (''0'' @ x) = ''0'' @ x" "normalizePhone (''84'' @ x) = ''84'' @ x"
    "normalizePhone (''+84'' @ x) = ''+84'' @ x"
proof -
  have l: "\<not> js_ws (last x)" using assms by (simp add: digit_not_ws list_all_iff)
  have d: "js_digit (CHR ''0'')" "js_digit (CHR ''8'')" "js_digit (CHR ''4'')" "\<not> js_digit (CHR ''+'')" "\<not> js_ws (CHR ''+'')"
    by code_simp+
  have t: "js_trim (''0'' @ x) = ''0'' @ x" "js_trim (''84'' @ x) = ''84'' @ x" "js_trim (''+84'' @ x) = ''+84'' @ x"
    using l assms(2) d digit_not_ws by (simp_all add: trim_no_ws)
  show "normalizePhone (''0'' @ x) = ''0'' @ x" "normalizePhone (''84'' @ x) = ''84'' @ x"
    "normalizePhone (''+84'' @ x) = ''+84'' @ x"
    unfolding normalizePhone_def t using assms d
    by (simp_all add: Let_def digits_of_def js_startsWith_def list_all_iff)
qed

lemma variants_spellings:
  assumes "9 \<le> length x"
  shows "set (phone_variants (''0'' @ x)) = {''0'' @ x, ''84'' @ x, ''+84'' @ x}"
    "set (phone_variants (''84'' @ x)) = {''0'' @ x, ''84'' @ x, ''+84'' @ x}"
    "set (phone_variants (''+84'' @ x)) = {''0'' @ x, ''84'' @ x, ''+84'' @ x}"
  using assms by (auto simp add: phone_variants_def js_startsWith_def)

lemma candidates_cong: "set ps = set qs \<Longrightarrow> phone_candidates d ps = phone_candidates d qs"
  by (simp add: phone_candidates_def)

text \<open>
  A phone number finds the same user in each of its three spellings, with a leading 0, 84 or +84.
\<close>

theorem phone_spellings_agree:
  assumes "list_all js_digit x" and "9 \<le> length x"
  shows "findByPhone d (''84'' @ x) = findByPhone d (''0'' @ x) \<and> findByPhone d (''+84'' @ x) = findByPhone d (''0'' @ x)"
proof -
  have "x \<noteq> []" using assms(2) by auto
  note n = normalized_spellings [OF assms(1) this]
  have "phone_candidates d (phone_variants (''84'' @ x)) = phone_candidates d (phone_variants (''0'' @ x))"
    "phone_candidates d (phone_variants (''+84'' @ x)) = phone_candidates d (phone_variants (''0'' @ x))"
    by (rule candidates_cong, simp only: variants_spellings [OF assms(2)])+
  then show ?thesis unfolding findByPhone_def n Let_def by simp
qed

section \<open>Requests to run\<close>

definition sample_auth_env :: auth_env where
  "sample_auth_env =
     \<lparr>au_cfg = Map.empty, au_now = 5, au_random = 0, au_bytes = (\<lambda>_. ''a''), au_firebaseVerify = (\<lambda>_. Some ''f1''),
      au_firebaseUser = (\<lambda>uid. Some \<lparr>fb_uid = uid, fb_disabled = False, fb_email = None, fb_phoneNumber = None, fb_displayName = None\<rparr>),
      au_jwtSign = jw_sub, au_jwtVerify = (\<lambda>t. Some \<lparr>jw_sub = t, jw_firebaseUid = [], jw_kycStatus = []\<rparr>),
      au_sha256 = (\<lambda>s. s), au_hmac = (\<lambda>k s. k @ s), au_hmac64 = (\<lambda>k s. k), au_scrypt = (\<lambda>p s. p @ s), au_base64url = (\<lambda>s. s),
      au_base64urlDecode = (\<lambda>s. s), au_dateParse = (\<lambda>_. None), au_notify = (\<lambda>_. Inr True), au_unnamed = ''?'',
      au_others = (\<lambda>d. d)\<rparr>"

definition sample_user :: auth_user where
  "sample_user =
     \<lparr>us_id = ''u1'', us_firebaseUid = ''f1'', us_accountStatus = ACC_ACTIVE, us_email = Some ''a@b.vn'', us_phone = Some ''0912345678'',
      us_displayName = None, us_kycStatus = ''pending'', us_hashedPin = None, us_createdAt = 0\<rparr>"

definition sample_session :: auth_session where
  "sample_session =
     \<lparr>se_id = ''s1'', se_userId = ''u1'', se_refreshTokenHash = ''tok'', se_refreshTokenExpiresAt = 9, se_revokedAt = None,
      se_lastUsedAt = None, se_userAgent = None, se_ipAddress = None\<rparr>"

definition sample_auth_db :: auth_db where
  "sample_auth_db =
     \<lparr>ad_users = [sample_user], ad_sessions = [sample_session], ad_otps = [], ad_tokens = [], ad_kycs = [],
      ad_uuid = (\<lambda>n. replicate n (CHR ''z'')), ad_seq = 0\<rparr>"

theorem pin_round_trip_witness:
  "fst (verifyPin sample_auth_env ''u1'' ''123456'' (snd (setPin sample_auth_env ''u1'' ''123456'' sample_auth_db))) = Inr True"
proof -
  have "fst (setPin sample_auth_env ''u1'' ''123456'' sample_auth_db) = Inr ()" by code_simp
  moreover have "au_others sample_auth_env = (\<lambda>d. d)" by (simp add: sample_auth_env_def)
  ultimately show ?thesis using pin_round_trip by simp
qed

theorem phone_spellings_agree_witness:
  "findByPhone sample_auth_db ''+84912345678'' = findByPhone sample_auth_db ''0912345678''"
proof -
  have "list_all js_digit ''912345678''" by code_simp
  then show ?thesis using phone_spellings_agree [of "''912345678''"] by simp
qed

end
