(* ===== verification/Auth_Sessions.thy ===== *)
theory Auth_Sessions
  imports Auth_Users
begin

text \<open>
  Sessions of the authentication service: sign-in, refresh and revocation of
  \<^verbatim>\<open>auth/auth.service.ts\<close>, its gRPC face \<^verbatim>\<open>auth/auth.grpc.controller.ts\<close> and
  the daily \<^verbatim>\<open>auth-sessions-cleanup.service.ts\<close>. A refresh token is kept as its hash;
  using it revokes its session and opens another one.
\<close>

section \<open>Configuration and time\<close>

definition ttl_seconds :: "auth_env \<Rightarrow> string \<Rightarrow> int \<Rightarrow> js_number" where
  "ttl_seconds env k d = (case au_cfg env k of None \<Rightarrow> js_of_int d | Some s \<Rightarrow> js_Number s)"

text \<open>
  \<open>new Date(now + s * 1000)\<close>: None is the invalid date, which the database refuses. The sum is taken
  exactly and cut to milliseconds.
\<close>

definition date_after :: "int \<Rightarrow> js_number \<Rightarrow> int option" where
  "date_after now seconds =
     (case seconds of
        JsNum s \<Rightarrow> (let t = now + \<lfloor>s * 1000\<rfloor> in if \<bar>t\<bar> \<le> 8640000000000000 then Some t else None)
      | _ \<Rightarrow> None)"

section \<open>Sessions\<close>

record session_context =
  sc_userAgent :: "string option"
  sc_ipAddress :: "string option"

record auth_result =
  ax_accessToken :: string
  ax_expiresIn :: js_number
  ax_refreshToken :: string
  ax_refreshExpiresIn :: js_number
  ax_user :: auth_user

definition insert_session :: "auth_session \<Rightarrow> auth_session auth_unit" where
  "insert_session r d =
     (if find_row (\<lambda>x. se_refreshTokenHash x = se_refreshTokenHash r) (ad_sessions d) \<noteq> None
      then Inl (UniqueViolation ''refreshTokenHash'')
      else let r' = r\<lparr>se_id := ad_uuid d (ad_seq d)\<rparr>
           in Inr (r', d\<lparr>ad_sessions := ad_sessions d @ [r'], ad_seq := Suc (ad_seq d)\<rparr>))"

definition save_session :: "auth_session \<Rightarrow> unit auth_unit" where
  "save_session r d =
     (if clash (Some \<circ> se_refreshTokenHash) se_id r (ad_sessions d) then Inl (UniqueViolation ''refreshTokenHash'')
      else Inr ((), d\<lparr>ad_sessions := put_row se_id r (ad_sessions d)\<rparr>))"

definition find_session :: "auth_env \<Rightarrow> string \<Rightarrow> auth_db \<Rightarrow> auth_session option" where
  "find_session env refreshToken d =
     find_row (\<lambda>x. se_refreshTokenHash x = au_sha256 env refreshToken) (ad_sessions d)"

definition refresh_token :: "auth_env \<Rightarrow> string" where
  "refresh_token env = hex_of (au_bytes env 64)"

definition issueTokens :: "auth_env \<Rightarrow> auth_user \<Rightarrow> session_context \<Rightarrow> auth_result auth_handler" where
  "issueTokens env user context =
     (let accessToken = au_jwtSign env \<lparr>jw_sub = us_id user, jw_firebaseUid = us_firebaseUid user, jw_kycStatus = us_kycStatus user\<rparr>;
          refreshTtl = ttl_seconds env ''JWT_REFRESH_TTL_SECONDS'' 604800
      in bindH (await env) (\<lambda>_.
         case date_after (au_now env) refreshTtl of
           None \<Rightarrow> throwH (AuthQueryFailed ''invalid date'')
         | Some expiresAt \<Rightarrow>
             bindH (atomic (insert_session
               \<lparr>se_id = [], se_userId = us_id user, se_refreshTokenHash = au_sha256 env (refresh_token env),
                se_refreshTokenExpiresAt = expiresAt, se_revokedAt = None, se_lastUsedAt = None,
                se_userAgent = sc_userAgent context, se_ipAddress = sc_ipAddress context\<rparr>)) (\<lambda>_.
             returnH \<lparr>ax_accessToken = accessToken, ax_expiresIn = ttl_seconds env ''JWT_ACCESS_TTL_SECONDS'' 300,
                      ax_refreshToken = refresh_token env, ax_refreshExpiresIn = refreshTtl, ax_user = user\<rparr>)))"

record profile_hints =
  ph_email :: "string option"
  ph_phone :: "string option"
  ph_displayName :: "string option"

definition verifyFirebaseIdToken ::
    "auth_env \<Rightarrow> string \<Rightarrow> session_context \<Rightarrow> profile_hints \<Rightarrow> auth_result auth_handler" where
  "verifyFirebaseIdToken env idToken context hints =
     (case au_firebaseVerify env idToken of
        None \<Rightarrow> throwH (Unauthorized ''Invalid or expired Firebase token'')
      | Some uid \<Rightarrow>
          (case au_firebaseUser env uid of
             None \<Rightarrow> throwH (AuthError ''user record'')
           | Some rec \<Rightarrow>
               if fb_disabled rec then throwH (Unauthorized ''User is disabled'')
               else bindH (upsertFromFirebase env
                      \<lparr>fp_firebaseUid = fb_uid rec, fp_email = or_opt_else (fb_email rec) (ph_email hints),
                       fp_phone = or_opt_else (fb_phoneNumber rec) (ph_phone hints),
                       fp_displayName = or_opt_else (fb_displayName rec) (ph_displayName hints)\<rparr>) (\<lambda>user.
                    if us_accountStatus user \<noteq> ACC_ACTIVE then throwH (Unauthorized ''User is not active'')
                    else issueTokens env user context)))"

definition resolveLoginIdentifier :: "string \<Rightarrow> string option auth_handler" where
  "resolveLoginIdentifier identifierRaw =
     readH (\<lambda>d. let identifier = js_trim identifierRaw
       in if identifier = [] then None
          else case (if CHR ''@'' \<in> set identifier then findByEmail d identifier else findByPhone d identifier) of
            None \<Rightarrow> None
          | Some u \<Rightarrow> or_null (coalesce (us_email u) []))"

definition active_user :: "auth_user option \<Rightarrow> auth_user auth_handler" where
  "active_user found =
     (case found of
        None \<Rightarrow> throwH (Unauthorized ''User not found'')
      | Some u \<Rightarrow> if us_accountStatus u \<noteq> ACC_ACTIVE then throwH (Unauthorized ''User is not active'') else returnH u)"

definition verifyInternalToken :: "auth_env \<Rightarrow> string \<Rightarrow> auth_user auth_handler" where
  "verifyInternalToken env accessToken =
     (case au_jwtVerify env accessToken of
        None \<Rightarrow> throwH (Unauthorized ''Invalid access token'')
      | Some claims \<Rightarrow>
          if jw_sub claims = [] then throwH (Unauthorized ''Invalid access token'')
          else bindH (readH (\<lambda>d. findById d (jw_sub claims))) active_user)"

text \<open>The second half of \<open>refreshAccessToken\<close>, once the old session is closed.\<close>

definition finish_refresh :: "auth_env \<Rightarrow> auth_session \<Rightarrow> session_context \<Rightarrow> auth_result auth_handler" where
  "finish_refresh env session context =
     bindH (await env) (\<lambda>_.
     bindH (readH (\<lambda>d. findById d (se_userId session))) (\<lambda>user.
     bindH (active_user user) (\<lambda>u.
       case au_firebaseUser env (us_firebaseUid u) of
         None \<Rightarrow> throwH (Unauthorized ''User is disabled or invalid'')
       | Some rec \<Rightarrow>
           if fb_disabled rec then throwH (Unauthorized ''User is disabled or invalid'')
           else issueTokens env u context)))"

definition refreshAccessToken :: "auth_env \<Rightarrow> string \<Rightarrow> session_context \<Rightarrow> auth_result auth_handler" where
  "refreshAccessToken env refreshToken context =
     bindH (readH (find_session env refreshToken)) (\<lambda>found.
       case found of
         None \<Rightarrow> throwH (Unauthorized ''Invalid or expired refresh token'')
       | Some session \<Rightarrow>
           if se_revokedAt session \<noteq> None \<or> se_refreshTokenExpiresAt session \<le> au_now env
           then throwH (Unauthorized ''Invalid or expired refresh token'')
           else
             bindH (await env) (\<lambda>_.
             bindH (atomic (save_session (session\<lparr>se_revokedAt := Some (au_now env), se_lastUsedAt := Some (au_now env)\<rparr>))) (\<lambda>_.
             finish_refresh env session context)))"

definition devLogin :: "auth_env \<Rightarrow> string \<Rightarrow> session_context \<Rightarrow> profile_hints \<Rightarrow> auth_result auth_handler" where
  "devLogin env firebaseUid context hints =
     (if au_cfg env ''AUTH_DEV_MODE'' \<noteq> Some ''true'' then throwH (Unauthorized ''Dev login is disabled'')
      else
        let email = coalesce (ph_email hints) (firebaseUid @ ''@dev.local'');
            phone = ph_phone hints
        in (\<lambda>s. case upsertFromFirebase env
                \<lparr>fp_firebaseUid = firebaseUid, fp_email = Some email, fp_phone = phone,
                 fp_displayName = Some (coalesce (ph_displayName hints) firebaseUid)\<rparr> s of
              (Inr user, s') \<Rightarrow> issueTokens env user context s'
            | (Inl (UniqueViolation k), s') \<Rightarrow>
                (case (case or_str phone [] of [] \<Rightarrow> None | p \<Rightarrow> findByPhone s' p) of
                   Some u \<Rightarrow> issueTokens env u context s'
                 | None \<Rightarrow>
                     (case (if email = [] then None else findByEmail s' email) of
                        Some u \<Rightarrow> issueTokens env u context s'
                      | None \<Rightarrow> (Inl (UniqueViolation k), s')))
            | (Inl e, s') \<Rightarrow> (Inl e, s')))"

definition revokeRefreshToken :: "auth_env \<Rightarrow> string \<Rightarrow> unit auth_handler" where
  "revokeRefreshToken env refreshToken =
     bindH (readH (find_session env refreshToken)) (\<lambda>found.
       case found of
         None \<Rightarrow> returnH ()
       | Some session \<Rightarrow>
           if se_revokedAt session \<noteq> None then returnH ()
           else bindH (await env) (\<lambda>_.
                atomic (save_session (session\<lparr>se_revokedAt := Some (au_now env), se_lastUsedAt := Some (au_now env)\<rparr>))))"

definition revoke_sessions :: "int \<Rightarrow> string \<Rightarrow> auth_session list \<Rightarrow> auth_session list" where
  "revoke_sessions now userId rs =
     map (\<lambda>x. if se_userId x = userId \<and> se_revokedAt x = None
              then x\<lparr>se_revokedAt := Some now, se_lastUsedAt := Some now\<rparr> else x) rs"

definition revokeAllSessionsByAccessToken :: "auth_env \<Rightarrow> string \<Rightarrow> unit auth_handler" where
  "revokeAllSessionsByAccessToken env accessToken =
     (case au_jwtVerify env accessToken of
        None \<Rightarrow> throwH (Unauthorized ''Invalid access token'')
      | Some claims \<Rightarrow>
          atomic (modifyU (\<lambda>d. d\<lparr>ad_sessions := revoke_sessions (au_now env) (jw_sub claims) (ad_sessions d)\<rparr>)))"

section \<open>Cleanup\<close>

definition before :: "int \<Rightarrow> int option \<Rightarrow> bool" where
  "before now t = (case t of None \<Rightarrow> False | Some x \<Rightarrow> x < now)"

definition cleanupExpiredAndRevokedSessions :: "int \<Rightarrow> auth_db \<Rightarrow> auth_db" where
  "cleanupExpiredAndRevokedSessions now d =
     d\<lparr>ad_sessions := filter (\<lambda>x. \<not> se_refreshTokenExpiresAt x < now \<and> \<not> before now (se_revokedAt x)) (ad_sessions d),
       ad_otps := filter (\<lambda>x. \<not> otp_expiresAt x < now \<and> \<not> before now (otp_usedAt x)) (ad_otps d),
       ad_tokens := filter (\<lambda>x. \<not> su_expiresAt x < now) (ad_tokens d)\<rparr>"

section \<open>The gRPC face\<close>

datatype auth_code = AC_INVALID_ARGUMENT | AC_UNAUTHENTICATED | AC_INTERNAL

definition auth_message :: "auth_error \<Rightarrow> string" where
  "auth_message e =
     (case e of Unauthorized m \<Rightarrow> m | AuthBadRequest m \<Rightarrow> m | AuthError m \<Rightarrow> m | UniqueViolation m \<Rightarrow> m | AuthQueryFailed m \<Rightarrow> m)"

type_synonym 'a auth_rpc = "auth_db \<Rightarrow> (auth_code \<times> string + 'a) \<times> auth_db"

definition wrapAuth :: "auth_code \<Rightarrow> string \<Rightarrow> 'a auth_handler \<Rightarrow> 'a auth_rpc" where
  "wrapAuth code fallback h s =
     (case h s of (Inl e, s') \<Rightarrow> (Inl (code, or_str (Some (auth_message e)) fallback), s') | (Inr x, s') \<Rightarrow> (Inr x, s'))"

definition required :: "string \<Rightarrow> string \<Rightarrow> 'a auth_rpc \<Rightarrow> 'a auth_rpc" where
  "required v name h s = (if v = [] then (Inl (AC_INVALID_ARGUMENT, name @ '' required''), s) else h s)"

definition rpc_verifyToken :: "auth_env \<Rightarrow> string \<Rightarrow> auth_user auth_rpc" where
  "rpc_verifyToken env accessToken = required accessToken ''accessToken''
     (\<lambda>s. case verifyInternalToken env accessToken s of
        (Inl e, s') \<Rightarrow> (Inl (AC_UNAUTHENTICATED, ''Invalid access token''), s') | (Inr x, s') \<Rightarrow> (Inr x, s'))"

definition rpc_verifyFirebaseToken ::
    "auth_env \<Rightarrow> string \<Rightarrow> session_context \<Rightarrow> profile_hints \<Rightarrow> auth_result auth_rpc" where
  "rpc_verifyFirebaseToken env idToken context hints = required idToken ''idToken''
     (wrapAuth AC_UNAUTHENTICATED ''Authentication failed'' (verifyFirebaseIdToken env idToken context hints))"

definition rpc_devLogin :: "auth_env \<Rightarrow> string \<Rightarrow> session_context \<Rightarrow> profile_hints \<Rightarrow> auth_result auth_rpc" where
  "rpc_devLogin env firebaseUid context hints = required firebaseUid ''firebaseUid''
     (wrapAuth AC_INTERNAL ''Dev login failed'' (devLogin env firebaseUid context hints))"

definition rpc_refreshToken :: "auth_env \<Rightarrow> string \<Rightarrow> session_context \<Rightarrow> auth_result auth_rpc" where
  "rpc_refreshToken env refreshToken context = required refreshToken ''refreshToken''
     (wrapAuth AC_UNAUTHENTICATED ''Refresh failed'' (refreshAccessToken env refreshToken context))"

definition rpc_resolveLoginIdentifier :: "string option \<Rightarrow> string option auth_rpc" where
  "rpc_resolveLoginIdentifier identifier = required (js_trim (coalesce identifier [])) ''identifier''
     (wrapAuth AC_INTERNAL ''Resolve identifier failed'' (resolveLoginIdentifier (js_trim (coalesce identifier []))))"

definition rpc_logout :: "auth_env \<Rightarrow> string \<Rightarrow> unit auth_rpc" where
  "rpc_logout env refreshToken = required refreshToken ''refreshToken''
     (wrapAuth AC_INTERNAL ''Logout failed'' (revokeRefreshToken env refreshToken))"

definition rpc_logoutAll :: "auth_env \<Rightarrow> string \<Rightarrow> unit auth_rpc" where
  "rpc_logoutAll env accessToken = required accessToken ''accessToken''
     (wrapAuth AC_INTERNAL ''Logout all failed'' (revokeAllSessionsByAccessToken env accessToken))"

section \<open>A used refresh token stays used\<close>

lemma bindH_readH: "bindH (readH f) g s = g (f s) s"
  by (simp add: bindH_def readH_def)

lemma bindH_await: "bindH (await env) g s = g () (au_others env s)"
  by (simp add: bindH_def await_def interfere_def)

lemma find_sessionD:
  "find_session env refreshToken d = Some x \<Longrightarrow> x \<in> set (ad_sessions d) \<and> se_refreshTokenHash x = au_sha256 env refreshToken"
  by (auto simp add: find_session_def dest: find_row_SomeD)

text \<open>No session with the hash h is open.\<close>

definition dead :: "string \<Rightarrow> auth_db \<Rightarrow> bool" where
  "dead h d = list_all (\<lambda>x. se_refreshTokenHash x = h \<longrightarrow> se_revokedAt x \<noteq> None) (ad_sessions d)"

text \<open>
  The committed changes of the table of sessions, by any request: a session is opened for a new token,
  closed, all those of a user are closed, old ones are deleted, or another table changes. The new
  token is not the one whose hash is h.
\<close>

inductive session_step :: "string \<Rightarrow> auth_db \<Rightarrow> auth_db \<Rightarrow> bool" for h :: string where
  open_session: "insert_session r d = Inr (x, d') \<Longrightarrow> se_refreshTokenHash r \<noteq> h \<Longrightarrow> session_step h d d'"
| close_session: "save_session (r\<lparr>se_revokedAt := Some t, se_lastUsedAt := u\<rparr>) d = Inr ((), d') \<Longrightarrow> session_step h d d'"
| close_all: "session_step h d (d\<lparr>ad_sessions := revoke_sessions t userId (ad_sessions d)\<rparr>)"
| clean: "session_step h d (cleanupExpiredAndRevokedSessions t d)"
| elsewhere: "ad_sessions d' = ad_sessions d \<Longrightarrow> session_step h d d'"

lemma dead_put:
  assumes "dead h d" and "se_revokedAt r \<noteq> None"
  shows "dead h (d\<lparr>ad_sessions := put_row se_id r (ad_sessions d)\<rparr>)"
proof -
  have "se_revokedAt x \<noteq> None" if "x \<in> set (put_row se_id r (ad_sessions d))" "se_refreshTokenHash x = h" for x
    using set_put_rowD [OF that(1)] that(2) assms by (auto simp add: dead_def list_all_iff)
  then show ?thesis by (simp add: dead_def list_all_iff)
qed

lemma dead_step:
  assumes "dead h d" and "session_step h d d'"
  shows "dead h d'"
  using assms(2,1)
proof (induction rule: session_step.induct)
  case (close_session r t u d d')
  then show ?case using dead_put by (auto simp add: save_session_def split: if_splits)
qed (auto simp add: dead_def list_all_iff insert_session_def revoke_sessions_def cleanupExpiredAndRevokedSessions_def Let_def
    split: if_splits)

interpretation used: invariant_system "dead h" "session_step h" "dead h"
  by unfold_locales (auto intro: dead_step)

lemma dead_after_close:
  assumes "save_session (r\<lparr>se_revokedAt := Some t, se_lastUsedAt := u\<rparr>) d = Inr ((), d')"
  shows "dead (se_refreshTokenHash r) d'"
proof -
  let ?r = "r\<lparr>se_revokedAt := Some t, se_lastUsedAt := u\<rparr>"
  have noclash: "\<not> clash (Some \<circ> se_refreshTokenHash) se_id ?r (ad_sessions d)"
    and d': "d' = d\<lparr>ad_sessions := put_row se_id ?r (ad_sessions d)\<rparr>"
    using assms by (auto simp add: save_session_def split: if_splits)
  have "se_revokedAt x \<noteq> None" if "x \<in> set (ad_sessions d')" "se_refreshTokenHash x = se_refreshTokenHash r" for x
  proof (cases "x = ?r")
    case False
    then have "x \<in> set (ad_sessions d)" "se_id x \<noteq> se_id ?r"
      using that(1) d' set_put_rowD [of x se_id ?r] by auto
    then show ?thesis using noclash that(2) by (auto simp add: clash_def list_ex_iff)
  qed simp
  then show ?thesis by (simp add: dead_def list_all_iff)
qed

text \<open>A token whose session is not open is refused, and nothing changes.\<close>

lemma dead_refused:
  assumes "dead (au_sha256 env refreshToken) d"
  shows "refreshAccessToken env refreshToken ctx d = (Inl (Unauthorized ''Invalid or expired refresh token''), d)"
proof (cases "find_session env refreshToken d")
  case None
  then show ?thesis by (simp add: refreshAccessToken_def handler_defs)
next
  case (Some session)
  then have "se_revokedAt session \<noteq> None"
    using assms find_sessionD [OF Some] by (simp add: dead_def list_all_iff)
  then show ?thesis using Some by (simp add: refreshAccessToken_def handler_defs)
qed

text \<open>The others only take such steps.\<close>

definition fair_others :: "string \<Rightarrow> auth_env \<Rightarrow> bool" where
  "fair_others h env \<longleftrightarrow> (\<forall>d. (session_step h)\<^sup>*\<^sup>* d (au_others env d)) \<and> au_sha256 env (refresh_token env) \<noteq> h"

definition by_steps :: "string \<Rightarrow> 'a auth_handler \<Rightarrow> bool" where
  "by_steps h m \<longleftrightarrow> (\<forall>d. (session_step h)\<^sup>*\<^sup>* d (snd (m d)))"

lemma by_steps_bindH: "by_steps h m \<Longrightarrow> (\<And>x. by_steps h (f x)) \<Longrightarrow> by_steps h (bindH m f)"
  unfolding by_steps_def bindH_def
  by (auto split: prod.split sum.split) (metis rtranclp_trans snd_conv)+

lemma by_steps_basic:
  "by_steps h (returnH x)" "by_steps h (throwH e)" "by_steps h (readH g)" "by_steps h (liftE r)"
  by (simp_all add: by_steps_def returnH_def throwH_def readH_def liftE_def)

lemma by_steps_atomic:
  "(\<And>d x d'. u d = Inr (x, d') \<Longrightarrow> session_step h d d') \<Longrightarrow> by_steps h (atomic u)"
  by (auto simp add: by_steps_def atomic_def split: sum.split)

lemma by_steps_await: "fair_others h env \<Longrightarrow> by_steps h (await env)"
  by (simp add: by_steps_def fair_others_def await_def interfere_def)

lemma by_steps_option: "by_steps h m \<Longrightarrow> (\<And>x. by_steps h (f x)) \<Longrightarrow> by_steps h (case v of None \<Rightarrow> m | Some x \<Rightarrow> f x)"
  by (cases v) auto

lemma by_steps_if: "by_steps h m \<Longrightarrow> by_steps h n \<Longrightarrow> by_steps h (if c then m else n)"
  by simp

lemmas by_steps_rules = by_steps_bindH by_steps_basic by_steps_await by_steps_option by_steps_if

lemma save_user_step: "save_user u d = Inr (x, d') \<Longrightarrow> session_step h d d'"
  by (rule elsewhere) (auto simp add: save_user_def split: if_splits)

lemma insert_user_step: "insert_user now u d = Inr (x, d') \<Longrightarrow> session_step h d d'"
  by (rule elsewhere) (auto simp add: insert_user_def save_user_def split: if_splits)

lemma steps_upsert: "fair_others h env \<Longrightarrow> by_steps h (upsertFromFirebase env p)"
  unfolding upsertFromFirebase_def
  by (intro by_steps_rules by_steps_atomic) (auto intro: save_user_step insert_user_step)

lemma steps_issueTokens: "fair_others h env \<Longrightarrow> by_steps h (issueTokens env user ctx)"
  unfolding issueTokens_def Let_def
  by (intro by_steps_rules by_steps_atomic) (auto simp add: fair_others_def intro: open_session)

lemma steps_active_user: "by_steps h (active_user u)"
  unfolding active_user_def by (intro by_steps_rules)

lemma steps_finish: "fair_others h env \<Longrightarrow> by_steps h (finish_refresh env session ctx)"
  unfolding finish_refresh_def by (intro by_steps_rules steps_issueTokens steps_active_user)

lemma steps_refresh: "fair_others h env \<Longrightarrow> by_steps h (refreshAccessToken env t ctx)"
  unfolding refreshAccessToken_def
  by (intro by_steps_rules by_steps_atomic steps_finish) (auto intro: close_session)

lemma steps_login: "fair_others h env \<Longrightarrow> by_steps h (verifyFirebaseIdToken env t ctx hints)"
  unfolding verifyFirebaseIdToken_def
  by (intro by_steps_rules steps_upsert steps_issueTokens)

lemma steps_revoke: "fair_others h env \<Longrightarrow> by_steps h (revokeRefreshToken env t)"
  unfolding revokeRefreshToken_def
  by (intro by_steps_rules by_steps_atomic) (auto intro: close_session)

lemma steps_revoke_all: "by_steps h (revokeAllSessionsByAccessToken env t)"
  unfolding revokeAllSessionsByAccessToken_def
  by (intro by_steps_rules by_steps_atomic) (auto intro: close_all)

lemma steps_dev_login:
  assumes "fair_others h env"
  shows "by_steps h (devLogin env uid ctx hints)"
proof (cases "au_cfg env ''AUTH_DEV_MODE'' = Some ''true''")
  case False
  then show ?thesis by (simp add: devLogin_def by_steps_basic)
next
  case True
  have upserted: "(session_step h)\<^sup>*\<^sup>* d (snd (upsertFromFirebase env p d))" for d p
    using steps_upsert [OF assms] by (simp add: by_steps_def)
  have issued: "(session_step h)\<^sup>*\<^sup>* d (snd (issueTokens env u ctx (snd (upsertFromFirebase env p d))))" for u d p
    using upserted [of d p] steps_issueTokens [OF assms, of u ctx] rtranclp_trans unfolding by_steps_def by metis
  show ?thesis unfolding by_steps_def
  proof
    fix d
    let ?p = "\<lparr>fp_firebaseUid = uid, fp_email = Some (coalesce (ph_email hints) (uid @ ''@dev.local'')), fp_phone = ph_phone hints,
        fp_displayName = Some (coalesce (ph_displayName hints) uid)\<rparr>"
    show "(session_step h)\<^sup>*\<^sup>* d (snd (devLogin env uid ctx hints d))"
      using issued [where d = d and p = ?p] upserted [of d ?p] True
      by (cases "upsertFromFirebase env ?p d")
        (auto simp add: devLogin_def Let_def split: sum.split auth_error.split option.split list.split)
  qed
qed

lemma refresh_closes:
  assumes "fair_others (au_sha256 env refreshToken) env"
    and "fst (refreshAccessToken env refreshToken ctx d) = Inr res"
  shows "dead (au_sha256 env refreshToken) (snd (refreshAccessToken env refreshToken ctx d))"
proof -
  let ?h = "au_sha256 env refreshToken"
  obtain t where run: "refreshAccessToken env refreshToken ctx d = (Inr res, t)" using assms(2) by (metis prod.collapse)
  obtain session where found: "find_session env refreshToken d = Some session"
    using run by (cases "find_session env refreshToken d") (auto simp add: refreshAccessToken_def handler_defs)
  let ?closed = "session\<lparr>se_revokedAt := Some (au_now env), se_lastUsedAt := Some (au_now env)\<rparr>"
  have valid: "\<not> (se_revokedAt session \<noteq> None \<or> se_refreshTokenExpiresAt session \<le> au_now env)"
    by (rule ccontr) (use run found in \<open>simp add: refreshAccessToken_def handler_defs\<close>)
  have run': "bindH (atomic (save_session ?closed)) (\<lambda>_. finish_refresh env session ctx) (au_others env d) = (Inr res, t)"
    using run found valid by (simp add: refreshAccessToken_def bindH_readH bindH_await)
  then obtain d2 where save: "save_session ?closed (au_others env d) = Inr ((), d2)"
    and rest: "finish_refresh env session ctx d2 = (Inr res, t)"
    by (auto simp add: bindH_eq_Inr atomic_eq_Inr)
  have "se_refreshTokenHash session = ?h" using find_sessionD [OF found] by simp
  then have "dead ?h d2" using dead_after_close [OF save] by simp
  moreover have "(session_step ?h)\<^sup>*\<^sup>* d2 t" using steps_finish [OF assms(1)] rest unfolding by_steps_def by (metis snd_conv)
  ultimately show ?thesis using used.reach_from run by simp
qed

text \<open>
  C20. A refresh token works once: after it has been exchanged for new tokens, it is refused in every
  state that any requests lead to, however they overlap with the exchange and with each other.
\<close>

theorem refresh_token_single_use:
  assumes "fair_others (au_sha256 env refreshToken) env"
    and "fst (refreshAccessToken env refreshToken ctx d) = Inr res"
    and "(session_step (au_sha256 env refreshToken))\<^sup>*\<^sup>* (snd (refreshAccessToken env refreshToken ctx d)) d'"
    and "au_sha256 env' = au_sha256 env"
  shows "refreshAccessToken env' refreshToken ctx' d' = (Inl (Unauthorized ''Invalid or expired refresh token''), d')"
  using dead_refused used.reach_from [OF refresh_closes [OF assms(1,2)] assms(3)] assms(4) by metis

section \<open>Logging out\<close>

definition sessions_unique :: "auth_db \<Rightarrow> bool" where
  "sessions_unique d = distinct (map se_refreshTokenHash (ad_sessions d))"

lemma dead_unique:
  assumes "sessions_unique d"
  shows "dead (au_sha256 env refreshToken) d \<longleftrightarrow>
    (case find_session env refreshToken d of None \<Rightarrow> True | Some x \<Rightarrow> se_revokedAt x \<noteq> None)"
proof (cases "find_session env refreshToken d")
  case None
  then have "\<forall>x\<in>set (ad_sessions d). se_refreshTokenHash x \<noteq> au_sha256 env refreshToken"
    by (simp add: find_session_def find_row_None_iff)
  then show ?thesis using None by (simp add: dead_def list_all_iff)
next
  case (Some x)
  then have "x \<in> set (ad_sessions d)" "se_refreshTokenHash x = au_sha256 env refreshToken"
    using find_sessionD [OF Some] by simp_all
  moreover have "y = x" if "y \<in> set (ad_sessions d)" "se_refreshTokenHash y = se_refreshTokenHash x" for y
    using row_unique [OF assms [unfolded sessions_unique_def]] that calculation(1) by blast
  ultimately have "(\<forall>y\<in>set (ad_sessions d). se_refreshTokenHash y = au_sha256 env refreshToken \<longrightarrow> se_revokedAt y \<noteq> None) \<longleftrightarrow>
      se_revokedAt x \<noteq> None"
    by metis
  then show ?thesis using Some by (simp add: dead_def list_all_iff)
qed

lemma revoke_closes:
  assumes "sessions_unique d" and "fair_others (au_sha256 env refreshToken) env"
    and "fst (revokeRefreshToken env refreshToken d) = Inr ()"
  shows "dead (au_sha256 env refreshToken) (snd (revokeRefreshToken env refreshToken d))"
proof (cases "dead (au_sha256 env refreshToken) d")
  case True
  then show ?thesis using used.reach_from steps_revoke [OF assms(2)] unfolding by_steps_def by blast
next
  case False
  then obtain x where x: "find_session env refreshToken d = Some x" "se_revokedAt x = None"
    using dead_unique [OF assms(1), of env refreshToken] by (auto split: option.splits)
  have h: "se_refreshTokenHash x = au_sha256 env refreshToken" using find_sessionD [OF x(1)] by simp
  let ?closed = "x\<lparr>se_revokedAt := Some (au_now env), se_lastUsedAt := Some (au_now env)\<rparr>"
  have run: "revokeRefreshToken env refreshToken d = atomic (save_session ?closed) (au_others env d)"
    using x by (simp add: revokeRefreshToken_def bindH_readH bindH_await)
  then obtain t where "save_session ?closed (au_others env d) = Inr ((), t)" "snd (revokeRefreshToken env refreshToken d) = t"
    using assms(3) by (cases "save_session ?closed (au_others env d)") (auto simp add: atomic_def)
  then show ?thesis using dead_after_close h by metis
qed

lemma revoke_all_closes:
  assumes "sessions_unique d" and "au_jwtVerify env accessToken = Some claims"
    and "find_session env refreshToken d = Some x" and "se_userId x = jw_sub claims"
  shows "dead (au_sha256 env refreshToken) (snd (revokeAllSessionsByAccessToken env accessToken d))"
proof -
  have x: "x \<in> set (ad_sessions d)" "se_refreshTokenHash x = au_sha256 env refreshToken"
    using find_sessionD [OF assms(3)] by simp_all
  have "y = x" if "y \<in> set (ad_sessions d)" "se_refreshTokenHash y = au_sha256 env refreshToken" for y
    using row_unique [OF assms(1) [unfolded sessions_unique_def]] that x by simp
  then show ?thesis using assms(2,4)
    by (auto simp add: revokeAllSessionsByAccessToken_def atomic_def dead_def list_all_iff revoke_sessions_def)
qed

text \<open>
  Logging out closes the session of its refresh token and logging out everywhere closes every
  session of the user: the tokens are refused from then on, whatever requests follow.
\<close>

theorem logout_refuses:
  assumes "sessions_unique d" and "fair_others (au_sha256 env refreshToken) env" and "au_sha256 env' = au_sha256 env"
    and "(fst (revokeRefreshToken env refreshToken d) = Inr () \<and> d1 = snd (revokeRefreshToken env refreshToken d)) \<or>
      (\<exists>claims x. au_jwtVerify env accessToken = Some claims \<and> find_session env refreshToken d = Some x \<and>
         se_userId x = jw_sub claims \<and> d1 = snd (revokeAllSessionsByAccessToken env accessToken d))"
    and "(session_step (au_sha256 env refreshToken))\<^sup>*\<^sup>* d1 d'"
  shows "refreshAccessToken env' refreshToken ctx d' = (Inl (Unauthorized ''Invalid or expired refresh token''), d')"
proof -
  have "dead (au_sha256 env refreshToken) d1"
    using assms(4) revoke_closes [OF assms(1,2)] revoke_all_closes [OF assms(1)] by blast
  then show ?thesis using dead_refused used.reach_from [OF _ assms(5)] assms(3) by metis
qed

text \<open>The access token is not tied to a session: it outlives them all.\<close>

lemma access_token_ignores_sessions:
  "fst (verifyInternalToken env accessToken (d\<lparr>ad_sessions := ss\<rparr>)) = fst (verifyInternalToken env accessToken d)"
  by (simp add: verifyInternalToken_def handler_defs findById_def active_user_def split: option.split)

section \<open>Requests to run\<close>

abbreviation no_context :: session_context where
  "no_context \<equiv> \<lparr>sc_userAgent = None, sc_ipAddress = None\<rparr>"

definition racing_env :: auth_env where
  "racing_env = sample_auth_env\<lparr>au_bytes := (\<lambda>_. ''b''),
     au_others := (\<lambda>d. snd (refreshAccessToken sample_auth_env ''tok'' no_context d))\<rparr>"

text \<open>
  Single use is not enforced while a refresh runs: a second refresh with the same token that
  overlaps the first is answered as well, and two open sessions come from one token.
\<close>

theorem overlapping_refreshes_succeed:
  "\<not> isl (fst (refreshAccessToken sample_auth_env ''tok'' no_context sample_auth_db)) \<and>
   \<not> isl (fst (refreshAccessToken racing_env ''tok'' no_context sample_auth_db)) \<and>
   length (filter (\<lambda>x. se_revokedAt x = None) (ad_sessions (snd (refreshAccessToken racing_env ''tok'' no_context sample_auth_db)))) = 2"
proof (intro conjI)
  show "\<not> isl (fst (refreshAccessToken sample_auth_env ''tok'' no_context sample_auth_db))" by code_simp
  show "\<not> isl (fst (refreshAccessToken racing_env ''tok'' no_context sample_auth_db))" by code_simp
  show "length (filter (\<lambda>x. se_revokedAt x = None) (ad_sessions (snd (refreshAccessToken racing_env ''tok'' no_context sample_auth_db)))) = 2"
    by code_simp
qed

lemma sample_fair_others: "fair_others ''tok'' sample_auth_env" "au_sha256 sample_auth_env = (\<lambda>s. s)"
proof -
  have "refresh_token sample_auth_env \<noteq> ''tok''" by code_simp
  then show "fair_others ''tok'' sample_auth_env" by (simp add: fair_others_def sample_auth_env_def)
  show "au_sha256 sample_auth_env = (\<lambda>s. s)" by (simp add: sample_auth_env_def)
qed

theorem refresh_token_single_use_witness:
  "fst (refreshAccessToken sample_auth_env ''tok'' no_context
      (snd (refreshAccessToken sample_auth_env ''tok'' no_context sample_auth_db))) =
   Inl (Unauthorized ''Invalid or expired refresh token'')"
proof -
  have "\<not> isl (fst (refreshAccessToken sample_auth_env ''tok'' no_context sample_auth_db))" by code_simp
  then obtain res where "fst (refreshAccessToken sample_auth_env ''tok'' no_context sample_auth_db) = Inr res"
    by (cases "fst (refreshAccessToken sample_auth_env ''tok'' no_context sample_auth_db)") auto
  from refresh_token_single_use [OF _ this rtranclp.rtrancl_refl refl, of no_context] sample_fair_others show ?thesis by simp
qed

theorem logout_refuses_witness:
  "fst (refreshAccessToken sample_auth_env ''tok'' no_context (snd (revokeRefreshToken sample_auth_env ''tok'' sample_auth_db))) =
     Inl (Unauthorized ''Invalid or expired refresh token'') \<and>
   fst (refreshAccessToken sample_auth_env ''tok'' no_context (snd (revokeAllSessionsByAccessToken sample_auth_env ''u1'' sample_auth_db))) =
     Inl (Unauthorized ''Invalid or expired refresh token'')"
proof -
  have u: "sessions_unique sample_auth_db" by code_simp
  have fair: "fair_others (au_sha256 sample_auth_env ''tok'') sample_auth_env" using sample_fair_others by simp
  have a: "fst (revokeRefreshToken sample_auth_env ''tok'' sample_auth_db) = Inr ()" by code_simp
  have b: "find_session sample_auth_env ''tok'' sample_auth_db = Some sample_session" "se_userId sample_session = ''u1''" by code_simp+
  have c: "au_jwtVerify sample_auth_env ''u1'' = Some \<lparr>jw_sub = ''u1'', jw_firebaseUid = [], jw_kycStatus = []\<rparr>"
    by (simp add: sample_auth_env_def)
  show ?thesis
    using logout_refuses [OF u fair refl, of "snd (revokeRefreshToken sample_auth_env ''tok'' sample_auth_db)" _ _ no_context]
      logout_refuses [OF u fair refl, of "snd (revokeAllSessionsByAccessToken sample_auth_env ''u1'' sample_auth_db)" "''u1''" _ no_context]
      a b c by fastforce
qed

end
