(* ===== verification/Auth_Otp.thy ===== *)
theory Auth_Otp
  imports Auth_Sessions
begin

text \<open>
  One-time codes, step-up tokens, QR tokens, sign-up and identity checks of the authentication service
  (\<^verbatim>\<open>auth/auth-internal.controller.ts\<close>). Vietnamese messages are written without diacritics.
  \<open>Math.random\<close> is a rational number below 1.
\<close>

section \<open>Configuration\<close>

text \<open>\<open>Math.max(lo, Number(cfg ?? d))\<close>: NaN stays NaN.\<close>

definition bounded_ttl :: "auth_env \<Rightarrow> string \<Rightarrow> int \<Rightarrow> int \<Rightarrow> js_number" where
  "bounded_ttl env k d lo =
     (let v = ttl_seconds env k d in if v = JsNaN then JsNaN else if js_ge v (js_of_int lo) then v else js_of_int lo)"

definition qrTokenSecret :: "auth_env \<Rightarrow> string" where
  "qrTokenSecret env =
     (let fromEnv = js_trim (coalesce (au_cfg env ''QR_TRANSFER_TOKEN_SECRET'') [])
      in if fromEnv \<noteq> [] then fromEnv
         else or_str (map_option js_trim (au_cfg env ''JWT_SECRET'')) ''qr-transfer-fallback-secret'')"

definition otpHashSecret :: "auth_env \<Rightarrow> string" where
  "otpHashSecret env =
     (let fromEnv = js_trim (coalesce (au_cfg env ''OTP_HASH_SECRET'') []) in if fromEnv \<noteq> [] then fromEnv else qrTokenSecret env)"

section \<open>One-time codes\<close>

definition purpose_text :: "otp_purpose \<Rightarrow> string" where
  "purpose_text p = (case p of OTP_TRANSFER \<Rightarrow> ''TRANSFER'' | OTP_STEP_UP_EMAIL \<Rightarrow> ''STEP_UP_EMAIL'')"

definition hashOtpCode :: "auth_env \<Rightarrow> string \<Rightarrow> string \<Rightarrow> otp_purpose \<Rightarrow> string \<Rightarrow> string" where
  "hashOtpCode env userId deviceId purpose otpCode =
     au_hmac env (otpHashSecret env) (js_join '':'' [js_trim userId, js_trim deviceId, purpose_text purpose, js_trim otpCode])"

definition fits :: "nat \<Rightarrow> string option \<Rightarrow> bool" where
  "fits n s = (case s of None \<Rightarrow> True | Some t \<Rightarrow> length t \<le> n)"

definition otp_columns_ok :: "auth_otp \<Rightarrow> bool" where
  "otp_columns_ok r = (length (otp_hash r) \<le> 128 \<and> fits 128 (otp_deviceId r) \<and> otp_attemptCount r \<le> 32767)"

definition insert_otp :: "int \<Rightarrow> auth_otp \<Rightarrow> unit auth_unit" where
  "insert_otp now r d =
     (if \<not> otp_columns_ok r then Inl (AuthQueryFailed ''otp column'')
      else Inr ((), d\<lparr>ad_otps := ad_otps d @ [r\<lparr>otp_id := ad_uuid d (ad_seq d), otp_createdAt := now\<rparr>], ad_seq := Suc (ad_seq d)\<rparr>))"

definition save_otp :: "auth_otp \<Rightarrow> unit auth_unit" where
  "save_otp r d =
     (if \<not> otp_columns_ok r then Inl (AuthQueryFailed ''otp column'')
      else Inr ((), d\<lparr>ad_otps := put_row otp_id r (ad_otps d)\<rparr>))"

text \<open>The rows of one user, purpose and device; an empty device is the NULL column.\<close>

definition otp_slot :: "string \<Rightarrow> otp_purpose \<Rightarrow> string \<Rightarrow> auth_otp \<Rightarrow> bool" where
  "otp_slot userId purpose deviceId r =
     (otp_userId r = userId \<and> otp_purpose_of r = purpose \<and> otp_deviceId r = or_null (js_trim deviceId))"

definition storeOtpCode :: "auth_env \<Rightarrow> string \<Rightarrow> string \<Rightarrow> otp_purpose \<Rightarrow> string \<Rightarrow> js_number \<Rightarrow> unit auth_handler" where
  "storeOtpCode env userId deviceId purpose otpCode expiresInSeconds =
     bindH (atomic (modifyU (\<lambda>d. d\<lparr>ad_otps := filter (\<lambda>r. \<not> otp_slot userId purpose deviceId r) (ad_otps d)\<rparr>))) (\<lambda>_.
     bindH (await env) (\<lambda>_.
       case date_after (au_now env) expiresInSeconds of
         None \<Rightarrow> throwH (AuthQueryFailed ''invalid date'')
       | Some expiresAt \<Rightarrow>
           atomic (insert_otp (au_now env)
             \<lparr>otp_id = [], otp_userId = userId, otp_purpose_of = purpose,
              otp_hash = hashOtpCode env userId (js_trim deviceId) purpose otpCode, otp_attemptCount = 0,
              otp_expiresAt = expiresAt, otp_usedAt = None, otp_deviceId = or_null (js_trim deviceId), otp_createdAt = 0\<rparr>)))"

text \<open>The newest of the rows, the later one of two that are equally new.\<close>

fun newest_otp :: "auth_otp list \<Rightarrow> auth_otp option" where
  "newest_otp [] = None"
| "newest_otp (r # rs) =
     (case newest_otp rs of None \<Rightarrow> Some r | Some b \<Rightarrow> if otp_createdAt r \<le> otp_createdAt b then Some b else Some r)"

definition usable_otp :: "int \<Rightarrow> auth_otp \<Rightarrow> bool" where
  "usable_otp now r = (otp_usedAt r = None \<and> now < otp_expiresAt r)"

definition find_otp :: "auth_env \<Rightarrow> string \<Rightarrow> string \<Rightarrow> otp_purpose \<Rightarrow> auth_db \<Rightarrow> auth_otp option" where
  "find_otp env userId deviceId purpose d =
     newest_otp (filter (\<lambda>r. otp_slot userId purpose deviceId r \<and> usable_otp (au_now env) r) (ad_otps d))"

definition consumeOtpCode :: "auth_env \<Rightarrow> string \<Rightarrow> string \<Rightarrow> otp_purpose \<Rightarrow> string \<Rightarrow> bool auth_handler" where
  "consumeOtpCode env userId deviceId purpose otpCode =
     bindH (readH (find_otp env userId deviceId purpose)) (\<lambda>found.
       case found of
         None \<Rightarrow> returnH False
       | Some row \<Rightarrow>
           bindH (await env) (\<lambda>_.
             if otp_hash row \<noteq> hashOtpCode env userId (js_trim deviceId) purpose otpCode
             then bindH (atomic (save_otp (row\<lparr>otp_attemptCount := max 0 (otp_attemptCount row) + 1\<rparr>))) (\<lambda>_. returnH False)
             else bindH (atomic (save_otp (row\<lparr>otp_usedAt := Some (au_now env)\<rparr>))) (\<lambda>_. returnH True)))"

definition random_code :: "auth_env \<Rightarrow> string" where
  "random_code env = int_digits \<lfloor>100000 + au_random env * 900000\<rfloor>"

definition sendEmailOtp :: "auth_env \<Rightarrow> string \<Rightarrow> string \<Rightarrow> js_number \<Rightarrow> string \<Rightarrow> unit auth_handler" where
  "sendEmailOtp env recipientEmail otpCode expiresInSeconds purpose =
     (case au_notify env \<lparr>eo_recipientEmail = recipientEmail, eo_otpCode = otpCode, eo_expiresInSeconds = expiresInSeconds, eo_purpose = purpose\<rparr> of
        Inr True \<Rightarrow> returnH ()
      | Inl (NotifyInvalid message) \<Rightarrow> throwH (AuthBadRequest message)
      | Inl NotifyUnavailable \<Rightarrow> throwH (AuthBadRequest ''Dich vu thong bao dang tam thoi khong kha dung.'')
      | _ \<Rightarrow> throwH (AuthBadRequest ''Khong the gui OTP email luc nay.''))"

section \<open>Sign-up\<close>

definition label_char :: "char \<Rightarrow> bool" where
  "label_char c = (alnum c \<or> c = CHR ''-'')"

definition local_char :: "char \<Rightarrow> bool" where
  "local_char c = (alnum c \<or> code_unit c \<in> {33, 35, 36, 37, 38, 39, 42, 43, 45, 46, 47, 61, 63, 94, 95, 96, 123, 124, 125, 126})"

definition letter :: "char \<Rightarrow> bool" where
  "letter c = (alnum c \<and> \<not> js_digit c)"

text \<open>One or more of the local characters, an at sign, labels that end in a dot, and two or more letters.\<close>

definition looksLikeEmail :: "string \<Rightarrow> bool" where
  "looksLikeEmail s =
     (case js_split (CHR ''@'') s of
        [name, domain] \<Rightarrow>
          let labels = js_split (CHR ''.'') domain
          in name \<noteq> [] \<and> list_all local_char name \<and> 2 \<le> length labels \<and>
             list_all (\<lambda>l. l \<noteq> [] \<and> list_all label_char l) (butlast labels) \<and>
             2 \<le> length (last labels) \<and> list_all letter (last labels)
      | _ \<Rightarrow> False)"

definition signup_normalizePhone :: "string \<Rightarrow> string" where
  "signup_normalizePhone raw =
     (let digitsOnly = digits_of raw
      in if js_startsWith digitsOnly ''84'' \<and> length digitsOnly = 11 then ''0'' @ drop 2 digitsOnly else digitsOnly)"

definition isReadyPhone :: "string \<Rightarrow> bool" where
  "isReadyPhone s =
     ((js_startsWith s ''0'' \<and> digits_between 9 10 (drop 1 s)) \<or> (js_startsWith s ''84'' \<and> digits_between 8 10 (drop 2 s)))"

text \<open>For each of e-mail and phone: the normalised value, whether it is valid and whether it is free.\<close>

definition checkSignUpAvailability ::
    "string option \<Rightarrow> string option \<Rightarrow> ((string \<times> bool \<times> bool) \<times> (string \<times> bool \<times> bool)) auth_handler" where
  "checkSignUpAvailability email0 phone0 =
     readH (\<lambda>d.
       let email = js_lower (js_trim (coalesce email0 []));
           phone = signup_normalizePhone (coalesce phone0 []);
           emailValid = (email = [] \<or> looksLikeEmail email);
           phoneValid = (phone = [] \<or> isReadyPhone phone)
       in ((email, emailValid, emailValid \<and> email \<noteq> [] \<and> findByEmail d email = None),
           (phone, phoneValid, phoneValid \<and> phone \<noteq> [] \<and> findByPhone d phone = None)))"

definition signUpOtpSubjectId :: "auth_env \<Rightarrow> string \<Rightarrow> string" where
  "signUpOtpSubjectId env email =
     (let hex = take 32 (au_sha256 env (''signup-email:'' @ js_lower (js_trim email)))
      in take 8 hex @ ''-'' @ take 4 (drop 8 hex) @ ''-'' @ take 4 (drop 12 hex) @ ''-'' @ take 4 (drop 16 hex) @ ''-'' @ drop 20 hex)"

text \<open>The answer is the lifetime of the code.\<close>

definition sendSignUpEmailOtp :: "auth_env \<Rightarrow> string \<Rightarrow> js_number auth_handler" where
  "sendSignUpEmailOtp env email0 =
     (let email = js_lower (js_trim email0); expiresIn = bounded_ttl env ''SIGNUP_EMAIL_OTP_TTL_SECONDS'' 300 60
      in if \<not> looksLikeEmail email then throwH (AuthBadRequest ''Invalid email format'')
         else bindH (readH (\<lambda>d. findByEmail d email)) (\<lambda>existing.
           if existing \<noteq> None then throwH (AuthBadRequest ''Email already in use'')
           else bindH (storeOtpCode env (signUpOtpSubjectId env email) email OTP_STEP_UP_EMAIL (random_code env) expiresIn) (\<lambda>_.
                bindH (sendEmailOtp env email (random_code env) expiresIn ''signup'') (\<lambda>_. returnH expiresIn))))"

definition verifySignUpEmailOtp :: "auth_env \<Rightarrow> string \<Rightarrow> string \<Rightarrow> bool auth_handler" where
  "verifySignUpEmailOtp env email0 otpCode =
     (let email = js_lower (js_trim email0)
      in if \<not> looksLikeEmail email then throwH (AuthBadRequest ''Invalid email format'')
         else consumeOtpCode env (signUpOtpSubjectId env email) email OTP_STEP_UP_EMAIL (js_trim otpCode))"

section \<open>Codes for transfers and step-up tokens\<close>

definition existing_user :: "string \<Rightarrow> auth_user auth_handler" where
  "existing_user userId = require_user (AuthBadRequest ''User not found'') userId"

definition issueOtp :: "auth_env \<Rightarrow> string \<Rightarrow> string option \<Rightarrow> (string \<times> js_number) auth_handler" where
  "issueOtp env userId deviceId =
     bindH (existing_user userId) (\<lambda>_.
       let expiresIn = bounded_ttl env ''OTP_TTL_SECONDS'' 120 60
       in bindH (storeOtpCode env userId (js_trim (coalesce deviceId [])) OTP_TRANSFER (random_code env) expiresIn) (\<lambda>_.
          returnH (random_code env, expiresIn)))"

definition insert_token :: "step_up_token \<Rightarrow> unit auth_unit" where
  "insert_token r d =
     (if find_row (\<lambda>x. su_token x = su_token r) (ad_tokens d) \<noteq> None then Inl (UniqueViolation ''token'')
      else if \<not> (length (su_token r) \<le> 128 \<and> fits 128 (su_deviceId r) \<and> fits 32 (su_method r)) then Inl (AuthQueryFailed ''token column'')
      else Inr ((), d\<lparr>ad_tokens := ad_tokens d @ [r\<lparr>su_id := ad_uuid d (ad_seq d)\<rparr>], ad_seq := Suc (ad_seq d)\<rparr>))"

datatype step_up_answer = Challenge js_number | Granted string string js_number

definition grant_token :: "auth_env \<Rightarrow> string \<Rightarrow> string option \<Rightarrow> string \<Rightarrow> step_up_answer auth_handler" where
  "grant_token env userId deviceId method =
     (let stepUpToken = au_base64url env (au_bytes env 24); expiresIn = bounded_ttl env ''STEP_UP_TOKEN_TTL_SECONDS'' 180 60
      in case date_after (au_now env) expiresIn of
           None \<Rightarrow> throwH (AuthQueryFailed ''invalid date'')
         | Some expiresAt \<Rightarrow>
             bindH (atomic (insert_token \<lparr>su_id = [], su_token = stepUpToken, su_userId = userId,
                su_deviceId = or_null (js_trim (coalesce deviceId [])), su_method = Some method, su_expiresAt = expiresAt\<rparr>)) (\<lambda>_.
             returnH (Granted stepUpToken method expiresIn)))"

definition issueStepUpToken ::
    "auth_env \<Rightarrow> string \<Rightarrow> string option \<Rightarrow> string option \<Rightarrow> string option \<Rightarrow> step_up_answer auth_handler" where
  "issueStepUpToken env userId deviceId method0 otpCode0 =
     bindH (existing_user userId) (\<lambda>user.
       let method = or_str (map_option js_trim method0) ''face'';
           deviceKey = js_trim (coalesce deviceId []);
           providedOtpCode = js_trim (coalesce otpCode0 []);
           otpExpiresIn = bounded_ttl env ''STEP_UP_EMAIL_OTP_TTL_SECONDS'' 180 60;
           email = js_lower (js_trim (coalesce (us_email user) []))
       in if js_lower method \<noteq> ''otp_email'' then grant_token env userId deviceId method
          else if email = [] then throwH (AuthBadRequest ''User email is required for step-up OTP'')
          else if providedOtpCode = []
          then bindH (storeOtpCode env userId deviceKey OTP_STEP_UP_EMAIL (random_code env) otpExpiresIn) (\<lambda>_.
               bindH (sendEmailOtp env email (random_code env) otpExpiresIn ''step_up'') (\<lambda>_. returnH (Challenge otpExpiresIn)))
          else bindH (consumeOtpCode env userId deviceKey OTP_STEP_UP_EMAIL providedOtpCode) (\<lambda>validOtp.
               if \<not> validOtp then throwH (AuthBadRequest ''Invalid or expired OTP for step-up'')
               else grant_token env userId deviceId method))"

definition verifyStepUpToken :: "auth_env \<Rightarrow> string \<Rightarrow> string \<Rightarrow> string option \<Rightarrow> bool auth_handler" where
  "verifyStepUpToken env userId stepUpToken deviceId =
     bindH (readH (\<lambda>d. find_row (\<lambda>x. su_token x = js_trim stepUpToken) (ad_tokens d))) (\<lambda>found.
       case found of
         None \<Rightarrow> returnH False
       | Some row \<Rightarrow>
           if su_expiresAt row \<le> au_now env
           then bindH (await env) (\<lambda>_.
                bindH (atomic (modifyU (\<lambda>d. d\<lparr>ad_tokens := filter (\<lambda>x. su_id x \<noteq> su_id row) (ad_tokens d)\<rparr>))) (\<lambda>_. returnH False))
           else returnH (su_userId row = userId \<and>
             \<not> (js_trim (coalesce (su_deviceId row) []) \<noteq> [] \<and> js_trim (coalesce deviceId []) \<noteq> [] \<and>
                js_trim (coalesce (su_deviceId row) []) \<noteq> js_trim (coalesce deviceId []))))"

section \<open>QR tokens\<close>

definition signQrPayload :: "auth_env \<Rightarrow> string \<Rightarrow> string" where
  "signQrPayload env payloadEncoded = au_hmac64 env (qrTokenSecret env) payloadEncoded"

definition issueQrTransferToken :: "auth_env \<Rightarrow> string \<Rightarrow> (string \<times> js_number) auth_handler" where
  "issueQrTransferToken env userId =
     bindH (existing_user userId) (\<lambda>user.
       if js_trim (coalesce (us_phone user) []) = [] then throwH (AuthBadRequest ''User phone is required for QR transfer'')
       else
         let expiresIn = bounded_ttl env ''QR_TRANSFER_TOKEN_TTL_SECONDS'' 120 30;
             expiry = (case expiresIn of JsNum s \<Rightarrow> JsNum (of_int (au_now env div 1000) + s) | v \<Rightarrow> v);
             payload = JObject [(''v'', JNumber (js_of_int 1)), (''userId'', JString (us_id user)), (''exp'', JNumber expiry),
               (''nonce'', JString (hex_of (au_bytes env 12)))];
             payloadEncoded = au_base64url env (json_text payload)
         in returnH (payloadEncoded @ ''.'' @ signQrPayload env payloadEncoded, expiresIn))"

text \<open>The user id of a token that is signed and not expired.\<close>

definition verifyQrToken :: "auth_env \<Rightarrow> string \<Rightarrow> string option" where
  "verifyQrToken env token =
     (case js_split (CHR ''.'') token of
        [payloadEncoded, signature] \<Rightarrow>
          if signature \<noteq> signQrPayload env payloadEncoded then None
          else (case json_parse (au_base64urlDecode env payloadEncoded) of
            None \<Rightarrow> None
          | Some payload \<Rightarrow>
              let expiry = json_Number (case json_prop ''exp'' payload of None \<Rightarrow> JNumber (js_of_int 0) | Some JNull \<Rightarrow> JNumber (js_of_int 0) | Some v \<Rightarrow> v);
                  uid = js_string (case json_prop ''userId'' payload of None \<Rightarrow> JString [] | Some JNull \<Rightarrow> JString [] | Some v \<Rightarrow> v)
              in if \<not> (truthy payload \<and> is_object payload) \<or> \<not> js_isFinite expiry \<or> \<not> js_gt expiry (js_of_int (au_now env div 1000)) then None
                 else Some (js_trim uid))
      | _ \<Rightarrow> None)"

definition resolveQrTransferToken :: "auth_env \<Rightarrow> string \<Rightarrow> recipient_view option auth_handler" where
  "resolveQrTransferToken env token =
     readH (\<lambda>d. case verifyQrToken env (js_trim token) of
        None \<Rightarrow> None
      | Some uid \<Rightarrow>
          if uid = [] then None
          else (case findById d uid of
            None \<Rightarrow> None
          | Some u \<Rightarrow>
              if us_accountStatus u \<noteq> ACC_ACTIVE then None
              else Some \<lparr>rv_userId = us_id u, rv_phone = coalesce (us_phone u) [],
                         rv_displayName = coalesce (or_opt_else (us_displayName u) (us_email u)) (au_unnamed env),
                         rv_kycStatus = us_kycStatus u\<rparr>))"

section \<open>Identity checks\<close>

record kyc_request =
  kq_fullName :: string
  kq_nationalId :: string
  kq_dateOfBirth :: string
  kq_idIssueDate :: "string option"
  kq_idIssuePlace :: "string option"
  kq_residentialAddress :: string

definition save_kyc :: "kyc_profile \<Rightarrow> kyc_profile auth_unit" where
  "save_kyc r d =
     (if clash (Some \<circ> ky_userId) ky_id r (ad_kycs d) then Inl (UniqueViolation ''userId'')
      else if clash (Some \<circ> ky_nationalId) ky_id r (ad_kycs d) then Inl (UniqueViolation ''nationalId'')
      else if \<not> (length (ky_fullName r) \<le> 255 \<and> length (ky_nationalId r) \<le> 32 \<and> fits 255 (ky_idIssuePlace r) \<and>
                 length (ky_residentialAddress r) \<le> 512) then Inl (AuthQueryFailed ''kyc column'')
      else Inr (r, d\<lparr>ad_kycs := put_row ky_id r (ad_kycs d)\<rparr>))"

definition insert_kyc :: "kyc_profile \<Rightarrow> kyc_profile auth_unit" where
  "insert_kyc r d = save_kyc (r\<lparr>ky_id := ad_uuid d (ad_seq d)\<rparr>) (d\<lparr>ad_seq := Suc (ad_seq d)\<rparr>)"

definition submitted_kyc :: "auth_env \<Rightarrow> kyc_request \<Rightarrow> int \<Rightarrow> int option \<Rightarrow> kyc_profile \<Rightarrow> kyc_profile" where
  "submitted_kyc env q dateOfBirth idIssueDate r =
     r\<lparr>ky_fullName := js_trim (kq_fullName q), ky_nationalId := js_trim (kq_nationalId q), ky_dateOfBirth := dateOfBirth,
       ky_idIssueDate := idIssueDate, ky_idIssuePlace := or_null (js_trim (coalesce (kq_idIssuePlace q) [])),
       ky_residentialAddress := js_trim (kq_residentialAddress q), ky_status := KYC_PENDING_REVIEW, ky_riskLevel := KYC_LOW,
       ky_submittedAt := Some (au_now env), ky_rejectionReason := None\<rparr>"

definition new_kyc :: "string \<Rightarrow> kyc_profile" where
  "new_kyc userId =
     \<lparr>ky_id = [], ky_userId = userId, ky_fullName = [], ky_nationalId = [], ky_dateOfBirth = 0, ky_idIssueDate = None,
      ky_idIssuePlace = None, ky_residentialAddress = [], ky_status = KYC_UNVERIFIED, ky_riskLevel = KYC_LOW,
      ky_rejectionReason = None, ky_submittedAt = None\<rparr>"

definition submitKyc :: "auth_env \<Rightarrow> string \<Rightarrow> kyc_request \<Rightarrow> kyc_profile auth_handler" where
  "submitKyc env userId q =
     bindH (existing_user userId) (\<lambda>user.
       case au_dateParse env (kq_dateOfBirth q) of
         None \<Rightarrow> throwH (AuthBadRequest ''dateOfBirth is invalid'')
       | Some dateOfBirth \<Rightarrow>
           let issued = or_str (kq_idIssueDate q) []
           in if issued \<noteq> [] \<and> au_dateParse env issued = None then throwH (AuthBadRequest ''idIssueDate is invalid'')
              else
                let idIssueDate = (if issued = [] then None else au_dateParse env issued)
                in bindH (await env) (\<lambda>_.
                   bindH (readH (\<lambda>d. find_row (\<lambda>x. ky_userId x = userId) (ad_kycs d))) (\<lambda>existing.
                   bindH (await env) (\<lambda>_.
                   bindH (case existing of
                       Some r \<Rightarrow> atomic (save_kyc (submitted_kyc env q dateOfBirth idIssueDate r))
                     | None \<Rightarrow> atomic (insert_kyc (submitted_kyc env q dateOfBirth idIssueDate (new_kyc userId)))) (\<lambda>saved.
                   bindH (await env) (\<lambda>_.
                   bindH (atomic (save_user (user\<lparr>us_kycStatus := ''pending_review''\<rparr>))) (\<lambda>_. returnH saved)))))))"

section \<open>The remaining routes\<close>

definition setPin_route :: "auth_env \<Rightarrow> string \<Rightarrow> string \<Rightarrow> unit auth_handler" where
  "setPin_route env userId pin = bindH (existing_user userId) (\<lambda>_. setPin env userId pin)"

definition getPinStatus :: "string \<Rightarrow> bool auth_handler" where
  "getPinStatus userId = bindH (existing_user userId) (\<lambda>user. returnH (hasPin user))"

definition resolveRecipient_route :: "auth_env \<Rightarrow> string \<Rightarrow> string option \<Rightarrow> recipient_view option auth_handler" where
  "resolveRecipient_route env phone requesterUserId =
     resolveRecipientByPhone env phone (map_option js_trim requesterUserId)"

section \<open>One-time codes work once\<close>

text \<open>A request that is not interrupted.\<close>

definition alone_env :: "auth_env \<Rightarrow> bool" where
  "alone_env env \<longleftrightarrow> au_others env = (\<lambda>d. d)"

definition slot_rows :: "string \<Rightarrow> string \<Rightarrow> otp_purpose \<Rightarrow> auth_db \<Rightarrow> auth_otp list" where
  "slot_rows userId deviceId purpose d = filter (otp_slot userId purpose deviceId) (ad_otps d)"

lemma find_otp_slot: "find_otp env userId deviceId purpose d = newest_otp (filter (usable_otp (au_now env)) (slot_rows userId deviceId purpose d))"
  by (simp add: find_otp_def slot_rows_def filter_filter)

lemma newest_in: "newest_otp rs = Some r \<Longrightarrow> r \<in> set rs"
  by (induction rs arbitrary: r) (auto split: option.splits if_splits)

lemma newest_None: "newest_otp rs = None \<longleftrightarrow> rs = []"
  by (cases rs) (auto split: option.split)

text \<open>
  A code is accepted only if an unused, unexpired row of this user, purpose and device was stored
  for it, whatever other requests do meanwhile.
\<close>

theorem otp_accepted_only:
  assumes "fst (consumeOtpCode env userId deviceId purpose otpCode d) = Inr True"
  shows "\<exists>r\<in>set (ad_otps d). otp_slot userId purpose deviceId r \<and> otp_usedAt r = None \<and> au_now env < otp_expiresAt r \<and>
    otp_hash r = hashOtpCode env userId (js_trim deviceId) purpose otpCode"
proof (cases "find_otp env userId deviceId purpose d")
  case None
  then show ?thesis using assms by (simp add: consumeOtpCode_def bindH_readH returnH_def)
next
  case (Some r)
  then have "r \<in> set (filter (\<lambda>r. otp_slot userId purpose deviceId r \<and> usable_otp (au_now env) r) (ad_otps d))"
    unfolding find_otp_def by (rule newest_in)
  moreover have "otp_hash r = hashOtpCode env userId (js_trim deviceId) purpose otpCode"
    by (rule ccontr) (use assms Some in \<open>simp add: consumeOtpCode_def bindH_readH bindH_await handler_defs split: sum.splits prod.splits\<close>)
  ultimately show ?thesis by (auto simp add: usable_otp_def)
qed

lemma store_slot:
  assumes "storeOtpCode env userId deviceId purpose otpCode ttl d = (Inr (), d1)" and "alone_env env"
  shows "\<exists>r expiresAt. slot_rows userId deviceId purpose d1 = [r] \<and> date_after (au_now env) ttl = Some expiresAt \<and>
    otp_expiresAt r = expiresAt \<and> otp_usedAt r = None \<and> otp_attemptCount r = 0 \<and> otp_columns_ok r \<and>
    otp_hash r = hashOtpCode env userId (js_trim deviceId) purpose otpCode \<and>
    otp_id r = ad_uuid d (ad_seq d) \<and> ad_otps d1 = filter (\<lambda>r. \<not> otp_slot userId purpose deviceId r) (ad_otps d) @ [r]"
proof -
  obtain expiresAt where e: "date_after (au_now env) ttl = Some expiresAt"
    using assms by (cases "date_after (au_now env) ttl") (auto simp add: storeOtpCode_def handler_defs await_def modifyU_def)
  let ?r = "\<lparr>otp_id = ad_uuid d (ad_seq d), otp_userId = userId, otp_purpose_of = purpose,
     otp_hash = hashOtpCode env userId (js_trim deviceId) purpose otpCode, otp_attemptCount = 0,
     otp_expiresAt = expiresAt, otp_usedAt = None, otp_deviceId = or_null (js_trim deviceId), otp_createdAt = au_now env\<rparr>"
  have d1: "ad_otps d1 = filter (\<lambda>r. \<not> otp_slot userId purpose deviceId r) (ad_otps d) @ [?r]" and cols: "otp_columns_ok ?r"
    using assms e
    by (auto simp add: storeOtpCode_def handler_defs await_def modifyU_def alone_env_def insert_otp_def otp_columns_ok_def split: if_splits)
  have "otp_slot userId purpose deviceId ?r" by (simp add: otp_slot_def)
  then have "slot_rows userId deviceId purpose d1 = [?r]" unfolding slot_rows_def d1 by (simp add: filter_empty_conv)
  then show ?thesis using e d1 cols by (intro exI [of _ ?r] exI [of _ expiresAt]) simp
qed

lemma consume_run:
  assumes "alone_env env" and "find_otp env userId deviceId purpose d = Some r" and "otp_columns_ok r"
  shows "consumeOtpCode env userId deviceId purpose otpCode d =
    (if otp_hash r = hashOtpCode env userId (js_trim deviceId) purpose otpCode
     then (Inr True, d\<lparr>ad_otps := put_row otp_id (r\<lparr>otp_usedAt := Some (au_now env)\<rparr>) (ad_otps d)\<rparr>)
     else if max 0 (otp_attemptCount r) + 1 \<le> 32767
     then (Inr False, d\<lparr>ad_otps := put_row otp_id (r\<lparr>otp_attemptCount := max 0 (otp_attemptCount r) + 1\<rparr>) (ad_otps d)\<rparr>)
     else (Inl (AuthQueryFailed ''otp column''), d))"
  using assms
  by (simp add: consumeOtpCode_def bindH_readH bindH_await alone_env_def)
    (auto simp add: handler_defs save_otp_def otp_columns_ok_def)

lemma slot_after_put:
  assumes "slot_rows userId deviceId purpose d = [r]" and "otp_id r' = otp_id r"
  shows "set (filter (otp_slot userId purpose deviceId) (put_row otp_id r' (ad_otps d))) \<subseteq> {r'}"
proof
  fix x
  assume "x \<in> set (filter (otp_slot userId purpose deviceId) (put_row otp_id r' (ad_otps d)))"
  then have x: "x \<in> set (put_row otp_id r' (ad_otps d))" "otp_slot userId purpose deviceId x" by auto
  then consider "x = r'" | "x \<in> set (ad_otps d)" "otp_id x \<noteq> otp_id r'" using set_put_rowD by metis
  then show "x \<in> {r'}"
  proof cases
    case 2
    then have "x \<in> set (slot_rows userId deviceId purpose d)" using x(2) by (simp add: slot_rows_def)
    then show ?thesis using assms 2(2) by simp
  qed simp
qed

lemma find_otp_stored:
  assumes "slot_rows userId deviceId purpose d = [r]" and "otp_usedAt r = None"
  shows "find_otp env userId deviceId purpose d = (if au_now env < otp_expiresAt r then Some r else None)"
  using assms by (simp add: find_otp_slot usable_otp_def)


section \<open>Wrong guesses are not limited\<close>

lemma slot_put_same:
  assumes "slot_rows userId deviceId purpose d = [r]" and "distinct (map otp_id (ad_otps d))"
    and "otp_id r' = otp_id r" and "otp_slot userId purpose deviceId r'"
  shows "slot_rows userId deviceId purpose (d\<lparr>ad_otps := put_row otp_id r' (ad_otps d)\<rparr>) = [r']"
    "map otp_id (put_row otp_id r' (ad_otps d)) = map otp_id (ad_otps d)"
proof -
  have "r \<in> set (slot_rows userId deviceId purpose d)" using assms(1) by simp
  then have r: "r \<in> set (ad_otps d)" "otp_slot userId purpose deviceId r" by (simp_all add: slot_rows_def)
  have put: "put_row otp_id r' (ad_otps d) = save_row otp_id r' (ad_otps d)" using r(1) assms(3) by (simp add: put_row_def)
  have "otp_slot userId purpose deviceId x = otp_slot userId purpose deviceId r'" if "x \<in> set (ad_otps d)" "otp_id x = otp_id r'" for x
    using row_unique [OF assms(2) that(1) r(1)] that(2) assms(3,4) r(2) by simp
  then have "filter (otp_slot userId purpose deviceId) (save_row otp_id r' (ad_otps d)) =
      save_row otp_id r' (filter (otp_slot userId purpose deviceId) (ad_otps d))"
    by (rule filter_save_row)
  then show "slot_rows userId deviceId purpose (d\<lparr>ad_otps := put_row otp_id r' (ad_otps d)\<rparr>) = [r']"
    using assms(1,3) put by (simp add: slot_rows_def save_row_def)
  show "map otp_id (put_row otp_id r' (ad_otps d)) = map otp_id (ad_otps d)" using put by simp
qed

text \<open>
  Wrong guesses are counted and never limited: after any number of them that the counter can hold,
  the right code is still accepted, so a code of six digits can be guessed within its lifetime.
\<close>

theorem otp_guesses_unlimited:
  assumes "storeOtpCode env userId deviceId purpose otpCode ttl d = (Inr (), d1)"
    and "alone_env env" and "distinct (map otp_id (ad_otps d))" and "ad_uuid d (ad_seq d) \<notin> otp_id ` set (ad_otps d)"
    and "date_after (au_now env) ttl = Some expiresAt" and "au_now env < expiresAt" and "n \<le> 32767"
    and "hashOtpCode env userId (js_trim deviceId) purpose guess \<noteq> hashOtpCode env userId (js_trim deviceId) purpose otpCode"
  shows "fst (consumeOtpCode env userId deviceId purpose otpCode
    (((\<lambda>x. snd (consumeOtpCode env userId deviceId purpose guess x)) ^^ n) d1)) = Inr True"
proof -
  let ?guess = "\<lambda>x. snd (consumeOtpCode env userId deviceId purpose guess x)"
  obtain r where r: "slot_rows userId deviceId purpose d1 = [r]" "otp_expiresAt r = expiresAt" "otp_usedAt r = None"
      "otp_attemptCount r = 0" "otp_columns_ok r" "otp_hash r = hashOtpCode env userId (js_trim deviceId) purpose otpCode"
      "otp_id r = ad_uuid d (ad_seq d)" "ad_otps d1 = filter (\<lambda>r. \<not> otp_slot userId purpose deviceId r) (ad_otps d) @ [r]"
    using store_slot [OF assms(1,2)] assms(5) by auto
  have "distinct (map otp_id (ad_otps d1))" using assms(3,4) r(7,8) by (auto simp add: distinct_map_filter)
  moreover have "r \<in> set (slot_rows userId deviceId purpose d1)" using r(1) by simp
  then have slot: "otp_slot userId purpose deviceId r" by (simp add: slot_rows_def)
  ultimately have state: "slot_rows userId deviceId purpose ((?guess ^^ k) d1) = [r\<lparr>otp_attemptCount := int k\<rparr>] \<and>
      distinct (map otp_id (ad_otps ((?guess ^^ k) d1)))" if "k \<le> 32767" for k
    using that
  proof (induction k)
    case 0
    then show ?case using r(1,4) by simp
  next
    case (Suc k)
    let ?d = "(?guess ^^ k) d1" and ?r = "r\<lparr>otp_attemptCount := int k\<rparr>" and ?r' = "r\<lparr>otp_attemptCount := int (Suc k)\<rparr>"
    have ih: "slot_rows userId deviceId purpose ?d = [?r]" "distinct (map otp_id (ad_otps ?d))" using Suc by auto
    have found: "find_otp env userId deviceId purpose ?d = Some ?r"
      using find_otp_stored [OF ih(1), of env] r(2,3) assms(6) by simp
    have cols: "otp_columns_ok ?r" using r(5) Suc.prems by (simp add: otp_columns_ok_def)
    have "?guess ?d = ?d\<lparr>ad_otps := put_row otp_id ?r' (ad_otps ?d)\<rparr>"
      using consume_run [OF assms(2) found cols, of guess] r(6) assms(8) Suc.prems by (simp add: add.commute)
    then show ?case using slot_put_same [OF ih, of ?r'] slot ih(2) by (simp add: otp_slot_def)
  qed
  let ?d = "(?guess ^^ n) d1" and ?r = "r\<lparr>otp_attemptCount := int n\<rparr>"
  have found: "find_otp env userId deviceId purpose ?d = Some ?r"
    using find_otp_stored [of userId deviceId purpose ?d ?r env] state [OF assms(7)] r(2,3) assms(6) by simp
  have "otp_columns_ok ?r" using r(5) assms(7) by (simp add: otp_columns_ok_def)
  then show ?thesis using consume_run [OF assms(2) found] r(6) by simp
qed

section \<open>Step-up tokens\<close>

lemma verify_token_sound:
  assumes "fst (verifyStepUpToken env userId token deviceId d) = Inr True"
  shows "\<exists>r\<in>set (ad_tokens d). su_token r = js_trim token \<and> su_userId r = userId \<and> au_now env < su_expiresAt r"
proof (cases "find_row (\<lambda>x. su_token x = js_trim token) (ad_tokens d)")
  case None
  then show ?thesis using assms by (simp add: verifyStepUpToken_def bindH_readH returnH_def)
next
  case (Some r)
  have "\<not> su_expiresAt r \<le> au_now env"
    by (rule ccontr) (use assms Some in \<open>simp add: verifyStepUpToken_def bindH_readH handler_defs await_def\<close>)
  then have "su_userId r = userId \<and> au_now env < su_expiresAt r"
    using assms Some by (simp add: verifyStepUpToken_def bindH_readH returnH_def)
  then show ?thesis using find_row_SomeD [OF Some] by auto
qed

text \<open>
  A step-up token of a method other than e-mail is granted to any existing user without any proof,
  and it then verifies for this user on every device, as often as it is presented before it expires.
\<close>

theorem step_up_granted_freely:
  assumes "findById d userId = Some user" and "js_lower (or_str (map_option js_trim method) ''face'') \<noteq> ''otp_email''"
    and "length (or_str (map_option js_trim method) ''face'') \<le> 32"
    and "find_row (\<lambda>x. su_token x = au_base64url env (au_bytes env 24)) (ad_tokens d) = None"
    and "js_trim (au_base64url env (au_bytes env 24)) = au_base64url env (au_bytes env 24)" and "length (au_base64url env (au_bytes env 24)) \<le> 128"
    and "bounded_ttl env ''STEP_UP_TOKEN_TTL_SECONDS'' 180 60 = JsNum ttl" and "\<bar>au_now env + \<lfloor>ttl * 1000\<rfloor>\<bar> \<le> 8640000000000000"
    and "au_now env' < au_now env + \<lfloor>ttl * 1000\<rfloor>"
  shows "\<exists>m. fst (issueStepUpToken env userId None method None d) = Inr (Granted (au_base64url env (au_bytes env 24)) m (JsNum ttl)) \<and>
    verifyStepUpToken env' userId (au_base64url env (au_bytes env 24)) deviceId (snd (issueStepUpToken env userId None method None d)) =
      (Inr True, snd (issueStepUpToken env userId None method None d))"
proof -
  let ?token = "au_base64url env (au_bytes env 24)" and ?m = "or_str (map_option js_trim method) ''face''"
  let ?row = "\<lparr>su_id = ad_uuid d (ad_seq d), su_token = ?token, su_userId = userId, su_deviceId = None, su_method = Some ?m,
     su_expiresAt = au_now env + \<lfloor>ttl * 1000\<rfloor>\<rparr>"
  have "js_trim [] = []" by code_simp
  then have run: "issueStepUpToken env userId None method None d =
      (Inr (Granted ?token ?m (JsNum ttl)), d\<lparr>ad_tokens := ad_tokens d @ [?row], ad_seq := Suc (ad_seq d)\<rparr>)"
    using assms(1,2,3,4,6,7,8)
    by (simp add: issueStepUpToken_def existing_user_def require_user_def grant_token_def insert_token_def handler_defs
        date_after_def Let_def fits_def or_null_def coalesce_def)
  have "find_row (\<lambda>x. su_token x = js_trim ?token) (ad_tokens d @ [?row]) = Some ?row"
    using assms(4,5) by (simp add: find_row_append row_simps)
  then show ?thesis unfolding run using assms(9) \<open>js_trim [] = []\<close>
    by (simp add: verifyStepUpToken_def bindH_readH returnH_def coalesce_def)
qed

section \<open>QR tokens are signed\<close>

lemma split_not_Nil: "js_split sep s \<noteq> []"
  by (induction s) (auto split: list.split)

lemma join_split: "js_join [sep] (js_split sep s) = s"
proof (induction s)
  case (Cons c s)
  obtain w ws where "js_split sep s = w # ws" using split_not_Nil by (metis list.exhaust)
  then show ?case using Cons by (cases ws) auto
qed simp


section \<open>The cleanup is harmless\<close>

definition session_open :: "auth_env \<Rightarrow> string \<Rightarrow> auth_db \<Rightarrow> bool" where
  "session_open env refreshToken d =
     (case find_session env refreshToken d of
        None \<Rightarrow> False
      | Some x \<Rightarrow> se_revokedAt x = None \<and> au_now env < se_refreshTokenExpiresAt x)"

lemma refresh_needs_open:
  "\<not> session_open env refreshToken d \<Longrightarrow>
   refreshAccessToken env refreshToken ctx d = (Inl (Unauthorized ''Invalid or expired refresh token''), d)"
  by (cases "find_session env refreshToken d") (auto simp add: session_open_def refreshAccessToken_def bindH_readH throwH_def)

lemma find_row_filter:
  assumes "distinct (map key rs)"
  shows "find_row (\<lambda>x. key x = k) (filter p rs) =
    (case find_row (\<lambda>x. key x = k) rs of None \<Rightarrow> None | Some x \<Rightarrow> if p x then Some x else None)"
  using assms
proof (induction rs)
  case (Cons r rs)
  have "key r \<noteq> key x" if "x \<in> set rs" for x using Cons.prems that by (auto simp add: image_iff)
  then have "find_row (\<lambda>x. key x = key r) rs = None" by (force simp add: find_row_None_iff)
  then show ?case using Cons by (auto simp add: row_simps split: option.split)
qed (simp add: row_simps)

lemma cleanup_otp:
  assumes "t \<le> au_now env"
  shows "find_otp env userId deviceId purpose (cleanupExpiredAndRevokedSessions t d) = find_otp env userId deviceId purpose d"
proof -
  have "filter (\<lambda>r. otp_slot userId purpose deviceId r \<and> usable_otp (au_now env) r) (ad_otps (cleanupExpiredAndRevokedSessions t d)) =
      filter (\<lambda>r. otp_slot userId purpose deviceId r \<and> usable_otp (au_now env) r) (ad_otps d)"
    using assms by (auto simp add: cleanupExpiredAndRevokedSessions_def usable_otp_def before_def intro!: filter_cong)
  then show ?thesis by (simp add: find_otp_def)
qed

text \<open>
  The daily cleanup changes no answer: a refresh token is valid after it exactly if it was before,
  and codes and step-up tokens are answered the same.
\<close>

theorem cleanup_harmless:
  assumes "t \<le> au_now env" and "alone_env env" and "sessions_unique d" and "distinct (map su_token (ad_tokens d))"
    and "\<forall>r\<in>set (ad_otps d). otp_columns_ok r"
  shows "session_open env refreshToken (cleanupExpiredAndRevokedSessions t d) = session_open env refreshToken d \<and>
    fst (consumeOtpCode env userId deviceId purpose otpCode (cleanupExpiredAndRevokedSessions t d)) =
      fst (consumeOtpCode env userId deviceId purpose otpCode d) \<and>
    fst (verifyStepUpToken env userId token deviceId' (cleanupExpiredAndRevokedSessions t d)) =
      fst (verifyStepUpToken env userId token deviceId' d)"
proof (intro conjI)
  let ?d = "cleanupExpiredAndRevokedSessions t d"
  have "find_session env refreshToken ?d = (case find_session env refreshToken d of None \<Rightarrow> None
      | Some x \<Rightarrow> if \<not> se_refreshTokenExpiresAt x < t \<and> \<not> before t (se_revokedAt x) then Some x else None)"
    using find_row_filter [OF assms(3) [unfolded sessions_unique_def]]
    by (simp add: find_session_def cleanupExpiredAndRevokedSessions_def)
  then show "session_open env refreshToken ?d = session_open env refreshToken d"
    using assms(1) by (auto simp add: session_open_def before_def split: option.splits)
  show "fst (consumeOtpCode env userId deviceId purpose otpCode ?d) = fst (consumeOtpCode env userId deviceId purpose otpCode d)"
  proof (cases "find_otp env userId deviceId purpose d")
    case None
    then show ?thesis using cleanup_otp [OF assms(1)] by (simp add: consumeOtpCode_def bindH_readH returnH_def)
  next
    case (Some r)
    then have "r \<in> set (ad_otps d)" using newest_in unfolding find_otp_def by fastforce
    then show ?thesis using Some cleanup_otp [OF assms(1)] assms(2,5) by (simp add: consume_run)
  qed
  have "find_row (\<lambda>x. su_token x = js_trim token) (ad_tokens ?d) =
      (case find_row (\<lambda>x. su_token x = js_trim token) (ad_tokens d) of None \<Rightarrow> None
       | Some x \<Rightarrow> if \<not> su_expiresAt x < t then Some x else None)"
    using find_row_filter [OF assms(4)] by (simp add: cleanupExpiredAndRevokedSessions_def)
  then show "fst (verifyStepUpToken env userId token deviceId' ?d) = fst (verifyStepUpToken env userId token deviceId' d)"
    using assms(1) by (auto simp add: verifyStepUpToken_def bindH_readH handler_defs await_def split: option.splits)
qed

section \<open>Requests to run\<close>

lemma sample_store:
  "storeOtpCode sample_auth_env ''u1'' [] OTP_STEP_UP_EMAIL ''123456'' (js_of_int 60) sample_auth_db =
     (Inr (), snd (storeOtpCode sample_auth_env ''u1'' [] OTP_STEP_UP_EMAIL ''123456'' (js_of_int 60) sample_auth_db))"
proof -
  have "\<not> isl (fst (storeOtpCode sample_auth_env ''u1'' [] OTP_STEP_UP_EMAIL ''123456'' (js_of_int 60) sample_auth_db))" by code_simp
  then have "fst (storeOtpCode sample_auth_env ''u1'' [] OTP_STEP_UP_EMAIL ''123456'' (js_of_int 60) sample_auth_db) = Inr ()"
    by (cases "fst (storeOtpCode sample_auth_env ''u1'' [] OTP_STEP_UP_EMAIL ''123456'' (js_of_int 60) sample_auth_db)") simp_all
  then show ?thesis by (simp add: prod_eq_iff)
qed

lemma sample_env_alone: "alone_env sample_auth_env"
  by (simp add: alone_env_def sample_auth_env_def)

lemma sample_times: "date_after (au_now sample_auth_env) (js_of_int 60) = Some 60005" "au_now sample_auth_env = 5"
  by (simp_all add: date_after_def js_of_int_def sample_auth_env_def)

abbreviation stored_db :: auth_db where
  "stored_db \<equiv> snd (storeOtpCode sample_auth_env ''u1'' [] OTP_STEP_UP_EMAIL ''123456'' (js_of_int 60) sample_auth_db)"


theorem otp_accepted_only_witness: "\<exists>r\<in>set (ad_otps stored_db). otp_usedAt r = None"
proof -
  have "fst (consumeOtpCode sample_auth_env ''u1'' [] OTP_STEP_UP_EMAIL ''123456'' stored_db) = Inr True" by code_simp
  from otp_accepted_only [OF this] show ?thesis by blast
qed

theorem otp_guesses_unlimited_witness:
  "fst (consumeOtpCode sample_auth_env ''u1'' [] OTP_STEP_UP_EMAIL ''123456''
    (((\<lambda>x. snd (consumeOtpCode sample_auth_env ''u1'' [] OTP_STEP_UP_EMAIL ''000000'' x)) ^^ 30000) stored_db)) = Inr True"
proof -
  have "hashOtpCode sample_auth_env ''u1'' (js_trim []) OTP_STEP_UP_EMAIL ''000000'' \<noteq>
      hashOtpCode sample_auth_env ''u1'' (js_trim []) OTP_STEP_UP_EMAIL ''123456''" by code_simp
  moreover have "ad_otps sample_auth_db = []" by (simp add: sample_auth_db_def)
  ultimately show ?thesis
    using otp_guesses_unlimited [OF sample_store sample_env_alone _ _ sample_times(1), of 30000 "''000000''"] sample_times(2) by simp
qed

theorem step_up_granted_freely_witness:
  "\<exists>m. fst (issueStepUpToken sample_auth_env ''u1'' None None None sample_auth_db) = Inr (Granted ''a'' m (js_of_int 180))"
proof -
  have a: "findById sample_auth_db ''u1'' = Some sample_user" by code_simp
  have b: "js_lower (or_str (map_option js_trim None) ''face'') \<noteq> ''otp_email''" by code_simp
  have e: "au_base64url sample_auth_env (au_bytes sample_auth_env 24) = ''a''" "ad_tokens sample_auth_db = []"
    "bounded_ttl sample_auth_env ''STEP_UP_TOKEN_TTL_SECONDS'' 180 60 = JsNum 180" "js_trim ''a'' = ''a''"
    by code_simp+
  show ?thesis
    using step_up_granted_freely [OF a b, of sample_auth_env 180 sample_auth_env None] e sample_times(2)
    by (simp add: or_str_def row_simps js_of_int_def)
qed


theorem cleanup_harmless_witness:
  "session_open sample_auth_env ''tok'' (cleanupExpiredAndRevokedSessions 5 sample_auth_db) = session_open sample_auth_env ''tok'' sample_auth_db"
proof -
  have "sessions_unique sample_auth_db" "distinct (map su_token (ad_tokens sample_auth_db))" by code_simp+
  moreover have "ad_otps sample_auth_db = []" by (simp add: sample_auth_db_def)
  ultimately show ?thesis using cleanup_harmless [OF _ sample_env_alone, of 5 sample_auth_db "''tok''"] sample_times(2) by simp
qed

end
