(* ===== verification/Notifications.thy ===== *)
theory Notifications
  imports Tx_Grpc
begin

text \<open>
  The notification service (\<^verbatim>\<open>notification-service/src/notifications\<close>): it consumes the events
  of transactions, stores a notification for each party, and mails the change of balance to those who
  asked for it. Its tables, the mails the mail server accepted and the tables of the transaction service
  that it reads make up \<open>note_world\<close>. Mail server, profile requests and the number format of the
  platform are parameters; between two awaits others may change the world (\<open>ne_others\<close>). Vietnamese
  texts are written without diacritics, and the HTML alternative of a mail, which shows the same values
  as its text, is left out, as is the cast of user ids to uuid in the query of balances.
\<close>

section \<open>Tables\<close>

datatype notification_channel = CHANNEL_APP | CHANNEL_EMAIL | CHANNEL_SMS

record notification =
  nn_id :: string
  nn_userId :: string
  nn_channel :: notification_channel
  nn_title :: string
  nn_content :: string
  nn_payloadJson :: "string option"
  nn_readAt :: "int option"
  nn_createdAt :: int

record notification_preference =
  np_id :: string
  np_userId :: string
  np_appEnabled :: bool
  np_emailEnabled :: bool
  np_smsEnabled :: bool

record mail =
  ml_from :: string
  ml_to :: string
  ml_subject :: string
  ml_text :: string
  ml_attachments :: "(string \<times> string \<times> string) list"

record note_world =
  nw_rows :: "notification list"
  nw_prefs :: "notification_preference list"
  nw_mails :: "mail list"
  nw_tx :: db
  nw_uuid :: "nat \<Rightarrow> string"
  nw_seq :: nat

datatype note_error = NoteError string | NoteQueryFailed string | NoteTypeError

type_synonym 'a note_handler = "(note_world, note_error, 'a) handler"
type_synonym 'a note_unit = "note_world \<Rightarrow> note_error + ('a \<times> note_world)"

record note_env =
  ne_cfg :: "string \<Rightarrow> string option"
  ne_now :: int
  ne_locale :: "js_number \<Rightarrow> string"
  ne_profile :: "string \<Rightarrow> (int \<times> json option) option"
  ne_smtp :: "mail \<Rightarrow> string + unit"
  ne_others :: "note_world \<Rightarrow> note_world"

definition note_await :: "note_env \<Rightarrow> unit note_handler" where
  "note_await env = interfere (ne_others env)"

text \<open>A notification as it is created; the user may be missing.\<close>

type_synonym draft = "string option \<times> notification_channel \<times> string \<times> string \<times> string"

definition draft_ok :: "draft \<Rightarrow> bool" where
  "draft_ok x = (case x of (u, ch, title, content, p) \<Rightarrow> u \<noteq> None \<and> length title \<le> 255 \<and> length content \<le> 1024)"

definition row_of_draft :: "note_env \<Rightarrow> string \<Rightarrow> draft \<Rightarrow> notification" where
  "row_of_draft env i x =
     (case x of (u, ch, title, content, p) \<Rightarrow>
        \<lparr>nn_id = i, nn_userId = coalesce u [], nn_channel = ch, nn_title = title, nn_content = content,
         nn_payloadJson = Some p, nn_readAt = None, nn_createdAt = ne_now env\<rparr>)"

definition insert_notifications :: "note_env \<Rightarrow> draft list \<Rightarrow> unit note_unit" where
  "insert_notifications env xs w =
     (if list_all draft_ok xs
      then Inr ((), w\<lparr>nw_rows := nw_rows w @
             map (\<lambda>(k, x). row_of_draft env (nw_uuid w (nw_seq w + k)) x) (enumerate 0 xs),
             nw_seq := nw_seq w + length xs\<rparr>)
      else Inl (NoteQueryFailed ''notification column''))"

definition insert_preference :: "notification_preference \<Rightarrow> notification_preference note_unit" where
  "insert_preference r w =
     (if find_row (\<lambda>x. np_userId x = np_userId r) (nw_prefs w) \<noteq> None then Inl (NoteQueryFailed ''userId'')
      else let r' = r\<lparr>np_id := nw_uuid w (nw_seq w)\<rparr>
           in Inr (r', w\<lparr>nw_prefs := nw_prefs w @ [r'], nw_seq := Suc (nw_seq w)\<rparr>))"

definition save_preference :: "notification_preference \<Rightarrow> notification_preference note_unit" where
  "save_preference r w = Inr (r, w\<lparr>nw_prefs := save_row np_id r (nw_prefs w)\<rparr>)"

section \<open>Lists and settings\<close>

text \<open>A where clause with an undefined user matches every row.\<close>

definition listNotifications :: "string option \<Rightarrow> int \<Rightarrow> int \<Rightarrow> note_world \<Rightarrow> notification list" where
  "listNotifications userId limit offset w =
     take (nat (min (max limit 1) 100)) (drop (nat (max offset 0))
       (rev (sort_key nn_createdAt (filter (\<lambda>n. userId = None \<or> userId = Some (nn_userId n)) (nw_rows w)))))"

definition getNotificationSettings :: "note_env \<Rightarrow> string \<Rightarrow> notification_preference note_handler" where
  "getNotificationSettings env userId =
     bindH (note_await env) (\<lambda>_.
     bindH (readH (\<lambda>w. find_row (\<lambda>x. np_userId x = userId) (nw_prefs w))) (\<lambda>found.
       case found of
         Some r \<Rightarrow> returnH r
       | None \<Rightarrow> bindH (note_await env) (\<lambda>_.
           atomic (insert_preference \<lparr>np_id = [], np_userId = userId, np_appEnabled = True, np_emailEnabled = False, np_smsEnabled = False\<rparr>))))"

definition updateNotificationSettings ::
    "note_env \<Rightarrow> string \<Rightarrow> bool option \<Rightarrow> bool option \<Rightarrow> notification_preference note_handler" where
  "updateNotificationSettings env userId emailEnabled smsEnabled =
     bindH (getNotificationSettings env userId) (\<lambda>current.
     bindH (note_await env) (\<lambda>_.
     atomic (save_preference
       (let c = (case emailEnabled of Some b \<Rightarrow> current\<lparr>np_emailEnabled := b\<rparr> | None \<Rightarrow> current)
        in case smsEnabled of Some _ \<Rightarrow> c\<lparr>np_smsEnabled := False\<rparr> | None \<Rightarrow> c))))"

section \<open>Mail\<close>

definition cfg_text :: "note_env \<Rightarrow> string \<Rightarrow> string" where
  "cfg_text env k = js_trim (coalesce (ne_cfg env k) [])"

definition send_mail :: "note_env \<Rightarrow> mail \<Rightarrow> unit note_handler" where
  "send_mail env m w =
     (case ne_smtp env m of Inl e \<Rightarrow> (Inl (NoteError e), w) | Inr _ \<Rightarrow> (Inr (), w\<lparr>nw_mails := nw_mails w @ [m]\<rparr>))"

text \<open>\<open>Math.max(1, Math.ceil(Math.max(60, seconds) / 60))\<close>, where NaN stays NaN.\<close>

definition expire_minutes :: "js_number \<Rightarrow> js_number" where
  "expire_minutes v =
     (case v of JsNaN \<Rightarrow> JsNaN | JsInf True \<Rightarrow> JsInf True | JsInf False \<Rightarrow> js_of_int 1
      | JsNum r \<Rightarrow> js_of_int (max 1 \<lceil>max 60 r / 60\<rceil>))"

definition sendEmailOtp :: "note_env \<Rightarrow> string \<Rightarrow> string \<Rightarrow> js_number \<Rightarrow> string \<Rightarrow> unit note_handler" where
  "sendEmailOtp env recipientEmail0 otpCode0 expiresInSeconds purpose0 =
     (let recipientEmail = js_lower (js_trim recipientEmail0); otpCode = js_trim otpCode0;
          isSignUp = (js_lower (js_trim purpose0) = ''signup'');
          user = cfg_text env ''SMTP_USER''; pass = cfg_text env ''SMTP_PASS'';
          from = js_trim (coalesce (ne_cfg env ''SMTP_FROM'') user);
          subject = (if isSignUp then ''Kufi | Ma OTP xac thuc dang ky tai khoan'' else ''Kufi | Ma OTP xac thuc giao dich cua ban'');
          leadText = (if isSignUp then ''Ban vua yeu cau xac thuc dang ky tai khoan Kufi.'' else ''Ban vua thuc hien xac thuc giao dich tren Kufi.'');
          nl = [char_of (10::nat)]
      in if recipientEmail = [] \<or> otpCode = [] then throwH (NoteError ''recipientEmail and otpCode are required'')
         else if user = [] \<or> pass = [] \<or> from = []
         then throwH (NoteError ''SMTP is not configured for email OTP (missing SMTP_USER/SMTP_PASS/SMTP_FROM)'')
         else bindH (note_await env) (\<lambda>_. send_mail env
           \<lparr>ml_from = from, ml_to = recipientEmail, ml_subject = subject,
            ml_text = ''Xin chao,'' @ nl @ nl @ leadText @ nl @ ''Ma OTP cua ban la: '' @ otpCode @ nl @
              ''Ma co hieu luc trong '' @ number_text (expire_minutes expiresInSeconds) @ '' phut.'' @ nl @ nl @
              ''Neu ban khong thuc hien thao tac nay, vui long bo qua email.'' @ nl @ nl @ ''Kufi'',
            ml_attachments = []\<rparr>))"

section \<open>Reading an event\<close>

text \<open>\<open>`${x}`\<close>, \<open>`${x ?? ''}`\<close>, \<open>x == null\<close> and \<open>x ?? y\<close> of a property that may be absent.\<close>

definition tmpl :: "json option \<Rightarrow> string" where
  "tmpl v = (case v of None \<Rightarrow> ''undefined'' | Some j \<Rightarrow> js_string j)"

definition is_null :: "json option \<Rightarrow> bool" where
  "is_null v = (v = None \<or> v = Some JNull)"

definition tmpl_or_empty :: "json option \<Rightarrow> string" where
  "tmpl_or_empty v = (if is_null v then [] else tmpl v)"

definition or_nullish :: "json option \<Rightarrow> json option \<Rightarrow> json option" where
  "or_nullish a b = (if is_null a then b else a)"

definition opt_truthy :: "json option \<Rightarrow> bool" where
  "opt_truthy v = (case v of None \<Rightarrow> False | Some j \<Rightarrow> truthy j)"

text \<open>\<open>a === b\<close>: two objects that were parsed are never the same.\<close>

definition strict_eq :: "json option \<Rightarrow> json option \<Rightarrow> bool" where
  "strict_eq a b = (a = b \<and> (case a of Some j \<Rightarrow> \<not> is_object j | None \<Rightarrow> True))"

definition opt_Number :: "json option \<Rightarrow> js_number" where
  "opt_Number v = (case v of None \<Rightarrow> JsNaN | Some j \<Rightarrow> json_Number j)"

definition props_of :: "json \<Rightarrow> js_object" where
  "props_of v = (case v of JObject kvs \<Rightarrow> map (\<lambda>(k, x). (k, Some x)) kvs | _ \<Rightarrow> [])"

definition column_text :: "json option \<Rightarrow> string option" where
  "column_text v = (if is_null v then None else Some (tmpl v))"

text \<open>\<open>Number.parseFloat\<close>: the longest prefix that is a number.\<close>

definition signed_decimal :: "string \<Rightarrow> js_number option" where
  "signed_decimal s =
     (let neg = (case s of c # _ \<Rightarrow> c = CHR ''-'' | [] \<Rightarrow> False);
          u = (case s of c # r \<Rightarrow> if c = CHR ''-'' \<or> c = CHR ''+'' then r else s | [] \<Rightarrow> [])
      in if u = ''Infinity'' then Some (JsInf (\<not> neg))
         else map_option (\<lambda>r. to_double (if neg then - r else r)) (parse_unsigned u))"

definition js_parseFloat :: "string \<Rightarrow> js_number" where
  "js_parseFloat s =
     (let t = dropWhile js_ws s
      in case find_row (\<lambda>v. v \<noteq> None) (map (\<lambda>n. signed_decimal (take n t)) (rev [0..<Suc (length t)])) of
           Some (Some v) \<Rightarrow> v | _ \<Rightarrow> JsNaN)"

section \<open>Filling in what an event leaves out\<close>

definition uuid_pattern :: string where
  "uuid_pattern = ''hhhhhhhh-hhhh-vhhh-nhhh-hhhhhhhhhhhh''"

definition uuid_char :: "char \<Rightarrow> char \<Rightarrow> bool" where
  "uuid_char p c =
     (if p = CHR ''h'' then digit_value c < 16
      else if p = CHR ''v'' then c \<in> set ''12345''
      else if p = CHR ''n'' then lower_char c \<in> set ''89ab'' else c = p)"

definition is_uuid :: "string \<Rightarrow> bool" where
  "is_uuid s = list_all2 uuid_char uuid_pattern s"

definition needs_enrichment :: "js_object \<Rightarrow> bool" where
  "needs_enrichment o' =
     (let text = (\<lambda>k. js_trim (tmpl_or_empty (get_prop k o')))
      in text ''type'' = [] \<or> (\<forall>b. get_prop ''isExternal'' o' \<noteq> Some (JBool b)) \<or> text ''fromUserId'' = [] \<or> text ''toUserId'' = [] \<or>
         ((is_null (get_prop ''senderBalance'' o') \<or> is_null (get_prop ''receiverBalance'' o')) \<and> text ''currency'' \<noteq> []) \<or>
         text ''receiptJson'' = [] \<or> text ''chainTxId'' = [])"

definition or_json_null :: "string option \<Rightarrow> json" where
  "or_json_null v = (case v of None \<Rightarrow> JNull | Some s \<Rightarrow> JString s)"

text \<open>\<open>{ ...payload, type: payload?.type ?? tx.type, ... }\<close>.\<close>

definition merge_tx :: "transaction \<Rightarrow> js_object \<Rightarrow> js_object" where
  "merge_tx t o' =
     (let fill = (\<lambda>k v m. set_prop k (or_nullish (get_prop k o') (Some v)) m)
      in fill ''receiptJson'' (or_json_null (tx_receiptJson t)) (fill ''chainTxId'' (or_json_null (tx_chainTxId t))
           (fill ''chainStatus'' (JString (chain_text (tx_chainStatus t))) (fill ''amount'' (JNumber (js_of_int (tx_amount t)))
           (fill ''currency'' (JString (tx_currency t)) (fill ''toUserId'' (or_json_null (tx_toUserId t))
           (fill ''fromUserId'' (JString (tx_fromUserId t))
           (set_prop ''isExternal'' (case get_prop ''isExternal'' o' of Some (JBool b) \<Rightarrow> Some (JBool b) | _ \<Rightarrow> Some (JBool (tx_isExternal t)))
           (fill ''type'' (JString (type_text (tx_type t))) o')))))))))"

definition balance_rows :: "js_object \<Rightarrow> db \<Rightarrow> wallet list" where
  "balance_rows m d =
     (let ids = filter (\<lambda>u. u \<noteq> []) [tmpl_or_empty (get_prop ''fromUserId'' m), tmpl_or_empty (get_prop ''toUserId'' m)]
      in filter (\<lambda>x. w_currency x = js_upper (js_trim (tmpl (get_prop ''currency'' m))) \<and> w_userId x \<in> set ids) (d_wallets d))"

definition row_balance :: "wallet list \<Rightarrow> string \<Rightarrow> json option" where
  "row_balance rows u = map_option (\<lambda>x. JNumber (js_of_int (w_balance x))) (find_row (\<lambda>x. w_userId x = u) (rev rows))"

definition fill_balance :: "wallet list \<Rightarrow> string \<Rightarrow> string \<Rightarrow> js_object \<Rightarrow> js_object" where
  "fill_balance rows k userKey m =
     (if is_null (get_prop k m) \<and> opt_truthy (get_prop userKey m)
      then set_prop k (or_nullish (row_balance rows (tmpl (get_prop userKey m))) (get_prop k m)) m else m)"

definition enrichPayloadForEmail :: "note_env \<Rightarrow> js_object \<Rightarrow> js_object note_handler" where
  "enrichPayloadForEmail env payload =
     (let txId = js_trim (tmpl_or_empty (get_prop ''transactionId'' payload))
      in if txId = [] \<or> \<not> is_uuid txId \<or> \<not> needs_enrichment payload then returnH payload
         else bindH (note_await env) (\<lambda>_.
              bindH (readH (\<lambda>w. find_row (\<lambda>t. tx_id t = txId) (d_txs (nw_tx w)))) (\<lambda>found.
              case found of
                None \<Rightarrow> returnH payload
              | Some t \<Rightarrow>
                  let merged = merge_tx t payload
                  in if opt_truthy (get_prop ''currency'' merged) \<and>
                        (is_null (get_prop ''senderBalance'' merged) \<or> is_null (get_prop ''receiverBalance'' merged))
                     then bindH (note_await env) (\<lambda>_.
                          bindH (readH (\<lambda>w. balance_rows merged (nw_tx w))) (\<lambda>rows.
                          returnH (fill_balance rows ''receiverBalance'' ''toUserId''
                            (fill_balance rows ''senderBalance'' ''fromUserId'' merged))))
                     else returnH merged)))"

definition isInternalTransferCompleted :: "js_object \<Rightarrow> bool" where
  "isInternalTransferCompleted p =
     (get_prop ''eventType'' p = Some (JString ''transaction.completed'') \<and>
      js_upper (tmpl_or_empty (get_prop ''type'' p)) = ''TRANSFER'' \<and> get_prop ''isExternal'' p \<noteq> Some (JBool True) \<and>
      js_trim (tmpl_or_empty (get_prop ''fromUserId'' p)) \<noteq> [] \<and> js_trim (tmpl_or_empty (get_prop ''toUserId'' p)) \<noteq> [] \<and>
      tmpl_or_empty (get_prop ''fromUserId'' p) \<noteq> tmpl_or_empty (get_prop ''toUserId'' p))"

section \<open>The receipt as an attachment\<close>

text \<open>\<open>JSON.stringify(x, null, 2)\<close>.\<close>

definition indent_line :: "nat \<Rightarrow> string" where
  "indent_line n = char_of (10::nat) # replicate (2 * n) (CHR '' '')"

fun json_pretty :: "nat \<Rightarrow> json \<Rightarrow> string"
  and json_pretties :: "nat \<Rightarrow> json list \<Rightarrow> string list"
  and json_pretty_fields :: "nat \<Rightarrow> (string \<times> json) list \<Rightarrow> string list"
where
  "json_pretty n (JArray vs) =
     (if vs = [] then ''[]'' else ''['' @ js_join '','' (json_pretties (Suc n) vs) @ indent_line n @ '']'')"
| "json_pretty n (JObject kvs) =
     (if kvs = [] then ''{}'' else ''{'' @ js_join '','' (json_pretty_fields (Suc n) kvs) @ indent_line n @ ''}'')"
| "json_pretty n JNull = ''null''"
| "json_pretty n (JBool b) = json_text (JBool b)"
| "json_pretty n (JNumber v) = json_text (JNumber v)"
| "json_pretty n (JString s) = quote_string s"
| "json_pretties n [] = []"
| "json_pretties n (v # vs) = (indent_line n @ json_pretty n v) # json_pretties n vs"
| "json_pretty_fields n [] = []"
| "json_pretty_fields n (kv # kvs) = (indent_line n @ quote_string (fst kv) @ '': '' @ json_pretty n (snd kv)) # json_pretty_fields n kvs"

definition safe_receipt_char :: "char \<Rightarrow> char" where
  "safe_receipt_char c = (if alnum c \<or> c = CHR ''_'' \<or> c = CHR ''-'' then c else CHR ''_'')"

definition buildReceiptAttachment :: "note_env \<Rightarrow> js_object \<Rightarrow> (string \<times> string \<times> string) option" where
  "buildReceiptAttachment env p =
     (let text = (\<lambda>k. js_trim (tmpl_or_empty (get_prop k p)));
          transactionId = text ''transactionId''; chainTxId = text ''chainTxId'';
          parsedReceipt = (case json_parse (text ''receiptJson'') of Some (JObject kvs) \<Rightarrow> Some (JObject kvs) | _ \<Rightarrow> None);
          receiptId = (if chainTxId = [] then transactionId else chainTxId);
          fallbackReceipt = JObject [(''tx_id'', JString chainTxId), (''chain_status'', JString (text ''chainStatus'')),
            (''transaction_status'', JString (text ''status'')), (''settlement_status'', JString (text ''settlementStatus''))];
          exportPayload = JObject [(''exported_at'', JString (toISOString (ne_now env))), (''receipt_id'', JString receiptId),
            (''transaction_id'', JString transactionId),
            (''security_notice'', JArray [JString ''Secured by Kufi and timestamped by FreeTSA'', JString ''Any modification will be detected'']),
            (''receipt'', coalesce parsedReceipt fallbackReceipt)]
      in if transactionId = [] then None
         else Some (''receipt_'' @ map safe_receipt_char receiptId @ ''.json'', json_pretty 0 exportPayload,
                    ''application/json; charset=utf-8''))"

section \<open>Mails about balances\<close>

definition fetchUserProfile :: "note_env \<Rightarrow> string \<Rightarrow> (string \<times> string) option" where
  "fetchUserProfile env userId =
     (let base = rev (dropWhile (\<lambda>c. c = CHR ''/'') (rev (js_trim
            (case ne_cfg env ''AUTH_HTTP_URL'' of Some u \<Rightarrow> u
             | None \<Rightarrow> coalesce (ne_cfg env ''AUTH_INTERNAL_BASE_URL'') ''http://auth-service:3001''))))
      in case ne_profile env (base @ ''/internal/auth/profile/'' @ encodeURIComponent userId) of
           Some (st, Some body) \<Rightarrow>
             if 200 \<le> st \<and> st \<le> 299 \<and> body \<noteq> JNull
             then Some (tmpl_or_empty (json_prop ''email'' body), tmpl_or_empty (json_prop ''displayName'' body)) else None
         | _ \<Rightarrow> None)"

record balance_mail =
  bm_amount :: js_number
  bm_balanceAfter :: js_number
  bm_currency :: string
  bm_signedAmountText :: string
  bm_balanceAfterText :: string

definition abs_number :: "js_number \<Rightarrow> js_number" where
  "abs_number v = (case v of JsNum r \<Rightarrow> JsNum \<bar>r\<bar> | JsInf _ \<Rightarrow> JsInf True | JsNaN \<Rightarrow> JsNaN)"

definition balance_mail_of :: "note_env \<Rightarrow> js_object \<Rightarrow> bool \<Rightarrow> balance_mail" where
  "balance_mail_of env p sender =
     (let amount = (if is_null (get_prop ''amount'' p) then js_of_int 0 else opt_Number (get_prop ''amount'' p));
          currency = or_str (Some (js_upper (js_trim (if is_null (get_prop ''currency'' p) then ''VND'' else tmpl (get_prop ''currency'' p))))) ''VND'';
          raw = get_prop (if sender then ''senderBalance'' else ''receiverBalance'') p;
          balanceAfter = (case raw of Some (JNumber v) \<Rightarrow> v | _ \<Rightarrow> js_parseFloat (tmpl_or_empty raw));
          absoluteAmount = (if js_isFinite amount then abs_number amount else js_parseFloat (tmpl_or_empty (get_prop ''amount'' p)));
          amountText = (if js_isFinite absoluteAmount then ne_locale env absoluteAmount else tmpl_or_empty (get_prop ''amount'' p))
      in \<lparr>bm_amount = amount, bm_balanceAfter = balanceAfter, bm_currency = currency,
          bm_signedAmountText = (if sender then ''-'' else ''+'') @ amountText,
          bm_balanceAfterText = (if js_isFinite balanceAfter then ne_locale env balanceAfter @ '' '' @ currency else [])\<rparr>)"

definition balance_subject :: "bool \<Rightarrow> string" where
  "balance_subject sender = (if sender then ''Kufi | Chuyen tien thanh cong'' else ''Kufi | Nhan tien thanh cong'')"

definition action_label :: "bool \<Rightarrow> string" where
  "action_label sender = (if sender then ''chuyen tien'' else ''nhan tien'')"

definition balance_text :: "string \<Rightarrow> string \<Rightarrow> bool \<Rightarrow> balance_mail \<Rightarrow> string" where
  "balance_text displayName txId sender b =
     (let nl = [char_of (10::nat)]
      in ''Xin chao '' @ displayName @ '','' @ nl @ nl @
         ''Ban vua '' @ action_label sender @ '' thanh cong '' @ bm_signedAmountText b @ '' '' @ bm_currency b @ ''.'' @ nl @
         (if bm_balanceAfterText b = [] then [] else ''So du hien tai: '' @ bm_balanceAfterText b @ ''.'' @ nl) @
         (if txId = [] then [] else ''Ma giao dich: '' @ txId @ nl) @ nl @ ''Kufi'')"

definition balance_draft :: "string \<Rightarrow> string \<Rightarrow> string \<Rightarrow> bool \<Rightarrow> balance_mail \<Rightarrow> draft" where
  "balance_draft userId txId recipientEmail sender b =
     (Some userId, CHANNEL_EMAIL, balance_subject sender,
      ''Ban vua '' @ action_label sender @ '' thanh cong '' @ bm_signedAmountText b @ '' '' @ bm_currency b @ ''.'' @
        (if bm_balanceAfterText b = [] then [] else '' So du hien tai: '' @ bm_balanceAfterText b @ ''.''),
      json_text (JObject [(''transactionId'', JString txId), (''currency'', JString (bm_currency b)), (''amount'', JNumber (bm_amount b)),
        (''balanceAfter'', if js_isFinite (bm_balanceAfter b) then JNumber (bm_balanceAfter b) else JNull), (''email'', JString recipientEmail)]))"

text \<open>The transport is created, and may fail for want of a user, before the sender is looked up.\<close>

definition smtp_ready :: "note_env \<Rightarrow> note_error + string" where
  "smtp_ready env =
     (let from = js_trim (case ne_cfg env ''SMTP_FROM'' of Some f \<Rightarrow> f | None \<Rightarrow> coalesce (ne_cfg env ''SMTP_USER'') [])
      in if cfg_text env ''SMTP_USER'' = [] \<or> cfg_text env ''SMTP_PASS'' = [] then Inl (NoteError ''SMTP_USER and SMTP_PASS are required'')
         else if from = [] then Inl (NoteError ''SMTP_FROM or SMTP_USER is required for sending balance email'') else Inr from)"

definition mail_balance :: "note_env \<Rightarrow> js_object \<Rightarrow> bool \<Rightarrow> string \<Rightarrow> unit note_handler" where
  "mail_balance env p sender userId =
     bindH (getNotificationSettings env userId) (\<lambda>settings.
       if \<not> np_emailEnabled settings then returnH ()
       else bindH (note_await env) (\<lambda>_.
         let profile = fetchUserProfile env userId;
             email = js_trim (case profile of Some (e, _) \<Rightarrow> e | None \<Rightarrow> []);
             displayName = or_str (Some (js_trim (case profile of Some (_, n) \<Rightarrow> n | None \<Rightarrow> []))) (or_str (Some email) ''Khach hang'');
             txId = js_trim (tmpl_or_empty (get_prop ''transactionId'' p));
             b = balance_mail_of env p sender
         in if js_lower email = [] then returnH ()
            else bindH (liftE (smtp_ready env)) (\<lambda>from.
                 bindH (send_mail env \<lparr>ml_from = from, ml_to = js_lower email, ml_subject = balance_subject sender,
                          ml_text = balance_text displayName txId sender b,
                          ml_attachments = (case buildReceiptAttachment env p of None \<Rightarrow> [] | Some a \<Rightarrow> [a])\<rparr>) (\<lambda>_.
                 bindH (note_await env) (\<lambda>_.
                 atomic (insert_notifications env [balance_draft userId txId (js_lower email) sender b]))))))"

text \<open>Every error is caught and logged. The ?? of the source binds to the receiver only.\<close>

definition sendBalanceChangeEmailIfEnabled :: "note_env \<Rightarrow> js_object \<Rightarrow> bool \<Rightarrow> unit note_handler" where
  "sendBalanceChangeEmailIfEnabled env p sender w =
     (let userId = js_trim (if sender then tmpl (get_prop ''fromUserId'' p) else tmpl_or_empty (get_prop ''toUserId'' p))
      in if userId = [] \<or> (\<not> sender \<and> tmpl_or_empty (get_prop ''fromUserId'' p) = userId) then (Inr (), w)
         else (Inr (), snd (mail_balance env p sender userId w)))"

section \<open>Events\<close>

definition receipt_draft :: "json \<Rightarrow> json option \<Rightarrow> draft" where
  "receipt_draft payload user =
     (let txId = tmpl (get_prop ''transactionId'' (props_of payload))
      in (column_text user, CHANNEL_APP, ''Hoa don dien tu da san sang cho giao dich '' @ txId,
          ''Giao dich '' @ txId @ '' da duoc xac nhan on-chain'', json_text payload))"

definition receipt_drafts :: "json \<Rightarrow> draft list" where
  "receipt_drafts payload =
     (let from = get_prop ''fromUserId'' (props_of payload); to = get_prop ''toUserId'' (props_of payload)
      in receipt_draft payload from # (if opt_truthy to \<and> \<not> strict_eq to from then [receipt_draft payload to] else []))"

definition amount_text :: "note_env \<Rightarrow> js_object \<Rightarrow> string" where
  "amount_text env p = ne_locale env (opt_Number (get_prop ''amount'' p)) @ '' '' @ tmpl (get_prop ''currency'' p)"

definition event_drafts :: "note_env \<Rightarrow> json \<Rightarrow> draft list" where
  "event_drafts env payload =
     (let p = props_of payload; ev = get_prop ''eventType'' p; from = get_prop ''fromUserId'' p; to = get_prop ''toUserId'' p;
          failed = (ev = Some (JString ''transaction.failed''))
      in (column_text from, CHANNEL_APP, if failed then ''Giao dich that bai'' else ''Giao dich thanh cong'',
          if failed then ''Giao dich '' @ tmpl (get_prop ''transactionId'' p) @ '' that bai'' else ''Ban da chuyen '' @ amount_text env p,
          json_text payload) #
         (if ev = Some (JString ''transaction.completed'') \<and> opt_truthy to \<and> \<not> strict_eq to from
          then [(column_text to, CHANNEL_APP, ''Nhan tien thanh cong'', ''Ban vua nhan '' @ amount_text env p, json_text payload)] else []))"

definition handleTransactionEvent :: "note_env \<Rightarrow> json \<Rightarrow> unit note_handler" where
  "handleTransactionEvent env payload =
     (if payload = JNull then throwH NoteTypeError
      else if get_prop ''eventType'' (props_of payload) = Some (JString ''transaction.chain.completed'')
      then atomic (insert_notifications env (receipt_drafts payload))
      else bindH (atomic (insert_notifications env (event_drafts env payload))) (\<lambda>_.
           bindH (enrichPayloadForEmail env (props_of payload)) (\<lambda>enriched.
             if isInternalTransferCompleted enriched
             then bindH (sendBalanceChangeEmailIfEnabled env enriched True) (\<lambda>_. sendBalanceChangeEmailIfEnabled env enriched False)
             else returnH ())))"

text \<open>A message without a value is skipped; one that is not JSON fails.\<close>

definition eachMessage :: "note_env \<Rightarrow> string option \<Rightarrow> unit note_handler" where
  "eachMessage env value =
     (case value of
        None \<Rightarrow> returnH ()
      | Some text \<Rightarrow>
          (case json_parse text of None \<Rightarrow> throwH (NoteError ''SyntaxError'') | Some payload \<Rightarrow> handleTransactionEvent env payload))"

section \<open>The gRPC face\<close>

datatype note_rpc_error = NoteRpc int string | NoteUncaught

record notification_item =
  ni_id :: string
  ni_userId :: string
  ni_channel :: string
  ni_title :: string
  ni_content :: string
  ni_payloadJson :: string
  ni_createdAt :: string
  ni_readAt :: string

definition channel_text :: "notification_channel \<Rightarrow> string" where
  "channel_text c = (case c of CHANNEL_APP \<Rightarrow> ''APP'' | CHANNEL_EMAIL \<Rightarrow> ''EMAIL'' | CHANNEL_SMS \<Rightarrow> ''SMS'')"

definition notification_item_of :: "notification \<Rightarrow> notification_item" where
  "notification_item_of n =
     \<lparr>ni_id = nn_id n, ni_userId = nn_userId n, ni_channel = channel_text (nn_channel n), ni_title = nn_title n,
      ni_content = nn_content n, ni_payloadJson = coalesce (nn_payloadJson n) [], ni_createdAt = toISOString (nn_createdAt n),
      ni_readAt = (case nn_readAt n of None \<Rightarrow> [] | Some t \<Rightarrow> toISOString t)\<rparr>"

definition rpc_listNotifications :: "string option \<Rightarrow> int option \<Rightarrow> int option \<Rightarrow> (note_world, note_rpc_error, notification_item list) handler" where
  "rpc_listNotifications userId limit offset =
     readH (\<lambda>w. map notification_item_of (listNotifications userId (coalesce limit 20) (coalesce offset 0) w))"

definition rpc_getNotificationSettings :: "note_env \<Rightarrow> string option \<Rightarrow> (note_world, note_rpc_error, notification_preference) handler" where
  "rpc_getNotificationSettings env userId w =
     (if or_str userId [] = [] then (Inl (NoteRpc 3 ''userId is required''), w)
      else (case getNotificationSettings env (or_str userId []) w of (Inl e, w') \<Rightarrow> (Inl NoteUncaught, w') | (Inr x, w') \<Rightarrow> (Inr x, w')))"

definition rpc_updateNotificationSettings ::
    "note_env \<Rightarrow> string option \<Rightarrow> bool \<Rightarrow> bool \<Rightarrow> bool \<Rightarrow> bool \<Rightarrow> (note_world, note_rpc_error, notification_preference) handler" where
  "rpc_updateNotificationSettings env userId hasEmailEnabled emailEnabled hasSmsEnabled smsEnabled w =
     (if or_str userId [] = [] then (Inl (NoteRpc 3 ''userId is required''), w)
      else (case updateNotificationSettings env (or_str userId []) (if hasEmailEnabled then Some emailEnabled else None)
                   (if hasSmsEnabled then Some smsEnabled else None) w of
              (Inl e, w') \<Rightarrow> (Inl NoteUncaught, w') | (Inr x, w') \<Rightarrow> (Inr x, w')))"

definition note_message :: "note_error \<Rightarrow> string" where
  "note_message e = (case e of NoteError m \<Rightarrow> m | NoteQueryFailed m \<Rightarrow> m | NoteTypeError \<Rightarrow> ''TypeError'')"

definition rpc_sendEmailOtp ::
    "note_env \<Rightarrow> string option \<Rightarrow> string option \<Rightarrow> js_number option \<Rightarrow> string option \<Rightarrow> (note_world, note_rpc_error, unit) handler" where
  "rpc_sendEmailOtp env recipientEmail otpCode expiresInSeconds purpose w =
     (let r = js_trim (coalesce recipientEmail []); c = js_trim (coalesce otpCode [])
      in if r = [] \<or> c = [] then (Inl (NoteRpc 3 ''recipientEmail and otpCode are required''), w)
         else (case sendEmailOtp env r c (coalesce expiresInSeconds (js_of_int 180)) (js_trim (coalesce purpose [])) w of
                 (Inl e, w') \<Rightarrow> (Inl (NoteRpc 13 (note_message e)), w') | (Inr x, w') \<Rightarrow> (Inr x, w')))"


section \<open>The payload that the transaction service publishes\<close>

text \<open>\<open>JSON.stringify\<close> of the payload of an event, parsed again: what is undefined is left out.\<close>

definition event_object :: "event_payload \<Rightarrow> js_object" where
  "event_object e =
     (let text = (\<lambda>v. case v of None \<Rightarrow> Some JNull | Some s \<Rightarrow> Some (JString s));
          number = (\<lambda>v. case v of None \<Rightarrow> Some JNull | Some n \<Rightarrow> Some (JNumber (js_of_int n)));
          full = (ep_type e \<noteq> None)
      in [(''eventType'', Some (JString (ep_eventType e))), (''transactionId'', Some (JString (ep_transactionId e))),
          (''status'', Some (JString (status_text (ep_status e)))), (''type'', map_option (\<lambda>t. JString (type_text t)) (ep_type e)),
          (''isExternal'', map_option JBool (ep_isExternal e)),
          (''settlementStatus'', map_option (\<lambda>t. JString (settlement_text t)) (ep_settlementStatus e)),
          (''chainStatus'', map_option (\<lambda>t. JString (chain_text t)) (ep_chainStatus e)),
          (''requestingUserId'', Some (JString (ep_requestingUserId e))), (''fromUserId'', Some (JString (ep_fromUserId e))),
          (''toUserId'', text (ep_toUserId e)), (''amount'', Some (JNumber (js_of_int (ep_amount e)))),
          (''currency'', Some (JString (ep_currency e))), (''memo'', text (ep_memo e)),
          (''senderBalance'', if full then number (ep_senderBalance e) else None),
          (''receiverBalance'', if full then number (ep_receiverBalance e) else None),
          (''createdAt'', Some (JString (toISOString (ep_createdAt e)))), (''receiptJson'', text (ep_receiptJson e))])"

definition event_json :: "event_payload \<Rightarrow> json" where
  "event_json e = JObject (defined_props (event_object e))"

section \<open>Text messages are never switched on\<close>

definition no_sms :: "note_world \<Rightarrow> bool" where
  "no_sms w = (\<forall>p\<in>set (nw_prefs w). \<not> np_smsEnabled p)"

definition fair_notes :: "note_env \<Rightarrow> bool" where
  "fair_notes env = (\<forall>w. no_sms w \<longrightarrow> no_sms (ne_others env w))"

inductive note_step :: "note_world \<Rightarrow> note_world \<Rightarrow> bool" where
  settings: "fair_notes env \<Longrightarrow> note_step w (snd (rpc_getNotificationSettings env u w))"
| update: "fair_notes env \<Longrightarrow> note_step w (snd (rpc_updateNotificationSettings env u he e hs s w))"
| code: "fair_notes env \<Longrightarrow> note_step w (snd (rpc_sendEmailOtp env r c x p w))"
| event: "fair_notes env \<Longrightarrow> note_step w (snd (eachMessage env v w))"

lemma no_sms_await: "fair_notes env \<Longrightarrow> triple no_sms (note_await env) (\<lambda>_. no_sms) no_sms"
  unfolding note_await_def by (rule triple_interfere) (simp add: fair_notes_def)

lemma no_sms_insert:
  "\<not> np_smsEnabled r \<Longrightarrow> triple no_sms (atomic (insert_preference r)) (\<lambda>x w. no_sms w \<and> \<not> np_smsEnabled x) no_sms"
  by (rule triple_atomic) (auto simp add: insert_preference_def no_sms_def Let_def split: if_splits)

lemma no_sms_settings:
  assumes "fair_notes env"
  shows "triple no_sms (getNotificationSettings env u) (\<lambda>x w. no_sms w \<and> \<not> np_smsEnabled x) no_sms"
  unfolding getNotificationSettings_def
proof (rule triple_bindH [OF no_sms_await [OF assms]], rule triple_bindH)
  show "triple no_sms (readH (\<lambda>w. find_row (\<lambda>x. np_userId x = u) (nw_prefs w)))
      (\<lambda>found w. no_sms w \<and> (\<forall>r. found = Some r \<longrightarrow> \<not> np_smsEnabled r)) no_sms"
    by (rule triple_readH) (auto simp add: no_sms_def dest: find_row_SomeD)
  show "triple (\<lambda>w. no_sms w \<and> (\<forall>r. found = Some r \<longrightarrow> \<not> np_smsEnabled r))
      (case found of None \<Rightarrow> bindH (note_await env) (\<lambda>_. atomic (insert_preference
          \<lparr>np_id = [], np_userId = u, np_appEnabled = True, np_emailEnabled = False, np_smsEnabled = False\<rparr>))
       | Some r \<Rightarrow> returnH r) (\<lambda>x w. no_sms w \<and> \<not> np_smsEnabled x) no_sms" for found
    using triple_bindH [OF no_sms_await [OF assms] no_sms_insert [of
        "\<lparr>np_id = [], np_userId = u, np_appEnabled = True, np_emailEnabled = False, np_smsEnabled = False\<rparr>"]]
    by (cases found) (auto simp add: triple_def returnH_def)
qed

lemma no_sms_update:
  assumes "fair_notes env"
  shows "triple no_sms (updateNotificationSettings env u e s) (\<lambda>_. no_sms) no_sms"
  unfolding updateNotificationSettings_def
  by (rule triple_bindH [OF no_sms_settings [OF assms]], rule triple_pure, rule triple_bindH [OF no_sms_await [OF assms]],
      rule triple_atomic)
    (auto simp add: save_preference_def no_sms_def Let_def dest!: set_save_rowD split: option.splits)

lemma no_sms_rows: "triple no_sms (atomic (insert_notifications env xs)) (\<lambda>_. no_sms) no_sms"
  by (rule triple_atomic) (auto simp add: insert_notifications_def no_sms_def split: if_splits)

lemma no_sms_send: "triple no_sms (send_mail env m) (\<lambda>_. no_sms) no_sms"
  by (simp add: triple_def send_mail_def no_sms_def split: sum.split)

lemma no_sms_still:
  "triple no_sms (liftE r) (\<lambda>_. no_sms) no_sms" "triple no_sms (returnH x) (\<lambda>_. no_sms) no_sms"
  "triple no_sms (throwH e) (\<lambda>_. no_sms) no_sms" "triple no_sms (readH f) (\<lambda>_. no_sms) no_sms"
  by (simp_all add: triple_def liftE_def returnH_def throwH_def readH_def split: sum.split)

lemma no_sms_bind:
  "triple no_sms m (\<lambda>_. no_sms) no_sms \<Longrightarrow> (\<And>x. triple no_sms (f x) (\<lambda>_. no_sms) no_sms) \<Longrightarrow>
   triple no_sms (bindH m f) (\<lambda>_. no_sms) no_sms"
  by (rule triple_bindH)

lemmas no_sms_rules = no_sms_bind triple_if triple_option no_sms_await no_sms_send no_sms_rows no_sms_still

lemma no_sms_snd: "triple no_sms m (\<lambda>_. no_sms) no_sms \<Longrightarrow> no_sms w \<Longrightarrow> no_sms (snd (m w))"
  using tripleD [of no_sms m "\<lambda>_. no_sms" no_sms w "fst (m w)" "snd (m w)"] by (auto split: sum.splits)

lemma no_sms_mail_balance:
  assumes "fair_notes env"
  shows "triple no_sms (mail_balance env p sender u) (\<lambda>_. no_sms) no_sms"
  unfolding mail_balance_def Let_def
  by (rule triple_bindH [OF no_sms_settings [OF assms]], rule triple_pure) (intro no_sms_rules assms)

lemma no_sms_balance_mail:
  "fair_notes env \<Longrightarrow> triple no_sms (sendBalanceChangeEmailIfEnabled env p sender) (\<lambda>_. no_sms) no_sms"
  using no_sms_snd [OF no_sms_mail_balance] by (simp add: triple_def sendBalanceChangeEmailIfEnabled_def Let_def)

lemma no_sms_event:
  assumes "fair_notes env"
  shows "triple no_sms (eachMessage env v) (\<lambda>_. no_sms) no_sms"
  unfolding eachMessage_def handleTransactionEvent_def enrichPayloadForEmail_def Let_def
  by (intro no_sms_rules no_sms_balance_mail assms)

lemma no_sms_code:
  assumes "fair_notes env"
  shows "triple no_sms (sendEmailOtp env r c x p) (\<lambda>_. no_sms) no_sms"
  unfolding sendEmailOtp_def Let_def by (intro no_sms_rules assms)

lemma note_rpc_state:
  "snd (rpc_getNotificationSettings env u w) = (if or_str u [] = [] then w else snd (getNotificationSettings env (or_str u []) w))"
  "snd (rpc_updateNotificationSettings env u he e hs s w) =
     (if or_str u [] = [] then w else snd (updateNotificationSettings env (or_str u []) (if he then Some e else None) (if hs then Some s else None) w))"
  "snd (rpc_sendEmailOtp env' r c x p w) = w \<or> (\<exists>r' c' x' p'. snd (rpc_sendEmailOtp env' r c x p w) = snd (sendEmailOtp env' r' c' x' p' w))"
  by (auto simp add: rpc_getNotificationSettings_def rpc_updateNotificationSettings_def rpc_sendEmailOtp_def Let_def
      split: prod.split sum.split) (metis snd_conv)+

lemma note_step_no_sms: "note_step w w' \<Longrightarrow> no_sms w \<Longrightarrow> no_sms w'"
proof (induction rule: note_step.induct)
  case (settings env w u)
  have "triple no_sms (getNotificationSettings env x) (\<lambda>_. no_sms) no_sms" for x
    by (rule triple_conseq [OF no_sms_settings [OF settings(1)]]) auto
  then have "no_sms (snd (getNotificationSettings env x w))" for x by (rule no_sms_snd) (rule settings(2))
  then show ?case using settings(2) by (simp add: note_rpc_state)
next
  case (update env w u he e hs s)
  then show ?case using no_sms_snd [OF no_sms_update] by (simp add: note_rpc_state)
next
  case (code env w r c x p)
  then show ?case using no_sms_snd [OF no_sms_code] note_rpc_state(3) by metis
next
  case (event env w v)
  then show ?case using no_sms_snd [OF no_sms_event] by blast
qed

interpretation notices: invariant_system "\<lambda>w. nw_prefs w = []" note_step no_sms
  by unfold_locales (auto simp add: no_sms_def [of "_ :: note_world"] dest: note_step_no_sms)

text \<open>
  Text messages are never switched on: from an empty table of preferences, whatever requests and
  events follow and overlap, no user has the channel enabled, also one who asked for it.
\<close>

theorem sms_never_enabled:
  assumes "reach (\<lambda>w. nw_prefs w = []) note_step w" and "p \<in> set (nw_prefs w)"
  shows "\<not> np_smsEnabled p"
  using notices.reach_inv [OF assms(1)] assms(2) by (simp add: no_sms_def)

section \<open>What an event leaves behind\<close>

text \<open>A request that is not interrupted.\<close>

definition alone_notes :: "note_env \<Rightarrow> bool" where
  "alone_notes env = (ne_others env = (\<lambda>w. w))"

definition app_rows :: "note_world \<Rightarrow> (string \<times> string \<times> string) list" where
  "app_rows w = map (\<lambda>n. (nn_userId n, nn_title n, nn_content n)) (filter (\<lambda>n. nn_channel n = CHANNEL_APP) (nw_rows w))"

definition draft_view :: "draft \<Rightarrow> string \<times> string \<times> string" where
  "draft_view x = (case x of (u, ch, title, content, p) \<Rightarrow> (coalesce u [], title, content))"

definition drafts_of :: "note_env \<Rightarrow> json \<Rightarrow> draft list" where
  "drafts_of env payload =
     (if get_prop ''eventType'' (props_of payload) = Some (JString ''transaction.chain.completed'')
      then receipt_drafts payload else event_drafts env payload)"

lemma await_alone: "alone_notes env \<Longrightarrow> bindH (note_await env) f w = f () w"
  by (simp add: alone_notes_def note_await_def bindH_def interfere_def)

lemma bind_read: "bindH (readH f) g w = g (f w) w"
  by (simp add: bindH_def readH_def)

lemma drafts_app: "x \<in> set (drafts_of env payload) \<Longrightarrow> fst (snd x) = CHANNEL_APP"
  by (auto simp add: drafts_of_def receipt_drafts_def receipt_draft_def event_drafts_def Let_def split: if_splits)

lemma app_rows_insert:
  assumes "insert_notifications env xs w = Inr (u, w')" and "\<And>x. x \<in> set xs \<Longrightarrow> fst (snd x) = CHANNEL_APP"
  shows "app_rows w' = app_rows w @ map draft_view xs"
proof -
  have "app_rows w' = app_rows w @ map (\<lambda>n. (nn_userId n, nn_title n, nn_content n)) (filter (\<lambda>n. nn_channel n = CHANNEL_APP)
      (map (\<lambda>(k, x). row_of_draft env (nw_uuid w (nw_seq w + k)) x) (enumerate 0 xs)))"
    using assms(1) by (auto simp add: insert_notifications_def app_rows_def split: if_splits)
  moreover have "map (\<lambda>n. (nn_userId n, nn_title n, nn_content n)) (filter (\<lambda>n. nn_channel n = CHANNEL_APP)
      (map (\<lambda>(k, x). row_of_draft env (nw_uuid w (nw_seq w + k)) x) (enumerate i xs))) = map draft_view xs" for i
  proof -
    have "\<forall>x\<in>set xs. fst (snd x) = CHANNEL_APP" using assms(2) by blast
    then show ?thesis by (induction xs arbitrary: i) (auto simp add: row_of_draft_def draft_view_def)
  qed
  ultimately show ?thesis by simp
qed

lemma app_rows_quiet:
  assumes "alone_notes env"
  shows "app_rows (snd (sendBalanceChangeEmailIfEnabled env p sender w)) = app_rows w"
    and "snd (enrichPayloadForEmail env q w) = w" and "\<exists>x. fst (enrichPayloadForEmail env q w) = Inr x"
proof -
  have settings: "nw_rows (snd (getNotificationSettings env u w)) = nw_rows w" for u
    by (auto simp add: getNotificationSettings_def await_alone [OF assms] bind_read returnH_def atomic_def insert_preference_def Let_def
        split: option.split sum.split if_splits)
  have mail: "nw_rows (snd (send_mail env m w)) = nw_rows w" for m w by (simp add: send_mail_def split: sum.split)
  have email: "app_rows (snd (atomic (insert_notifications env [balance_draft u t e s b]) w)) = app_rows w" for u t e s b w
    by (auto simp add: atomic_def insert_notifications_def app_rows_def balance_draft_def row_of_draft_def split: sum.splits if_splits)
  have rows: "app_rows w = app_rows v" if "nw_rows w = nw_rows v" for w v using that by (simp add: app_rows_def)
  have "app_rows (snd (mail_balance env p sender u w)) = app_rows w" for u
  proof (cases "getNotificationSettings env u w")
    case (Pair r v)
    then have v: "app_rows v = app_rows w" using settings [of u] rows by (metis snd_conv)
    show ?thesis using v rows [OF mail] email
      by (auto simp add: mail_balance_def bindH_def Pair await_alone [OF assms, unfolded bindH_def] returnH_def liftE_def Let_def
          note_await_def interfere_def assms [unfolded alone_notes_def] split: sum.splits prod.splits) (metis snd_conv)+
  qed
  then show "app_rows (snd (sendBalanceChangeEmailIfEnabled env p sender w)) = app_rows w"
    by (simp add: sendBalanceChangeEmailIfEnabled_def Let_def)
  show "snd (enrichPayloadForEmail env q w) = w" "\<exists>x. fst (enrichPayloadForEmail env q w) = Inr x"
    by (auto simp add: enrichPayloadForEmail_def Let_def await_alone [OF assms] bind_read returnH_def split: option.split)
qed

lemma bind_total: "fst (m w) = Inr x \<Longrightarrow> bindH m f w = f x (snd (m w))"
  by (cases "m w") (simp add: bindH_def)

lemma atomic_insert:
  "atomic (insert_notifications env xs) w =
   (if list_all draft_ok xs then (Inr (), snd (projr (insert_notifications env xs w))) else (Inl (NoteQueryFailed ''notification column''), w))"
  by (simp add: atomic_def insert_notifications_def)

lemma event_rows:
  assumes "alone_notes env" and "payload \<noteq> JNull"
  shows "if list_all draft_ok (drafts_of env payload)
    then fst (handleTransactionEvent env payload w) = Inr () \<and>
      app_rows (snd (handleTransactionEvent env payload w)) = app_rows w @ map draft_view (drafts_of env payload)
    else fst (handleTransactionEvent env payload w) = Inl (NoteQueryFailed ''notification column'') \<and>
      app_rows (snd (handleTransactionEvent env payload w)) = app_rows w"
proof (cases "list_all draft_ok (drafts_of env payload)")
  case False
  then show ?thesis using assms(2)
    by (auto simp add: handleTransactionEvent_def drafts_of_def atomic_insert bindH_def split: if_splits)
next
  case True
  define w1 where "w1 = snd (projr (insert_notifications env (drafts_of env payload) w))"
  have "insert_notifications env (drafts_of env payload) w = Inr ((), w1)"
    using True by (simp add: w1_def insert_notifications_def)
  then have rows: "app_rows w1 = app_rows w @ map draft_view (drafts_of env payload)"
    using app_rows_insert drafts_app by blast
  have run: "handleTransactionEvent env payload w =
      (if get_prop ''eventType'' (props_of payload) = Some (JString ''transaction.chain.completed'') then (Inr (), w1)
       else bindH (enrichPayloadForEmail env (props_of payload)) (\<lambda>enriched.
         if isInternalTransferCompleted enriched
         then bindH (sendBalanceChangeEmailIfEnabled env enriched True) (\<lambda>_. sendBalanceChangeEmailIfEnabled env enriched False)
         else returnH ()) w1)"
  proof (cases "get_prop ''eventType'' (props_of payload) = Some (JString ''transaction.chain.completed'')")
    case chain: True
    then show ?thesis using True assms(2) by (simp add: handleTransactionEvent_def drafts_of_def atomic_insert w1_def)
  next
    case chain: False
    then have "atomic (insert_notifications env (event_drafts env payload)) w = (Inr (), w1)"
      using True by (simp add: drafts_of_def atomic_insert w1_def)
    then show ?thesis using chain assms(2) by (simp add: handleTransactionEvent_def bind_total)
  qed
  obtain x where x: "fst (enrichPayloadForEmail env (props_of payload) w1) = Inr x" using app_rows_quiet(3) [OF assms(1)] by blast
  have send: "fst (sendBalanceChangeEmailIfEnabled env y b v) = Inr ()" for y b v
    by (simp add: sendBalanceChangeEmailIfEnabled_def Let_def)
  show ?thesis using True rows
    by (simp add: run bind_total [where m = "enrichPayloadForEmail env (props_of payload)", OF x]
        bind_total [where m = "sendBalanceChangeEmailIfEnabled env x True", OF send] send app_rows_quiet(1,2) [OF assms(1)] returnH_def)
qed

text \<open>
  What one delivery of an event stores for the users: if every notification it makes fits its
  columns, exactly these are added, and the delivery succeeds whatever the mail server and the profile
  service do; otherwise it fails and nothing is added. A second delivery of the same event adds them
  again, since nothing is remembered of the first.
\<close>

theorem event_notifies:
  assumes "alone_notes env" and "payload \<noteq> JNull"
  shows "if list_all draft_ok (drafts_of env payload)
    then fst (handleTransactionEvent env payload w) = Inr () \<and>
      app_rows (snd (handleTransactionEvent env payload w)) = app_rows w @ map draft_view (drafts_of env payload)
    else fst (handleTransactionEvent env payload w) = Inl (NoteQueryFailed ''notification column'') \<and>
      app_rows (snd (handleTransactionEvent env payload w)) = app_rows w"
  using event_rows [OF assms] .

section \<open>Pending transactions are announced as done\<close>

lemma map_of_map_Some: "map_of (map (\<lambda>(k, x). (k, Some x)) kvs) k = map_option Some (map_of kvs k)"
  by (induction kvs) auto

lemma map_of_defined: "distinct (map fst obj) \<Longrightarrow> map_of (defined_props obj) k = get_prop k obj"
proof (induction obj)
  case (Cons kv obj)
  moreover have "map_of obj (fst kv) = None" using Cons.prems by (auto simp add: map_of_eq_None_iff)
  ultimately show ?case by (cases kv) (auto simp add: defined_props_def get_prop_def)
qed (simp add: defined_props_def get_prop_def)

lemma get_prop_defined:
  "distinct (map fst obj) \<Longrightarrow> get_prop k (props_of (JObject (defined_props obj))) = get_prop k obj"
proof -
  assume "distinct (map fst obj)"
  then have "map_of (defined_props obj) k = get_prop k obj" by (rule map_of_defined)
  moreover have "get_prop k (props_of (JObject (defined_props obj))) = map_of (defined_props obj) k"
    by (simp add: get_prop_def props_of_def map_of_map_Some split: option.split)
  ultimately show ?thesis by simp
qed

lemma event_keys: "distinct (map fst (event_object e))"
proof -
  have "map fst (event_object e) = [''eventType'', ''transactionId'', ''status'', ''type'', ''isExternal'', ''settlementStatus'', ''chainStatus'',
      ''requestingUserId'', ''fromUserId'', ''toUserId'', ''amount'', ''currency'', ''memo'', ''senderBalance'', ''receiverBalance'',
      ''createdAt'', ''receiptJson'']" by (simp add: event_object_def Let_def)
  moreover have "distinct [''eventType'', ''transactionId'', ''status'', ''type'', ''isExternal'', ''settlementStatus'', ''chainStatus'',
      ''requestingUserId'', ''fromUserId'', ''toUserId'', ''amount'', ''currency'', ''memo'', ''senderBalance'', ''receiverBalance'',
      ''createdAt'', ''receiptJson'']" by code_simp
  ultimately show ?thesis by simp
qed

lemma event_fields:
  "get_prop ''eventType'' (props_of (event_json e)) = Some (JString (ep_eventType e))"
  "get_prop ''fromUserId'' (props_of (event_json e)) = Some (JString (ep_fromUserId e))"
  "get_prop ''amount'' (props_of (event_json e)) = Some (JNumber (js_of_int (ep_amount e)))"
  "get_prop ''currency'' (props_of (event_json e)) = Some (JString (ep_currency e))"
  unfolding event_json_def get_prop_defined [OF event_keys] by (simp_all add: event_object_def get_prop_def Let_def)

lemma pending_event:
  assumes "tx_status tx = TX_PENDING" and e: "e = ob_payload (last (d_outbox (enqueueTransactionEvent senv tx d)))"
  shows "drafts_of env (event_json e) =
    [(Some (tx_fromUserId tx), CHANNEL_APP, ''Giao dich thanh cong'',
      ''Ban da chuyen '' @ ne_locale env (js_of_int (tx_amount tx)) @ '' '' @ tx_currency tx, json_text (event_json e))]"
proof -
  have "ep_eventType e = ''transaction.pending'' \<and> ep_fromUserId e = tx_fromUserId tx \<and> ep_amount e = tx_amount tx \<and> ep_currency e = tx_currency tx"
    using assms by (simp add: enqueueTransactionEvent_def enqueue_def event_type_of_def Let_def split: prod.split)
  then show ?thesis
    by (simp add: drafts_of_def event_drafts_def event_fields column_text_def tmpl_def is_null_def amount_text_def opt_Number_def
        json_Number_def Let_def)
qed

text \<open>
  An event of a transaction that is still pending, as the transaction service publishes it for
  every external transfer, deposit and withdrawal it submits, tells the sender that the transaction
  succeeded and that the amount was transferred.
\<close>

theorem pending_announced_as_success:
  assumes "alone_notes env" and "tx_status tx = TX_PENDING"
    and "length (ne_locale env (js_of_int (tx_amount tx)) @ tx_currency tx) \<le> 1000"
  shows "app_rows (snd (handleTransactionEvent env (event_json (ob_payload (last (d_outbox (enqueueTransactionEvent senv tx d))))) w)) =
    app_rows w @ [(tx_fromUserId tx, ''Giao dich thanh cong'',
      ''Ban da chuyen '' @ ne_locale env (js_of_int (tx_amount tx)) @ '' '' @ tx_currency tx)]"
proof -
  let ?p = "event_json (ob_payload (last (d_outbox (enqueueTransactionEvent senv tx d))))"
  note e = pending_event [OF assms(2) refl, of env senv d]
  have "?p \<noteq> JNull" by (simp add: event_json_def)
  moreover have "list_all draft_ok (drafts_of env ?p)" using assms(3) by (simp add: e draft_ok_def)
  moreover have "map draft_view (drafts_of env ?p) = [(tx_fromUserId tx, ''Giao dich thanh cong'',
      ''Ban da chuyen '' @ ne_locale env (js_of_int (tx_amount tx)) @ '' '' @ tx_currency tx)]"
    by (simp add: e draft_view_def coalesce_def)
  ultimately show ?thesis using event_rows [OF assms(1), of ?p w] by simp
qed

section \<open>Who is mailed\<close>

definition agreed :: "note_world \<Rightarrow> string set" where
  "agreed w = np_userId ` {p \<in> set (nw_prefs w). np_emailEnabled p}"

definition address_of :: "note_env \<Rightarrow> string \<Rightarrow> string option" where
  "address_of env u = map_option (\<lambda>(e, n). js_lower (js_trim e)) (fetchUserProfile env u)"

definition mailed_ok :: "note_env \<Rightarrow> note_world \<Rightarrow> note_world \<Rightarrow> bool" where
  "mailed_ok env w w' =
     (agreed w' = agreed w \<and>
      (\<forall>m\<in>set (nw_mails w'). m \<in> set (nw_mails w) \<or> (\<exists>u\<in>agreed w. address_of env u = Some (ml_to m))))"

lemma mailed_ok_trans: "mailed_ok env a b \<Longrightarrow> mailed_ok env b c \<Longrightarrow> mailed_ok env a c"
  unfolding mailed_ok_def by metis

lemma mailed_ok_rows [simp]: "mailed_ok env w (snd (atomic (insert_notifications env' xs) w))"
  by (auto simp add: mailed_ok_def agreed_def atomic_def insert_notifications_def)

lemma settings_mailed:
  assumes "alone_notes env" and "getNotificationSettings env u w = (r, v)"
  shows "mailed_ok env w v" and "r = Inr p \<Longrightarrow> np_emailEnabled p \<Longrightarrow> u \<in> agreed w"
proof -
  have run: "getNotificationSettings env u w = (case find_row (\<lambda>x. np_userId x = u) (nw_prefs w) of
      Some r \<Rightarrow> (Inr r, w) | None \<Rightarrow> atomic (insert_preference
        \<lparr>np_id = [], np_userId = u, np_appEnabled = True, np_emailEnabled = False, np_smsEnabled = False\<rparr>) w)"
    by (simp add: getNotificationSettings_def await_alone [OF assms(1)] bind_read returnH_def split: option.split)
  show "mailed_ok env w v" using assms(2) unfolding run
    by (cases "find_row (\<lambda>x. np_userId x = u) (nw_prefs w)")
      (auto simp add: mailed_ok_def agreed_def atomic_def insert_preference_def Let_def)
  show "u \<in> agreed w" if "r = Inr p" "np_emailEnabled p"
    using assms(2) that unfolding run
    by (cases "find_row (\<lambda>x. np_userId x = u) (nw_prefs w)")
      (auto simp add: agreed_def atomic_def insert_preference_def Let_def dest!: find_row_SomeD)
qed

lemma mail_balance_mailed:
  assumes "alone_notes env"
  shows "mailed_ok env w (snd (mail_balance env p sender u w))"
proof (cases "getNotificationSettings env u w")
  case (Pair r v)
  note v = settings_mailed [OF assms Pair]
  show ?thesis
  proof (cases "\<exists>s e n f. r = Inr s \<and> np_emailEnabled s \<and> fetchUserProfile env u = Some (e, n) \<and> js_lower (js_trim e) \<noteq> [] \<and>
      smtp_ready env = Inr f")
    case False
    then have "snd (mail_balance env p sender u w) = v"
      by (cases "fetchUserProfile env u"; cases "smtp_ready env"; cases r)
        (auto simp add: mail_balance_def bindH_def Pair returnH_def liftE_def Let_def note_await_def interfere_def
          assms [unfolded alone_notes_def] js_lower_def js_trim_def split: sum.splits prod.splits)
    then show ?thesis using v(1) by simp
  next
    case True
    then obtain s e n f where s: "r = Inr s" "np_emailEnabled s" "fetchUserProfile env u = Some (e, n)"
        "js_lower (js_trim e) \<noteq> []" "smtp_ready env = Inr f" by blast
    obtain mail d where run: "mail_balance env p sender u w =
        bindH (send_mail env mail) (\<lambda>_. bindH (note_await env) (\<lambda>_. atomic (insert_notifications env [d]))) v" "ml_to mail = js_lower (js_trim e)"
      using s by (simp add: mail_balance_def bindH_def [of "getNotificationSettings env u"] Pair await_alone [OF assms] liftE_def
          bindH_def [of "liftE _"] Let_def)
    have u: "u \<in> agreed w" "address_of env u = Some (ml_to mail)" using v(2) s run(2) by (auto simp add: address_of_def)
    have "mailed_ok env v (snd (send_mail env mail v))"
      using u v(1) by (auto simp add: send_mail_def mailed_ok_def agreed_def split: sum.split)
    moreover have "snd (mail_balance env p sender u w) = snd (send_mail env mail v) \<or>
        snd (mail_balance env p sender u w) = snd (atomic (insert_notifications env [d]) (snd (send_mail env mail v)))"
      unfolding run(1) by (cases "send_mail env mail v") (auto simp add: bindH_def [of "send_mail env mail"] await_alone [OF assms] split: sum.split)
    ultimately show ?thesis using mailed_ok_trans [OF v(1)] mailed_ok_trans mailed_ok_rows by metis
  qed
qed

lemma merge_event_type: "get_prop ''eventType'' (merge_tx t q) = get_prop ''eventType'' q"
  by (simp add: merge_tx_def get_set_prop Let_def)

lemma fill_event_type: "get_prop ''eventType'' (fill_balance rows ''receiverBalance'' u q) = get_prop ''eventType'' q"
    "get_prop ''eventType'' (fill_balance rows ''senderBalance'' u q) = get_prop ''eventType'' q"
  by (simp_all add: fill_balance_def get_set_prop)

lemma enriched_event_type:
  assumes "alone_notes env" and "fst (enrichPayloadForEmail env q w) = Inr x"
  shows "get_prop ''eventType'' x = get_prop ''eventType'' q"
  using assms(2)
  by (auto simp add: enrichPayloadForEmail_def Let_def await_alone [OF assms(1)] bind_read returnH_def fill_event_type merge_event_type
      split: if_splits option.splits)

lemma balance_mailed: "alone_notes env \<Longrightarrow> mailed_ok env w (snd (sendBalanceChangeEmailIfEnabled env q b w))"
  using mail_balance_mailed by (simp add: sendBalanceChangeEmailIfEnabled_def Let_def mailed_ok_def)

text \<open>
  C29. Mails about balances go only to those who agreed: a mail that the handling of an event adds is
  addressed to a user who had mails enabled, at the address of the profile, and only an event of a
  completed transaction leads to one.
\<close>

theorem mail_needs_consent:
  assumes "alone_notes env" and "m \<in> set (nw_mails (snd (handleTransactionEvent env payload w)))" and "m \<notin> set (nw_mails w)"
  shows "(\<exists>u\<in>agreed w. address_of env u = Some (ml_to m)) \<and>
    get_prop ''eventType'' (props_of payload) = Some (JString ''transaction.completed'')"
proof -
  have rows: "nw_mails (snd (atomic (insert_notifications env xs) v)) = nw_mails v" for xs v
    by (simp add: atomic_insert insert_notifications_def)
  have p: "payload \<noteq> JNull" "get_prop ''eventType'' (props_of payload) \<noteq> Some (JString ''transaction.chain.completed'')"
    using assms(2,3) rows by (auto simp add: handleTransactionEvent_def throwH_def split: if_splits)
  define v where "v = snd (atomic (insert_notifications env (event_drafts env payload)) w)"
  obtain x where x: "fst (enrichPayloadForEmail env (props_of payload) v) = Inr x" using app_rows_quiet(3) [OF assms(1)] by blast
  let ?send = "sendBalanceChangeEmailIfEnabled env x"
  have ok: "fst (?send b u) = Inr ()" for b u by (simp add: sendBalanceChangeEmailIfEnabled_def Let_def)
  have mails: "bindH (enrichPayloadForEmail env (props_of payload)) (\<lambda>enriched.
      if isInternalTransferCompleted enriched
      then bindH (sendBalanceChangeEmailIfEnabled env enriched True) (\<lambda>_. sendBalanceChangeEmailIfEnabled env enriched False)
      else returnH ()) v = (if isInternalTransferCompleted x then ?send False (snd (?send True v)) else (Inr (), v))"
    by (simp add: bind_total [where m = "enrichPayloadForEmail env (props_of payload)", OF x] returnH_def
        bind_total [where m = "?send True", OF ok] app_rows_quiet(2) [OF assms(1)])
  have "atomic (insert_notifications env (event_drafts env payload)) w =
      (if list_all draft_ok (event_drafts env payload) then (Inr (), v) else (Inl (NoteQueryFailed ''notification column''), w))"
    by (simp add: v_def atomic_insert)
  then have run: "handleTransactionEvent env payload w =
      (if list_all draft_ok (event_drafts env payload) then
        (if isInternalTransferCompleted x then ?send False (snd (?send True v)) else (Inr (), v)) else (Inl (NoteQueryFailed ''notification column''), w))"
    using p mails by (simp add: handleTransactionEvent_def bindH_def [of "atomic _"])
  then have sent: "isInternalTransferCompleted x" "m \<in> set (nw_mails (snd (?send False (snd (?send True v)))))"
    using assms(2,3) rows v_def by (auto split: if_splits)
  have "mailed_ok env w (snd (?send False (snd (?send True v))))"
    using mailed_ok_rows mailed_ok_trans balance_mailed [OF assms(1)] unfolding v_def by metis
  then show ?thesis using sent assms(3) enriched_event_type [OF assms(1) x]
    by (auto simp add: mailed_ok_def isInternalTransferCompleted_def)
qed

section \<open>Requests to run\<close>

definition sample_note_env :: note_env where
  "sample_note_env =
     \<lparr>ne_cfg = (\<lambda>k. if k = ''SMTP_USER'' \<or> k = ''SMTP_PASS'' then Some ''m'' else None), ne_now = 7, ne_locale = number_text,
      ne_profile = (\<lambda>_. Some (200, Some (JObject [(''email'', JString ''A@b.vn'')]))), ne_smtp = (\<lambda>_. Inr ()),
      ne_others = (\<lambda>w. w)\<rparr>"

definition sample_notes :: note_world where
  "sample_notes =
     \<lparr>nw_rows = [], nw_prefs = [], nw_mails = [], nw_tx = \<lparr>d_wallets = [], d_txs = [], d_ledger = [], d_sources = [], d_outbox = [],
        d_uuid = (\<lambda>n. []), d_seq = 0, d_lseq = 0\<rparr>, nw_uuid = (\<lambda>n. nat_digits n), nw_seq = 0\<rparr>"

definition agreed_notes :: note_world where
  "agreed_notes = sample_notes\<lparr>nw_prefs := [\<lparr>np_id = ''p'', np_userId = ''u1'', np_appEnabled = True, np_emailEnabled = True, np_smsEnabled = False\<rparr>]\<rparr>"

definition sample_event :: json where
  "sample_event = JObject [(''eventType'', JString ''transaction.completed''), (''transactionId'', JString ''t1''), (''type'', JString ''TRANSFER''),
     (''fromUserId'', JString ''u1''), (''toUserId'', JString ''u2''), (''amount'', JNumber (js_of_int 5)), (''currency'', JString ''VND'')]"

lemma sample_note_alone: "alone_notes sample_note_env"
  by (simp add: alone_notes_def sample_note_env_def)

theorem sms_never_enabled_witness:
  "\<exists>p\<in>set (nw_prefs (snd (rpc_updateNotificationSettings sample_note_env (Some ''u1'') True True True True sample_notes))). \<not> np_smsEnabled p"
proof -
  let ?w = "snd (rpc_updateNotificationSettings sample_note_env (Some ''u1'') True True True True sample_notes)"
  have "nw_prefs ?w \<noteq> []" by code_simp
  then obtain p where p: "p \<in> set (nw_prefs ?w)" by (cases "nw_prefs ?w") auto
  have "fair_notes sample_note_env" by (simp add: fair_notes_def sample_note_env_def)
  then have "note_step sample_notes ?w" by (rule note_step.update)
  then have "reach (\<lambda>w. nw_prefs w = []) note_step ?w" by (intro reach.next_state [OF reach.start]) (simp_all add: sample_notes_def)
  from sms_never_enabled [OF this p] p show ?thesis by blast
qed

theorem event_notifies_witness:
  "app_rows (snd (handleTransactionEvent sample_note_env sample_event sample_notes)) =
    [(''u1'', ''Giao dich thanh cong'', ''Ban da chuyen 5 VND''), (''u2'', ''Nhan tien thanh cong'', ''Ban vua nhan 5 VND'')]"
proof -
  have "list_all draft_ok (drafts_of sample_note_env sample_event) \<and> map draft_view (drafts_of sample_note_env sample_event) =
      [(''u1'', ''Giao dich thanh cong'', ''Ban da chuyen 5 VND''), (''u2'', ''Nhan tien thanh cong'', ''Ban vua nhan 5 VND'')]"
    by code_simp
  moreover have "sample_event \<noteq> JNull" "app_rows sample_notes = []" by (simp_all add: sample_event_def sample_notes_def app_rows_def)
  ultimately show ?thesis using event_notifies [OF sample_note_alone, of sample_event sample_notes] by simp
qed

theorem pending_announced_as_success_witness:
  "app_rows (snd (handleTransactionEvent sample_note_env
      (event_json (ob_payload (last (d_outbox (enqueueTransactionEvent example_env example_tx (nw_tx sample_notes)))))) sample_notes)) =
    [(''u1'', ''Giao dich thanh cong'', ''Ban da chuyen 100 VND'')]"
proof -
  have "ne_locale sample_note_env (js_of_int (tx_amount example_tx)) = ''100''" by code_simp
  then have t: "tx_status example_tx = TX_PENDING" "tx_fromUserId example_tx = ''u1''" "tx_currency example_tx = ''VND''" "app_rows sample_notes = []"
    "ne_locale sample_note_env (js_of_int (tx_amount example_tx)) = ''100''" by (simp_all add: example_tx_def sample_notes_def app_rows_def)
  show ?thesis
    using pending_announced_as_success [OF sample_note_alone t(1), of example_env "nw_tx sample_notes" sample_notes] t by simp
qed

theorem mail_needs_consent_witness: "\<exists>u\<in>agreed agreed_notes. address_of sample_note_env u = Some ''a@b.vn''"
proof -
  let ?event = "JObject [(''eventType'', JString ''transaction.completed''), (''type'', JString ''TRANSFER''), (''fromUserId'', JString ''u1''), (''toUserId'', JString ''u2'')]"
  let ?ms = "nw_mails (snd (handleTransactionEvent sample_note_env ?event agreed_notes))"
  have "map ml_to ?ms = [''a@b.vn'']" by code_simp
  moreover have "nw_mails agreed_notes = []" by (simp add: agreed_notes_def sample_notes_def)
  ultimately obtain m where "m \<in> set ?ms" "ml_to m = ''a@b.vn''" "m \<notin> set (nw_mails agreed_notes)" by (cases ?ms) auto
  then show ?thesis using mail_needs_consent [OF sample_note_alone, of m ?event agreed_notes] by auto
qed

end
