(* ===== verification/Gateway.thy ===== *)
theory Gateway
  imports Settlement Ato_Risk Auth_Otp Notifications
begin

text \<open>
  The API gateway, part one (\<^verbatim>\<open>api-gateway/src\<close>): the guard of access tokens, the routes of
  transactions and wallets, and the risk engine. The gateway keeps no store. What it calls are the
  fields of the record \<open>gateway\<close>, handlers on a world of which it knows nothing else: a call that
  fails at the gateway may still have changed the world. Requests are the fields of the DTO classes
  after the framework has checked them. Numbers become int64 and int32 fields of messages through
  \<open>gt_int64\<close> and \<open>gt_int32\<close>; empty strings and false are not sent, and fields that are not sent are
  read as absent by the called service and as their defaults by the gateway. An int64 field of an
  answer is read as a pair of halves (\<open>int64_of\<close>).
\<close>

section \<open>Errors\<close>

text \<open>\<open>UncaughtError\<close> is an error no route maps; the framework answers it with status 500.\<close>

datatype http_error =
    BadRequestException string
  | UnauthorizedException string
  | ForbiddenException string
  | StepUpException string "string list" string "(js_number \<times> js_number) option"
  | NotFoundException string
  | ConflictException string
  | GatewayTimeoutException string
  | ServiceUnavailableException string
  | InternalServerErrorException string
  | UncaughtError

text \<open>What a gRPC client throws; a code that is absent reads as NaN.\<close>

record grpc_failure =
  gf_code :: js_number
  gf_details :: "string option"
  gf_message :: "string option"

definition grpc_message :: "string \<Rightarrow> grpc_failure \<Rightarrow> string" where
  "grpc_message fallback e =
     or_str (map_option js_trim (gf_details e)) (or_str (map_option js_trim (gf_message e)) fallback)"

definition rethrowGrpcError :: "string \<Rightarrow> grpc_failure \<Rightarrow> http_error" where
  "rethrowGrpcError service e =
     (let code = gf_code e; message = grpc_message (service @ '' error'') e
      in if code = js_of_int 16 then UnauthorizedException message
         else if code = js_of_int 7 then ForbiddenException message
         else if code = js_of_int 3 then BadRequestException message
         else if code = js_of_int 5 then NotFoundException message
         else if code = js_of_int 6 then ConflictException message
         else if code = js_of_int 4 then GatewayTimeoutException (service @ '' timeout'')
         else if code = js_of_int 14 then ServiceUnavailableException (service @ '' unavailable'')
         else InternalServerErrorException message)"

definition mapErr :: "('e \<Rightarrow> 'f) \<Rightarrow> ('s, 'e, 'a) handler \<Rightarrow> ('s, 'f, 'a) handler" where
  "mapErr f h s = (case h s of (Inl e, s') \<Rightarrow> (Inl (f e), s') | (Inr x, s') \<Rightarrow> (Inr x, s'))"

definition callTransaction :: "('s, grpc_failure, 'a) handler \<Rightarrow> ('s, http_error, 'a) handler" where
  "callTransaction = mapErr (rethrowGrpcError ''Transaction service'')"

section \<open>What the gateway calls\<close>

datatype http_method = GET | POST | PATCH

text \<open>The body of an HTTP answer: empty, JSON, or text that is not JSON.\<close>

datatype http_body = NoBody | JsonBody json | RawText string

record 's gateway =
  gt_cfg :: "string \<Rightarrow> string option"
  gt_uuid :: string
  gt_int64 :: "js_number \<Rightarrow> grpc_int64"
  gt_int32 :: "js_number \<Rightarrow> int option"
  gt_verifyJwt :: "string \<Rightarrow> string \<Rightarrow> string \<Rightarrow> json option"
  gt_fetch :: "http_method \<Rightarrow> string \<Rightarrow> json option \<Rightarrow> ('s, unit, int \<times> http_body) handler"
  gt_assessTransferRisk :: "assess_request \<Rightarrow> ('s, grpc_failure, ato_assessment) handler"
  gt_createTransfer :: "create_transfer_request \<Rightarrow> ('s, grpc_failure, transfer_response) handler"
  gt_createFundingSource :: "create_funding_source_request \<Rightarrow> ('s, grpc_failure, funding_source_view) handler"
  gt_listFundingSources :: "string option \<Rightarrow> ('s, grpc_failure, funding_source_view list) handler"
  gt_createTopupIntent :: "create_topup_request \<Rightarrow> ('s, grpc_failure, transfer_response) handler"
  gt_createWithdrawalRequest :: "create_withdrawal_request \<Rightarrow> ('s, grpc_failure, transfer_response) handler"
  gt_listUserTransactions :: "string \<Rightarrow> int option \<Rightarrow> int option \<Rightarrow> bool option \<Rightarrow> ('s, grpc_failure, transaction_view list) handler"
  gt_getTransaction :: "string \<Rightarrow> ('s, grpc_failure, transaction_view) handler"
  gt_createWallet :: "string \<Rightarrow> string option \<Rightarrow> ('s, grpc_failure, wallet_view) handler"
  gt_getWallet :: "string \<Rightarrow> string option \<Rightarrow> ('s, grpc_failure, wallet_view) handler"
  gt_verifyFirebaseToken :: "string \<Rightarrow> session_context \<Rightarrow> profile_hints \<Rightarrow> ('s, grpc_failure, auth_result) handler"
  gt_devLogin :: "string \<Rightarrow> session_context \<Rightarrow> profile_hints \<Rightarrow> ('s, grpc_failure, auth_result) handler"
  gt_refreshToken :: "string \<Rightarrow> session_context \<Rightarrow> ('s, grpc_failure, auth_result) handler"
  gt_resolveLoginIdentifier :: "string option \<Rightarrow> ('s, grpc_failure, string option) handler"
  gt_logout :: "string \<Rightarrow> ('s, grpc_failure, unit) handler"
  gt_logoutAll :: "string \<Rightarrow> ('s, grpc_failure, unit) handler"
  gt_listNotifications :: "string option \<Rightarrow> int option \<Rightarrow> int option \<Rightarrow> ('s, grpc_failure, notification_item list) handler"
  gt_getNotificationSettings :: "string option \<Rightarrow> ('s, grpc_failure, notification_preference) handler"
  gt_updateNotificationSettings :: "string option \<Rightarrow> bool \<Rightarrow> bool \<Rightarrow> bool \<Rightarrow> bool \<Rightarrow> ('s, grpc_failure, notification_preference) handler"

definition wire_bool :: "bool \<Rightarrow> bool option" where
  "wire_bool b = (if b then Some True else None)"

section \<open>The guard\<close>

datatype auth_header = HeaderMissing | HeaderText string | HeaderList "string list"

record guard_user =
  gu_userId :: string
  gu_firebaseUid :: string
  gu_kycStatus :: string

text \<open>\<open>`${x?.k ?? ''}`\<close>.\<close>

definition prop_text :: "string \<Rightarrow> json \<Rightarrow> string" where
  "prop_text k v = (case json_prop k v of None \<Rightarrow> [] | Some JNull \<Rightarrow> [] | Some x \<Rightarrow> js_string x)"

definition header_text :: "auth_header \<Rightarrow> string" where
  "header_text h = (case h of HeaderMissing \<Rightarrow> [] | HeaderText t \<Rightarrow> t | HeaderList ts \<Rightarrow> (case ts of [] \<Rightarrow> [] | t # _ \<Rightarrow> t))"

definition canActivate :: "'s gateway \<Rightarrow> auth_header \<Rightarrow> http_error + guard_user" where
  "canActivate g header =
     (let token = header_text header
      in if token = [] \<or> \<not> js_startsWith token ''Bearer '' then Inl (UnauthorizedException ''Missing access token'')
         else
           let accessToken = js_trim (drop 7 token)
           in if accessToken = [] then Inl (UnauthorizedException ''Missing access token'')
              else (case gt_verifyJwt g (coalesce (gt_cfg g ''JWT_ISSUER'') ''auth-service'')
                      (coalesce (gt_cfg g ''JWT_AUDIENCE'') ''e-wallet'') accessToken of
                      None \<Rightarrow> Inl (UnauthorizedException ''Invalid access token'')
                    | Some payload \<Rightarrow>
                        (case json_prop ''sub'' payload of
                           Some (JString sub) \<Rightarrow>
                             if sub = [] then Inl (UnauthorizedException ''Invalid access token'')
                             else Inr \<lparr>gu_userId = sub, gu_firebaseUid = prop_text ''firebaseUid'' payload,
                                       gu_kycStatus = prop_text ''kycStatus'' payload\<rparr>
                         | _ \<Rightarrow> Inl (UnauthorizedException ''Invalid access token''))))"

definition guarded :: "'s gateway \<Rightarrow> auth_header \<Rightarrow> (string \<Rightarrow> ('s, http_error, 'a) handler) \<Rightarrow> ('s, http_error, 'a) handler" where
  "guarded g header route = bindH (liftE (canActivate g header)) (\<lambda>u. route (gu_userId u))"

section \<open>Requests\<close>

record assess_transfer_dto =
  cd_toUserId :: "string option"
  cd_recipient :: "string option"
  cd_amount :: js_number
  cd_currency :: string
  cd_isExternal :: "bool option"
  cd_externalPartner :: "string option"
  cd_externalAccountNo :: "string option"

record create_transfer_dto = assess_transfer_dto +
  cd_memo :: "string option"
  cd_otpCode :: string
  cd_idempotencyKey :: "string option"

record create_funding_source_dto =
  fd_provider :: string
  fd_accountRef :: string
  fd_providerToken :: "string option"
  fd_displayName :: "string option"

record create_topup_dto =
  ud_fundingSourceId :: string
  ud_amount :: js_number
  ud_currency :: string
  ud_memo :: "string option"
  ud_idempotencyKey :: "string option"

record create_withdrawal_dto = create_topup_dto +
  ud_simulateFailure :: "bool option"

record step_up_headers =
  sh_deviceId :: "string option"
  sh_faceVerified :: "string option"
  sh_stepUpToken :: "string option"

definition num_falsy :: "js_number \<Rightarrow> bool" where
  "num_falsy v = (v = JsNaN \<or> v = JsNum 0)"

section \<open>Numbers of answers\<close>

definition int64ToNumber :: "raw_amount \<Rightarrow> js_number" where
  "int64ToNumber v =
     (case v of
        AmtNumber n \<Rightarrow> if js_isFinite n then js_floor n else js_of_int 0
      | AmtString s \<Rightarrow> if js_trim s \<noteq> [] \<and> js_isFinite (js_Number s) then js_floor (js_Number s) else js_of_int 0
      | AmtInt64 l \<Rightarrow>
          if sint (high l) = 0 then js_of_int (if unsigned l then uint (low l) else sint (low l)) else js_of_int 0
      | AmtUndefined \<Rightarrow> js_of_int 0)"

definition read_int64 :: "int \<Rightarrow> js_number" where
  "read_int64 a = int64ToNumber (AmtInt64 (int64_of a))"

text \<open>On a double of a message.\<close>

definition toFiniteNumber :: "js_number \<Rightarrow> js_number" where
  "toFiniteNumber v = (if js_isFinite v then v else js_of_int 0)"

section \<open>Calls to the authentication service\<close>

definition auth_base :: "'s gateway \<Rightarrow> string" where
  "auth_base g =
     or_str (Some (rev (dropWhile (\<lambda>c. c = CHR ''/'') (rev (js_trim (coalesce (gt_cfg g ''AUTH_HTTP_URL'') []))))))
       ''http://auth-service:3001''"

definition http_ok :: "int \<Rightarrow> bool" where
  "http_ok st = (200 \<le> st \<and> st \<le> 299)"

text \<open>A call that never fails: the answer is the empty text instead.\<close>

definition fetchDisplayName :: "'s gateway \<Rightarrow> string \<Rightarrow> 's \<Rightarrow> string \<times> 's" where
  "fetchDisplayName g userId s =
     (if userId = [] then ([], s)
      else (case gt_fetch g GET (auth_base g @ ''/internal/auth/profile/'' @ encodeURIComponent userId) None s of
              (Inr (st, JsonBody parsed), s') \<Rightarrow>
                (if \<not> http_ok st then []
                 else let displayName = js_trim (prop_text ''displayName'' parsed)
                      in if displayName \<noteq> [] then displayName else js_trim (prop_text ''email'' parsed), s')
            | (_, s') \<Rightarrow> ([], s')))"

definition gw_verifyStepUpToken :: "'s gateway \<Rightarrow> string \<Rightarrow> string \<Rightarrow> string \<Rightarrow> 's \<Rightarrow> bool \<times> 's" where
  "gw_verifyStepUpToken g userId deviceId stepUpToken s =
     (case gt_fetch g POST (auth_base g @ ''/internal/auth/step-up/verify'')
             (Some (JObject [(''userId'', JString userId), (''deviceId'', JString deviceId), (''stepUpToken'', JString stepUpToken)])) s of
        (Inr (st, JsonBody payload), s') \<Rightarrow> (http_ok st \<and> json_prop ''valid'' payload = Some (JBool True), s')
      | (_, s') \<Rightarrow> (False, s'))"

section \<open>Risk and step-up\<close>

record risk_view =
  rk_requiresStepUp :: bool
  rk_reasons :: "string list"
  rk_verdict :: string
  rk_probability :: js_number
  rk_threshold :: js_number
  rk_modelVersion :: string

definition gw_assessTransferRisk ::
    "'s gateway \<Rightarrow> string \<Rightarrow> string \<Rightarrow> js_number \<Rightarrow> string \<Rightarrow> string \<Rightarrow> bool \<Rightarrow> string \<Rightarrow> string \<Rightarrow>
     ('s, http_error, risk_view) handler" where
  "gw_assessTransferRisk g userId toUserId amount currency deviceId isExternal externalPartner externalAccountNo =
     bindH (callTransaction (gt_assessTransferRisk g
       \<lparr>sq_requestingUserId = or_null userId, sq_fromUserId = or_null userId, sq_toUserId = or_null toUserId,
        sq_amount = AmtInt64 (gt_int64 g amount), sq_currency = or_null currency, sq_isExternal = wire_bool isExternal,
        sq_externalPartner = or_null externalPartner, sq_externalAccountNo = or_null externalAccountNo,
        sq_deviceId = or_null deviceId\<rparr>)) (\<lambda>r.
     returnH \<lparr>rk_requiresStepUp = aa_requiresStepUp r, rk_reasons = filter (\<lambda>x. x \<noteq> []) (aa_reasons r),
              rk_verdict = js_trim (aa_verdict r), rk_probability = toFiniteNumber (aa_probability r),
              rk_threshold = toFiniteNumber (aa_threshold r), rk_modelVersion = js_trim (aa_modelVersion r)\<rparr>)"

definition requireStepUpIfNeeded :: "'s gateway \<Rightarrow> string \<Rightarrow> string \<Rightarrow> step_up_headers \<Rightarrow> risk_view \<Rightarrow> ('s, http_error, unit) handler" where
  "requireStepUpIfNeeded g userId deviceId h risk =
     (if \<not> rk_requiresStepUp risk \<or> sh_faceVerified h = Some ''true'' then returnH ()
      else
        let stepUpToken = js_trim (coalesce (sh_stepUpToken h) [])
        in if stepUpToken = []
           then throwH (StepUpException ''Step-up verification required'' (rk_reasons risk) (rk_verdict risk)
                  (Some (rk_probability risk, rk_threshold risk)))
           else (\<lambda>s. case gw_verifyStepUpToken g userId deviceId stepUpToken s of (validStepUp, s') \<Rightarrow>
                  if validStepUp then (Inr (), s')
                  else (Inl (StepUpException ''Invalid or expired step-up token'' (rk_reasons risk) (rk_verdict risk) None), s')))"

definition device_of :: "step_up_headers \<Rightarrow> string" where
  "device_of h = js_trim (coalesce (sh_deviceId h) [])"

section \<open>Transfers\<close>

text \<open>\<open>(dto.toUserId || '').trim() || (dto.recipient || '').trim()\<close>.\<close>

definition dto_recipient :: "('a) assess_transfer_dto_scheme \<Rightarrow> string" where
  "dto_recipient dto = or_str (map_option js_trim (cd_toUserId dto)) (js_trim (coalesce (cd_recipient dto) []))"

definition assess_dto :: "'s gateway \<Rightarrow> string \<Rightarrow> string \<Rightarrow> ('a) assess_transfer_dto_scheme \<Rightarrow> ('s, http_error, risk_view) handler" where
  "assess_dto g userId deviceId dto =
     gw_assessTransferRisk g userId (dto_recipient dto) (cd_amount dto) (cd_currency dto) deviceId
       (coalesce (cd_isExternal dto) False) (coalesce (cd_externalPartner dto) []) (coalesce (cd_externalAccountNo dto) [])"

definition assessTransferRiskPreview ::
    "'s gateway \<Rightarrow> string \<Rightarrow> assess_transfer_dto \<Rightarrow> string option \<Rightarrow> ('s, http_error, risk_view) handler" where
  "assessTransferRiskPreview g userId dto deviceIdHeader =
     (if dto_recipient dto = [] \<or> num_falsy (cd_amount dto) \<or> cd_currency dto = []
      then throwH (BadRequestException ''Missing required transfer fields'')
      else assess_dto g userId (js_trim (coalesce deviceIdHeader [])) dto)"

record transfer_reply =
  tp_transfer :: transfer_response
  tp_senderBalance :: js_number
  tp_receiverBalance :: js_number
  tp_toUserId :: "string option"
  tp_risk :: risk_view

definition transfer_reply_of :: "transfer_response \<Rightarrow> string option \<Rightarrow> risk_view \<Rightarrow> transfer_reply" where
  "transfer_reply_of transfer toUserId risk =
     \<lparr>tp_transfer = transfer, tp_senderBalance = read_int64 (rs_senderBalance transfer),
      tp_receiverBalance = read_int64 (rs_receiverBalance transfer), tp_toUserId = toUserId, tp_risk = risk\<rparr>"

text \<open>\<open>dto.idempotencyKey?.trim() || randomUUID()\<close>.\<close>

definition key_or_fresh :: "'s gateway \<Rightarrow> string option \<Rightarrow> string" where
  "key_or_fresh g k = or_str (map_option js_trim k) (gt_uuid g)"

definition transfer_request :: "'s gateway \<Rightarrow> string \<Rightarrow> create_transfer_dto \<Rightarrow> create_transfer_request" where
  "transfer_request g userId dto =
     \<lparr>tq_idempotencyKey = or_null (key_or_fresh g (cd_idempotencyKey dto)), tq_requestingUserId = or_null userId,
      tq_fromUserId = or_null userId, tq_toUserId = or_null (dto_recipient dto), tq_amount = AmtInt64 (gt_int64 g (cd_amount dto)),
      tq_currency = or_null (cd_currency dto), tq_memo = or_null (coalesce (cd_memo dto) []),
      tq_otpCode = or_null (cd_otpCode dto), tq_isExternal = wire_bool (coalesce (cd_isExternal dto) False),
      tq_externalPartner = or_null (coalesce (cd_externalPartner dto) []),
      tq_externalAccountNo = or_null (coalesce (cd_externalAccountNo dto) [])\<rparr>"

text \<open>The check in the middle is the one of \<open>requireStepUpIfNeeded\<close>, written out in the source.\<close>

definition gw_createTransfer ::
    "'s gateway \<Rightarrow> string \<Rightarrow> create_transfer_dto \<Rightarrow> step_up_headers \<Rightarrow> ('s, http_error, transfer_reply) handler" where
  "gw_createTransfer g userId dto h =
     (if dto_recipient dto = [] \<or> num_falsy (cd_amount dto) \<or> cd_currency dto = [] \<or> cd_otpCode dto = []
      then throwH (BadRequestException ''Missing required transfer fields'')
      else bindH (assess_dto g userId (device_of h) dto) (\<lambda>risk.
           bindH (requireStepUpIfNeeded g userId (device_of h) h risk) (\<lambda>_.
           bindH (callTransaction (gt_createTransfer g (transfer_request g userId dto))) (\<lambda>transfer.
           returnH (transfer_reply_of transfer (Some (dto_recipient dto)) risk)))))"

section \<open>Funding sources, top-ups and withdrawals\<close>

definition gw_createFundingSource ::
    "'s gateway \<Rightarrow> string \<Rightarrow> create_funding_source_dto \<Rightarrow> ('s, http_error, funding_source_view) handler" where
  "gw_createFundingSource g userId dto =
     (if js_trim (fd_provider dto) = [] \<or> js_trim (fd_accountRef dto) = []
      then throwH (BadRequestException ''provider and accountRef are required'')
      else callTransaction (gt_createFundingSource g
        \<lparr>fq_userId = or_null userId, fq_provider = or_null (js_trim (fd_provider dto)),
         fq_accountRef = or_null (js_trim (fd_accountRef dto)),
         fq_providerToken = or_null (js_trim (coalesce (fd_providerToken dto) [])),
         fq_displayName = or_null (js_trim (coalesce (fd_displayName dto) []))\<rparr>))"

definition gw_listFundingSources :: "'s gateway \<Rightarrow> string \<Rightarrow> ('s, http_error, funding_source_view list) handler" where
  "gw_listFundingSources g userId = callTransaction (gt_listFundingSources g (or_null userId))"

definition resolveFundingSourceRiskTarget :: "'s gateway \<Rightarrow> string \<Rightarrow> string \<Rightarrow> ('s, http_error, string \<times> string \<times> string) handler" where
  "resolveFundingSourceRiskTarget g userId fundingSourceId =
     bindH (callTransaction (gt_listFundingSources g (or_null userId))) (\<lambda>items.
       case find_row (\<lambda>item. js_trim (fv_fundingSourceId item) = fundingSourceId) items of
         None \<Rightarrow> throwH (BadRequestException ''Funding source not found'')
       | Some source \<Rightarrow> returnH (fundingSourceId, js_trim (fv_provider source), fundingSourceId))"

text \<open>The steps that the two routes share: the checks, the risk of the funding source, the second factor.\<close>

definition funding_prelude :: "'s gateway \<Rightarrow> string \<Rightarrow> ('a) create_topup_dto_scheme \<Rightarrow> step_up_headers \<Rightarrow> ('s, http_error, risk_view) handler" where
  "funding_prelude g userId dto h =
     (if js_trim (ud_fundingSourceId dto) = [] \<or> js_trim (ud_currency dto) = []
      then throwH (BadRequestException ''fundingSourceId and currency are required'')
      else if \<not> js_isFinite (ud_amount dto) \<or> \<not> js_gt (ud_amount dto) (js_of_int 0)
      then throwH (BadRequestException ''amount must be a positive number'')
      else bindH (resolveFundingSourceRiskTarget g userId (js_trim (ud_fundingSourceId dto))) (\<lambda>(toUserId, partner, account).
           bindH (gw_assessTransferRisk g userId toUserId (ud_amount dto) (js_trim (ud_currency dto)) (device_of h) True partner account) (\<lambda>risk.
           bindH (requireStepUpIfNeeded g userId (device_of h) h risk) (\<lambda>_. returnH risk))))"

definition topup_request :: "'s gateway \<Rightarrow> string \<Rightarrow> ('a) create_topup_dto_scheme \<Rightarrow> create_topup_request" where
  "topup_request g userId dto =
     \<lparr>uq_idempotencyKey = or_null (key_or_fresh g (ud_idempotencyKey dto)), uq_userId = or_null userId,
      uq_fundingSourceId = or_null (js_trim (ud_fundingSourceId dto)), uq_amount = AmtInt64 (gt_int64 g (ud_amount dto)),
      uq_currency = or_null (js_trim (ud_currency dto)), uq_memo = or_null (js_trim (coalesce (ud_memo dto) []))\<rparr>"

definition gw_createTopupIntent ::
    "'s gateway \<Rightarrow> string \<Rightarrow> create_topup_dto \<Rightarrow> step_up_headers \<Rightarrow> ('s, http_error, transfer_reply) handler" where
  "gw_createTopupIntent g userId dto h =
     bindH (funding_prelude g userId dto h) (\<lambda>risk.
     bindH (callTransaction (gt_createTopupIntent g (topup_request g userId dto))) (\<lambda>transfer.
     returnH (transfer_reply_of transfer None risk)))"

definition gw_createWithdrawalRequest ::
    "'s gateway \<Rightarrow> string \<Rightarrow> create_withdrawal_dto \<Rightarrow> step_up_headers \<Rightarrow> ('s, http_error, transfer_reply) handler" where
  "gw_createWithdrawalRequest g userId dto h =
     bindH (funding_prelude g userId dto h) (\<lambda>risk.
     bindH (callTransaction (gt_createWithdrawalRequest g
        (create_topup_request.extend (topup_request g userId dto)
           (create_withdrawal_request.fields (wire_bool (ud_simulateFailure dto = Some True)))))) (\<lambda>transfer.
     returnH (transfer_reply_of transfer None risk)))"

section \<open>Reading transactions\<close>

text \<open>\<open>Math.max(1, Math.min(Number(limit) || 30, 200))\<close> and \<open>Math.max(0, Number(offset) || 0)\<close>.\<close>

definition resolved_limit :: "string option \<Rightarrow> js_number" where
  "resolved_limit limit =
     (let v = js_Number (coalesce limit ''30'') in clamp (if num_falsy v then js_of_int 30 else v) 200)"

definition resolved_offset :: "string option \<Rightarrow> js_number" where
  "resolved_offset offset =
     (let v = js_Number (coalesce offset ''0'')
      in if num_falsy v then js_of_int 0 else if js_ge v (js_of_int 0) then v else js_of_int 0)"

definition item_users :: "transaction_view \<Rightarrow> string list" where
  "item_users item = filter (\<lambda>u. u \<noteq> []) [js_trim (tv_fromUserId item), js_trim (tv_toUserId item)]"

definition add_user :: "string \<Rightarrow> string list \<Rightarrow> string list" where
  "add_user u us = (if u \<in> set us then us else us @ [u])"

text \<open>The names are fetched at the same time; here one after the other, in the order of the set.\<close>

fun fetch_names :: "'s gateway \<Rightarrow> string list \<Rightarrow> 's \<Rightarrow> (string \<times> string) list \<times> 's" where
  "fetch_names g [] s = ([], s)"
| "fetch_names g (u # us) s =
     (case fetchDisplayName g u s of (name, s1) \<Rightarrow>
        (case fetch_names g us s1 of (names, s2) \<Rightarrow> (if name = [] then names else (u, name) # names, s2)))"

record item_reply =
  ir_item :: transaction_view
  ir_amount :: js_number
  ir_senderDisplayName :: string
  ir_recipientDisplayName :: string

definition item_reply_of :: "(string \<times> string) list \<Rightarrow> transaction_view \<Rightarrow> item_reply" where
  "item_reply_of names item =
     \<lparr>ir_item = item, ir_amount = read_int64 (tv_amount item),
      ir_senderDisplayName = coalesce (map_of names (js_trim (tv_fromUserId item))) [],
      ir_recipientDisplayName = coalesce (map_of names (js_trim (tv_toUserId item))) []\<rparr>"

definition listTransactions ::
    "'s gateway \<Rightarrow> string \<Rightarrow> string option \<Rightarrow> string option \<Rightarrow> string option \<Rightarrow>
     ('s, http_error, item_reply list \<times> js_number \<times> js_number) handler" where
  "listTransactions g userId limit offset includeFailed =
     bindH (callTransaction (gt_listUserTransactions g userId (gt_int32 g (resolved_limit limit)) (gt_int32 g (resolved_offset offset))
              (wire_bool (js_lower (js_trim (coalesce includeFailed ''false'')) = ''true'')))) (\<lambda>items s.
       case fetch_names g (fold add_user (concat (map item_users items)) []) s of (names, s') \<Rightarrow>
         (Inr (map (item_reply_of names) items, resolved_limit limit, resolved_offset offset), s'))"

definition gw_getTransaction :: "'s gateway \<Rightarrow> string \<Rightarrow> string \<Rightarrow> ('s, http_error, transaction_view \<times> js_number) handler" where
  "gw_getTransaction g userId transactionId =
     (if transactionId = [] \<or> transactionId = ''null'' \<or> transactionId = ''undefined''
      then throwH (BadRequestException ''transactionId is required'')
      else bindH (callTransaction (gt_getTransaction g transactionId)) (\<lambda>tx.
        if tv_fromUserId tx \<noteq> userId \<and> tv_toUserId tx \<noteq> userId
        then throwH (ForbiddenException ''Not authorized to view this transaction'')
        else returnH (tx, read_int64 (tv_amount tx))))"

section \<open>Wallets\<close>

definition gw_createWallet :: "'s gateway \<Rightarrow> string \<Rightarrow> string option \<Rightarrow> ('s, http_error, wallet_view \<times> js_number) handler" where
  "gw_createWallet g userId currency =
     bindH (mapErr (\<lambda>_. UncaughtError) (gt_createWallet g userId (Some (or_str currency ''VND'')))) (\<lambda>wallet.
     returnH (wallet, read_int64 (wv_balance wallet)))"

definition gw_getWallet :: "'s gateway \<Rightarrow> string \<Rightarrow> string \<Rightarrow> ('s, http_error, wallet_view \<times> js_number) handler" where
  "gw_getWallet g userId currency =
     bindH (mapErr (\<lambda>_. UncaughtError) (gt_getWallet g userId (or_null currency))) (\<lambda>wallet.
     returnH (wallet, read_int64 (wv_balance wallet)))"

end
