(* ===== verification/Gateway_Auth.thy ===== *)
theory Gateway_Auth
  imports Gateway
begin

text \<open>
  The API gateway, part two: the routes of authentication (\<^verbatim>\<open>api-gateway/src/auth/auth.controller.ts\<close>)
  and of notifications. Most of them forward: by gRPC, or as JSON over HTTP to the internal routes of
  the authentication service. A property of a body that is undefined is left out of its JSON.
\<close>

section \<open>Logging in over gRPC\<close>

definition callAuth :: "('s, grpc_failure, 'a) handler \<Rightarrow> ('s, http_error, 'a) handler" where
  "callAuth = mapErr (rethrowGrpcError ''Auth service'')"

record firebase_login_dto =
  ld_idToken :: string
  ld_email :: "string option"
  ld_phone :: "string option"
  ld_displayName :: "string option"

record dev_login_dto =
  vd_firebaseUid :: string
  vd_email :: "string option"
  vd_phone :: "string option"
  vd_displayName :: "string option"

text \<open>A string field of a message: what is undefined or empty is not sent.\<close>

definition wire_opt :: "string option \<Rightarrow> string option" where
  "wire_opt v = or_null (coalesce v [])"

text \<open>\<open>forwardedFor?.split(',')[0]?.trim()\<close>.\<close>

definition client_ip :: "string option \<Rightarrow> string option" where
  "client_ip forwardedFor =
     map_option (\<lambda>f. js_trim (case js_split (CHR '','') f of [] \<Rightarrow> [] | x # _ \<Rightarrow> x)) forwardedFor"

definition login_context :: "string option \<Rightarrow> string option \<Rightarrow> session_context" where
  "login_context userAgent forwardedFor =
     \<lparr>sc_userAgent = wire_opt userAgent, sc_ipAddress = wire_opt (client_ip forwardedFor)\<rparr>"

definition normalizeAuthResponse :: "'s gateway \<Rightarrow> auth_result \<Rightarrow> auth_result" where
  "normalizeAuthResponse g r = r\<lparr>ax_expiresIn := int64ToNumber (AmtInt64 (gt_int64 g (ax_expiresIn r)))\<rparr>"

definition verifyFirebase ::
    "'s gateway \<Rightarrow> firebase_login_dto \<Rightarrow> string option \<Rightarrow> string option \<Rightarrow> ('s, http_error, auth_result) handler" where
  "verifyFirebase g dto userAgent forwardedFor =
     (if ld_idToken dto = [] then throwH (UnauthorizedException ''idToken is required'')
      else bindH (callAuth (gt_verifyFirebaseToken g (ld_idToken dto) (login_context userAgent forwardedFor)
             \<lparr>ph_email = wire_opt (ld_email dto), ph_phone = wire_opt (ld_phone dto), ph_displayName = wire_opt (ld_displayName dto)\<rparr>)) (\<lambda>r.
           returnH (normalizeAuthResponse g r)))"

definition gw_devLogin ::
    "'s gateway \<Rightarrow> dev_login_dto \<Rightarrow> string option \<Rightarrow> string option \<Rightarrow> ('s, http_error, auth_result) handler" where
  "gw_devLogin g dto userAgent forwardedFor =
     bindH (callAuth (gt_devLogin g (vd_firebaseUid dto) (login_context userAgent forwardedFor)
       \<lparr>ph_email = wire_opt (vd_email dto), ph_phone = wire_opt (vd_phone dto), ph_displayName = wire_opt (vd_displayName dto)\<rparr>)) (\<lambda>r.
     returnH (normalizeAuthResponse g r))"

definition gw_refresh :: "'s gateway \<Rightarrow> string \<Rightarrow> string option \<Rightarrow> string option \<Rightarrow> ('s, http_error, auth_result) handler" where
  "gw_refresh g refreshToken userAgent forwardedFor =
     bindH (callAuth (gt_refreshToken g refreshToken (login_context userAgent forwardedFor))) (\<lambda>r.
     returnH (normalizeAuthResponse g r))"

definition gw_resolveLoginIdentifier :: "'s gateway \<Rightarrow> string \<Rightarrow> ('s, http_error, string option) handler" where
  "gw_resolveLoginIdentifier g identifier = callAuth (gt_resolveLoginIdentifier g (or_null identifier))"

definition gw_logout :: "'s gateway \<Rightarrow> string \<Rightarrow> ('s, http_error, unit) handler" where
  "gw_logout g refreshToken = callAuth (gt_logout g refreshToken)"

definition gw_logoutAll :: "'s gateway \<Rightarrow> string option \<Rightarrow> ('s, http_error, unit) handler" where
  "gw_logoutAll g auth =
     (case auth of
        None \<Rightarrow> throwH (UnauthorizedException ''Missing access token'')
      | Some a \<Rightarrow>
          if \<not> js_startsWith a ''Bearer '' then throwH (UnauthorizedException ''Missing access token'')
          else callAuth (gt_logoutAll g (js_trim (drop 7 a))))"

section \<open>Internal routes over HTTP\<close>

text \<open>\<open>`${parsed?.message ?? d}`\<close>; a body that is not JSON is the message itself.\<close>

definition parsed_body :: "http_body \<Rightarrow> json" where
  "parsed_body b = (case b of NoBody \<Rightarrow> JObject [] | JsonBody v \<Rightarrow> v | RawText t \<Rightarrow> JObject [(''message'', JString t)])"

definition http_failure :: "int \<Rightarrow> json \<Rightarrow> http_error" where
  "http_failure st parsed =
     (let message = (case json_prop ''message'' parsed of None \<Rightarrow> ''Auth helper request failed''
            | Some JNull \<Rightarrow> ''Auth helper request failed'' | Some v \<Rightarrow> js_string v)
      in if st = 404 then NotFoundException message
         else if st = 401 then UnauthorizedException message
         else if st = 403 then ForbiddenException message
         else if st = 400 then BadRequestException message
         else InternalServerErrorException message)"

definition callAuthInternal :: "'s gateway \<Rightarrow> string \<Rightarrow> http_method \<Rightarrow> js_object \<Rightarrow> ('s, http_error, json) handler" where
  "callAuthInternal g path method body s =
     (case gt_fetch g method (auth_base g @ path) (if method = GET then None else Some (JObject (defined_props body))) s of
        (Inl _, s') \<Rightarrow> (Inl (ServiceUnavailableException ''Auth service unavailable''), s')
      | (Inr (st, raw), s') \<Rightarrow>
          (if 400 \<le> st then Inl (http_failure st (parsed_body raw)) else Inr (parsed_body raw), s'))"

definition str :: "string \<Rightarrow> json option" where
  "str v = Some (JString v)"

definition opt_string :: "string option \<Rightarrow> json option" where
  "opt_string v = map_option JString v"

definition gw_checkSignUpAvailability :: "'s gateway \<Rightarrow> string option \<Rightarrow> string option \<Rightarrow> ('s, http_error, json) handler" where
  "gw_checkSignUpAvailability g email phone =
     callAuthInternal g ''/internal/auth/signup/check-availability'' POST
       [(''email'', str (coalesce email [])), (''phone'', str (coalesce phone []))]"

definition gw_sendSignUpEmailOtp :: "'s gateway \<Rightarrow> string \<Rightarrow> ('s, http_error, json) handler" where
  "gw_sendSignUpEmailOtp g email = callAuthInternal g ''/internal/auth/signup/email-otp/send'' POST [(''email'', str email)]"

definition gw_verifySignUpEmailOtp :: "'s gateway \<Rightarrow> string \<Rightarrow> string \<Rightarrow> ('s, http_error, json) handler" where
  "gw_verifySignUpEmailOtp g email otpCode =
     callAuthInternal g ''/internal/auth/signup/email-otp/verify'' POST [(''email'', str email), (''otpCode'', str otpCode)]"

definition gw_getProfile :: "'s gateway \<Rightarrow> string \<Rightarrow> ('s, http_error, json) handler" where
  "gw_getProfile g userId = callAuthInternal g (''/internal/auth/profile/'' @ encodeURIComponent userId) GET []"

definition gw_updateProfile :: "'s gateway \<Rightarrow> string \<Rightarrow> string option \<Rightarrow> string option \<Rightarrow> ('s, http_error, json) handler" where
  "gw_updateProfile g userId displayName phone =
     callAuthInternal g (''/internal/auth/profile/'' @ encodeURIComponent userId) PATCH
       [(''displayName'', opt_string displayName), (''phone'', opt_string phone)]"

definition gw_getKycProfile :: "'s gateway \<Rightarrow> string \<Rightarrow> ('s, http_error, json) handler" where
  "gw_getKycProfile g userId = callAuthInternal g (''/internal/auth/kyc/'' @ encodeURIComponent userId) GET []"

definition gw_submitKyc :: "'s gateway \<Rightarrow> string \<Rightarrow> kyc_request \<Rightarrow> ('s, http_error, json) handler" where
  "gw_submitKyc g userId dto =
     callAuthInternal g (''/internal/auth/kyc/'' @ encodeURIComponent userId @ ''/submit'') POST
       [(''fullName'', str (kq_fullName dto)), (''nationalId'', str (kq_nationalId dto)), (''dateOfBirth'', str (kq_dateOfBirth dto)),
        (''idIssueDate'', opt_string (kq_idIssueDate dto)), (''idIssuePlace'', opt_string (kq_idIssuePlace dto)),
        (''residentialAddress'', str (kq_residentialAddress dto))]"

definition gw_resolveRecipientByPhone :: "'s gateway \<Rightarrow> string \<Rightarrow> string \<Rightarrow> ('s, http_error, json) handler" where
  "gw_resolveRecipientByPhone g userId phone =
     callAuthInternal g ''/internal/auth/recipients/resolve-phone'' POST [(''phone'', str phone), (''requesterUserId'', str userId)]"

definition gw_issueQrTransferToken :: "'s gateway \<Rightarrow> string \<Rightarrow> ('s, http_error, json) handler" where
  "gw_issueQrTransferToken g userId = callAuthInternal g ''/internal/auth/qr-transfer/issue'' POST [(''userId'', str userId)]"

definition gw_resolveQrTransfer :: "'s gateway \<Rightarrow> string \<Rightarrow> ('s, http_error, json) handler" where
  "gw_resolveQrTransfer g token = callAuthInternal g ''/internal/auth/qr-transfer/resolve'' POST [(''token'', str token)]"

definition gw_issueOtp :: "'s gateway \<Rightarrow> string \<Rightarrow> string option \<Rightarrow> ('s, http_error, json) handler" where
  "gw_issueOtp g userId deviceId =
     callAuthInternal g ''/internal/auth/otp/issue'' POST
       [(''userId'', str userId), (''deviceId'', str (js_trim (coalesce deviceId [])))]"

definition gw_issueStepUpToken ::
    "'s gateway \<Rightarrow> string \<Rightarrow> string option \<Rightarrow> string option \<Rightarrow> string option \<Rightarrow> ('s, http_error, json) handler" where
  "gw_issueStepUpToken g userId deviceId method otpCode =
     callAuthInternal g ''/internal/auth/step-up/token'' POST
       [(''userId'', str userId), (''deviceId'', str (js_trim (coalesce deviceId []))),
        (''method'', str (coalesce method ''face'')), (''otpCode'', str (coalesce otpCode []))]"

definition gw_setPin :: "'s gateway \<Rightarrow> string \<Rightarrow> string \<Rightarrow> ('s, http_error, json) handler" where
  "gw_setPin g userId pin = callAuthInternal g ''/internal/auth/pin/set'' POST [(''userId'', str userId), (''pin'', str pin)]"

definition gw_verifyPin :: "'s gateway \<Rightarrow> string \<Rightarrow> string \<Rightarrow> ('s, http_error, json) handler" where
  "gw_verifyPin g userId pin = callAuthInternal g ''/internal/auth/pin/verify'' POST [(''userId'', str userId), (''pin'', str pin)]"

definition gw_getPinStatus :: "'s gateway \<Rightarrow> string \<Rightarrow> ('s, http_error, json) handler" where
  "gw_getPinStatus g userId = callAuthInternal g (''/internal/auth/pin/status/'' @ encodeURIComponent userId) GET []"

section \<open>Notifications\<close>

definition gw_listNotifications :: "'s gateway \<Rightarrow> string \<Rightarrow> string option \<Rightarrow> string option \<Rightarrow> ('s, http_error, notification_item list) handler" where
  "gw_listNotifications g userId limit offset =
     mapErr (\<lambda>_. UncaughtError) (gt_listNotifications g (or_null userId) (gt_int32 g (js_Number (coalesce limit ''20'')))
       (gt_int32 g (js_Number (coalesce offset ''0''))))"

definition gw_getSettings :: "'s gateway \<Rightarrow> string \<Rightarrow> ('s, http_error, notification_preference) handler" where
  "gw_getSettings g userId = mapErr (\<lambda>_. UncaughtError) (gt_getNotificationSettings g (or_null userId))"

definition gw_updateSettings :: "'s gateway \<Rightarrow> string \<Rightarrow> bool option \<Rightarrow> bool option \<Rightarrow> ('s, http_error, notification_preference) handler" where
  "gw_updateSettings g userId emailEnabled smsEnabled =
     mapErr (\<lambda>_. UncaughtError) (gt_updateNotificationSettings g (or_null userId)
       (emailEnabled \<noteq> None) (emailEnabled = Some True) (smsEnabled \<noteq> None) (smsEnabled = Some True))"

section \<open>Routes behind the guard\<close>

text \<open>
  The requests of a client to the guarded routes, each with what it carries besides the access token,
  and the handler that answers it. The user is the one of the token throughout.
\<close>

datatype route =
    PreviewRisk assess_transfer_dto "string option"
  | Transfer create_transfer_dto step_up_headers
  | AddFundingSource create_funding_source_dto
  | FundingSources
  | Topup create_topup_dto step_up_headers
  | Withdraw create_withdrawal_dto step_up_headers
  | Transactions "string option" "string option" "string option"
  | OneTransaction string
  | AddWallet "string option"
  | OneWallet string
  | Profile
  | ChangeProfile "string option" "string option"
  | KycProfile
  | SubmitKyc kyc_request
  | RecipientByPhone string
  | IssueQr
  | ResolveQr string
  | TransferCode "string option"
  | StepUpToken "string option" "string option" "string option"
  | SetPin string
  | CheckPin string
  | PinStatus
  | NotificationList "string option" "string option"
  | Settings
  | ChangeSettings "bool option" "bool option"

datatype answer =
    RiskAnswer risk_view
  | TransferAnswer transfer_reply
  | SourceAnswer funding_source_view
  | SourcesAnswer "funding_source_view list"
  | ItemsAnswer "item_reply list" js_number js_number
  | ItemAnswer transaction_view js_number
  | WalletAnswer wallet_view js_number
  | JsonAnswer json
  | NotificationsAnswer "notification_item list"
  | SettingsAnswer notification_preference

fun dispatch :: "'s gateway \<Rightarrow> string \<Rightarrow> route \<Rightarrow> ('s, http_error, answer) handler" where
  "dispatch g u (PreviewRisk dto dev) = mapH RiskAnswer (assessTransferRiskPreview g u dto dev)"
| "dispatch g u (Transfer dto h) = mapH TransferAnswer (gw_createTransfer g u dto h)"
| "dispatch g u (AddFundingSource dto) = mapH SourceAnswer (gw_createFundingSource g u dto)"
| "dispatch g u FundingSources = mapH SourcesAnswer (gw_listFundingSources g u)"
| "dispatch g u (Topup dto h) = mapH TransferAnswer (gw_createTopupIntent g u dto h)"
| "dispatch g u (Withdraw dto h) = mapH TransferAnswer (gw_createWithdrawalRequest g u dto h)"
| "dispatch g u (Transactions limit offset inc) = mapH (\<lambda>(xs, l, o'). ItemsAnswer xs l o') (listTransactions g u limit offset inc)"
| "dispatch g u (OneTransaction i) = mapH (\<lambda>(t, n). ItemAnswer t n) (gw_getTransaction g u i)"
| "dispatch g u (AddWallet c) = mapH (\<lambda>(w, n). WalletAnswer w n) (gw_createWallet g u c)"
| "dispatch g u (OneWallet c) = mapH (\<lambda>(w, n). WalletAnswer w n) (gw_getWallet g u c)"
| "dispatch g u Profile = mapH JsonAnswer (gw_getProfile g u)"
| "dispatch g u (ChangeProfile n p) = mapH JsonAnswer (gw_updateProfile g u n p)"
| "dispatch g u KycProfile = mapH JsonAnswer (gw_getKycProfile g u)"
| "dispatch g u (SubmitKyc dto) = mapH JsonAnswer (gw_submitKyc g u dto)"
| "dispatch g u (RecipientByPhone p) = mapH JsonAnswer (gw_resolveRecipientByPhone g u p)"
| "dispatch g u IssueQr = mapH JsonAnswer (gw_issueQrTransferToken g u)"
| "dispatch g u (ResolveQr t) = mapH JsonAnswer (gw_resolveQrTransfer g t)"
| "dispatch g u (TransferCode dev) = mapH JsonAnswer (gw_issueOtp g u dev)"
| "dispatch g u (StepUpToken dev m c) = mapH JsonAnswer (gw_issueStepUpToken g u dev m c)"
| "dispatch g u (SetPin p) = mapH JsonAnswer (gw_setPin g u p)"
| "dispatch g u (CheckPin p) = mapH JsonAnswer (gw_verifyPin g u p)"
| "dispatch g u PinStatus = mapH JsonAnswer (gw_getPinStatus g u)"
| "dispatch g u (NotificationList limit offset) = mapH NotificationsAnswer (gw_listNotifications g u limit offset)"
| "dispatch g u Settings = mapH SettingsAnswer (gw_getSettings g u)"
| "dispatch g u (ChangeSettings e s) = mapH SettingsAnswer (gw_updateSettings g u e s)"

definition serve :: "'s gateway \<Rightarrow> auth_header \<Rightarrow> route \<Rightarrow> ('s, http_error, answer) handler" where
  "serve g header r = guarded g header (\<lambda>u. dispatch g u r)"

end
