(* ===== verification/Gateway_Props.thy ===== *)
theory Gateway_Props
  imports Gateway_Auth
begin

text \<open>
  What the gateway guarantees whatever the services behind it are: the contract of the services as a
  locale and the requests that keep to it, the second factor, and the numbers it shows.
\<close>

section \<open>Handlers that stay within a relation\<close>

definition stays :: "('s \<Rightarrow> 's \<Rightarrow> bool) \<Rightarrow> ('s, 'e, 'a) handler \<Rightarrow> bool" where
  "stays R h = (\<forall>s. R s (snd (h s)))"

lemma staysD: "stays R h \<Longrightarrow> R s (snd (h s))"
  by (simp add: stays_def)

lemma snd_mapErr [simp]: "snd (mapErr f h s) = snd (h s)"
  by (simp add: mapErr_def split: prod.split sum.split)

lemma snd_bindH: "snd (bindH m f s) = (case fst (m s) of Inl e \<Rightarrow> snd (m s) | Inr x \<Rightarrow> snd (f x (snd (m s))))"
  by (cases "m s") (simp add: bindH_def split: sum.split)

text \<open>
  The contract of the services: every call the gateway makes for the user \<open>me\<close> moves the world along
  a relation, which is reflexive and transitive. Payments are made in the name of \<open>me\<close> only.
\<close>

locale gateway_world =
  fixes g :: "'s gateway" and R :: "'s \<Rightarrow> 's \<Rightarrow> bool" and me :: string
  assumes R_refl: "R s s"
    and R_trans: "R s t \<Longrightarrow> R t t' \<Longrightarrow> R s t'"
    and fetch_R: "stays R (gt_fetch g meth url body)"
    and assess_R: "stays R (gt_assessTransferRisk g q1)"
    and transfer_R: "tq_fromUserId q2 = or_null me \<Longrightarrow> stays R (gt_createTransfer g q2)"
    and source_R: "stays R (gt_createFundingSource g q3)"
    and sources_R: "stays R (gt_listFundingSources g u)"
    and topup_R: "uq_userId q4 = or_null me \<Longrightarrow> stays R (gt_createTopupIntent g q4)"
    and withdraw_R: "uq_userId q5 = or_null me \<Longrightarrow> stays R (gt_createWithdrawalRequest g q5)"
    and items_R: "stays R (gt_listUserTransactions g v l off inc)"
    and item_R: "stays R (gt_getTransaction g v)"
    and new_wallet_R: "stays R (gt_createWallet g v c)"
    and wallet_R: "stays R (gt_getWallet g v c)"
    and notes_R: "stays R (gt_listNotifications g u l off)"
    and settings_R: "stays R (gt_getNotificationSettings g u)"
    and change_R: "stays R (gt_updateNotificationSettings g u b1 b2 b3 b4)"
begin

lemma stays_bind: "stays R m \<Longrightarrow> (\<And>x. stays R (f x)) \<Longrightarrow> stays R (bindH m f)"
  unfolding stays_def snd_bindH using R_trans by (auto split: sum.split) blast

lemma stays_basic: "stays R (returnH x)" "stays R (throwH e)" "stays R (liftE r)"
  by (simp_all add: stays_def returnH_def throwH_def liftE_def R_refl)

lemma stays_map: "stays R h \<Longrightarrow> stays R (mapErr f h)" "stays R h1 \<Longrightarrow> stays R (callTransaction h1)" "stays R h2 \<Longrightarrow> stays R (mapH k h2)"
  by (simp_all add: stays_def callTransaction_def)

lemma stays_if: "stays R a \<Longrightarrow> stays R b \<Longrightarrow> stays R (if p then a else b)"
  by simp

lemma payments_R:
  "stays R (gt_createTransfer g (transfer_request g me dto1))" "stays R (gt_createTopupIntent g (topup_request g me dto2))"
  "stays R (gt_createWithdrawalRequest g (create_topup_request.extend (topup_request g me dto3) (create_withdrawal_request.fields b)))"
  by (rule transfer_R topup_R withdraw_R;
      simp add: transfer_request_def topup_request_def create_topup_request.defs create_withdrawal_request.defs)+

lemmas stays_rules = stays_bind stays_basic stays_map stays_if assess_R payments_R source_R sources_R items_R item_R
  new_wallet_R wallet_R notes_R settings_R change_R

lemma stays_risk: "stays R (gw_assessTransferRisk g u t a c dv x p n)"
  unfolding gw_assessTransferRisk_def by (intro stays_rules)

lemma verify_R: "R s (snd (gw_verifyStepUpToken g u dv t s))"
  using staysD [OF fetch_R [of POST "auth_base g @ ''/internal/auth/step-up/verify''"
    "Some (JObject [(''userId'', JString u), (''deviceId'', JString dv), (''stepUpToken'', JString t)])"], of s]
  by (auto simp add: gw_verifyStepUpToken_def split: prod.split sum.split http_body.split)

lemma stays_step_up: "stays R (requireStepUpIfNeeded g u dv h risk)"
proof -
  have "stays R (\<lambda>s. case gw_verifyStepUpToken g u dv t s of (ok, s') \<Rightarrow> if ok then (Inr (), s') else (Inl e, s'))" for t and e :: http_error
    using verify_R [of _ u dv t] by (auto simp add: stays_def split: prod.split) (metis snd_conv)+
  then show ?thesis unfolding requireStepUpIfNeeded_def Let_def by (intro stays_rules)
qed

lemma names_R: "R s (snd (fetch_names g us s))"
proof (induction us arbitrary: s)
  case (Cons u us)
  have "R s (snd (fetchDisplayName g u s))"
    using staysD [OF fetch_R [of GET "auth_base g @ ''/internal/auth/profile/'' @ encodeURIComponent u" None], of s] R_refl
    by (auto simp add: fetchDisplayName_def split: prod.split sum.split http_body.split)
  with Cons R_trans show ?case by (auto simp add: case_prod_unfold Let_def)
qed (simp add: R_refl)

lemma stays_items: "stays R (listTransactions g u l off inc)"
proof -
  have "stays R (\<lambda>s. case fetch_names g (fold add_user (concat (map item_users items)) []) s of (names, s') \<Rightarrow>
      (Inr (map (item_reply_of names) items, a, b), s'))" for items a b
    using names_R by (simp add: stays_def case_prod_unfold)
  then show ?thesis unfolding listTransactions_def by (intro stays_rules)
qed

lemma stays_target: "stays R (resolveFundingSourceRiskTarget g u i)"
proof -
  have "stays R (case x of None \<Rightarrow> throwH e | Some s \<Rightarrow> returnH (f s))" for x :: "'b option" and e :: http_error and f :: "'b \<Rightarrow> 'c"
    by (cases x) (simp_all add: stays_basic)
  then show ?thesis unfolding resolveFundingSourceRiskTarget_def by (intro stays_rules)
qed

lemma stays_prelude: "stays R (funding_prelude g u dto h)"
  unfolding funding_prelude_def case_prod_unfold by (intro stays_rules stays_target stays_risk stays_step_up)

lemma stays_internal: "stays R (callAuthInternal g path meth body)"
  using staysD [OF fetch_R [of meth "auth_base g @ path" "if meth = GET then None else Some (JObject (defined_props body))"]]
  by (auto simp add: stays_def callAuthInternal_def split: prod.split sum.split) (metis snd_conv)+

lemmas stays_routes = stays_rules stays_risk stays_step_up stays_items stays_prelude stays_internal

lemma stays_money:
  "stays R (assessTransferRiskPreview g u dto dev)" "stays R (gw_createTransfer g me dto1 h)" "stays R (gw_createFundingSource g u dto2)"
  "stays R (gw_createTopupIntent g me dto3 h)" "stays R (gw_createWithdrawalRequest g me dto4 h)" "stays R (gw_getTransaction g u i)"
  unfolding assessTransferRiskPreview_def gw_createTransfer_def assess_dto_def gw_createFundingSource_def gw_createTopupIntent_def
    gw_createWithdrawalRequest_def gw_getTransaction_def by (intro stays_routes)+

lemma stays_dispatch: "stays R (dispatch g me r)"
  by (cases r) (auto simp add: gw_listFundingSources_def gw_createWallet_def gw_getWallet_def gw_getProfile_def gw_updateProfile_def
    gw_getKycProfile_def gw_submitKyc_def gw_resolveRecipientByPhone_def gw_issueQrTransferToken_def gw_resolveQrTransfer_def gw_issueOtp_def
    gw_issueStepUpToken_def gw_setPin_def gw_verifyPin_def gw_getPinStatus_def gw_listNotifications_def gw_getSettings_def gw_updateSettings_def
    intro!: stays_money stays_routes)

lemma stays_serve:
  assumes "\<And>user. canActivate g header = Inr user \<Longrightarrow> gu_userId user = me"
  shows "stays R (serve g header r)"
  using assms stays_dispatch [of r] by (cases "canActivate g header") (simp_all add: serve_def guarded_def stays_def bindH_def liftE_def R_refl)

end

section \<open>The second factor\<close>

text \<open>The three routes that move money, with the step-up headers they carry.\<close>

fun headers_of :: "route \<Rightarrow> step_up_headers option" where
  "headers_of (Transfer dto h) = Some h"
| "headers_of (Topup dto h) = Some h"
| "headers_of (Withdraw dto h) = Some h"
| "headers_of r = None"

lemma face_skips: "sh_faceVerified h = Some ''true'' \<Longrightarrow> requireStepUpIfNeeded g u dv h risk = returnH ()"
  by (simp add: requireStepUpIfNeeded_def)

lemma fetch_not_needed:
  "gw_assessTransferRisk (g\<lparr>gt_fetch := f\<rparr>) = gw_assessTransferRisk g"
  "resolveFundingSourceRiskTarget (g\<lparr>gt_fetch := f\<rparr>) = resolveFundingSourceRiskTarget g"
  "transfer_request (g\<lparr>gt_fetch := f\<rparr>) = transfer_request g"
  "topup_request (g\<lparr>gt_fetch := f\<rparr>) u dto = topup_request g u dto"
  by (simp_all add: gw_assessTransferRisk_def resolveFundingSourceRiskTarget_def transfer_request_def topup_request_def key_or_fresh_def fun_eq_iff)

lemma face_header_dispatch:
  assumes "headers_of r = Some h" and "sh_faceVerified h = Some ''true''"
  shows "dispatch (g\<lparr>gt_fetch := f\<rparr>) u r = dispatch g u r"
  using assms(1)
  by (cases r) (simp_all add: gw_createTransfer_def gw_createTopupIntent_def gw_createWithdrawalRequest_def funding_prelude_def assess_dto_def
      face_skips [OF assms(2)] fetch_not_needed)

text \<open>
  The header x-face-verified with the value true, which the client sets, replaces the second factor: with it a
  transfer, a top-up or a withdrawal is answered the same whatever the authentication service says, so
  no step-up token is looked at.
\<close>

theorem face_header_skips_step_up:
  assumes "headers_of r = Some h" and "sh_faceVerified h = Some ''true''"
  shows "serve (g\<lparr>gt_fetch := f\<rparr>) header r = serve g header r"
proof -
  have "canActivate (g\<lparr>gt_fetch := f\<rparr>) = canActivate g" by (rule ext) (simp add: canActivate_def Let_def)
  then show ?thesis by (simp add: serve_def guarded_def face_header_dispatch [OF assms])
qed

section \<open>Numbers that are shown\<close>

lemma low_half: "sint (word_of_int a :: 32 word) = (a + 2 ^ 31) mod 2 ^ 32 - 2 ^ 31"
  by (simp add: sint_sbintrunc' signed_take_bit_eq_take_bit_shift take_bit_eq_mod)

lemma high_half:
  assumes "- (2 ^ 63) \<le> a" and "a < 2 ^ 63"
  shows "sint (word_of_int (a div 2 ^ 32) :: 32 word) = a div 2 ^ 32"
proof -
  have "- (2 ^ 31) \<le> a div 2 ^ 32" "a div 2 ^ 32 < 2 ^ 31" using assms by simp_all
  then show ?thesis by (simp add: low_half)
qed

text \<open>
  C28. A balance or an amount is shown exactly if and only if it is from 0 to 2^31 - 1, and otherwise as
  another number: up to 2^32 - 1 as a negative one, and anything else as 0.
\<close>

theorem int64_shown_exactly:
  assumes "- (2 ^ 63) \<le> a" and "a < 2 ^ 63"
  shows "read_int64 a = js_of_int (if 0 \<le> a \<and> a < 2 ^ 31 then a else if 0 \<le> a \<and> a < 2 ^ 32 then a - 2 ^ 32 else 0) \<and>
    (read_int64 a = js_of_int a \<longleftrightarrow> 0 \<le> a \<and> a < 2 ^ 31)"
proof -
  have read: "read_int64 a = (if 0 \<le> a \<and> a < 2 ^ 32 then js_of_int ((a + 2 ^ 31) mod 2 ^ 32 - 2 ^ 31) else js_of_int 0)"
    using high_half [OF assms] by (auto simp add: read_int64_def int64ToNumber_def int64_of_def low_half)
  have "(a + 2 ^ 31) mod 2 ^ 32 - 2 ^ 31 = (if a < 2 ^ 31 then a else a - 2 ^ 32)" if "0 \<le> a" "a < 2 ^ 32"
  proof (cases "a < 2 ^ 31")
    case False
    with that have "(a - 2 ^ 31) mod 2 ^ 32 = a - 2 ^ 31" by simp
    moreover have "(a + 2 ^ 31) mod 2 ^ 32 = (a - 2 ^ 31) mod 2 ^ 32"
      using minus_mod_self2 [of "a + 2 ^ 31" "2 ^ 32"] by simp
    ultimately show ?thesis using False by simp
  qed (use that in simp)
  then show ?thesis by (auto simp add: read js_of_int_def)
qed

theorem int64_shown_exactly_witness: "read_int64 2500000000 = js_of_int (- 1794967296)"
  using int64_shown_exactly [of 2500000000] by simp

end
