(* ===== verification/Kufi_System.thy ===== *)
theory Kufi_System
  imports Gateway_Props
begin

text \<open>
  The gateway in front of the services: the internal routes of the authentication service as an HTTP
  server, and the calls of the gateway answered by the models of the transaction, authentication and
  notification services over one world. A call may be lost on its way there or back. The framework
  answers 201 to a POST, 200 to another request, the status of an HTTP exception and 500 to any other
  error; a path parameter is decoded by \<open>ke_decode\<close>. Reading an identity profile is a parameter
  (\<open>ke_kyc\<close>), and the answer to a submitted one leaves out its dates and states. The check of bodies by
  the framework is left out: what it would refuse with 400 (an empty or missing field) reaches the route.
\<close>

section \<open>The internal routes of the authentication service\<close>

definition auth_status :: "auth_error \<Rightarrow> int \<times> http_body" where
  "auth_status e =
     (case e of
        AuthBadRequest m \<Rightarrow> (400, JsonBody (JObject [(''message'', JString m)]))
      | Unauthorized m \<Rightarrow> (401, JsonBody (JObject [(''message'', JString m)]))
      | _ \<Rightarrow> (500, JsonBody (JObject [(''message'', JString ''Internal server error'')])))"

definition reply_with :: "int \<Rightarrow> ('a \<Rightarrow> json) \<Rightarrow> 'a auth_handler \<Rightarrow> auth_db \<Rightarrow> (int \<times> http_body) \<times> auth_db" where
  "reply_with st f h d = (case h d of (Inl e, d') \<Rightarrow> (auth_status e, d') | (Inr x, d') \<Rightarrow> ((st, JsonBody (f x)), d'))"

definition profile_json :: "profile_view \<Rightarrow> json" where
  "profile_json p =
     JObject [(''userId'', JString (pv_userId p)), (''email'', JString (pv_email p)), (''phone'', JString (pv_phone p)),
       (''displayName'', JString (pv_displayName p)), (''kycStatus'', JString (pv_kycStatus p)),
       (''accountStatus'', JString (case pv_accountStatus p of ACC_ACTIVE \<Rightarrow> ''active'' | ACC_BLOCKED \<Rightarrow> ''blocked'' | ACC_LOCKED \<Rightarrow> ''locked''))]"

definition recipient_json :: "recipient_view option \<Rightarrow> json" where
  "recipient_json r =
     (case r of None \<Rightarrow> JObject [(''found'', JBool False)]
      | Some v \<Rightarrow> JObject [(''found'', JBool True), (''recipient'', JObject [(''userId'', JString (rv_userId v)), (''phone'', JString (rv_phone v)),
          (''displayName'', JString (rv_displayName v)), (''kycStatus'', JString (rv_kycStatus v))])])"

definition valid_json :: "bool \<Rightarrow> json" where
  "valid_json b = JObject [(''valid'', JBool b)]"

definition step_up_json :: "step_up_answer \<Rightarrow> json" where
  "step_up_json a =
     (case a of
        Challenge expiresIn \<Rightarrow> JObject [(''challengeIssued'', JBool True), (''method'', JString ''otp_email''),
          (''deliveryMode'', JString ''email''), (''expiresIn'', JNumber expiresIn)]
      | Granted token method expiresIn \<Rightarrow> JObject [(''stepUpToken'', JString token), (''method'', JString method), (''expiresIn'', JNumber expiresIn)])"

definition availability_json :: "(string \<times> bool \<times> bool) \<times> (string \<times> bool \<times> bool) \<Rightarrow> json" where
  "availability_json r =
     (let entry = (\<lambda>(value, valid, available). JObject [(''value'', JString value), (''valid'', JBool valid), (''available'', JBool available)])
      in JObject [(''email'', entry (fst r)), (''phone'', entry (snd r))])"

text \<open>A string of a body, and one that may be absent.\<close>

definition field :: "string \<Rightarrow> json \<Rightarrow> string" where
  "field k b = (case json_prop k b of Some (JString s) \<Rightarrow> s | _ \<Rightarrow> [])"

definition opt_field :: "string \<Rightarrow> json \<Rightarrow> string option" where
  "opt_field k b = (case json_prop k b of Some (JString s) \<Rightarrow> Some s | _ \<Rightarrow> None)"

definition kyc_of :: "json \<Rightarrow> kyc_request" where
  "kyc_of b =
     \<lparr>kq_fullName = field ''fullName'' b, kq_nationalId = field ''nationalId'' b, kq_dateOfBirth = field ''dateOfBirth'' b,
      kq_idIssueDate = opt_field ''idIssueDate'' b, kq_idIssuePlace = opt_field ''idIssuePlace'' b,
      kq_residentialAddress = field ''residentialAddress'' b\<rparr>"

text \<open>The routes without a parameter in their path.\<close>

definition auth_post :: "auth_env \<Rightarrow> string \<Rightarrow> json \<Rightarrow> (auth_db \<Rightarrow> (int \<times> http_body) \<times> auth_db) option" where
  "auth_post env path b =
     (if path = ''/internal/auth/step-up/verify''
      then Some (reply_with 201 valid_json (verifyStepUpToken env (field ''userId'' b) (field ''stepUpToken'' b) (opt_field ''deviceId'' b)))
      else if path = ''/internal/auth/step-up/token''
      then Some (reply_with 201 step_up_json
             (issueStepUpToken env (field ''userId'' b) (opt_field ''deviceId'' b) (opt_field ''method'' b) (opt_field ''otpCode'' b)))
      else if path = ''/internal/auth/otp/issue''
      then Some (reply_with 201 (\<lambda>(code, expiresIn). JObject [(''otpCode'', JString code), (''expiresIn'', JNumber expiresIn),
             (''deliveryMode'', JString ''smart_otp'')]) (issueOtp env (field ''userId'' b) (opt_field ''deviceId'' b)))
      else if path = ''/internal/auth/pin/set''
      then Some (reply_with 201 (\<lambda>_. JObject [(''success'', JBool True), (''message'', JString ''PIN da duoc thiet lap thanh cong.'')]) (setPin_route env (field ''userId'' b) (field ''pin'' b)))
      else if path = ''/internal/auth/pin/verify''
      then Some (reply_with 201 valid_json (verifyPin env (field ''userId'' b) (field ''pin'' b)))
      else if path = ''/internal/auth/recipients/resolve-phone''
      then Some (reply_with 201 recipient_json (resolveRecipient_route env (field ''phone'' b) (opt_field ''requesterUserId'' b)))
      else if path = ''/internal/auth/qr-transfer/issue''
      then Some (reply_with 201 (\<lambda>(token, expiresIn). JObject [(''token'', JString token), (''expiresIn'', JNumber expiresIn)])
             (issueQrTransferToken env (field ''userId'' b)))
      else if path = ''/internal/auth/qr-transfer/resolve''
      then Some (reply_with 201 recipient_json (resolveQrTransferToken env (field ''token'' b)))
      else if path = ''/internal/auth/signup/check-availability''
      then Some (reply_with 201 availability_json (checkSignUpAvailability (opt_field ''email'' b) (opt_field ''phone'' b)))
      else if path = ''/internal/auth/signup/email-otp/send''
      then Some (reply_with 201 (\<lambda>expiresIn. JObject [(''sent'', JBool True), (''deliveryMode'', JString ''email''), (''expiresIn'', JNumber expiresIn)])
             (sendSignUpEmailOtp env (field ''email'' b)))
      else if path = ''/internal/auth/signup/email-otp/verify''
      then Some (reply_with 201 valid_json (verifySignUpEmailOtp env (field ''email'' b) (field ''otpCode'' b)))
      else None)"

text \<open>\<open>strip_prefix p s\<close> is what follows p in s.\<close>

definition strip_prefix :: "string \<Rightarrow> string \<Rightarrow> string option" where
  "strip_prefix p s = (if js_startsWith s p then Some (drop (length p) s) else None)"

definition not_found :: "auth_db \<Rightarrow> (int \<times> http_body) \<times> auth_db" where
  "not_found d = ((404, JsonBody (JObject [(''message'', JString ''Not Found'')])), d)"

definition auth_http ::
    "auth_env \<Rightarrow> (string \<Rightarrow> string) \<Rightarrow> (string \<Rightarrow> auth_db \<Rightarrow> int \<times> http_body) \<Rightarrow> http_method \<Rightarrow> string \<Rightarrow> json option \<Rightarrow>
     auth_db \<Rightarrow> (int \<times> http_body) \<times> auth_db" where
  "auth_http env decode kyc method path body =
     (let b = coalesce body JNull; profile = strip_prefix ''/internal/auth/profile/'' path;
          status = strip_prefix ''/internal/auth/pin/status/'' path; kycPath = strip_prefix ''/internal/auth/kyc/'' path
      in case (if method = POST then auth_post env path b else None) of
           Some h \<Rightarrow> h
         | None \<Rightarrow>
             if method = GET \<and> profile \<noteq> None then reply_with 200 profile_json (getProfile (decode (the profile)))
             else if method = PATCH \<and> profile \<noteq> None
             then reply_with 200 profile_json (updateProfile env (decode (the profile)) (opt_field ''displayName'' b) (opt_field ''phone'' b))
             else if method = GET \<and> status \<noteq> None
             then reply_with 200 (\<lambda>v. JObject [(''hasPin'', JBool v)]) (getPinStatus (decode (the status)))
             else if method = GET \<and> kycPath \<noteq> None then (\<lambda>d. (kyc (decode (the kycPath)) d, d))
             else if method = POST \<and> kycPath \<noteq> None \<and> endsWith (the kycPath) ''/submit''
             then reply_with 201 (\<lambda>r. JObject [(''message'', JString ''Da gui ho so KYC thanh cong.''), (''profile'', JObject [(''userId'', JString (ky_userId r)), (''fullName'', JString (ky_fullName r)),
                    (''nationalId'', JString (ky_nationalId r)), (''residentialAddress'', JString (ky_residentialAddress r))])])
                    (submitKyc env (decode (take (length (the kycPath) - 7) (the kycPath))) (kyc_of b))
             else not_found)"

section \<open>The world behind the gateway\<close>

record kufi_world =
  kw_db :: db
  kw_cache :: "(string \<times> cached_stats) list"
  kw_auth :: auth_db
  kw_notes :: note_world

text \<open>Whether a call arrives, is lost before it is served, or its answer is lost.\<close>

datatype delivery = Delivered | RequestLost grpc_failure | AnswerLost grpc_failure

record kufi_env =
  ke_cfg :: "string \<Rightarrow> string option"
  ke_uuid :: string
  ke_int64 :: "js_number \<Rightarrow> grpc_int64"
  ke_int32 :: "js_number \<Rightarrow> int option"
  ke_jwt :: "string \<Rightarrow> string \<Rightarrow> string \<Rightarrow> json option"
  ke_tx :: svc_env
  ke_ato :: ato_env
  ke_where :: "bool \<Rightarrow> bool \<Rightarrow> bool \<Rightarrow> bool"
  ke_auth :: auth_env
  ke_note :: note_env
  ke_decode :: "string \<Rightarrow> string"
  ke_kyc :: "string \<Rightarrow> auth_db \<Rightarrow> int \<times> http_body"
  ke_delivery :: "string \<Rightarrow> delivery"

definition deliver :: "kufi_env \<Rightarrow> string \<Rightarrow> (kufi_world, grpc_failure, 'a) handler \<Rightarrow> (kufi_world, grpc_failure, 'a) handler" where
  "deliver ke name h w =
     (case ke_delivery ke name of
        Delivered \<Rightarrow> h w | RequestLost f \<Rightarrow> (Inl f, w) | AnswerLost f \<Rightarrow> (Inl f, snd (h w)))"

definition rpc_failure :: "int \<Rightarrow> string \<Rightarrow> string \<Rightarrow> grpc_failure" where
  "rpc_failure code name details =
     \<lparr>gf_code = js_of_int code, gf_details = Some details, gf_message = Some (int_digits code @ '' '' @ name @ '': '' @ details)\<rparr>"

definition tx_failure :: "rpc_error \<Rightarrow> grpc_failure" where
  "tx_failure e = (case re_code e of INVALID_ARGUMENT \<Rightarrow> rpc_failure 3 ''INVALID_ARGUMENT'' (re_message e)
     | UNKNOWN \<Rightarrow> rpc_failure 2 ''UNKNOWN'' (re_message e))"

definition auth_failure :: "auth_code \<times> string \<Rightarrow> grpc_failure" where
  "auth_failure e = (case fst e of AC_INVALID_ARGUMENT \<Rightarrow> rpc_failure 3 ''INVALID_ARGUMENT'' (snd e)
     | AC_UNAUTHENTICATED \<Rightarrow> rpc_failure 16 ''UNAUTHENTICATED'' (snd e) | AC_INTERNAL \<Rightarrow> rpc_failure 13 ''INTERNAL'' (snd e))"

definition note_failure :: "note_rpc_error \<Rightarrow> grpc_failure" where
  "note_failure e = (case e of NoteRpc code m \<Rightarrow> rpc_failure code (if code = 3 then ''INVALID_ARGUMENT'' else ''INTERNAL'') m
     | NoteUncaught \<Rightarrow> rpc_failure 2 ''UNKNOWN'' ''Internal server error'')"

definition on_db :: "(db, rpc_error, 'a) handler \<Rightarrow> (kufi_world, grpc_failure, 'a) handler" where
  "on_db h w = (case h (kw_db w) of (r, d) \<Rightarrow> (case r of Inl e \<Rightarrow> Inl (tx_failure e) | Inr x \<Rightarrow> Inr x, w\<lparr>kw_db := d\<rparr>))"

definition on_risk :: "(risk_state, rpc_error, 'a) handler \<Rightarrow> (kufi_world, grpc_failure, 'a) handler" where
  "on_risk h w =
     (case h \<lparr>rs_db = kw_db w, rs_cache = kw_cache w\<rparr> of (r, s) \<Rightarrow>
        (case r of Inl e \<Rightarrow> Inl (tx_failure e) | Inr x \<Rightarrow> Inr x, w\<lparr>kw_db := rs_db s, kw_cache := rs_cache s\<rparr>))"

definition on_auth :: "'a auth_rpc \<Rightarrow> (kufi_world, grpc_failure, 'a) handler" where
  "on_auth h w = (case h (kw_auth w) of (r, d) \<Rightarrow> (case r of Inl e \<Rightarrow> Inl (auth_failure e) | Inr x \<Rightarrow> Inr x, w\<lparr>kw_auth := d\<rparr>))"

definition on_notes :: "(note_world, note_rpc_error, 'a) handler \<Rightarrow> (kufi_world, grpc_failure, 'a) handler" where
  "on_notes h w =
     (case h ((kw_notes w)\<lparr>nw_tx := kw_db w\<rparr>) of (r, n) \<Rightarrow>
        (case r of Inl e \<Rightarrow> Inl (note_failure e) | Inr x \<Rightarrow> Inr x, w\<lparr>kw_notes := n, kw_db := nw_tx n\<rparr>))"

text \<open>The fields of an answer that its message declares.\<close>

definition sent_transfer :: "transfer_response \<Rightarrow> transfer_response" where
  "sent_transfer r = r\<lparr>rs_fromUserId := [], rs_toUserId := []\<rparr>"

definition sent_item :: "transaction_view \<Rightarrow> transaction_view" where
  "sent_item v = v\<lparr>tv_isExternal := False, tv_externalAccountNo := [], tv_chainTxId := []\<rparr>"

definition no_item :: transaction_view where
  "no_item =
     \<lparr>tv_transactionId = [], tv_idempotencyKey = [], tv_type = [], tv_status = ''NOT_FOUND'', tv_settlementStatus = [], tv_chainStatus = [],
      tv_fromUserId = [], tv_toUserId = [], tv_amount = 0, tv_currency = [], tv_memo = [], tv_isExternal = False, tv_externalPartner = [],
      tv_externalAccountNo = [], tv_externalRef = [], tv_chainTxId = [], tv_receiptJson = [], tv_errorCode = [],
      tv_errorMessage = ''Transaction not found'', tv_createdAt = []\<rparr>"

definition kufi_fetch :: "kufi_env \<Rightarrow> string \<Rightarrow> http_method \<Rightarrow> string \<Rightarrow> json option \<Rightarrow> (kufi_world, unit, int \<times> http_body) handler" where
  "kufi_fetch ke base method url body w =
     (case strip_prefix base url of
        None \<Rightarrow> (Inl (), w)
      | Some path \<Rightarrow>
          (case ke_delivery ke path of
             RequestLost _ \<Rightarrow> (Inl (), w)
           | AnswerLost _ \<Rightarrow> (Inl (), w\<lparr>kw_auth := snd (auth_http (ke_auth ke) (ke_decode ke) (ke_kyc ke) method path body (kw_auth w))\<rparr>)
           | Delivered \<Rightarrow>
               (case auth_http (ke_auth ke) (ke_decode ke) (ke_kyc ke) method path body (kw_auth w) of
                  (r, d) \<Rightarrow> (Inr r, w\<lparr>kw_auth := d\<rparr>))))"

definition kufi_base :: "kufi_env \<Rightarrow> string" where
  "kufi_base ke =
     or_str (Some (rev (dropWhile (\<lambda>c. c = CHR ''/'') (rev (js_trim (coalesce (ke_cfg ke ''AUTH_HTTP_URL'') [])))))) ''http://auth-service:3001''"

definition kufi_gateway :: "kufi_env \<Rightarrow> kufi_world gateway" where
  "kufi_gateway ke =
     \<lparr>gt_cfg = ke_cfg ke, gt_uuid = ke_uuid ke, gt_int64 = ke_int64 ke, gt_int32 = ke_int32 ke, gt_verifyJwt = ke_jwt ke,
      gt_fetch = kufi_fetch ke (kufi_base ke),
      gt_assessTransferRisk = (\<lambda>q. deliver ke ''AssessTransferRisk'' (on_risk (rpc_assessTransferRisk (ke_ato ke) q))),
      gt_createTransfer = (\<lambda>q. deliver ke ''CreateTransfer'' (mapH sent_transfer (on_db (rpc_createTransfer (ke_tx ke) q)))),
      gt_createFundingSource = (\<lambda>q. deliver ke ''CreateFundingSource'' (on_db (rpc_createFundingSource (ke_tx ke) q))),
      gt_listFundingSources = (\<lambda>u. deliver ke ''ListFundingSources'' (on_db (rpc_listFundingSources u))),
      gt_createTopupIntent = (\<lambda>q. deliver ke ''CreateTopupIntent'' (mapH sent_transfer (on_db (rpc_createTopupIntent (ke_tx ke) q)))),
      gt_createWithdrawalRequest = (\<lambda>q. deliver ke ''CreateWithdrawalRequest''
        (mapH sent_transfer (on_db (rpc_createWithdrawalRequest (ke_tx ke) q)))),
      gt_listUserTransactions = (\<lambda>u l o' i. deliver ke ''ListUserTransactions''
        (mapH (map sent_item) (on_db (rpc_listUserTransactions (ke_where ke) u l o' i)))),
      gt_getTransaction = (\<lambda>i. deliver ke ''GetTransaction''
        (mapH (\<lambda>v. case v of None \<Rightarrow> no_item | Some x \<Rightarrow> sent_item x) (on_db (rpc_getTransaction (ke_tx ke) i)))),
      gt_createWallet = (\<lambda>u c. deliver ke ''CreateWallet'' (on_db (rpc_createWallet (ke_tx ke) u c))),
      gt_getWallet = (\<lambda>u c. deliver ke ''GetWallet'' (on_db (rpc_getWallet u c))),
      gt_verifyFirebaseToken = (\<lambda>t c h. deliver ke ''VerifyFirebaseToken'' (on_auth (rpc_verifyFirebaseToken (ke_auth ke) t c h))),
      gt_devLogin = (\<lambda>t c h. deliver ke ''DevLogin'' (on_auth (rpc_devLogin (ke_auth ke) t c h))),
      gt_refreshToken = (\<lambda>t c. deliver ke ''RefreshToken'' (on_auth (rpc_refreshToken (ke_auth ke) t c))),
      gt_resolveLoginIdentifier = (\<lambda>i. deliver ke ''ResolveLoginIdentifier'' (on_auth (rpc_resolveLoginIdentifier i))),
      gt_logout = (\<lambda>t. deliver ke ''Logout'' (on_auth (rpc_logout (ke_auth ke) t))),
      gt_logoutAll = (\<lambda>t. deliver ke ''LogoutAll'' (on_auth (rpc_logoutAll (ke_auth ke) t))),
      gt_listNotifications = (\<lambda>u l o'. deliver ke ''ListNotifications'' (on_notes (rpc_listNotifications u l o'))),
      gt_getNotificationSettings = (\<lambda>u. deliver ke ''GetNotificationSettings'' (on_notes (rpc_getNotificationSettings (ke_note ke) u))),
      gt_updateNotificationSettings = (\<lambda>u he e hs s. deliver ke ''UpdateNotificationSettings''
        (on_notes (rpc_updateNotificationSettings (ke_note ke) u he e hs s)))\<rparr>"

section \<open>A request to run\<close>

text \<open>Two users, the first with 1000 in the wallet; the risk service asks for a second factor from 50 on.\<close>

definition demo_env :: kufi_env where
  "demo_env =
     \<lparr>ke_cfg = Map.empty, ke_uuid = ''k9'', ke_int64 = (\<lambda>n. int64_of (js_int n)), ke_int32 = (\<lambda>n. Some (js_int n)),
      ke_jwt = (\<lambda>_ _ t. Some (JObject [(''sub'', JString t)])), ke_tx = example_env, ke_ato = sample_ato_env,
      ke_where = (\<lambda>a b c. a \<and> b \<and> c), ke_auth = sample_auth_env, ke_note = sample_note_env, ke_decode = (\<lambda>s. s),
      ke_kyc = (\<lambda>_ _. (404, NoBody)), ke_delivery = (\<lambda>_. Delivered)\<rparr>"

definition demo_token :: step_up_token where
  "demo_token = \<lparr>su_id = ''s1'', su_token = ''t1'', su_userId = ''u1'', su_deviceId = None, su_method = None, su_expiresAt = 9\<rparr>"

definition demo_world :: kufi_world where
  "demo_world =
     \<lparr>kw_db = store2, kw_cache = [], kw_auth = sample_auth_db\<lparr>ad_tokens := [demo_token]\<rparr>, kw_notes = sample_notes\<rparr>"

definition demo_transfer :: create_transfer_dto where
  "demo_transfer =
     \<lparr>cd_toUserId = Some ''u2'', cd_recipient = None, cd_amount = js_of_int 300, cd_currency = ''VND'', cd_isExternal = None,
      cd_externalPartner = None, cd_externalAccountNo = None, cd_memo = None, cd_otpCode = ''1'', cd_idempotencyKey = None\<rparr>"

definition demo_headers :: step_up_headers where
  "demo_headers = \<lparr>sh_deviceId = None, sh_faceVerified = None, sh_stepUpToken = Some ''t1''\<rparr>"

abbreviation demo_bearer :: auth_header where
  "demo_bearer \<equiv> HeaderText ''Bearer u1''"

definition demo_topup :: create_topup_dto where
  "demo_topup = \<lparr>ud_fundingSourceId = ''f1'', ud_amount = js_of_int 60, ud_currency = ''VND'', ud_memo = None, ud_idempotencyKey = None\<rparr>"

definition demo_start :: kufi_world where
  "demo_start = demo_world\<lparr>kw_db := empty_db\<lparr>d_sources := [example_source]\<rparr>\<rparr>"

lemma demo_user: "canActivate (kufi_gateway demo_env) demo_bearer = Inr \<lparr>gu_userId = ''u1'', gu_firebaseUid = [], gu_kycStatus = []\<rparr>"
proof -
  have "js_trim ''u1'' = ''u1''" by code_simp
  then show ?thesis
    by (simp add: canActivate_def kufi_gateway_def demo_env_def header_text_def js_startsWith_def json_prop_def prop_text_def Let_def)
qed

end
