(* ===== verification/Kufi_Props.thy ===== *)
theory Kufi_Props
  imports Kufi_System
begin

text \<open>
  What a client gets through the gateway from the services behind it: every request, from anybody, is
  made of steps of the ledger; a transaction is shown to its parties only; a payment that needs a
  second factor and does not claim a face check is backed by a token of the payer.
\<close>

section \<open>Every call is made of steps\<close>

lemma keeps_iff: "keeps P m \<longleftrightarrow> (\<forall>s. P s \<longrightarrow> P (snd (m s)))"
  unfolding keeps_def triple_def by (rule all_cong1) (auto split: prod.split sum.split)

lemma keeps_wraps: "keeps P h \<Longrightarrow> keeps P (wrapGrpc h)" "keeps P' h' \<Longrightarrow> keeps P' (mapH f h')"
  by (simp_all add: keeps_iff)

lemma keeps_same: "keeps P (\<lambda>d. (r d, d))" "keeps P' (liftE e)" "keeps P'' (throwH x)"
  by (simp_all add: keeps_iff liftE_def throwH_def)

lemma keeps_found: "keeps P h \<Longrightarrow> keeps P (case x of Some w \<Rightarrow> returnH w | None \<Rightarrow> h)"
  by (cases x) (simp_all add: keeps_basic)

lemma keeps_insert_else:
  assumes "\<And>x d d'. P d \<Longrightarrow> ins d = Inr (x, d') \<Longrightarrow> P d'" and "\<And>d. P d \<Longrightarrow> P (others d)"
  shows "keeps P (\<lambda>d. case ins d of Inr (x, d') \<Rightarrow> (Inr x, d')
    | Inl err \<Rightarrow> let d1 = others d in case look d1 of Some x \<Rightarrow> (Inr x, d1) | None \<Rightarrow> (Inl err, d1))"
  using assms by (auto simp add: keeps_iff Let_def split: sum.split option.split)

lemma keeps_interfere: "(\<And>d. P d \<Longrightarrow> P (others d)) \<Longrightarrow> keeps P (interfere others)"
  by (simp add: keeps_iff interfere_def)

lemma keeps_atomic: "(\<And>x d d'. P d \<Longrightarrow> u d = Inr (x, d') \<Longrightarrow> P d') \<Longrightarrow> keeps P (atomic u)"
  by (auto simp add: keeps_iff atomic_def split: sum.split)

lemma keeps_let: "keeps P (f x) \<Longrightarrow> keeps P (let y = x in f y)"
  by simp

lemmas keeps_rules = keeps_let keeps_bindH keeps_basic keeps_same keeps_wraps keeps_found keeps_insert_else

text \<open>
  A predicate on the store that the single writes of wallets, funding sources and receipts keep, whatever
  other requests do in between. A receipt is saved on the row that was read before the others ran.
\<close>

locale store_safety =
  fixes P :: "db \<Rightarrow> bool" and env :: svc_env
  assumes others_P: "P d \<Longrightarrow> P (e_others env k d)"
    and wallet_P: "P d \<Longrightarrow> insert_wallet now u c d = Inr (w, d') \<Longrightarrow> P d'"
    and source_P: "P d \<Longrightarrow> insert_source now s d = Inr (x, d') \<Longrightarrow> P d'"
    and save_P: "P d \<Longrightarrow> t \<in> set (d_txs d) \<Longrightarrow> tx_core t' = tx_core t \<Longrightarrow> save_tx t' (e_others env k d) = Inr (y, d') \<Longrightarrow> P d'"
begin

lemma keeps_awaits: "keeps P (gap env k)"
  unfolding gap_def by (intro keeps_interfere others_P)

lemma keeps_createWallet: "keeps P (createWallet env u c)"
  unfolding createWallet_def by (intro keeps_rules keeps_awaits) (auto intro: wallet_P others_P)

lemma keeps_createFundingSource: "keeps P (createFundingSource env q)"
  unfolding createFundingSource_def by (intro keeps_rules keeps_awaits) (auto intro: source_P others_P)

lemma keeps_getTransaction: "keeps P (rpc_getTransaction env i)"
proof -
  have save: "P d'" if "P d" "t \<in> set (d_txs d)" "save_tx (t\<lparr>tx_receiptJson := r, tx_chainLastAttemptAt := a\<rparr>) (e_others env 0 d) = Inr (y, d')"
    for t d r a y d' using save_P [OF that(1,2) _ that(3)] by (simp add: tx_core_def)
  have "P (snd (refreshAnchoredReceiptTransparency env t d))" if "P d" "t \<in> set (d_txs d)" for t d
    using that others_P save [OF that]
    by (auto simp add: refreshAnchoredReceiptTransparency_def Let_def split: option.split sum.split)
  then show ?thesis
    by (auto simp add: keeps_iff rpc_getTransaction_def getTransaction_def case_prod_unfold Let_def dest: find_txD split: option.split)
qed

end

text \<open>Reaching a store by steps of the ledger is such a predicate.\<close>

lemma source_step: "insert_source now s d = Inr (x, d') \<Longrightarrow> ledger_step d d'"
  by (rule ledger_step.other) (auto simp add: insert_source_def Let_def split: if_splits)

lemma via_others: "others_step env \<Longrightarrow> via d0 T d \<Longrightarrow> via d0 T (e_others env k d)"
  using via_steps by (auto simp add: others_step_def)

interpretation stepping: store_safety "\<lambda>d. others_step env \<longrightarrow> via d0 {} d" env for d0 env
proof unfold_locales
  fix d d' k t t' y
  assume a: "others_step env \<longrightarrow> via d0 {} d" "t \<in> set (d_txs d)" "tx_core t' = tx_core t" "save_tx t' (e_others env k d) = Inr (y, d')"
  show "others_step env \<longrightarrow> via d0 {} d'"
  proof
    assume fair: "others_step env"
    then have o: "via d0 {t} (e_others env k d)" using a(1,2) by (intro via_others via_insert) auto
    then obtain t0 where "t0 \<in> set (d_txs (e_others env k d))" "tx_core t0 = tx_core t'" using a(3) unfolding via_def by auto
    then show "via d0 {} d'" using via_step [OF via_forget [OF o] ledger_step.save [OF _ _ a(4)]] by simp
  qed
qed (auto intro: via_others via_step source_step ledger_step.new_wallet)

lemma keeps_money:
  assumes "others_step env"
  shows "keeps (via d0 {}) (createTransfer env q1)" "keeps (via d0 {}) (createTopupIntent env q2)"
    "keeps (via d0 {}) (createWithdrawalRequest env q3)"
  unfolding keeps_def using createTransfer_via createTopupIntent_via createWithdrawalRequest_via assms by blast+

lemma keeps_rows:
  assumes "others_step env"
  shows "keeps (via d0 {}) (createWallet env u c)" "keeps (via d0 {}) (createFundingSource env q)" "keeps (via d0 {}) (rpc_getTransaction env i)"
  using stepping.keeps_createWallet [of env d0 u c] stepping.keeps_createFundingSource [of env d0 q] stepping.keeps_getTransaction [of env d0 i]
    assms by simp_all

section \<open>The risk assessment and the notifications\<close>

lemma keeps_risk:
  assumes "\<And>s. P (rs_db s) \<Longrightarrow> P (rs_db (a_others env s))"
  shows "keeps (\<lambda>s. P (rs_db s)) (rpc_assessTransferRisk env q)"
proof -
  let ?P = "\<lambda>s. P (rs_db s)"
  have others: "keeps ?P (interfere (a_others env))" by (intro keeps_interfere assms)
  have "keeps ?P (queryDestinationStats env r)" for r
    unfolding queryDestinationStats_def by (intro keeps_rules others keeps_atomic) (auto simp add: modifyU_def)
  then have "keeps ?P (getDestinationStats env r)" for r
    by (auto simp add: getDestinationStats_def split: option.split intro!: keeps_rules)
  then have "keeps ?P (assessTransferRisk env q)"
    unfolding assessTransferRisk_def by (intro keeps_rules others)
  then show ?thesis by (auto simp add: keeps_iff rpc_assessTransferRisk_def split: prod.split sum.split)
qed

lemma keeps_notes_read: "keeps P (rpc_listNotifications u l off)"
  unfolding rpc_listNotifications_def by (rule keeps_basic)

lemma keeps_notes:
  assumes "\<And>n. P (nw_tx n) \<Longrightarrow> P (nw_tx (ne_others env n))"
  shows "keeps (\<lambda>n. P (nw_tx n)) (rpc_getNotificationSettings env u)"
    "keeps (\<lambda>n. P (nw_tx n)) (rpc_updateNotificationSettings env u b1 b2 b3 b4)"
proof -
  let ?P = "\<lambda>n. P (nw_tx n)"
  have others: "keeps ?P (note_await env)" unfolding note_await_def by (intro keeps_interfere assms)
  have prefs: "keeps ?P (atomic (insert_preference p))" "keeps ?P (atomic (save_preference p))" for p
    by (intro keeps_atomic; auto simp add: insert_preference_def save_preference_def Let_def split: if_splits)+
  have get: "keeps ?P (getNotificationSettings env v)" for v
    unfolding getNotificationSettings_def by (intro keeps_rules others prefs)
  moreover have "keeps ?P (updateNotificationSettings env v x y)" for v x y
    unfolding updateNotificationSettings_def by (intro keeps_rules others prefs get)
  ultimately show "keeps ?P (rpc_getNotificationSettings env u)"
    "keeps ?P (rpc_updateNotificationSettings env u b1 b2 b3 b4)"
    by (auto simp add: keeps_iff rpc_getNotificationSettings_def rpc_updateNotificationSettings_def split: prod.split sum.split)
      (metis snd_conv)+
qed

section \<open>The services keep the contract of the gateway\<close>

text \<open>From a store with I, the store moves along C.\<close>

definition db_moves :: "(db \<Rightarrow> bool) \<Rightarrow> (db \<Rightarrow> db \<Rightarrow> bool) \<Rightarrow> kufi_world \<Rightarrow> kufi_world \<Rightarrow> bool" where
  "db_moves I C w w' \<longleftrightarrow> (I (kw_db w) \<longrightarrow> C (kw_db w) (kw_db w'))"

lemma moves_map: "stays R h \<Longrightarrow> stays R (mapH f h)"
  by (simp add: stays_def)

lemma moves_calls:
  assumes "\<And>d. I d \<Longrightarrow> C d d"
  shows "stays (db_moves I C) h \<Longrightarrow> stays (db_moves I C) (deliver ke name h)"
    "(\<And>d. I d \<Longrightarrow> keeps (C d) h1) \<Longrightarrow> stays (db_moves I C) (on_db h1)"
    "(\<And>d. I d \<Longrightarrow> keeps (\<lambda>s. C d (rs_db s)) h2) \<Longrightarrow> stays (db_moves I C) (on_risk h2)"
    "(\<And>d. I d \<Longrightarrow> keeps (\<lambda>n. C d (nw_tx n)) h3) \<Longrightarrow> stays (db_moves I C) (on_notes h3)"
  using assms
  by (auto simp add: stays_def deliver_def db_moves_def on_db_def on_risk_def on_notes_def case_prod_unfold keeps_iff split: delivery.split)

lemma fetch_db: "kw_db (snd (kufi_fetch ke base meth url body w)) = kw_db w"
  by (simp add: kufi_fetch_def split: option.split delivery.split prod.split)

lemma moves_fetch: "(\<And>d. I d \<Longrightarrow> C d d) \<Longrightarrow> stays (db_moves I C) (kufi_fetch ke base meth url body)"
  by (simp add: stays_def db_moves_def fetch_db)

text \<open>The others, too, make steps of the ledger.\<close>

definition fair_services :: "kufi_env \<Rightarrow> bool" where
  "fair_services ke \<longleftrightarrow> others_step (ke_tx ke) \<and>
     (\<forall>s. ledger_step\<^sup>*\<^sup>* (rs_db s) (rs_db (a_others (ke_ato ke) s))) \<and>
     (\<forall>n. ledger_step\<^sup>*\<^sup>* (nw_tx n) (nw_tx (ne_others (ke_note ke) n)))"

lemma fair_service_steps:
  assumes "fair_services ke"
  shows "others_step (ke_tx ke)" "via d0 T (rs_db s) \<Longrightarrow> via d0 T (rs_db (a_others (ke_ato ke) s))"
    "via d0 T (nw_tx n) \<Longrightarrow> via d0 T (nw_tx (ne_others (ke_note ke) n))"
  using assms via_steps by (auto simp add: fair_services_def)

definition ledger_moves :: "kufi_env \<Rightarrow> kufi_world \<Rightarrow> kufi_world \<Rightarrow> bool" where
  "ledger_moves ke = db_moves (\<lambda>d. fair_services ke \<and> tx_keys d) (\<lambda>d. via d {})"

lemma via_start: "fair_services ke \<and> tx_keys d \<Longrightarrow> via d {} d"
  by (simp add: via_def)

lemmas rpc_defs = rpc_createTransfer_def rpc_createFundingSource_def rpc_listFundingSources_def rpc_createTopupIntent_def
  rpc_createWithdrawalRequest_def rpc_listUserTransactions_def rpc_createWallet_def rpc_getWallet_def

lemmas ledger_calls =
  moves_fetch [where I = "\<lambda>d. fair_services ke \<and> tx_keys d" and C = "\<lambda>d. via d {}" for ke, OF via_start]
  moves_calls [where I = "\<lambda>d. fair_services ke \<and> tx_keys d" and C = "\<lambda>d. via d {}" for ke, OF via_start]
  keeps_risk [where P = "via d {}" for d] keeps_notes [where P = "via d {}" for d] keeps_notes_read

interpretation kufi: gateway_world "kufi_gateway ke" "ledger_moves ke" me for ke me
proof unfold_locales
  fix s t t' :: kufi_world
  show "ledger_moves ke s s" by (simp add: ledger_moves_def db_moves_def via_def)
  show "ledger_moves ke s t \<Longrightarrow> ledger_moves ke t t' \<Longrightarrow> ledger_moves ke s t'"
    by (auto simp add: ledger_moves_def db_moves_def via_def)
qed (simp_all only: kufi_gateway_def gateway.simps rpc_defs ledger_moves_def,
    (intro ledger_calls moves_map keeps_rules keeps_money keeps_rows fair_service_steps;
      (assumption | (elim conjE, assumption)))+)

definition serve_all :: "(kufi_env \<times> auth_header \<times> route) list \<Rightarrow> kufi_world \<Rightarrow> kufi_world" where
  "serve_all reqs = fold (\<lambda>(ke, header, r) w. snd (serve (kufi_gateway ke) header r w)) reqs"

text \<open>
  C25. Whatever requests arrive at the gateway, from anybody, with any token and any body, and whichever
  of its calls are lost: the store of the wallets and transactions at the end is reached from the one at
  the beginning by steps of the ledger, as long as the others who use the services make such steps too.
\<close>

theorem gateway_keeps_books:
  assumes "\<And>ke header r. (ke, header, r) \<in> set reqs \<Longrightarrow> fair_services ke" and "tx_keys (kw_db w)"
  shows "ledger_step\<^sup>*\<^sup>* (kw_db w) (kw_db (serve_all reqs w)) \<and> tx_keys (kw_db (serve_all reqs w))"
proof -
  have "via (kw_db w) {} (kw_db (serve_all reqs w))"
    using assms
  proof (induction reqs arbitrary: w)
    case Nil
    then show ?case by (simp add: serve_all_def via_def)
  next
    case (Cons q reqs)
    obtain ke header r where q: "q = (ke, header, r)" by (cases q)
    let ?w = "snd (serve (kufi_gateway ke) header r w)"
    have "stays (ledger_moves ke) (serve (kufi_gateway ke) header r)"
      using kufi.stays_serve [of ke header "gu_userId (projr (canActivate (kufi_gateway ke) header))" r] by fastforce
    from staysD [OF this, of w] have "via (kw_db w) {} (kw_db ?w)" using Cons.prems q by (auto simp add: ledger_moves_def db_moves_def)
    moreover from this have "via (kw_db ?w) {} (kw_db (serve_all reqs ?w))"
      using Cons.IH [of ?w] Cons.prems(1) by (auto simp add: via_def)
    ultimately show ?case by (auto simp add: q serve_all_def via_def)
  qed
  then show ?thesis by (simp add: via_def)
qed

section \<open>The second factor is a stored token\<close>

lemma base_of: "auth_base (kufi_gateway ke) = kufi_base ke"
  by (simp add: auth_base_def kufi_base_def kufi_gateway_def)

lemma strip_own: "strip_prefix p (p @ s) = Some s"
  by (simp add: strip_prefix_def js_startsWith_def)

lemma no_valid: "auth_status e = (st, JsonBody v) \<Longrightarrow> json_prop ''valid'' v = None"
  by (auto simp add: auth_status_def json_prop_def split: auth_error.splits)

lemma verify_route:
  "auth_http env decode kyc POST ''/internal/auth/step-up/verify''
     (Some (JObject [(''userId'', JString u), (''deviceId'', JString dv), (''stepUpToken'', JString t)])) =
   reply_with 201 valid_json (verifyStepUpToken env u t (Some dv))"
  by (simp add: auth_http_def auth_post_def field_def opt_field_def json_prop_def coalesce_def)

lemma valid_token_stored:
  assumes "fst (gw_verifyStepUpToken (kufi_gateway ke) u dv t w)"
  shows "\<exists>r\<in>set (ad_tokens (kw_auth w)). su_token r = js_trim t \<and> su_userId r = u \<and> au_now (ke_auth ke) < su_expiresAt r"
proof -
  have "fst (verifyStepUpToken (ke_auth ke) u t (Some dv) (kw_auth w)) = Inr True"
    using assms unfolding gw_verifyStepUpToken_def base_of
    by (auto simp add: kufi_gateway_def kufi_fetch_def strip_own verify_route reply_with_def valid_json_def json_prop_def
        split: delivery.splits prod.splits sum.splits http_body.splits if_splits dest: no_valid [unfolded json_prop_def])
  then show ?thesis by (rule verify_token_sound)
qed

text \<open>A payment that needs a second factor and claims no face check has a token of the payer.\<close>

definition backed :: "kufi_env \<Rightarrow> auth_db \<Rightarrow> string \<Rightarrow> step_up_headers \<Rightarrow> risk_view \<Rightarrow> bool" where
  "backed ke a u h risk \<longleftrightarrow> (rk_requiresStepUp risk \<and> sh_faceVerified h \<noteq> Some ''true'' \<longrightarrow>
     (\<exists>r\<in>set (ad_tokens a). su_token r = js_trim (coalesce (sh_stepUpToken h) []) \<and> su_userId r = u \<and> au_now (ke_auth ke) < su_expiresAt r))"

lemma require_backed:
  "triple (\<lambda>w. kw_auth w = a) (requireStepUpIfNeeded (kufi_gateway ke) u dv h risk) (\<lambda>_ _. backed ke a u h risk) (\<lambda>_. True)"
proof -
  have "backed ke a u h risk" if "kw_auth w = a" "fst (requireStepUpIfNeeded (kufi_gateway ke) u dv h risk w) = Inr ()" for w
    using that valid_token_stored [of ke u dv "js_trim (coalesce (sh_stepUpToken h) [])" w]
    by (auto simp add: requireStepUpIfNeeded_def backed_def Let_def throwH_def case_prod_unfold split: if_splits)
  then show ?thesis by (auto simp add: triple_def split: prod.split sum.split)
qed

lemma auth_stays:
  "triple (\<lambda>w. kw_auth w = a) (callTransaction (deliver ke name (on_db h1))) (\<lambda>_ w. kw_auth w = a) (\<lambda>_. True)"
  "triple (\<lambda>w. kw_auth w = a) (callTransaction (deliver ke name (on_risk h2))) (\<lambda>_ w. kw_auth w = a) (\<lambda>_. True)"
  by (auto simp add: triple_def callTransaction_def mapErr_def deliver_def on_db_def on_risk_def case_prod_unfold
      split: delivery.split prod.split sum.split)

lemma triple_pure_post: "triple (\<lambda>_. B) m (\<lambda>_ _. B) (\<lambda>_. True)"
  by (simp add: triple_def split: prod.split sum.split)

lemma assess_auth_stays:
  "triple (\<lambda>w. kw_auth w = a) (gw_assessTransferRisk (kufi_gateway ke) u t n c dv x p acc) (\<lambda>_ w. kw_auth w = a) (\<lambda>_. True)"
  unfolding gw_assessTransferRisk_def
  by (rule triple_bindH, simp add: kufi_gateway_def, rule auth_stays(2)) (rule triple_returnH)

lemma prelude_backed:
  "triple (\<lambda>w. kw_auth w = a) (funding_prelude (kufi_gateway ke) u dto h) (\<lambda>risk _. backed ke a u h risk) (\<lambda>_. True)"
proof -
  have "triple (\<lambda>w. kw_auth w = a) (resolveFundingSourceRiskTarget (kufi_gateway ke) u i) (\<lambda>_ w. kw_auth w = a) (\<lambda>_. True)" for i
    unfolding resolveFundingSourceRiskTarget_def
    by (rule triple_bindH, simp add: kufi_gateway_def, rule auth_stays(1)) (auto split: option.split intro: triple_returnH triple_throwH)
  then show ?thesis unfolding funding_prelude_def case_prod_unfold
    by (auto intro!: triple_if triple_throwH triple_bindH [OF _ triple_bindH [OF assess_auth_stays triple_bindH [OF require_backed]]]
        triple_returnH)
qed

lemma payment_backed:
  "triple (\<lambda>w. kw_auth w = a) (gw_createTransfer (kufi_gateway ke) u dto1 h) (\<lambda>x _. backed ke a u h (tp_risk x)) (\<lambda>_. True)"
  "triple (\<lambda>w. kw_auth w = a) (gw_createTopupIntent (kufi_gateway ke) u dto2 h) (\<lambda>x _. backed ke a u h (tp_risk x)) (\<lambda>_. True)"
  "triple (\<lambda>w. kw_auth w = a) (gw_createWithdrawalRequest (kufi_gateway ke) u dto3 h) (\<lambda>x _. backed ke a u h (tp_risk x)) (\<lambda>_. True)"
  unfolding gw_createTransfer_def assess_dto_def gw_createTopupIntent_def gw_createWithdrawalRequest_def
  by (auto simp add: transfer_reply_of_def intro!: triple_if triple_throwH triple_returnH
      triple_bindH [OF assess_auth_stays triple_bindH [OF require_backed triple_bindH [OF triple_pure_post]]]
      triple_bindH [OF prelude_backed triple_bindH [OF triple_pure_post]])

text \<open>
  C26. When a transfer, a top-up or a withdrawal that needs a second factor is answered with success,
  either the request claimed a face check in its header, or the authentication service holds a step-up
  token that equals the one of the request, was granted to the user of the access token and has not
  expired.
\<close>

theorem step_up_backed:
  assumes "serve (kufi_gateway ke) header r w = (Inr (TransferAnswer x), w')" and "headers_of r = Some h"
    and "rk_requiresStepUp (tp_risk x)" and "sh_faceVerified h \<noteq> Some ''true''"
  shows "\<exists>user. canActivate (kufi_gateway ke) header = Inr user \<and>
    (\<exists>t\<in>set (ad_tokens (kw_auth w)). su_token t = js_trim (coalesce (sh_stepUpToken h) []) \<and> su_userId t = gu_userId user \<and>
       au_now (ke_auth ke) < su_expiresAt t)"
proof -
  obtain user where user: "canActivate (kufi_gateway ke) header = Inr user"
    and run: "dispatch (kufi_gateway ke) (gu_userId user) r w = (Inr (TransferAnswer x), w')"
    using assms(1) by (auto simp add: serve_def guarded_def err_simps liftE_def)
  have "triple (\<lambda>s. kw_auth s = kw_auth w) (dispatch (kufi_gateway ke) (gu_userId user) r)
      (\<lambda>y _. \<forall>z. y = TransferAnswer z \<longrightarrow> backed ke (kw_auth w) (gu_userId user) h (tp_risk z)) (\<lambda>_. True)"
    using assms(2) by (cases r) (auto simp add: mapH_def intro!: triple_bindH [OF payment_backed(1)] triple_bindH [OF payment_backed(2)]
        triple_bindH [OF payment_backed(3)] triple_returnH)
  from tripleD [OF this refl run] show ?thesis using user assms(3,4) by (simp add: backed_def)
qed

section \<open>Who sees a transaction\<close>

lemma refresh_core: "tx_core (fst (refreshAnchoredReceiptTransparency env t d)) = tx_core t"
  by (auto simp add: refreshAnchoredReceiptTransparency_def Let_def save_tx_eq tx_core_def split: option.split sum.split)

text \<open>
  C27. The gateway shows a transaction only to a signed-in user who is its payer or its payee, and it is
  the stored transaction with the requested id.
\<close>

theorem only_parties_see:
  assumes "serve (kufi_gateway ke) header (OneTransaction i) w = (Inr (ItemAnswer v n), w')"
  shows "\<exists>user t. canActivate (kufi_gateway ke) header = Inr user \<and> t \<in> set (d_txs (kw_db w)) \<and> tx_id t = i \<and>
    (tx_fromUserId t = gu_userId user \<or> tx_toUserId t = Some (gu_userId user)) \<and>
    tv_transactionId v = i \<and> tv_amount v = tx_amount t \<and> n = read_int64 (tx_amount t)"
proof -
  obtain user where user: "canActivate (kufi_gateway ke) header = Inr user"
    and run: "dispatch (kufi_gateway ke) (gu_userId user) (OneTransaction i) w = (Inr (ItemAnswer v n), w')"
    using assms by (auto simp add: serve_def guarded_def err_simps liftE_def)
  have some: "gu_userId user \<noteq> []" using user by (auto simp add: canActivate_def Let_def split: if_splits option.splits json.splits)
  have party: "tv_fromUserId v = gu_userId user \<or> tv_toUserId v = gu_userId user" and n: "n = read_int64 (tv_amount v)"
    and got: "fst (deliver ke ''GetTransaction'' (mapH (\<lambda>v. case v of None \<Rightarrow> no_item | Some x \<Rightarrow> sent_item x)
      (on_db (rpc_getTransaction (ke_tx ke) i))) w) = Inr v"
    using run by (auto simp add: mapH_def err_simps gw_getTransaction_def callTransaction_def mapErr_def kufi_gateway_def returnH_def throwH_def
        split: if_splits prod.splits sum.splits)
  obtain y where y: "fst (getTransaction (ke_tx ke) i (kw_db w)) = y" and v: "v = (case y of None \<Rightarrow> no_item | Some t \<Rightarrow> sent_item (transaction_view_of t))"
    using got by (auto simp add: deliver_def mapH_def bindH_def on_db_def rpc_getTransaction_def returnH_def case_prod_unfold
        split: delivery.splits option.splits)
  obtain t' where t': "y = Some t'" using v party some by (cases y) (auto simp add: no_item_def)
  then obtain t where t: "find_tx (kw_db w) i = Some t" "tx_core t' = tx_core t"
    using y refresh_core by (auto simp add: getTransaction_def case_prod_unfold Let_def split: option.splits if_splits)
  show ?thesis using user party n v t' some tx_coreD [OF t(2)] find_txD [OF t(1)]
    by (intro exI [of _ user] exI [of _ t]) (auto simp add: sent_item_def transaction_view_of_def coalesce_def split: option.splits)
qed

section \<open>Requests to run\<close>

theorem gateway_keeps_books_witness:
  "ledger_step\<^sup>*\<^sup>* store2 (kw_db (serve_all [(demo_env, demo_bearer, Transfer demo_transfer demo_headers), (demo_env, HeaderMissing, Settings)] demo_world))"
proof -
  have "fair_services demo_env"
    by (simp add: fair_services_def demo_env_def example_env_quiet sample_ato_env_def sample_note_env_def)
  then show ?thesis
    using gateway_keeps_books [of "[(demo_env, demo_bearer, Transfer demo_transfer demo_headers), (demo_env, HeaderMissing, Settings)]" demo_world]
      example_keys(1) by (auto simp add: demo_world_def)
qed

theorem step_up_backed_witness:
  "\<exists>t\<in>set (ad_tokens (kw_auth demo_start)). su_token t = ''t1'' \<and> su_userId t = ''u1'' \<and> 5 < su_expiresAt t"
proof -
  have "case fst (serve (kufi_gateway demo_env) demo_bearer (Topup demo_topup demo_headers) demo_start) of
      Inr (TransferAnswer x) \<Rightarrow> rk_requiresStepUp (tp_risk x) | _ \<Rightarrow> False"
    by code_simp
  then obtain x w' where "serve (kufi_gateway demo_env) demo_bearer (Topup demo_topup demo_headers) demo_start = (Inr (TransferAnswer x), w')"
    "rk_requiresStepUp (tp_risk x)"
    by (cases "serve (kufi_gateway demo_env) demo_bearer (Topup demo_topup demo_headers) demo_start") (auto split: sum.splits answer.splits)
  moreover have "js_trim ''t1'' = ''t1''" "sh_faceVerified demo_headers \<noteq> Some ''true''" "sh_stepUpToken demo_headers = Some ''t1''"
    "au_now (ke_auth demo_env) = 5" by code_simp+
  ultimately show ?thesis
    using step_up_backed [of demo_env demo_bearer "Topup demo_topup demo_headers" demo_start x w' demo_headers] demo_user by (auto simp add: coalesce_def)
qed

theorem only_parties_see_witness:
  "\<exists>t\<in>set (d_txs store2). tx_id t = ''u'' \<and> (tx_fromUserId t = ''u1'' \<or> tx_toUserId t = Some ''u1'') \<and> tx_amount t = 1000"
proof -
  have "case fst (serve (kufi_gateway demo_env) demo_bearer (OneTransaction ''u'') demo_world) of
      Inr (ItemAnswer v n) \<Rightarrow> tv_amount v = 1000 | _ \<Rightarrow> False"
    by code_simp
  then obtain v n w' where "serve (kufi_gateway demo_env) demo_bearer (OneTransaction ''u'') demo_world = (Inr (ItemAnswer v n), w')"
    "tv_amount v = 1000"
    by (cases "serve (kufi_gateway demo_env) demo_bearer (OneTransaction ''u'') demo_world") (auto split: sum.splits answer.splits)
  then show ?thesis using only_parties_see [of demo_env demo_bearer "''u''" demo_world v n w'] demo_user by (fastforce simp add: demo_world_def)
qed

theorem face_header_skips_step_up_witness:
  "serve ((kufi_gateway demo_env)\<lparr>gt_fetch := (\<lambda>_ _ _ s. (Inl (), s))\<rparr>) demo_bearer
     (Transfer demo_transfer (demo_headers\<lparr>sh_faceVerified := Some ''true''\<rparr>)) =
   serve (kufi_gateway demo_env) demo_bearer (Transfer demo_transfer (demo_headers\<lparr>sh_faceVerified := Some ''true''\<rparr>))"
  by (rule face_header_skips_step_up [of _ "demo_headers\<lparr>sh_faceVerified := Some ''true''\<rparr>"]) simp_all

end
