(* ===== verification/Own_Money.thy ===== *)
theory Own_Money
  imports Kufi_Props
begin

text \<open>
  Nobody spends the money of somebody else through the gateway: a request lowers no balance but those
  of the user of its access token. The rows of the wallets are compared one by one, with a balance
  that is not lowered below the largest integer up to which sums of doubles are exact.
\<close>

section \<open>Wallets that are not lowered\<close>

definition kept :: "string \<Rightarrow> wallet \<Rightarrow> wallet \<Rightarrow> bool" where
  "kept v w w' \<longleftrightarrow> w_id w' = w_id w \<and> w_userId w' = w_userId w \<and> w_currency w' = w_currency w \<and>
     (w_userId w = v \<longrightarrow> min (w_balance w) (2 ^ 53) \<le> w_balance w')"

definition grown :: "string \<Rightarrow> wallet list \<Rightarrow> wallet list \<Rightarrow> bool" where
  "grown v ws ws' \<longleftrightarrow> list_all2 (kept v) ws (take (length ws) ws')"

text \<open>Ids are fresh and distinct, and no balance and no amount is negative.\<close>

definition money_wf :: "db \<Rightarrow> bool" where
  "money_wf d \<longleftrightarrow> inj (d_uuid d) \<and> distinct (map w_id (d_wallets d)) \<and> w_id ` set (d_wallets d) \<subseteq> d_uuid d ` {..<d_seq d} \<and>
     (\<forall>w\<in>set (d_wallets d). 0 \<le> w_balance w) \<and> (\<forall>t\<in>set (d_txs d). 0 \<le> tx_amount t)"

definition spared :: "string \<Rightarrow> db \<Rightarrow> db \<Rightarrow> bool" where
  "spared v d0 d \<longleftrightarrow> money_wf d \<and> grown v (d_wallets d0) (d_wallets d)"

lemma kept_trans: "kept v w w' \<Longrightarrow> kept v w' w'' \<Longrightarrow> kept v w w''"
  by (auto simp add: kept_def)

lemma grown_refl: "grown v ws ws"
  by (simp add: grown_def list_all2_same kept_def)

lemma grown_trans:
  assumes "grown v ws ws'" and "grown v ws' ws''"
  shows "grown v ws ws''"
proof -
  have l: "length ws \<le> length ws'" "length ws' \<le> length ws''"
    using assms list_all2_lengthD unfolding grown_def by (metis length_take min.cobounded1 min.commute)+
  have "list_all2 (kept v) (take (length ws) ws') (take (length ws) ws'')"
    using assms(2) list_all2_takeI [of "kept v" ws' "take (length ws') ws''" "length ws"] l by (simp add: grown_def min_def)
  then show ?thesis using assms(1) kept_trans list_all2_trans [of "kept v" "kept v" "kept v"] unfolding grown_def by blast
qed

lemma grown_find:
  assumes "grown v ws ws'" and "find_row (\<lambda>w. w_userId w = v \<and> w_currency w = c) ws = Some w"
  shows "\<exists>w'. find_row (\<lambda>w. w_userId w = v \<and> w_currency w = c) ws' = Some w' \<and> min (w_balance w) (2 ^ 53) \<le> w_balance w'"
  using assms
proof (induction ws arbitrary: ws')
  case (Cons x ws)
  then obtain y ys where "ws' = y # ys" "kept v x y" "grown v ws ys" by (cases ws') (auto simp add: grown_def)
  with Cons show ?case by (auto simp add: row_simps kept_def split: if_splits)
qed (simp add: row_simps)

lemma spared_balance:
  assumes "spared v d d'" and "balances_safe d" and "money_wf d"
  shows "balance_of d v c \<le> balance_of d' v c"
proof (cases "find_wallet d v c")
  case None
  have "0 \<le> w_balance w" if "find_wallet d' v c = Some w" for w
    using that assms(1) find_row_SomeD [of _ "d_wallets d'" w] by (auto simp add: find_wallet_def spared_def money_wf_def)
  with None show ?thesis by (simp add: balance_of_def split: option.split)
next
  case (Some w)
  then have "w_balance w \<le> 2 ^ 53" using assms(2) find_row_SomeD [of _ "d_wallets d" w] balances_safeD [of d w]
    by (auto simp add: find_wallet_def max_safe_integer_def)
  with Some grown_find [of v "d_wallets d" "d_wallets d'" c w] assms(1) show ?thesis
    by (auto simp add: balance_of_def find_wallet_def spared_def)
qed

section \<open>Writes\<close>

lemma spared_frame:
  assumes "spared v d0 d" and "d_wallets d' = d_wallets d" and "d_uuid d' = d_uuid d" and "d_seq d \<le> d_seq d'"
    and "\<And>t. t \<in> set (d_txs d') \<Longrightarrow> t \<notin> set (d_txs d) \<Longrightarrow> 0 \<le> tx_amount t"
  shows "spared v d0 d'"
proof -
  have "d_uuid d ` {..<d_seq d} \<subseteq> d_uuid d ` {..<d_seq d'}" using assms(4) by auto
  then show ?thesis using assms by (auto simp add: spared_def money_wf_def)
qed

lemma grown_save:
  assumes "distinct (map w_id ws)" and "w \<in> set ws" and "kept v w w'"
  shows "grown v ws (save_row w_id w' ws)"
proof -
  have "kept v x (if w_id x = w_id w' then w' else x)" if "x \<in> set ws" for x
    using that assms row_unique [of w_id ws x w] by (auto simp add: kept_def)
  then show ?thesis by (auto simp add: grown_def save_row_def list_all2_conv_all_nth)
qed

lemma spared_save_wallet:
  assumes "spared v d0 d" and "w \<in> set (d_wallets d)" and "kept v w w'" and "0 \<le> w_balance w'" and "save_wallet w' d = Inr (x, d')"
  shows "spared v d0 d'"
proof -
  have d': "d' = d\<lparr>d_wallets := save_row w_id w' (d_wallets d)\<rparr>" using assms(5) by (simp add: write_eqs)
  have wf: "money_wf d" "grown v (d_wallets d0) (d_wallets d)" using assms(1) by (simp_all add: spared_def)
  then have "grown v (d_wallets d0) (d_wallets d')"
    using grown_trans grown_save [OF _ assms(2,3)] by (simp add: d' money_wf_def)
  moreover have "w_id ` set (save_row w_id w' (d_wallets d)) = w_id ` set (d_wallets d)"
    by (metis list.set_map map_key_save_row)
  then have "money_wf d'" using wf(1) assms(4) by (auto simp add: d' money_wf_def dest!: set_save_rowD)
  ultimately show ?thesis by (simp add: spared_def)
qed

lemma round_floor: "0 \<le> b \<Longrightarrow> b \<le> x \<Longrightarrow> min b (2 ^ 53) \<le> js_round x"
  using js_round_large [of x] js_round_id [of x] by (cases "x \<le> 2 ^ 53") auto

lemma spared_credit:
  assumes "spared v d0 d" and "w \<in> set (d_wallets d)" and "0 \<le> a" and "credit_wallet w a d = Inr (x, d')"
  shows "spared v d0 d'"
proof -
  have "0 \<le> w_balance w" using assms(1,2) by (simp add: spared_def money_wf_def)
  then have "min (w_balance w) (2 ^ 53) \<le> js_add (w_balance w) a" "0 \<le> js_add (w_balance w) a"
    unfolding js_add_def using assms(3) by (intro round_floor js_round_nonneg; simp)+
  then show ?thesis using assms(4) unfolding credit_wallet_def
    by (intro spared_save_wallet [OF assms(1,2)]) (simp_all add: kept_def)
qed

lemma spared_debit:
  "spared v d0 d \<Longrightarrow> w \<in> set (d_wallets d) \<Longrightarrow> w_userId w \<noteq> v \<Longrightarrow> a \<le> w_balance w \<Longrightarrow> debit_wallet w a d = Inr (x, d') \<Longrightarrow> spared v d0 d'"
  unfolding debit_wallet_def js_sub_def
  by (erule spared_save_wallet, assumption) (auto simp add: kept_def intro!: js_round_nonneg)

lemma spared_insert_wallet:
  assumes "spared v d0 d" and "insert_wallet now u c d = Inr (w, d')"
  shows "spared v d0 d'"
proof -
  have d': "d_wallets d' = d_wallets d @ [w]" "w_balance w = 0" "w_id w = d_uuid d (d_seq d)" "d_uuid d' = d_uuid d"
    "d_seq d' = Suc (d_seq d)" "d_txs d' = d_txs d"
    using assms(2) by (auto simp add: insert_wallet_def Let_def split: if_splits)
  have wf: "money_wf d" using assms(1) by (simp add: spared_def)
  then have "w_id w \<notin> w_id ` set (d_wallets d)" by (auto simp add: d'(3) money_wf_def dest!: subsetD dest: injD)
  with wf have "money_wf d'" by (auto simp add: money_wf_def d' lessThan_Suc)
  moreover have "grown v (d_wallets d) (d_wallets d')" using grown_refl by (simp add: d' grown_def)
  ultimately show ?thesis using assms(1) grown_trans by (auto simp add: spared_def)
qed

section \<open>Units of work\<close>

definition unit_post :: "('s \<Rightarrow> bool) \<Rightarrow> ('s \<Rightarrow> 'e + ('a \<times> 's)) \<Rightarrow> ('a \<Rightarrow> 's \<Rightarrow> bool) \<Rightarrow> bool" where
  "unit_post P u Q \<longleftrightarrow> (\<forall>d x d'. P d \<longrightarrow> u d = Inr (x, d') \<longrightarrow> Q x d')"

lemma unit_bind: "unit_post P u R \<Longrightarrow> (\<And>x. unit_post (R x) (f x) Q) \<Longrightarrow> unit_post P (bindU u f) Q"
  unfolding unit_post_def bindU_eq_Inr by blast

lemma unit_basic:
  "unit_post P (returnU x) (\<lambda>y d. P d \<and> y = x)" "unit_post P1 (checkU b e) (\<lambda>_ d. P1 d \<and> b)" "unit_post P2 (getU f) (\<lambda>_. P2)"
  by (auto simp add: unit_post_def err_simps)

lemma unit_weaken: "unit_post P u Q \<Longrightarrow> (\<And>x d. Q x d \<Longrightarrow> Q' x d) \<Longrightarrow> unit_post P u Q'"
  by (auto simp add: unit_post_def)

lemma unit_pure: "(b \<Longrightarrow> unit_post P u Q) \<Longrightarrow> unit_post (\<lambda>d. P d \<and> b) u Q"
  by (auto simp add: unit_post_def)

lemma unit_drop: "unit_post P u Q \<Longrightarrow> unit_post (\<lambda>d. P d \<and> B d) u Q"
  by (auto simp add: unit_post_def)

lemma amounts_wf: "spared v d0 d \<Longrightarrow> t \<in> set (d_txs d) \<Longrightarrow> 0 \<le> tx_amount t"
  by (simp add: spared_def money_wf_def)

text \<open>A wallet that was just read.\<close>

definition read_wallet :: "string \<Rightarrow> db \<Rightarrow> string \<Rightarrow> wallet \<Rightarrow> db \<Rightarrow> bool" where
  "read_wallet v d0 u w d \<longleftrightarrow> spared v d0 d \<and> w \<in> set (d_wallets d) \<and> w_userId w = u"

lemma unit_wallets:
  "unit_post (spared v d0) (require_wallet m u c) (read_wallet v d0 u)"
  "unit_post (spared v d0) (wallet_or_create env u c) (read_wallet v d0 u)"
proof -
  have found: "read_wallet v d0 u w d" if "spared v d0 d" "find_wallet d u c = Some w" for w d
    using that find_row_SomeD [of _ "d_wallets d" w] by (auto simp add: read_wallet_def find_wallet_def)
  then show "unit_post (spared v d0) (require_wallet m u c) (read_wallet v d0 u)"
    by (auto simp add: unit_post_def require_wallet_def split: option.splits)
  have "read_wallet v d0 u w d'" if "spared v d0 d" "insert_wallet now u c d = Inr (w, d')" for now w d d'
    using that spared_insert_wallet [OF that] by (auto simp add: read_wallet_def insert_wallet_def Let_def split: if_splits)
  with found show "unit_post (spared v d0) (wallet_or_create env u c) (read_wallet v d0 u)"
    by (auto simp add: unit_post_def wallet_or_create_def split: option.splits)
qed

lemma unit_writes:
  "0 \<le> a \<Longrightarrow> unit_post (read_wallet v d0 u w) (credit_wallet w a) (\<lambda>_. spared v d0)"
  "u \<noteq> v \<Longrightarrow> unit_post (\<lambda>d. read_wallet v d0 u w d \<and> a \<le> w_balance w) (debit_wallet w a) (\<lambda>_. spared v d0)"
  by (auto simp add: unit_post_def read_wallet_def intro: spared_credit spared_debit)

lemma unit_rows:
  "0 \<le> tx_amount t \<Longrightarrow> unit_post (spared v d0) (insert_tx now t) (\<lambda>s d. spared v d0 d \<and> tx_amount s = tx_amount t)"
  "unit_post (spared v d0) (insert_ledger now e) (\<lambda>_. spared v d0)"
  "0 \<le> tx_amount t1 \<Longrightarrow> unit_post (spared v d0) (save_tx t1) (\<lambda>s d. spared v d0 d \<and> tx_amount s = tx_amount t1)"
  by (auto simp add: unit_post_def write_eqs elim!: spared_frame dest!: set_save_rowD)

lemma unit_lock: "unit_post (spared v d0) (lockWallets env r us) (\<lambda>_. spared v d0)"
proof (induction us)
  case Nil
  show ?case unfolding lockWallets.simps by (rule unit_weaken [OF unit_basic(1)]) simp
next
  case (Cons u us)
  have "unit_post (read_wallet v d0 x w) (lockWallets env r us) (\<lambda>_. spared v d0)" for x w
    using Cons by (auto simp add: unit_post_def read_wallet_def)
  then show ?case unfolding lockWallets.simps by (cases "u = tr_fromUserId r") (auto intro!: unit_bind [OF unit_wallets(1)] unit_bind [OF unit_wallets(2)])
qed

lemma unit_credit_receiver:
  assumes "0 \<le> tr_amount r"
  shows "unit_post (spared v d0) (credit_receiver env r) (\<lambda>_. spared v d0)"
proof -
  have "unit_post (spared v d0) (bindU (wallet_or_create env (tr_toUserId r) (tr_currency r)) (\<lambda>receiver.
      bindU (checkU (w_status receiver = WALLET_ACTIVE) (BadRequest ''Receiver wallet is not active'')) (\<lambda>_.
      bindU (credit_wallet receiver (tr_amount r)) (\<lambda>after. returnU (Some (receiver, after)))))) (\<lambda>_. spared v d0)"
    by (intro unit_bind [OF unit_wallets(2)] unit_bind [OF unit_basic(2)] unit_drop unit_bind [OF unit_writes(1) [OF assms]]
        unit_weaken [OF unit_basic(1)]) simp
  moreover have "unit_post (spared v d0) (returnU None :: (wallet \<times> wallet) option unit_of_work) (\<lambda>_. spared v d0)" by (rule unit_weaken [OF unit_basic(1)]) simp
  ultimately show ?thesis by (simp add: credit_receiver_def)
qed

section \<open>Persisting\<close>

text \<open>A unit that answers with a transaction of an amount that is not negative.\<close>

definition answers_tx :: "string \<Rightarrow> db \<Rightarrow> transaction \<times> 'a \<Rightarrow> db \<Rightarrow> bool" where
  "answers_tx v d0 x d \<longleftrightarrow> spared v d0 d \<and> 0 \<le> tx_amount (fst x)"

lemma unit_tail:
  "0 \<le> tx_amount t \<Longrightarrow> unit_post (spared v d0) (returnU (t, x)) (answers_tx v d0)"
  by (rule unit_weaken [OF unit_basic(1)]) (auto simp add: answers_tx_def)

lemma unit_ledger: "unit_post (spared v d0) (write_transfer_ledger env r t w cr) (\<lambda>_. spared v d0)"
proof -
  have "unit_post (spared v d0) (returnU () :: unit unit_of_work) (\<lambda>_. spared v d0)" by (rule unit_weaken [OF unit_basic(1)]) simp
  then show ?thesis unfolding write_transfer_ledger_def
    by (cases cr) (auto intro!: unit_bind [OF unit_basic(3)] unit_bind [OF unit_rows(2)] split: prod.split)
qed

lemma unit_new_tx:
  assumes "0 \<le> tx_amount t" and "\<And>s. 0 \<le> tx_amount s \<Longrightarrow> unit_post (spared v d0) (f s) Q"
  shows "unit_post (spared v d0) (bindU (insert_tx now t) f) Q"
  by (rule unit_bind [OF unit_rows(1) [OF assms(1)]], rule unit_pure) (simp add: assms)

lemma unit_debit_after:
  "u \<noteq> v \<Longrightarrow> (\<And>x. unit_post (spared v d0) (f x) Q) \<Longrightarrow>
   unit_post (read_wallet v d0 u w) (bindU (checkU b e) (\<lambda>_. bindU (checkU (a \<le> w_balance w) e') (\<lambda>_. bindU (debit_wallet w a) f))) Q"
  by (intro unit_bind [OF unit_basic(2)] unit_drop unit_bind [OF unit_writes(2)])

lemma dup_answer: "find_tx_by_key d k = Some t \<Longrightarrow> spared v d0 d \<Longrightarrow> answers_tx v d0 (t, x) d"
  using find_key_row amounts_wf by (fastforce simp add: answers_tx_def)

lemma unit_persist:
  "valid_transfer r \<Longrightarrow> tr_fromUserId r \<noteq> v \<Longrightarrow> unit_post (spared v d0) (persistTransfer env r) (answers_tx v d0)"
  "valid_topup q \<Longrightarrow> unit_post (spared v d0) (persistTopupIntent env q src) (answers_tx v d0)"
  "valid_topup q \<Longrightarrow> ur_userId q \<noteq> v \<Longrightarrow> unit_post (spared v d0) (persistWithdrawalRequest env q src) (answers_tx v d0)"
proof -
  have split: "unit_post (spared v d0) (\<lambda>d. case find_tx_by_key d k of Some dup \<Rightarrow> Inr ((dup, g dup d), d) | None \<Rightarrow> u d) (answers_tx v d0)"
    if "unit_post (spared v d0) u (answers_tx v d0)" for k g and u :: "(transaction \<times> 'b) unit_of_work"
    using that by (auto simp add: unit_post_def dup_answer split: option.splits)
  show "unit_post (spared v d0) (persistTransfer env r) (answers_tx v d0)" if "valid_transfer r" "tr_fromUserId r \<noteq> v"
    unfolding persistTransfer_def
    by (rule split, intro unit_bind [OF unit_lock] unit_bind [OF unit_wallets(1)] unit_debit_after unit_bind [OF unit_credit_receiver]
        unit_new_tx unit_bind [OF unit_ledger] unit_bind [OF unit_basic(3)] unit_tail)
      (use that in \<open>simp_all add: valid_transfer_def pending_tx_def\<close>)
  show "unit_post (spared v d0) (persistTopupIntent env q src) (answers_tx v d0)" if "valid_topup q"
    unfolding persistTopupIntent_def
    by (rule split, rule unit_bind [OF unit_wallets(2)], rule unit_bind [OF unit_basic(2)], unfold read_wallet_def conj_assoc, rule unit_drop,
        intro unit_new_tx unit_tail)
      (use that in \<open>simp_all add: valid_topup_def pending_tx_def funded_req_def\<close>)
  show "unit_post (spared v d0) (persistWithdrawalRequest env q src) (answers_tx v d0)" if "valid_topup q" "ur_userId q \<noteq> v"
    unfolding persistWithdrawalRequest_def
    by (rule split, intro unit_bind [OF unit_wallets(1)] unit_debit_after unit_new_tx unit_bind [OF unit_rows(2)] unit_tail)
      (use that in \<open>simp_all add: valid_topup_def pending_tx_def funded_req_def\<close>)
qed

lemma unit_rollback:
  assumes "0 \<le> tx_amount t"
  shows "unit_post (spared v d0) (rollbackWithdrawalDebitUsingManager env t reason) (\<lambda>_. spared v d0)"
proof -
  have "unit_post (spared v d0) (bindU (require_wallet m u c) (\<lambda>w. bindU (credit_wallet w (tx_amount t)) (\<lambda>after.
      bindU (insert_ledger now (e w after)) (\<lambda>_. returnU ())))) (\<lambda>_. spared v d0)" for m u c now e
    by (intro unit_bind [OF unit_wallets(1)] unit_bind [OF unit_writes(1) [OF assms]] unit_bind [OF unit_rows(2)]
        unit_weaken [OF unit_basic(1)]) simp
  then show ?thesis by (auto simp add: unit_post_def rollbackWithdrawalDebitUsingManager_def split: if_splits)
qed

section \<open>Requests\<close>

text \<open>The other requests that run meanwhile do not lower the balances of v either.\<close>

definition spares :: "string \<Rightarrow> svc_env \<Rightarrow> bool" where
  "spares v env \<longleftrightarrow> (\<forall>k d. money_wf d \<longrightarrow> spared v d (e_others env k d))"

lemma spared_trans: "spared v d0 d \<Longrightarrow> (money_wf d \<Longrightarrow> spared v d d') \<Longrightarrow> spared v d0 d'"
  using grown_trans by (auto simp add: spared_def)

lemma spared_others: "spares v env \<Longrightarrow> spared v d0 d \<Longrightarrow> spared v d0 (e_others env k d)"
  using spared_trans by (auto simp add: spares_def)

interpretation sparing: store_safety "\<lambda>d. spares v env \<longrightarrow> spared v d0 d" env for v d0 env
proof unfold_locales
  fix d d' k t t' y
  assume a: "spares v env \<longrightarrow> spared v d0 d" "t \<in> set (d_txs d)" "tx_core t' = tx_core t" "save_tx t' (e_others env k d) = Inr (y, d')"
  show "spares v env \<longrightarrow> spared v d0 d'"
  proof
    assume s: "spares v env"
    with a(1-3) have "0 \<le> tx_amount t'" using amounts_wf [of v d0 d t] tx_coreD(8) [OF a(3)] by simp
    with s show "spared v d0 d'" using a(1,4) unit_rows(3) [of t' v d0] spared_others [OF s, of d0 d k] unfolding unit_post_def by blast
  qed
next
  fix now s d x d' assume "spares v env \<longrightarrow> spared v d0 d" "insert_source now s d = Inr (x, d')"
  then show "spares v env \<longrightarrow> spared v d0 d'" by (auto simp add: insert_source_def Let_def split: if_splits elim!: spared_frame)
qed (auto intro: spared_others spared_insert_wallet)

text \<open>The steps of a request: a transaction that is passed on has an amount that is not negative.\<close>

lemma spared_bind:
  assumes "triple P m (\<lambda>x d. P d \<and> q x) P" and "\<And>x. q x \<Longrightarrow> triple P (f x) Q P"
  shows "triple P (bindH m f) Q P"
  by (rule triple_bindH [OF assms(1)], rule triple_pure, rule assms(2))

abbreviation passes :: "string \<Rightarrow> db \<Rightarrow> 'a db_handler \<Rightarrow> ('a \<Rightarrow> bool) \<Rightarrow> bool" where
  "passes v d0 m q \<equiv> triple (spared v d0) m (\<lambda>x d. spared v d0 d \<and> q x) (spared v d0)"

lemma passes_atomic: "unit_post (spared v d0) u (\<lambda>x d. spared v d0 d \<and> q x) \<Longrightarrow> passes v d0 (atomic u) q"
  by (rule triple_atomic) (auto simp add: unit_post_def)

lemma passes_save: "0 \<le> tx_amount t \<Longrightarrow> passes v d0 (atomic (save_tx t)) (\<lambda>s. 0 \<le> tx_amount s)"
  by (rule passes_atomic, rule unit_weaken [OF unit_rows(3)]) auto

lemma passes_gap: "spares v env \<Longrightarrow> passes v d0 (gap env k) (\<lambda>_. True)"
  unfolding gap_def by (rule triple_interfere) (simp add: spared_others)

lemma passes_simple:
  "passes v d0 (readH f) (\<lambda>_. True)" "passes v d0 (enqueue_event env t) (\<lambda>_. True)" "passes v d0 (\<lambda>d. (g d, d)) (\<lambda>_. True)"
  "passes v d0 (returnH x) (\<lambda>_. True)" "0 \<le> tx_amount t1 \<Longrightarrow> passes v d0 (returnH t1) (\<lambda>s. 0 \<le> tx_amount s)"
proof -
  show "passes v d0 (enqueue_event env t) (\<lambda>_. True)" unfolding enqueue_event_def
    by (rule passes_atomic) (auto simp add: unit_post_def modifyU_def elim!: spared_frame)
qed (simp_all add: triple_def readH_def returnH_def split: sum.split)

lemma passes_calls:
  assumes "spares v env" and "0 \<le> tx_amount t"
  shows "passes v d0 (submitOutsideTransfer env k t) (\<lambda>s. 0 \<le> tx_amount s)"
    "passes v d0 (anchorToChain env k t) (\<lambda>s. 0 \<le> tx_amount s)"
    "passes v d0 (rollbackWithdrawalDebit env t reason) (\<lambda>_. True)"
proof -
  have "tx_amount (outside_answer a t) = tx_amount t" "tx_amount (settle_answer env b t) = tx_amount t" for a b
    by (simp add: outside_answer_def Let_def split: sum.split) (rule tx_coreD(8) [OF tx_core_settle_answer])
  then show "passes v d0 (submitOutsideTransfer env k t) (\<lambda>s. 0 \<le> tx_amount s)" "passes v d0 (anchorToChain env k t) (\<lambda>s. 0 \<le> tx_amount s)"
    unfolding submitOutsideTransfer_def anchorToChain_def
    by (auto intro!: triple_option triple_if triple_throwH spared_bind [OF passes_gap [OF assms(1)]] passes_save simp add: assms(2))
  show "passes v d0 (rollbackWithdrawalDebit env t reason) (\<lambda>_. True)" unfolding rollbackWithdrawalDebit_def
    by (intro triple_if passes_atomic passes_simple(4) unit_weaken [OF unit_rollback [OF assms(2)]]) simp
qed

lemma passes_persist:
  "valid_transfer r \<Longrightarrow> tr_fromUserId r \<noteq> v \<Longrightarrow> passes v d0 (atomic (persistTransfer env r)) (\<lambda>x. 0 \<le> tx_amount (fst x))"
  "valid_topup q \<Longrightarrow> passes v d0 (atomic (persistTopupIntent env q src)) (\<lambda>x. 0 \<le> tx_amount (fst x))"
  "valid_topup q \<Longrightarrow> ur_userId q \<noteq> v \<Longrightarrow> passes v d0 (atomic (persistWithdrawalRequest env q src)) (\<lambda>x. 0 \<le> tx_amount (fst x))"
  by (rule passes_atomic, rule unit_weaken, rule unit_persist; simp add: answers_tx_def)+

lemma passes_liftE: "passes v d0 (liftE r) (\<lambda>x. r = Inr x)"
  by (rule triple_liftE) auto

lemma spared_return: "triple (spared v d0) (returnH x) (\<lambda>_. spared v d0) (spared v d0)"
  by (rule triple_returnH)

lemmas passes_rules = spared_bind triple_option triple_prod triple_if spared_return passes_simple passes_save passes_liftE

lemma keeps_sparing_transfer:
  assumes "spares v env" and "v \<noteq> trimmed (tq_fromUserId q)"
  shows "keeps (spared v d0) (createTransfer env q)"
proof -
  have "valid_transfer r \<and> tr_fromUserId r \<noteq> v" if "validateCreateTransfer q = Inr r" for r
    using that validateCreateTransfer_valid [OF that] assms(2) by (auto simp add: validateCreateTransfer_def Let_def err_simps)
  then show ?thesis unfolding keeps_def createTransfer_def
    by (intro spared_bind [OF passes_liftE])
      (drule meta_spec, drule meta_mp, assumption, elim conjE,
       (rule passes_rules passes_gap [OF assms(1)] passes_calls [OF assms(1)] passes_persist(1) | assumption | simp)+)
qed

lemma keeps_sparing_topup:
  assumes "spares v env"
  shows "keeps (spared v d0) (createTopupIntent env q)"
  unfolding keeps_def createTopupIntent_def
  by (intro spared_bind [OF passes_liftE])
    (drule validateCreateTopupIntent_valid,
     (rule passes_rules passes_gap [OF assms] passes_calls [OF assms] passes_persist(2) | assumption | simp)+)

lemma keeps_sparing_withdrawal:
  assumes "spares v env" and "v \<noteq> trimmed (uq_userId q)"
  shows "keeps (spared v d0) (createWithdrawalRequest env q)"
proof -
  have "valid_topup r \<and> ur_userId r \<noteq> v" if "validateCreateWithdrawalRequest q = Inr (r, b)" for r b
    using that validateCreateWithdrawalRequest_valid [OF that] assms(2)
    by (auto simp add: validateCreateWithdrawalRequest_def validateCreateTopupIntent_def Let_def err_simps create_topup_request.truncate_def)
  then show ?thesis unfolding keeps_def createWithdrawalRequest_def
    by (intro spared_bind [OF passes_liftE] triple_prod)
      (drule meta_spec, drule meta_spec, drule meta_mp, hypsubst, assumption, elim conjE,
       (rule passes_rules passes_gap [OF assms(1)] passes_calls [OF assms(1)] passes_persist(3) | assumption | simp)+)
qed

lemma keeps_sparing_rows:
  assumes "spares v env"
  shows "keeps (spared v d0) (createWallet env u c)" "keeps (spared v d0) (createFundingSource env q)"
    "keeps (spared v d0) (rpc_getTransaction env i)"
  using sparing.keeps_createWallet [of v env d0 u c] sparing.keeps_createFundingSource [of v env d0 q]
    sparing.keeps_getTransaction [of v env d0 i] assms by simp_all

section \<open>The gateway\<close>

definition sparing_services :: "string \<Rightarrow> kufi_env \<Rightarrow> bool" where
  "sparing_services v ke \<longleftrightarrow> spares v (ke_tx ke) \<and>
     (\<forall>s. money_wf (rs_db s) \<longrightarrow> spared v (rs_db s) (rs_db (a_others (ke_ato ke) s))) \<and>
     (\<forall>n. money_wf (nw_tx n) \<longrightarrow> spared v (nw_tx n) (nw_tx (ne_others (ke_note ke) n)))"

lemma sparing_others:
  assumes "sparing_services v ke"
  shows "spares v (ke_tx ke)" "spared v d0 (rs_db s) \<Longrightarrow> spared v d0 (rs_db (a_others (ke_ato ke) s))"
    "spared v d0 (nw_tx n) \<Longrightarrow> spared v d0 (nw_tx (ne_others (ke_note ke) n))"
  using assms spared_trans by (auto simp add: sparing_services_def)

definition spare_start :: "string \<Rightarrow> string \<Rightarrow> kufi_env \<Rightarrow> db \<Rightarrow> bool" where
  "spare_start v me ke d \<longleftrightarrow> sparing_services v ke \<and> v \<noteq> js_trim me \<and> money_wf d"

lemma spare_startD: "spare_start v me ke d \<Longrightarrow> spared v d d" "spare_start v me ke d \<Longrightarrow> sparing_services v ke"
  by (simp_all add: spare_start_def spared_def grown_refl)

lemma trimmed_null: "spare_start v me ke d \<Longrightarrow> x = or_null me \<Longrightarrow> v \<noteq> trimmed x"
proof -
  have "js_trim [] = []" by code_simp
  then show "spare_start v me ke d \<Longrightarrow> x = or_null me \<Longrightarrow> v \<noteq> trimmed x"
    by (auto simp add: spare_start_def trimmed_def or_null_def coalesce_def)
qed

lemmas sparing_calls =
  moves_fetch [where I = "spare_start v me ke" and C = "spared v" for v me ke, OF spare_startD(1)]
  moves_calls [where I = "spare_start v me ke" and C = "spared v" for v me ke, OF spare_startD(1)]
  keeps_risk [where P = "spared v d" for v d] keeps_notes [where P = "spared v d" for v d] keeps_notes_read

lemmas sparing_keeps = keeps_sparing_transfer keeps_sparing_topup keeps_sparing_withdrawal keeps_sparing_rows

interpretation own: gateway_world "kufi_gateway ke" "db_moves (spare_start v me ke) (spared v)" me for ke v me
proof unfold_locales
  fix s t t' :: kufi_world
  show "db_moves (spare_start v me ke) (spared v) s s" by (simp add: db_moves_def spare_startD)
  show "db_moves (spare_start v me ke) (spared v) s t \<Longrightarrow> db_moves (spare_start v me ke) (spared v) t t' \<Longrightarrow>
      db_moves (spare_start v me ke) (spared v) s t'"
    using spared_trans by (auto simp add: db_moves_def spare_start_def spared_def)
qed (simp_all only: kufi_gateway_def gateway.simps rpc_defs,
    (intro sparing_calls moves_map keeps_rules sparing_keeps;
      (assumption | (erule (1) trimmed_null) | (rule sparing_others, (rule spare_startD(2))?, assumption+)))+)

lemma books_money_wf: "books_ok d \<Longrightarrow> money_wf d"
  by (auto simp add: books_ok_def ledger_inv_defs money_wf_def wallet_ok_def moves_ok_def)

text \<open>
  C24. A request lowers no balance of anybody but the user of its access token, whatever it asks for and
  with whatever body and headers, as long as the others who use the services meanwhile lower none of
  these balances either. Without a valid access token no balance at all is lowered.
\<close>

theorem only_own_money:
  assumes "books_ok (kw_db w)" and "sparing_services v ke"
    and "\<And>user. canActivate (kufi_gateway ke) header = Inr user \<Longrightarrow> v \<noteq> js_trim (gu_userId user)"
  shows "balance_of (kw_db w) v c \<le> balance_of (kw_db (snd (serve (kufi_gateway ke) header r w))) v c"
proof -
  obtain me where me: "\<And>user. canActivate (kufi_gateway ke) header = Inr user \<Longrightarrow> gu_userId user = me" and "v \<noteq> js_trim me"
  proof (cases "canActivate (kufi_gateway ke) header")
    case (Inl e)
    have "js_trim ''a'' \<noteq> js_trim ''b''" by code_simp
    then obtain me where "v \<noteq> js_trim me" by metis
    then show ?thesis using that [of me] Inl by simp
  qed (use assms(3) that in auto)
  then have "spare_start v me ke (kw_db w)" using assms(1,2) by (simp add: spare_start_def books_money_wf)
  then have "spared v (kw_db w) (kw_db (snd (serve (kufi_gateway ke) header r w)))"
    using staysD [OF own.stays_serve [where ke = ke and header = header and v = v and r = r, OF me], of w] by (simp add: db_moves_def)
  then show ?thesis using assms(1) books_money_wf by (intro spared_balance) (simp_all add: books_ok_def)
qed

section \<open>A request to run\<close>

theorem only_own_money_witness:
  "balance_of store2 ''u2'' ''VND'' \<le>
   balance_of (kw_db (snd (serve (kufi_gateway demo_env) demo_bearer (Transfer demo_transfer demo_headers) demo_world))) ''u2'' ''VND''"
proof -
  have "sparing_services ''u2'' demo_env"
    by (simp add: sparing_services_def spares_def spared_def grown_refl demo_env_def example_env_quiet sample_ato_env_def sample_note_env_def)
  moreover have "''u2'' \<noteq> js_trim ''u1''" by code_simp
  ultimately show ?thesis
    using only_own_money [of demo_world "''u2''" demo_env demo_bearer "''VND''"] example_books(2) demo_user by (simp add: demo_world_def)
qed

end
