(* ===== verification/Monitor_Admin.thy ===== *)
theory Monitor_Admin
  imports JS_Text
begin

text \<open>
  The administrators of the monitoring back end (\<^verbatim>\<open>src/monitoring_system/backend/src\<close>): the
  tables of users, roles and audit logs, login and access tokens (\<^verbatim>\<open>auth/auth.service.ts\<close>),
  their management (\<^verbatim>\<open>admin/admin.service.ts\<close>), the two guards and the audit log. bcrypt, the
  JWT library, the checks of class-validator, the string order of the database and what else runs
  between two awaits are fields of \<open>mon_env\<close>. A column of type simple-array holds its elements joined
  by commas (\<open>simple_array\<close>). \<open>save\<close> compares with the stored row and writes all columns that differ.
\<close>

section \<open>Tables\<close>

record admin_role =
  ro_id :: string
  ro_code :: string
  ro_name :: string
  ro_description :: "string option"
  ro_permissions :: "string list"
  ro_createdAt :: int

record admin_user =
  mu_id :: string
  mu_email :: string
  mu_displayName :: string
  mu_title :: string
  mu_passwordHash :: string
  mu_locale :: string
  mu_isActive :: bool
  mu_extraPermissions :: "string list"
  mu_roleId :: string
  mu_lastLoginAt :: "int option"
  mu_createdAt :: int
  mu_updatedAt :: int

record audit_log =
  al_actorUserId :: "string option"
  al_actorEmail :: "string option"
  al_verb :: string
  al_path :: string
  al_action :: string
  al_resource :: string
  al_statusCode :: int
  al_ipAddress :: "string option"
  al_payload :: "(string \<times> json) list option"
  al_outcome :: "string option"
  al_createdAt :: int

record admin_db =
  mb_users :: "admin_user list"
  mb_roles :: "admin_role list"
  mb_logs :: "audit_log list"
  mb_uuid :: "nat \<Rightarrow> string"
  mb_seq :: nat

text \<open>The HTTP exceptions of the back end, an error without a status, and one of the database.\<close>

datatype mon_error =
    MonUnauthorized string
  | MonForbidden string
  | MonNotFound string
  | MonConflict string
  | MonBadRequest string
  | MonError string
  | MonQueryFailed

type_synonym 'a mon_handler = "(admin_db, mon_error, 'a) handler"

section \<open>Surroundings\<close>

record token_payload =
  tk_sub :: "string option"
  tk_email :: string
  tk_roleCode :: string

record mon_env =
  mo_cfg :: "string \<Rightarrow> string option"
  mo_now :: int
  mo_bcryptHash :: "string \<Rightarrow> string"
  mo_bcryptCompare :: "string \<Rightarrow> string \<Rightarrow> bool"
  mo_jwtSign :: "string \<Rightarrow> token_payload \<Rightarrow> string \<Rightarrow> string option"
  mo_jwtVerify :: "string \<Rightarrow> string \<Rightarrow> token_payload option"
  mo_isEmail :: "string \<Rightarrow> bool"
  mo_isUuid :: "string \<Rightarrow> bool"
  mo_collate :: "string \<Rightarrow> string \<Rightarrow> bool"
  mo_logStored :: "audit_log \<Rightarrow> bool"
  mo_others :: "admin_db \<Rightarrow> admin_db"

definition mon_await :: "mon_env \<Rightarrow> unit mon_handler" where
  "mon_await env = interfere (mo_others env)"

section \<open>Permissions\<close>

definition DASHBOARD_VIEW :: string where "DASHBOARD_VIEW = ''dashboard:view''"
definition METRICS_VIEW :: string where "METRICS_VIEW = ''metrics:view''"
definition CHAIN_VIEW :: string where "CHAIN_VIEW = ''chain:view''"
definition LOGS_VIEW :: string where "LOGS_VIEW = ''logs:view''"
definition AUDIT_VIEW :: string where "AUDIT_VIEW = ''audit:view''"
definition ADMIN_USERS_MANAGE :: string where "ADMIN_USERS_MANAGE = ''admin-users:manage''"
definition MOBILE_VIEW :: string where "MOBILE_VIEW = ''mobile:view''"

lemmas permission_defs = DASHBOARD_VIEW_def METRICS_VIEW_def CHAIN_VIEW_def LOGS_VIEW_def AUDIT_VIEW_def
  ADMIN_USERS_MANAGE_def MOBILE_VIEW_def

definition ALL_PERMISSIONS :: "string list" where
  "ALL_PERMISSIONS =
     [DASHBOARD_VIEW, METRICS_VIEW, CHAIN_VIEW, LOGS_VIEW, AUDIT_VIEW, ADMIN_USERS_MANAGE, MOBILE_VIEW]"

section \<open>Rows and entities\<close>

definition simple_array :: "string list \<Rightarrow> string list" where
  "simple_array xs = (let s = js_join '','' xs in if s = [] then [] else js_split (CHR '','') s)"

text \<open>An entity is a row with the role that was loaded along with it.\<close>

type_synonym admin_entity = "admin_user \<times> admin_role option"

definition role_of :: "admin_db \<Rightarrow> admin_user \<Rightarrow> admin_role option" where
  "role_of d u = find_row (\<lambda>r. ro_id r = mu_roleId u) (mb_roles d)"

definition find_admin :: "(admin_user \<Rightarrow> bool) \<Rightarrow> admin_db \<Rightarrow> admin_entity option" where
  "find_admin p d = map_option (\<lambda>u. (u, role_of d u)) (find_row p (mb_users d))"

definition admin_column :: "admin_user \<Rightarrow> admin_user" where
  "admin_column u = u\<lparr>mu_extraPermissions := simple_array (mu_extraPermissions u)\<rparr>"

definition save_admin :: "mon_env \<Rightarrow> admin_user \<Rightarrow> admin_db \<Rightarrow> mon_error + (admin_user \<times> admin_db)" where
  "save_admin env u d =
     (if clash (Some \<circ> mu_email) mu_id u (mb_users d) then Inl MonQueryFailed
      else let v = (if admin_column u \<in> set (mb_users d) then u else u\<lparr>mu_updatedAt := mo_now env\<rparr>)
           in Inr (v, d\<lparr>mb_users := put_row mu_id (admin_column v) (mb_users d)\<rparr>))"

definition insert_admin :: "mon_env \<Rightarrow> admin_user \<Rightarrow> admin_db \<Rightarrow> mon_error + (admin_user \<times> admin_db)" where
  "insert_admin env u d =
     (let v = u\<lparr>mu_id := mb_uuid d (mb_seq d), mu_createdAt := mo_now env, mu_updatedAt := mo_now env\<rparr>
      in if mu_id v \<in> mu_id ` set (mb_users d) \<or> mu_email v \<in> mu_email ` set (mb_users d) then Inl MonQueryFailed
         else Inr (v, d\<lparr>mb_users := mb_users d @ [admin_column v], mb_seq := Suc (mb_seq d)\<rparr>))"

definition insert_role :: "mon_env \<Rightarrow> admin_role \<Rightarrow> admin_db \<Rightarrow> mon_error + (unit \<times> admin_db)" where
  "insert_role env r d =
     (let v = r\<lparr>ro_id := mb_uuid d (mb_seq d), ro_permissions := simple_array (ro_permissions r), ro_createdAt := mo_now env\<rparr>
      in if ro_id v \<in> ro_id ` set (mb_roles d) \<or> ro_code v \<in> ro_code ` set (mb_roles d) then Inl MonQueryFailed
         else Inr ((), d\<lparr>mb_roles := mb_roles d @ [v], mb_seq := Suc (mb_seq d)\<rparr>))"

section \<open>Access tokens\<close>

record authenticated_user =
  mv_id :: string
  mv_email :: string
  mv_displayName :: string
  mv_title :: string
  mv_locale :: string
  mv_roleCode :: string
  mv_permissions :: "string list"

text \<open>\<open>[...new Set(xs)]\<close> keeps the first occurrences.\<close>

definition js_unique :: "'a list \<Rightarrow> 'a list" where
  "js_unique xs = rev (remdups (rev xs))"

definition role_code :: "admin_role option \<Rightarrow> string" where
  "role_code r = coalesce (map_option ro_code r) ''unknown''"

definition toAuthenticatedUser :: "admin_entity \<Rightarrow> authenticated_user" where
  "toAuthenticatedUser e =
     (let u = fst e; r = snd e
      in \<lparr>mv_id = mu_id u, mv_email = mu_email u, mv_displayName = mu_displayName u, mv_title = mu_title u,
          mv_locale = mu_locale u, mv_roleCode = role_code r,
          mv_permissions = filter (\<lambda>p. p \<noteq> [])
            (js_unique ((case r of Some x \<Rightarrow> ro_permissions x | None \<Rightarrow> []) @ mu_extraPermissions u))\<rparr>)"

definition jwtSecret :: "mon_env \<Rightarrow> mon_error + string" where
  "jwtSecret env =
     (case mo_cfg env ''JWT_SECRET'' of
        None \<Rightarrow> Inl (MonError ''JWT_SECRET is required.'')
      | Some s \<Rightarrow> if js_trim s = [] then Inl (MonError ''JWT_SECRET is required.'') else Inr (js_trim s))"

definition issueAccessToken :: "mon_env \<Rightarrow> admin_entity \<Rightarrow> mon_error + string" where
  "issueAccessToken env e =
     bindE (jwtSecret env) (\<lambda>secret.
       case mo_jwtSign env secret
              \<lparr>tk_sub = Some (mu_id (fst e)), tk_email = mu_email (fst e), tk_roleCode = role_code (snd e)\<rparr>
              (coalesce (mo_cfg env ''JWT_EXPIRES_IN'') ''12h'') of
         None \<Rightarrow> Inl (MonError ''jwt'')
       | Some token \<Rightarrow> Inr token)"

text \<open>A payload without sub makes a query without a condition, which yields some row.\<close>

definition validateAccessToken :: "mon_env \<Rightarrow> string \<Rightarrow> authenticated_user mon_handler" where
  "validateAccessToken env token =
     (case bindE (jwtSecret env) (\<lambda>secret. case mo_jwtVerify env secret token of None \<Rightarrow> Inl (MonError ''jwt'') | Some p \<Rightarrow> Inr p) of
        Inl _ \<Rightarrow> throwH (MonUnauthorized ''Invalid access token'')
      | Inr payload \<Rightarrow>
          bindH (readH (find_admin (\<lambda>u. case tk_sub payload of None \<Rightarrow> True | Some i \<Rightarrow> mu_id u = i))) (\<lambda>found.
            case found of
              None \<Rightarrow> throwH (MonUnauthorized ''Account is inactive'')
            | Some e \<Rightarrow>
                if \<not> mu_isActive (fst e) then throwH (MonUnauthorized ''Account is inactive'')
                else returnH (toAuthenticatedUser e)))"

section \<open>Login\<close>

record login_dto =
  ld_email :: string
  ld_password :: string

record login_result =
  lr_accessToken :: string
  lr_user :: authenticated_user

definition norm_email :: "string \<Rightarrow> string" where
  "norm_email s = js_lower (js_trim s)"

definition login :: "mon_env \<Rightarrow> login_dto \<Rightarrow> login_result mon_handler" where
  "login env dto =
     bindH (readH (find_admin (\<lambda>u. mu_email u = norm_email (ld_email dto)))) (\<lambda>found.
       case found of
         None \<Rightarrow> throwH (MonUnauthorized ''Invalid credentials'')
       | Some (u, r) \<Rightarrow>
           if \<not> mu_isActive u then throwH (MonUnauthorized ''Invalid credentials'')
           else if \<not> mo_bcryptCompare env (ld_password dto) (mu_passwordHash u)
           then throwH (MonUnauthorized ''Invalid credentials'')
           else bindH (mon_await env) (\<lambda>_.
                bindH (atomic (save_admin env (u\<lparr>mu_lastLoginAt := Some (mo_now env)\<rparr>))) (\<lambda>saved.
                bindH (liftE (issueAccessToken env (saved, r))) (\<lambda>token.
                returnH \<lparr>lr_accessToken = token, lr_user = toAuthenticatedUser (saved, r)\<rparr>))))"

section \<open>Management of the accounts\<close>

record role_view =
  rv_id :: string
  rv_code :: string
  rv_name :: string
  rv_permissions :: "string list"

record public_user =
  pv_id :: string
  pv_email :: string
  pv_displayName :: string
  pv_title :: string
  pv_locale :: string
  pv_isActive :: bool
  pv_role :: "role_view option"
  pv_extraPermissions :: "string list"
  pv_lastLoginAt :: "int option"
  pv_createdAt :: int
  pv_updatedAt :: int

definition toPublicUser :: "admin_entity \<Rightarrow> public_user" where
  "toPublicUser e =
     (let u = fst e
      in \<lparr>pv_id = mu_id u, pv_email = mu_email u, pv_displayName = mu_displayName u, pv_title = mu_title u,
          pv_locale = mu_locale u, pv_isActive = mu_isActive u,
          pv_role = map_option (\<lambda>r. \<lparr>rv_id = ro_id r, rv_code = ro_code r, rv_name = ro_name r,
            rv_permissions = ro_permissions r\<rparr>) (snd e),
          pv_extraPermissions = mu_extraPermissions u, pv_lastLoginAt = mu_lastLoginAt u,
          pv_createdAt = mu_createdAt u, pv_updatedAt = mu_updatedAt u\<rparr>)"

definition listUsers :: "public_user list mon_handler" where
  "listUsers = readH (\<lambda>d. map (\<lambda>u. toPublicUser (u, role_of d u)) (sort_key (\<lambda>u. - mu_createdAt u) (mb_users d)))"

definition listRoles :: "mon_env \<Rightarrow> admin_role list mon_handler" where
  "listRoles env = readH (\<lambda>d. sort_by (\<lambda>x y. mo_collate env (ro_name x) (ro_name y)) (mb_roles d))"

definition listPermissions :: "string list mon_handler" where
  "listPermissions = returnH ALL_PERMISSIONS"

record create_admin_dto =
  cd_email :: string
  cd_password :: string
  cd_displayName :: string
  cd_title :: string
  cd_roleId :: string
  cd_locale :: "string option"
  cd_isActive :: "bool option"
  cd_extraPermissions :: "string list option"

record create_admin_result =
  cr_createdBy :: string
  cr_user :: public_user

definition createUser :: "mon_env \<Rightarrow> create_admin_dto \<Rightarrow> authenticated_user \<Rightarrow> create_admin_result mon_handler" where
  "createUser env dto actor =
     (let email = norm_email (cd_email dto)
      in bindH (readH (find_admin (\<lambda>u. mu_email u = email))) (\<lambda>existing.
         if existing \<noteq> None then throwH (MonConflict ''Email already exists'')
         else bindH (mon_await env) (\<lambda>_.
              bindH (readH (\<lambda>d. find_row (\<lambda>r. ro_id r = cd_roleId dto) (mb_roles d))) (\<lambda>found.
                case found of
                  None \<Rightarrow> throwH (MonNotFound ''Role not found'')
                | Some role \<Rightarrow>
                    bindH (mon_await env) (\<lambda>_.
                    bindH (atomic (insert_admin env
                      \<lparr>mu_id = [], mu_email = email, mu_displayName = js_trim (cd_displayName dto),
                       mu_title = js_trim (cd_title dto), mu_passwordHash = mo_bcryptHash env (cd_password dto),
                       mu_locale = or_str (map_option js_trim (cd_locale dto)) ''vi'',
                       mu_isActive = coalesce (cd_isActive dto) True,
                       mu_extraPermissions = coalesce (cd_extraPermissions dto) [], mu_roleId = ro_id role,
                       mu_lastLoginAt = None, mu_createdAt = 0, mu_updatedAt = 0\<rparr>)) (\<lambda>saved.
                    returnH \<lparr>cr_createdBy = mv_email actor, cr_user = toPublicUser (saved, Some role)\<rparr>))))))"

record update_admin_dto =
  ud_email :: "string option"
  ud_password :: "string option"
  ud_displayName :: "string option"
  ud_title :: "string option"
  ud_roleId :: "string option"
  ud_locale :: "string option"
  ud_isActive :: "bool option"
  ud_extraPermissions :: "string list option"

text \<open>\<open>if (dto.x) user.x = f(dto.x)\<close> on a text that may be missing.\<close>

definition truthy_text :: "string option \<Rightarrow> (string \<Rightarrow> 'a) \<Rightarrow> 'a \<Rightarrow> 'a" where
  "truthy_text x f old = (case x of None \<Rightarrow> old | Some s \<Rightarrow> if s = [] then old else f s)"

definition update_email :: "mon_env \<Rightarrow> update_admin_dto \<Rightarrow> admin_user \<Rightarrow> admin_user mon_handler" where
  "update_email env dto u =
     (let email = truthy_text (ud_email dto) norm_email (mu_email u)
      in if email = mu_email u then returnH u
         else bindH (mon_await env) (\<lambda>_.
              bindH (readH (find_admin (\<lambda>x. mu_email x = email))) (\<lambda>existing.
                if existing \<noteq> None then throwH (MonConflict ''Email already exists'')
                else returnH (u\<lparr>mu_email := email\<rparr>))))"

definition update_role :: "mon_env \<Rightarrow> update_admin_dto \<Rightarrow> admin_entity \<Rightarrow> admin_entity mon_handler" where
  "update_role env dto e =
     (let roleId = truthy_text (ud_roleId dto) (\<lambda>s. s) (mu_roleId (fst e))
      in if roleId = mu_roleId (fst e) then returnH e
         else bindH (mon_await env) (\<lambda>_.
              bindH (readH (\<lambda>d. find_row (\<lambda>r. ro_id r = roleId) (mb_roles d))) (\<lambda>found.
                case found of
                  None \<Rightarrow> throwH (MonNotFound ''Role not found'')
                | Some role \<Rightarrow> returnH ((fst e)\<lparr>mu_roleId := ro_id role\<rparr>, Some role))))"

definition update_rest :: "mon_env \<Rightarrow> update_admin_dto \<Rightarrow> admin_user \<Rightarrow> admin_user" where
  "update_rest env dto u =
     u\<lparr>mu_displayName := truthy_text (ud_displayName dto) js_trim (mu_displayName u),
       mu_title := truthy_text (ud_title dto) js_trim (mu_title u),
       mu_locale := truthy_text (ud_locale dto) js_trim (mu_locale u),
       mu_extraPermissions := coalesce (ud_extraPermissions dto) (mu_extraPermissions u),
       mu_isActive := coalesce (ud_isActive dto) (mu_isActive u),
       mu_passwordHash := truthy_text (ud_password dto) (mo_bcryptHash env) (mu_passwordHash u)\<rparr>"

definition updateUser :: "mon_env \<Rightarrow> string \<Rightarrow> update_admin_dto \<Rightarrow> public_user mon_handler" where
  "updateUser env i dto =
     bindH (readH (find_admin (\<lambda>u. mu_id u = i))) (\<lambda>found.
       case found of
         None \<Rightarrow> throwH (MonNotFound ''Admin user not found'')
       | Some (u, r) \<Rightarrow>
           bindH (update_email env dto u) (\<lambda>u1.
           bindH (update_role env dto (u1, r)) (\<lambda>e.
           bindH (mon_await env) (\<lambda>_.
           bindH (atomic (save_admin env (update_rest env dto (fst e)))) (\<lambda>saved.
           returnH (toPublicUser (saved, snd e)))))))"

section \<open>Default roles and the first administrator\<close>

definition seed_role_row :: "string \<Rightarrow> string \<Rightarrow> string \<Rightarrow> string list \<Rightarrow> admin_role" where
  "seed_role_row code nm descr perms =
     \<lparr>ro_id = [], ro_code = code, ro_name = nm, ro_description = Some descr, ro_permissions = perms, ro_createdAt = 0\<rparr>"

definition seedRoles :: "admin_role list" where
  "seedRoles =
     [seed_role_row ''super_admin'' ''Super Admin'' ''Full access across monitoring, chain ops, and user admin.''
        ALL_PERMISSIONS,
      seed_role_row ''sre_operator'' ''SRE Operator'' ''Operational owner for infrastructure, services, and logs.''
        [DASHBOARD_VIEW, METRICS_VIEW, CHAIN_VIEW, LOGS_VIEW, AUDIT_VIEW, MOBILE_VIEW],
      seed_role_row ''chain_operator'' ''Chain Operator'' ''Focused on chain health, peer topology, and node incidents.''
        [DASHBOARD_VIEW, METRICS_VIEW, CHAIN_VIEW, LOGS_VIEW, MOBILE_VIEW],
      seed_role_row ''mobile_observer'' ''Mobile Observer'' ''Read-only mobile visibility for incidents and chain health.''
        [DASHBOARD_VIEW, METRICS_VIEW, CHAIN_VIEW, MOBILE_VIEW]]"

definition find_role :: "string \<Rightarrow> admin_db \<Rightarrow> admin_role option" where
  "find_role code d = find_row (\<lambda>r. ro_code r = code) (mb_roles d)"

definition seed_role :: "mon_env \<Rightarrow> admin_role \<Rightarrow> unit mon_handler" where
  "seed_role env r =
     bindH (readH (find_role (ro_code r))) (\<lambda>existing.
       if existing = None then atomic (insert_role env r) else returnH ())"

fun seed_role_rows :: "mon_env \<Rightarrow> admin_role list \<Rightarrow> unit mon_handler" where
  "seed_role_rows env [] = returnH ()"
| "seed_role_rows env (r # rs) = bindH (seed_role env r) (\<lambda>_. seed_role_rows env rs)"

definition required_text :: "mon_env \<Rightarrow> string \<Rightarrow> mon_error + string" where
  "required_text env k =
     (let s = js_trim (coalesce (mo_cfg env k) []) in if s = [] then Inl (MonError (k @ '' is required.'')) else Inr s)"

definition seed_admin :: "mon_env \<Rightarrow> string \<Rightarrow> unit mon_handler" where
  "seed_admin env adminEmail =
     bindH (readH (find_role ''super_admin'')) (\<lambda>found.
       case found of
         None \<Rightarrow> throwH (MonError ''EntityNotFoundError'')
       | Some role \<Rightarrow>
           bindH (liftE (required_text env ''ADMIN_PASSWORD'')) (\<lambda>adminPassword.
           bindH (atomic (insert_admin env
             \<lparr>mu_id = [], mu_email = adminEmail,
              mu_displayName = coalesce (mo_cfg env ''ADMIN_DISPLAY_NAME'') ''Kufi Monitoring Owner'',
              mu_title = coalesce (mo_cfg env ''ADMIN_TITLE'') ''Platform Lead'',
              mu_passwordHash = mo_bcryptHash env adminPassword,
              mu_locale = coalesce (mo_cfg env ''ADMIN_LOCALE'') ''vi'', mu_isActive = True,
              mu_extraPermissions = [], mu_roleId = ro_id role, mu_lastLoginAt = None,
              mu_createdAt = 0, mu_updatedAt = 0\<rparr>)) (\<lambda>_.
           returnH ())))"

definition seedDefaults :: "mon_env \<Rightarrow> unit mon_handler" where
  "seedDefaults env =
     bindH (seed_role_rows env seedRoles) (\<lambda>_.
     bindH (liftE (required_text env ''ADMIN_EMAIL'')) (\<lambda>raw.
       let adminEmail = js_lower raw
       in bindH (readH (find_admin (\<lambda>u. mu_email u = adminEmail))) (\<lambda>existing.
          if existing \<noteq> None then returnH () else seed_admin env adminEmail)))"

section \<open>Guards\<close>

datatype bearer_header = BearerAbsent | BearerText string | BearerMany "string list"

record mon_request =
  rq_verb :: string
  rq_url :: string
  rq_ip :: "string option"
  rq_authorization :: bearer_header
  rq_body :: "(string \<times> json) list option"

text \<open>The user that the guard puts into the request; none on a public route.\<close>

definition jwt_guard :: "mon_env \<Rightarrow> bool \<Rightarrow> mon_request \<Rightarrow> authenticated_user option mon_handler" where
  "jwt_guard env isPublic rq =
     (if isPublic then returnH None
      else case rq_authorization rq of
        BearerText h \<Rightarrow>
          if h = [] then throwH (MonUnauthorized ''Missing Authorization header'')
          else (case js_split (CHR '' '') h of
                  scheme # token # _ \<Rightarrow>
                    if scheme \<noteq> ''Bearer'' \<or> token = [] then throwH (MonUnauthorized ''Malformed Authorization header'')
                    else bindH (validateAccessToken env token) (\<lambda>u. returnH (Some u))
                | _ \<Rightarrow> throwH (MonUnauthorized ''Malformed Authorization header''))
      | _ \<Rightarrow> throwH (MonUnauthorized ''Missing Authorization header''))"

definition permissions_guard :: "string list \<Rightarrow> authenticated_user option \<Rightarrow> mon_error + unit" where
  "permissions_guard required user =
     (if required = [] then Inr ()
      else case user of
        None \<Rightarrow> Inl (MonForbidden ''User is not authenticated'')
      | Some u \<Rightarrow>
          if list_all (\<lambda>p. p \<in> set (mv_permissions u)) required then Inr ()
          else Inl (MonForbidden ''Insufficient permissions''))"

section \<open>Audit log\<close>

definition redacted_keys :: "string list" where
  "redacted_keys = [''password'', ''passwordHash'', ''refreshToken'', ''accessToken'']"

fun redact :: "string list \<Rightarrow> (string \<times> json) list \<Rightarrow> (string \<times> json) list" where
  "redact [] body = body"
| "redact (k # ks) body =
     redact ks (if k \<in> set (map fst body) then obj_set k (JString ''[redacted]'') body else body)"

definition sanitizePayload :: "(string \<times> json) list option \<Rightarrow> (string \<times> json) list option" where
  "sanitizePayload body = map_option (redact redacted_keys) body"

definition path_parts :: "string \<Rightarrow> string \<times> string" where
  "path_parts url =
     (let segments = filter (\<lambda>s. s \<noteq> []) (js_split (CHR ''/'') url);
          normalized = (case segments of s # rest \<Rightarrow> if s = ''api'' then rest else segments | [] \<Rightarrow> [])
      in case normalized of
           [] \<Rightarrow> (''unknown'', ''unknown'')
         | [resource] \<Rightarrow> (resource, ''unknown'')
         | resource # action # _ \<Rightarrow> (resource, action))"

text \<open>\<open>error.status ?? response.statusCode\<close>: only the HTTP exceptions carry a status.\<close>

fun error_status :: "int \<Rightarrow> mon_error \<Rightarrow> int" where
  "error_status st (MonUnauthorized _) = 401"
| "error_status st (MonForbidden _) = 403"
| "error_status st (MonNotFound _) = 404"
| "error_status st (MonConflict _) = 409"
| "error_status st (MonBadRequest _) = 400"
| "error_status st (MonError _) = st"
| "error_status st MonQueryFailed = st"

fun mon_error_message :: "mon_error \<Rightarrow> string" where
  "mon_error_message (MonUnauthorized m) = m"
| "mon_error_message (MonForbidden m) = m"
| "mon_error_message (MonNotFound m) = m"
| "mon_error_message (MonConflict m) = m"
| "mon_error_message (MonBadRequest m) = m"
| "mon_error_message (MonError m) = m"
| "mon_error_message MonQueryFailed = ''query failed''"

definition audit_entry :: "mon_env \<Rightarrow> mon_request \<Rightarrow> authenticated_user option \<Rightarrow> int \<Rightarrow> mon_error option \<Rightarrow> audit_log" where
  "audit_entry env rq user st err =
     \<lparr>al_actorUserId = map_option mv_id user, al_actorEmail = map_option mv_email user, al_verb = rq_verb rq,
      al_path = rq_url rq, al_action = snd (path_parts (rq_url rq)), al_resource = fst (path_parts (rq_url rq)),
      al_statusCode = (case err of None \<Rightarrow> st | Some e \<Rightarrow> error_status st e), al_ipAddress = rq_ip rq,
      al_payload = sanitizePayload (rq_body rq),
      al_outcome = Some (case err of None \<Rightarrow> ''success'' | Some e \<Rightarrow> mon_error_message e), al_createdAt = mo_now env\<rparr>"

definition createLog :: "mon_env \<Rightarrow> audit_log \<Rightarrow> admin_db \<Rightarrow> admin_db" where
  "createLog env l d = (if mo_logStored env l then d\<lparr>mb_logs := mb_logs d @ [l]\<rparr> else d)"

text \<open>The status of the response is already set when the interceptor runs: 201 for POST.\<close>

definition response_status :: "mon_request \<Rightarrow> int" where
  "response_status rq = (if rq_verb rq = ''POST'' then 201 else 200)"

definition log_result ::
    "mon_env \<Rightarrow> mon_request \<Rightarrow> authenticated_user option \<Rightarrow> mon_error option \<Rightarrow> admin_db \<Rightarrow> admin_db" where
  "log_result env rq user err d =
     (if rq_verb rq \<in> {''GET'', ''HEAD'', ''OPTIONS''} then d
      else createLog env (audit_entry env rq user (response_status rq) err) d)"

text \<open>A \<open>take\<close> that is not a number is refused by the query builder.\<close>

definition listLogs :: "js_number \<Rightarrow> audit_log list mon_handler" where
  "listLogs limit =
     (case js_min (js_max limit (js_of_int 1)) (js_of_int 500) of
        JsNum n \<Rightarrow> readH (\<lambda>d. take (nat (round_rat n)) (sort_key (\<lambda>l. - al_createdAt l) (mb_logs d)))
      | _ \<Rightarrow> throwH (MonError ''Provided \"take\" value is not a number.''))"

section \<open>The accounts\<close>

text \<open>
  The invariant of the tables: ids and e-mails are unique, e-mails are stored trimmed and in lower case,
  the role of every account exists, and the extra permissions are as the column gives them back.
\<close>

definition account_ok :: "admin_db \<Rightarrow> admin_user \<Rightarrow> bool" where
  "account_ok d u \<longleftrightarrow> norm_email (mu_email u) = mu_email u \<and> mu_roleId u \<in> ro_id ` set (mb_roles d)"

definition admin_ok :: "admin_db \<Rightarrow> bool" where
  "admin_ok d \<longleftrightarrow> distinct (map mu_id (mb_users d)) \<and> distinct (map mu_email (mb_users d)) \<and>
     (\<forall>u\<in>set (mb_users d). account_ok d u \<and> admin_column u = u) \<and> distinct (map ro_id (mb_roles d)) \<and> distinct (map ro_code (mb_roles d))"

text \<open>What the other requests may do between two awaits: keep the invariant, and no role goes away.\<close>

definition admin_evolves :: "admin_db \<Rightarrow> admin_db \<Rightarrow> bool" where
  "admin_evolves d d' \<longleftrightarrow> (admin_ok d \<longrightarrow> admin_ok d') \<and> ro_id ` set (mb_roles d) \<subseteq> ro_id ` set (mb_roles d')"

definition others_evolve :: "mon_env \<Rightarrow> bool" where
  "others_evolve env \<longleftrightarrow> (\<forall>d. admin_evolves d (mo_others env d))"

lemma norm_email_idem [simp]: "norm_email (norm_email s) = norm_email s"
  by (simp add: norm_email_def js_trim_lower)

lemma admin_column_simps [simp]:
  "mu_id (admin_column u) = mu_id u" "mu_email (admin_column u) = mu_email u"
  "mu_roleId (admin_column u) = mu_roleId u" "mu_isActive (admin_column u) = mu_isActive u"
  "mu_passwordHash (admin_column u) = mu_passwordHash u"
  "mu_extraPermissions (admin_column u) = simple_array (mu_extraPermissions u)"
  by (simp_all add: admin_column_def)

lemma js_split_not_Nil [simp]: "js_split sep s \<noteq> []"
  by (cases s) (auto split: list.split)

lemma js_join_Cons: "ws \<noteq> [] \<Longrightarrow> js_join sep (w # ws) = w @ sep @ js_join sep ws"
  by (cases ws) simp_all

lemma js_join_split [simp]: "js_join [sep] (js_split sep s) = s"
proof (induction s)
  case (Cons c s)
  show ?case
  proof (cases "js_split sep s")
    case (Cons w ws)
    with Cons.IH show ?thesis by (cases ws) auto
  qed simp
qed simp

lemma simple_array_idem [simp]: "simple_array (simple_array xs) = simple_array xs"
  by (simp add: simple_array_def Let_def)

lemma admin_column_idem: "mu_extraPermissions u = simple_array xs \<Longrightarrow> admin_column u = u"
  by (simp add: admin_column_def)

lemma admin_column_twice [simp]: "admin_column (admin_column u) = admin_column u"
  by (rule admin_column_idem [of _ "mu_extraPermissions u"]) simp

lemma account_ok_column [simp]: "account_ok d (admin_column u) = account_ok d u"
  by (simp add: account_ok_def)

lemma account_ok_more: "account_ok d u \<Longrightarrow> ro_id ` set (mb_roles d) \<subseteq> ro_id ` set (mb_roles d') \<Longrightarrow> account_ok d' u"
  by (auto simp add: account_ok_def)

lemma map_key_put_row:
  "map key (put_row key r rs) = (if key r \<in> set (map key rs) then map key rs else map key rs @ [key r])"
  by (simp add: put_row_def)

lemma distinct_save_row:
  assumes "distinct (map f rs)" and "distinct (map key rs)" and "\<forall>x\<in>set rs. key x \<noteq> key r \<longrightarrow> f x \<noteq> f r"
  shows "distinct (map f (save_row key r rs))"
  using assms
proof (induction rs)
  case (Cons a rs)
  show ?case
  proof (cases "key a = key r")
    case True
    then have absent: "key r \<notin> key ` set rs" using Cons.prems(2) by auto
    then have "\<forall>x\<in>set rs. f x \<noteq> f r" using Cons.prems(3) by (auto simp add: image_iff)
    moreover have "save_row key r (a # rs) = r # rs"
      using True save_row_absent [OF absent] by (simp add: save_row_def)
    ultimately show ?thesis using Cons.prems(1) by (auto simp add: image_iff)
  next
    case False
    have "f x \<noteq> f a" if "x \<in> set (save_row key r rs)" for x
      using set_save_rowD [OF that] Cons.prems False by (auto simp add: image_iff)
    then have "f a \<notin> f ` set (save_row key r rs)" by (metis imageE)
    moreover have "save_row key r (a # rs) = a # save_row key r rs" using False by (simp add: save_row_def)
    ultimately show ?thesis using Cons by simp
  qed
qed (simp add: save_row_def)

lemma distinct_put_row:
  assumes "distinct (map f rs)" and "distinct (map key rs)" and "\<forall>x\<in>set rs. key x \<noteq> key r \<longrightarrow> f x \<noteq> f r"
  shows "distinct (map f (put_row key r rs))"
proof (cases "key r \<in> set (map key rs)")
  case False
  then have "\<forall>x\<in>set rs. f x \<noteq> f r" using assms(3) by (auto simp add: image_iff)
  then show ?thesis using False assms(1) by (auto simp add: put_row_def image_iff)
qed (use distinct_save_row [OF assms] in \<open>simp add: put_row_def\<close>)

lemma save_admin_ok:
  assumes "admin_ok d" and "account_ok d u" and "save_admin env u d = Inr (v, d')"
  shows "admin_ok d'"
proof -
  have c: "\<not> clash (Some \<circ> mu_email) mu_id u (mb_users d)" and d': "d' = d\<lparr>mb_users := put_row mu_id (admin_column v) (mb_users d)\<rparr>"
    and v: "mu_id v = mu_id u" "mu_email v = mu_email u" "mu_roleId v = mu_roleId u"
    using assms(3) by (auto simp add: save_admin_def Let_def split: if_splits)
  have e: "mu_email x \<noteq> mu_email v" if "x \<in> set (mb_users d)" "mu_id x \<noteq> mu_id v" for x
    using c that v by (auto simp add: clash_def list_ex_iff)
  have "distinct (map mu_email (put_row mu_id (admin_column v) (mb_users d)))"
    using assms(1) e by (intro distinct_put_row) (simp_all add: admin_ok_def)
  moreover have "distinct (map mu_id (put_row mu_id (admin_column v) (mb_users d)))"
    using assms(1) by (auto simp add: map_key_put_row admin_ok_def)
  moreover have "account_ok d' x \<and> admin_column x = x" if "x \<in> set (put_row mu_id (admin_column v) (mb_users d))" for x
    using set_put_rowD [OF that] assms(1,2) v d' by (auto simp add: admin_ok_def account_ok_def)
  ultimately show ?thesis using assms(1) d' by (simp add: admin_ok_def)
qed

lemma insert_admin_ok:
  assumes "admin_ok d" and "account_ok d u" and "insert_admin env u d = Inr (v, d')"
  shows "admin_ok d'"
  using assms by (auto simp add: admin_ok_def insert_admin_def account_ok_def Let_def split: if_splits)

lemma insert_role_ok:
  assumes "admin_ok d" and "insert_role env r d = Inr (x, d')"
  shows "admin_ok d'"
  using assms by (auto simp add: admin_ok_def insert_role_def account_ok_def Let_def split: if_splits)

lemma find_admin_SomeD: "find_admin p d = Some e \<Longrightarrow> fst e \<in> set (mb_users d) \<and> p (fst e) \<and> snd e = role_of d (fst e)"
  by (auto simp add: find_admin_def dest: find_row_SomeD)

lemma await_admin: "others_evolve env \<Longrightarrow> (\<And>d d'. P d \<Longrightarrow> admin_evolves d d' \<Longrightarrow> Q d') \<Longrightarrow> triple P (mon_await env) (\<lambda>_. Q) E"
  by (auto simp add: mon_await_def others_evolve_def intro!: triple_interfere)

text \<open>The store is in order, and so are the e-mail and the role of an account about to be saved.\<close>

definition pending_ok :: "string \<Rightarrow> string \<Rightarrow> admin_db \<Rightarrow> bool" where
  "pending_ok email roleId d \<longleftrightarrow>
     admin_ok d \<and> norm_email email = email \<and> roleId \<in> ro_id ` set (mb_roles d)"

abbreviation pending_user :: "admin_user \<Rightarrow> admin_db \<Rightarrow> bool" where
  "pending_user u \<equiv> pending_ok (mu_email u) (mu_roleId u)"

lemma pending_evolves: "pending_ok email roleId d \<Longrightarrow> admin_evolves d d' \<Longrightarrow> pending_ok email roleId d'"
  by (auto simp add: pending_ok_def admin_evolves_def)

lemma pending_found: "admin_ok d \<Longrightarrow> find_admin p d = Some (u, r) \<Longrightarrow> pending_user u d"
  by (auto simp add: pending_ok_def admin_ok_def account_ok_def dest: find_admin_SomeD)

named_theorems admin_rules \<open>rules for the handlers of the accounts, with the invariant as the goal\<close>

lemma triple_quiet [admin_rules]:
  "triple admin_ok (returnH x) (\<lambda>_. admin_ok) admin_ok" "triple admin_ok (throwH e) Q admin_ok"
  "triple (pending_ok a b) (throwH e) Q admin_ok"
  by (simp_all add: triple_def returnH_def throwH_def pending_ok_def)

lemma triple_pre: "triple P m Q E \<Longrightarrow> (\<And>s. P' s \<Longrightarrow> P s) \<Longrightarrow> triple P' m Q E"
  by (erule triple_conseq)

lemma triple_bind_read: "(\<And>x. triple (\<lambda>s. P s \<and> f s = x) (g x) Q E) \<Longrightarrow> triple P (bindH (readH f) g) Q E"
  by (auto simp add: triple_def bindH_def readH_def)

lemma triple_ignore [admin_rules]:
  assumes "\<And>x. triple P (g x) Q E"
  shows "triple P (bindH (readH f) g) Q E"
  by (rule triple_bind_read, rule triple_pre [OF assms]) simp

lemma triple_find_admin:
  assumes "triple admin_ok n Q E" and "\<And>u r. triple (pending_user u) (f (u, r)) Q E"
  shows "triple admin_ok (bindH (readH (find_admin p)) (\<lambda>found. case found of None \<Rightarrow> n | Some e \<Rightarrow> f e)) Q E"
proof (rule triple_bind_read)
  show "triple (\<lambda>d. admin_ok d \<and> find_admin p d = x) (case x of None \<Rightarrow> n | Some e \<Rightarrow> f e) Q E" for x
    by (cases x) (auto intro: triple_pre [OF assms(1)] triple_pre [OF assms(2)] pending_found)
qed

lemma triple_await [admin_rules]:
  assumes "others_evolve env"
  shows "triple (pending_ok a b) (f ()) Q E \<Longrightarrow> triple (pending_ok a b) (bindH (mon_await env) f) Q E"
    and "triple admin_ok (f ()) Q E \<Longrightarrow> triple admin_ok (bindH (mon_await env) f) Q E"
proof -
  have keep: "triple P (bindH (mon_await env) f) Q E" if "triple P (f ()) Q E" "\<And>d. P d \<Longrightarrow> P (mo_others env d)" for P
    unfolding mon_await_def by (rule triple_bindH [OF triple_interfere [of P "\<lambda>_. P"]]) (use that in simp_all)
  show "triple (pending_ok a b) (f ()) Q E \<Longrightarrow> triple (pending_ok a b) (bindH (mon_await env) f) Q E"
    using assms by (intro keep) (auto simp add: others_evolve_def intro: pending_evolves)
  show "triple admin_ok (f ()) Q E \<Longrightarrow> triple admin_ok (bindH (mon_await env) f) Q E"
    using assms by (intro keep) (auto simp add: others_evolve_def admin_evolves_def)
qed

lemma triple_save_admin [admin_rules]:
  assumes "mu_email v = a" and "mu_roleId v = b" and "\<And>x. triple admin_ok (f x) Q admin_ok"
  shows "triple (pending_ok a b) (bindH (atomic (save_admin env v)) f) Q admin_ok"
    and "triple (pending_ok a b) (bindH (atomic (insert_admin env v)) f) Q admin_ok"
proof -
  have ok: "admin_ok s \<and> account_ok s v" if "pending_ok a b s" for s
    using that assms(1,2) by (simp add: pending_ok_def account_ok_def)
  show "triple (pending_ok a b) (bindH (atomic (save_admin env v)) f) Q admin_ok"
    by (rule triple_bindH [OF triple_atomic assms(3)]) (use ok save_admin_ok in blast)+
  show "triple (pending_ok a b) (bindH (atomic (insert_admin env v)) f) Q admin_ok"
    by (rule triple_bindH [OF triple_atomic assms(3)]) (use ok insert_admin_ok in blast)+
qed

lemma triple_lift_ok [admin_rules]:
  "(\<And>x. triple P (f x) Q admin_ok) \<Longrightarrow> (\<And>s. P s \<Longrightarrow> admin_ok s) \<Longrightarrow> triple P (bindH (liftE r) f) Q admin_ok"
  by (rule triple_bindH [OF triple_liftE [of P r "\<lambda>_. P"]]) simp_all

lemma login_keeps: "others_evolve env \<Longrightarrow> triple admin_ok (login env dto) (\<lambda>_. admin_ok) admin_ok"
  unfolding login_def by (rule triple_find_admin) (auto intro!: admin_rules)

lemma triple_find_role:
  assumes "\<And>d. P d \<Longrightarrow> admin_ok d \<and> norm_email email = email" and "triple P n Q E" and "\<And>r. triple (pending_ok email (ro_id r)) (f r) Q E"
  shows "triple P (bindH (readH (\<lambda>d. find_row p (mb_roles d)))
    (\<lambda>found. case found of None \<Rightarrow> n | Some r \<Rightarrow> f r)) Q E"
proof (rule triple_bind_read)
  show "triple (\<lambda>d. P d \<and> find_row p (mb_roles d) = x) (case x of None \<Rightarrow> n | Some r \<Rightarrow> f r) Q E" for x
    using assms(1)
    by (cases x) (auto intro!: triple_pre [OF assms(2)] triple_pre [OF assms(3)] simp add: pending_ok_def dest: find_row_SomeD)
qed

lemma createUser_keeps: "others_evolve env \<Longrightarrow> triple admin_ok (createUser env dto actor) (\<lambda>_. admin_ok) admin_ok"
  unfolding createUser_def Let_def
  by (intro admin_rules triple_if triple_find_role [of _ "norm_email (cd_email dto)"]) auto

lemma update_email_keeps:
  "others_evolve env \<Longrightarrow>
   triple (pending_user u) (update_email env dto u) (\<lambda>v d. pending_user v d \<and> mu_id v = mu_id u) admin_ok"
  unfolding update_email_def Let_def
  by (intro admin_rules triple_if triple_returnH)
    (auto simp add: pending_ok_def truthy_text_def split: option.splits if_splits)

lemma update_role_keeps:
  "others_evolve env \<Longrightarrow>
   triple (pending_user (fst e)) (update_role env dto e) (\<lambda>e' d. pending_user (fst e') d \<and> mu_id (fst e') = mu_id (fst e)) admin_ok"
  unfolding update_role_def Let_def
  by (intro admin_rules triple_if triple_find_role [of _ "mu_email (fst e)"] triple_returnH)
    (auto simp add: pending_ok_def)

lemma updateUser_keeps: "others_evolve env \<Longrightarrow> triple admin_ok (updateUser env i dto) (\<lambda>_. admin_ok) admin_ok"
  unfolding updateUser_def
proof (rule triple_find_admin, rule admin_rules, simp only: prod.case)
  fix u r assume env: "others_evolve env"
  have rest: "triple (pending_user (fst e)) (bindH (mon_await env) (\<lambda>_.
      bindH (atomic (save_admin env (update_rest env dto (fst e)))) (\<lambda>saved. returnH (toPublicUser (saved, snd e)))))
      (\<lambda>_. admin_ok) admin_ok" for e :: admin_entity
    using env by (intro admin_rules) (simp_all add: update_rest_def)
  show "triple (pending_user u) (bindH (update_email env dto u) (\<lambda>u1. bindH (update_role env dto (u1, r)) (\<lambda>e.
      bindH (mon_await env) (\<lambda>_. bindH (atomic (save_admin env (update_rest env dto (fst e)))) (\<lambda>saved.
      returnH (toPublicUser (saved, snd e))))))) (\<lambda>_. admin_ok) admin_ok"
    by (rule triple_bindH [OF triple_conseq [OF update_email_keeps [OF env]]], assumption, erule conjunct1, assumption)
      (rule triple_bindH [OF triple_conseq [OF update_role_keeps [OF env]]], simp, erule conjunct1, assumption, rule rest)
qed

section \<open>A sample installation\<close>

text \<open>Tokens that carry their payload: a text is written with a mark before each character and a full stop at its end.\<close>

fun pack :: "string \<Rightarrow> string \<Rightarrow> string" where
  "pack [] rest = CHR ''.'' # rest"
| "pack (c # s) rest = CHR ''x'' # c # pack s rest"

fun unpack :: "string \<Rightarrow> (string \<times> string) option" where
  "unpack (m # r) =
     (if m = CHR ''.'' then Some ([], r)
      else case r of [] \<Rightarrow> None | c # r' \<Rightarrow> map_option (\<lambda>(s, rest). (c # s, rest)) (unpack r'))"
| "unpack [] = None"

lemma unpack_pack [simp]: "unpack (pack s rest) = Some (s, rest)"
  by (induction s) auto

definition demo_sign :: "string \<Rightarrow> token_payload \<Rightarrow> string \<Rightarrow> string option" where
  "demo_sign secret p e =
     Some (pack secret ((case tk_sub p of None \<Rightarrow> ''.'' | Some i \<Rightarrow> CHR ''x'' # pack i []) @ pack (tk_email p) (pack (tk_roleCode p) [])))"

definition demo_verify :: "string \<Rightarrow> string \<Rightarrow> token_payload option" where
  "demo_verify secret tok =
     (case unpack tok of
        Some (s, m # r) \<Rightarrow>
          if s \<noteq> secret then None
          else (case (if m = CHR ''.'' then Some (None, r) else map_option (\<lambda>(i, r'). (Some i, r')) (unpack r)) of
                  Some (sub, r1) \<Rightarrow>
                    (case unpack r1 of
                       Some (email, r2) \<Rightarrow> map_option (\<lambda>(code, _). \<lparr>tk_sub = sub, tk_email = email, tk_roleCode = code\<rparr>) (unpack r2)
                     | None \<Rightarrow> None)
                | None \<Rightarrow> None)
      | _ \<Rightarrow> None)"

lemma unpack_pack_append [simp]: "unpack (pack s [] @ rest) = Some (s, rest)"
  by (induction s) auto

lemma demo_verify_sign: "\<exists>tok. demo_sign secret p e = Some tok \<and> demo_verify secret tok = Some p"
  by (cases p) (auto simp add: demo_sign_def demo_verify_def split: option.split)

definition demo_mon :: mon_env where
  "demo_mon = \<lparr>mo_cfg = (\<lambda>k. if k = ''JWT_SECRET'' then Some ''s1'' else if k = ''ADMIN_EMAIL'' then Some '' Root@kufi.vn''
       else if k = ''ADMIN_PASSWORD'' then Some ''rootroot'' else None),
     mo_now = 7, mo_bcryptHash = (\<lambda>p. ''h:'' @ p), mo_bcryptCompare = (\<lambda>p h. h = ''h:'' @ p),
     mo_jwtSign = demo_sign, mo_jwtVerify = demo_verify, mo_isEmail = (\<lambda>s. CHR ''@'' \<in> set s), mo_isUuid = (\<lambda>s. s \<noteq> []),
     mo_collate = (\<lambda>a b. a \<le> b), mo_logStored = (\<lambda>_. True), mo_others = (\<lambda>d. d)\<rparr>"

definition empty_admin :: admin_db where
  "empty_admin = \<lparr>mb_users = [], mb_roles = [], mb_logs = [], mb_uuid = nat_digits, mb_seq = 0\<rparr>"

definition seeded_admin :: admin_db where
  "seeded_admin = snd (seedDefaults demo_mon empty_admin)"

definition demo_actor :: authenticated_user where
  "demo_actor = \<lparr>mv_id = ''4'', mv_email = ''root@kufi.vn'', mv_displayName = ''Root'', mv_title = ''Lead'', mv_locale = ''vi'',
     mv_roleCode = ''super_admin'', mv_permissions = ALL_PERMISSIONS\<rparr>"

definition demo_create :: create_admin_dto where
  "demo_create = \<lparr>cd_email = ''Ann@kufi.vn '', cd_password = ''secret12'', cd_displayName = ''Ann'', cd_title = ''SRE'', cd_roleId = ''1'',
     cd_locale = None, cd_isActive = None, cd_extraPermissions = Some [''a,b'']\<rparr>"

section \<open>A new account logs in\<close>

lemma find_row_snoc: "\<forall>x\<in>set rs. \<not> p x \<Longrightarrow> p r \<Longrightarrow> find_row p (rs @ [r]) = Some r"
  by (simp add: find_row_append row_simps find_row_None_iff [THEN iffD2])

lemma save_admin_quiet:
  assumes "\<forall>x\<in>set (mb_users d). mu_id x \<noteq> mu_id u \<longrightarrow> mu_email x \<noteq> mu_email u" and "mu_id u \<in> mu_id ` set (mb_users d)"
  shows "\<exists>t. save_admin env u d = Inr (u\<lparr>mu_updatedAt := t\<rparr>,
    d\<lparr>mb_users := save_row mu_id (admin_column (u\<lparr>mu_updatedAt := t\<rparr>)) (mb_users d)\<rparr>)"
proof -
  have "\<not> clash (Some \<circ> mu_email) mu_id u (mb_users d)" using assms(1) by (auto simp add: clash_def list_ex_iff)
  moreover have "mu_id (admin_column v) \<in> set (map mu_id (mb_users d))" if "mu_id v = mu_id u" for v
    using that assms(2) by simp
  ultimately show ?thesis
    by (cases "admin_column u \<in> set (mb_users d)")
      (auto simp add: save_admin_def put_row_def Let_def intro: exI [of _ "mu_updatedAt u"] exI [of _ "mo_now env"])
qed

lemma createUser_stores:
  assumes "createUser env dto actor d = (Inr r, d1)" and "mo_others env = id"
  shows "\<exists>role v. role \<in> set (mb_roles d) \<and> pv_role (cr_user r) = Some \<lparr>rv_id = ro_id role, rv_code = ro_code role,
      rv_name = ro_name role, rv_permissions = ro_permissions role\<rparr> \<and>
    find_row (\<lambda>x. ro_id x = ro_id role) (mb_roles d) = Some role \<and>
    d1 = d\<lparr>mb_users := mb_users d @ [admin_column v], mb_seq := Suc (mb_seq d)\<rparr> \<and>
    mu_id v = pv_id (cr_user r) \<and> mu_email v = norm_email (cd_email dto) \<and> mu_roleId v = ro_id role \<and>
    mu_passwordHash v = mo_bcryptHash env (cd_password dto) \<and> mu_isActive v = coalesce (cd_isActive dto) True \<and>
    mu_extraPermissions v = coalesce (cd_extraPermissions dto) [] \<and>
    mu_id v \<notin> mu_id ` set (mb_users d) \<and> mu_email v \<notin> mu_email ` set (mb_users d)"
proof -
  have "find_admin (\<lambda>u. mu_email u = norm_email (cd_email dto)) d = None"
    using assms(1)
    by (cases "find_admin (\<lambda>u. mu_email u = norm_email (cd_email dto)) d") (auto simp add: createUser_def Let_def handler_defs)
  moreover obtain role where role: "find_row (\<lambda>r. ro_id r = cd_roleId dto) (mb_roles d) = Some role"
    using assms calculation
    by (cases "find_row (\<lambda>r. ro_id r = cd_roleId dto) (mb_roles d)")
      (auto simp add: createUser_def mon_await_def Let_def handler_defs)
  moreover have "ro_id role = cd_roleId dto" "role \<in> set (mb_roles d)" using find_row_SomeD [OF role] by auto
  ultimately show ?thesis using assms role
    by (intro exI [of _ role])
      (auto simp add: createUser_def mon_await_def Let_def handler_defs insert_admin_def toPublicUser_def split: if_splits)
qed

lemma set_js_unique [simp]: "set (js_unique xs) = set xs"
  by (simp add: js_unique_def)

text \<open>The login of the account of the last row, and the check of its token.\<close>

lemma login_last_row:
  assumes "mb_users d = us @ [v]" and "\<forall>x\<in>set us. mu_email x \<noteq> mu_email v" and "\<forall>x\<in>set us. mu_id x \<noteq> mu_id v"
    and "mu_isActive v" and "mo_bcryptCompare env (ld_password l) (mu_passwordHash v)" and "role_of d v = Some role"
    and "mo_others env = id" and "jwtSecret env = Inr secret" and "mu_email v = norm_email (ld_email l)"
    and "\<And>p e. \<exists>tok. mo_jwtSign env secret p e = Some tok \<and> mo_jwtVerify env secret tok = Some p"
    and "mu_extraPermissions v = simple_array xs"
  shows "\<exists>tok u d2. login env l d = (Inr \<lparr>lr_accessToken = tok, lr_user = toAuthenticatedUser (u, Some role)\<rparr>, d2) \<and>
    mu_id u = mu_id v \<and> mu_extraPermissions u = mu_extraPermissions v \<and>
    validateAccessToken env tok d2 = (Inr (toAuthenticatedUser (u, Some role)), d2)"
proof -
  let ?w = "v\<lparr>mu_lastLoginAt := Some (mo_now env)\<rparr>"
  have found: "find_admin (\<lambda>u. mu_email u = norm_email (ld_email l)) d = Some (v, Some role)"
    using assms(1,2,6,9) find_row_snoc [of us "\<lambda>u. mu_email u = mu_email v" v] by (simp add: find_admin_def)
  from save_admin_quiet [of d ?w env] assms(1-3) obtain t where t: "save_admin env ?w d = Inr (?w\<lparr>mu_updatedAt := t\<rparr>,
      d\<lparr>mb_users := save_row mu_id (admin_column (?w\<lparr>mu_updatedAt := t\<rparr>)) (mb_users d)\<rparr>)"
    by auto
  let ?u = "?w\<lparr>mu_updatedAt := t\<rparr>" and ?p = "\<lparr>tk_sub = Some (mu_id v), tk_email = mu_email v, tk_roleCode = ro_code role\<rparr>"
  let ?d2 = "d\<lparr>mb_users := us @ [?u]\<rparr>"
  have col: "admin_column ?u = ?u" using assms(11) by (intro admin_column_idem [of _ xs]) simp
  have "mu_id ?u \<notin> mu_id ` set us" using assms(3) by auto
  then have rows: "save_row mu_id ?u (mb_users d) = us @ [?u]"
    using assms(1) save_row_absent [of mu_id ?u us] by (simp add: save_row_def)
  from assms(10) obtain tok where tok: "mo_jwtSign env secret ?p (coalesce (mo_cfg env ''JWT_EXPIRES_IN'') ''12h'') = Some tok"
      "mo_jwtVerify env secret tok = Some ?p" by blast
  have "login env l d = (Inr \<lparr>lr_accessToken = tok, lr_user = toAuthenticatedUser (?u, Some role)\<rparr>, ?d2)"
    using found assms(4,5,7,8) t tok(1)
    by (simp add: login_def handler_defs mon_await_def issueAccessToken_def role_code_def coalesce_def col rows)
  moreover have "find_admin (\<lambda>u. mu_id u = mu_id v) ?d2 = Some (?u, Some role)"
    using find_row_snoc [of us "\<lambda>u. mu_id u = mu_id v" ?u] assms(3,6) by (simp add: find_admin_def role_of_def)
  then have "validateAccessToken env tok ?d2 = (Inr (toAuthenticatedUser (?u, Some role)), ?d2)"
    using assms(4,8) tok(2) by (simp add: validateAccessToken_def handler_defs)
  ultimately show ?thesis by (intro exI [of _ tok] exI [of _ ?u] exI [of _ ?d2]) simp
qed



section \<open>Start-up\<close>

lemma seed_role_effect:
  assumes "seed_role env r d = (Inr (), d1)"
  shows "find_role (ro_code r) d1 \<noteq> None \<and> (\<forall>c. find_role c d \<noteq> None \<longrightarrow> find_role c d1 \<noteq> None) \<and> mb_users d1 = mb_users d"
  using assms
  by (cases "find_role (ro_code r) d")
    (auto simp add: seed_role_def handler_defs insert_role_def Let_def find_role_def find_row_append row_simps
      split: if_splits option.splits)

lemma seed_role_rows_effect:
  "seed_role_rows env rs d = (Inr (), d1) \<Longrightarrow>
   (\<forall>r\<in>set rs. find_role (ro_code r) d1 \<noteq> None) \<and> (\<forall>c. find_role c d \<noteq> None \<longrightarrow> find_role c d1 \<noteq> None) \<and> mb_users d1 = mb_users d"
proof (induction rs arbitrary: d)
  case (Cons r rs)
  then obtain d' where d': "seed_role env r d = (Inr (), d')" "seed_role_rows env rs d' = (Inr (), d1)"
    by (auto simp add: handler_iffs)
  show ?case using seed_role_effect [OF d'(1)] Cons.IH [OF d'(2)] by (simp add: d')
qed (simp add: returnH_def)

lemma seed_role_rows_done:
  "\<forall>r\<in>set rs. find_role (ro_code r) d \<noteq> None \<Longrightarrow> seed_role_rows env rs d = (Inr (), d)"
  by (induction rs) (auto simp add: handler_defs seed_role_def)

text \<open>
  The back end can be started again: after a start that succeeded, the four roles and the account of
  ADMIN_EMAIL exist, and another start with that e-mail changes nothing, whatever the rest of its
  configuration is (so a new ADMIN_PASSWORD has no effect).
\<close>

theorem restart_changes_nothing:
  assumes "seedDefaults env d = (Inr (), d1)" and "mo_cfg env' ''ADMIN_EMAIL'' = mo_cfg env ''ADMIN_EMAIL''"
  shows "seedDefaults env' d1 = (Inr (), d1) \<and> (\<forall>r\<in>set seedRoles. find_role (ro_code r) d1 \<noteq> None) \<and>
    (\<exists>u\<in>set (mb_users d1). Some (mu_email u) = map_option norm_email (mo_cfg env ''ADMIN_EMAIL''))"
proof -
  obtain d0 raw where d0: "seed_role_rows env seedRoles d = (Inr (), d0)" "required_text env ''ADMIN_EMAIL'' = Inr raw"
      "(if find_admin (\<lambda>u. mu_email u = js_lower raw) d0 \<noteq> None then returnH () else seed_admin env (js_lower raw)) d0 = (Inr (), d1)"
    using assms(1) by (auto simp add: seedDefaults_def handler_iffs liftE_def readH_def Let_def)
  note roles = seed_role_rows_effect [OF d0(1)]
  have same: "required_text env' ''ADMIN_EMAIL'' = Inr raw" using d0(2) assms(2) by (simp add: required_text_def)
  have raw: "Some (js_lower raw) = map_option norm_email (mo_cfg env ''ADMIN_EMAIL'')"
    using d0(2) by (cases "mo_cfg env ''ADMIN_EMAIL''") (auto simp add: required_text_def norm_email_def coalesce_def Let_def split: if_splits)
  have fixed: "mb_roles d1 = mb_roles d0 \<and> find_admin (\<lambda>u. mu_email u = js_lower raw) d1 \<noteq> None"
  proof (cases "find_admin (\<lambda>u. mu_email u = js_lower raw) d0")
    case None
    with d0(3) show ?thesis
      by (auto simp add: seed_admin_def handler_defs insert_admin_def Let_def find_admin_def find_row_append row_simps
          split: option.splits sum.splits if_splits)
  qed (use d0(3) in \<open>auto simp add: returnH_def\<close>)
  then have "\<forall>r\<in>set seedRoles. find_role (ro_code r) d1 \<noteq> None" using roles by (simp add: find_role_def)
  moreover from this have "seedDefaults env' d1 = (Inr (), d1)"
    using fixed same seed_role_rows_done [of seedRoles d1 env'] by (auto simp add: seedDefaults_def handler_defs Let_def)
  moreover obtain e where e: "find_admin (\<lambda>u. mu_email u = js_lower raw) d1 = Some e" using fixed by blast
  ultimately show ?thesis using find_admin_SomeD [OF e] raw by (intro conjI bexI [of _ "fst e"]) auto
qed

theorem restart_changes_nothing_witness:
  "seedDefaults (demo_mon\<lparr>mo_now := 9\<rparr>) seeded_admin = (Inr (), seeded_admin) \<and>
   list_ex (\<lambda>u. mu_email u = ''root@kufi.vn'') (mb_users seeded_admin)"
proof -
  have "fst (seedDefaults demo_mon empty_admin) = Inr () \<and> list_ex (\<lambda>u. mu_email u = ''root@kufi.vn'') (mb_users seeded_admin)"
    by code_simp
  moreover from this have "seedDefaults demo_mon empty_admin = (Inr (), seeded_admin)"
    by (simp add: seeded_admin_def prod_eq_iff)
  ultimately show ?thesis using restart_changes_nothing [of demo_mon empty_admin seeded_admin "demo_mon\<lparr>mo_now := 9\<rparr>"] by simp
qed

section \<open>Overlapping requests\<close>

definition deactivate :: update_admin_dto where
  "deactivate = \<lparr>ud_email = None, ud_password = None, ud_displayName = None, ud_title = None, ud_roleId = None,
     ud_locale = None, ud_isActive = Some False, ud_extraPermissions = None\<rparr>"

lemma other_emails:
  "admin_ok d \<Longrightarrow> u \<in> set (mb_users d) \<Longrightarrow> \<forall>x\<in>set (mb_users d). mu_id x \<noteq> mu_id u \<longrightarrow> mu_email x \<noteq> mu_email u"
  using row_unique [of mu_email "mb_users d"] unfolding admin_ok_def by metis

lemma deactivate_effect:
  assumes "admin_ok d" and "u \<in> set (mb_users d)" and "mo_others env = id"
  shows "\<exists>p t. updateUser env (mu_id u) deactivate d = (Inr p, d\<lparr>mb_users := save_row mu_id (admin_column (u\<lparr>mu_isActive := False, mu_updatedAt := t\<rparr>)) (mb_users d)\<rparr>) \<and>
    pv_isActive p = False \<and> pv_id p = mu_id u"
proof -
  have found: "find_admin (\<lambda>x. mu_id x = mu_id u) d = Some (u, role_of d u)"
    using assms(1,2) find_row_key [of mu_id "mb_users d" u] by (simp add: find_admin_def admin_ok_def)
  have "\<forall>x\<in>set (mb_users d). mu_id x \<noteq> mu_id u \<longrightarrow> mu_email x \<noteq> mu_email u"
    using other_emails [OF assms(1,2)] .
  with save_admin_quiet [of d "u\<lparr>mu_isActive := False\<rparr>" env] assms(2) obtain t where
    "save_admin env (u\<lparr>mu_isActive := False\<rparr>) d = Inr (u\<lparr>mu_isActive := False, mu_updatedAt := t\<rparr>,
      d\<lparr>mb_users := save_row mu_id (admin_column (u\<lparr>mu_isActive := False, mu_updatedAt := t\<rparr>)) (mb_users d)\<rparr>)"
    by auto
  then show ?thesis using found assms(3)
    by (auto simp add: updateUser_def handler_defs mon_await_def update_email_def update_role_def update_rest_def
        deactivate_def truthy_text_def coalesce_def toPublicUser_def)
qed

text \<open>
  Deactivation can be lost: when an administrator deactivates an account and the answer says so, a
  login of that account that was under way writes the row back as it had read it, and the account is
  active again.
\<close>

theorem login_undoes_deactivation:
  assumes "admin_ok d" and "u \<in> set (mb_users d)" and "mu_isActive u" and "mu_email u = norm_email (ld_email l)"
    and "mo_bcryptCompare env (ld_password l) (mu_passwordHash u)"
    and "mo_others env0 = id" and "mo_others env = (\<lambda>d. snd (updateUser env0 (mu_id u) deactivate d))"
  shows "(\<exists>p. fst (updateUser env0 (mu_id u) deactivate d) = Inr p \<and> \<not> pv_isActive p) \<and>
    (\<exists>v. find_row (\<lambda>x. mu_id x = mu_id u) (mb_users (snd (login env l d))) = Some v \<and> mu_isActive v)"
proof -
  from deactivate_effect [OF assms(1,2,6)] obtain p t where p: "updateUser env0 (mu_id u) deactivate d =
      (Inr p, d\<lparr>mb_users := save_row mu_id (admin_column (u\<lparr>mu_isActive := False, mu_updatedAt := t\<rparr>)) (mb_users d)\<rparr>)" "pv_isActive p = False"
    by blast
  define off where "off = admin_column (u\<lparr>mu_isActive := False, mu_updatedAt := t\<rparr>)"
  define d' where "d' = d\<lparr>mb_users := save_row mu_id off (mb_users d)\<rparr>"
  let ?w = "u\<lparr>mu_lastLoginAt := Some (mo_now env)\<rparr>"
  have d': "mo_others env d = d'" and rows: "mb_users d' = save_row mu_id off (mb_users d)" and off: "mu_id off = mu_id u"
    using p(1) assms(7) by (simp_all add: d'_def off_def)
  have uniq: "\<forall>x\<in>set (mb_users d). mu_id x \<noteq> mu_id u \<longrightarrow> mu_email x \<noteq> mu_email u"
    using other_emails [OF assms(1,2)] .
  have found: "find_admin (\<lambda>x. mu_email x = norm_email (ld_email l)) d = Some (u, role_of d u)"
    using assms(1,2,4) find_row_key [of mu_email "mb_users d" u] by (simp add: find_admin_def admin_ok_def)
  have "set (map mu_id (mb_users d')) = set (map mu_id (mb_users d))" unfolding rows map_key_save_row ..
  then have present: "mu_id u \<in> mu_id ` set (mb_users d')" using assms(2) by simp
  have "\<forall>x\<in>set (mb_users d'). mu_id x \<noteq> mu_id u \<longrightarrow> mu_email x \<noteq> mu_email u"
    using uniq off unfolding rows by (auto dest: set_save_rowD)
  then obtain t' where t': "save_admin env ?w d' = Inr (?w\<lparr>mu_updatedAt := t'\<rparr>,
      d'\<lparr>mb_users := save_row mu_id (admin_column (?w\<lparr>mu_updatedAt := t'\<rparr>)) (mb_users d')\<rparr>)"
    using save_admin_quiet [of d' ?w env] present by auto
  then have "mb_users (snd (login env l d)) = save_row mu_id (admin_column (?w\<lparr>mu_updatedAt := t'\<rparr>)) (mb_users d')"
    using found assms(3,5) d' by (auto simp add: login_def handler_defs mon_await_def split: sum.splits)
  moreover obtain x where "find_row (\<lambda>x. mu_id x = mu_id u) (mb_users d') = Some x"
    using present by (cases "find_row (\<lambda>x. mu_id x = mu_id u) (mb_users d')") (auto simp add: find_row_None_iff)
  ultimately show ?thesis
    using p assms(3) find_row_cong_save [of "mb_users d'" mu_id "admin_column (?w\<lparr>mu_updatedAt := t'\<rparr>)" "\<lambda>x. mu_id x = mu_id u"]
    by (auto dest: find_row_SomeD)
qed

definition demo_root :: admin_user where
  "demo_root = hd (mb_users seeded_admin)"

theorem login_undoes_deactivation_witness:
  "(\<exists>p. fst (updateUser demo_mon (mu_id demo_root) deactivate seeded_admin) = Inr p \<and> \<not> pv_isActive p) \<and>
   (\<exists>v. find_row (\<lambda>x. mu_id x = mu_id demo_root)
      (mb_users (snd (login (demo_mon\<lparr>mo_others := \<lambda>d. snd (updateUser demo_mon (mu_id demo_root) deactivate d)\<rparr>)
        \<lparr>ld_email = ''root@kufi.vn'', ld_password = ''rootroot''\<rparr> seeded_admin))) = Some v \<and> mu_isActive v)"
proof -
  have "admin_ok seeded_admin \<and> demo_root \<in> set (mb_users seeded_admin) \<and> mu_isActive demo_root \<and>
      mu_email demo_root = norm_email ''root@kufi.vn'' \<and> mu_passwordHash demo_root = ''h:'' @ ''rootroot''"
    unfolding admin_ok_def account_ok_def by code_simp
  then show ?thesis by (intro login_undoes_deactivation) (auto simp add: demo_mon_def)
qed

end
