(* ===== verification/Monitor_Probe.thy ===== *)
theory Monitor_Probe
  imports JS_Text
begin

text \<open>
  What the monitoring back end observes (\<^verbatim>\<open>src/monitoring_system/backend/src\<close>): the lists of named
  endpoints of its configuration (\<^verbatim>\<open>common/utils/list.parser.ts\<close>), the health of services, the nodes
  of the ledger network (\<^verbatim>\<open>monitoring/adapters/chain-observer.service.ts\<close>), the sessions of the wallet
  (\<^verbatim>\<open>wallet-analytics.service.ts\<close>) and the host (\<^verbatim>\<open>system-insights.service.ts\<close>). What a
  fetch yields, how long it takes, the parts of a URL, the tables of the wallet, the readings of the host
  and the string order are fields of \<open>probe_env\<close>; every rejected fetch is an Error with a message.
\<close>

section \<open>Named lists\<close>

record named_value =
  nv_name :: string
  nv_value :: string

definition named_entry :: "string \<Rightarrow> named_value" where
  "named_entry entry =
     (if CHR ''='' \<notin> set entry then \<lparr>nv_name = entry, nv_value = entry\<rparr>
      else \<lparr>nv_name = js_trim (takeWhile (\<lambda>c. c \<noteq> CHR ''='') entry),
            nv_value = js_trim (tl (dropWhile (\<lambda>c. c \<noteq> CHR ''='') entry))\<rparr>)"

text \<open>A line feed separates as a semicolon does.\<close>

definition parseNamedList :: "string option \<Rightarrow> named_value list" where
  "parseNamedList raw =
     (case raw of
        None \<Rightarrow> []
      | Some s \<Rightarrow>
          if s = [] then []
          else filter (\<lambda>e. nv_name e \<noteq> [] \<and> nv_value e \<noteq> [])
                 (map named_entry (filter (\<lambda>e. e \<noteq> [])
                   (map js_trim (js_split (CHR '';'') (map (\<lambda>c. if code_unit c = 10 then CHR '';'' else c) s))))))"

section \<open>Observed data\<close>

datatype health = Healthy | Warned | Critical | Unknown

datatype severity = SevWarning | SevCritical

datatype metric_value = MetricNumber js_number | MetricText string

record service_health =
  sh_name :: string
  sh_url :: string
  sh_status :: health
  sh_latencyMs :: "int option"
  sh_httpStatus :: "int option"
  sh_lastCheckedAt :: string
  sh_detail :: "string option"

record chain_node =
  cn_name :: string
  cn_url :: string
  cn_status :: health
  cn_role :: string
  cn_orgName :: string
  cn_mspId :: string
  cn_knownPeers :: js_number
  cn_pendingRequests :: js_number
  cn_latencyMs :: "int option"
  cn_lastCheckedAt :: string
  cn_detail :: "string option"

record anomaly =
  an_code :: string
  an_severity :: severity
  an_message :: string

record chain_info =
  ci_gatewayStatus :: health
  ci_fabricStatus :: string
  ci_activeNodes :: nat
  ci_configuredNodes :: nat
  ci_nodes :: "chain_node list"
  ci_anomalies :: "anomaly list"

datatype wallet_source = ReadonlyDb | Unconfigured | SourceError

record wallet_info =
  wi_configured :: bool
  wi_source :: wallet_source
  wi_activeSessions :: "js_number option"
  wi_concurrentUsersEstimate :: "js_number option"
  wi_activeUsers :: "js_number option"
  wi_totalUsers :: "js_number option"
  wi_note :: "string option"

record system_info =
  si_cpuPercent :: js_number
  si_memoryPercent :: js_number
  si_memoryUsedGb :: js_number
  si_memoryTotalGb :: js_number
  si_diskPercent :: js_number
  si_diskUsedGb :: js_number
  si_diskTotalGb :: js_number
  si_networkRxMbps :: js_number
  si_networkTxMbps :: js_number
  si_loadAverage1m :: js_number
  si_uptimeHours :: js_number

section \<open>Surroundings\<close>

record url_parts =
  url_protocol :: string
  url_hostname :: string
  url_port :: string
  url_pathname :: string

text \<open>The answer to a fetch; the body is None where it is not JSON.\<close>

record http_reply =
  hr_status :: int
  hr_json :: "json option"
  hr_text :: string

record session_row =
  ws_userId :: string
  ws_revokedAt :: "int option"
  ws_refreshTokenExpiresAt :: int
  ws_lastUsedAt :: "int option"
  ws_createdAt :: int

record host_readings =
  ho_currentLoad :: rat
  ho_memActive :: rat
  ho_memTotal :: rat
  ho_disks :: "(rat \<times> rat) list"
  ho_network :: "(rat \<times> rat) list"
  ho_loadavg :: "rat list"
  ho_uptime :: rat

record probe_env =
  mn_cfg :: "string \<Rightarrow> string option"
  mn_now :: int
  mn_fetch :: "string \<Rightarrow> string option \<Rightarrow> string + http_reply"
  mn_latency :: "string \<Rightarrow> int"
  mn_badJson :: string
  mn_typeError :: string
  mn_parseUrl :: "string \<Rightarrow> url_parts option"
  mn_container :: bool
  mn_localeLe :: "string \<Rightarrow> string \<Rightarrow> bool"
  mn_walletDb :: "string + session_row list \<times> string list"
  mn_host :: "string + host_readings"

section \<open>Requests\<close>

definition response_ok :: "http_reply \<Rightarrow> bool" where
  "response_ok r \<longleftrightarrow> 200 \<le> hr_status r \<and> hr_status r \<le> 299"

definition fetchJson :: "probe_env \<Rightarrow> string \<Rightarrow> string + json" where
  "fetchJson env url =
     (case mn_fetch env url None of
        Inl m \<Rightarrow> Inl m
      | Inr r \<Rightarrow>
          if \<not> response_ok r then Inl (''HTTP '' @ int_digits (hr_status r))
          else (case hr_json r of None \<Rightarrow> Inl (mn_badJson env) | Some v \<Rightarrow> Inr v))"

text \<open>The properties of a payload can be read unless it is null.\<close>

definition fetchRecord :: "probe_env \<Rightarrow> string \<Rightarrow> string + json" where
  "fetchRecord env url =
     bindE (fetchJson env url) (\<lambda>v. if v = JNull then Inl (mn_typeError env) else Inr v)"

definition readString :: "json option \<Rightarrow> string option" where
  "readString v =
     (case v of Some (JString s) \<Rightarrow> if js_trim s = [] then None else Some (js_trim s) | _ \<Rightarrow> None)"

text \<open>\<open>Number(x ?? 0)\<close>.\<close>

definition number_or_zero :: "json option \<Rightarrow> js_number" where
  "number_or_zero v = (case v of None \<Rightarrow> JsNum 0 | Some x \<Rightarrow> if x = JNull then JsNum 0 else json_Number x)"

fun js_plus :: "js_number \<Rightarrow> js_number \<Rightarrow> js_number" where
  "js_plus (JsNum a) (JsNum b) = to_double (a + b)"
| "js_plus (JsInf s) (JsNum b) = JsInf s"
| "js_plus (JsNum a) (JsInf t) = JsInf t"
| "js_plus (JsInf s) (JsInf t) = (if s = t then JsInf s else JsNaN)"
| "js_plus _ _ = JsNaN"

fun js_negate :: "js_number \<Rightarrow> js_number" where
  "js_negate (JsNum a) = JsNum (- a)"
| "js_negate (JsInf s) = JsInf (\<not> s)"
| "js_negate JsNaN = JsNaN"

section \<open>Services\<close>

definition service_health_of :: "probe_env \<Rightarrow> named_value \<Rightarrow> service_health" where
  "service_health_of env endpoint =
     (case mn_fetch env (nv_value endpoint) None of
        Inr r \<Rightarrow>
          \<lparr>sh_name = nv_name endpoint, sh_url = nv_value endpoint,
           sh_status = (if response_ok r then Healthy else Critical),
           sh_latencyMs = Some (mn_latency env (nv_value endpoint)), sh_httpStatus = Some (hr_status r),
           sh_lastCheckedAt = toISOString (mn_now env),
           sh_detail = (case hr_json r of
                          None \<Rightarrow> None
                        | Some v \<Rightarrow> (case json_prop ''status'' v of
                                      None \<Rightarrow> None | Some s \<Rightarrow> if truthy s then Some (js_string s) else None))\<rparr>
      | Inl m \<Rightarrow>
          \<lparr>sh_name = nv_name endpoint, sh_url = nv_value endpoint, sh_status = Critical, sh_latencyMs = None,
           sh_httpStatus = None, sh_lastCheckedAt = toISOString (mn_now env), sh_detail = Some m\<rparr>)"

definition collectServiceHealth :: "probe_env \<Rightarrow> service_health list" where
  "collectServiceHealth env =
     (let configured = js_trim (coalesce (mn_cfg env ''MONITORED_SERVICE_ENDPOINTS'') [])
      in if configured = [] then [] else map (service_health_of env) (parseNamedList (Some configured)))"

section \<open>Nodes of the ledger network\<close>

definition url_origin :: "url_parts \<Rightarrow> string" where
  "url_origin u = url_protocol u @ ''//'' @ url_hostname u @ (if url_port u = [] then [] else '':'' @ url_port u)"

definition strip_slash :: "string \<Rightarrow> string" where
  "strip_slash s = (if s \<noteq> [] \<and> last s = CHR ''/'' then butlast s else s)"

definition normalizeHttpUrl :: "probe_env \<Rightarrow> string option \<Rightarrow> string option" where
  "normalizeHttpUrl env urlLike =
     (let trimmed = js_trim (coalesce urlLike [])
      in if trimmed = [] then None
         else case mn_parseUrl env trimmed of
           None \<Rightarrow> None
         | Some url \<Rightarrow>
             if url_protocol url \<noteq> ''http:'' \<and> url_protocol url \<noteq> ''https:'' then None
             else let url' = (if mn_container env \<and> (url_hostname url = ''127.0.0.1'' \<or> url_hostname url = ''localhost'')
                              then url\<lparr>url_hostname := ''host.docker.internal''\<rparr> else url)
                  in Some (strip_slash (url_origin url' @ url_pathname url')))"

definition deriveOrdererMgmtUrl :: "probe_env \<Rightarrow> string option \<Rightarrow> string option" where
  "deriveOrdererMgmtUrl env ordererAddr =
     (let host = hd (js_split (CHR '':'') (coalesce ordererAddr []))
      in if host = [] then None else normalizeHttpUrl env (Some (''http://'' @ host @ '':9500'')))"

definition slug_char :: "char \<Rightarrow> bool" where
  "slug_char c = (let n = code_unit c in (97 \<le> n \<and> n \<le> 122) \<or> (48 \<le> n \<and> n \<le> 57))"

function dash_runs :: "string \<Rightarrow> string" where
  "dash_runs [] = []"
| "dash_runs (c # s) =
     (if slug_char c then c # dash_runs s else CHR ''-'' # dash_runs (dropWhile (\<lambda>x. \<not> slug_char x) s))"
  by pat_completeness auto
termination
  by (relation "measure length") (auto simp add: le_imp_less_Suc length_dropWhile_le)

definition strip_dashes :: "string \<Rightarrow> string" where
  "strip_dashes s = rev (dropWhile (\<lambda>c. c = CHR ''-'') (rev (dropWhile (\<lambda>c. c = CHR ''-'') s)))"

definition slugifyName :: "string option \<Rightarrow> string" where
  "slugifyName v = strip_dashes (dash_runs (js_lower (coalesce v [])))"

definition map_put :: "string \<Rightarrow> 'v \<Rightarrow> (string \<times> 'v) list \<Rightarrow> (string \<times> 'v) list" where
  "map_put k v kvs =
     (if k \<in> set (map fst kvs) then map (\<lambda>(k', v'). (k', if k' = k then v else v')) kvs else kvs @ [(k, v)])"

definition add_peer :: "probe_env \<Rightarrow> json \<Rightarrow> (string \<times> string) list \<Rightarrow> (string \<times> string) list" where
  "add_peer env peer endpoints =
     (case normalizeHttpUrl env (readString (json_prop ''mgmt_addr'' peer)) of
        None \<Rightarrow> endpoints
      | Some mgmtAddr \<Rightarrow>
          map_put (or_str (Some (slugifyName (readString (json_prop ''org_name'' peer))))
                     (or_str (Some (slugifyName (readString (json_prop ''msp_id'' peer)))) ''peer'')) mgmtAddr endpoints)"

definition peers_of :: "json \<Rightarrow> json list" where
  "peers_of v = (case v of JArray vs \<Rightarrow> vs | _ \<Rightarrow> [])"

definition discovered :: "probe_env \<Rightarrow> json \<Rightarrow> json list \<Rightarrow> named_value list" where
  "discovered env bootstrapStatus peers =
     (let endpoints = fold (add_peer env) peers [];
          fromStatus = normalizeHttpUrl env (readString (json_prop ''orderer_mgmt_addr'' bootstrapStatus));
          orderer = (case fromStatus of
                       Some u \<Rightarrow> Some u
                     | None \<Rightarrow> deriveOrdererMgmtUrl env (readString (json_prop ''orderer'' bootstrapStatus)));
          all = (case orderer of None \<Rightarrow> endpoints | Some u \<Rightarrow> map_put ''orderer'' u endpoints)
      in sort_by (\<lambda>l r. mn_localeLe env (nv_name l) (nv_name r)) (map (\<lambda>(n, v). \<lparr>nv_name = n, nv_value = v\<rparr>) all))"

definition discoverNodeEndpoints :: "probe_env \<Rightarrow> string \<Rightarrow> named_value list" where
  "discoverNodeEndpoints env bootstrapMgmtUrl =
     (case fetchRecord env (bootstrapMgmtUrl @ ''/api/status'') of
        Inl _ \<Rightarrow> []
      | Inr bootstrapStatus \<Rightarrow>
          (case fetchJson env (bootstrapMgmtUrl @ ''/api/peers'') of
             Inl _ \<Rightarrow> []
           | Inr payload \<Rightarrow>
               if JNull \<in> set (peers_of payload) then [] else discovered env bootstrapStatus (peers_of payload)))"

text \<open>The default bootstrap address is null, so the configured one is the only candidate.\<close>

definition resolveNodeEndpoints :: "probe_env \<Rightarrow> named_value list" where
  "resolveNodeEndpoints env =
     (case normalizeHttpUrl env (mn_cfg env ''CHAIN_BOOTSTRAP_MGMT_URL'') of
        None \<Rightarrow> []
      | Some url \<Rightarrow> if url = [] then [] else discoverNodeEndpoints env url)"

definition inferRoleFromEndpoint :: "probe_env \<Rightarrow> named_value \<Rightarrow> string" where
  "inferRoleFromEndpoint env endpoint =
     (if js_includes (js_lower (nv_name endpoint)) ''orderer'' then ''orderer''
      else case mn_parseUrl env (nv_value endpoint) of
        None \<Rightarrow> ''unknown''
      | Some url \<Rightarrow> if url_port url = ''9500'' then ''orderer'' else ''unknown'')"

definition collectNodeStatus :: "probe_env \<Rightarrow> named_value \<Rightarrow> chain_node" where
  "collectNodeStatus env endpoint =
     (let inferredRole = inferRoleFromEndpoint env endpoint; url = nv_value endpoint @ ''/api/status''
      in case fetchRecord env url of
           Inr payload \<Rightarrow>
             (let pendingRequests = number_or_zero (json_prop ''pending_requests'' payload);
                  waiting = js_gt pendingRequests (JsNum 0)
              in \<lparr>cn_name = nv_name endpoint, cn_url = nv_value endpoint, cn_status = (if waiting then Warned else Healthy),
                  cn_role = coalesce (readString (json_prop ''role'' payload)) inferredRole,
                  cn_orgName = coalesce (readString (json_prop ''org_name'' payload)) (nv_name endpoint),
                  cn_mspId = coalesce (readString (json_prop ''msp_id'' payload)) ''unknown'',
                  cn_knownPeers = number_or_zero (json_prop ''known_peers'' payload), cn_pendingRequests = pendingRequests,
                  cn_latencyMs = Some (mn_latency env url), cn_lastCheckedAt = toISOString (mn_now env),
                  cn_detail = (if waiting then Some (number_text pendingRequests @ '' governance request(s) are still pending.'') else None)\<rparr>)
         | Inl m \<Rightarrow>
             \<lparr>cn_name = nv_name endpoint, cn_url = nv_value endpoint, cn_status = Critical, cn_role = inferredRole,
              cn_orgName = nv_name endpoint, cn_mspId = ''unknown'', cn_knownPeers = JsNum 0, cn_pendingRequests = JsNum 0,
              cn_latencyMs = None, cn_lastCheckedAt = toISOString (mn_now env), cn_detail = Some m\<rparr>)"

definition connected :: "string \<Rightarrow> bool" where
  "connected fabricStatus \<longleftrightarrow> fabricStatus = ''connected'' \<or> fabricStatus = ''ok''"

definition pingGateway :: "probe_env \<Rightarrow> string \<Rightarrow> health \<times> string" where
  "pingGateway env url =
     (case fetchRecord env url of
        Inl _ \<Rightarrow> (Critical, ''unreachable'')
      | Inr payload \<Rightarrow>
          (let fabricStatus = coalesce (readString (json_prop ''fabric_status'' payload))
                 (coalesce (readString (json_prop ''fabricStatus'' payload))
                   (coalesce (readString (json_prop ''status'' payload)) ''unknown''))
           in (if connected fabricStatus then Healthy else Warned, fabricStatus)))"

fun statusWeight :: "health \<Rightarrow> nat" where
  "statusWeight Critical = 3"
| "statusWeight Warned = 2"
| "statusWeight Unknown = 1"
| "statusWeight Healthy = 0"

text \<open>The comparison of the sort: whether left may stay before right.\<close>

definition node_le :: "probe_env \<Rightarrow> chain_node \<Rightarrow> chain_node \<Rightarrow> bool" where
  "node_le env l r =
     (if statusWeight (cn_status l) \<noteq> statusWeight (cn_status r) then statusWeight (cn_status r) < statusWeight (cn_status l)
      else if cn_pendingRequests r \<noteq> cn_pendingRequests l then \<not> js_gt (cn_pendingRequests r) (cn_pendingRequests l)
      else mn_localeLe env (cn_orgName l) (cn_orgName r))"

definition peerSpread :: "js_number list \<Rightarrow> js_number" where
  "peerSpread counts =
     (if counts = [] then JsNum 0
      else js_plus (foldl js_max (JsInf False) counts) (js_negate (foldl js_min (JsInf True) counts)))"

definition pendingGovernance :: "chain_node list \<Rightarrow> js_number" where
  "pendingGovernance nodes =
     foldl (\<lambda>total node. js_plus total (cn_pendingRequests node)) (JsNum 0)
       (filter (\<lambda>node. js_gt (cn_pendingRequests node) (JsNum 0)) nodes)"

definition chain_anomalies :: "bool \<Rightarrow> string \<Rightarrow> chain_node list \<Rightarrow> anomaly list" where
  "chain_anomalies gateway fabricStatus nodes =
     (let active = filter (\<lambda>n. cn_status n \<noteq> Critical) nodes; pending = pendingGovernance nodes
      in (if nodes \<noteq> [] \<and> length active < length nodes
          then [\<lparr>an_code = ''chain_nodes_down'', an_severity = SevCritical,
                 an_message = nat_digits (length nodes - length active) @ '' Kufi chain node(s) are unreachable.''\<rparr>] else []) @
         (if gateway \<and> \<not> connected fabricStatus
          then [\<lparr>an_code = ''fabric_disconnected'', an_severity = SevCritical,
                 an_message = ''Fabric gateway is not connected to the network.''\<rparr>] else []) @
         (if js_gt (peerSpread (map cn_knownPeers active)) (JsNum 1)
          then [\<lparr>an_code = ''peer_topology_drift'', an_severity = SevWarning,
                 an_message = ''Known peer counts are inconsistent across chain nodes.''\<rparr>] else []) @
         (if js_gt pending (JsNum 0)
          then [\<lparr>an_code = ''pending_governance_requests'', an_severity = SevWarning,
                 an_message = number_text pending @ '' chain governance request(s) are still pending review.''\<rparr>] else []))"

definition collect_chain :: "probe_env \<Rightarrow> chain_info" where
  "collect_chain env =
     (let gatewayUrl = coalesce (mn_cfg env ''CHAIN_GATEWAY_HEALTH_URL'') [];
          (gatewayStatus, fabricStatus) = (if gatewayUrl \<noteq> [] then pingGateway env gatewayUrl else (Unknown, ''unconfigured''));
          nodes = sort_by (node_le env) (map (collectNodeStatus env) (resolveNodeEndpoints env))
      in \<lparr>ci_gatewayStatus = gatewayStatus, ci_fabricStatus = fabricStatus,
          ci_activeNodes = length (filter (\<lambda>n. cn_status n \<noteq> Critical) nodes), ci_configuredNodes = length nodes,
          ci_nodes = nodes, ci_anomalies = chain_anomalies (gatewayUrl \<noteq> []) fabricStatus nodes\<rparr>)"

section \<open>Sessions of the wallet\<close>

definition walletConfigured :: "(string \<Rightarrow> string option) \<Rightarrow> bool" where
  "walletConfigured cfg \<longleftrightarrow>
     coalesce (cfg ''WALLET_DB_URL'') [] \<noteq> [] \<or>
     (coalesce (cfg ''WALLET_DB_HOST'') [] \<noteq> [] \<and>
      list_all (\<lambda>k. js_trim (coalesce (cfg k) []) \<noteq> [])
        [''WALLET_DB_PORT'', ''WALLET_DB_USER'', ''WALLET_DB_PASS'', ''WALLET_DB_NAME''])"

definition live_session :: "int \<Rightarrow> session_row \<Rightarrow> bool" where
  "live_session now s \<longleftrightarrow> ws_revokedAt s = None \<and> now < ws_refreshTokenExpiresAt s"

definition recent_session :: "int \<Rightarrow> session_row \<Rightarrow> bool" where
  "recent_session now s \<longleftrightarrow> live_session now s \<and> now - 300000 < coalesce (ws_lastUsedAt s) (ws_createdAt s)"

definition collect_wallet :: "probe_env \<Rightarrow> wallet_info" where
  "collect_wallet env =
     (if \<not> walletConfigured (mn_cfg env) then
        \<lparr>wi_configured = False, wi_source = Unconfigured, wi_activeSessions = None, wi_concurrentUsersEstimate = None,
         wi_activeUsers = None, wi_totalUsers = None, wi_note = Some ''Wallet read-only database is not configured.''\<rparr>
      else case mn_walletDb env of
        Inr (sessions, statuses) \<Rightarrow>
          (let live = filter (live_session (mn_now env)) sessions; count = (\<lambda>n. Some (js_of_int (int n)))
           in \<lparr>wi_configured = True, wi_source = ReadonlyDb, wi_activeSessions = count (length live),
               wi_concurrentUsersEstimate = count (length (filter (recent_session (mn_now env)) sessions)),
               wi_activeUsers = count (length (remdups (map ws_userId live))),
               wi_totalUsers = count (length (filter (\<lambda>st. st = ''active'') statuses)),
               wi_note = Some ''Concurrent users are estimated from sessions active in the last 5 minutes.''\<rparr>)
      | Inl m \<Rightarrow>
          \<lparr>wi_configured = True, wi_source = SourceError, wi_activeSessions = None, wi_concurrentUsersEstimate = None,
           wi_activeUsers = None, wi_totalUsers = None, wi_note = Some (''Wallet analytics unavailable: '' @ m)\<rparr>)"

section \<open>The host\<close>

text \<open>\<open>a / b\<close> and \<open>a * b\<close> where a is finite or the result of a division.\<close>

definition js_over :: "rat \<Rightarrow> rat \<Rightarrow> js_number" where
  "js_over a b = (if b = 0 then (if a = 0 then JsNaN else JsInf (0 < a)) else to_double (a / b))"

definition js_times :: "js_number \<Rightarrow> rat \<Rightarrow> js_number" where
  "js_times v k = (case v of JsNum a \<Rightarrow> to_double (a * k) | w \<Rightarrow> w)"

text \<open>\<open>Number(value.toFixed(2))\<close>: the nearest hundredth, ties upwards in size.\<close>

definition round_2 :: "js_number \<Rightarrow> js_number" where
  "round_2 v =
     (case v of
        JsNum x \<Rightarrow>
          if 10 ^ 21 \<le> \<bar>x\<bar> then v
          else to_double ((if x < 0 then - 1 else 1) * of_int (round_rat (\<bar>x\<bar> * 100)) / 100)
      | w \<Rightarrow> w)"

definition sum_double :: "rat list \<Rightarrow> rat" where
  "sum_double xs = num_of (foldl (\<lambda>acc x. to_double (num_of acc + x)) (JsNum 0) xs)"

definition collect_system :: "host_readings \<Rightarrow> system_info" where
  "collect_system h =
     (let gb = 1024 ^ 3; totalDisk = sum_double (map fst (ho_disks h)); usedDisk = sum_double (map snd (ho_disks h));
          rx = sum_double (map fst (ho_network h)); tx = sum_double (map snd (ho_network h))
      in \<lparr>si_cpuPercent = round_2 (JsNum (ho_currentLoad h)),
          si_memoryPercent = round_2 (js_times (js_over (ho_memActive h) (ho_memTotal h)) 100),
          si_memoryUsedGb = round_2 (js_over (ho_memActive h) gb), si_memoryTotalGb = round_2 (js_over (ho_memTotal h) gb),
          si_diskPercent = (if totalDisk = 0 then JsNum 0 else round_2 (js_times (js_over usedDisk totalDisk) 100)),
          si_diskUsedGb = round_2 (js_over usedDisk gb), si_diskTotalGb = round_2 (js_over totalDisk gb),
          si_networkRxMbps = round_2 (js_over (num_of (to_double (rx * 8))) 1000000),
          si_networkTxMbps = round_2 (js_over (num_of (to_double (tx * 8))) 1000000),
          si_loadAverage1m = round_2 (JsNum (case ho_loadavg h of [] \<Rightarrow> 0 | x # _ \<Rightarrow> x)),
          si_uptimeHours = round_2 (js_over (ho_uptime h) 3600)\<rparr>)"

section \<open>Named lists can be written and read\<close>

definition print_named_list :: "named_value list \<Rightarrow> string" where
  "print_named_list es = js_join '';'' (map (\<lambda>e. nv_name e @ ''='' @ nv_value e) es)"

definition plain_text :: "string \<Rightarrow> bool" where
  "plain_text s \<longleftrightarrow> s \<noteq> [] \<and> js_trim s = s \<and> list_all (\<lambda>c. c \<noteq> CHR '';'' \<and> code_unit c \<noteq> 10) s"

definition named_ok :: "named_value \<Rightarrow> bool" where
  "named_ok e \<longleftrightarrow> plain_text (nv_name e) \<and> plain_text (nv_value e) \<and> CHR ''='' \<notin> set (nv_name e)"

lemma js_trim_fixed: "s \<noteq> [] \<Longrightarrow> js_trim s = s \<longleftrightarrow> \<not> js_ws (hd s) \<and> \<not> js_ws (last s)"
proof
  assume ne: "s \<noteq> []" and fix_s: "js_trim s = s"
  have "length (js_trim s) \<le> length (dropWhile js_ws s)"
    unfolding js_trim_def using length_dropWhile_le [of js_ws "rev (dropWhile js_ws s)"] by simp
  then have "length (dropWhile js_ws s) = length s" using fix_s length_dropWhile_le [of js_ws s] by simp
  then have left: "dropWhile js_ws s = s" by (metis append_Nil length_append add_cancel_left_left length_0_conv takeWhile_dropWhile_id)
  then have "dropWhile js_ws (rev s) = rev s" using fix_s unfolding js_trim_def by (metis rev_rev_ident)
  with left ne show "\<not> js_ws (hd s) \<and> \<not> js_ws (last s)" by (metis hd_dropWhile hd_rev rev_is_Nil_conv)
next
  assume "s \<noteq> []" and "\<not> js_ws (hd s) \<and> \<not> js_ws (last s)"
  then have "dropWhile js_ws s = s" "dropWhile js_ws (rev s) = rev s" by (simp_all add: dropWhile_eq_self_iff hd_rev)
  then show "js_trim s = s" by (simp add: js_trim_def)
qed

lemma named_entry_print:
  assumes "named_ok e"
  shows "named_entry (nv_name e @ ''='' @ nv_value e) = e"
proof -
  have "\<forall>c\<in>set (nv_name e). c \<noteq> CHR ''=''" using assms by (auto simp add: named_ok_def)
  then have "takeWhile (\<lambda>c. c \<noteq> CHR ''='') (nv_name e @ ''='' @ nv_value e) = nv_name e"
      "dropWhile (\<lambda>c. c \<noteq> CHR ''='') (nv_name e @ ''='' @ nv_value e) = CHR ''='' # nv_value e"
    by (simp_all add: takeWhile_append2 dropWhile_append2)
  then show ?thesis using assms by (simp add: named_entry_def named_ok_def plain_text_def)
qed

lemma trim_print:
  assumes "named_ok e"
  shows "js_trim (nv_name e @ ''='' @ nv_value e) = nv_name e @ ''='' @ nv_value e"
proof -
  have "\<not> js_ws (hd (nv_name e))" "\<not> js_ws (last (nv_value e))" "nv_name e \<noteq> []" "nv_value e \<noteq> []"
    using assms js_trim_fixed unfolding named_ok_def plain_text_def by blast+
  then show ?thesis by (simp add: js_trim_fixed)
qed

lemma set_js_join: "c \<in> set (js_join sep ws) \<Longrightarrow> c \<in> set sep \<or> (\<exists>w\<in>set ws. c \<in> set w)"
  by (induction sep ws rule: js_join.induct) auto

text \<open>
  Lists of named endpoints can be written down and read back: what parses is the list that was
  written, if names and values are not empty, have no blanks around them and hold neither semicolons nor
  line feeds, and names hold no equals sign.
\<close>

theorem named_list_round_trip:
  assumes "list_all named_ok es"
  shows "parseNamedList (Some (print_named_list es)) = es"
proof (cases "es = []")
  case False
  let ?p = "\<lambda>e. nv_name e @ ''='' @ nv_value e"
  have ok: "named_ok e" if "e \<in> set es" for e using that assms by (simp add: list_all_iff)
  have chars: "c \<noteq> CHR '';'' \<and> code_unit c \<noteq> 10" if "e \<in> set es" "c \<in> set (?p e)" for e c
  proof (cases "c = CHR ''=''")
    case True
    then show ?thesis by (simp add: code_unit_def)
  qed (use ok [OF that(1)] that(2) in \<open>auto simp add: named_ok_def plain_text_def list_all_iff\<close>)
  have "code_unit c \<noteq> 10" if "c \<in> set (print_named_list es)" for c
  proof (cases "c = CHR '';''")
    case False
    have "c \<in> set '';'' \<or> (\<exists>w\<in>set (map ?p es). c \<in> set w)"
      using that unfolding print_named_list_def by (rule set_js_join)
    moreover have "c \<notin> set '';''" using False by simp
    ultimately obtain e where "e \<in> set es" "c \<in> set (?p e)" unfolding set_map by blast
    then show ?thesis using chars by blast
  qed (simp add: code_unit_def)
  then have same: "map (\<lambda>c. if code_unit c = 10 then CHR '';'' else c) (print_named_list es) = print_named_list es"
    by (intro map_idI) simp
  have "\<forall>w\<in>set (map ?p es). CHR '';'' \<notin> set w" unfolding set_map using chars by blast
  then have "js_split (CHR '';'') (print_named_list es) = map ?p es"
    unfolding print_named_list_def using False by (intro js_split_join) simp_all
  moreover have "print_named_list es \<noteq> []"
    using False by (cases es; cases "tl es") (auto simp add: print_named_list_def)
  moreover have "map js_trim (map ?p es) = map ?p es" "filter (\<lambda>e. e \<noteq> []) (map ?p es) = map ?p es"
      "map named_entry (map ?p es) = es" "filter (\<lambda>e. nv_name e \<noteq> [] \<and> nv_value e \<noteq> []) es = es"
    using ok trim_print named_entry_print
    by (simp_all add: map_idI comp_def filter_id_conv named_ok_def plain_text_def del: append.simps cong: map_cong)
  ultimately show ?thesis by (simp only: parseNamedList_def same option.case if_False)
qed (simp add: print_named_list_def parseNamedList_def)

theorem named_list_round_trip_witness:
  "parseNamedList (Some (print_named_list [\<lparr>nv_name = ''api'', nv_value = ''http://a?x=1''\<rparr>, \<lparr>nv_name = ''b c'', nv_value = ''y''\<rparr>])) =
     [\<lparr>nv_name = ''api'', nv_value = ''http://a?x=1''\<rparr>, \<lparr>nv_name = ''b c'', nv_value = ''y''\<rparr>]"
proof -
  have "list_all named_ok [\<lparr>nv_name = ''api'', nv_value = ''http://a?x=1''\<rparr>, \<lparr>nv_name = ''b c'', nv_value = ''y''\<rparr>]" by code_simp
  then show ?thesis by (rule named_list_round_trip)
qed

end
