(* ===== verification/Monitoring.thy ===== *)
theory Monitoring
  imports Monitor_Probe
begin

text \<open>
  The overview of the monitoring back end (\<^verbatim>\<open>monitoring/monitoring.service.ts\<close>): alerts and status
  of what was observed, the cache in front of it, the snapshots in the database and the series drawn
  from them. The fields of the service and its table are \<open>mon_state\<close>. A collection is one asynchronous
  run; the pieces of code between its awaits are \<open>collect_start\<close>, \<open>collect_measured\<close> and
  \<open>collect_finish\<close>, which the step relation \<open>mon_step\<close> interleaves with other requests. An overview read
  back from its jsonb column is taken to be the one that was stored. Properties that objects inherit are
  not found by \<open>extractMetricValue\<close>.
\<close>

section \<open>Overviews\<close>

record alert =
  ae_code :: string
  ae_severity :: severity
  ae_metric :: string
  ae_currentValue :: metric_value
  ae_threshold :: metric_value
  ae_title :: string
  ae_recommendedAction :: string

record overview =
  ov_generatedAt :: int
  ov_status :: health
  ov_system :: system_info
  ov_wallet :: wallet_info
  ov_services :: "service_health list"
  ov_chain :: chain_info
  ov_dwReady :: bool
  ov_dwNote :: string
  ov_alerts :: "alert list"

definition healthyCount :: "overview \<Rightarrow> nat" where
  "healthyCount ov = length (filter (\<lambda>s. sh_status s = Healthy) (ov_services ov))"

section \<open>Configuration\<close>

text \<open>A missing variable is read as the text of the fallback, which is the fallback again.\<close>

definition readNumberConfig ::
    "(string \<Rightarrow> string option) \<Rightarrow> string \<Rightarrow> rat \<Rightarrow> js_number \<Rightarrow> js_number \<Rightarrow> js_number" where
  "readNumberConfig cfg key fallback mn mx =
     (let raw = (case cfg key of None \<Rightarrow> JsNum fallback | Some s \<Rightarrow> js_Number s)
      in if \<not> js_isFinite raw then JsNum fallback else js_min (js_max raw mn) mx)"

definition min_interval :: "probe_env \<Rightarrow> js_number" where
  "min_interval env = readNumberConfig (mn_cfg env) ''MONITORING_COLLECTION_MIN_INTERVAL_MS'' 30000 (JsNum 5000) (JsNum 600000)"

definition cache_time :: "probe_env \<Rightarrow> bool \<Rightarrow> js_number" where
  "cache_time env forceRefresh =
     (if forceRefresh then readNumberConfig (mn_cfg env) ''MONITORING_FORCE_REFRESH_COOLDOWN_MS'' 5000 (JsNum 1000) (JsNum 60000)
      else readNumberConfig (mn_cfg env) ''MONITORING_OVERVIEW_CACHE_MS'' 10000 (JsNum 1000) (JsNum 60000))"

section \<open>Alerts\<close>

definition cpu_limit :: "probe_env \<Rightarrow> js_number" where
  "cpu_limit env = readNumberConfig (mn_cfg env) ''MONITORING_ALERT_CPU_CRITICAL'' 85 (JsNum 1) (JsNum 100)"

definition memory_limit :: "probe_env \<Rightarrow> js_number" where
  "memory_limit env = readNumberConfig (mn_cfg env) ''MONITORING_ALERT_MEMORY_WARNING'' 80 (JsNum 1) (JsNum 100)"

definition disk_limit :: "probe_env \<Rightarrow> js_number" where
  "disk_limit env = readNumberConfig (mn_cfg env) ''MONITORING_ALERT_DISK_CRITICAL'' 90 (JsNum 1) (JsNum 100)"

text \<open>The lower bound is the double nearest to 0.1.\<close>

definition load_limit :: "probe_env \<Rightarrow> js_number" where
  "load_limit env = readNumberConfig (mn_cfg env) ''MONITORING_ALERT_LOAD_WARNING'' 4
     (JsNum (3602879701896397 / 36028797018963968)) (JsNum 128)"

definition latency_limit :: "probe_env \<Rightarrow> js_number" where
  "latency_limit env = readNumberConfig (mn_cfg env) ''MONITORING_ALERT_SERVICE_LATENCY_WARNING_MS'' 1500 (JsNum 100) (JsNum 60000)"

definition concurrent_limit :: "probe_env \<Rightarrow> js_number" where
  "concurrent_limit env = js_Number (coalesce (mn_cfg env ''WALLET_CONCURRENT_WARN_THRESHOLD'') ''500'')"

definition system_alerts :: "probe_env \<Rightarrow> system_info \<Rightarrow> alert list" where
  "system_alerts env sys =
     (if js_ge (si_cpuPercent sys) (cpu_limit env)
      then [\<lparr>ae_code = ''cpu_hot'', ae_severity = SevCritical, ae_metric = ''system.cpuPercent'',
             ae_currentValue = MetricNumber (si_cpuPercent sys), ae_threshold = MetricNumber (cpu_limit env),
             ae_title = ''CPU usage is in the critical zone.'',
             ae_recommendedAction = ''Inspect high-load services and autoscaling capacity.''\<rparr>] else []) @
     (if js_ge (si_memoryPercent sys) (memory_limit env)
      then [\<lparr>ae_code = ''memory_pressure'', ae_severity = SevWarning, ae_metric = ''system.memoryPercent'',
             ae_currentValue = MetricNumber (si_memoryPercent sys), ae_threshold = MetricNumber (memory_limit env),
             ae_title = ''Memory pressure is rising.'',
             ae_recommendedAction = ''Review container limits, leaks, and garbage-collection hotspots.''\<rparr>] else []) @
     (if js_ge (si_diskPercent sys) (disk_limit env)
      then [\<lparr>ae_code = ''disk_almost_full'', ae_severity = SevCritical, ae_metric = ''system.diskPercent'',
             ae_currentValue = MetricNumber (si_diskPercent sys), ae_threshold = MetricNumber (disk_limit env),
             ae_title = ''Disk capacity is almost exhausted.'',
             ae_recommendedAction = ''Rotate logs and expand storage before ingest stalls.''\<rparr>] else []) @
     (if js_ge (si_loadAverage1m sys) (load_limit env)
      then [\<lparr>ae_code = ''load_average_high'', ae_severity = SevWarning, ae_metric = ''system.loadAverage1m'',
             ae_currentValue = MetricNumber (si_loadAverage1m sys), ae_threshold = MetricNumber (load_limit env),
             ae_title = ''System load average is elevated.'',
             ae_recommendedAction = ''Inspect queue depth and CPU saturation across critical services.''\<rparr>] else [])"

definition wallet_alerts :: "probe_env \<Rightarrow> wallet_info \<Rightarrow> alert list" where
  "wallet_alerts env w =
     (case wi_concurrentUsersEstimate w of
        Some n \<Rightarrow>
          if js_ge n (concurrent_limit env)
          then [\<lparr>ae_code = ''concurrent_users_spike'', ae_severity = SevWarning, ae_metric = ''wallet.concurrentUsersEstimate'',
                 ae_currentValue = MetricNumber n, ae_threshold = MetricNumber (concurrent_limit env),
                 ae_title = ''Concurrent wallet usage is above the configured threshold.'',
                 ae_recommendedAction = ''Verify API latency, queue depth, and transfer throughput.''\<rparr>] else []
      | None \<Rightarrow> []) @
     (if wi_configured w \<and> wi_source w = SourceError
      then [\<lparr>ae_code = ''wallet_telemetry_unavailable'', ae_severity = SevWarning, ae_metric = ''wallet'',
             ae_currentValue = MetricText (coalesce (wi_note w) ''unavailable''), ae_threshold = MetricText ''readonly_db'',
             ae_title = ''Wallet telemetry is configured but currently unavailable.'',
             ae_recommendedAction = ''Inspect the read-only database connection and session analytics query.''\<rparr>] else [])"

definition service_down_alert :: "service_health \<Rightarrow> alert" where
  "service_down_alert s =
     \<lparr>ae_code = ''service_down_'' @ sh_name s, ae_severity = SevCritical, ae_metric = ''services.'' @ sh_name s,
      ae_currentValue = MetricText (coalesce (sh_detail s) ''down''), ae_threshold = MetricText ''healthy'',
      ae_title = sh_name s @ '' is unreachable or unhealthy.'',
      ae_recommendedAction = ''Check service container logs and upstream dependencies.''\<rparr>"

definition slow_service :: "probe_env \<Rightarrow> service_health \<Rightarrow> bool" where
  "slow_service env s \<longleftrightarrow> sh_status s = Healthy \<and>
     (case sh_latencyMs s of Some n \<Rightarrow> js_ge (js_of_int n) (latency_limit env) | None \<Rightarrow> False)"

definition service_latency_alert :: "probe_env \<Rightarrow> service_health \<Rightarrow> alert" where
  "service_latency_alert env s =
     \<lparr>ae_code = ''service_latency_'' @ sh_name s, ae_severity = SevWarning, ae_metric = ''services.'' @ sh_name s @ ''.latencyMs'',
      ae_currentValue = (case sh_latencyMs s of Some n \<Rightarrow> MetricNumber (js_of_int n) | None \<Rightarrow> MetricText ''n/a''),
      ae_threshold = MetricNumber (latency_limit env), ae_title = sh_name s @ '' latency is above the warning threshold.'',
      ae_recommendedAction = ''Investigate upstream dependencies, database response time, and request queue pressure.''\<rparr>"

definition anomaly_alert :: "anomaly \<Rightarrow> alert" where
  "anomaly_alert a =
     \<lparr>ae_code = an_code a, ae_severity = an_severity a, ae_metric = ''chain'', ae_currentValue = MetricText (an_message a),
      ae_threshold = MetricText ''stable topology'', ae_title = an_message a,
      ae_recommendedAction =
        (if an_severity a = SevCritical then ''Inspect Kufi chain nodes, peer connectivity, and gateway health immediately.''
         else ''Compare peer status across nodes and validate recent join or upgrade actions.'')\<rparr>"

definition buildAlerts ::
    "probe_env \<Rightarrow> system_info \<Rightarrow> wallet_info \<Rightarrow> service_health list \<Rightarrow> chain_info \<Rightarrow> alert list" where
  "buildAlerts env sys wallet services chain =
     system_alerts env sys @ wallet_alerts env wallet @
     map service_down_alert (filter (\<lambda>s. sh_status s = Critical) services) @
     map (service_latency_alert env) (filter (slow_service env) services) @
     map anomaly_alert (ci_anomalies chain)"

definition deriveStatus :: "alert list \<Rightarrow> health" where
  "deriveStatus alerts =
     (if list_ex (\<lambda>a. ae_severity a = SevCritical) alerts then Critical else if alerts \<noteq> [] then Warned else Healthy)"

text \<open>One collection: only the readings of the host can fail it.\<close>

definition collected_overview :: "probe_env \<Rightarrow> string + overview" where
  "collected_overview env =
     bindE (mn_host env) (\<lambda>h.
       let sys = collect_system h; wallet = collect_wallet env; services = collectServiceHealth env;
           chain = collect_chain env; alerts = buildAlerts env sys wallet services chain
       in Inr \<lparr>ov_generatedAt = mn_now env, ov_status = deriveStatus alerts, ov_system = sys, ov_wallet = wallet,
               ov_services = services, ov_chain = chain,
               ov_dwReady = (coalesce (mn_cfg env ''DW_STATUS_URL'') [] \<noteq> []),
               ov_dwNote = coalesce (mn_cfg env ''DW_STATUS_NOTE'')
                 ''Reserved for future data warehouse feeds that support rate and liquidity decisions.'',
               ov_alerts = alerts\<rparr>)"

section \<open>Change of the operational state\<close>

fun health_text :: "health \<Rightarrow> string" where
  "health_text Healthy = ''healthy''"
| "health_text Warned = ''warning''"
| "health_text Critical = ''critical''"
| "health_text Unknown = ''unknown''"

fun severity_text :: "severity \<Rightarrow> string" where
  "severity_text SevWarning = ''warning''"
| "severity_text SevCritical = ''critical''"

text \<open>\<open>xs.sort()\<close> on texts: by code units.\<close>

definition sort_texts :: "string list \<Rightarrow> string list" where
  "sort_texts xs = sort_by (\<lambda>a b. a \<le> b) xs"

definition serializeAlerts :: "alert list \<Rightarrow> string" where
  "serializeAlerts alerts = js_join ''|'' (sort_texts (map (\<lambda>a. ae_code a @ '':'' @ severity_text (ae_severity a)) alerts))"

definition serializeServices :: "service_health list \<Rightarrow> string" where
  "serializeServices services =
     js_join ''|'' (sort_texts (map (\<lambda>s. sh_name s @ '':'' @ health_text (sh_status s) @ '':'' @
       (case sh_httpStatus s of None \<Rightarrow> ''n/a'' | Some n \<Rightarrow> int_digits n)) services))"

definition serializeChain :: "chain_info \<Rightarrow> string" where
  "serializeChain chain =
     js_join ''|'' ([health_text (ci_gatewayStatus chain), ci_fabricStatus chain] @
       map (\<lambda>n. cn_name n @ '':'' @ health_text (cn_status n) @ '':'' @ number_text (cn_knownPeers n) @ '':'' @
         number_text (cn_pendingRequests n)) (ci_nodes chain))"

definition hasOperationalStateChanged :: "overview \<Rightarrow> overview \<Rightarrow> bool" where
  "hasOperationalStateChanged p n \<longleftrightarrow>
     ov_status p \<noteq> ov_status n \<or> serializeAlerts (ov_alerts p) \<noteq> serializeAlerts (ov_alerts n) \<or>
     serializeServices (ov_services p) \<noteq> serializeServices (ov_services n) \<or>
     serializeChain (ov_chain p) \<noteq> serializeChain (ov_chain n) \<or>
     wi_source (ov_wallet p) \<noteq> wi_source (ov_wallet n)"

section \<open>State of the service\<close>

record snapshot =
  sn_category :: string
  sn_payload :: overview
  sn_createdAt :: int

record mon_state =
  ms_cached :: "overview option"
  ms_cachedAt :: int
  ms_collectedAt :: int
  ms_persistedAt :: int
  ms_collecting :: bool
  ms_snapshots :: "snapshot list"

definition empty_state :: "snapshot list \<Rightarrow> mon_state" where
  "empty_state snaps = \<lparr>ms_cached = None, ms_cachedAt = 0, ms_collectedAt = 0, ms_persistedAt = 0, ms_collecting = False,
     ms_snapshots = snaps\<rparr>"

definition loadLatestOverview :: "mon_state \<Rightarrow> overview option" where
  "loadLatestOverview s =
     (case sort_key (\<lambda>x. - sn_createdAt x) (filter (\<lambda>x. sn_category x = ''overview'') (ms_snapshots s)) of
        [] \<Rightarrow> None | x # _ \<Rightarrow> Some (sn_payload x))"

definition rememberOverview :: "probe_env \<Rightarrow> overview \<Rightarrow> mon_state \<Rightarrow> mon_state" where
  "rememberOverview env ov s = s\<lparr>ms_cached := Some ov, ms_cachedAt := mn_now env\<rparr>"

definition younger_than :: "probe_env \<Rightarrow> int \<Rightarrow> js_number \<Rightarrow> bool" where
  "younger_than env t d \<longleftrightarrow> js_gt d (js_of_int (mn_now env - t))"

definition shouldPersistSnapshot :: "probe_env \<Rightarrow> overview \<Rightarrow> mon_state \<Rightarrow> bool" where
  "shouldPersistSnapshot env nxt s \<longleftrightarrow>
     (case ms_cached s of
        None \<Rightarrow> True
      | Some c \<Rightarrow>
          ms_persistedAt s = 0 \<or>
          js_ge (js_of_int (mn_now env - ms_persistedAt s))
            (readNumberConfig (mn_cfg env) ''MONITORING_SNAPSHOT_PERSIST_MS'' 60000 (JsNum 10000) (JsNum 3600000)) \<or>
          hasOperationalStateChanged c nxt)"

section \<open>One collection\<close>

datatype flight = Answer overview | Join | Collect

definition collect_start :: "probe_env \<Rightarrow> bool \<Rightarrow> mon_state \<Rightarrow> flight \<times> mon_state" where
  "collect_start env force s =
     (case (if force then None else ms_cached s) of
        Some c \<Rightarrow>
          if younger_than env (ms_collectedAt s) (min_interval env) then (Answer c, s)
          else if ms_collecting s then (Join, s) else (Collect, s\<lparr>ms_collecting := True\<rparr>)
      | None \<Rightarrow> if ms_collecting s then (Join, s) else (Collect, s\<lparr>ms_collecting := True\<rparr>))"

definition collect_measured :: "probe_env \<Rightarrow> mon_state \<Rightarrow> mon_state" where
  "collect_measured env s = s\<lparr>ms_collectedAt := mn_now env\<rparr>"

text \<open>The row is saved, unless the database refuses it (which fails the collection).\<close>

definition save_snapshot :: "probe_env \<Rightarrow> overview \<Rightarrow> mon_state \<Rightarrow> mon_state" where
  "save_snapshot env ov s =
     s\<lparr>ms_snapshots := ms_snapshots s @ [\<lparr>sn_category = ''overview'', sn_payload = ov, sn_createdAt = mn_now env\<rparr>],
       ms_persistedAt := mn_now env\<rparr>"

definition collect_finish :: "probe_env \<Rightarrow> overview \<Rightarrow> mon_state \<Rightarrow> mon_state" where
  "collect_finish env ov s = (rememberOverview env ov s)\<lparr>ms_collecting := False\<rparr>"

definition collect_failed :: "mon_state \<Rightarrow> mon_state" where
  "collect_failed s = s\<lparr>ms_collecting := False\<rparr>"

text \<open>The whole collection when no other request runs meanwhile.\<close>

definition run_collection :: "probe_env \<Rightarrow> (mon_state, string, overview) handler" where
  "run_collection env s =
     (case collected_overview env of
        Inl m \<Rightarrow> (Inl m, collect_failed s)
      | Inr ov \<Rightarrow>
          (let s1 = collect_measured env s;
               s2 = (if shouldPersistSnapshot env ov s1 then save_snapshot env ov s1 else s1)
           in (Inr ov, collect_finish env ov s2)))"

text \<open>
  A request that joins a collection gets its result; run alone, a request never finds one under way,
  and the state with one under way is answered by the collection run to its end.
\<close>

definition collectAndStoreOverview :: "probe_env \<Rightarrow> bool \<Rightarrow> (mon_state, string, overview) handler" where
  "collectAndStoreOverview env force s =
     (case collect_start env force s of (Answer ov, s') \<Rightarrow> (Inr ov, s') | (_, s') \<Rightarrow> run_collection env s')"

definition scheduledCollection :: "probe_env \<Rightarrow> (mon_state, string, overview) handler" where
  "scheduledCollection env = collectAndStoreOverview env False"

definition cached_answer :: "probe_env \<Rightarrow> bool \<Rightarrow> mon_state \<Rightarrow> overview option" where
  "cached_answer env forceRefresh s =
     (case ms_cached s of
        None \<Rightarrow> None
      | Some c \<Rightarrow>
          if (\<not> forceRefresh \<and> younger_than env (ms_collectedAt s) (min_interval env)) \<or>
             younger_than env (ms_cachedAt s) (cache_time env forceRefresh)
          then Some c else None)"

definition after_load :: "probe_env \<Rightarrow> bool \<Rightarrow> overview option \<Rightarrow> (mon_state, string, overview) handler" where
  "after_load env forceRefresh latest s =
     (case latest of
        None \<Rightarrow> collectAndStoreOverview env forceRefresh s
      | Some ov \<Rightarrow>
          (let s1 = rememberOverview env ov s
           in if \<not> forceRefresh then (Inr ov, s1) else collectAndStoreOverview env forceRefresh s1))"

definition getOverview :: "probe_env \<Rightarrow> bool \<Rightarrow> (mon_state, string, overview) handler" where
  "getOverview env forceRefresh s =
     (case cached_answer env forceRefresh s of
        Some c \<Rightarrow> (Inr c, s)
      | None \<Rightarrow>
          if ms_collecting s then run_collection env s else after_load env forceRefresh (loadLatestOverview s) s)"

definition onModuleInit :: "probe_env \<Rightarrow> mon_state \<Rightarrow> mon_state" where
  "onModuleInit env s =
     (case loadLatestOverview s of
        None \<Rightarrow> snd (collectAndStoreOverview env False s)
      | Some ov \<Rightarrow>
          (let s1 = (rememberOverview env ov s)\<lparr>ms_persistedAt := ov_generatedAt ov, ms_collectedAt := ov_generatedAt ov\<rparr>;
               maxAge = readNumberConfig (mn_cfg env) ''MONITORING_BOOTSTRAP_MAX_AGE_MS'' 60000 (JsInf False) (JsInf True)
           in if js_gt (js_of_int (mn_now env - ov_generatedAt ov)) maxAge
              then snd (collectAndStoreOverview env False s1) else s1))"

definition pruneOldSnapshots :: "probe_env \<Rightarrow> mon_state \<Rightarrow> mon_state" where
  "pruneOldSnapshots env s =
     (let hours = readNumberConfig (mn_cfg env) ''MONITORING_SNAPSHOT_RETENTION_HOURS'' 168 (JsNum 1) (JsNum 2160);
          cutoff = mn_now env - \<lfloor>num_of hours * 3600000\<rfloor>
      in s\<lparr>ms_snapshots := filter (\<lambda>x. \<not> (sn_category x = ''overview'' \<and> sn_createdAt x < cutoff)) (ms_snapshots s)\<rparr>)"

definition getAlerts :: "probe_env \<Rightarrow> (mon_state, string, alert list) handler" where
  "getAlerts env = bindH (getOverview env False) (\<lambda>ov. returnH (ov_alerts ov))"

definition getServices :: "probe_env \<Rightarrow> (mon_state, string, nat \<times> nat \<times> service_health list) handler" where
  "getServices env = bindH (getOverview env False) (\<lambda>ov. returnH (healthyCount ov, length (ov_services ov), ov_services ov))"

definition getChainOverview :: "probe_env \<Rightarrow> (mon_state, string, chain_info) handler" where
  "getChainOverview env = bindH (getOverview env False) (\<lambda>ov. returnH (ov_chain ov))"

section \<open>Series\<close>

definition opt_json :: "('a \<Rightarrow> json) \<Rightarrow> 'a option \<Rightarrow> json" where
  "opt_json f v = (case v of None \<Rightarrow> JNull | Some x \<Rightarrow> f x)"

abbreviation int_json :: "int \<Rightarrow> json" where
  "int_json n \<equiv> JNumber (js_of_int n)"

definition system_json :: "system_info \<Rightarrow> json" where
  "system_json s = JObject
     [(''cpuPercent'', JNumber (si_cpuPercent s)), (''memoryPercent'', JNumber (si_memoryPercent s)),
      (''memoryUsedGb'', JNumber (si_memoryUsedGb s)), (''memoryTotalGb'', JNumber (si_memoryTotalGb s)),
      (''diskPercent'', JNumber (si_diskPercent s)), (''diskUsedGb'', JNumber (si_diskUsedGb s)),
      (''diskTotalGb'', JNumber (si_diskTotalGb s)), (''networkRxMbps'', JNumber (si_networkRxMbps s)),
      (''networkTxMbps'', JNumber (si_networkTxMbps s)), (''loadAverage1m'', JNumber (si_loadAverage1m s)),
      (''uptimeHours'', JNumber (si_uptimeHours s))]"

fun source_text :: "wallet_source \<Rightarrow> string" where
  "source_text ReadonlyDb = ''readonly_db''"
| "source_text Unconfigured = ''unconfigured''"
| "source_text SourceError = ''error''"

definition wallet_json :: "wallet_info \<Rightarrow> json" where
  "wallet_json w = JObject
     [(''configured'', JBool (wi_configured w)), (''source'', JString (source_text (wi_source w))),
      (''activeSessions'', opt_json JNumber (wi_activeSessions w)),
      (''concurrentUsersEstimate'', opt_json JNumber (wi_concurrentUsersEstimate w)),
      (''activeUsers'', opt_json JNumber (wi_activeUsers w)), (''totalUsers'', opt_json JNumber (wi_totalUsers w)),
      (''note'', opt_json JString (wi_note w))]"

definition service_json :: "service_health \<Rightarrow> json" where
  "service_json s = JObject
     [(''name'', JString (sh_name s)), (''url'', JString (sh_url s)), (''status'', JString (health_text (sh_status s))),
      (''latencyMs'', opt_json int_json (sh_latencyMs s)), (''httpStatus'', opt_json int_json (sh_httpStatus s)),
      (''lastCheckedAt'', JString (sh_lastCheckedAt s)), (''detail'', opt_json JString (sh_detail s))]"

definition node_json :: "chain_node \<Rightarrow> json" where
  "node_json n = JObject
     [(''name'', JString (cn_name n)), (''url'', JString (cn_url n)), (''status'', JString (health_text (cn_status n))),
      (''role'', JString (cn_role n)), (''orgName'', JString (cn_orgName n)), (''mspId'', JString (cn_mspId n)),
      (''knownPeers'', JNumber (cn_knownPeers n)), (''pendingRequests'', JNumber (cn_pendingRequests n)),
      (''latencyMs'', opt_json int_json (cn_latencyMs n)), (''lastCheckedAt'', JString (cn_lastCheckedAt n)),
      (''detail'', opt_json JString (cn_detail n))]"

definition chain_json :: "chain_info \<Rightarrow> json" where
  "chain_json c = JObject
     [(''gatewayStatus'', JString (health_text (ci_gatewayStatus c))), (''fabricStatus'', JString (ci_fabricStatus c)),
      (''activeNodes'', int_json (int (ci_activeNodes c))), (''configuredNodes'', int_json (int (ci_configuredNodes c))),
      (''nodes'', JArray (map node_json (ci_nodes c))),
      (''anomalies'', JArray (map (\<lambda>a. JObject [(''code'', JString (an_code a)),
         (''severity'', JString (severity_text (an_severity a))), (''message'', JString (an_message a))]) (ci_anomalies c)))]"

fun metric_json :: "metric_value \<Rightarrow> json" where
  "metric_json (MetricNumber n) = JNumber n"
| "metric_json (MetricText s) = JString s"

definition alert_json :: "alert \<Rightarrow> json" where
  "alert_json a = JObject
     [(''code'', JString (ae_code a)), (''severity'', JString (severity_text (ae_severity a))), (''metric'', JString (ae_metric a)),
      (''currentValue'', metric_json (ae_currentValue a)), (''threshold'', metric_json (ae_threshold a)),
      (''title'', JString (ae_title a)), (''recommendedAction'', JString (ae_recommendedAction a))]"

definition overview_json :: "overview \<Rightarrow> json" where
  "overview_json ov = JObject
     [(''generatedAt'', JString (toISOString (ov_generatedAt ov))), (''status'', JString (health_text (ov_status ov))),
      (''system'', system_json (ov_system ov)), (''wallet'', wallet_json (ov_wallet ov)),
      (''services'', JObject [(''healthyCount'', int_json (int (healthyCount ov))),
         (''totalCount'', int_json (int (length (ov_services ov)))), (''items'', JArray (map service_json (ov_services ov)))]),
      (''chain'', chain_json (ov_chain ov)),
      (''dataWarehouse'', JObject [(''ready'', JBool (ov_dwReady ov)), (''note'', JString (ov_dwNote ov))]),
      (''alerts'', JArray (map alert_json (ov_alerts ov)))]"

definition metric_step :: "json \<Rightarrow> string \<Rightarrow> json" where
  "metric_step current segment =
     (case current of
        JObject kvs \<Rightarrow> coalesce (map_of kvs segment) JNull
      | JArray vs \<Rightarrow>
          if segment = ''length'' then int_json (int (length vs))
          else coalesce (map_of (zip (map nat_digits [0..<length vs]) vs) segment) JNull
      | _ \<Rightarrow> JNull)"

definition extractMetricValue :: "json \<Rightarrow> string \<Rightarrow> json" where
  "extractMetricValue payload metric = foldl metric_step payload (js_split (CHR ''.'') metric)"

definition normalizeMetricValue :: "json \<Rightarrow> js_number option" where
  "normalizeMetricValue v = (case v of JNumber n \<Rightarrow> Some n | _ \<Rightarrow> None)"

record series =
  sr_metric :: string
  sr_minutes :: js_number
  sr_points :: "(int \<times> js_number option) list"

definition safe_metrics :: "string list \<Rightarrow> string list" where
  "safe_metrics metrics = take 8 (rev (remdups (rev (filter (\<lambda>m. m \<noteq> []) (map js_trim metrics)))))"

definition metric_point :: "string \<Rightarrow> int \<Rightarrow> overview \<Rightarrow> int \<times> js_number option" where
  "metric_point metric t ov = (t, normalizeMetricValue (extractMetricValue (overview_json ov) metric))"

definition recent_snapshots :: "probe_env \<Rightarrow> rat \<Rightarrow> mon_state \<Rightarrow> snapshot list" where
  "recent_snapshots env minutes s =
     sort_key sn_createdAt (filter (\<lambda>x. sn_category x = ''overview'' \<and> mn_now env - \<lfloor>minutes * 60000\<rfloor> < sn_createdAt x) (ms_snapshots s))"

text \<open>Minutes that are not a number make an invalid date, which the query refuses.\<close>

definition getTrends ::
    "probe_env \<Rightarrow> string list \<Rightarrow> js_number \<Rightarrow> (mon_state, string, js_number \<times> (string \<times> series) list) handler" where
  "getTrends env metrics minutes s =
     (let safe = safe_metrics metrics; safeMinutes = js_min (js_max minutes (JsNum 15)) (JsNum 1440);
          table = (\<lambda>pts. map (\<lambda>m. (m, \<lparr>sr_metric = m, sr_minutes = safeMinutes, sr_points = pts m\<rparr>)) safe)
      in if safe = [] then (Inr (safeMinutes, []), s)
         else case safeMinutes of
           JsNum n \<Rightarrow>
             (let snaps = recent_snapshots env n s
              in if snaps = [] then
                   bindH (getOverview env False) (\<lambda>ov. returnH (safeMinutes, table (\<lambda>m. [metric_point m (ov_generatedAt ov) ov]))) s
                 else (Inr (safeMinutes, table (\<lambda>m. map (\<lambda>x. metric_point m (sn_createdAt x) (sn_payload x)) snaps)), s))
         | _ \<Rightarrow> (Inl ''invalid date'', s))"

definition getTimeseries :: "probe_env \<Rightarrow> string \<Rightarrow> js_number \<Rightarrow> (mon_state, string, series) handler" where
  "getTimeseries env metric minutes =
     bindH (getTrends env [metric] minutes) (\<lambda>(m, table).
       returnH (coalesce (map_of table metric) \<lparr>sr_metric = metric, sr_minutes = m, sr_points = []\<rparr>))"

section \<open>When the status is critical\<close>

definition service_down :: "probe_env \<Rightarrow> named_value \<Rightarrow> bool" where
  "service_down env e \<longleftrightarrow> (case mn_fetch env (nv_value e) None of Inl _ \<Rightarrow> True | Inr r \<Rightarrow> \<not> response_ok r)"

definition node_down :: "probe_env \<Rightarrow> named_value \<Rightarrow> bool" where
  "node_down env e \<longleftrightarrow> (case fetchRecord env (nv_value e @ ''/api/status'') of Inl _ \<Rightarrow> True | Inr _ \<Rightarrow> False)"

definition monitored_services :: "probe_env \<Rightarrow> named_value list" where
  "monitored_services env = parseNamedList (Some (js_trim (coalesce (mn_cfg env ''MONITORED_SERVICE_ENDPOINTS'') [])))"

definition gateway_down :: "probe_env \<Rightarrow> bool" where
  "gateway_down env \<longleftrightarrow> coalesce (mn_cfg env ''CHAIN_GATEWAY_HEALTH_URL'') [] \<noteq> [] \<and>
     \<not> connected (snd (pingGateway env (coalesce (mn_cfg env ''CHAIN_GATEWAY_HEALTH_URL'') [])))"

lemma deriveStatus_Critical: "deriveStatus alerts = Critical \<longleftrightarrow> (\<exists>a\<in>set alerts. ae_severity a = SevCritical)"
  by (auto simp add: deriveStatus_def list_ex_iff)

lemma system_critical:
  "(\<exists>a\<in>set (system_alerts env sys). ae_severity a = SevCritical) \<longleftrightarrow>
     js_ge (si_cpuPercent sys) (cpu_limit env) \<or> js_ge (si_diskPercent sys) (disk_limit env)"
  unfolding system_alerts_def set_append bex_Un by (simp split: if_split)

lemma wallet_never_critical: "a \<in> set (wallet_alerts env w) \<Longrightarrow> ae_severity a = SevWarning"
  by (auto simp add: wallet_alerts_def split: option.splits if_splits)

lemma collectServiceHealth_eq: "collectServiceHealth env = map (service_health_of env) (monitored_services env)"
  by (simp add: collectServiceHealth_def monitored_services_def Let_def parseNamedList_def)

lemma service_critical: "sh_status (service_health_of env e) = Critical \<longleftrightarrow> service_down env e"
  by (auto simp add: service_health_of_def service_down_def split: sum.split)

lemma node_critical: "cn_status (collectNodeStatus env e) = Critical \<longleftrightarrow> node_down env e"
  by (auto simp add: collectNodeStatus_def node_down_def Let_def split: sum.split)

lemma fewer_active:
  "nodes \<noteq> [] \<and> length (filter (\<lambda>n. cn_status n \<noteq> Critical) nodes) < length nodes \<longleftrightarrow> (\<exists>n\<in>set nodes. cn_status n = Critical)"
proof
  assume "\<exists>n\<in>set nodes. cn_status n = Critical"
  then show "nodes \<noteq> [] \<and> length (filter (\<lambda>n. cn_status n \<noteq> Critical) nodes) < length nodes"
    using length_filter_less [of _ nodes "\<lambda>n. cn_status n \<noteq> Critical"] by fastforce
next
  assume less: "nodes \<noteq> [] \<and> length (filter (\<lambda>n. cn_status n \<noteq> Critical) nodes) < length nodes"
  show "\<exists>n\<in>set nodes. cn_status n = Critical"
  proof (rule ccontr)
    assume "\<not> ?thesis"
    then have "filter (\<lambda>n. cn_status n \<noteq> Critical) nodes = nodes" by (simp add: filter_id_conv)
    with less show False by simp
  qed
qed

lemma anomaly_critical:
  "(\<exists>a\<in>set (chain_anomalies gw fabric nodes). an_severity a = SevCritical) \<longleftrightarrow>
     (\<exists>n\<in>set nodes. cn_status n = Critical) \<or> (gw \<and> \<not> connected fabric)"
  unfolding fewer_active [symmetric] by (auto simp add: chain_anomalies_def Let_def)

lemma chain_critical:
  "(\<exists>a\<in>set (ci_anomalies (collect_chain env)). an_severity a = SevCritical) \<longleftrightarrow>
     (\<exists>e\<in>set (resolveNodeEndpoints env). node_down env e) \<or> gateway_down env"
proof -
  let ?url = "coalesce (mn_cfg env ''CHAIN_GATEWAY_HEALTH_URL'') []"
  obtain g f where gf: "(if ?url \<noteq> [] then pingGateway env ?url else (Unknown, ''unconfigured'')) = (g, f)" by fastforce
  then have "ci_anomalies (collect_chain env) =
      chain_anomalies (?url \<noteq> []) f (sort_by (node_le env) (map (collectNodeStatus env) (resolveNodeEndpoints env)))"
    by (simp add: collect_chain_def Let_def)
  moreover have "gateway_down env \<longleftrightarrow> ?url \<noteq> [] \<and> \<not> connected f" using gf by (auto simp add: gateway_down_def)
  ultimately show ?thesis by (simp add: anomaly_critical node_critical)
qed

text \<open>
  C36. The overview is critical exactly if the processor or the disks are over their limits, a monitored
  service does not answer with a success, a discovered node of the ledger network does not answer, or the
  configured gateway of the network is not connected.
\<close>

theorem status_critical_iff:
  assumes "collected_overview env = Inr ov"
  shows "ov_status ov = Critical \<longleftrightarrow>
    js_ge (si_cpuPercent (ov_system ov)) (cpu_limit env) \<or> js_ge (si_diskPercent (ov_system ov)) (disk_limit env) \<or>
    (\<exists>e\<in>set (monitored_services env). service_down env e) \<or>
    (\<exists>e\<in>set (resolveNodeEndpoints env). node_down env e) \<or> gateway_down env"
proof -
  have ov: "ov_status ov = deriveStatus (buildAlerts env (ov_system ov) (collect_wallet env) (collectServiceHealth env) (collect_chain env))"
    using assms by (cases "mn_host env") (auto simp add: collected_overview_def Let_def)
  have "(\<exists>a\<in>set (map service_down_alert (filter (\<lambda>s. sh_status s = Critical) (collectServiceHealth env))). ae_severity a = SevCritical)
      \<longleftrightarrow> (\<exists>e\<in>set (monitored_services env). service_down env e)"
    by (auto simp add: service_down_alert_def collectServiceHealth_eq service_critical)
  moreover have "\<not> (\<exists>a\<in>set (map (service_latency_alert env) xs). ae_severity a = SevCritical)" for xs
    by (auto simp add: service_latency_alert_def)
  moreover have "(\<exists>a\<in>set (map anomaly_alert xs). ae_severity a = SevCritical) \<longleftrightarrow> (\<exists>a\<in>set xs. an_severity a = SevCritical)" for xs
    by (auto simp add: anomaly_alert_def)
  moreover have "\<not> (\<exists>a\<in>set (wallet_alerts env (collect_wallet env)). ae_severity a = SevCritical)"
    using wallet_never_critical by fastforce
  ultimately show ?thesis
    unfolding ov deriveStatus_Critical buildAlerts_def set_append bex_Un by (simp only: system_critical chain_critical) blast
qed

section \<open>A sample installation\<close>

definition demo_host :: host_readings where
  "demo_host = \<lparr>ho_currentLoad = 10, ho_memActive = 0, ho_memTotal = 1024 ^ 3, ho_disks = [], ho_network = [],
     ho_loadavg = [1], ho_uptime = 0\<rparr>"

definition demo_probe :: "int \<Rightarrow> probe_env" where
  "demo_probe now = \<lparr>mn_cfg = (\<lambda>k. if k = ''MONITORED_SERVICE_ENDPOINTS'' then Some ''api=http://api'' else None), mn_now = now,
     mn_fetch = (\<lambda>_ _. Inl ''refused''), mn_latency = (\<lambda>_. 0), mn_badJson = ''json'', mn_typeError = ''type'',
     mn_parseUrl = (\<lambda>_. None), mn_container = False, mn_localeLe = (\<lambda>a b. a \<le> b),
     mn_walletDb = Inl ''down'', mn_host = Inr demo_host\<rparr>"

definition demo_overview :: "int \<Rightarrow> overview" where
  "demo_overview now = (case collected_overview (demo_probe now) of Inr ov \<Rightarrow> ov)"

lemma demo_collected: "collected_overview (demo_probe now) = Inr (demo_overview now)"
  by (simp add: demo_overview_def collected_overview_def demo_probe_def Let_def)

theorem status_critical_iff_witness: "ov_status (demo_overview 5) = Critical"
proof -
  have "list_ex (service_down (demo_probe 5)) (monitored_services (demo_probe 5))" by code_simp
  then show ?thesis using status_critical_iff [OF demo_collected [of 5]] by (auto simp add: list_ex_iff)
qed

section \<open>One collection at a time\<close>

lemma readNumberConfig_bounds:
  assumes "a \<le> fallback" and "fallback \<le> b"
  shows "\<exists>r. readNumberConfig cfg key fallback (JsNum a) (JsNum b) = JsNum r \<and> a \<le> r \<and> r \<le> b"
proof -
  have "\<exists>r. js_min (js_max v (JsNum a)) (JsNum b) = JsNum r \<and> a \<le> r \<and> r \<le> b" if "js_isFinite v" for v
    using that assms by (intro js_clamp) (auto simp add: js_isFinite_def)
  then show ?thesis using assms by (auto simp add: readNumberConfig_def Let_def)
qed

text \<open>
  The service with the collections that are under way, in the phases between their awaits: observing, or
  saving a snapshot. Time and configuration belong to the environment of each step. A request may come
  back at any time with a snapshot that it asked for earlier.
\<close>

datatype phase = Observing | Saving overview

type_synonym flight_state = "mon_state \<times> phase list"

definition remove_nth :: "nat \<Rightarrow> 'a list \<Rightarrow> 'a list" where
  "remove_nth i xs = take i xs @ drop (Suc i) xs"

inductive mon_step :: "flight_state \<Rightarrow> flight_state \<Rightarrow> bool" where
  begin_collection: "collect_start env force s = (Collect, s') \<Longrightarrow> mon_step (s, run) (s', run @ [Observing])"
| host_fails: "i < length run \<Longrightarrow> run ! i = Observing \<Longrightarrow> collected_overview env = Inl m \<Longrightarrow>
    mon_step (s, run) (collect_failed s, remove_nth i run)"
| measured: "i < length run \<Longrightarrow> run ! i = Observing \<Longrightarrow> collected_overview env = Inr ov \<Longrightarrow>
    \<not> shouldPersistSnapshot env ov (collect_measured env s) \<Longrightarrow>
    mon_step (s, run) (collect_finish env ov (collect_measured env s), remove_nth i run)"
| measured_to_save: "i < length run \<Longrightarrow> run ! i = Observing \<Longrightarrow> collected_overview env = Inr ov \<Longrightarrow>
    shouldPersistSnapshot env ov (collect_measured env s) \<Longrightarrow> mon_step (s, run) (collect_measured env s, run[i := Saving ov])"
| saved: "i < length run \<Longrightarrow> run ! i = Saving ov \<Longrightarrow>
    mon_step (s, run) (collect_finish env ov (save_snapshot env ov s), remove_nth i run)"
| save_fails: "i < length run \<Longrightarrow> run ! i = Saving ov \<Longrightarrow> mon_step (s, run) (collect_failed s, remove_nth i run)"
| loaded: "mon_step (s, run) (rememberOverview env ov s, run)"
| prune: "mon_step (s, run) (pruneOldSnapshots env s, run)"

definition flight_init :: "flight_state \<Rightarrow> bool" where
  "flight_init x \<longleftrightarrow> (\<exists>snaps. x = (empty_state snaps, []))"

definition flight_ok :: "flight_state \<Rightarrow> bool" where
  "flight_ok x \<longleftrightarrow> length (snd x) = (if ms_collecting (fst x) then 1 else 0)"

lemma length_remove_nth: "i < length xs \<Longrightarrow> length (remove_nth i xs) = length xs - 1"
  by (simp add: remove_nth_def)

lemma collect_start_Collect: "collect_start env force s = (Collect, s') \<Longrightarrow> \<not> ms_collecting s \<and> s' = s\<lparr>ms_collecting := True\<rparr>"
  by (auto simp add: collect_start_def split: option.splits if_splits)

lemma collecting_simps [simp]:
  "ms_collecting (collect_failed s) = False" "ms_collecting (collect_finish env ov s) = False"
  "ms_collecting (collect_measured env s) = ms_collecting s" "ms_collecting (save_snapshot env ov s) = ms_collecting s"
  "ms_collecting (rememberOverview env ov s) = ms_collecting s" "ms_collecting (pruneOldSnapshots env s) = ms_collecting s"
  by (simp_all add: collect_failed_def collect_finish_def collect_measured_def save_snapshot_def rememberOverview_def
      pruneOldSnapshots_def Let_def)

lemma flight_ok_step: "mon_step x y \<Longrightarrow> flight_ok x \<Longrightarrow> flight_ok y"
  by (induction rule: mon_step.induct) (auto simp add: flight_ok_def length_remove_nth dest: collect_start_Collect split: if_splits)

interpretation flights: invariant_system flight_init mon_step flight_ok
proof
  show "flight_init x \<Longrightarrow> flight_ok x" for x by (auto simp add: flight_init_def flight_ok_def empty_state_def)
qed (rule flight_ok_step)

lemma unforced_start_spaced:
  assumes "collect_start env False s = (Collect, s')" and "ms_cached s \<noteq> None"
  shows "5000 \<le> mn_now env - ms_collectedAt s"
proof -
  obtain c where "ms_cached s = Some c" using assms(2) by blast
  with assms(1) have old: "\<not> younger_than env (ms_collectedAt s) (min_interval env)"
    by (auto simp add: collect_start_def split: if_splits)
  obtain r where r: "min_interval env = JsNum r" "5000 \<le> r"
    using readNumberConfig_bounds [of 5000 30000 600000] unfolding min_interval_def by fastforce
  with old have "r \<le> of_int (mn_now env - ms_collectedAt s)" by (simp add: younger_than_def js_of_int_def)
  with r(2) have "of_int 5000 \<le> (of_int (mn_now env - ms_collectedAt s) :: rat)" by simp
  then show ?thesis by linarith
qed



section \<open>Going back in time\<close>

lemma collected_generatedAt: "collected_overview env = Inr ov \<Longrightarrow> ov_generatedAt ov = mn_now env"
  by (cases "mn_host env") (auto simp add: collected_overview_def Let_def)

lemma not_younger: "js_ge (js_of_int (mn_now env - t)) d \<Longrightarrow> \<not> younger_than env t d"
  by (cases d) (auto simp add: younger_than_def js_of_int_def)

text \<open>
  The cache can go back in time. After a timed collection that found nothing worth storing, the first
  request that comes when the cache has expired is answered with the last stored snapshot, which is older
  than the overview in the cache, and the newer one is thrown away.
\<close>

theorem overview_goes_back:
  assumes "loadLatestOverview s = Some ov" and "ov_generatedAt ov < mn_now env1" and "\<not> ms_collecting s"
    and "ms_cached s = None \<or> js_ge (js_of_int (mn_now env1 - ms_collectedAt s)) (min_interval env1)"
    and "collected_overview env1 = Inr new" and "\<not> shouldPersistSnapshot env1 new s"
    and "js_ge (js_of_int (mn_now env2 - mn_now env1)) (min_interval env2)"
    and "js_ge (js_of_int (mn_now env2 - mn_now env1)) (cache_time env2 False)"
  shows "\<exists>s1 s2. scheduledCollection env1 s = (Inr new, s1) \<and> ms_cached s1 = Some new \<and>
    getOverview env2 False s1 = (Inr ov, s2) \<and> ms_cached s2 = Some ov \<and> ov_generatedAt ov < ov_generatedAt new"
proof -
  let ?s = "s\<lparr>ms_collecting := True\<rparr>"
  let ?s1 = "collect_finish env1 new (collect_measured env1 ?s)"
  have start: "collect_start env1 False s = (Collect, ?s)"
    using assms(3,4) not_younger by (auto simp add: collect_start_def split: option.split)
  have "\<not> shouldPersistSnapshot env1 new (collect_measured env1 ?s)"
    using assms(6) by (simp add: shouldPersistSnapshot_def collect_measured_def split: option.splits)
  then have run: "scheduledCollection env1 s = (Inr new, ?s1)"
    using assms(5) start by (simp add: scheduledCollection_def collectAndStoreOverview_def run_collection_def Let_def)
  have s1: "ms_cached ?s1 = Some new" "ms_cachedAt ?s1 = mn_now env1" "ms_collectedAt ?s1 = mn_now env1" "loadLatestOverview ?s1 = Some ov"
    using assms(1) by (simp_all add: collect_finish_def rememberOverview_def collect_measured_def loadLatestOverview_def)
  have "cached_answer env2 False ?s1 = None"
    using s1 not_younger [OF assms(7)] not_younger [OF assms(8)] by (simp add: cached_answer_def)
  then have "getOverview env2 False ?s1 = (Inr ov, rememberOverview env2 ov ?s1)"
    using s1(4) by (simp add: getOverview_def after_load_def)
  then show ?thesis using run s1(1) assms(2) collected_generatedAt [OF assms(5)]
    by (intro exI [of _ ?s1] exI [of _ "rememberOverview env2 ov ?s1"]) (simp add: rememberOverview_def)
qed

definition demo_started :: mon_state where
  "demo_started = snd (scheduledCollection (demo_probe 1000000) (empty_state []))"

lemma demo_unchanged: "\<not> hasOperationalStateChanged (demo_overview a) (demo_overview b)"
proof -
  let ?ov = "\<lambda>t. demo_overview t"
  have fields: "ov_alerts (?ov t) = buildAlerts (demo_probe t) (collect_system demo_host) (collect_wallet (demo_probe t))
        (collectServiceHealth (demo_probe t)) (collect_chain (demo_probe t))"
      "ov_status (?ov t) = deriveStatus (ov_alerts (?ov t))" "ov_wallet (?ov t) = collect_wallet (demo_probe t)"
      "ov_services (?ov t) = collectServiceHealth (demo_probe t)" "ov_chain (?ov t) = collect_chain (demo_probe t)" for t
    by (simp_all add: demo_overview_def collected_overview_def demo_probe_def Let_def)
  have cfg: "mn_cfg (demo_probe a) = mn_cfg (demo_probe b)" by (simp add: demo_probe_def)
  have wallet: "collect_wallet (demo_probe a) = collect_wallet (demo_probe b)"
    by (simp add: collect_wallet_def walletConfigured_def coalesce_def demo_probe_def)
  have chain: "collect_chain (demo_probe a) = collect_chain (demo_probe b)"
    by (simp add: collect_chain_def resolveNodeEndpoints_def normalizeHttpUrl_def sort_by_def coalesce_def demo_probe_def)
  have host: "system_alerts (demo_probe a) x = system_alerts (demo_probe b) x" "wallet_alerts (demo_probe a) w = wallet_alerts (demo_probe b) w" for x w
    unfolding system_alerts_def cpu_limit_def memory_limit_def disk_limit_def load_limit_def
      wallet_alerts_def concurrent_limit_def cfg by (rule refl)+
  have services: "map service_down_alert (filter (\<lambda>s. sh_status s = Critical) (collectServiceHealth (demo_probe a))) =
        map service_down_alert (filter (\<lambda>s. sh_status s = Critical) (collectServiceHealth (demo_probe b)))"
      "filter (slow_service (demo_probe t)) (collectServiceHealth (demo_probe t)) = []"
      "serializeServices (collectServiceHealth (demo_probe a)) = serializeServices (collectServiceHealth (demo_probe b))" for t
    by (simp_all add: collectServiceHealth_eq monitored_services_def service_health_of_def service_down_alert_def
        slow_service_def serializeServices_def filter_map comp_def demo_probe_def)
  have "ov_alerts (?ov a) = ov_alerts (?ov b)"
    unfolding fields(1) buildAlerts_def services(2) by (simp only: wallet chain host services(1) list.map)
  then show ?thesis by (simp add: hasOperationalStateChanged_def fields(2-5) wallet chain services(3))
qed

lemma demo_started_eq:
  "demo_started = \<lparr>ms_cached = Some (demo_overview 1000000), ms_cachedAt = 1000000, ms_collectedAt = 1000000, ms_persistedAt = 1000000,
     ms_collecting = False,
     ms_snapshots = [\<lparr>sn_category = ''overview'', sn_payload = demo_overview 1000000, sn_createdAt = 1000000\<rparr>]\<rparr>"
  using demo_collected [of 1000000]
  by (simp add: demo_started_def scheduledCollection_def collectAndStoreOverview_def collect_start_def empty_state_def
      run_collection_def shouldPersistSnapshot_def collect_measured_def save_snapshot_def collect_finish_def
      rememberOverview_def Let_def) (simp add: demo_probe_def)

theorem overview_goes_back_witness:
  "\<exists>s1 s2. scheduledCollection (demo_probe 1030000) demo_started = (Inr (demo_overview 1030000), s1) \<and>
     getOverview (demo_probe 1060000) False s1 = (Inr (demo_overview 1000000), s2)"
proof -
  have cfg: "readNumberConfig (mn_cfg (demo_probe t)) k fb mn mx = js_min (js_max (JsNum fb) mn) mx" if "hd k = CHR ''M''" "k \<noteq> ''MONITORED_SERVICE_ENDPOINTS''" for k fb mn mx t
    using that by (simp add: readNumberConfig_def demo_probe_def js_isFinite_def)
  have "\<not> shouldPersistSnapshot (demo_probe 1030000) (demo_overview 1030000) demo_started"
    using demo_unchanged by (simp add: shouldPersistSnapshot_def demo_started_eq cfg js_min_def js_max_def js_of_int_def)
      (simp add: demo_probe_def)
  then show ?thesis
    using overview_goes_back [of demo_started "demo_overview 1000000" "demo_probe 1030000" "demo_overview 1030000" "demo_probe 1060000"]
      demo_collected [of 1030000] collected_generatedAt [OF demo_collected]
    by (auto simp add: demo_started_eq loadLatestOverview_def min_interval_def cache_time_def cfg js_min_def js_max_def js_of_int_def)
      (auto simp add: demo_probe_def)
qed

section \<open>Timers and series\<close>

text \<open>The timer of thirty seconds and the interval of thirty seconds: a tick soon after a measurement does nothing.\<close>

lemma tick_skipped:
  assumes "ms_cached s = Some c" and "mn_cfg env ''MONITORING_COLLECTION_MIN_INTERVAL_MS'' = None"
    and "mn_now env - ms_collectedAt s < 30000"
  shows "scheduledCollection env s = (Inr c, s)"
  using assms
  by (simp add: scheduledCollection_def collectAndStoreOverview_def collect_start_def min_interval_def readNumberConfig_def
      younger_than_def js_isFinite_def js_min_def js_max_def js_of_int_def)

lemma length_safe_metrics: "length (safe_metrics metrics) \<le> 8"
  by (simp add: safe_metrics_def)

lemma distinct_safe_metrics: "distinct (safe_metrics metrics)"
  by (simp add: safe_metrics_def)

text \<open>
  C37. A request for series is bounded: whatever is asked, at most eight different series are drawn, over
  at least a quarter of an hour and at most a day, each with one point for every snapshot of that time in
  the order of their creation; without snapshots there is the one point of the current overview. Minutes
  that are not a number are an error.
\<close>

theorem trends_bounded:
  assumes "safe_metrics metrics \<noteq> []"
  shows "(minutes = JsNaN \<longrightarrow> getTrends env metrics minutes s = (Inl ''invalid date'', s)) \<and>
    (\<forall>m table s'. getTrends env metrics minutes s = (Inr (m, table), s') \<longrightarrow>
       (\<exists>n. m = JsNum n \<and> 15 \<le> n \<and> n \<le> 1440 \<and> length table \<le> 8 \<and> distinct (map fst table) \<and>
         (\<forall>(k, sr) \<in> set table. k = sr_metric sr \<and> sr_minutes sr = m \<and> k \<in> js_trim ` set metrics \<and>
            (if recent_snapshots env n s = [] then length (sr_points sr) = 1
             else map fst (sr_points sr) = map sn_createdAt (recent_snapshots env n s) \<and> sorted (map fst (sr_points sr)) \<and> s' = s))))"
proof (cases "minutes = JsNaN")
  case True
  then show ?thesis using assms by (simp add: getTrends_def Let_def)
next
  case False
  then obtain n where n: "js_min (js_max minutes (JsNum 15)) (JsNum 1440) = JsNum n" "15 \<le> n" "n \<le> 1440"
    using js_clamp [of minutes 15 1440] by auto
  have trimmed: "k \<in> js_trim ` set metrics" if "k \<in> set (safe_metrics metrics)" for k
    using that by (auto simp add: safe_metrics_def dest: in_set_takeD)
  note safe = length_safe_metrics [of metrics] distinct_safe_metrics [of metrics]
  show ?thesis
  proof (cases "recent_snapshots env n s = []")
    case True
    with n assms show ?thesis using False safe trimmed
      by (auto simp add: getTrends_def Let_def bindH_eq_Inr returnH_def comp_def)
  next
    case some: False
    have "sorted (map sn_createdAt (recent_snapshots env n s))" by (simp add: recent_snapshots_def)
    with some n assms show ?thesis using False safe trimmed
      by (auto simp add: getTrends_def Let_def metric_point_def comp_def)
  qed
qed

theorem trends_bounded_witness:
  "\<exists>table. getTrends (demo_probe 1000500) ['' system.cpuPercent'', ''system.cpuPercent''] (JsNum 1) demo_started = (Inr (JsNum 15, table), demo_started) \<and>
     length table \<le> 8 \<and> distinct (map fst table)"
proof -
  let ?m = "['' system.cpuPercent'', ''system.cpuPercent'']"
  have "safe_metrics ?m \<noteq> []" by code_simp
  moreover have "recent_snapshots (demo_probe 1000500) 15 demo_started \<noteq> []"
    by (simp add: recent_snapshots_def demo_started_eq) (simp add: demo_probe_def)
  moreover from calculation have "\<exists>table. getTrends (demo_probe 1000500) ?m (JsNum 1) demo_started = (Inr (JsNum 15, table), demo_started)"
    by (simp add: getTrends_def Let_def js_min_def js_max_def)
  ultimately show ?thesis using trends_bounded [of ?m "JsNum 1" "demo_probe 1000500" demo_started] by blast
qed

end
