(* ===== verification/Monitor_Logs.thy ===== *)
theory Monitor_Logs
  imports Monitor_Probe
begin

text \<open>
  Two services of the monitoring back end that keep no state: the log sources
  (\<^verbatim>\<open>logs/logs.service.ts\<close>) and the view of the money-laundering service
  (\<^verbatim>\<open>monitoring/adapters/aml-observer.service.ts\<close>). The file system is the parameter \<open>file_system\<close>;
  a file is a list of ASCII characters. The text of a percent-encoded character above 255 is not
  representable and is read as malformed.
\<close>

section \<open>Log sources\<close>

datatype source_kind = KindWallet | KindChain | KindSystem

record log_source =
  ls_name :: string
  ls_kind :: source_kind
  ls_path :: string

definition HEALTH_SOURCE_PREFIX :: string where
  "HEALTH_SOURCE_PREFIX = ''health://''"

definition isHealthSource :: "string \<Rightarrow> bool" where
  "isHealthSource p = js_startsWith p HEALTH_SOURCE_PREFIX"

definition encodeHealthSourcePath :: "string \<Rightarrow> string" where
  "encodeHealthSourcePath url = HEALTH_SOURCE_PREFIX @ encodeURIComponent url"

definition hex_pair :: "char \<Rightarrow> char \<Rightarrow> nat option" where
  "hex_pair h l = (if digit_value h < 16 \<and> digit_value l < 16 then Some (16 * digit_value h + digit_value l) else None)"

fun decodeURIComponent :: "string \<Rightarrow> string option" where
  "decodeURIComponent [] = Some []"
| "decodeURIComponent (c # s) =
     (if c \<noteq> CHR ''%'' then map_option ((#) c) (decodeURIComponent s)
      else case s of
        h # l # r \<Rightarrow>
          (case hex_pair h l of
             None \<Rightarrow> None
           | Some b \<Rightarrow>
               if b < 128 then map_option ((#) (char_of b)) (decodeURIComponent r)
               else if b < 194 \<or> 195 < b then None
               else (case r of
                       p # h2 # l2 # r2 \<Rightarrow>
                         (case hex_pair h2 l2 of
                            None \<Rightarrow> None
                          | Some b2 \<Rightarrow>
                              if p \<noteq> CHR ''%'' \<or> b2 < 128 \<or> 191 < b2 then None
                              else map_option ((#) (char_of ((b - 192) * 64 + (b2 - 128)))) (decodeURIComponent r2))
                     | _ \<Rightarrow> None))
      | _ \<Rightarrow> None)"

definition decodeHealthSourcePath :: "string \<Rightarrow> string option" where
  "decodeHealthSourcePath p =
     (if \<not> isHealthSource p then None
      else let encoded = drop (length HEALTH_SOURCE_PREFIX) p
           in if encoded = [] then None else decodeURIComponent encoded)"

text \<open>A map filled in order, in which the first source of a name stays.\<close>

fun dedupe :: "log_source list \<Rightarrow> string list \<Rightarrow> log_source list" where
  "dedupe [] seen = []"
| "dedupe (s # ss) seen = (if ls_name s \<in> set seen then dedupe ss seen else s # dedupe ss (ls_name s # seen))"

definition getSources :: "(string \<Rightarrow> string option) \<Rightarrow> log_source list" where
  "getSources cfg =
     (let named = (\<lambda>kind k. map (\<lambda>e. \<lparr>ls_name = nv_name e, ls_kind = kind, ls_path = nv_value e\<rparr>) (parseNamedList (cfg k)));
          configured = named KindWallet ''WALLET_LOG_SOURCES'' @ named KindChain ''CHAIN_LOG_SOURCES'' @ named KindSystem ''SYSTEM_LOG_SOURCES'';
          services = map (\<lambda>e. \<lparr>ls_name = nv_name e, ls_kind = KindWallet, ls_path = encodeHealthSourcePath (nv_value e)\<rparr>)
            (parseNamedList (cfg ''MONITORED_SERVICE_ENDPOINTS''))
      in dedupe (configured @ services) [])"

section \<open>Paths\<close>

text \<open>The text after the first occurrence of a marker.\<close>

fun after_marker :: "string \<Rightarrow> string \<Rightarrow> string option" where
  "after_marker m [] = (if m = [] then Some [] else None)"
| "after_marker m (c # s) = (if js_startsWith (c # s) m then Some (drop (length m) (c # s)) else after_marker m s)"

text \<open>\<open>path.posix.join('/workspace', suffix)\<close>: dots are resolved; a slash at the end stays.\<close>

definition path_push :: "string list \<Rightarrow> string \<Rightarrow> string list" where
  "path_push stack seg =
     (if seg = [] \<or> seg = ''.'' then stack else if seg = ''..'' then butlast stack else stack @ [seg])"

definition join_workspace :: "string \<Rightarrow> string" where
  "join_workspace suffix =
     (let segs = foldl path_push [''workspace''] (js_split (CHR ''/'') suffix); body = ''/'' @ js_join ''/'' segs
      in if suffix \<noteq> [] \<and> last suffix = CHR ''/'' \<and> segs \<noteq> [] then body @ ''/'' else body)"

definition resolveReadablePath :: "bool \<Rightarrow> string \<Rightarrow> string" where
  "resolveReadablePath container rawPath =
     (if \<not> container then rawPath
      else if \<not> js_startsWith rawPath ''/'' then rawPath
      else case after_marker ''/dacn_datn/'' rawPath of Some suffix \<Rightarrow> join_workspace suffix | None \<Rightarrow> rawPath)"

definition basename :: "string \<Rightarrow> string" where
  "basename p = (case filter (\<lambda>s. s \<noteq> []) (js_split (CHR ''/'') p) of [] \<Rightarrow> [] | segs \<Rightarrow> last segs)"

record file_system =
  fs_exists :: "string \<Rightarrow> bool"
  fs_read :: "string \<Rightarrow> string + string"

definition listSources :: "probe_env \<Rightarrow> file_system \<Rightarrow> log_source list" where
  "listSources env fs =
     filter (\<lambda>s. isHealthSource (ls_path s) \<or> fs_exists fs (resolveReadablePath (mn_container env) (ls_path s))) (getSources (mn_cfg env))"

section \<open>The end of a log\<close>

text \<open>\<open>split(/\r?\n/)\<close>: a carriage return before a line feed belongs to the separator.\<close>

definition chomp_cr :: "string \<Rightarrow> string" where
  "chomp_cr w = (if w \<noteq> [] \<and> code_unit (last w) = 13 then butlast w else w)"

definition split_lines :: "string \<Rightarrow> string list" where
  "split_lines s = (let ws = js_split (char_of (10::nat)) s in map chomp_cr (butlast ws) @ [last ws])"

definition last_n :: "nat \<Rightarrow> 'a list \<Rightarrow> 'a list" where
  "last_n n xs = drop (length xs - n) xs"

record log_tail =
  lt_source :: string
  lt_kind :: source_kind
  lt_fileName :: string
  lt_lines :: "string list"

text \<open>\<open>Math.min(Math.max(Number(limit) || 120, 1), 300)\<close>, cut to a whole number by \<open>slice\<close>.\<close>

definition safe_limit :: "js_number \<Rightarrow> nat" where
  "safe_limit limit =
     (let l = (if limit = JsNaN \<or> limit = JsNum 0 then JsNum 120 else limit)
      in nat \<lfloor>num_of (js_min (js_max l (JsNum 1)) (JsNum 300))\<rfloor>)"

definition collapse_ws :: "string \<Rightarrow> string" where
  "collapse_ws s = js_trim (js_join '' '' (filter (\<lambda>w. w \<noteq> []) (js_split (CHR '' '') (map (\<lambda>c. if js_ws c then CHR '' '' else c) s))))"

definition monitoring_line :: "string \<Rightarrow> string" where
  "monitoring_line s = ''[monitoring] '' @ s"

definition tailHealthSource :: "probe_env \<Rightarrow> log_source \<Rightarrow> nat \<Rightarrow> log_tail" where
  "tailHealthSource env source limit =
     (let result = (\<lambda>lines. \<lparr>lt_source = ls_name source, lt_kind = ls_kind source, lt_fileName = ls_name source @ ''.health'', lt_lines = lines\<rparr>);
          now = toISOString (mn_now env)
      in case decodeHealthSourcePath (ls_path source) of
           None \<Rightarrow> result [monitoring_line ''Invalid health source definition.'']
         | Some endpoint \<Rightarrow>
             if endpoint = [] then result [monitoring_line ''Invalid health source definition.'']
             else (case mn_fetch env endpoint None of
                Inr r \<Rightarrow>
                  result (last_n limit
                    ([monitoring_line now, monitoring_line (''endpoint='' @ endpoint),
                      monitoring_line (''http_status='' @ int_digits (hr_status r)),
                      monitoring_line (''latency_ms='' @ int_digits (mn_latency env endpoint))] @
                     (if js_trim (hr_text r) \<noteq> [] then [monitoring_line (''payload='' @ collapse_ws (hr_text r))] else [])))
              | Inl m \<Rightarrow> result [monitoring_line now, monitoring_line (''endpoint='' @ endpoint), monitoring_line m]))"

definition log_tail_of :: "probe_env \<Rightarrow> file_system \<Rightarrow> string \<Rightarrow> js_number \<Rightarrow> string + log_tail" where
  "log_tail_of env fs sourceName limit =
     (case find (\<lambda>s. ls_name s = sourceName) (getSources (mn_cfg env)) of
        None \<Rightarrow> Inl ''Log source not found''
      | Some source \<Rightarrow>
          if isHealthSource (ls_path source) then Inr (tailHealthSource env source (safe_limit limit))
          else (let resolved = resolveReadablePath (mn_container env) (ls_path source);
                    result = (\<lambda>lines. \<lparr>lt_source = ls_name source, lt_kind = ls_kind source, lt_fileName = basename resolved, lt_lines = lines\<rparr>)
                in case fs_read fs resolved of
                     Inr content \<Rightarrow>
                       Inr (result (last_n (safe_limit limit) (filter (\<lambda>l. l \<noteq> []) (split_lines (last_n (256 * 1024) content)))))
                   | Inl m \<Rightarrow>
                       Inr (result [monitoring_line m, monitoring_line (''path='' @ ls_path source), monitoring_line (''resolved_path='' @ resolved)])))"

section \<open>Money laundering\<close>

record aml_account =
  aa_accountId :: string
  aa_riskLevel :: string
  aa_isMoneyLaundering :: bool
  aa_maxFraudProbability :: js_number
  aa_avgFraudProbability :: js_number
  aa_totalTransactions :: js_number
  aa_flaggedTransactions :: js_number
  aa_flagRatePct :: js_number
  aa_totalSent :: js_number
  aa_totalReceived :: js_number
  aa_isMuleAccount :: bool

record aml_transaction =
  at_transactionId :: string
  at_timestamp :: string
  at_inbound :: bool
  at_counterpartyAccount :: string
  at_amountPaid :: js_number
  at_amountReceived :: js_number
  at_paymentFormat :: string
  at_paymentCurrency :: string
  at_fraudProbability :: js_number
  at_riskLevel :: string
  at_isFlagged :: bool

record aml_overview =
  ao_configured :: bool
  ao_status :: string
  ao_generatedAt :: "string option"
  ao_lookbackHours :: js_number
  ao_totalTransactions :: js_number
  ao_flaggedTransactions :: js_number
  ao_flaggedAccounts :: js_number
  ao_scanDurationMs :: "js_number option"
  ao_error :: "string option"
  ao_accounts :: "aml_account list"

definition aml_toNumber :: "json option \<Rightarrow> js_number \<Rightarrow> js_number" where
  "aml_toNumber v fallback =
     (let parsed = (case v of None \<Rightarrow> JsNaN | Some x \<Rightarrow> json_Number x) in if js_isFinite parsed then parsed else fallback)"

definition toNullableString :: "json option \<Rightarrow> string option" where
  "toNullableString v = (case v of Some (JString s) \<Rightarrow> or_null (js_trim s) | _ \<Rightarrow> None)"

text \<open>\<open>`${x ?? ''}`\<close>.\<close>

definition text_of :: "json option \<Rightarrow> string" where
  "text_of v = (case v of None \<Rightarrow> [] | Some x \<Rightarrow> if x = JNull then [] else js_string x)"

definition normalizeStatus :: "json option \<Rightarrow> string" where
  "normalizeStatus v =
     (let s = js_lower (js_trim (text_of v)) in if s \<in> {''ok'', ''error'', ''busy'', ''not_started''} then s else ''error'')"

definition normalizeAccount :: "json \<Rightarrow> aml_account" where
  "normalizeAccount item =
     (let p = (\<lambda>k. json_prop k item); num = (\<lambda>k. aml_toNumber (json_prop k item) (JsNum 0));
          level = js_upper (js_trim (text_of (p ''riskLevel'')))
      in \<lparr>aa_accountId = js_trim (text_of (p ''accountId'')),
          aa_riskLevel = (if level \<in> {''LOW'', ''MEDIUM'', ''HIGH'', ''CRITICAL''} then level else ''LOW''),
          aa_isMoneyLaundering = (p ''isMoneyLaundering'' = Some (JBool True)),
          aa_maxFraudProbability = num ''maxFraudProbability'', aa_avgFraudProbability = num ''avgFraudProbability'',
          aa_totalTransactions = num ''totalTransactions'', aa_flaggedTransactions = num ''flaggedTransactions'',
          aa_flagRatePct = num ''flagRatePct'', aa_totalSent = num ''totalSent'', aa_totalReceived = num ''totalReceived'',
          aa_isMuleAccount = (p ''isMuleAccount'' = Some (JBool True))\<rparr>)"

definition normalizeTransaction :: "json \<Rightarrow> aml_transaction" where
  "normalizeTransaction item =
     (let t = (\<lambda>k. js_trim (text_of (json_prop k item))); num = (\<lambda>k. aml_toNumber (json_prop k item) (JsNum 0))
      in \<lparr>at_transactionId = t ''transactionId'', at_timestamp = t ''timestamp'', at_inbound = (js_lower (t ''direction'') = ''inbound''),
          at_counterpartyAccount = t ''counterpartyAccount'', at_amountPaid = num ''amountPaid'', at_amountReceived = num ''amountReceived'',
          at_paymentFormat = t ''paymentFormat'', at_paymentCurrency = ''VND'', at_fraudProbability = num ''fraudProbability'',
          at_riskLevel = t ''riskLevel'', at_isFlagged = (json_prop ''isFlagged'' item = Some (JBool True))\<rparr>)"

definition aml_base :: "probe_env \<Rightarrow> string" where
  "aml_base env = rev (dropWhile (\<lambda>c. c = CHR ''/'') (rev (js_trim (coalesce (mn_cfg env ''AML_SERVICE_BASE_URL'') []))))"

definition requestJson :: "probe_env \<Rightarrow> string \<Rightarrow> string option \<Rightarrow> string + json" where
  "requestJson env path body =
     (case mn_fetch env (aml_base env @ path) body of
        Inl m \<Rightarrow> Inl m
      | Inr r \<Rightarrow>
          if \<not> response_ok r then Inl (''AML service HTTP '' @ int_digits (hr_status r))
          else (case hr_json r of
                  None \<Rightarrow> Inl (mn_badJson env)
                | Some v \<Rightarrow> if v = JNull then Inl (mn_typeError env) else Inr v))"

definition unconfiguredOverview :: aml_overview where
  "unconfiguredOverview =
     \<lparr>ao_configured = False, ao_status = ''not_started'', ao_generatedAt = None, ao_lookbackHours = JsNum 24,
      ao_totalTransactions = JsNum 0, ao_flaggedTransactions = JsNum 0, ao_flaggedAccounts = JsNum 0, ao_scanDurationMs = None,
      ao_error = Some ''AML service is not configured.'', ao_accounts = []\<rparr>"

definition items_of :: "string \<Rightarrow> json \<Rightarrow> json list" where
  "items_of k v = (case json_prop k v of Some (JArray vs) \<Rightarrow> vs | _ \<Rightarrow> [])"

definition aml_overview_of :: "json \<Rightarrow> js_number \<Rightarrow> aml_account list \<Rightarrow> aml_overview" where
  "aml_overview_of payload flagged accounts =
     (let p = (\<lambda>k. json_prop k payload); num = (\<lambda>k d. aml_toNumber (json_prop k payload) d)
      in \<lparr>ao_configured = True, ao_status = normalizeStatus (p ''status''), ao_generatedAt = toNullableString (p ''generatedAt''),
          ao_lookbackHours = num ''lookbackHours'' (JsNum 24), ao_totalTransactions = num ''totalTransactions'' (JsNum 0),
          ao_flaggedTransactions = num ''flaggedTransactions'' (JsNum 0), ao_flaggedAccounts = num ''flaggedAccounts'' flagged,
          ao_scanDurationMs = (if p ''scanDurationMs'' \<in> {None, Some JNull} then None else Some (num ''scanDurationMs'' (JsNum 0))),
          ao_error = toNullableString (p ''error''), ao_accounts = accounts\<rparr>)"

definition aml_getOverview :: "probe_env \<Rightarrow> js_number \<Rightarrow> aml_overview" where
  "aml_getOverview env limit =
     (if aml_base env = [] then unconfiguredOverview
      else case bindE (requestJson env ''/aml/status'' None) (\<lambda>status.
                bindE (requestJson env (''/aml/accounts?limit='' @ number_text (js_max (JsNum 1) (js_min limit (JsNum 500))) @ ''&offset=0'') None) (\<lambda>accounts.
                Inr (status, map normalizeAccount (items_of ''items'' accounts)))) of
           Inr (status, items) \<Rightarrow> aml_overview_of status (js_of_int (int (length items))) items
         | Inl m \<Rightarrow> unconfiguredOverview\<lparr>ao_configured := True, ao_status := ''error'', ao_error := Some m\<rparr>)"

record account_transactions =
  at_generatedAt :: "string option"
  at_accountId :: string
  at_total :: js_number
  at_items :: "aml_transaction list"

definition getAccountTransactions :: "probe_env \<Rightarrow> string \<Rightarrow> js_number \<Rightarrow> string + account_transactions" where
  "getAccountTransactions env accountId limit =
     (if aml_base env = [] then Inr \<lparr>at_generatedAt = None, at_accountId = accountId, at_total = JsNum 0, at_items = []\<rparr>
      else bindE (requestJson env (''/aml/accounts/'' @ encodeURIComponent accountId @ ''/transactions?limit='' @
             number_text (js_max (JsNum 1) (js_min limit (JsNum 1000)))) None) (\<lambda>payload.
           let items = map normalizeTransaction (items_of ''items'' payload)
           in Inr \<lparr>at_generatedAt = toNullableString (json_prop ''generatedAt'' payload), at_accountId = accountId,
                   at_total = aml_toNumber (json_prop ''total'' payload) (js_of_int (int (length items))), at_items = items\<rparr>))"

definition triggerScan :: "probe_env \<Rightarrow> js_number \<Rightarrow> string + aml_overview" where
  "triggerScan env lookbackHours =
     (if aml_base env = [] then Inr unconfiguredOverview
      else let body = (if lookbackHours \<noteq> JsNum 0 \<and> js_isFinite lookbackHours
                       then [(''lookbackHours'', JNumber (js_max (JsNum 1) (js_min lookbackHours (JsNum 720))))] else [])
           in bindE (requestJson env ''/aml/scan'' (Some (json_text (JObject body)))) (\<lambda>payload.
              Inr (aml_overview_of payload (JsNum 0) (map normalizeAccount (items_of ''accounts'' payload)))))"

section \<open>Health sources can be encoded and decoded\<close>

lemma digit_upper_hex: "n < 16 \<Longrightarrow> digit_value (upper_hex n) = n"
  by (auto simp add: digit_value_def upper_hex_def code_unit_def Let_def)

lemma hex_pair_percent [simp]: "b < 256 \<Longrightarrow> hex_pair (upper_hex (b div 16)) (upper_hex (b mod 16)) = Some b"
  by (simp add: hex_pair_def digit_upper_hex less_mult_imp_div_less)

lemma decode_percent:
  assumes "n < 256"
  shows "decodeURIComponent (concat (map percent (utf8 n)) @ s) = map_option ((#) (char_of n)) (decodeURIComponent s)"
proof (cases "n < 128")
  case False
  then have "194 \<le> 192 + n div 64" "192 + n div 64 \<le> 195" using assms by auto
  moreover have "(192 + n div 64 - 192) * 64 + (128 + n mod 64 - 128) = n" by simp
  moreover have "\<not> 63 < n mod 64" using mod_less_divisor [of 64 n] by linarith
  ultimately show ?thesis using False assms by (simp add: utf8_def percent_def)
qed (simp add: utf8_def percent_def)

lemma decode_encode: "decodeURIComponent (encodeURIComponent s) = Some s"
proof (induction s)
  case (Cons c s)
  have n: "code_unit c < 256" by (simp add: code_unit_def)
  have "c \<noteq> CHR ''%''" if "alnum c \<or> c \<in> set ''-_.!~*'' \<or> code_unit c \<in> {39, 40, 41}"
    using that by (auto simp add: alnum_def code_unit_def Let_def)
  moreover have "char_of (code_unit c) = c" by (simp add: code_unit_def)
  ultimately show ?case using Cons decode_percent [OF n] by (auto simp add: encodeURIComponent_def)
qed (simp add: encodeURIComponent_def)

text \<open>
  The endpoint of a monitored service survives its coding as the path of a log source, whatever
  characters it holds.
\<close>

theorem health_source_round_trip:
  assumes "url \<noteq> []"
  shows "isHealthSource (encodeHealthSourcePath url) \<and> decodeHealthSourcePath (encodeHealthSourcePath url) = Some url"
proof -
  have "encodeURIComponent url \<noteq> []"
  proof
    assume "encodeURIComponent url = []"
    then have "decodeURIComponent (encodeURIComponent url) = Some []" by simp
    with assms show False by (simp add: decode_encode)
  qed
  then show ?thesis
    by (simp add: decodeHealthSourcePath_def encodeHealthSourcePath_def isHealthSource_def js_startsWith_def
        HEALTH_SOURCE_PREFIX_def decode_encode)
qed

theorem health_source_round_trip_witness:
  "decodeHealthSourcePath (encodeHealthSourcePath ''http://a/b?c=1%20;'') = Some ''http://a/b?c=1%20;''"
  using health_source_round_trip [of "''http://a/b?c=1%20;''"] by simp

section \<open>What a tail shows\<close>

lemma dedupe_names: "distinct (map ls_name (dedupe ss seen)) \<and> set (map ls_name (dedupe ss seen)) \<inter> set seen = {}"
  by (induction ss seen rule: dedupe.induct) auto

lemma length_last_n: "length (last_n n xs) \<le> n"
  by (simp add: last_n_def)

lemma safe_limit_le: "1 \<le> safe_limit limit \<and> safe_limit limit \<le> 300"
proof -
  let ?l = "if limit = JsNaN \<or> limit = JsNum 0 then JsNum 120 else limit"
  obtain r where r: "js_min (js_max ?l (JsNum 1)) (JsNum 300) = JsNum r" "1 \<le> r" "r \<le> 300"
    using js_clamp [of ?l 1 300] by (cases "limit = JsNaN \<or> limit = JsNum 0") auto
  then have "1 \<le> \<lfloor>r\<rfloor>" "\<lfloor>r\<rfloor> \<le> 300" by linarith+
  then have "1 \<le> nat \<lfloor>r\<rfloor> \<and> nat \<lfloor>r\<rfloor> \<le> 300" by linarith
  moreover have "safe_limit limit = nat \<lfloor>r\<rfloor>" using r(1) by (simp only: safe_limit_def Let_def num_of_def js_number.case)
  ultimately show ?thesis by simp
qed

lemma tailHealthSource_bounded:
  "length (lt_lines (tailHealthSource env source n)) \<le> max n 3 \<and> lt_source (tailHealthSource env source n) = ls_name source"
  by (auto simp add: tailHealthSource_def Let_def last_n_def split: option.split sum.split)

text \<open>
  The end of a log is shown only for a configured source, whose name is unique, and never with more
  than 300 lines, whatever limit is asked for.
\<close>

theorem tail_bounded:
  assumes "log_tail_of env fs name limit = Inr r"
  shows "length (lt_lines r) \<le> 300 \<and> lt_source r = name \<and> (\<exists>!s. s \<in> set (getSources (mn_cfg env)) \<and> ls_name s = name)"
proof -
  obtain s where s: "find (\<lambda>s. ls_name s = name) (getSources (mn_cfg env)) = Some s"
    using assms by (cases "find (\<lambda>s. ls_name s = name) (getSources (mn_cfg env))") (auto simp add: log_tail_of_def)
  then have mem: "s \<in> set (getSources (mn_cfg env))" "ls_name s = name" by (auto simp add: find_Some_iff)
  have "distinct (map ls_name (getSources (mn_cfg env)))" using dedupe_names by (simp add: getSources_def Let_def)
  then have "\<exists>!s. s \<in> set (getSources (mn_cfg env)) \<and> ls_name s = name" using mem row_unique by metis
  moreover have "length (lt_lines r) \<le> 300 \<and> lt_source r = name"
    using assms s mem(2) safe_limit_le [of limit] tailHealthSource_bounded [of env s "safe_limit limit"]
      le_trans [OF length_last_n, of "safe_limit limit" 300]
    by (auto simp add: log_tail_of_def Let_def split: if_splits sum.splits)
  ultimately show ?thesis by simp
qed

definition demo_logs_env :: probe_env where
  "demo_logs_env = \<lparr>mn_cfg = (\<lambda>k. if k = ''WALLET_LOG_SOURCES'' then Some ''api=/var/log/api.log'' else None), mn_now = 0,
     mn_fetch = (\<lambda>_ _. Inl ''refused''), mn_latency = (\<lambda>_. 0), mn_badJson = ''json'', mn_typeError = ''type'',
     mn_parseUrl = (\<lambda>_. None), mn_container = False, mn_localeLe = (\<lambda>a b. a \<le> b), mn_walletDb = Inl ''down'', mn_host = Inl ''none''\<rparr>"

theorem tail_bounded_witness:
  "\<exists>r. log_tail_of demo_logs_env \<lparr>fs_exists = \<lambda>_. True, fs_read = \<lambda>_. Inl ''denied''\<rparr> ''api'' JsNaN = Inr r \<and> length (lt_lines r) \<le> 300"
proof -
  have "\<not> isl (log_tail_of demo_logs_env \<lparr>fs_exists = \<lambda>_. True, fs_read = \<lambda>_. Inl ''denied''\<rparr> ''api'' JsNaN)" by code_simp
  then show ?thesis using tail_bounded [of demo_logs_env "\<lparr>fs_exists = \<lambda>_. True, fs_read = \<lambda>_. Inl ''denied''\<rparr>" "''api''" JsNaN]
    by (metis isl_def sum.exhaust)
qed

end
