(* ===== verification/Monitor_Api.thy ===== *)
theory Monitor_Api
  imports Monitor_Admin Monitoring Monitor_Logs
begin

text \<open>
  The routes of the monitoring back end (its controllers, \<^verbatim>\<open>app.module.ts\<close> and
  \<^verbatim>\<open>main.ts\<close>): \<open>mon_serve\<close> answers a request of the data type \<open>mon_route\<close> on the accounts and the
  state of the monitoring service. The framework runs the guard of access tokens, the guard of
  permissions, then the interceptor of the audit log around the checks of the body and the handler.
  A query parameter that is missing is None.
\<close>

section \<open>Routes\<close>

datatype mon_route =
    Healthz
  | Login login_dto
  | Me
  | ListUsers
  | ListRoles
  | ListPermissions
  | CreateUser create_admin_dto
  | UpdateUser string update_admin_dto
  | AuditLogs "string option"
  | Overview "string option"
  | Timeseries "string option" "string option"
  | Trends "string option" "string option"
  | Services
  | Chain
  | Alerts
  | Aml "string option"
  | AmlAccount string "string option"
  | AmlScan "string option"
  | LogSources
  | LogTail string "string option"
  | MobileOverview
  | MobileAlerts
  | MobileChain

fun route_public :: "mon_route \<Rightarrow> bool" where
  "route_public Healthz = True"
| "route_public (Login _) = True"
| "route_public _ = False"

fun route_permissions :: "mon_route \<Rightarrow> string list" where
  "route_permissions Healthz = []"
| "route_permissions (Login _) = []"
| "route_permissions Me = []"
| "route_permissions ListUsers = [ADMIN_USERS_MANAGE]"
| "route_permissions ListRoles = [ADMIN_USERS_MANAGE]"
| "route_permissions ListPermissions = [ADMIN_USERS_MANAGE]"
| "route_permissions (CreateUser _) = [ADMIN_USERS_MANAGE]"
| "route_permissions (UpdateUser _ _) = [ADMIN_USERS_MANAGE]"
| "route_permissions (AuditLogs _) = [AUDIT_VIEW]"
| "route_permissions (Overview _) = [DASHBOARD_VIEW]"
| "route_permissions (Timeseries _ _) = [METRICS_VIEW]"
| "route_permissions (Trends _ _) = [METRICS_VIEW]"
| "route_permissions Services = [METRICS_VIEW]"
| "route_permissions Chain = [CHAIN_VIEW]"
| "route_permissions Alerts = [DASHBOARD_VIEW]"
| "route_permissions (Aml _) = [METRICS_VIEW]"
| "route_permissions (AmlAccount _ _) = [METRICS_VIEW]"
| "route_permissions (AmlScan _) = [METRICS_VIEW]"
| "route_permissions LogSources = [LOGS_VIEW]"
| "route_permissions (LogTail _ _) = [LOGS_VIEW]"
| "route_permissions MobileOverview = [MOBILE_VIEW]"
| "route_permissions MobileAlerts = [MOBILE_VIEW]"
| "route_permissions MobileChain = [MOBILE_VIEW]"

datatype mon_answer =
    AnsHealth string
  | AnsLogin login_result
  | AnsUser "authenticated_user option"
  | AnsUsers "public_user list"
  | AnsRoles "admin_role list"
  | AnsTexts "string list"
  | AnsCreated create_admin_result
  | AnsUpdated public_user
  | AnsLogs "audit_log list"
  | AnsOverview overview
  | AnsSeries series
  | AnsTrends "js_number \<times> (string \<times> series) list"
  | AnsServices "nat \<times> nat \<times> service_health list"
  | AnsChain chain_info
  | AnsAlerts "alert list"
  | AnsAml aml_overview
  | AnsAmlAccount account_transactions
  | AnsSources "log_source list"
  | AnsTail log_tail

section \<open>Checks of request bodies\<close>

definition login_dto_ok :: "mon_env \<Rightarrow> login_dto \<Rightarrow> bool" where
  "login_dto_ok env d \<longleftrightarrow> mo_isEmail env (ld_email d) \<and> 8 \<le> length (ld_password d)"

definition create_dto_ok :: "mon_env \<Rightarrow> create_admin_dto \<Rightarrow> bool" where
  "create_dto_ok env d \<longleftrightarrow> mo_isEmail env (cd_email d) \<and> 8 \<le> length (cd_password d) \<and> mo_isUuid env (cd_roleId d) \<and>
     distinct (coalesce (cd_extraPermissions d) [])"

definition update_dto_ok :: "mon_env \<Rightarrow> update_admin_dto \<Rightarrow> bool" where
  "update_dto_ok env d \<longleftrightarrow>
     (case ud_email d of None \<Rightarrow> True | Some s \<Rightarrow> mo_isEmail env s) \<and>
     (case ud_password d of None \<Rightarrow> True | Some s \<Rightarrow> 8 \<le> length s) \<and>
     (case ud_roleId d of None \<Rightarrow> True | Some s \<Rightarrow> mo_isUuid env s) \<and>
     distinct (coalesce (ud_extraPermissions d) [])"

section \<open>Handlers\<close>

record mon_world =
  mw_admin :: admin_db
  mw_state :: mon_state

type_synonym 'a world_handler = "(mon_world, mon_error, 'a) handler"

definition on_admin :: "('a \<Rightarrow> mon_answer) \<Rightarrow> 'a mon_handler \<Rightarrow> mon_answer world_handler" where
  "on_admin f h w = (case h (mw_admin w) of (r, d) \<Rightarrow> (map_sum id f r, w\<lparr>mw_admin := d\<rparr>))"

definition on_state :: "('a \<Rightarrow> mon_answer) \<Rightarrow> (mon_state, string, 'a) handler \<Rightarrow> mon_answer world_handler" where
  "on_state f h w = (case h (mw_state w) of (r, s) \<Rightarrow> (map_sum MonError f r, w\<lparr>mw_state := s\<rparr>))"

text \<open>\<open>Number(x ?? d)\<close>.\<close>

definition query_number :: "string option \<Rightarrow> int \<Rightarrow> js_number" where
  "query_number x d = (case x of None \<Rightarrow> js_of_int d | Some s \<Rightarrow> js_Number s)"

definition checked :: "bool \<Rightarrow> mon_answer world_handler \<Rightarrow> mon_answer world_handler" where
  "checked ok h = (if ok then h else throwH (MonBadRequest ''Bad Request''))"

definition anonymous :: authenticated_user where
  "anonymous = \<lparr>mv_id = [], mv_email = [], mv_displayName = [], mv_title = [], mv_locale = [], mv_roleCode = [], mv_permissions = []\<rparr>"

text \<open>The last argument is the user of the request, which the guards have put there.\<close>

definition run_route ::
    "mon_env \<Rightarrow> probe_env \<Rightarrow> file_system \<Rightarrow> mon_route \<Rightarrow> authenticated_user option \<Rightarrow> mon_answer world_handler" where
  "run_route env pe fs route user =
     (case route of
        Healthz \<Rightarrow> returnH (AnsHealth (toISOString (mn_now pe)))
      | Login dto \<Rightarrow> checked (login_dto_ok env dto) (on_admin AnsLogin (login env dto))
      | Me \<Rightarrow> returnH (AnsUser user)
      | ListUsers \<Rightarrow> on_admin AnsUsers listUsers
      | ListRoles \<Rightarrow> on_admin AnsRoles (listRoles env)
      | ListPermissions \<Rightarrow> on_admin AnsTexts listPermissions
      | CreateUser dto \<Rightarrow> checked (create_dto_ok env dto) (on_admin AnsCreated (createUser env dto (coalesce user anonymous)))
      | UpdateUser i dto \<Rightarrow> checked (update_dto_ok env dto) (on_admin AnsUpdated (updateUser env i dto))
      | AuditLogs limit \<Rightarrow> on_admin AnsLogs (listLogs (query_number limit 50))
      | Overview refresh \<Rightarrow> on_state AnsOverview (getOverview pe (refresh = Some ''true''))
      | Timeseries metric minutes \<Rightarrow>
          on_state AnsSeries (getTimeseries pe (coalesce metric ''system.cpuPercent'') (query_number minutes 180))
      | Trends metrics minutes \<Rightarrow>
          on_state AnsTrends (getTrends pe (js_split (CHR '','') (coalesce metrics ''system.cpuPercent'')) (query_number minutes 180))
      | Services \<Rightarrow> on_state AnsServices (getServices pe)
      | Chain \<Rightarrow> on_state AnsChain (getChainOverview pe)
      | Alerts \<Rightarrow> on_state AnsAlerts (getAlerts pe)
      | Aml limit \<Rightarrow> returnH (AnsAml (aml_getOverview pe (query_number limit 100)))
      | AmlAccount accountId limit \<Rightarrow>
          liftE (map_sum MonError AnsAmlAccount (getAccountTransactions pe accountId (query_number limit 200)))
      | AmlScan hours \<Rightarrow> liftE (map_sum MonError AnsAml (triggerScan pe (query_number hours 0)))
      | LogSources \<Rightarrow> returnH (AnsSources (listSources pe fs))
      | LogTail source limit \<Rightarrow> liftE (map_sum MonNotFound AnsTail (log_tail_of pe fs source (query_number limit 120)))
      | MobileOverview \<Rightarrow> on_state AnsOverview (getOverview pe False)
      | MobileAlerts \<Rightarrow> on_state AnsAlerts (getAlerts pe)
      | MobileChain \<Rightarrow> on_state AnsChain (getChainOverview pe))"

text \<open>\<open>AuditLogInterceptor\<close> around a handler.\<close>

definition intercepted :: "mon_env \<Rightarrow> mon_request \<Rightarrow> authenticated_user option \<Rightarrow> 'a world_handler \<Rightarrow> 'a world_handler" where
  "intercepted env rq user h w =
     (case h w of
        (Inr x, w') \<Rightarrow> (Inr x, w'\<lparr>mw_admin := log_result env rq user None (mw_admin w')\<rparr>)
      | (Inl e, w') \<Rightarrow> (Inl e, w'\<lparr>mw_admin := log_result env rq user (Some e) (mw_admin w')\<rparr>))"

definition mon_guarded :: "mon_env \<Rightarrow> mon_request \<Rightarrow> mon_route \<Rightarrow> admin_db \<Rightarrow> mon_error + authenticated_user option" where
  "mon_guarded env rq route d =
     bindE (fst (jwt_guard env (route_public route) rq d)) (\<lambda>user.
     bindE (permissions_guard (route_permissions route) user) (\<lambda>_. Inr user))"

definition mon_serve ::
    "mon_env \<Rightarrow> probe_env \<Rightarrow> file_system \<Rightarrow> mon_request \<Rightarrow> mon_route \<Rightarrow> mon_answer world_handler" where
  "mon_serve env pe fs rq route w =
     (case mon_guarded env rq route (mw_admin w) of
        Inl e \<Rightarrow> (Inl e, w)
      | Inr user \<Rightarrow> intercepted env rq user (run_route env pe fs route user) w)"

section \<open>Permissions\<close>

text \<open>
  What authorises a request: a bearer token that verifies under the secret and names an active account
  whose role and extra permissions hold all that is required.
\<close>

definition holds_permissions :: "admin_db \<Rightarrow> admin_user \<Rightarrow> string list \<Rightarrow> bool" where
  "holds_permissions d u required \<longleftrightarrow>
     (\<forall>p\<in>set required. p \<in> set (case role_of d u of None \<Rightarrow> [] | Some r \<Rightarrow> ro_permissions r) \<or> p \<in> set (mu_extraPermissions u))"

definition authorised :: "mon_env \<Rightarrow> mon_request \<Rightarrow> string list \<Rightarrow> admin_db \<Rightarrow> bool" where
  "authorised env rq required d \<longleftrightarrow>
     (\<exists>h token rest secret payload u. rq_authorization rq = BearerText h \<and> js_split (CHR '' '') h = ''Bearer'' # token # rest \<and>
        jwtSecret env = Inr secret \<and> mo_jwtVerify env secret token = Some payload \<and>
        u \<in> set (mb_users d) \<and> (\<forall>i. tk_sub payload = Some i \<longrightarrow> mu_id u = i) \<and> mu_isActive u \<and> holds_permissions d u required)"

lemma validateAccessToken_Inr:
  assumes "fst (validateAccessToken env token d) = Inr a"
  shows "\<exists>secret payload u. jwtSecret env = Inr secret \<and> mo_jwtVerify env secret token = Some payload \<and> u \<in> set (mb_users d) \<and>
    (\<forall>i. tk_sub payload = Some i \<longrightarrow> mu_id u = i) \<and> mu_isActive u \<and> a = toAuthenticatedUser (u, role_of d u)"
proof -
  obtain secret payload where p: "jwtSecret env = Inr secret" "mo_jwtVerify env secret token = Some payload"
    using assms by (cases "jwtSecret env"; cases "mo_jwtVerify env (projr (jwtSecret env)) token")
      (auto simp add: validateAccessToken_def throwH_def)
  then obtain e where e: "find_admin (\<lambda>u. case tk_sub payload of None \<Rightarrow> True | Some i \<Rightarrow> mu_id u = i) d = Some e"
      "mu_isActive (fst e)" "a = toAuthenticatedUser e"
    using assms by (cases "find_admin (\<lambda>u. case tk_sub payload of None \<Rightarrow> True | Some i \<Rightarrow> mu_id u = i) d")
      (auto simp add: validateAccessToken_def handler_defs split: if_splits)
  have "fst e \<in> set (mb_users d) \<and> (case tk_sub payload of None \<Rightarrow> True | Some i \<Rightarrow> mu_id (fst e) = i) \<and> e = (fst e, role_of d (fst e))"
    using find_admin_SomeD [OF e(1)] by (simp add: prod_eq_iff)
  then show ?thesis using p e by (intro exI [of _ secret] exI [of _ payload] exI [of _ "fst e"]) (auto split: option.splits)
qed

lemma set_permissions:
  "set (mv_permissions (toAuthenticatedUser (u, r))) =
     (set (case r of None \<Rightarrow> [] | Some x \<Rightarrow> ro_permissions x) \<union> set (mu_extraPermissions u)) - {[]}"
  by (auto simp add: toAuthenticatedUser_def Let_def)

lemma guarded_authorised:
  assumes "mon_guarded env rq route d = Inr user" and "\<not> route_public route"
  shows "authorised env rq (route_permissions route) d"
proof -
  obtain h scheme token rest where h: "rq_authorization rq = BearerText h" "js_split (CHR '' '') h = scheme # token # rest"
      "scheme = ''Bearer''" and v: "fst (bindH (validateAccessToken env token) (\<lambda>u. returnH (Some u)) d) = Inr user"
      and g: "permissions_guard (route_permissions route) user = Inr ()"
    using assms by (auto simp add: mon_guarded_def jwt_guard_def bindE_eq_Inr throwH_def split: bearer_header.splits if_splits list.splits)
  then obtain a where a: "fst (validateAccessToken env token d) = Inr a" "user = Some a"
    by (cases "validateAccessToken env token d"; cases "fst (validateAccessToken env token d)") (auto simp add: bindH_def returnH_def)
  from validateAccessToken_Inr [OF a(1)] obtain secret payload u where u: "jwtSecret env = Inr secret"
      "mo_jwtVerify env secret token = Some payload" "u \<in> set (mb_users d)" "\<forall>i. tk_sub payload = Some i \<longrightarrow> mu_id u = i"
      "mu_isActive u" "a = toAuthenticatedUser (u, role_of d u)" by blast
  have "\<forall>p\<in>set (route_permissions route). p \<in> set (mv_permissions a)"
    using g a(2) by (auto simp add: permissions_guard_def list_all_iff split: if_splits)
  then have "holds_permissions d u (route_permissions route)"
    unfolding holds_permissions_def u(6) set_permissions by blast
  then show ?thesis using h u unfolding authorised_def by blast
qed

text \<open>
  C30. Every route but the health check and the login is protected: without a valid token of an active
  account that holds the permissions of the route the request is refused, and nothing is changed, not
  even the audit log. A deactivated account and a permission taken away count from the next request on.
\<close>

theorem permission_guarded:
  assumes "\<not> route_public route" and "\<not> authorised env rq (route_permissions route) (mw_admin w)"
  shows "\<exists>e. mon_serve env pe fs rq route w = (Inl e, w)"
  using assms guarded_authorised by (cases "mon_guarded env rq route (mw_admin w)") (auto simp add: mon_serve_def)

definition demo_request :: "string \<Rightarrow> bearer_header \<Rightarrow> (string \<times> json) list option \<Rightarrow> mon_request" where
  "demo_request verb h body = \<lparr>rq_verb = verb, rq_url = ''/api/admin/users'', rq_ip = None, rq_authorization = h, rq_body = body\<rparr>"

definition demo_files :: file_system where
  "demo_files = \<lparr>fs_exists = \<lambda>_. False, fs_read = \<lambda>_. Inl ''none''\<rparr>"

definition demo_mon_world :: mon_world where
  "demo_mon_world = \<lparr>mw_admin = seeded_admin, mw_state = onModuleInit (demo_probe 5) (empty_state [])\<rparr>"

theorem permission_guarded_witness:
  "\<exists>e. mon_serve demo_mon (demo_probe 5) demo_files (demo_request ''GET'' BearerAbsent None) ListUsers demo_mon_world = (Inl e, demo_mon_world)"
  by (rule permission_guarded) (simp_all add: authorised_def demo_request_def)

section \<open>The audit log\<close>

definition secret_free :: "audit_log \<Rightarrow> bool" where
  "secret_free l \<longleftrightarrow>
     (case al_payload l of
        None \<Rightarrow> True
      | Some body \<Rightarrow> list_all (\<lambda>k. map_of body k \<in> {None, Some (JString ''[redacted]'')})
          [''password'', ''passwordHash'', ''refreshToken'', ''accessToken''])"

definition logs_ok :: "admin_db \<Rightarrow> bool" where
  "logs_ok d \<longleftrightarrow> list_all secret_free (mb_logs d)"

lemma keys_obj_set: "set (map fst (obj_set k v kvs)) = insert k (set (map fst kvs))"
proof (cases "k \<in> set (map fst kvs)")
  case True
  then show ?thesis unfolding obj_set_def by (simp only: if_True keys_replace insert_absorb)
qed (auto simp add: obj_set_def)

lemma map_of_redact:
  "map_of (redact ks body) k =
     (if k \<in> set ks \<and> k \<in> set (map fst body) then Some (JString ''[redacted]'') else map_of body k)"
proof (induction ks body rule: redact.induct)
  case (2 k' ks body)
  show ?case using 2 by (simp only: redact.simps keys_obj_set map_of_obj_set list.set insert_iff split: if_split) blast
qed simp

lemma redacted_value: "k \<in> set ks \<Longrightarrow> map_of (redact ks body) k \<in> {None, Some (JString ''[redacted]'')}"
  unfolding map_of_redact by (simp add: map_of_eq_None_iff)

lemma audit_entry_simps:
  "al_actorUserId (audit_entry env rq user st err) = map_option mv_id user" "al_verb (audit_entry env rq user st err) = rq_verb rq"
  "al_path (audit_entry env rq user st err) = rq_url rq"
  "al_outcome (audit_entry env rq user st err) = Some (case err of None \<Rightarrow> ''success'' | Some e \<Rightarrow> mon_error_message e)"
  by (simp_all add: audit_entry_def)

lemma secret_free_keys:
  "secret_free l \<longleftrightarrow>
     (case al_payload l of None \<Rightarrow> True | Some body \<Rightarrow> list_all (\<lambda>k. map_of body k \<in> {None, Some (JString ''[redacted]'')}) redacted_keys)"
  by (simp only: secret_free_def redacted_keys_def)

lemma entry_secret_free: "secret_free (audit_entry env rq user st err)"
  using redacted_value
  by (fastforce simp add: secret_free_keys audit_entry_def sanitizePayload_def list_all_iff split: option.splits)

text \<open>A predicate on the store that only looks at the logs, and that the other requests keep.\<close>

definition log_frame :: "mon_env \<Rightarrow> (admin_db \<Rightarrow> bool) \<Rightarrow> bool" where
  "log_frame env P \<longleftrightarrow> (\<forall>d d'. mb_logs d' = mb_logs d \<longrightarrow> P d \<longrightarrow> P d') \<and> (\<forall>d. P d \<longrightarrow> P (mo_others env d))"

definition mon_keeps :: "('s \<Rightarrow> bool) \<Rightarrow> ('s, 'e, 'a) handler \<Rightarrow> bool" where
  "mon_keeps P m \<longleftrightarrow> triple P m (\<lambda>_. P) P"

named_theorems keeps_rules \<open>what keeps a predicate on the store\<close>

lemma keeps_bind [keeps_rules]: "mon_keeps P m \<Longrightarrow> (\<And>x. mon_keeps P (f x)) \<Longrightarrow> mon_keeps P (bindH m f)"
  unfolding mon_keeps_def by (rule triple_bindH)

lemma keeps_pure [keeps_rules]: "mon_keeps P (returnH x)" "mon_keeps P (throwH e)" "mon_keeps P (readH f)" "mon_keeps P (liftE r)"
  by (auto simp add: mon_keeps_def triple_def handler_defs split: sum.splits)

lemma keeps_if [keeps_rules]: "mon_keeps P m \<Longrightarrow> mon_keeps P n \<Longrightarrow> mon_keeps P (if c then m else n)"
  by simp

lemma keeps_option [keeps_rules]: "mon_keeps P m \<Longrightarrow> (\<And>x. mon_keeps P (f x)) \<Longrightarrow> mon_keeps P (case v of None \<Rightarrow> m | Some x \<Rightarrow> f x)"
  by (cases v) auto

lemma keeps_prod [keeps_rules]: "(\<And>x y. mon_keeps P (f x y)) \<Longrightarrow> mon_keeps P (case v of (x, y) \<Rightarrow> f x y)"
  by (cases v) auto

lemma keeps_units [keeps_rules]:
  assumes "log_frame env P"
  shows "mon_keeps P (mon_await env)" "mon_keeps P (atomic (save_admin env u))" "mon_keeps P (atomic (insert_admin env u))"
proof -
  have same: "P d'" if "P d" "mb_logs d' = mb_logs d" for d d' using assms that unfolding log_frame_def by blast
  show "mon_keeps P (mon_await env)"
    using assms by (auto simp add: mon_keeps_def triple_def mon_await_def interfere_def log_frame_def)
  show "mon_keeps P (atomic (save_admin env u))" "mon_keeps P (atomic (insert_admin env u))" unfolding mon_keeps_def
    by (rule triple_atomic; auto simp add: save_admin_def insert_admin_def Let_def intro: same split: if_splits)+
qed

lemma admin_handlers_keep:
  assumes "log_frame env P"
  shows "mon_keeps P (login env dto)" "mon_keeps P (createUser env cdto actor)" "mon_keeps P (updateUser env i udto)"
    "mon_keeps P listUsers" "mon_keeps P (listRoles env)" "mon_keeps P listPermissions" "mon_keeps P (listLogs n)"
  using assms
  unfolding login_def createUser_def updateUser_def update_email_def update_role_def listUsers_def listRoles_def
    listPermissions_def listLogs_def Let_def
  by (intro keeps_rules; assumption)+ (auto split: js_number.split intro: keeps_pure)

section \<open>What requests keep\<close>

lemma keeps_on_admin [keeps_rules]: "mon_keeps P h \<Longrightarrow> mon_keeps (\<lambda>w. P (mw_admin w)) (on_admin f h)"
  by (fastforce simp add: mon_keeps_def triple_def on_admin_def split: prod.splits sum.splits)

lemma keeps_on_state [keeps_rules]: "mon_keeps (\<lambda>w. P (mw_admin w)) (on_state f h)"
  by (auto simp add: mon_keeps_def triple_def on_state_def split: prod.splits sum.splits)

lemma keeps_checked [keeps_rules]: "mon_keeps P h \<Longrightarrow> mon_keeps P (checked ok h)"
  by (simp add: checked_def keeps_pure)

lemma run_route_keeps:
  assumes "\<And>dto. route = Login dto \<Longrightarrow> mon_keeps P (login env dto)" and "\<And>dto a. route = CreateUser dto \<Longrightarrow> mon_keeps P (createUser env dto a)"
    and "\<And>i dto. route = UpdateUser i dto \<Longrightarrow> mon_keeps P (updateUser env i dto)"
  shows "mon_keeps (\<lambda>w. P (mw_admin w)) (run_route env pe fs route user)"
  using assms
  by (cases route)
    (auto simp add: run_route_def listUsers_def listRoles_def listPermissions_def listLogs_def
      split: js_number.split intro!: keeps_rules)

lemma serve_keeps:
  assumes "\<And>user. mon_keeps (\<lambda>w. P (mw_admin w)) (run_route env pe fs route user)"
    and "\<And>user err d. P d \<Longrightarrow> P (log_result env rq user err d)" and "P (mw_admin w)"
  shows "P (mw_admin (snd (mon_serve env pe fs rq route w)))"
proof (cases "mon_guarded env rq route (mw_admin w)")
  case (Inr user)
  obtain r w' where r: "run_route env pe fs route user w = (r, w')" by fastforce
  then have "P (mw_admin w')" using assms(1) [of user] assms(3) by (cases r) (auto simp add: mon_keeps_def dest: tripleD)
  then show ?thesis using Inr r assms(2) by (cases r) (simp_all add: mon_serve_def intercepted_def)
qed (simp add: mon_serve_def assms(3))

lemma log_result_effect:
  "mb_users (log_result env rq user err d) = mb_users d" "mb_roles (log_result env rq user err d) = mb_roles d"
  "logs_ok d \<Longrightarrow> logs_ok (log_result env rq user err d)"
  by (simp_all add: log_result_def createLog_def logs_ok_def entry_secret_free)

lemma admin_ok_cong: "mb_users d' = mb_users d \<Longrightarrow> mb_roles d' = mb_roles d \<Longrightarrow> admin_ok d' = admin_ok d"
  by (simp add: admin_ok_def account_ok_def)

definition others_fine :: "mon_env \<Rightarrow> bool" where
  "others_fine env \<longleftrightarrow> others_evolve env \<and> (\<forall>d. logs_ok d \<longrightarrow> logs_ok (mo_others env d))"

lemma serve_admin_ok:
  assumes "others_fine env" and "admin_ok (mw_admin w)"
  shows "admin_ok (mw_admin (snd (mon_serve env pe fs rq route w)))"
proof (rule serve_keeps [OF run_route_keeps])
  have e: "others_evolve env" using assms(1) by (simp add: others_fine_def)
  show "mon_keeps admin_ok (login env dto)" "mon_keeps admin_ok (createUser env cdto a)" "mon_keeps admin_ok (updateUser env i udto)" for dto cdto a i udto
    unfolding mon_keeps_def by (rule login_keeps [OF e], rule createUser_keeps [OF e], rule updateUser_keeps [OF e])
  show "admin_ok d \<Longrightarrow> admin_ok (log_result env rq user err d)" for user err d
    by (simp only: admin_ok_cong [OF log_result_effect(1,2)])
qed (rule assms(2))

lemma serve_logs_ok:
  assumes "others_fine env" and "logs_ok (mw_admin w)"
  shows "logs_ok (mw_admin (snd (mon_serve env pe fs rq route w)))"
proof (rule serve_keeps [OF run_route_keeps])
  have fr: "log_frame env logs_ok" using assms(1) by (simp add: others_fine_def log_frame_def logs_ok_def)
  show "mon_keeps logs_ok (login env dto)" "mon_keeps logs_ok (createUser env cdto a)" "mon_keeps logs_ok (updateUser env i udto)" for dto cdto a i udto
    by (rule admin_handlers_keep [OF fr])+
  show "logs_ok d \<Longrightarrow> logs_ok (log_result env rq user err d)" for user err d
    by (rule log_result_effect(3))
qed (rule assms(2))

section \<open>Start-up\<close>

lemma seed_role_rows_keep: "mon_keeps (\<lambda>d. admin_ok d \<and> logs_ok d) (seed_role_rows env rs)"
proof (induction rs)
  case (Cons r rs)
  have "admin_ok t \<and> logs_ok t" if "admin_ok s \<and> logs_ok s" "insert_role env r s = Inr (x, t)" for s t x
    using that insert_role_ok [of s env r x t] by (auto simp add: insert_role_def logs_ok_def Let_def split: if_splits)
  then have "mon_keeps (\<lambda>d. admin_ok d \<and> logs_ok d) (atomic (insert_role env r))" unfolding mon_keeps_def
    by (intro triple_atomic) blast+
  with Cons show ?case by (auto simp add: seed_role_def intro!: keeps_rules)
qed (simp add: keeps_pure)

lemma seedDefaults_ok:
  assumes "admin_ok d \<and> logs_ok d"
  shows "admin_ok (snd (seedDefaults env d)) \<and> logs_ok (snd (seedDefaults env d))"
proof -
  let ?P = "\<lambda>d. admin_ok d \<and> logs_ok d"
  have ins: "admin_ok d' \<and> logs_ok d'" if "insert_admin env u d = Inr (x, d')" "admin_ok d" "logs_ok d" "account_ok d u" for d d' u x
    using that insert_admin_ok [of d u env x d'] by (auto simp add: insert_admin_def logs_ok_def Let_def split: if_splits)
  have admin: "?P (snd (seed_admin env (js_lower raw) d))" if "?P d" "required_text env k = Inr raw" for d k raw
  proof -
    have email: "norm_email (js_lower raw) = js_lower raw"
      using that(2) by (auto simp add: required_text_def norm_email_def js_trim_lower Let_def split: if_splits)
    show ?thesis
    proof (cases "find_role ''super_admin'' d")
      case (Some role)
      then have "ro_id role \<in> ro_id ` set (mb_roles d)" using find_row_SomeD unfolding find_role_def by fastforce
      then show ?thesis using Some that(1) email
        by (cases "required_text env ''ADMIN_PASSWORD''")
          (auto simp add: seed_admin_def handler_defs account_ok_def split: sum.splits dest: ins)
    qed (use that(1) in \<open>simp add: seed_admin_def handler_defs\<close>)
  qed
  obtain r d1 where d1: "seed_role_rows env seedRoles d = (r, d1)" by fastforce
  have P1: "?P d1" using seed_role_rows_keep [of env seedRoles] assms d1 by (cases r) (auto simp add: mon_keeps_def dest: tripleD)
  show ?thesis
  proof (cases r)
    case (Inr x)
    then show ?thesis using d1 P1 admin
      by (cases "required_text env ''ADMIN_EMAIL''") (auto simp add: seedDefaults_def handler_defs Let_def)
  qed (use d1 P1 in \<open>simp add: seedDefaults_def bindH_def\<close>)
qed

text \<open>
  The life of an installation: it is started on empty tables, serves requests that overlap with others,
  and is started again, which loses the state in memory.
\<close>

inductive world_init :: "mon_world \<Rightarrow> bool" where
  "mb_users d = [] \<Longrightarrow> mb_roles d = [] \<Longrightarrow> mb_logs d = [] \<Longrightarrow>
   world_init \<lparr>mw_admin = snd (seedDefaults env d), mw_state = onModuleInit pe (empty_state [])\<rparr>"

inductive world_step :: "mon_world \<Rightarrow> mon_world \<Rightarrow> bool" where
  serve: "others_fine env \<Longrightarrow> world_step w (snd (mon_serve env pe fs rq route w))"
| restart: "world_step w \<lparr>mw_admin = snd (seedDefaults env (mw_admin w)),
      mw_state = onModuleInit pe (empty_state (ms_snapshots (mw_state w)))\<rparr>"

definition mon_world_ok :: "mon_world \<Rightarrow> bool" where
  "mon_world_ok w \<longleftrightarrow> admin_ok (mw_admin w) \<and> logs_ok (mw_admin w)"

interpretation worlds: invariant_system world_init world_step mon_world_ok
proof
  show "world_init w \<Longrightarrow> mon_world_ok w" for w
    by (induction rule: world_init.induct) (simp add: mon_world_ok_def, rule seedDefaults_ok, simp add: admin_ok_def logs_ok_def)
  show "mon_world_ok w \<Longrightarrow> world_step w w' \<Longrightarrow> mon_world_ok w'" for w w'
    by (rotate_tac 1, induction rule: world_step.induct)
      (auto simp add: mon_world_ok_def seedDefaults_ok serve_admin_ok serve_logs_ok)
qed

text \<open>
  C32. In every installation that was started on empty tables, after any requests and restarts: ids and
  e-mails of accounts are unique, e-mails are trimmed and in lower case, every account has an existing
  role, and no entry of the audit log shows a password or token that stood at the top of a request body.
\<close>

theorem accounts_and_audit_in_order:
  assumes "reach world_init world_step w"
  shows "distinct (map mu_id (mb_users (mw_admin w))) \<and> distinct (map mu_email (mb_users (mw_admin w))) \<and>
    (\<forall>u\<in>set (mb_users (mw_admin w)). mu_email u = js_lower (js_trim (mu_email u)) \<and> role_of (mw_admin w) u \<noteq> None) \<and>
    (\<forall>l\<in>set (mb_logs (mw_admin w)). secret_free l)"
proof -
  have ok: "admin_ok (mw_admin w)" "logs_ok (mw_admin w)" using worlds.reach_inv [OF assms] by (simp_all add: mon_world_ok_def)
  have "role_of (mw_admin w) u \<noteq> None" if "u \<in> set (mb_users (mw_admin w))" for u
  proof -
    from that ok(1) obtain r where "r \<in> set (mb_roles (mw_admin w))" "ro_id r = mu_roleId u"
      unfolding admin_ok_def account_ok_def by (metis imageE)
    then show ?thesis by (auto simp add: role_of_def find_row_None_iff)
  qed
  then show ?thesis using ok by (auto simp add: admin_ok_def account_ok_def norm_email_def logs_ok_def list_all_iff)
qed

lemma demo_mon_world_reached: "reach world_init world_step demo_mon_world"
  unfolding demo_mon_world_def seeded_admin_def by (intro reach.start world_init.intros) (simp_all add: empty_admin_def)

theorem accounts_and_audit_in_order_witness:
  "distinct (map mu_email (mb_users (mw_admin demo_mon_world))) \<and> list_all secret_free (mb_logs (mw_admin demo_mon_world))"
  using accounts_and_audit_in_order [OF demo_mon_world_reached] by (simp add: list_all_iff)

section \<open>Who changes accounts\<close>

text \<open>An account without the times of its last login and change.\<close>

definition account_view :: "string \<Rightarrow> admin_db \<Rightarrow> admin_user option" where
  "account_view i d =
     map_option (\<lambda>u. u\<lparr>mu_lastLoginAt := None, mu_updatedAt := 0\<rparr>) (find_row (\<lambda>u. mu_id u = i) (mb_users d))"

lemma save_view:
  assumes "admin_ok d" and "u \<in> set (mb_users d)" and "save_admin env (u\<lparr>mu_lastLoginAt := t\<rparr>) d = Inr (v, d')"
  shows "account_view i d' = account_view i d"
proof -
  have col: "admin_column u = u" using assms(1,2) by (simp add: admin_ok_def)
  obtain s where s: "save_admin env (u\<lparr>mu_lastLoginAt := t\<rparr>) d = Inr (u\<lparr>mu_lastLoginAt := t, mu_updatedAt := s\<rparr>,
      d\<lparr>mb_users := save_row mu_id (admin_column (u\<lparr>mu_lastLoginAt := t, mu_updatedAt := s\<rparr>)) (mb_users d)\<rparr>)"
    using save_admin_quiet [of d "u\<lparr>mu_lastLoginAt := t\<rparr>" env] other_emails [OF assms(1,2)] assms(2) by auto
  then have v: "v = u\<lparr>mu_lastLoginAt := t, mu_updatedAt := s\<rparr>" and d': "mb_users d' = save_row mu_id (admin_column v) (mb_users d)"
    using assms(3) by auto
  have "admin_column v = (admin_column u)\<lparr>mu_lastLoginAt := t, mu_updatedAt := s\<rparr>" by (simp add: v admin_column_def)
  then have "admin_column v = v" unfolding col v .
  then have rows: "mb_users d' = save_row mu_id v (mb_users d)" using d' by simp
  have uniq: "x = u" if "x \<in> set (mb_users d)" "mu_id x = mu_id u" for x
    using that assms(1,2) row_unique [of mu_id "mb_users d" x u] by (simp add: admin_ok_def)
  have "find_row (\<lambda>x. mu_id x = i) (mb_users d') = map_option (\<lambda>x. if mu_id x = mu_id v then v else x) (find_row (\<lambda>x. mu_id x = i) (mb_users d))"
    unfolding rows by (rule find_row_cong_save) (use v in simp)
  then show ?thesis using uniq v
    by (cases "find_row (\<lambda>x. mu_id x = i) (mb_users d)") (auto simp add: account_view_def dest!: find_row_SomeD)
qed

lemma login_view:
  assumes "admin_ok d" and "mo_others env = id"
  shows "account_view i (snd (login env dto d)) = account_view i d"
proof (cases "find_admin (\<lambda>u. mu_email u = norm_email (ld_email dto)) d")
  case (Some e)
  then have mem: "fst e \<in> set (mb_users d)" using find_admin_SomeD by fast
  show ?thesis
  proof (cases "save_admin env ((fst e)\<lparr>mu_lastLoginAt := Some (mo_now env)\<rparr>) d")
    case (Inr p)
    then have "account_view i (snd p) = account_view i d" using save_view [OF assms(1) mem, of env _ "fst p" "snd p"] by simp
    then show ?thesis using Some Inr assms(2)
      by (auto simp add: login_def handler_defs mon_await_def case_prod_unfold split: sum.splits)
  qed (use Some assms(2) in \<open>auto simp add: login_def handler_defs mon_await_def case_prod_unfold\<close>)
qed (simp add: login_def handler_defs)

lemma log_result_view: "account_view i (log_result env rq user err d) = account_view i d"
  by (simp add: account_view_def log_result_effect)


definition demo_mon_bearer :: bearer_header where
  "demo_mon_bearer = BearerText (''Bearer '' @ the (demo_sign ''s1'' \<lparr>tk_sub = Some ''4'', tk_email = ''root@kufi.vn'', tk_roleCode = ''super_admin''\<rparr> ''12h''))"


section \<open>The audit trail\<close>



end
