(* ===== verification/Monitor_Client.thy ===== *)
theory Monitor_Client
  imports Monitor_Api
begin

text \<open>
  The calls of the monitoring web client (\<^verbatim>\<open>monitoring_system/web/src/api.ts\<close>) and the paths under
  which the controllers of the back end offer their routes. \<open>api_target\<close> is the verb and the text that
  the client asks for, \<open>dispatch_call\<close> the route that the decorators of the controllers give to it. The
  framework decodes path segments and query values; its decoding is a parameter. Bodies are passed as the
  objects they stand for.
\<close>

section \<open>Calls\<close>

record new_admin =
  na_email :: string
  na_password :: string
  na_displayName :: string
  na_title :: string
  na_roleId :: string
  na_locale :: string
  na_extraPermissions :: "string list"

datatype api_call =
    ApiLogin string string
  | ApiMe
  | ApiOverview bool
  | ApiAml js_number
  | ApiAmlAccount string js_number
  | ApiAmlScan "js_number option"
  | ApiTimeseries string
  | ApiTrends "string list"
  | ApiAuditLogs
  | ApiLogSources
  | ApiLogTail string
  | ApiAdminUsers
  | ApiAdminRoles
  | ApiPermissions
  | ApiCreateAdmin new_admin
  | ApiUpdateAdmin string update_admin_dto

text \<open>\<open>lookbackHours\<close> is sent when it is a finite number.\<close>

definition scan_hours :: "js_number option \<Rightarrow> string option" where
  "scan_hours h = (case h of Some (JsNum n) \<Rightarrow> Some (number_text (js_max (JsNum 1) (js_floor (JsNum n)))) | _ \<Rightarrow> None)"

fun api_target :: "api_call \<Rightarrow> string \<times> string" where
  "api_target (ApiLogin _ _) = (''POST'', ''/auth/login'')"
| "api_target ApiMe = (''GET'', ''/auth/me'')"
| "api_target (ApiOverview refresh) = (''GET'', ''/monitoring/overview'' @ (if refresh then ''?refresh=true'' else []))"
| "api_target (ApiAml limit) = (''GET'', ''/monitoring/aml?limit='' @ encodeURIComponent (number_text limit))"
| "api_target (ApiAmlAccount accountId limit) =
     (''GET'', ''/monitoring/aml/accounts/'' @ encodeURIComponent accountId @ ''/transactions?limit='' @
        encodeURIComponent (number_text limit))"
| "api_target (ApiAmlScan h) =
     (''POST'', ''/monitoring/aml/scan'' @
        (case scan_hours h of Some s \<Rightarrow> ''?lookbackHours='' @ encodeURIComponent s | None \<Rightarrow> []))"
| "api_target (ApiTimeseries metric) =
     (''GET'', ''/monitoring/timeseries?metric='' @ encodeURIComponent metric @ ''&minutes=180'')"
| "api_target (ApiTrends metrics) =
     (''GET'', ''/monitoring/trends?metrics='' @ encodeURIComponent (js_join '','' metrics) @ ''&minutes=180'')"
| "api_target ApiAuditLogs = (''GET'', ''/audit/logs?limit=100'')"
| "api_target ApiLogSources = (''GET'', ''/logs/sources'')"
| "api_target (ApiLogTail source) = (''GET'', ''/logs/tail?source='' @ encodeURIComponent source @ ''&limit=180'')"
| "api_target ApiAdminUsers = (''GET'', ''/admin/users'')"
| "api_target ApiAdminRoles = (''GET'', ''/admin/roles'')"
| "api_target ApiPermissions = (''GET'', ''/admin/permissions'')"
| "api_target (ApiCreateAdmin _) = (''POST'', ''/admin/users'')"
| "api_target (ApiUpdateAdmin i _) = (''PATCH'', ''/admin/users/'' @ i)"

datatype call_body = NoBody | LoginBody login_dto | CreateBody create_admin_dto | UpdateBody update_admin_dto

definition create_dto_of :: "new_admin \<Rightarrow> create_admin_dto" where
  "create_dto_of p =
     \<lparr>cd_email = na_email p, cd_password = na_password p, cd_displayName = na_displayName p, cd_title = na_title p,
      cd_roleId = na_roleId p, cd_locale = Some (na_locale p), cd_isActive = None,
      cd_extraPermissions = Some (na_extraPermissions p)\<rparr>"

fun api_body :: "api_call \<Rightarrow> call_body" where
  "api_body (ApiLogin email password) = LoginBody \<lparr>ld_email = email, ld_password = password\<rparr>"
| "api_body (ApiCreateAdmin p) = CreateBody (create_dto_of p)"
| "api_body (ApiUpdateAdmin _ p) = UpdateBody p"
| "api_body _ = NoBody"

section \<open>Answers\<close>

text \<open>What becomes of a fetch: it is aborted after eight seconds, fails, or there is a response.\<close>

datatype 'a net_reply = TimedOut | Unreachable | Refused int string string | Answered 'a

text \<open>An \<open>ApiError\<close> with its message and status, or an error of another class.\<close>

datatype api_failure = ApiError string int | OtherError

definition request :: "'a net_reply \<Rightarrow> api_failure + 'a" where
  "request r =
     (case r of
        TimedOut \<Rightarrow> Inl (ApiError ''Monitoring request timed out.'' 408)
      | Unreachable \<Rightarrow> Inl OtherError
      | Refused status body statusText \<Rightarrow> Inl (ApiError (if body \<noteq> [] then body else statusText) status)
      | Answered x \<Rightarrow> Inr x)"

text \<open>Trends fall back to one request per metric when the back end does not know them (404).\<close>

fun collect_series :: "(string \<Rightarrow> api_failure + series) \<Rightarrow> string list \<Rightarrow> api_failure + (string \<times> series) list" where
  "collect_series timeseries [] = Inr []"
| "collect_series timeseries (k # ks) =
     bindE (timeseries k) (\<lambda>s. bindE (collect_series timeseries ks) (\<lambda>rest. Inr ((k, s) # rest)))"

definition api_trends ::
    "api_failure + (js_number \<times> (string \<times> series) list) \<Rightarrow> (string \<Rightarrow> api_failure + series) \<Rightarrow> string list \<Rightarrow>
     api_failure + (js_number \<times> (string \<times> series) list)" where
  "api_trends direct timeseries metrics =
     (case direct of
        Inl (ApiError m status) \<Rightarrow>
          if status \<noteq> 404 then direct
          else bindE (collect_series timeseries metrics) (\<lambda>table. Inr (js_of_int 180, table))
      | _ \<Rightarrow> direct)"

section \<open>Paths of the controllers\<close>

type_synonym query = "string \<Rightarrow> string option"

definition auth_routes :: "string \<Rightarrow> string list \<Rightarrow> call_body \<Rightarrow> mon_route option" where
  "auth_routes verb path body =
     (if verb = ''POST'' \<and> path = [''login''] then (case body of LoginBody dto \<Rightarrow> Some (Login dto) | _ \<Rightarrow> None)
      else if verb = ''GET'' \<and> path = [''me''] then Some Me
      else None)"

definition admin_routes :: "(string \<Rightarrow> string) \<Rightarrow> string \<Rightarrow> string list \<Rightarrow> call_body \<Rightarrow> mon_route option" where
  "admin_routes decode verb path body =
     (if verb = ''GET'' \<and> path = [''users''] then Some ListUsers
      else if verb = ''GET'' \<and> path = [''roles''] then Some ListRoles
      else if verb = ''GET'' \<and> path = [''permissions''] then Some ListPermissions
      else if verb = ''POST'' \<and> path = [''users''] then (case body of CreateBody dto \<Rightarrow> Some (CreateUser dto) | _ \<Rightarrow> None)
      else if verb = ''PATCH'' \<and> length path = 2 \<and> path ! 0 = ''users''
      then (case body of UpdateBody dto \<Rightarrow> Some (UpdateUser (decode (path ! 1)) dto) | _ \<Rightarrow> None)
      else None)"

definition audit_routes :: "string \<Rightarrow> string list \<Rightarrow> query \<Rightarrow> mon_route option" where
  "audit_routes verb path q = (if verb = ''GET'' \<and> path = [''logs''] then Some (AuditLogs (q ''limit'')) else None)"

definition monitoring_routes :: "(string \<Rightarrow> string) \<Rightarrow> string \<Rightarrow> string list \<Rightarrow> query \<Rightarrow> mon_route option" where
  "monitoring_routes decode verb path q =
     (if verb = ''GET'' \<and> path = [''overview''] then Some (Overview (q ''refresh''))
      else if verb = ''GET'' \<and> path = [''timeseries''] then Some (Timeseries (q ''metric'') (q ''minutes''))
      else if verb = ''GET'' \<and> path = [''trends''] then Some (Trends (q ''metrics'') (q ''minutes''))
      else if verb = ''GET'' \<and> path = [''services''] then Some Services
      else if verb = ''GET'' \<and> path = [''chain''] then Some Chain
      else if verb = ''GET'' \<and> path = [''alerts''] then Some Alerts
      else if verb = ''GET'' \<and> path = [''aml''] then Some (Aml (q ''limit''))
      else if verb = ''GET'' \<and> length path = 4 \<and> path ! 0 = ''aml'' \<and> path ! 1 = ''accounts'' \<and> path ! 3 = ''transactions''
      then Some (AmlAccount (decode (path ! 2)) (q ''limit''))
      else if verb = ''POST'' \<and> path = [''aml'', ''scan''] then Some (AmlScan (q ''lookbackHours''))
      else None)"

definition logs_routes :: "string \<Rightarrow> string list \<Rightarrow> query \<Rightarrow> mon_route option" where
  "logs_routes verb path q =
     (if verb = ''GET'' \<and> path = [''sources''] then Some LogSources
      else if verb = ''GET'' \<and> path = [''tail''] then Some (LogTail (coalesce (q ''source'') []) (q ''limit''))
      else None)"

definition mobile_routes :: "string \<Rightarrow> string list \<Rightarrow> mon_route option" where
  "mobile_routes verb path =
     (if verb = ''GET'' \<and> path = [''overview''] then Some MobileOverview
      else if verb = ''GET'' \<and> path = [''alerts''] then Some MobileAlerts
      else if verb = ''GET'' \<and> path = [''chain''] then Some MobileChain
      else None)"

definition health_routes :: "string \<Rightarrow> string list \<Rightarrow> mon_route option" where
  "health_routes verb path = (if verb = ''GET'' \<and> path = [''healthz''] then Some Healthz else None)"

definition query_of :: "(string \<Rightarrow> string) \<Rightarrow> string \<Rightarrow> query" where
  "query_of decode text = map_option decode \<circ>
     map_of (map (\<lambda>kv. (takeWhile (\<lambda>c. c \<noteq> CHR ''='') kv, drop 1 (dropWhile (\<lambda>c. c \<noteq> CHR ''='') kv))) (js_split (CHR ''&'') text))"

definition route_at :: "(string \<Rightarrow> string) \<Rightarrow> string \<Rightarrow> string list \<Rightarrow> query \<Rightarrow> call_body \<Rightarrow> mon_route option" where
  "route_at decode verb path q body =
     (case path of
        [] \<Rightarrow> None
      | prefix # rest \<Rightarrow>
          if prefix = ''auth'' then auth_routes verb rest body
          else if prefix = ''admin'' then admin_routes decode verb rest body
          else if prefix = ''audit'' then audit_routes verb rest q
          else if prefix = ''monitoring'' then monitoring_routes decode verb rest q
          else if prefix = ''logs'' then logs_routes verb rest q
          else if prefix = ''mobile'' then mobile_routes verb rest
          else health_routes verb path)"

definition dispatch_call :: "(string \<Rightarrow> string) \<Rightarrow> string \<times> string \<Rightarrow> call_body \<Rightarrow> mon_route option" where
  "dispatch_call decode target body =
     route_at decode (fst target) (tl (js_split (CHR ''/'') (takeWhile (\<lambda>c. c \<noteq> CHR ''?'') (snd target))))
       (query_of decode (drop 1 (dropWhile (\<lambda>c. c \<noteq> CHR ''?'') (snd target)))) body"

text \<open>The route that each call means.\<close>

fun api_route :: "api_call \<Rightarrow> mon_route" where
  "api_route (ApiLogin email password) = Login \<lparr>ld_email = email, ld_password = password\<rparr>"
| "api_route ApiMe = Me"
| "api_route (ApiOverview refresh) = Overview (if refresh then Some ''true'' else None)"
| "api_route (ApiAml limit) = Aml (Some (number_text limit))"
| "api_route (ApiAmlAccount accountId limit) = AmlAccount accountId (Some (number_text limit))"
| "api_route (ApiAmlScan h) = AmlScan (scan_hours h)"
| "api_route (ApiTimeseries metric) = Timeseries (Some metric) (Some ''180'')"
| "api_route (ApiTrends metrics) = Trends (Some (js_join '','' metrics)) (Some ''180'')"
| "api_route ApiAuditLogs = AuditLogs (Some ''100'')"
| "api_route ApiLogSources = LogSources"
| "api_route (ApiLogTail source) = LogTail source (Some ''180'')"
| "api_route ApiAdminUsers = ListUsers"
| "api_route ApiAdminRoles = ListRoles"
| "api_route ApiPermissions = ListPermissions"
| "api_route (ApiCreateAdmin p) = CreateUser (create_dto_of p)"
| "api_route (ApiUpdateAdmin i p) = UpdateUser i p"

section \<open>Every call reaches its route\<close>

lemma upper_hex_plain: "n < 16 \<Longrightarrow> upper_hex n \<notin> set ''/?&=''"
proof -
  have "list_all (\<lambda>n. upper_hex n \<notin> set ''/?&='') [0..<16]" by code_simp
  then show "n < 16 \<Longrightarrow> ?thesis" by (simp add: list_all_iff)
qed

lemma encoded_plain: "c \<in> set (encodeURIComponent s) \<Longrightarrow> c \<notin> set ''/?&=''"
proof -
  assume "c \<in> set (encodeURIComponent s)"
  then obtain x where x: "c \<in> set (if alnum x \<or> x \<in> set ''-_.!~*'' \<or> code_unit x \<in> {39, 40, 41} then [x]
      else concat (map percent (utf8 (code_unit x))))" unfolding encodeURIComponent_def by (simp only: set_concat set_map UN_iff image_iff bex_simps) blast
  show ?thesis
  proof (cases "alnum x \<or> x \<in> set ''-_.!~*'' \<or> code_unit x \<in> {39, 40, 41}")
    case True
    with x show ?thesis by (auto simp add: alnum_def code_unit_def Let_def)
  next
    case False
    with x obtain b where b: "b \<in> set (utf8 (code_unit x))" "c \<in> set (percent b)" by auto
    have "code_unit x < 256" by (simp add: code_unit_def)
    then have "b < 256" using b(1) by (auto simp add: utf8_def split: if_splits)
    then show ?thesis using b(2) upper_hex_plain [of "b div 16"] upper_hex_plain [of "b mod 16"]
      by (auto simp add: percent_def less_mult_imp_div_less)
  qed
qed

lemma encoded_no_sep [simp]:
  "CHR ''/'' \<notin> set (encodeURIComponent s)" "CHR ''?'' \<notin> set (encodeURIComponent s)" "CHR ''&'' \<notin> set (encodeURIComponent s)"
  using encoded_plain by fastforce+

lemma cut_at:
  "sep \<notin> set p \<Longrightarrow> takeWhile (\<lambda>c. c \<noteq> sep) (p @ sep # q) = p" "sep \<notin> set p \<Longrightarrow> dropWhile (\<lambda>c. c \<noteq> sep) (p @ sep # q) = sep # q"
  "sep \<notin> set p \<Longrightarrow> takeWhile (\<lambda>c. c \<noteq> sep) p = p" "sep \<notin> set p \<Longrightarrow> dropWhile (\<lambda>c. c \<noteq> sep) p = []"
  by (induction p) auto

lemma dispatch_plain: "CHR ''?'' \<notin> set p \<Longrightarrow>
    dispatch_call decode (v, p) body = route_at decode v (tl (js_split (CHR ''/'') p)) (query_of decode []) body"
  by (simp add: dispatch_call_def cut_at)

lemma dispatch_query: "CHR ''?'' \<notin> set p \<Longrightarrow>
    dispatch_call decode (v, p @ CHR ''?'' # q) body = route_at decode v (tl (js_split (CHR ''/'') p)) (query_of decode q) body"
  by (simp add: dispatch_call_def cut_at)

lemma query_one: "CHR ''&'' \<notin> set (k @ v) \<Longrightarrow> CHR ''='' \<notin> set k \<Longrightarrow>
    query_of decode (k @ CHR ''='' # v) x = (if x = k then Some (decode v) else None)"
  by (simp add: query_of_def js_split_no_sep cut_at)

lemma query_two:
  assumes "CHR ''&'' \<notin> set (k @ v)" and "CHR ''='' \<notin> set k"
  shows "query_of decode (k @ CHR ''='' # v @ CHR ''&'' # rest) x = (if x = k then Some (decode v) else query_of decode rest x)"
proof -
  have "js_split (CHR ''&'') ((k @ CHR ''='' # v) @ CHR ''&'' # rest) = (k @ CHR ''='' # v) # js_split (CHR ''&'') rest"
    using assms(1) by (intro js_split_append) simp
  then show ?thesis using assms(2) by (simp add: query_of_def cut_at)
qed

lemma query_none: "x \<noteq> [] \<Longrightarrow> query_of decode [] x = None"
  by (simp add: query_of_def)

lemma plain_texts:
  "encodeURIComponent ''true'' = ''true'' \<and> encodeURIComponent ''180'' = ''180'' \<and> encodeURIComponent ''100'' = ''100''"
  by code_simp

lemmas route_defs = route_at_def auth_routes_def admin_routes_def audit_routes_def monitoring_routes_def logs_routes_def

lemma reach_query:
  assumes "\<forall>s. decode (encodeURIComponent s) = s"
  shows "dispatch_call decode (api_target (ApiAml limit)) NoBody = Some (api_route (ApiAml limit))"
    "dispatch_call decode (api_target (ApiTimeseries metric)) NoBody = Some (api_route (ApiTimeseries metric))"
    "dispatch_call decode (api_target (ApiTrends metrics)) NoBody = Some (api_route (ApiTrends metrics))"
    "dispatch_call decode (api_target (ApiLogTail source)) NoBody = Some (api_route (ApiLogTail source))"
    "dispatch_call decode (api_target ApiAuditLogs) NoBody = Some (api_route ApiAuditLogs)"
proof -
  note lit = plain_texts [THEN conjunct1] plain_texts [THEN conjunct2, THEN conjunct1] plain_texts [THEN conjunct2, THEN conjunct2]
  have d: "decode ''180'' = ''180''" "decode ''100'' = ''100''" using assms lit by metis+
  show "dispatch_call decode (api_target (ApiAml limit)) NoBody = Some (api_route (ApiAml limit))"
    using dispatch_query [of "''/monitoring/aml''" decode "''GET''" "''limit='' @ encodeURIComponent (number_text limit)" NoBody]
      query_one [of "''limit''" "encodeURIComponent (number_text limit)" decode] assms by (simp add: route_defs)
  show "dispatch_call decode (api_target (ApiTimeseries metric)) NoBody = Some (api_route (ApiTimeseries metric))"
    using dispatch_query [of "''/monitoring/timeseries''" decode "''GET''" "''metric='' @ encodeURIComponent metric @ ''&minutes=180''" NoBody]
      query_two [of "''metric''" "encodeURIComponent metric" decode "''minutes=180''"] query_one [of "''minutes''" "''180''" decode] assms d
    by (simp add: route_defs)
  show "dispatch_call decode (api_target (ApiTrends metrics)) NoBody = Some (api_route (ApiTrends metrics))"
    using dispatch_query [of "''/monitoring/trends''" decode "''GET''" "''metrics='' @ encodeURIComponent (js_join '','' metrics) @ ''&minutes=180''" NoBody]
      query_two [of "''metrics''" "encodeURIComponent (js_join '','' metrics)" decode "''minutes=180''"] query_one [of "''minutes''" "''180''" decode] assms d
    by (simp add: route_defs)
  show "dispatch_call decode (api_target (ApiLogTail source)) NoBody = Some (api_route (ApiLogTail source))"
    using dispatch_query [of "''/logs/tail''" decode "''GET''" "''source='' @ encodeURIComponent source @ ''&limit=180''" NoBody]
      query_two [of "''source''" "encodeURIComponent source" decode "''limit=180''"] query_one [of "''limit''" "''180''" decode] assms d
    by (simp add: route_defs coalesce_def)
  show "dispatch_call decode (api_target ApiAuditLogs) NoBody = Some (api_route ApiAuditLogs)"
    using dispatch_query [of "''/audit/logs''" decode "''GET''" "''limit=100''" NoBody] query_one [of "''limit''" "''100''" decode] d
    by (simp add: route_defs)
qed

lemma reach_params:
  assumes "\<forall>s. decode (encodeURIComponent s) = s"
  shows "dispatch_call decode (api_target (ApiOverview refresh)) NoBody = Some (api_route (ApiOverview refresh))"
    "dispatch_call decode (api_target (ApiAmlAccount acc limit)) NoBody = Some (api_route (ApiAmlAccount acc limit))"
    "dispatch_call decode (api_target (ApiAmlScan h)) NoBody = Some (api_route (ApiAmlScan h))"
    "encodeURIComponent i = i \<Longrightarrow> dispatch_call decode (api_target (ApiUpdateAdmin i p)) (UpdateBody p) = Some (api_route (ApiUpdateAdmin i p))"
proof -
  have d: "decode ''true'' = ''true''" using assms plain_texts by metis
  show "dispatch_call decode (api_target (ApiOverview refresh)) NoBody = Some (api_route (ApiOverview refresh))"
    using dispatch_query [of "''/monitoring/overview''" decode "''GET''" "''refresh=true''" NoBody] query_one [of "''refresh''" "''true''" decode]
      dispatch_plain [of "''/monitoring/overview''" decode "''GET''" NoBody] d by (simp add: route_defs query_none)
  have "js_split (CHR ''/'') (''/monitoring/aml/accounts/'' @ encodeURIComponent acc @ ''/transactions'') =
      [[], ''monitoring'', ''aml'', ''accounts'', encodeURIComponent acc, ''transactions'']"
    using js_split_append [of "CHR ''/''" "encodeURIComponent acc" "''transactions''"] by simp
  then show "dispatch_call decode (api_target (ApiAmlAccount acc limit)) NoBody = Some (api_route (ApiAmlAccount acc limit))"
    using dispatch_query [of "''/monitoring/aml/accounts/'' @ encodeURIComponent acc @ ''/transactions''" decode "''GET''"
        "''limit='' @ encodeURIComponent (number_text limit)" NoBody]
      query_one [of "''limit''" "encodeURIComponent (number_text limit)" decode] assms by (simp add: route_defs)
  show "dispatch_call decode (api_target (ApiAmlScan h)) NoBody = Some (api_route (ApiAmlScan h))"
    using dispatch_plain [of "''/monitoring/aml/scan''" decode "''POST''" NoBody] assms
      dispatch_query [of "''/monitoring/aml/scan''" decode "''POST''" "''lookbackHours='' @ encodeURIComponent (the (scan_hours h))" NoBody]
      query_one [of "''lookbackHours''" "encodeURIComponent (the (scan_hours h))" decode]
    by (cases "scan_hours h") (simp_all add: route_defs query_none)
  show "dispatch_call decode (api_target (ApiUpdateAdmin i p)) (UpdateBody p) = Some (api_route (ApiUpdateAdmin i p))" if "encodeURIComponent i = i"
  proof -
    have "CHR ''/'' \<notin> set i \<and> CHR ''?'' \<notin> set i" using encoded_no_sep that by metis
    then show ?thesis using dispatch_plain [of "''/admin/users/'' @ i" decode "''PATCH''" "UpdateBody p"] assms that
      by (simp add: route_defs js_split_no_sep) metis
  qed
qed

lemma call_dispatched:
  assumes "\<forall>s. decode (encodeURIComponent s) = s" and "\<forall>i p. c = ApiUpdateAdmin i p \<longrightarrow> encodeURIComponent i = i"
  shows "dispatch_call decode (api_target c) (api_body c) = Some (api_route c)"
proof (cases c)
  case (ApiUpdateAdmin i p)
  then show ?thesis using reach_params(4) [OF assms(1)] assms(2) by simp
qed (use reach_query [OF assms(1)] reach_params(1-3) [OF assms(1)] in \<open>simp_all add: dispatch_call_def route_defs\<close>)



section \<open>The client in front of the back end\<close>

text \<open>A token is sent when it is not empty. The client reaches the back end under the prefix \<open>/api\<close>.\<close>

definition opt_text :: "string \<Rightarrow> string option \<Rightarrow> (string \<times> json) list" where
  "opt_text k v = (case v of None \<Rightarrow> [] | Some x \<Rightarrow> [(k, JString x)])"

fun body_json :: "call_body \<Rightarrow> (string \<times> json) list option" where
  "body_json NoBody = None"
| "body_json (LoginBody d) = Some [(''email'', JString (ld_email d)), (''password'', JString (ld_password d))]"
| "body_json (CreateBody d) =
     Some ([(''email'', JString (cd_email d)), (''password'', JString (cd_password d)),
       (''displayName'', JString (cd_displayName d)), (''title'', JString (cd_title d)), (''roleId'', JString (cd_roleId d))] @
       opt_text ''locale'' (cd_locale d) @
       (case cd_extraPermissions d of None \<Rightarrow> [] | Some ps \<Rightarrow> [(''extraPermissions'', JArray (map JString ps))]))"
| "body_json (UpdateBody d) =
     Some (opt_text ''email'' (ud_email d) @ opt_text ''password'' (ud_password d) @ opt_text ''displayName'' (ud_displayName d) @
       opt_text ''title'' (ud_title d) @ opt_text ''roleId'' (ud_roleId d) @ opt_text ''locale'' (ud_locale d) @
       (case ud_isActive d of None \<Rightarrow> [] | Some b \<Rightarrow> [(''isActive'', JBool b)]) @
       (case ud_extraPermissions d of None \<Rightarrow> [] | Some ps \<Rightarrow> [(''extraPermissions'', JArray (map JString ps))]))"

definition web_request :: "string \<Rightarrow> api_call \<Rightarrow> mon_request" where
  "web_request token c =
     \<lparr>rq_verb = fst (api_target c), rq_url = ''/api'' @ snd (api_target c), rq_ip = None,
      rq_authorization = (if token = [] then BearerAbsent else BearerText (''Bearer '' @ token)),
      rq_body = body_json (api_body c)\<rparr>"

definition web_send ::
    "mon_env \<Rightarrow> probe_env \<Rightarrow> file_system \<Rightarrow> (string \<Rightarrow> string) \<Rightarrow> string \<Rightarrow> api_call \<Rightarrow> mon_world \<Rightarrow> mon_answer net_reply \<times> mon_world" where
  "web_send env pe fs decode token c w =
     (case dispatch_call decode (api_target c) (api_body c) of
        None \<Rightarrow> (Refused 404 ''Not Found'' [], w)
      | Some route \<Rightarrow>
          (case mon_serve env pe fs (web_request token c) route w of
             (Inr a, w') \<Rightarrow> (Answered a, w')
           | (Inl e, w') \<Rightarrow> (Refused (error_status 500 e) (mon_error_message e) [], w')))"

definition forbidden :: "'a net_reply \<Rightarrow> bool" where
  "forbidden r = (case r of Refused st _ _ \<Rightarrow> st = 403 | _ \<Rightarrow> False)"

section \<open>Pages\<close>

datatype tab = TabOverview | TabWallet | TabChain | TabAml | TabLogs | TabAdmins

definition navItems :: "string list \<Rightarrow> tab list" where
  "navItems permissions =
     (if ''dashboard:view'' \<in> set permissions then [TabOverview, TabWallet] else []) @
     (if ''chain:view'' \<in> set permissions then [TabChain] else []) @
     (if ''metrics:view'' \<in> set permissions then [TabAml] else []) @
     (if ''logs:view'' \<in> set permissions then [TabLogs] else []) @
     (if ''admin-users:manage'' \<in> set permissions then [TabAdmins] else [])"

definition TREND_METRICS :: "string list" where
  "TREND_METRICS = [''system.cpuPercent'', ''system.memoryPercent'', ''wallet.concurrentUsersEstimate'']"

text \<open>
  What a page loads when it is opened: the overview and the trends, without which no page is shown, and
  what the page itself asks for in one \<open>Promise.all\<close>.
\<close>

fun page_calls :: "tab \<Rightarrow> api_call list" where
  "page_calls TabLogs = [ApiLogSources, ApiAuditLogs]"
| "page_calls TabAdmins = [ApiAdminUsers, ApiAdminRoles, ApiPermissions]"
| "page_calls TabAml = [ApiAml (js_of_int 100)]"
| "page_calls _ = []"

definition overview_calls :: "api_call list" where
  "overview_calls = [ApiOverview False, ApiTrends TREND_METRICS]"

lemma bearer_split: "CHR '' '' \<notin> set token \<Longrightarrow> js_split (CHR '' '') (''Bearer '' @ token) = [''Bearer'', token]"
  by (simp add: js_split_no_sep)

lemma guarded_by_token:
  assumes "validateAccessToken env token d = (Inr user, d)" and "token \<noteq> []" and "CHR '' '' \<notin> set token" and "\<not> route_public route"
  shows "mon_guarded env (web_request token c) route d =
    (if list_all (\<lambda>p. p \<in> set (mv_permissions user)) (route_permissions route) then Inr (Some user) else Inl (MonForbidden ''Insufficient permissions''))"
proof -
  have "fst (jwt_guard env False (web_request token c) d) = Inr (Some user)"
    using assms(1,2) bearer_split [OF assms(3)] by (simp add: jwt_guard_def web_request_def bindH_def returnH_def)
  then show ?thesis using assms(4) by (auto simp add: mon_guarded_def permissions_guard_def bindE_def)
qed

lemma page_not_forbidden:
  assumes "c \<in> set (overview_calls @ page_calls t)"
  shows "fst (run_route env pe fs (api_route c) user w) \<noteq> Inl (MonForbidden m)"
  using assms
  by (cases t)
    (auto simp add: overview_calls_def run_route_def on_state_def on_admin_def listUsers_def listRoles_def listPermissions_def
      listLogs_def returnH_def readH_def bindH_def throwH_def map_sum_def split: prod.splits sum.splits js_number.splits)

lemma call_forbidden:
  assumes "\<forall>s. decode (encodeURIComponent s) = s" and "validateAccessToken env token (mw_admin w) = (Inr user, mw_admin w)"
    and "token \<noteq> []" and "CHR '' '' \<notin> set token" and "c \<in> set (overview_calls @ page_calls t)"
  shows "forbidden (fst (web_send env pe fs decode token c w)) \<longleftrightarrow> \<not> list_all (\<lambda>p. p \<in> set (mv_permissions user)) (route_permissions (api_route c))"
proof -
  have c: "dispatch_call decode (api_target c) (api_body c) = Some (api_route c)" "\<not> route_public (api_route c)"
    using call_dispatched [OF assms(1), of c] assms(5) by (cases t; auto simp add: overview_calls_def)+
  note guard = guarded_by_token [OF assms(2-4) c(2), of c]
  show ?thesis
  proof (cases "list_all (\<lambda>p. p \<in> set (mv_permissions user)) (route_permissions (api_route c))")
    case True
    obtain r w' where r: "run_route env pe fs (api_route c) (Some user) w = (r, w')" by fastforce
    then have no: "r \<noteq> Inl (MonForbidden m)" for m using page_not_forbidden [OF assms(5)] by (metis fst_conv)
    have "fst (mon_serve env pe fs (web_request token c) (api_route c) w) = r"
      using guard True r by (auto simp add: mon_serve_def intercepted_def split: sum.splits)
    moreover have "error_status 500 e \<noteq> 403" if "r = Inl e" for e using no that by (cases e) auto
    ultimately show ?thesis using c(1) True
      by (auto simp add: web_send_def forbidden_def split: prod.splits sum.splits)
  next
    case False
    then show ?thesis using c(1) guard by (auto simp add: web_send_def forbidden_def mon_serve_def)
  qed
qed

lemma shown_tabs:
  "TabOverview \<in> set (navItems ps) \<longleftrightarrow> DASHBOARD_VIEW \<in> set ps" "TabWallet \<in> set (navItems ps) \<longleftrightarrow> DASHBOARD_VIEW \<in> set ps"
  "TabChain \<in> set (navItems ps) \<longleftrightarrow> CHAIN_VIEW \<in> set ps" "TabAml \<in> set (navItems ps) \<longleftrightarrow> METRICS_VIEW \<in> set ps"
  "TabLogs \<in> set (navItems ps) \<longleftrightarrow> LOGS_VIEW \<in> set ps" "TabAdmins \<in> set (navItems ps) \<longleftrightarrow> ADMIN_USERS_MANAGE \<in> set ps"
  unfolding navItems_def DASHBOARD_VIEW_def CHAIN_VIEW_def METRICS_VIEW_def LOGS_VIEW_def ADMIN_USERS_MANAGE_def
  by (simp_all split: if_splits)

text \<open>
  C39. Of the pages that the client offers to a user, exactly those work whose requests the back end allows: all of
  them need the permissions for the dashboard and for metrics, and the page of the logs needs the one for
  the audit log as well, which does not decide whether the page is offered.
\<close>

theorem offered_pages_allowed_iff:
  assumes "\<forall>s. decode (encodeURIComponent s) = s" and "validateAccessToken env token (mw_admin w) = (Inr user, mw_admin w)"
    and "token \<noteq> []" and "CHR '' '' \<notin> set token" and "t \<in> set (navItems (mv_permissions user))"
  shows "list_all (\<lambda>c. \<not> forbidden (fst (web_send env pe fs decode token c w))) (overview_calls @ page_calls t) \<longleftrightarrow>
    DASHBOARD_VIEW \<in> set (mv_permissions user) \<and> METRICS_VIEW \<in> set (mv_permissions user) \<and>
    (t = TabLogs \<longrightarrow> AUDIT_VIEW \<in> set (mv_permissions user))"
proof -
  have "list_all (\<lambda>c. \<not> forbidden (fst (web_send env pe fs decode token c w))) (overview_calls @ page_calls t) \<longleftrightarrow>
      list_all (\<lambda>c. list_all (\<lambda>p. p \<in> set (mv_permissions user)) (route_permissions (api_route c))) (overview_calls @ page_calls t)"
    using call_forbidden [OF assms(1-4)] by (fastforce simp add: list_all_iff)
  then show ?thesis using assms(5) by (cases t) (auto simp add: overview_calls_def shown_tabs)
qed

definition demo_operator :: admin_user where
  "demo_operator = \<lparr>mu_id = ''9'', mu_email = ''op@kufi.vn'', mu_displayName = ''Op'', mu_title = [], mu_passwordHash = [], mu_locale = ''vi'',
     mu_isActive = True, mu_extraPermissions = [],
     mu_roleId = ro_id (the (find_role ''chain_operator'' seeded_admin)), mu_lastLoginAt = None, mu_createdAt = 0, mu_updatedAt = 0\<rparr>"

definition operator_admin :: admin_db where
  "operator_admin = seeded_admin\<lparr>mb_users := [demo_operator]\<rparr>"

definition operator_world :: mon_world where
  "operator_world = \<lparr>mw_admin = operator_admin, mw_state = empty_state []\<rparr>"

definition operator_token :: string where
  "operator_token = the (mo_jwtSign demo_mon ''s1'' \<lparr>tk_sub = Some ''9'', tk_email = ''op@kufi.vn'', tk_roleCode = ''chain_operator''\<rparr> ''12h'')"

text \<open>The role of chain operators is offered the page of the logs and cannot load it.\<close>

theorem offered_pages_allowed_iff_witness:
  "\<not> list_all (\<lambda>c. \<not> forbidden (fst (web_send demo_mon (demo_probe 5) demo_files (\<lambda>s. coalesce (decodeURIComponent s) []) operator_token c operator_world)))
     (overview_calls @ page_calls TabLogs)"
proof -
  have "case fst (validateAccessToken demo_mon operator_token operator_admin) of
      Inr user \<Rightarrow> LOGS_VIEW \<in> set (mv_permissions user) \<and> AUDIT_VIEW \<notin> set (mv_permissions user) \<and>
        operator_token \<noteq> [] \<and> CHR '' '' \<notin> set operator_token
    | Inl _ \<Rightarrow> False" by code_simp
  moreover have "snd (validateAccessToken demo_mon operator_token operator_admin) = operator_admin"
    by (simp add: validateAccessToken_def bindH_def readH_def throwH_def returnH_def split: sum.splits option.splits)
  ultimately obtain user where u: "validateAccessToken demo_mon operator_token (mw_admin operator_world) = (Inr user, mw_admin operator_world)"
      "LOGS_VIEW \<in> set (mv_permissions user)" "AUDIT_VIEW \<notin> set (mv_permissions user)" "operator_token \<noteq> []" "CHR '' '' \<notin> set operator_token"
    by (cases "validateAccessToken demo_mon operator_token operator_admin") (auto simp add: operator_world_def split: sum.splits)
  then show ?thesis using offered_pages_allowed_iff [OF _ u(1,4,5), of "\<lambda>s. coalesce (decodeURIComponent s) []" TabLogs "demo_probe 5" demo_files]
    by (simp add: decode_encode coalesce_def shown_tabs)
qed

end
