(* ===== verification/Monitor_Web.thy ===== *)
theory Monitor_Web
  imports Monitor_Client
begin

text \<open>
  The dashboard of the monitoring web client (\<^verbatim>\<open>monitoring_system/web/src/App.tsx\<close>) as a state
  machine. \<open>dash\<close> has the state and the references of the component \<open>Dashboard\<close>; the requests that wait
  for an answer are a list of flights. Each asynchronous function is split at its await into a start and a
  part for the answer, and answers come in any order. An effect that depends on a value runs when the
  value changes, after its clean-up has made its flights inactive. Setting a state takes effect at once.
  Texts of the interface, markup and number formats are left out.
\<close>

section \<open>State\<close>

record dash =
  ds_activeTab :: tab
  ds_overview :: "overview option"
  ds_trendCpu :: "series option"
  ds_trendMemory :: "series option"
  ds_trendConcurrent :: "series option"
  ds_amlOverview :: "aml_overview option"
  ds_amlSelected :: string
  ds_amlTransactions :: "aml_transaction list"
  ds_amlTotal :: js_number
  ds_auditLogs :: "audit_log list"
  ds_logSources :: "log_source list"
  ds_logSource :: string
  ds_logTail :: "log_tail option"
  ds_users :: "public_user list"
  ds_roles :: "admin_role list"
  ds_permissions :: "string list"
  ds_loadingOverview :: bool
  ds_loadingDetail :: bool
  ds_loadingAction :: bool
  ds_message :: string
  ds_error :: string
  ds_overviewId :: nat
  ds_amlId :: nat
  ds_accountId :: nat
  ds_tailId :: nat
  ds_loggedOut :: bool

definition dash_initial :: dash where
  "dash_initial =
     \<lparr>ds_activeTab = TabOverview, ds_overview = None, ds_trendCpu = None, ds_trendMemory = None, ds_trendConcurrent = None,
      ds_amlOverview = None, ds_amlSelected = [], ds_amlTransactions = [], ds_amlTotal = js_of_int 0, ds_auditLogs = [],
      ds_logSources = [], ds_logSource = [], ds_logTail = None, ds_users = [], ds_roles = [], ds_permissions = [],
      ds_loadingOverview = True, ds_loadingDetail = False, ds_loadingAction = False, ds_message = [], ds_error = [],
      ds_overviewId = 0, ds_amlId = 0, ds_accountId = 0, ds_tailId = 0, ds_loggedOut = False\<rparr>"

text \<open>
  A flight has what its function has in its closure: the number of the request, what was asked for,
  whether the effect that started it is still active, whether it shows that it loads.
\<close>

datatype dash_flight =
    FOverview nat bool bool
  | FLogs bool
  | FTail string nat bool bool
  | FAdmins bool
  | FAml nat bool bool
  | FAccount string nat bool
  | FScan
  | FReload string
  | FCreate new_admin
  | FToggle public_user

text \<open>The calls of a flight.\<close>

fun flight_calls :: "dash_flight \<Rightarrow> api_call list" where
  "flight_calls (FOverview _ refresh trends) = ApiOverview refresh # (if trends then [ApiTrends TREND_METRICS] else [])"
| "flight_calls (FLogs _) = page_calls TabLogs"
| "flight_calls (FTail source _ _ _) = [ApiLogTail source]"
| "flight_calls (FAdmins _) = page_calls TabAdmins"
| "flight_calls (FAml _ _ _) = page_calls TabAml"
| "flight_calls (FAccount a _ _) = [ApiAmlAccount a (js_of_int 200)]"
| "flight_calls FScan = [ApiAmlScan None]"
| "flight_calls (FReload source) = [ApiLogTail source, ApiAuditLogs]"
| "flight_calls (FCreate p) = [ApiCreateAdmin p, ApiAdminUsers]"
| "flight_calls (FToggle u) =
     [ApiUpdateAdmin (pv_id u)
       \<lparr>ud_email = None, ud_password = None, ud_displayName = None, ud_title = None, ud_roleId = None, ud_locale = None,
        ud_isActive = Some (\<not> pv_isActive u), ud_extraPermissions = None\<rparr>]"

type_synonym web = "dash \<times> dash_flight list"

text \<open>A refused token signs the user out; other failures are shown. The first argument is the general text.\<close>

definition apiFailure :: "string \<Rightarrow> api_failure \<Rightarrow> dash \<Rightarrow> dash" where
  "apiFailure general reason d =
     (case reason of
        ApiError m status \<Rightarrow> if status = 401 then d\<lparr>ds_loggedOut := True\<rparr> else d\<lparr>ds_error := m\<rparr>
      | OtherError \<Rightarrow> d\<lparr>ds_error := general\<rparr>)"

section \<open>Overview and trends\<close>

definition refreshOverview :: "bool \<Rightarrow> bool \<Rightarrow> web \<Rightarrow> web" where
  "refreshOverview refresh refreshTrends x =
     (let d = fst x; requestId = Suc (ds_overviewId d);
          shouldLoadTrends = (refreshTrends \<or> ds_trendCpu d = None \<or> ds_trendMemory d = None \<or> ds_trendConcurrent d = None)
      in (d\<lparr>ds_overviewId := requestId, ds_loadingOverview := ds_loadingOverview d \<or> ds_overview d = None,
             ds_loadingDetail := True, ds_error := []\<rparr>,
          snd x @ [FOverview requestId refresh shouldLoadTrends]))"

definition overview_answer ::
    "string \<Rightarrow> nat \<Rightarrow> api_failure + (overview \<times> (string \<times> series) list option) \<Rightarrow> dash \<Rightarrow> dash" where
  "overview_answer general requestId result d =
     (if requestId \<noteq> ds_overviewId d then d
      else (case result of
              Inl reason \<Rightarrow> apiFailure general reason d
            | Inr (ov, None) \<Rightarrow> d\<lparr>ds_overview := Some ov\<rparr>
            | Inr (ov, Some table) \<Rightarrow>
                d\<lparr>ds_overview := Some ov, ds_trendCpu := map_of table ''system.cpuPercent'',
                  ds_trendMemory := map_of table ''system.memoryPercent'',
                  ds_trendConcurrent := map_of table ''wallet.concurrentUsersEstimate''\<rparr>)
           \<lparr>ds_loadingOverview := False, ds_loadingDetail := False\<rparr>)"

section \<open>Effects\<close>

fun inactive :: "dash_flight \<Rightarrow> dash_flight" where
  "inactive (FLogs _) = FLogs False"
| "inactive (FTail s i _ l) = FTail s i False l"
| "inactive (FAdmins _) = FAdmins False"
| "inactive (FAml i _ l) = FAml i False l"
| "inactive (FAccount a i _) = FAccount a i False"
| "inactive f = f"

fun is_tail :: "dash_flight \<Rightarrow> bool" where
  "is_tail (FTail _ _ _ _) = True"
| "is_tail _ = False"

fun is_account :: "dash_flight \<Rightarrow> bool" where
  "is_account (FAccount _ _ _) = True"
| "is_account _ = False"

definition clean_up :: "(dash_flight \<Rightarrow> bool) \<Rightarrow> dash_flight list \<Rightarrow> dash_flight list" where
  "clean_up p run = map (\<lambda>f. if p f then inactive f else f) run"

definition loadLogsWorkspace :: "web \<Rightarrow> web" where
  "loadLogsWorkspace x =
     (if ds_activeTab (fst x) \<noteq> TabLogs then x
      else ((fst x)\<lparr>ds_loadingDetail := True, ds_error := []\<rparr>, snd x @ [FLogs True]))"

definition loadTail :: "bool \<Rightarrow> web \<Rightarrow> web" where
  "loadTail withLoading x =
     (let d = fst x; requestId = Suc (ds_tailId d)
      in if ds_activeTab d \<noteq> TabLogs \<or> ds_logSource d = [] then x
         else (d\<lparr>ds_tailId := requestId, ds_loadingDetail := ds_loadingDetail d \<or> withLoading\<rparr>,
               snd x @ [FTail (ds_logSource d) requestId True withLoading]))"

definition loadAdminData :: "web \<Rightarrow> web" where
  "loadAdminData x =
     (if ds_activeTab (fst x) \<noteq> TabAdmins then x
      else ((fst x)\<lparr>ds_loadingDetail := True, ds_error := []\<rparr>, snd x @ [FAdmins True]))"

definition loadAmlOverview :: "bool \<Rightarrow> web \<Rightarrow> web" where
  "loadAmlOverview withLoading x =
     (let d = fst x; requestId = Suc (ds_amlId d)
      in if ds_activeTab d \<noteq> TabAml then x
         else (d\<lparr>ds_amlId := requestId, ds_loadingDetail := ds_loadingDetail d \<or> withLoading, ds_error := []\<rparr>,
               snd x @ [FAml requestId True withLoading]))"

definition loadTransactions :: "web \<Rightarrow> web" where
  "loadTransactions x =
     (let d = fst x; requestId = Suc (ds_accountId d)
      in if ds_activeTab d \<noteq> TabAml \<or> ds_amlSelected d = [] then (d\<lparr>ds_amlTransactions := [], ds_amlTotal := js_of_int 0\<rparr>, snd x)
         else (d\<lparr>ds_accountId := requestId, ds_loadingDetail := True, ds_error := []\<rparr>,
               snd x @ [FAccount (ds_amlSelected d) requestId True]))"

definition setActiveTab :: "tab \<Rightarrow> web \<Rightarrow> web" where
  "setActiveTab t x =
     (if t = ds_activeTab (fst x) then x
      else loadTransactions (loadAmlOverview True (loadAdminData (loadTail True (loadLogsWorkspace
             ((fst x)\<lparr>ds_activeTab := t\<rparr>, clean_up (\<lambda>_. True) (snd x)))))))"

definition setSelectedLogSource :: "string \<Rightarrow> web \<Rightarrow> web" where
  "setSelectedLogSource s x =
     (if s = ds_logSource (fst x) then x
      else loadTail True ((fst x)\<lparr>ds_logSource := s\<rparr>, clean_up is_tail (snd x)))"

definition setAmlSelectedAccountId :: "string \<Rightarrow> web \<Rightarrow> web" where
  "setAmlSelectedAccountId a x =
     (if a = ds_amlSelected (fst x) then x
      else loadTransactions ((fst x)\<lparr>ds_amlSelected := a\<rparr>, clean_up is_account (snd x)))"

text \<open>The effects at the start: the overview is asked for, and there is no account to show.\<close>

definition mounted :: web where
  "mounted = loadTransactions (refreshOverview False True (dash_initial, []))"

section \<open>Answers\<close>

text \<open>The effects of a change run after the part of the function that follows the await.\<close>

definition end_detail :: "bool \<Rightarrow> dash \<Rightarrow> dash" where
  "end_detail b d = (if b then d\<lparr>ds_loadingDetail := False\<rparr> else d)"

definition next_source :: "string \<Rightarrow> log_source list \<Rightarrow> string" where
  "next_source selected sources =
     (if selected \<noteq> [] \<and> selected \<in> set (map ls_name sources) then selected
      else case sources of [] \<Rightarrow> [] | s # _ \<Rightarrow> ls_name s)"

definition logs_answer :: "string \<Rightarrow> bool \<Rightarrow> api_failure + (log_source list \<times> audit_log list) \<Rightarrow> web \<Rightarrow> web" where
  "logs_answer general active result x =
     (case result of
        Inl reason \<Rightarrow> (end_detail active (apiFailure general reason (fst x)), snd x)
      | Inr (sources, audits) \<Rightarrow>
          if \<not> active then x
          else setSelectedLogSource (next_source (ds_logSource (fst x)) sources)
                 ((fst x)\<lparr>ds_logSources := sources, ds_auditLogs := audits, ds_loadingDetail := False\<rparr>, snd x))"

definition tail_answer :: "string \<Rightarrow> nat \<Rightarrow> bool \<Rightarrow> bool \<Rightarrow> api_failure + log_tail \<Rightarrow> dash \<Rightarrow> dash" where
  "tail_answer general requestId active withLoading result d =
     (if \<not> active \<or> requestId \<noteq> ds_tailId d then d
      else end_detail withLoading
             (case result of Inl reason \<Rightarrow> apiFailure general reason d | Inr t \<Rightarrow> d\<lparr>ds_logTail := Some t\<rparr>))"

definition admins_answer ::
    "string \<Rightarrow> bool \<Rightarrow> api_failure + (public_user list \<times> admin_role list \<times> string list) \<Rightarrow> dash \<Rightarrow> dash" where
  "admins_answer general active result d =
     end_detail active
       (case result of
          Inl reason \<Rightarrow> apiFailure general reason d
        | Inr (users, roles, permissions) \<Rightarrow>
            if active then d\<lparr>ds_users := users, ds_roles := roles, ds_permissions := permissions\<rparr> else d)"

definition pick_account :: "string \<Rightarrow> aml_overview \<Rightarrow> string" where
  "pick_account current ov =
     (if current \<noteq> [] \<and> current \<in> set (map aa_accountId (ao_accounts ov)) then current
      else case ao_accounts ov of [] \<Rightarrow> [] | a # _ \<Rightarrow> aa_accountId a)"

definition show_aml :: "aml_overview \<Rightarrow> web \<Rightarrow> web" where
  "show_aml ov x =
     setAmlSelectedAccountId (pick_account (ds_amlSelected (fst x)) ov) ((fst x)\<lparr>ds_amlOverview := Some ov\<rparr>, snd x)"

definition aml_answer :: "string \<Rightarrow> nat \<Rightarrow> bool \<Rightarrow> bool \<Rightarrow> api_failure + aml_overview \<Rightarrow> web \<Rightarrow> web" where
  "aml_answer general requestId active withLoading result x =
     (if \<not> active \<or> requestId \<noteq> ds_amlId (fst x) then x
      else case result of
             Inl reason \<Rightarrow> (end_detail withLoading (apiFailure general reason (fst x)), snd x)
           | Inr ov \<Rightarrow> show_aml ov (end_detail withLoading (fst x), snd x))"

definition account_answer :: "string \<Rightarrow> nat \<Rightarrow> bool \<Rightarrow> api_failure + account_transactions \<Rightarrow> dash \<Rightarrow> dash" where
  "account_answer general requestId active result d =
     (if \<not> active \<or> requestId \<noteq> ds_accountId d then d
      else end_detail True
             (case result of
                Inl reason \<Rightarrow> apiFailure general reason d
              | Inr p \<Rightarrow> d\<lparr>ds_amlTransactions := at_items p, ds_amlTotal := at_total p\<rparr>))"

section \<open>Actions\<close>

definition onScanNow :: "web \<Rightarrow> web" where
  "onScanNow x = ((fst x)\<lparr>ds_loadingDetail := True, ds_error := []\<rparr>, snd x @ [FScan])"

definition scan_answer :: "string \<Rightarrow> api_failure + aml_overview \<Rightarrow> web \<Rightarrow> web" where
  "scan_answer general result x =
     (case result of
        Inl reason \<Rightarrow> (end_detail True (apiFailure general reason (fst x)), snd x)
      | Inr ov \<Rightarrow> show_aml ov (end_detail True (fst x), snd x))"

definition onReloadLogs :: "web \<Rightarrow> web" where
  "onReloadLogs x =
     (if ds_logSource (fst x) = [] then x
      else ((fst x)\<lparr>ds_loadingDetail := True, ds_error := []\<rparr>, snd x @ [FReload (ds_logSource (fst x))]))"

definition reload_answer :: "string \<Rightarrow> api_failure + (log_tail \<times> audit_log list) \<Rightarrow> dash \<Rightarrow> dash" where
  "reload_answer general result d =
     end_detail True
       (case result of
          Inl reason \<Rightarrow> apiFailure general reason d
        | Inr (t, audits) \<Rightarrow> d\<lparr>ds_logTail := Some t, ds_auditLogs := audits\<rparr>)"

definition onCreate :: "new_admin \<Rightarrow> web \<Rightarrow> web" where
  "onCreate p x = ((fst x)\<lparr>ds_loadingAction := True, ds_message := [], ds_error := []\<rparr>, snd x @ [FCreate p])"

text \<open>The answer of the second request, the list of users; the second argument is the text of success.\<close>

definition create_answer :: "string \<Rightarrow> string \<Rightarrow> api_failure + public_user list \<Rightarrow> dash \<Rightarrow> dash" where
  "create_answer general created result d =
     (case result of
        Inl reason \<Rightarrow> apiFailure general reason d
      | Inr users \<Rightarrow> d\<lparr>ds_users := users, ds_message := created\<rparr>)\<lparr>ds_loadingAction := False\<rparr>"

definition onToggleUser :: "public_user \<Rightarrow> web \<Rightarrow> web" where
  "onToggleUser u x = ((fst x)\<lparr>ds_loadingAction := True, ds_error := []\<rparr>, snd x @ [FToggle u])"

definition toggle_answer :: "string \<Rightarrow> api_failure + public_user \<Rightarrow> dash \<Rightarrow> dash" where
  "toggle_answer general result d =
     (case result of
        Inl reason \<Rightarrow> apiFailure general reason d
      | Inr updated \<Rightarrow> d\<lparr>ds_users := map (\<lambda>u. if pv_id u = pv_id updated then updated else u) (ds_users d)\<rparr>)
     \<lparr>ds_loadingAction := False\<rparr>"

definition filteredAuditLogs :: "string \<Rightarrow> audit_log list \<Rightarrow> audit_log list" where
  "filteredAuditLogs search logs =
     (if js_trim search = [] then logs
      else filter (\<lambda>l. js_includes (js_lower (js_join '' ''
             [coalesce (al_actorEmail l) [], al_path l, coalesce (al_outcome l) [], al_action l, al_resource l])) (js_lower search)) logs)"

definition serviceRiskCount :: "dash \<Rightarrow> nat" where
  "serviceRiskCount d =
     (case ds_overview d of None \<Rightarrow> 0 | Some ov \<Rightarrow> length (filter (\<lambda>s. sh_status s \<noteq> Healthy) (ov_services ov)))"

section \<open>Runs of the dashboard\<close>

text \<open>
  A state of a run has besides the dashboard the number of the request whose overview is shown, 0 when
  there is none. Timers, the user and answers interleave; the failures and results of answers are
  arbitrary. Nothing happens any more once the user is signed out. The button that refreshes is
  enabled when nothing loads.
\<close>

inductive web_step :: "string list \<Rightarrow> web \<times> nat \<Rightarrow> web \<times> nat \<Rightarrow> bool" for ps where
  timer: "\<not> ds_loggedOut (fst x) \<Longrightarrow> web_step ps (x, n) (refreshOverview False False x, n)"
| refresh_button: "\<not> ds_loggedOut d \<Longrightarrow> \<not> ds_loadingDetail d \<Longrightarrow>
    web_step ps ((d, run), n) (refreshOverview True True (d\<lparr>ds_message := []\<rparr>, run), n)"
| choose_tab: "\<not> ds_loggedOut (fst x) \<Longrightarrow> t \<in> set (navItems ps) \<Longrightarrow> web_step ps (x, n) (setActiveTab t x, n)"
| first_tab: "\<not> ds_loggedOut (fst x) \<Longrightarrow> navItems ps = t # ts \<Longrightarrow> ds_activeTab (fst x) \<notin> set (navItems ps) \<Longrightarrow>
    web_step ps (x, n) (setActiveTab t x, n)"
| tail_timer: "\<not> ds_loggedOut (fst x) \<Longrightarrow> web_step ps (x, n) (loadTail False x, n)"
| aml_timer: "\<not> ds_loggedOut (fst x) \<Longrightarrow> web_step ps (x, n) (loadAmlOverview False x, n)"
| choose_source: "\<not> ds_loggedOut (fst x) \<Longrightarrow> web_step ps (x, n) (setSelectedLogSource src x, n)"
| choose_account: "\<not> ds_loggedOut (fst x) \<Longrightarrow> web_step ps (x, n) (setAmlSelectedAccountId a x, n)"
| scan: "\<not> ds_loggedOut (fst x) \<Longrightarrow> web_step ps (x, n) (onScanNow x, n)"
| reload: "\<not> ds_loggedOut (fst x) \<Longrightarrow> web_step ps (x, n) (onReloadLogs x, n)"
| create: "\<not> ds_loggedOut (fst x) \<Longrightarrow> web_step ps (x, n) (onCreate p x, n)"
| toggle: "\<not> ds_loggedOut (fst x) \<Longrightarrow> web_step ps (x, n) (onToggleUser u x, n)"
| overview_arrives: "\<not> ds_loggedOut d \<Longrightarrow> i < length run \<Longrightarrow> run ! i = FOverview k refresh trends \<Longrightarrow>
    web_step ps ((d, run), n)
      ((overview_answer g k ov_res d, remove_nth i run), if k = ds_overviewId d \<and> \<not> isl ov_res then k else n)"
| logs_arrive: "\<not> ds_loggedOut d \<Longrightarrow> i < length run \<Longrightarrow> run ! i = FLogs active \<Longrightarrow>
    web_step ps ((d, run), n) (logs_answer g active logs_res (d, remove_nth i run), n)"
| tail_arrives: "\<not> ds_loggedOut d \<Longrightarrow> i < length run \<Longrightarrow> run ! i = FTail src k active l \<Longrightarrow>
    web_step ps ((d, run), n) ((tail_answer g k active l tail_res d, remove_nth i run), n)"
| admins_arrive: "\<not> ds_loggedOut d \<Longrightarrow> i < length run \<Longrightarrow> run ! i = FAdmins active \<Longrightarrow>
    web_step ps ((d, run), n) ((admins_answer g active admins_res d, remove_nth i run), n)"
| aml_arrives: "\<not> ds_loggedOut d \<Longrightarrow> i < length run \<Longrightarrow> run ! i = FAml k active l \<Longrightarrow>
    web_step ps ((d, run), n) (aml_answer g k active l aml_res (d, remove_nth i run), n)"
| account_arrives: "\<not> ds_loggedOut d \<Longrightarrow> i < length run \<Longrightarrow> run ! i = FAccount a k active \<Longrightarrow>
    web_step ps ((d, run), n) ((account_answer g k active account_res d, remove_nth i run), n)"
| scan_arrives: "\<not> ds_loggedOut d \<Longrightarrow> i < length run \<Longrightarrow> run ! i = FScan \<Longrightarrow>
    web_step ps ((d, run), n) (scan_answer g aml_res (d, remove_nth i run), n)"
| reload_arrives: "\<not> ds_loggedOut d \<Longrightarrow> i < length run \<Longrightarrow> run ! i = FReload src \<Longrightarrow>
    web_step ps ((d, run), n) ((reload_answer g reload_res d, remove_nth i run), n)"
| create_arrives: "\<not> ds_loggedOut d \<Longrightarrow> i < length run \<Longrightarrow> run ! i = FCreate p \<Longrightarrow>
    web_step ps ((d, run), n) ((create_answer g m create_res d, remove_nth i run), n)"
| toggle_arrives: "\<not> ds_loggedOut d \<Longrightarrow> i < length run \<Longrightarrow> run ! i = FToggle u \<Longrightarrow>
    web_step ps ((d, run), n) ((toggle_answer g toggle_res d, remove_nth i run), n)"

definition web_init :: "web \<times> nat \<Rightarrow> bool" where
  "web_init s \<longleftrightarrow> s = (mounted, 0)"

fun overview_id :: "dash_flight \<Rightarrow> nat list" where
  "overview_id (FOverview k _ _) = [k]"
| "overview_id _ = []"

definition overview_ids :: "dash_flight list \<Rightarrow> nat list" where
  "overview_ids run = concat (map overview_id run)"

text \<open>What a state says about requests for the overview.\<close>

definition overview_part :: "web \<Rightarrow> nat list \<times> nat \<times> bool" where
  "overview_part x = (overview_ids (snd x), ds_overviewId (fst x), ds_loadingOverview (fst x))"

text \<open>An active flight asks for what is selected.\<close>

fun asks_selected :: "dash \<Rightarrow> dash_flight \<Rightarrow> bool" where
  "asks_selected d (FTail src _ active _) = (active \<longrightarrow> ds_activeTab d = TabLogs \<and> src = ds_logSource d)"
| "asks_selected d (FAccount a _ active) = (active \<longrightarrow> ds_activeTab d = TabAml \<and> a = ds_amlSelected d)"
| "asks_selected d _ = True"

definition selected_ok :: "web \<Rightarrow> bool" where
  "selected_ok x \<longleftrightarrow> list_all (asks_selected (fst x)) (snd x)"

definition overview_ok :: "web \<times> nat \<Rightarrow> bool" where
  "overview_ok s \<longleftrightarrow>
     (case overview_part (fst s) of
        (ids, newest, loading) \<Rightarrow> distinct ids \<and> (\<forall>k\<in>set ids. k \<le> newest) \<and> snd s \<le> newest \<and> (loading \<longrightarrow> newest \<in> set ids))"

definition web_ok :: "web \<times> nat \<Rightarrow> bool" where
  "web_ok s \<longleftrightarrow> overview_ok s \<and> selected_ok (fst s)"

lemmas dash_fields = dash.simps fst_conv snd_conv

lemma overview_ids_simps [simp]:
  "overview_ids (run @ [f]) = overview_ids run @ overview_id f" "overview_ids (clean_up p run) = overview_ids run"
proof -
  have "overview_id (inactive f) = overview_id f" for f by (cases f) auto
  then show "overview_ids (clean_up p run) = overview_ids run"
    by (simp add: overview_ids_def clean_up_def comp_def if_distrib cong: if_cong)
qed (simp add: overview_ids_def)

lemma overview_ids_remove:
  assumes "i < length run"
  shows "\<exists>xs ys. overview_ids run = xs @ overview_id (run ! i) @ ys \<and> overview_ids (remove_nth i run) = xs @ ys"
proof -
  have "overview_ids run = overview_ids (take i run @ run ! i # drop (Suc i) run)" using assms by (simp add: id_take_nth_drop [symmetric])
  then show ?thesis by (auto simp add: overview_ids_def remove_nth_def)
qed

lemma overview_part_loads [simp]:
  "overview_part (loadLogsWorkspace x) = overview_part x" "overview_part (loadTail w x) = overview_part x"
  "overview_part (loadAdminData x) = overview_part x" "overview_part (loadAmlOverview w x) = overview_part x"
  "overview_part (loadTransactions x) = overview_part x"
  by (simp_all add: overview_part_def loadLogsWorkspace_def loadTail_def loadAdminData_def loadAmlOverview_def loadTransactions_def Let_def)

lemma overview_part_sets [simp]:
  "overview_part (setActiveTab t x) = overview_part x" "overview_part (setSelectedLogSource src x) = overview_part x"
  "overview_part (setAmlSelectedAccountId a x) = overview_part x"
  by (simp_all add: setActiveTab_def setSelectedLogSource_def setAmlSelectedAccountId_def) (simp_all add: overview_part_def)

lemma failure_fields [simp]:
  "ds_overviewId (apiFailure g e d) = ds_overviewId d" "ds_loadingOverview (apiFailure g e d) = ds_loadingOverview d"
  "ds_activeTab (apiFailure g e d) = ds_activeTab d" "ds_logSource (apiFailure g e d) = ds_logSource d"
  "ds_amlSelected (apiFailure g e d) = ds_amlSelected d"
  by (simp_all add: apiFailure_def split: api_failure.split)

lemma end_detail_fields [simp]:
  "ds_overviewId (end_detail b d) = ds_overviewId d" "ds_loadingOverview (end_detail b d) = ds_loadingOverview d"
  "ds_activeTab (end_detail b d) = ds_activeTab d" "ds_logSource (end_detail b d) = ds_logSource d"
  "ds_amlSelected (end_detail b d) = ds_amlSelected d"
  by (simp_all add: end_detail_def)

text \<open>What is selected, and what a change of the rest of the dashboard leaves alone.\<close>

definition selection :: "dash \<Rightarrow> tab \<times> string \<times> string" where
  "selection d = (ds_activeTab d, ds_logSource d, ds_amlSelected d)"

lemma selection_update [simp]:
  "selection (ds_loadingDetail_update f d) = selection d" "selection (ds_loadingAction_update f d) = selection d"
  "selection (ds_error_update h d) = selection d" "selection (ds_message_update h d) = selection d"
  by (simp_all add: selection_def)

lemma asks_selected_cong: "selection d = selection d' \<Longrightarrow> asks_selected d f = asks_selected d' f"
  by (cases f) (auto simp add: selection_def)

lemma selected_ok_cong: "selected_ok (d, run) \<Longrightarrow> selection d' = selection d \<Longrightarrow> selected_ok (d', run)"
  using asks_selected_cong [of d' d] by (simp add: selected_ok_def list_all_iff)

lemma selected_ok_snoc: "selected_ok (d, run) \<Longrightarrow> selection d' = selection d \<Longrightarrow> asks_selected d' f \<Longrightarrow> selected_ok (d', run @ [f])"
  using selected_ok_cong by (fastforce simp add: selected_ok_def)

lemma selected_ok_remove:
  assumes "selected_ok (d, run)" and "selection d' = selection d"
  shows "selected_ok (d', remove_nth i run)"
proof (rule selected_ok_cong [OF _ assms(2)])
  show "selected_ok (d, remove_nth i run)" using assms(1)
    by (auto simp add: selected_ok_def remove_nth_def list_all_iff dest: in_set_takeD in_set_dropD)
qed

lemma selected_ok_loads:
  assumes "selected_ok x"
  shows "selected_ok (loadLogsWorkspace x)" "selected_ok (loadTail w x)" "selected_ok (loadAdminData x)"
    "selected_ok (loadAmlOverview w x)" "selected_ok (loadTransactions x)" "selected_ok (refreshOverview b c x)"
  using assms by (cases x;
      auto simp add: loadLogsWorkspace_def loadTail_def loadAdminData_def loadAmlOverview_def loadTransactions_def refreshOverview_def Let_def
        selection_def intro: selected_ok_snoc selected_ok_cong)+

lemma selected_ok_clean_up:
  "selected_ok (d, run) \<Longrightarrow> (\<And>f. asks_selected d f \<Longrightarrow> asks_selected d' (if p f then inactive f else f)) \<Longrightarrow> selected_ok (d', clean_up p run)"
  unfolding selected_ok_def clean_up_def fst_conv snd_conv list.pred_map by (erule list.pred_mono_strong) simp

lemma selected_ok_sets:
  assumes "selected_ok x"
  shows "selected_ok (setActiveTab t x)" "selected_ok (setSelectedLogSource src x)" "selected_ok (setAmlSelectedAccountId a x)"
proof -
  obtain d run where x: "x = (d, run)" by fastforce
  have all: "asks_selected d' (inactive f)" for d' f by (cases f) auto
  show "selected_ok (setActiveTab t x)" using assms all unfolding x
    by (auto simp add: setActiveTab_def intro!: selected_ok_loads intro: selected_ok_clean_up [of d])
  have tail: "asks_selected (d\<lparr>ds_logSource := src\<rparr>) (if is_tail f then inactive f else f)" if "asks_selected d f" for f
    using that by (cases f) auto
  have account: "asks_selected (d\<lparr>ds_amlSelected := a\<rparr>) (if is_account f then inactive f else f)" if "asks_selected d f" for f
    using that by (cases f) auto
  show "selected_ok (setSelectedLogSource src x)" using assms selected_ok_clean_up [OF _ tail] unfolding x
    by (auto simp add: setSelectedLogSource_def intro!: selected_ok_loads)
  show "selected_ok (setAmlSelectedAccountId a x)" using assms selected_ok_clean_up [OF _ account] unfolding x
    by (auto simp add: setAmlSelectedAccountId_def intro!: selected_ok_loads)
qed

lemma answers_keep_selection:
  "selection (overview_answer g k r1 d) = selection d" "selection (tail_answer g k b l r2 d) = selection d"
  "selection (admins_answer g b r3 d) = selection d" "selection (account_answer g k b r4 d) = selection d"
  "selection (reload_answer g r5 d) = selection d" "selection (create_answer g m r6 d) = selection d"
  "selection (toggle_answer g r7 d) = selection d"
  by (auto simp add: selection_def overview_answer_def tail_answer_def admins_answer_def account_answer_def reload_answer_def
      create_answer_def toggle_answer_def split: sum.split prod.split option.split)

lemma selected_ok_answers:
  assumes "selected_ok (d, run)"
  shows "selected_ok (logs_answer g b r1 (d, run))" "selected_ok (aml_answer g k b l r2 (d, run))" "selected_ok (scan_answer g r2 (d, run))"
proof -
  have d: "selected_ok (d', run)" if "selection d' = selection d" for d' using selected_ok_cong [OF assms that] .
  show "selected_ok (logs_answer g b r1 (d, run))" using assms
    by (auto simp add: logs_answer_def selection_def intro!: d selected_ok_sets split: sum.split)
  have "selected_ok (show_aml ov (d', run))" if "selection d' = selection d" for ov d'
    using that by (auto simp add: show_aml_def selection_def intro!: d selected_ok_sets)
  then show "selected_ok (aml_answer g k b l r2 (d, run))" "selected_ok (scan_answer g r2 (d, run))" using assms
    by (auto simp add: aml_answer_def scan_answer_def selection_def intro!: d split: sum.split)
qed

lemma selected_ok_step: "web_step ps s t \<Longrightarrow> selected_ok (fst s) \<Longrightarrow> selected_ok (fst t)"
proof (induction rule: web_step.induct)
  case (refresh_button d run n)
  then show ?case by (auto intro!: selected_ok_loads selected_ok_cong [of d run] simp add: selection_def)
qed (auto simp add: onScanNow_def onReloadLogs_def onCreate_def onToggleUser_def answers_keep_selection
    intro!: selected_ok_loads selected_ok_sets selected_ok_answers intro: selected_ok_snoc selected_ok_remove)

lemma overview_part_answers [simp]:
  "overview_part (tail_answer g k b l r2 d, run) = overview_part (d, run)" "overview_part (admins_answer g b r3 d, run) = overview_part (d, run)"
  "overview_part (account_answer g k b r4 d, run) = overview_part (d, run)" "overview_part (reload_answer g r5 d, run) = overview_part (d, run)"
  "overview_part (create_answer g m r6 d, run) = overview_part (d, run)" "overview_part (toggle_answer g r7 d, run) = overview_part (d, run)"
  by (auto simp add: overview_part_def tail_answer_def admins_answer_def account_answer_def reload_answer_def create_answer_def
      toggle_answer_def split: sum.split prod.split)

lemma overview_part_web_answers [simp]:
  "overview_part (logs_answer g b r1 (d, run)) = overview_part (d, run)" "overview_part (aml_answer g k b l r2 (d, run)) = overview_part (d, run)"
  "overview_part (scan_answer g r2 (d, run)) = overview_part (d, run)"
  by (auto simp add: logs_answer_def aml_answer_def scan_answer_def show_aml_def split: sum.split prod.split)
    (auto simp add: overview_part_def)

lemma overview_part_actions [simp]:
  "overview_part (onScanNow x) = overview_part x" "overview_part (onReloadLogs x) = overview_part x"
  "overview_part (onCreate p x) = overview_part x" "overview_part (onToggleUser u x) = overview_part x"
  by (auto simp add: overview_part_def onScanNow_def onReloadLogs_def onCreate_def onToggleUser_def)

lemma overview_part_other_flight:
  "i < length run \<Longrightarrow> overview_id (run ! i) = [] \<Longrightarrow> overview_part (d, remove_nth i run) = overview_part (d, run)"
  using overview_ids_remove [of i run] by (auto simp add: overview_part_def)

lemma overview_ok_refresh:
  assumes "overview_ok (x, n)"
  shows "overview_ok (refreshOverview b c x, n)"
  using assms by (fastforce simp add: overview_ok_def overview_part_def refreshOverview_def Let_def)

lemma overview_ok_arrives:
  assumes "overview_ok ((d, run), n)" and "i < length run" and "run ! i = FOverview k b c"
  shows "overview_ok ((overview_answer g k r d, remove_nth i run), if k = ds_overviewId d \<and> \<not> isl r then k else n)"
proof -
  obtain xs ys where ids: "overview_ids run = xs @ [k] @ ys" "overview_ids (remove_nth i run) = xs @ ys"
    using overview_ids_remove [OF assms(2)] assms(3) by auto
  have "ds_overviewId (overview_answer g k r d) = ds_overviewId d"
    by (auto simp add: overview_answer_def split: sum.split prod.split option.split)
  moreover have "\<not> ds_loadingOverview (overview_answer g k r d)" if "k = ds_overviewId d"
    using that by (simp add: overview_answer_def)
  moreover have "overview_answer g k r d = d" if "k \<noteq> ds_overviewId d" using that by (simp add: overview_answer_def)
  ultimately show ?thesis using assms(1) ids by (cases "k = ds_overviewId d") (auto simp add: overview_ok_def overview_part_def)
qed

lemma overview_ok_part: "overview_ok (x, n) \<Longrightarrow> overview_part y = overview_part x \<Longrightarrow> overview_ok (y, n)"
  by (simp add: overview_ok_def)

lemma overview_ok_step: "web_step ps s t \<Longrightarrow> overview_ok s \<Longrightarrow> overview_ok t"
proof (induction rule: web_step.induct)
  case (refresh_button d run n)
  then show ?case by (auto intro!: overview_ok_refresh intro: overview_ok_part simp add: overview_part_def)
next
  case (overview_arrives d i run k refresh trends n g ov_res)
  then show ?case using overview_ok_arrives by blast
qed (auto simp add: overview_part_other_flight intro: overview_ok_refresh overview_ok_part)

interpretation pages: invariant_system web_init "web_step ps" web_ok for ps
proof
  show "web_init s \<Longrightarrow> web_ok s" for s
    by (simp add: web_init_def web_ok_def mounted_def overview_ok_def overview_part_def loadTransactions_def refreshOverview_def
        dash_initial_def selected_ok_def overview_ids_def Let_def)
  show "web_ok s \<Longrightarrow> web_step ps s t \<Longrightarrow> web_ok t" for s t
    by (simp add: web_ok_def overview_ok_step selected_ok_step)
qed

lemma shown_grows: "web_step ps s t \<Longrightarrow> overview_ok s \<Longrightarrow> snd s \<le> snd t"
  by (induction rule: web_step.induct) (auto simp add: overview_ok_def overview_part_def)


definition slow_state :: dash where
  "slow_state = fst (refreshOverview False False mounted)"


text \<open>
  What the effects load is shown only for what is selected: a tail of a log that arrives for another source
  than the selected one is dropped, and so are transactions of another account than the selected one.
\<close>

theorem selected_is_shown:
  assumes "reach web_init (web_step ps) ((d, run), shown)"
  shows "(\<forall>src k active l. FTail src k active l \<in> set run \<longrightarrow>
      (\<forall>g r. ds_logTail (tail_answer g k active l r d) \<noteq> ds_logTail d \<longrightarrow> ds_activeTab d = TabLogs \<and> src = ds_logSource d)) \<and>
    (\<forall>a k active. FAccount a k active \<in> set run \<longrightarrow>
      (\<forall>g r. ds_amlTransactions (account_answer g k active r d) \<noteq> ds_amlTransactions d \<longrightarrow> ds_activeTab d = TabAml \<and> a = ds_amlSelected d))"
proof -
  have ok: "asks_selected d f" if "f \<in> set run" for f
    using pages.reach_inv [OF assms] that by (simp add: web_ok_def selected_ok_def list_all_iff)
  have "ds_activeTab d = TabLogs \<and> src = ds_logSource d"
    if "FTail src k active l \<in> set run" "ds_logTail (tail_answer g k active l r d) \<noteq> ds_logTail d" for src k active l g r
    using ok [OF that(1)] that(2) by (auto simp add: tail_answer_def split: if_splits)
  moreover have "ds_activeTab d = TabAml \<and> a = ds_amlSelected d"
    if "FAccount a k active \<in> set run" "ds_amlTransactions (account_answer g k active r d) \<noteq> ds_amlTransactions d" for a k active g r
    using ok [OF that(1)] that(2) by (auto simp add: account_answer_def split: if_splits)
  ultimately show ?thesis by blast
qed

definition tail_of :: "string \<Rightarrow> log_tail" where
  "tail_of src = \<lparr>lt_source = src, lt_kind = KindSystem, lt_fileName = src, lt_lines = []\<rparr>"

definition two_sources :: web where
  "two_sources = setSelectedLogSource ''b'' (onReloadLogs (setSelectedLogSource ''a'' (setActiveTab TabLogs mounted)))"

lemmas mounted_defs = mounted_def dash_initial_def refreshOverview_def loadTransactions_def setActiveTab_def loadLogsWorkspace_def
  loadTail_def loadAdminData_def loadAmlOverview_def setSelectedLogSource_def onReloadLogs_def clean_up_def Let_def

lemma two_sources_state:
  "\<not> ds_loggedOut (fst mounted)" "\<not> ds_loggedOut (fst (setActiveTab TabLogs mounted))"
  "\<not> ds_loggedOut (fst (setSelectedLogSource ''a'' (setActiveTab TabLogs mounted)))"
  "\<not> ds_loggedOut (fst (onReloadLogs (setSelectedLogSource ''a'' (setActiveTab TabLogs mounted))))"
  "\<not> ds_loggedOut (fst two_sources)" "ds_logSource (fst two_sources) = ''b''"
  "snd two_sources = [FOverview 1 False True, FLogs True, FTail ''a'' 1 False True, FReload ''a'', FTail ''b'' 2 True True]"
  by (simp_all add: two_sources_def mounted_defs)

lemma two_sources_reached: "reach web_init (web_step [''logs:view'']) (two_sources, 0)"
proof -
  have "reach web_init (web_step [''logs:view'']) (mounted, 0)" by (rule reach.start) (simp add: web_init_def)
  moreover have "TabLogs \<in> set (navItems [''logs:view''])" by (simp add: navItems_def)
  ultimately have "reach web_init (web_step [''logs:view'']) (setActiveTab TabLogs mounted, 0)"
    using two_sources_state(1) by (blast intro: reach.next_state web_step.choose_tab)
  then have "reach web_init (web_step [''logs:view'']) (setSelectedLogSource ''a'' (setActiveTab TabLogs mounted), 0)"
    using two_sources_state(2) by (blast intro: reach.next_state web_step.choose_source)
  then have "reach web_init (web_step [''logs:view'']) (onReloadLogs (setSelectedLogSource ''a'' (setActiveTab TabLogs mounted)), 0)"
    using two_sources_state(3) by (blast intro: reach.next_state web_step.reload)
  then show ?thesis unfolding two_sources_def using two_sources_state(4) by (blast intro: reach.next_state web_step.choose_source)
qed

theorem selected_is_shown_witness:
  "ds_logTail (tail_answer ''e'' 1 False True (Inr (tail_of ''a'')) (fst two_sources)) = ds_logTail (fst two_sources)"
proof -
  have flight: "FTail ''a'' 1 False True \<in> set (snd two_sources)" by (simp add: two_sources_state)
  have "reach web_init (web_step [''logs:view'']) ((fst two_sources, snd two_sources), 0)" using two_sources_reached by simp
  from selected_is_shown [OF this, THEN conjunct1, rule_format, OF flight, of "''e''" "Inr (tail_of ''a'')"] show ?thesis
    using two_sources_state(6) by auto
qed

text \<open>
  The button that reloads a log does not look at what is selected when its answer comes: the tail of one
  source can stand under the name of another.
\<close>

theorem reload_shows_other_source:
  "\<exists>d run. reach web_init (web_step [''logs:view'']) ((d, run), 0) \<and> ds_logSource d = ''b'' \<and> ds_logTail d = Some (tail_of ''a'')"
proof -
  let ?d = "reload_answer ''e'' (Inr (tail_of ''a'', [])) (fst two_sources)"
  have "web_step [''logs:view''] ((fst two_sources, snd two_sources), 0) ((?d, remove_nth 3 (snd two_sources)), 0)"
    by (rule web_step.reload_arrives [of _ _ _ "''a''"]) (simp_all add: two_sources_state)
  then have "reach web_init (web_step [''logs:view'']) ((?d, remove_nth 3 (snd two_sources)), 0)"
    using two_sources_reached reach.next_state [of web_init "web_step [''logs:view'']" "((fst two_sources, snd two_sources), 0)"] by simp
  moreover have "ds_logSource ?d = ''b''" "ds_logTail ?d = Some (tail_of ''a'')"
    by (simp_all add: reload_answer_def two_sources_state end_detail_def)
  ultimately show ?thesis by blast
qed

section \<open>The session\<close>

datatype ui_locale = Vi | En

definition resolveLocale :: "string \<Rightarrow> ui_locale" where
  "resolveLocale input = (if input = ''en'' then En else Vi)"

definition locale_text :: "ui_locale \<Rightarrow> string" where
  "locale_text l = (case l of Vi \<Rightarrow> ''vi'' | En \<Rightarrow> ''en'')"

definition loadLocale :: "string option \<Rightarrow> ui_locale" where
  "loadLocale stored = (if stored = Some ''en'' then En else Vi)"

text \<open>
  The state of the component \<open>App\<close> and the two entries of the storage of the browser; \<open>ap_check\<close> is the
  session whose check by the back end is under way.
\<close>

record app =
  ap_session :: "login_result option"
  ap_locale :: ui_locale
  ap_ready :: bool
  ap_savedSession :: "login_result option"
  ap_savedLocale :: "string option"
  ap_check :: "login_result option"

definition setLocale :: "ui_locale \<Rightarrow> app \<Rightarrow> app" where
  "setLocale l a = a\<lparr>ap_locale := l, ap_savedLocale := Some (locale_text l)\<rparr>"

definition hasProfileChange :: "authenticated_user \<Rightarrow> authenticated_user \<Rightarrow> bool" where
  "hasProfileChange u v \<longleftrightarrow>
     mv_id u \<noteq> mv_id v \<or> mv_email u \<noteq> mv_email v \<or> mv_displayName u \<noteq> mv_displayName v \<or> mv_title u \<noteq> mv_title v \<or>
     mv_locale u \<noteq> mv_locale v \<or> mv_roleCode u \<noteq> mv_roleCode v \<or> js_join ''|'' (mv_permissions u) \<noteq> js_join ''|'' (mv_permissions v)"

text \<open>The effect of a change of the session, after which an earlier check is ignored.\<close>

definition setSession :: "login_result option \<Rightarrow> app \<Rightarrow> app" where
  "setSession s a =
     (case s of
        Some x \<Rightarrow> if lr_accessToken x \<noteq> [] then a\<lparr>ap_session := s, ap_check := s\<rparr> else a\<lparr>ap_session := s, ap_check := None, ap_ready := True\<rparr>
      | None \<Rightarrow> a\<lparr>ap_session := None, ap_check := None, ap_ready := True\<rparr>)"

definition persistSession :: "login_result \<Rightarrow> app \<Rightarrow> app" where
  "persistSession s a = a\<lparr>ap_savedSession := Some s\<rparr>"

definition clearSessionStorage :: "app \<Rightarrow> app" where
  "clearSessionStorage a = a\<lparr>ap_savedSession := None\<rparr>"

definition app_start :: "login_result option \<Rightarrow> string option \<Rightarrow> app" where
  "app_start savedSession savedLocale =
     setSession savedSession
       \<lparr>ap_session = savedSession, ap_locale = loadLocale savedLocale, ap_ready = False, ap_savedSession = savedSession,
        ap_savedLocale = Some (locale_text (loadLocale savedLocale)), ap_check = None\<rparr>"

definition profile_locale :: "authenticated_user \<Rightarrow> app \<Rightarrow> app" where
  "profile_locale u a = (if ap_savedLocale a = None then setLocale (resolveLocale (mv_locale u)) a else a)"

definition bootstrap_answer :: "login_result \<Rightarrow> api_failure + authenticated_user \<Rightarrow> app \<Rightarrow> app" where
  "bootstrap_answer session result a =
     (case result of
        Inr user \<Rightarrow>
          let next_session = session\<lparr>lr_user := user\<rparr>
          in (profile_locale user
               (if hasProfileChange (lr_user session) user then persistSession next_session (setSession (Some next_session) a)
                else a\<lparr>ap_check := None\<rparr>))\<lparr>ap_ready := True\<rparr>
      | Inl (ApiError m status) \<Rightarrow>
          if status = 401 then (setSession None (clearSessionStorage a))\<lparr>ap_ready := True\<rparr> else a\<lparr>ap_check := None, ap_ready := True\<rparr>
      | Inl OtherError \<Rightarrow> a\<lparr>ap_check := None, ap_ready := True\<rparr>)"

definition onSignedIn :: "login_result \<Rightarrow> app \<Rightarrow> app" where
  "onSignedIn s a = profile_locale (lr_user s) (persistSession s (setSession (Some s) a))"

definition onLogout :: "app \<Rightarrow> app" where
  "onLogout a = setSession None (clearSessionStorage a)"

inductive app_step :: "app \<Rightarrow> app \<Rightarrow> bool" where
  checked_session: "ap_check a = Some s \<Longrightarrow> app_step a (bootstrap_answer s r a)"
| signed_in: "ap_session a = None \<Longrightarrow> ap_ready a \<Longrightarrow> app_step a (onSignedIn s a)"
| logged_out: "ap_session a \<noteq> None \<Longrightarrow> ap_ready a \<Longrightarrow> app_step a (onLogout a)"
| choose_locale: "ap_ready a \<Longrightarrow> app_step a (setLocale l a)"

definition app_init :: "app \<Rightarrow> bool" where
  "app_init a \<longleftrightarrow> (\<exists>s l. a = app_start s l)"

definition app_ok :: "app \<Rightarrow> bool" where
  "app_ok a \<longleftrightarrow> ap_savedSession a = ap_session a \<and> ap_savedLocale a = Some (locale_text (ap_locale a)) \<and>
     (ap_check a \<noteq> None \<longrightarrow> ap_check a = ap_session a) \<and> (ap_ready a \<or> ap_check a \<noteq> None)"

lemmas app_defs = onSignedIn_def onLogout_def setSession_def persistSession_def clearSessionStorage_def profile_locale_def setLocale_def
  bootstrap_answer_def

interpretation apps: invariant_system app_init app_step app_ok
proof
  show "app_init a \<Longrightarrow> app_ok a" for a
  proof -
    assume "app_init a"
    then obtain s l where "a = app_start s l" by (auto simp add: app_init_def)
    then show "app_ok a" by (cases s) (simp_all add: app_start_def setSession_def app_ok_def)
  qed
  show "app_ok a \<Longrightarrow> app_step a b \<Longrightarrow> app_ok b" for a b
    by (rotate_tac 1, induction rule: app_step.induct)
      (auto simp add: app_ok_def app_defs Let_def split: option.split sum.split api_failure.split)
qed

text \<open>
  The storage of the browser always holds the session and the locale of the running client, so that they
  survive a reload of the page, and the client waits only while a check is under way. The locale of the
  profile never takes effect, because the one of the client is stored before it is looked for: only the
  user changes the locale.
\<close>

theorem stored_session_follows:
  assumes "reach app_init app_step a"
  shows "ap_savedSession a = ap_session a \<and> loadLocale (ap_savedLocale a) = ap_locale a \<and> (\<not> ap_ready a \<longrightarrow> ap_check a \<noteq> None) \<and>
    (\<forall>s r. ap_locale (bootstrap_answer s r a) = ap_locale a) \<and> (\<forall>s. ap_locale (onSignedIn s a) = ap_locale a)"
proof -
  have ok: "app_ok a" using apps.reach_inv [OF assms] .
  moreover have "loadLocale (Some (locale_text l)) = l" for l by (cases l) (simp_all add: loadLocale_def locale_text_def)
  moreover have "ap_locale (bootstrap_answer s r a) = ap_locale a" "ap_locale (onSignedIn s a) = ap_locale a" for s r
    using ok by (auto simp add: app_ok_def app_defs Let_def split: option.split sum.split api_failure.split)
  ultimately show ?thesis by (auto simp add: app_ok_def)
qed

theorem stored_session_follows_witness:
  "ap_locale (onSignedIn \<lparr>lr_accessToken = ''t'', lr_user = anonymous\<lparr>mv_locale := ''en''\<rparr>\<rparr> (app_start None None)) = Vi"
proof -
  have "reach app_init app_step (app_start None None)" by (rule reach.start) (auto simp add: app_init_def)
  then show ?thesis using stored_session_follows by (simp add: app_start_def setSession_def loadLocale_def)
qed

end
