(* ===== verification/Monitor_Views.thy ===== *)
theory Monitor_Views
  imports Monitor_Web
begin

text \<open>
  What the pages of the monitoring web client compute from the state (\<^verbatim>\<open>App.tsx\<close>): tones, the order of
  lists, the figures of the wallet back end, of the chain and of the AML page, the points of a trend, and the
  form for a new administrator. Markup, texts and number formats are left out.
\<close>

section \<open>Tones and order\<close>

datatype tone = ToneHealthy | ToneWarning | ToneCritical | ToneNeutral

definition toneFromStatus :: "string \<Rightarrow> tone" where
  "toneFromStatus status =
     (if status \<in> {''healthy'', ''connected'', ''ok''} then ToneHealthy
      else if status = ''warning'' then ToneWarning
      else if status \<in> {''critical'', ''unreachable'', ''disconnected''} then ToneCritical
      else ToneNeutral)"

definition toneFromAmlRisk :: "string \<Rightarrow> tone" where
  "toneFromAmlRisk riskLevel =
     (let r = js_upper riskLevel
      in if r = ''CRITICAL'' then ToneCritical
         else if r = ''HIGH'' \<or> r = ''MEDIUM'' then ToneWarning
         else if r = ''LOW'' then ToneHealthy
         else ToneNeutral)"

definition toneFromThreshold :: "js_number option \<Rightarrow> rat \<Rightarrow> rat \<Rightarrow> tone" where
  "toneFromThreshold v warning critical =
     (case v of
        None \<Rightarrow> ToneNeutral
      | Some x \<Rightarrow>
          if js_ge x (JsNum critical) then ToneCritical
          else if js_ge x (JsNum warning) then ToneWarning
          else ToneHealthy)"

definition severityWeight :: "string \<Rightarrow> int" where
  "severityWeight status =
     (if status = ''critical'' then 3 else if status = ''warning'' then 2 else if status = ''unknown'' then 1 else 0)"

definition orderedServices :: "service_health list \<Rightarrow> service_health list" where
  "orderedServices = sort_key (\<lambda>s. - severityWeight (health_text (sh_status s)))"

definition orderedNodes :: "chain_node list \<Rightarrow> chain_node list" where
  "orderedNodes = sort_key (\<lambda>n. - severityWeight (health_text (cn_status n)))"

definition orderedAlerts :: "alert list \<Rightarrow> alert list" where
  "orderedAlerts = sort_key (\<lambda>a. - severityWeight (severity_text (ae_severity a)))"

section \<open>Figures\<close>

definition view_average :: "rat list \<Rightarrow> js_number" where
  "view_average values =
     (if values = [] then JsNum 0 else js_over (sum_double values) (of_nat (length values)))"

text \<open>The values are sorted.\<close>

definition percentile :: "'a list \<Rightarrow> rat \<Rightarrow> 'a option" where
  "percentile values percentileRank =
     (if values = [] then None
      else let rank = num_of (to_double (min (max percentileRank 0) 100 / 100));
               index = \<lceil>num_of (to_double (rank * of_nat (length values)))\<rceil> - 1;
               i = nat (max 0 index)
           in Some (if i < length values then values ! i else last values))"

definition status_count :: "health \<Rightarrow> service_health list \<Rightarrow> nat" where
  "status_count h services = length (filter (\<lambda>s. sh_status s = h) services)"

definition availabilityRatio :: "service_health list \<Rightarrow> js_number option" where
  "availabilityRatio services =
     (if services = [] then None
      else Some (js_times (js_over (of_nat (status_count Healthy services)) (of_nat (length services))) 100))"

definition latencyValues :: "service_health list \<Rightarrow> int list" where
  "latencyValues services = sort (concat (map (\<lambda>s. case sh_latencyMs s of None \<Rightarrow> [] | Some l \<Rightarrow> [l]) services))"

definition averageLatency :: "service_health list \<Rightarrow> js_number option" where
  "averageLatency services =
     (if latencyValues services = [] then None else Some (view_average (map of_int (latencyValues services))))"

definition p95Latency :: "service_health list \<Rightarrow> int option" where
  "p95Latency services = percentile (latencyValues services) 95"

definition slowestService :: "service_health list \<Rightarrow> service_health option" where
  "slowestService services =
     (case sort_key (\<lambda>s. - coalesce (sh_latencyMs s) 0) (filter (\<lambda>s. sh_latencyMs s \<noteq> None) services) of
        [] \<Rightarrow> None
      | s # _ \<Rightarrow> Some s)"

definition availability_tone :: "service_health list \<Rightarrow> tone" where
  "availability_tone services = toneFromThreshold (availabilityRatio services) 95 99"

text \<open>Which of the three headlines the page of the wallet back end shows, with its number.\<close>

datatype headline = SomeCritical nat | SomeWarning nat | AllHealthy

definition statusHeadline :: "service_health list \<Rightarrow> headline" where
  "statusHeadline services =
     (if 0 < status_count Critical services then SomeCritical (status_count Critical services)
      else if 0 < status_count Warned services then SomeWarning (status_count Warned services)
      else AllHealthy)"

definition is_orderer :: "chain_node \<Rightarrow> bool" where
  "is_orderer n \<longleftrightarrow>
     js_includes (js_lower (cn_role n)) ''orderer'' \<or> js_includes (js_lower (cn_name n)) ''orderer'' \<or> js_includes (cn_url n) '':9500''"

definition ordererStatus :: "chain_node list \<Rightarrow> health" where
  "ordererStatus nodes =
     (let os = filter is_orderer nodes
      in if os = [] then Unknown
         else if list_ex (\<lambda>n. cn_status n = Critical) os then Critical
         else if list_ex (\<lambda>n. cn_status n = Warned \<or> cn_status n = Unknown) os then Warned
         else Healthy)"

definition activeOrdererCount :: "chain_node list \<Rightarrow> nat" where
  "activeOrdererCount nodes = length (filter (\<lambda>n. is_orderer n \<and> cn_status n = Healthy) nodes)"

definition topRisk :: "aml_overview \<Rightarrow> string" where
  "topRisk ov =
     (case sort_key (\<lambda>a. - num_of (aa_maxFraudProbability a)) (ao_accounts ov) of [] \<Rightarrow> ''LOW'' | a # _ \<Rightarrow> aa_riskLevel a)"

definition amlStatusTone :: "aml_overview \<Rightarrow> tone" where
  "amlStatusTone ov =
     (if ao_status ov = ''error'' then ToneCritical else if ao_status ov = ''busy'' then ToneWarning else ToneHealthy)"

definition numericPoints :: "series option \<Rightarrow> (int \<times> js_number) list" where
  "numericPoints s =
     (case s of
        None \<Rightarrow> []
      | Some x \<Rightarrow> concat (map (\<lambda>p. case snd p of None \<Rightarrow> [] | Some v \<Rightarrow> [(fst p, v)]) (sr_points x)))"

definition latestPoint :: "series option \<Rightarrow> (int \<times> js_number) option" where
  "latestPoint s = (if numericPoints s = [] then None else Some (last (numericPoints s)))"

section \<open>The form for a new administrator\<close>

definition empty_form :: new_admin where
  "empty_form = \<lparr>na_email = [], na_password = [], na_displayName = [], na_title = [], na_roleId = [], na_locale = ''vi'',
     na_extraPermissions = []\<rparr>"

definition effectiveRoleId :: "new_admin \<Rightarrow> admin_role list \<Rightarrow> string" where
  "effectiveRoleId form roles =
     (if na_roleId form \<noteq> [] then na_roleId form else case roles of [] \<Rightarrow> [] | r # _ \<Rightarrow> ro_id r)"

text \<open>The box of a permission is ticked when the form has it; a click turns it over.\<close>

definition click_permission :: "string \<Rightarrow> new_admin \<Rightarrow> new_admin" where
  "click_permission p form =
     (let ticked = (p \<notin> set (na_extraPermissions form))
      in form\<lparr>na_extraPermissions :=
          (if ticked then na_extraPermissions form @ [p] else filter (\<lambda>x. x \<noteq> p) (na_extraPermissions form))\<rparr>)"

definition form_payload :: "new_admin \<Rightarrow> admin_role list \<Rightarrow> new_admin" where
  "form_payload form roles = form\<lparr>na_roleId := effectiveRoleId form roles\<rparr>"

definition form_after :: "bool \<Rightarrow> new_admin \<Rightarrow> new_admin" where
  "form_after created form = (if created then empty_form else form)"

section \<open>Facts\<close>

lemma critical_services_first:
  assumes "i \<le> j" and "j < length ss" and "sh_status (orderedServices ss ! j) = Critical"
  shows "sh_status (orderedServices ss ! i) = Critical"
proof -
  let ?k = "\<lambda>s. - severityWeight (health_text (sh_status s))"
  have "map ?k (orderedServices ss) ! i \<le> map ?k (orderedServices ss) ! j"
    using assms(1,2) by (intro sorted_nth_mono) (simp_all add: orderedServices_def)
  then have "?k (orderedServices ss ! i) \<le> - 3" using assms by (simp add: orderedServices_def severityWeight_def)
  then show ?thesis by (cases "sh_status (orderedServices ss ! i)") (simp_all add: severityWeight_def)
qed

lemma percentile_between:
  assumes "sorted vs" and "vs \<noteq> []"
  shows "\<exists>v. percentile vs p = Some v \<and> v \<in> set vs \<and> hd vs \<le> v \<and> v \<le> last vs"
proof -
  obtain v where v: "percentile vs p = Some v" "v \<in> set vs" using assms(2) by (fastforce simp add: percentile_def Let_def)
  then obtain i where "i < length vs" "v = vs ! i" by (metis in_set_conv_nth)
  then have "vs ! 0 \<le> v \<and> v \<le> vs ! (length vs - 1)" using assms(1) by (auto intro: sorted_nth_mono)
  then show ?thesis using v assms(2) by (simp add: hd_conv_nth last_conv_nth)
qed

lemma orderer_critical_iff:
  "ordererStatus nodes = Critical \<longleftrightarrow> (\<exists>n\<in>set nodes. is_orderer n \<and> cn_status n = Critical)"
  by (auto simp add: ordererStatus_def Let_def list_ex_iff filter_empty_conv)

text \<open>
  The figures of the wallet page: the 95th percentile of the latencies is one of them, and lies between the least
  and the greatest; the tone of the availability is upside down, because the same thresholds are used as
  for latencies: services that all are healthy are shown in the critical tone.
\<close>

theorem wallet_page_figures:
  "(latencyValues ss \<noteq> [] \<longrightarrow> (\<exists>l. p95Latency ss = Some l \<and> l \<in> set (latencyValues ss) \<and>
      Min (set (latencyValues ss)) \<le> l \<and> l \<le> Max (set (latencyValues ss)))) \<and>
   (ss \<noteq> [] \<and> (\<forall>s\<in>set ss. sh_status s = Healthy) \<longrightarrow> availability_tone ss = ToneCritical)"
proof (intro conjI impI)
  assume ne: "latencyValues ss \<noteq> []"
  have "sorted (latencyValues ss)" by (simp add: latencyValues_def)
  from percentile_between [OF this ne, of 95] show "\<exists>l. p95Latency ss = Some l \<and> l \<in> set (latencyValues ss) \<and>
      Min (set (latencyValues ss)) \<le> l \<and> l \<le> Max (set (latencyValues ss))"
    by (auto simp add: p95Latency_def)
next
  assume h: "ss \<noteq> [] \<and> (\<forall>s\<in>set ss. sh_status s = Healthy)"
  then have "status_count Healthy ss = length ss" by (simp add: status_count_def)
  moreover have "to_double 1 = JsNum 1 \<and> to_double 100 = JsNum 100" using to_double_whole [of 1] to_double_whole [of 100] by simp
  ultimately have "availabilityRatio ss = Some (JsNum 100)"
    using h by (simp add: availabilityRatio_def js_over_def js_times_def)
  then show "availability_tone ss = ToneCritical" by (simp add: availability_tone_def toneFromThreshold_def)
qed

theorem wallet_page_figures_witness:
  "availability_tone [\<lparr>sh_name = ''api'', sh_url = ''u'', sh_status = Healthy, sh_latencyMs = Some 5, sh_httpStatus = Some 200,
     sh_lastCheckedAt = [], sh_detail = None\<rparr>] = ToneCritical"
  using wallet_page_figures [THEN conjunct2] by simp

text \<open>
  The form for a new administrator sends every extra permission once, as the back end demands, and exactly
  those whose boxes were clicked an odd number of times.
\<close>

theorem clicked_permissions:
  "distinct (na_extraPermissions (foldl (\<lambda>f p. click_permission p f) empty_form clicks)) \<and>
   (p \<in> set (na_extraPermissions (foldl (\<lambda>f p. click_permission p f) empty_form clicks)) \<longleftrightarrow> odd (count_list clicks p))"
proof (induction clicks rule: rev_induct)
  case Nil
  then show ?case by (simp add: empty_form_def)
next
  case (snoc q clicks)
  then show ?case by (auto simp add: click_permission_def Let_def)
qed

end
