(* ===== verification/Spec2Isabelle.thy ===== *)
theory Spec2Isabelle
  imports Tx_Props Settlement Chain_Adapter Own_Money Monitor_Views
begin

text \<open>
  A verification library for the back end of the Kufi e-wallet (\<^verbatim>\<open>src/e-wallet\<close>) and for the
  system that monitors it (\<^verbatim>\<open>src/monitoring_system\<close>).

  \<^bold>\<open>The program.\<close> The \<^emph>\<open>transaction service\<close> keeps wallets, transactions, a double-entry ledger,
  funding sources and an outbox of events in one database. A transfer inside the system moves money
  at once; deposits, withdrawals and external transfers are submitted to the \<^emph>\<open>outside-payment
  service\<close>, which talks to payment partners over HTTP and keeps its own table of external transfers.
  The \<^emph>\<open>settlement service\<close> polls: it lists pending external transactions of the one, checks them
  at the other, and marks their settlement. A worker of the transaction service anchors transactions on
  a ledger network through the \<^emph>\<open>chain service\<close>, which posts to the gateway of the network, reads,
  confirms and signs receipts. The \<^emph>\<open>authentication service\<close> keeps users, sessions, one-time codes,
  step-up tokens and identity profiles. The \<^emph>\<open>notification service\<close> consumes the events of the outbox.
  The \<^emph>\<open>API gateway\<close> is what clients reach: it checks access tokens, asks the transaction service for
  the risk of a payment, demands a second factor where that says so, and forwards. The services call each
  other over gRPC, and the internal routes of the authentication service over HTTP.
  The \<^emph>\<open>monitoring back end\<close> stands beside them: it has administrators with roles and permissions of its own,
  probes the services, the nodes of the ledger network, the wallet database and its host, keeps snapshots of
  what it sees, raises alerts, shows ends of logs and the view of the anti-money-laundering service, and logs
  what administrators do. Its \<^emph>\<open>web client\<close> shows all of that.

  \<^bold>\<open>Theories.\<close>
  \<^item> \<^verbatim>\<open>Kufi_Prelude\<close>: errors as sums, request handlers (state transformers that keep what was
    committed when they fail), units of work that roll back, tables as lists of rows, and the shared
    interfaces as locales: \<open>invariant_system\<close> (reachable states), \<open>lease_queue\<close> (rows claimed for a
    time), \<open>backoff_policy\<close> (capped doubling with jitter).
  \<^item> \<^verbatim>\<open>JS_Values\<close>, \<^verbatim>\<open>JS_Json\<close>, \<^verbatim>\<open>JS_Text\<close>: the strings, doubles, JSON and
    text functions of JavaScript that the code uses.
  \<^item> \<^verbatim>\<open>Tx_Entities\<close>, \<^verbatim>\<open>Tx_Validation\<close>, \<^verbatim>\<open>Tx_Outbox\<close>, \<^verbatim>\<open>Tx_Env\<close>,
    \<^verbatim>\<open>Tx_Chain\<close>, \<^verbatim>\<open>Tx_Service\<close>, \<^verbatim>\<open>Tx_Grpc\<close>: the transaction service. The
    record \<open>db\<close> is its database; each method of \<^verbatim>\<open>transactions.service.ts\<close> is a handler with
    the same name, and each database transaction in it is one \<open>atomic\<close> unit. Between two units other
    requests may change the store (\<open>e_others\<close>), so a statement about a handler holds under every
    interleaving. \<^verbatim>\<open>Tx_Ledger\<close>, \<^verbatim>\<open>Tx_Books\<close>, \<^verbatim>\<open>Tx_System\<close>,
    \<^verbatim>\<open>Tx_Props\<close>: the invariant of the books, the step relation \<open>ledger_step\<close> whose steps are
    the committed units, and the properties of money.
  \<^item> \<^verbatim>\<open>Partner_Config\<close>, \<^verbatim>\<open>Partner_Api\<close>, \<^verbatim>\<open>Outside_Payment\<close>: the
    outside-payment service (\<^verbatim>\<open>transfers.service.ts\<close>): configuration, payloads, signatures and
    replies per partner, and the two requests over the table \<open>ext_db\<close> with the step relation \<open>ext_step\<close>.
  \<^item> \<^verbatim>\<open>Settlement\<close>: the settlement service over both stores at once (\<open>world\<close>). The candidates
    of a chunk run concurrently; a schedule says whose next call is made, and every statement holds for
    all schedules. The locales \<open>settlement_world\<close> and \<open>settlement_record\<close> state what the cycle needs of
    the two services and are interpreted on their models.
  \<^item> \<^verbatim>\<open>Chain_Adapter\<close>: the chain service (\<^verbatim>\<open>chain.adapter.service.ts\<close>), and
    \<open>adapter_client\<close>, which makes it the chain client of the transaction service.
  \<^item> \<^verbatim>\<open>Ato_Risk\<close>: the risk assessment of the transaction service
    (\<^verbatim>\<open>ato-risk.service.ts\<close>) with its cache of statistics (\<open>risk_state\<close>).
  \<^item> \<^verbatim>\<open>Auth_Users\<close>, \<^verbatim>\<open>Auth_Sessions\<close>, \<^verbatim>\<open>Auth_Otp\<close>: the authentication
    service over its tables \<open>auth_db\<close>: users, PINs and recipients; logins, refresh and logout; one-time
    codes, step-up tokens, QR tokens and identity data.
  \<^item> \<^verbatim>\<open>Notifications\<close>: the notification service over \<open>note_world\<close>.
  \<^item> \<^verbatim>\<open>Gateway\<close>, \<^verbatim>\<open>Gateway_Auth\<close>: the API gateway. What it calls are the fields of the
    record \<open>gateway\<close>, handlers on a world of which it knows nothing else; \<open>serve\<close> answers a request of
    the data type \<open>route\<close>. \<^verbatim>\<open>Gateway_Props\<close> has the locale \<open>gateway_world\<close>, the contract of the
    services as a relation that every call of the gateway stays within.
  \<^item> \<^verbatim>\<open>Kufi_System\<close>: the gateway in front of the models of the transaction, authentication and
    notification services (\<open>kufi_gateway\<close>, on \<open>kufi_world\<close>); calls may be lost on the way there or back.
    \<^verbatim>\<open>Kufi_Props\<close> and \<^verbatim>\<open>Own_Money\<close> interpret the contract there, once with steps of the
    ledger and once with balances that are not lowered.
  \<^item> \<^verbatim>\<open>Monitor_Admin\<close>: accounts of the monitoring back end over \<open>admin_db\<close>
    (\<^verbatim>\<open>auth.service.ts\<close>, \<^verbatim>\<open>admin.service.ts\<close>), seeding at the start, the guards of tokens
    and permissions, the audit log; other requests may run at each await (\<open>mo_others\<close>).
  \<^item> \<^verbatim>\<open>Monitor_Probe\<close>: the observers of the ledger network, the wallet database, the host and the
    services; what they ask is in the record \<open>probe_env\<close>. \<^verbatim>\<open>Monitoring\<close>: alerts, status, the cached
    overview, snapshots and series (\<^verbatim>\<open>monitoring.service.ts\<close>) over \<open>mon_state\<close>; a collection is
    split at its awaits, and \<open>mon_step\<close> interleaves the parts. \<^verbatim>\<open>Monitor_Logs\<close>: log sources and
    the view of the AML service.
  \<^item> \<^verbatim>\<open>Monitor_Api\<close>: all routes of the monitoring back end (\<open>mon_serve\<close>) behind the guards and inside
    the interceptor; \<open>world_step\<close> has requests and restarts as steps.
  \<^item> \<^verbatim>\<open>Monitor_Client\<close>: the calls of the web client (\<^verbatim>\<open>web/src/api.ts\<close>), the paths of the
    controllers that answer them (\<open>dispatch_call\<close>), the client in front of the back end (\<open>web_send\<close>).
    \<^verbatim>\<open>Monitor_Web\<close>: the dashboard and the session of \<^verbatim>\<open>App.tsx\<close> as state machines
    (\<open>web_step\<close>, \<open>app_step\<close>) in which answers arrive in any order. \<^verbatim>\<open>Monitor_Views\<close>: what the pages
    compute.
  \<^item> This theory: what holds across the chain service and the transaction service.

  \<^bold>\<open>What is shown.\<close> Of the money: in every reachable store each balance is non-negative and the sum of
  its ledger entries, the balances of a currency add up to what came in less what went out, every
  transaction is booked at most once, a transfer moves its amount between two wallets, a refund
  restores balances once, a deposit is credited once, reconciliation finds nothing. Of requests: they
  refine the step relation, repeated requests are answered without effect, refused ones leave the store
  alone. Of the outbox and the chain worker: life cycles, disjoint claims, progress under a working
  broker or chain, exact retry limits and bounds of the delays. Of the outside-payment service: one
  submission per transaction, final states, the settling time of the mock partner, the effect of
  outages, signatures that verify and do not depend on the order of keys. Of the settlement cycle: it
  consists of steps of the two services, counts every candidate once, and counts as settled or failed
  only what was recorded so. Of the chain service: anchored means a validated and complete receipt
  (and so for a transaction, end to end), a required quorum is a majority, signed receipts verify,
  the canonical text is independent of the order of properties, retries are bounded. Of the
  authentication service: used refresh tokens stay refused under every interleaving of sequential
  requests (and overlapping ones may both succeed), codes are accepted once, QR tokens resolve only when
  signed, step-up tokens are granted without proof, the clean-up changes no answer. Of the risk
  assessment: what escapes the second factor, and a bounded cache. Of notifications: who is told what, and
  that mails need consent. Of the gateway with the services: requests move the ledger by its steps only,
  lower no balance but those of the signed-in user, show a transaction to its parties only, and pay
  without a second factor only if the risk assessment allows it, a token of the user backs it, or the
  client claims a face check in a header; which amounts are shown as they are. Of the monitoring back end:
  routes refuse what is not authorised, only managers change accounts, accounts and audit log stay in order
  over requests and restarts, every change is logged once and without secrets, new administrators can log
  in, a restart changes nothing, a login can undo a deactivation; the status is critical exactly on the
  stated conditions, one collection runs at a time, the cache can go back in time, series and ends of logs
  are bounded, lists of endpoints and paths of health sources are read back as written. Of the web client:
  its calls reach their routes, which offered pages work, the newest overview wins, what is shown belongs to
  what is selected (but for one button), the storage follows the session.

  \<^bold>\<open>Bounds and fuel.\<close> The JSON parser has fuel twice the length of its text and two, enough since of two
  nested calls one consumes a character. The decimal exponent of a double is searched in at most 400
  steps, the range of doubles. Delays are computed in exact rationals. Whole-number arithmetic rounds
  to 53 bits; the invariants of the books hold as long as no balance leaves the safe integers
  (\<open>balances_safe\<close>). Strings hold code units up to 255.

  \<^bold>\<open>Not modelled.\<close> In the modelled services: the syntax check of uuids, \<open>skip_locked\<close> (a claim sees all
  rows), the columns updatedAt, the time that passes within one request (the clock is constant), the
  order of integer-like keys and inherited properties of objects, the repair of balances by
  \<open>reconcileWallets\<close> with autoFix as a step of the books, the key files of the chain service and the
  internals of its time-stamping authority, reading an identity profile, the HTML of mails, the checks of
  request bodies by the framework, timers and cron triggers. In the monitoring back end: the syntax check of uuids in paths,
  inherited properties in names of metrics, values that JSON cannot hold in stored snapshots, log files
  with other than ASCII characters, the timers themselves; the URL parser, the host's readings and the locale are parameters. Whole components: the
  risk engine of the gateway, which nothing calls; the markup, texts
  and formats of the web client and the mobile client (user interface); the ledger network in Go and the risk services in Python (other languages, reached through
  parameters of the model); modules and bootstrap (wiring).
  Third-party code, the database, Kafka, HTTP clients, hash and signature functions and the locale's
  string order are parameters.
\<close>

section \<open>The ledger network behind the transaction service\<close>

lemma adapter_anchored:
  assumes "chain_answer res = Inr r" and "js_upper (js_trim (ar_chainStatus r)) = ''ANCHORED''"
  shows "\<exists>a. res = Inr a \<and> an_chainStatus a = AN_ANCHORED \<and> ar_txId r = an_txId a"
proof -
  obtain a where a: "res = Inr a" "r = \<lparr>ar_chainStatus = anchor_text (an_chainStatus a), ar_txId = an_txId a,
      ar_blockNumber = js_int (an_blockNumber a), ar_commitmentHash = an_commitmentHash a, ar_receiptJson = an_receiptJson a\<rparr>"
    using assms(1) by (cases res) (auto simp add: chain_answer_def)
  have "js_upper (js_trim (anchor_text AN_PENDING)) \<noteq> ''ANCHORED''" "js_upper (js_trim (anchor_text AN_FAILED)) \<noteq> ''ANCHORED''"
    by code_simp+
  then have "an_chainStatus a = AN_ANCHORED" using assms(2) a(2) by (cases "an_chainStatus a") auto
  then show ?thesis using a by simp
qed

lemma settled_anchored:
  assumes "tx_chainStatus (settle_answer env answer tx) = CH_ANCHORED"
  shows "\<exists>r. answer = Inr r \<and> js_upper (js_trim (ar_chainStatus r)) = ''ANCHORED'' \<and>
    (ar_txId r \<noteq> [] \<longrightarrow> tx_chainTxId (settle_answer env answer tx) = Some (ar_txId r))"
  using assms
  by (cases answer)
    (auto simp add: settle_answer_def applyChainResult_def markChainPending_def Let_def or_opt_def
      reconcileBusinessStatusAfterChainUpdate_def split: if_splits)

lemma round_anchored:
  "tx_chainStatus (chain_round env chain tx) = CH_ANCHORED \<Longrightarrow>
   tx_chainStatus (settle_answer env (chain_call env chain tx) tx) = CH_ANCHORED \<and>
   tx_chainTxId (chain_round env chain tx) = tx_chainTxId (settle_answer env (chain_call env chain tx) tx)"
  by (auto simp add: chain_round_def give_up_chain_def reconcileBusinessStatusAfterChainUpdate_def split: if_splits)

lemma call_proven:
  assumes "chain_call env (adapter_client cenv) tx = Inr r" and "js_upper (js_trim (ar_chainStatus r)) = ''ANCHORED''"
  shows "\<exists>a body. ar_txId r = an_txId a \<and> proven_by body a \<and>
    ((\<exists>m \<le> 2. ch_post cenv m (anchor_payload cenv (anchor_data_of (anchor_request_of env tx))
         (chain_normalizeAmount (AmtInt64 (int64_of (tx_amount tx))))) = Inr body) \<or>
     (\<exists>path. ch_get cenv path = Inr body))"
proof (cases "js_trim (coalesce (tx_chainTxId tx) []) \<noteq> []")
  case True
  then have "chain_answer (getReceipt cenv (or_null (coalesce (tx_chainTxId tx) []))) = Inr r"
    using assms(1) by (simp add: chain_call_def callGetReceipt_def adapter_client_def)
  from adapter_anchored [OF this assms(2)] receipt_is_proven show ?thesis by metis
next
  case False
  let ?data = "anchor_data_of (anchor_request_of env tx)"
  have amount: "ad_amount ?data = AmtInt64 (int64_of (tx_amount tx))"
    by (simp add: anchor_data_of_def anchor_request_of_def)
  have "chain_answer (fst (anchorTransfer cenv ?data)) = Inr r"
    using False assms(1) by (simp add: chain_call_def callAnchorTransfer_def adapter_client_def)
  from adapter_anchored [OF this assms(2)] anchor_proven [of cenv ?data, unfolded amount] show ?thesis by metis
qed


definition answering_env :: chain_env where
  "answering_env = quiet_env\<lparr>ch_get := (\<lambda>_. Inr (JObject [(''receipt'', JObject sample_receipt)]))\<rparr>"

abbreviation posted_tx :: transaction where
  "posted_tx \<equiv> example_tx\<lparr>tx_chainTxId := Some ''t1''\<rparr>"


end
